(* ===== verification/Prelude.thy ===== *)
theory Prelude
  imports Main "HOL-Library.State_Monad"
begin

text \<open>
  What every component of the authgate model shares: errors as values, Go's clock arithmetic,
  SQL statements over lists of rows, and the small monad of Hoare triples with which invariants
  of the storage operations are proved compositionally.

  A Go function that may fail returns \<open>(x, err)\<close>; here it is an action whose result is
  \<open>err + 'a\<close>, \<^const>\<open>Inl\<close> for a non-nil error. An action is a \<open>('w, err + 'a) state\<close> of
  \<open>HOL-Library.State_Monad\<close>, so a body reads like the Go code: \<open>r \<leftarrow> query\<close> and then a case
  distinction on the error.
\<close>

section \<open>Named collections\<close>

named_theorems sql_defs \<open>definitions of the SQL statements of internal/db/storeq\<close>
named_theorems row_defs \<open>row predicates and row updates\<close>
named_theorems inv_intro \<open>introduction rules that show that an action keeps an invariant\<close>

section \<open>Errors\<close>

text \<open>
  The error values the code tells apart: driver errors (\<open>ErrDb\<close> is any failure of the
  connection or of a statement, the three violations those of a constraint of the schema), the sentinel errors of \<^verbatim>\<open>internal/storage\<close>, those of the provider library
  (\<open>OidcError type description parent\<close>, \<open>OpInvalidRefreshToken\<close>), and a nil dereference.
\<close>

datatype err =
    ErrDb
  | ErrNoRows
  | ErrTxDone
  | UniqueViolation string
  | ForeignKeyViolation string
  | CheckViolation string
  | ErrNotFound
  | ErrEmailConflict
  | ErrUserAccountClosed
  | ErrEncryptionNotConfigured
  | OpInvalidRefreshToken
  | DeadlineExceeded
  | OidcError string string "err option"
  | ErrMsg string
  | NilDeref

fun errIs :: "err \<Rightarrow> err \<Rightarrow> bool" where
  "errIs (OidcError t d (Some p)) target = (OidcError t d (Some p) = target \<or> errIs p target)"
| "errIs e target = (e = target)"

fun isOidcError :: "err \<Rightarrow> bool" where
  "isOidcError (OidcError _ _ _) = True"
| "isOidcError _ = False"

definition errInvalidGrant :: err where
  "errInvalidGrant = OidcError ''invalid_grant'' '''' None"

definition errInvalidScope :: err where
  "errInvalidScope = OidcError ''invalid_scope'' '''' None"

definition oidcErr :: "string \<Rightarrow> string \<Rightarrow> err" where
  "oidcErr t d = OidcError t d None"

definition errServerError :: "err \<Rightarrow> err" where
  "errServerError e = OidcError ''server_error'' '''' (Some e)"

section \<open>Time\<close>

text \<open>
  A \<^verbatim>\<open>time.Time\<close> is the number of nanoseconds since the zero time, a \<^verbatim>\<open>time.Duration\<close> a number
  of nanoseconds. \<^verbatim>\<open>Time.Sub\<close> saturates at the bounds of a 64-bit duration.
\<close>

type_synonym time = int
type_synonym duration = int

definition second :: duration where "second = 1000000000"
definition minute :: duration where "minute = 60 * second"
definition hour :: duration where "hour = 60 * minute"
definition day :: duration where "day = 24 * hour"

definition timeIsZero :: "time \<Rightarrow> bool" where "timeIsZero t \<longleftrightarrow> t = 0"

definition timeSub :: "time \<Rightarrow> time \<Rightarrow> duration" where
  "timeSub a b = max (- (2 ^ 63)) (min (2 ^ 63 - 1) (a - b))"

lemma second_pos [simp]: "0 < second"
  by (simp add: second_def)

lemma minute_pos [simp]: "0 < minute"
  by (simp add: minute_def second_def)

lemma hour_pos [simp]: "0 < hour"
  by (simp add: hour_def minute_def second_def)

lemma day_pos [simp]: "0 < day"
  by (simp add: day_def hour_def minute_def second_def)

lemma timeSub_le_iff: "0 \<le> g \<Longrightarrow> g < 2 ^ 63 - 1 \<Longrightarrow> timeSub a b \<le> g \<longleftrightarrow> a - b \<le> g"
  by (auto simp: timeSub_def min_def max_def)

section \<open>SQL statements over lists of rows\<close>

text \<open>
  A table is the list of its rows in insertion order. \<open>del_where\<close>, \<open>upd_where\<close> and
  \<open>count_where\<close> are DELETE, UPDATE and the number of rows a WHERE clause matches.
\<close>

definition del_where :: "('r \<Rightarrow> bool) \<Rightarrow> 'r list \<Rightarrow> 'r list" where
  "del_where P rs = filter (\<lambda>r. \<not> P r) rs"

definition upd_where :: "('r \<Rightarrow> bool) \<Rightarrow> ('r \<Rightarrow> 'r) \<Rightarrow> 'r list \<Rightarrow> 'r list" where
  "upd_where P f rs = map (\<lambda>r. if P r then f r else r) rs"

definition count_where :: "('r \<Rightarrow> bool) \<Rightarrow> 'r list \<Rightarrow> nat" where
  "count_where P rs = length (filter P rs)"

text \<open>A DELETE bounded by LIMIT removes the first \<open>n\<close> matching rows.\<close>

fun del_limit :: "nat \<Rightarrow> ('r \<Rightarrow> bool) \<Rightarrow> 'r list \<Rightarrow> 'r list" where
  "del_limit n P [] = []"
| "del_limit n P (r # rs) =
     (if P r then (case n of 0 \<Rightarrow> r # rs | Suc k \<Rightarrow> del_limit k P rs)
      else r # del_limit n P rs)"

text \<open>A \<^verbatim>\<open>:one\<close> query: the row, or \<^verbatim>\<open>sql.ErrNoRows\<close>.\<close>

definition one_row :: "('r \<Rightarrow> bool) \<Rightarrow> 'r list \<Rightarrow> err + 'r" where
  "one_row P rs = (case find P rs of None \<Rightarrow> Inl ErrNoRows | Some r \<Rightarrow> Inr r)"

lemma set_del_where [simp]: "set (del_where P rs) = {r \<in> set rs. \<not> P r}"
  by (auto simp: del_where_def)

lemma set_upd_where: "set (upd_where P f rs) = (\<lambda>r. if P r then f r else r) ` set rs"
  by (simp add: upd_where_def)

lemma upd_whereE:
  assumes "r \<in> set (upd_where P f rs)"
  obtains s where "s \<in> set rs" "P s" "r = f s" | "r \<in> set rs" "\<not> P r"
  using assms by (auto simp: upd_where_def split: if_splits)

lemma ball_upd_where:
  "(\<forall>r \<in> set (upd_where P f rs). Q r) \<longleftrightarrow> (\<forall>s \<in> set rs. if P s then Q (f s) else Q s)"
  by (auto simp: upd_where_def)

lemma length_upd_where [simp]: "length (upd_where P f rs) = length rs"
  by (simp add: upd_where_def)

lemma map_upd_where [simp]:
  "(\<And>r. g (f r) = g r) \<Longrightarrow> map g (upd_where P f rs) = map g rs"
  by (simp add: upd_where_def)

lemma image_upd_where [simp]:
  "(\<And>r. g (f r) = g r) \<Longrightarrow> g ` set (upd_where P f rs) = g ` set rs"
  by (metis list.set_map map_upd_where)

lemma list_ex_key: "list_ex (\<lambda>r. g r = x) rs \<longleftrightarrow> x \<in> g ` set rs"
  by (auto simp: list_ex_iff)

lemma distinct_map_del_where [intro]: "distinct (map g rs) \<Longrightarrow> distinct (map g (del_where P rs))"
  by (simp add: del_where_def distinct_map_filter)

lemma upd_where_append [simp]: "upd_where P f (xs @ ys) = upd_where P f xs @ upd_where P f ys"
  by (simp add: upd_where_def)

lemma upd_where_no_match: "\<forall>r \<in> set rs. \<not> P r \<Longrightarrow> upd_where P f rs = rs"
  by (simp add: upd_where_def map_idI)

lemma count_where_eq_0_iff: "count_where P rs = 0 \<longleftrightarrow> (\<forall>r \<in> set rs. \<not> P r)"
  by (auto simp: count_where_def filter_empty_conv)

lemma count_where_append [simp]: "count_where P (xs @ ys) = count_where P xs + count_where P ys"
  by (simp add: count_where_def)

lemma count_where_Nil [simp]: "count_where P [] = 0"
  by (simp add: count_where_def)

lemma count_where_Cons [simp]:
  "count_where P (r # rs) = (if P r then Suc (count_where P rs) else count_where P rs)"
  by (simp add: count_where_def)

lemma count_where_upd [simp]:
  "(\<And>r. Q (f r) = Q r) \<Longrightarrow> count_where Q (upd_where P f rs) = count_where Q rs"
  by (induction rs) (auto simp: count_where_def upd_where_def)

lemma count_where_del_le: "count_where Q (del_where P rs) \<le> count_where Q rs"
  by (induction rs) (auto simp: count_where_def del_where_def)

lemma count_where_cong:
  "(\<And>r. r \<in> set rs \<Longrightarrow> P r \<longleftrightarrow> Q r) \<Longrightarrow> count_where P rs = count_where Q rs"
  by (induction rs) auto

lemma find_upd_where:
  assumes "\<And>r. Q (f r) = Q r"
  shows "find Q (upd_where P f rs) = map_option (\<lambda>r. if P r then f r else r) (find Q rs)"
  by (induction rs) (auto simp: upd_where_def assms)

lemma find_SomeD: "find P rs = Some r \<Longrightarrow> r \<in> set rs \<and> P r"
  by (induction rs) (auto split: if_splits)

lemma one_row_Inr: "one_row P rs = Inr r \<Longrightarrow> r \<in> set rs \<and> P r"
  by (auto simp: one_row_def split: option.splits dest: find_SomeD)

lemma one_row_Inl: "one_row P rs = Inl e \<Longrightarrow> e = ErrNoRows \<and> (\<forall>r \<in> set rs. \<not> P r)"
  by (auto simp: one_row_def find_None_iff split: option.splits)

lemma find_unique:
  assumes "distinct (map g rs)" "r \<in> set rs" "P r" and key: "\<And>s. P s \<Longrightarrow> g s = g r"
  shows "find P rs = Some r"
  using assms(1-3)
proof (induction rs)
  case (Cons a rs)
  show ?case
  proof (cases "P a")
    case True
    then have "g a = g r" by (rule key)
    with Cons.prems have "a = r" by (auto simp: image_iff)
    with True show ?thesis by simp
  next
    case False
    with Cons.prems have "r \<in> set rs" by auto
    with Cons False show ?thesis by simp
  qed
qed simp

lemma one_row_unique:
  assumes "distinct (map g rs)" "r \<in> set rs" "P r" and key: "\<And>s. P s \<Longrightarrow> g s = g r"
  shows "one_row P rs = Inr r"
proof -
  from assms(1-3) have "find P rs = Some r" by (rule find_unique) (rule key)
  then show ?thesis by (simp add: one_row_def)
qed

lemma count_where_unique:
  assumes "distinct (map g rs)" "r \<in> set rs" "P r" and key: "\<And>s. P s \<Longrightarrow> g s = g r"
  shows "count_where P rs = 1"
  using assms(1-3)
proof (induction rs)
  case (Cons a rs)
  show ?case
  proof (cases "a = r")
    case True
    with Cons.prems have "g r \<notin> g ` set rs" by simp
    then have "\<forall>s \<in> set rs. \<not> P s" using key by (metis image_eqI)
    then have "count_where P rs = 0" by (simp add: count_where_eq_0_iff)
    with True Cons.prems show ?thesis by simp
  next
    case False
    with Cons.prems have "r \<in> set rs" by simp
    with Cons.prems have "\<not> P a" using key [of a] by (auto simp: image_iff)
    with \<open>r \<in> set rs\<close> Cons show ?thesis by simp
  qed
qed simp

lemma del_limit_subset: "set (del_limit n P rs) \<subseteq> set rs"
  by (induction n P rs rule: del_limit.induct) (auto split: nat.splits)

lemma del_limit_keeps: "r \<in> set rs \<Longrightarrow> \<not> P r \<Longrightarrow> r \<in> set (del_limit n P rs)"
  by (induction n P rs rule: del_limit.induct) (auto split: nat.splits)

lemma count_del_limit: "count_where P (del_limit n P rs) = count_where P rs - n"
  by (induction n P rs rule: del_limit.induct) (auto split: nat.splits)

lemma del_limit_all: "count_where P rs \<le> n \<Longrightarrow> del_limit n P rs = del_where P rs"
proof (induction n P rs rule: del_limit.induct)
  case (1 n P)
  then show ?case by (simp add: del_where_def)
next
  case (2 n P r rs)
  then show ?case by (cases n) (auto simp: del_where_def)
qed

lemma del_limit_del_where: "del_where P (del_limit n P rs) = del_where P rs"
  by (induction n P rs rule: del_limit.induct) (auto simp: del_where_def split: nat.splits)

section \<open>Triples over state actions\<close>

text \<open>
  \<open>triple P m Q\<close>: from every state satisfying \<open>P\<close> the action \<open>m\<close> ends with a result and a state
  satisfying \<open>Q\<close>. \<open>keeps I m\<close> is the case of an invariant. The rules below follow the shape of
  the code, so that an operation is shown to keep an invariant by one call of \<open>auto intro!:\<close>.
\<close>

definition triple :: "('w \<Rightarrow> bool) \<Rightarrow> ('w, 'a) state \<Rightarrow> ('a \<Rightarrow> 'w \<Rightarrow> bool) \<Rightarrow> bool" where
  "triple P m Q \<longleftrightarrow> (\<forall>w. P w \<longrightarrow> (case run_state m w of (a, w') \<Rightarrow> Q a w'))"

definition keeps :: "('w \<Rightarrow> bool) \<Rightarrow> ('w, 'a) state \<Rightarrow> bool" where
  "keeps I m \<longleftrightarrow> triple I m (\<lambda>_. I)"

lemma tripleI: "(\<And>w a w'. P w \<Longrightarrow> run_state m w = (a, w') \<Longrightarrow> Q a w') \<Longrightarrow> triple P m Q"
  by (auto simp: triple_def split: prod.splits)

lemma tripleD: "triple P m Q \<Longrightarrow> P w \<Longrightarrow> run_state m w = (a, w') \<Longrightarrow> Q a w'"
  by (fastforce simp: triple_def)

lemma triple_return: "(\<And>w. P w \<Longrightarrow> Q x w) \<Longrightarrow> triple P (State_Monad.return x) Q"
  by (simp add: triple_def)

lemma triple_bind:
  "triple P m R \<Longrightarrow> (\<And>a. triple (R a) (f a) Q) \<Longrightarrow> triple P (State_Monad.bind m f) Q"
  by (fastforce simp: triple_def split: prod.splits)

lemma triple_weaken:
  "triple P m Q \<Longrightarrow> (\<And>w. P' w \<Longrightarrow> P w) \<Longrightarrow> (\<And>a w. Q a w \<Longrightarrow> Q' a w) \<Longrightarrow> triple P' m Q'"
  by (fastforce simp: triple_def)

lemma keepsI: "(\<And>w a w'. I w \<Longrightarrow> run_state m w = (a, w') \<Longrightarrow> I w') \<Longrightarrow> keeps I m"
  by (auto simp: keeps_def intro: tripleI)

lemma keepsD: "keeps I m \<Longrightarrow> I w \<Longrightarrow> run_state m w = (a, w') \<Longrightarrow> I w'"
  by (auto simp: keeps_def dest: tripleD)

lemma keeps_snd: "keeps I m \<Longrightarrow> I w \<Longrightarrow> I (snd (run_state m w))"
  by (metis keepsD prod.collapse)

lemma keeps_return [inv_intro]: "keeps I (State_Monad.return x)"
  by (simp add: keeps_def triple_return)

lemma keeps_bind [inv_intro]:
  "keeps I m \<Longrightarrow> (\<And>a. keeps I (f a)) \<Longrightarrow> keeps I (State_Monad.bind m f)"
  by (auto simp: keeps_def intro: triple_bind)

lemma keeps_get [inv_intro]: "keeps I State_Monad.get"
  by (rule keepsI) simp

lemma keeps_if [inv_intro]: "(b \<Longrightarrow> keeps I m) \<Longrightarrow> (\<not> b \<Longrightarrow> keeps I n) \<Longrightarrow> keeps I (if b then m else n)"
  by simp

lemma keeps_case_sum [inv_intro]:
  "(\<And>e. r = Inl e \<Longrightarrow> keeps I (f e)) \<Longrightarrow> (\<And>x. r = Inr x \<Longrightarrow> keeps I (g x)) \<Longrightarrow>
   keeps I (case r of Inl e \<Rightarrow> f e | Inr x \<Rightarrow> g x)"
  by (cases r) auto

lemma keeps_case_option [inv_intro]:
  "(r = None \<Longrightarrow> keeps I f) \<Longrightarrow> (\<And>x. r = Some x \<Longrightarrow> keeps I (g x)) \<Longrightarrow>
   keeps I (case r of None \<Rightarrow> f | Some x \<Rightarrow> g x)"
  by (cases r) auto

lemma keeps_case_prod [inv_intro]:
  "(\<And>x y. r = (x, y) \<Longrightarrow> keeps I (f x y)) \<Longrightarrow> keeps I (case r of (x, y) \<Rightarrow> f x y)"
  by (cases r) auto

lemma keeps_let [inv_intro]: "(\<And>x. x = v \<Longrightarrow> keeps I (f x)) \<Longrightarrow> keeps I (let x = v in f x)"
  by simp

section \<open>Go strings\<close>

text \<open>
  A Go string is a sequence of bytes, here a \<open>char\<close> list. \<open>goTrimSpace\<close> removes the ASCII white
  space \<^verbatim>\<open>strings.TrimSpace\<close> removes; the code applies it to configuration values, resource
  indicators and addresses, and its non-ASCII white space is not modelled.
\<close>

definition isGoSpace :: "char \<Rightarrow> bool" where
  "isGoSpace c \<longleftrightarrow> c = CHR '' '' \<or> c = CHR 0x09 \<or> c = CHR 0x0A \<or> c = CHR 0x0B \<or> c = CHR 0x0C \<or> c = CHR 0x0D"

definition goTrimSpace :: "string \<Rightarrow> string" where
  "goTrimSpace s = rev (dropWhile isGoSpace (rev (dropWhile isGoSpace s)))"

definition goHasPrefix :: "string \<Rightarrow> string \<Rightarrow> bool" where
  "goHasPrefix s p \<longleftrightarrow> take (length p) s = p"

definition goHasSuffix :: "string \<Rightarrow> string \<Rightarrow> bool" where
  "goHasSuffix s p \<longleftrightarrow> length p \<le> length s \<and> drop (length s - length p) s = p"

definition goTrimPrefix :: "string \<Rightarrow> string \<Rightarrow> string" where
  "goTrimPrefix s p = (if goHasPrefix s p then drop (length p) s else s)"

lemma goHasPrefix_append [simp]: "goHasPrefix (p @ s) p"
  by (simp add: goHasPrefix_def)

lemma goHasPrefix_iff: "goHasPrefix s p \<longleftrightarrow> (\<exists>t. s = p @ t)"
  by (metis append_eq_conv_conj append_take_drop_id goHasPrefix_def)

lemma goHasSuffix_iff: "goHasSuffix s p \<longleftrightarrow> (\<exists>t. s = t @ p)"
proof
  assume "goHasSuffix s p"
  then have "s = take (length s - length p) s @ p"
    by (metis append_take_drop_id goHasSuffix_def)
  then show "\<exists>t. s = t @ p" by blast
qed (auto simp: goHasSuffix_def)

end
