(* ===== verification/Client_Access.thy ===== *)
theory Client_Access
  imports Prelude
begin

text \<open>
  The client access policy: \<^verbatim>\<open>internal/domainname\<close> (which strings are DNS names) and
  \<^verbatim>\<open>internal/clientaccess\<close> (which accounts may use a client). Both packages are pure. The lemmas
  show that the label-counting loop of \<^verbatim>\<open>domainname.Valid\<close> decides the label-wise definition of a
  DNS name, that a compiled policy is well formed, and exactly which subjects a policy admits.
  Error messages are abbreviated; which check fails is kept.
\<close>

section \<open>DNS names\<close>

definition isLower :: "char \<Rightarrow> bool" where
  "isLower c \<longleftrightarrow> (97::nat) \<le> of_char c \<and> of_char c \<le> (122::nat)"

definition isUpper :: "char \<Rightarrow> bool" where
  "isUpper c \<longleftrightarrow> (65::nat) \<le> of_char c \<and> of_char c \<le> (90::nat)"

definition isDigit :: "char \<Rightarrow> bool" where
  "isDigit c \<longleftrightarrow> (48::nat) \<le> of_char c \<and> of_char c \<le> (57::nat)"

definition isAlnum :: "char \<Rightarrow> bool" where
  "isAlnum c \<longleftrightarrow> isLower c \<or> isUpper c \<or> isDigit c"

text \<open>
  The loop of \<^verbatim>\<open>Valid\<close>: \<open>label\<close> is the length of the current label, \<open>prev\<close> the byte before the
  current one (the code reads \<^verbatim>\<open>name[i-1]\<close> only once a label has begun).
\<close>

fun validLoop :: "nat \<Rightarrow> char \<Rightarrow> string \<Rightarrow> bool" where
  "validLoop label prev [] = (label > 0 \<and> prev \<noteq> CHR ''-'')"
| "validLoop label prev (c # cs) =
     (if c = CHR ''.'' then
        (if label = 0 \<or> prev = CHR ''-'' then False else validLoop 0 c cs)
      else if c = CHR ''-'' then
        (if label = 0 then False
         else if label + 1 > 63 then False else validLoop (label + 1) c cs)
      else if isAlnum c then
        (if label + 1 > 63 then False else validLoop (label + 1) c cs)
      else False)"

definition Valid :: "string \<Rightarrow> bool" where
  "Valid name = (if name = [] \<or> length name > 253 then False else validLoop 0 CHR 0x00 name)"

text \<open>The reference: dot-separated labels of letters, digits and inner hyphens.\<close>

fun splitDots :: "string \<Rightarrow> string list" where
  "splitDots [] = [[]]"
| "splitDots (c # cs) =
     (if c = CHR ''.'' then [] # splitDots cs
      else (case splitDots cs of [] \<Rightarrow> [[c]] | l # ls \<Rightarrow> (c # l) # ls))"

definition validLabel :: "string \<Rightarrow> bool" where
  "validLabel l \<longleftrightarrow> l \<noteq> [] \<and> length l \<le> 63 \<and> (\<forall>c \<in> set l. isAlnum c \<or> c = CHR ''-'')
     \<and> hd l \<noteq> CHR ''-'' \<and> last l \<noteq> CHR ''-''"

definition validName :: "string \<Rightarrow> bool" where
  "validName name \<longleftrightarrow> length name \<le> 253 \<and> (\<forall>l \<in> set (splitDots name). validLabel l)"

section \<open>Case folding and the domain of an address\<close>

definition lowerChar :: "char \<Rightarrow> char" where
  "lowerChar c = (if isUpper c then char_of (of_char c + (32::nat)) else c)"

fun asciiLower :: "string \<Rightarrow> string" where
  "asciiLower [] = []"
| "asciiLower (c # cs) = (if isUpper c then map lowerChar (c # cs) else c # asciiLower cs)"

definition EmailDomain :: "string \<Rightarrow> string" where
  "EmailDomain email =
     (if CHR ''@'' \<notin> set email then ''''
      else (let domain = rev (takeWhile (\<lambda>c. c \<noteq> CHR ''@'') (rev email))
            in if \<not> Valid domain then '''' else asciiLower domain))"

section \<open>Normalization of configuration entries\<close>

definition normalizeDomain :: "string \<Rightarrow> bool \<Rightarrow> err + string" where
  "normalizeDomain entry allowWildcard =
     (let d0 = asciiLower (goTrimSpace entry);
          d = goTrimPrefix d0 ''@''
      in if d = '''' then Inl (ErrMsg ''entry is empty'')
         else (let wildcard = goHasPrefix d ''*.''
         in if wildcard \<and> \<not> allowWildcard then Inl (ErrMsg ''wildcards are not allowed here'')
         else (let base = goTrimPrefix d ''*.''
         in if CHR ''*'' \<in> set base then Inl (ErrMsg ''* is only allowed as a leading label'')
         else if goHasPrefix base ''.'' then Inl (ErrMsg ''must not start with a dot'')
         else if list_ex (\<lambda>c. c = CHR ''@'' \<or> c = CHR '' '' \<or> c = CHR 0x09) base
           then Inl (ErrMsg ''must be a bare domain'')
         else if \<not> Valid base then Inl (ErrMsg ''not a valid domain'')
         else if CHR ''.'' \<notin> set base then Inl (ErrMsg ''has no dot'')
         else if wildcard then Inr (CHR ''.'' # base)
         else Inr base)))"

definition normalizeEmail :: "string \<Rightarrow> err + string" where
  "normalizeEmail entry =
     (let e = asciiLower (goTrimSpace entry)
      in if count_list e CHR ''@'' \<noteq> 1 then Inl (ErrMsg ''must be a single address'')
         else (let local = takeWhile (\<lambda>c. c \<noteq> CHR ''@'') e;
                   domain = tl (dropWhile (\<lambda>c. c \<noteq> CHR ''@'') e)
         in if local = '''' \<or> list_ex (\<lambda>c. c = CHR '' '' \<or> c = CHR 0x09 \<or> c = CHR 0x0D \<or> c = CHR 0x0A) local
              then Inl (ErrMsg ''must be a single address'')
         else if \<not> Valid domain \<or> CHR ''.'' \<notin> set domain then Inl (ErrMsg ''does not have a valid domain'')
         else Inr e))"

section \<open>Policies\<close>

record Rules =
  GoogleWorkspaceDomains :: "string list"
  EmailDomains :: "string list"
  Emails :: "string list"

record DenyRules =
  DenyEmails :: "string list"

text \<open>The sets \<^verbatim>\<open>map[string]struct{}\<close> are sets; \<open>emailDomains\<close> keeps its order.\<close>

record Policy =
  public :: bool
  hostedDomains :: "string set"
  emailDomains :: "string list"
  emails :: "string set"
  denyEmails :: "string set"

definition Public :: Policy where
  "Public = \<lparr>public = True, hostedDomains = {}, emailDomains = [], emails = {}, denyEmails = {}\<rparr>"

fun normalizeAll :: "(string \<Rightarrow> err + string) \<Rightarrow> string list \<Rightarrow> err + string list" where
  "normalizeAll f [] = Inr []"
| "normalizeAll f (e # es) =
     (case f e of Inl x \<Rightarrow> Inl x
      | Inr d \<Rightarrow> (case normalizeAll f es of Inl x \<Rightarrow> Inl x | Inr ds \<Rightarrow> Inr (d # ds)))"

text \<open>The \<open>seen\<close> loop of \<^verbatim>\<open>New\<close>: each domain once, in order of first occurrence.\<close>

fun firstOccurrences :: "string list \<Rightarrow> string list \<Rightarrow> string list" where
  "firstOccurrences seen [] = []"
| "firstOccurrences seen (d # ds) =
     (if d \<in> set seen then firstOccurrences seen ds else d # firstOccurrences (d # seen) ds)"

definition New :: "Rules \<Rightarrow> DenyRules \<Rightarrow> err + Policy" where
  "New allow deny =
     (case normalizeAll (\<lambda>e. normalizeDomain e False) (GoogleWorkspaceDomains allow) of
        Inl x \<Rightarrow> Inl x
      | Inr hds \<Rightarrow>
     (case normalizeAll (\<lambda>e. normalizeDomain e True) (EmailDomains allow) of
        Inl x \<Rightarrow> Inl x
      | Inr eds \<Rightarrow>
     (case normalizeAll normalizeEmail (Emails allow) of
        Inl x \<Rightarrow> Inl x
      | Inr ems \<Rightarrow>
     (case normalizeAll normalizeEmail (DenyEmails deny) of
        Inl x \<Rightarrow> Inl x
      | Inr dens \<Rightarrow>
     (if set hds = {} \<and> firstOccurrences [] eds = [] \<and> set ems = {}
      then Inl (ErrMsg ''allow must list at least one entry'')
      else Inr \<lparr>public = False, hostedDomains = set hds, emailDomains = firstOccurrences [] eds,
                emails = set ems, denyEmails = set dens\<rparr>)))))"

text \<open>A nil policy is \<^const>\<open>None\<close>.\<close>

definition Restricted :: "Policy option \<Rightarrow> bool" where
  "Restricted p = (case p of None \<Rightarrow> False | Some q \<Rightarrow> \<not> public q)"

section \<open>Evaluation\<close>

record Subject =
  Email :: string
  EmailVerified :: bool
  HostedDomain :: string

datatype Decision = Allow | Refuse string

definition ReasonDenyListed :: string where "ReasonDenyListed = ''deny_listed''"
definition ReasonNotAllowed :: string where "ReasonNotAllowed = ''not_allowed''"
definition ReasonEmailUnverified :: string where "ReasonEmailUnverified = ''email_unverified''"

fun matchesDomain :: "string list \<Rightarrow> string \<Rightarrow> bool" where
  "matchesDomain [] domain = False"
| "matchesDomain (d # ds) domain =
     (if take 1 d = ''.''
      then (if goHasSuffix domain d then True else matchesDomain ds domain)
      else if d = domain then True else matchesDomain ds domain)"

definition matchesEmail :: "Policy \<Rightarrow> string \<Rightarrow> bool" where
  "matchesEmail p email =
     (if email \<in> emails p then True
      else (let domain = EmailDomain email
            in if domain = '''' then False else matchesDomain (emailDomains p) domain))"

definition Evaluate :: "Policy option \<Rightarrow> Subject \<Rightarrow> Decision" where
  "Evaluate po s =
     (if \<not> Restricted po then Allow
      else (case po of None \<Rightarrow> Allow | Some p \<Rightarrow>
        (let email = asciiLower (Email s);
             hd = asciiLower (HostedDomain s)
         in if email \<in> denyEmails p then Refuse ReasonDenyListed
            else if hd \<noteq> '''' \<and> hd \<in> hostedDomains p then Allow
            else if \<not> matchesEmail p email then Refuse ReasonNotAllowed
            else if \<not> EmailVerified s then Refuse ReasonEmailUnverified
            else Allow)))"

section \<open>Lemmas: DNS names\<close>

lemma splitDots_not_Nil [simp]: "splitDots s \<noteq> []"
  by (induction s) (auto split: list.splits)

text \<open>The invariant of the loop: it decides whether the open label and the later ones are valid.\<close>

lemma validLoop_labels:
  assumes "\<forall>c \<in> set pre. isAlnum c \<or> c = CHR ''-''" "length pre \<le> 63"
    and "pre \<noteq> [] \<longrightarrow> hd pre \<noteq> CHR ''-'' \<and> prev = last pre"
  shows "validLoop (length pre) prev cs \<longleftrightarrow>
           validLabel (pre @ hd (splitDots cs)) \<and> (\<forall>l \<in> set (tl (splitDots cs)). validLabel l)"
  using assms
proof (induction cs arbitrary: pre prev)
  case Nil
  then show ?case by (cases "pre = []") (auto simp: validLabel_def)
next
  case (Cons c cs)
  obtain l ls where sp: "splitDots cs = l # ls"
    by (cases "splitDots cs") auto
  show ?case
  proof (cases "c = CHR ''.''")
    case True
    have "validLoop 0 c cs \<longleftrightarrow> validLabel l \<and> (\<forall>l \<in> set ls. validLabel l)"
      using Cons.IH [of "[]" c] sp by simp
    with True sp Cons.prems show ?thesis
      by (cases "pre = []") (auto simp: validLabel_def)
  next
    case dot: False
    show ?thesis
    proof (cases "(isAlnum c \<or> c = CHR ''-'') \<and> (pre = [] \<longrightarrow> c \<noteq> CHR ''-'') \<and> length pre < 63")
      case True
      have "validLoop (length (pre @ [c])) c cs \<longleftrightarrow>
          validLabel ((pre @ [c]) @ l) \<and> (\<forall>l \<in> set ls. validLabel l)"
        using Cons.IH [of "pre @ [c]" c] sp True Cons.prems by (cases pre) auto
      with True dot sp show ?thesis by auto
    next
      case False
      have "\<not> validLabel (pre @ c # l)"
        using False Cons.prems by (cases pre) (auto simp: validLabel_def)
      moreover have "\<not> validLoop (length pre) prev (c # cs)"
        using False dot by auto
      ultimately show ?thesis using dot sp by simp
    qed
  qed
qed

lemma Valid_iff_validName: "Valid name \<longleftrightarrow> validName name"
proof -
  have "set (splitDots name) = insert (hd (splitDots name)) (set (tl (splitDots name)))"
    by (cases "splitDots name") auto
  moreover have "validLoop 0 CHR 0x00 name \<longleftrightarrow>
      validLabel (hd (splitDots name)) \<and> (\<forall>l \<in> set (tl (splitDots name)). validLabel l)"
    using validLoop_labels [of "[]" "CHR 0x00" name] by simp
  ultimately show ?thesis
    by (auto simp: Valid_def validName_def validLabel_def)
qed

lemma splitDots_chars: "l \<in> set (splitDots s) \<Longrightarrow> set l \<subseteq> set s"
proof (induction s arbitrary: l)
  case (Cons c s)
  then show ?case by (cases "splitDots s") (auto split: if_splits; blast)+
qed simp

lemma in_splitDots: "c \<in> set s \<Longrightarrow> c \<noteq> CHR ''.'' \<Longrightarrow> \<exists>l \<in> set (splitDots s). c \<in> set l"
proof (induction s)
  case (Cons a s)
  then show ?case by (cases "splitDots s") (auto split: if_splits)
qed simp

lemma Valid_chars: "Valid name \<Longrightarrow> c \<in> set name \<Longrightarrow> isAlnum c \<or> c = CHR ''-'' \<or> c = CHR ''.''"
  using in_splitDots [of c name] by (auto simp: Valid_iff_validName validName_def validLabel_def)

lemma Valid_not_Nil: "Valid name \<Longrightarrow> name \<noteq> []"
  by (auto simp: Valid_def)

lemma Valid_hd_not_dot: "Valid name \<Longrightarrow> hd name \<noteq> CHR ''.''"
  by (cases name) (auto simp: Valid_def split: if_splits)

section \<open>Lemmas: case folding\<close>

lemma lowerChar_id: "\<not> isUpper c \<Longrightarrow> lowerChar c = c"
  by (simp add: lowerChar_def)

lemma not_isUpper_lowerChar [simp]: "\<not> isUpper (lowerChar c)"
  by (auto simp: lowerChar_def isUpper_def)

lemma asciiLower_map: "asciiLower s = map lowerChar s"
  by (induction s) (auto simp: lowerChar_id)

lemma asciiLower_idem [simp]: "asciiLower (asciiLower s) = asciiLower s"
  by (simp add: asciiLower_map lowerChar_id)

lemma asciiLower_eq_Nil [simp]: "asciiLower s = [] \<longleftrightarrow> s = []"
  by (simp add: asciiLower_map)

lemma lowerChar_eq_iff: "\<not> isUpper d \<Longrightarrow> \<not> isLower d \<Longrightarrow> lowerChar c = d \<longleftrightarrow> c = d"
  by (auto simp: lowerChar_def isUpper_def isLower_def)

lemma not_letter_at [simp]: "\<not> isUpper CHR ''@''" "\<not> isLower CHR ''@''"
  by (simp_all add: isUpper_def isLower_def)

lemma set_asciiLower_at [simp]: "CHR ''@'' \<in> set (asciiLower s) \<longleftrightarrow> CHR ''@'' \<in> set s"
proof -
  have "CHR ''@'' \<in> set (asciiLower s) \<longleftrightarrow> (\<exists>c \<in> set s. lowerChar c = CHR ''@'')"
    by (auto simp: asciiLower_map image_iff eq_commute)
  then show ?thesis by (simp add: lowerChar_eq_iff)
qed

lemma EmailDomain_lower [simp]: "asciiLower (EmailDomain e) = EmailDomain e"
  by (simp add: EmailDomain_def Let_def)

lemma EmailDomain_valid: "EmailDomain e \<noteq> '''' \<Longrightarrow> CHR ''@'' \<in> set e \<and> Valid (rev (takeWhile (\<lambda>c. c \<noteq> CHR ''@'') (rev e)))"
  by (auto simp: EmailDomain_def Let_def split: if_splits)

section \<open>Lemmas: compiled policies\<close>

lemma normalizeAll_Inr:
  "normalizeAll f es = Inr ds \<Longrightarrow> d \<in> set ds \<Longrightarrow> \<exists>e \<in> set es. f e = Inr d"
  by (induction es arbitrary: ds) (auto split: sum.splits)

lemma set_firstOccurrences: "set (firstOccurrences seen ds) = set ds - set seen"
  by (induction seen ds rule: firstOccurrences.induct) auto

lemma distinct_firstOccurrences: "distinct (firstOccurrences seen ds)"
  by (induction seen ds rule: firstOccurrences.induct) (auto simp: set_firstOccurrences)

lemma goTrimPrefix_subset: "set (goTrimPrefix s p) \<subseteq> set s"
  by (auto simp: goTrimPrefix_def dest: in_set_dropD)

lemma no_upper_subset: "(\<forall>c \<in> set s. \<not> isUpper c) \<Longrightarrow> asciiLower s = s"
  by (simp add: asciiLower_map lowerChar_id map_idI)

lemma no_upper_asciiLower: "c \<in> set (asciiLower s) \<Longrightarrow> \<not> isUpper c"
  by (auto simp: asciiLower_map)

text \<open>What a normalized domain entry looks like: a lower-case DNS name with at least two labels,
  preceded by a dot when the entry was a wildcard.\<close>

definition domainEntry :: "bool \<Rightarrow> string \<Rightarrow> bool" where
  "domainEntry wild d \<longleftrightarrow> Valid d \<and> CHR ''.'' \<in> set d \<and> asciiLower d = d
     \<or> wild \<and> (\<exists>base. d = CHR ''.'' # base \<and> Valid base \<and> CHR ''.'' \<in> set base \<and> asciiLower base = base)"

lemma normalizeDomain_entry: "normalizeDomain entry wild = Inr d \<Longrightarrow> domainEntry wild d"
proof -
  assume n: "normalizeDomain entry wild = Inr d"
  let ?d = "goTrimPrefix (asciiLower (goTrimSpace entry)) ''@''"
  let ?b = "goTrimPrefix ?d ''*.''"
  have "set ?b \<subseteq> set (asciiLower (goTrimSpace entry))"
    using goTrimPrefix_subset by blast
  then have "asciiLower ?b = ?b"
    by (intro no_upper_subset) (auto dest: no_upper_asciiLower)
  with n show "domainEntry wild d"
    by (auto simp: normalizeDomain_def Let_def domainEntry_def split: if_splits)
qed

lemma normalizeEmail_entry:
  "normalizeEmail entry = Inr e \<Longrightarrow> asciiLower e = e \<and> EmailDomain e \<noteq> ''''"
proof -
  assume n: "normalizeEmail entry = Inr e"
  then have e: "e = asciiLower (goTrimSpace entry)" and one: "count_list e CHR ''@'' = 1"
    and v: "Valid (tl (dropWhile (\<lambda>c. c \<noteq> CHR ''@'') e))"
    by (auto simp: normalizeEmail_def Let_def split: if_splits)
  from one have "CHR ''@'' \<in> set e" by (metis count_notin zero_neq_one)
  then obtain l r where lr: "e = l @ CHR ''@'' # r" "CHR ''@'' \<notin> set l"
    by (meson split_list_first)
  with one have r: "CHR ''@'' \<notin> set r" by (auto simp: count_list_0_iff)
  have "takeWhile (\<lambda>c. c \<noteq> CHR ''@'') (rev e) = rev r"
    using r by (simp add: lr(1) takeWhile_tail takeWhile_eq_all_conv takeWhile_append)
  moreover have "dropWhile (\<lambda>c. c \<noteq> CHR ''@'') e = CHR ''@'' # r"
    using lr(2) by (simp add: lr(1) dropWhile_append dropWhile_eq_Nil_conv)
  ultimately show ?thesis
    using e v \<open>CHR ''@'' \<in> set e\<close> Valid_not_Nil by (auto simp: EmailDomain_def)
qed

definition policy_wf :: "Policy \<Rightarrow> bool" where
  "policy_wf p \<longleftrightarrow> \<not> public p
     \<and> (\<forall>d \<in> hostedDomains p. domainEntry False d)
     \<and> (\<forall>d \<in> set (emailDomains p). domainEntry True d) \<and> distinct (emailDomains p)
     \<and> (\<forall>e \<in> emails p \<union> denyEmails p. asciiLower e = e \<and> EmailDomain e \<noteq> '''')
     \<and> (hostedDomains p \<noteq> {} \<or> emailDomains p \<noteq> [] \<or> emails p \<noteq> {})"

lemma New_wf:
  assumes "New allow deny = Inr p"
  shows "policy_wf p"
proof -
  from assms obtain hds eds ems dens where n:
      "normalizeAll (\<lambda>e. normalizeDomain e False) (GoogleWorkspaceDomains allow) = Inr hds"
      "normalizeAll (\<lambda>e. normalizeDomain e True) (EmailDomains allow) = Inr eds"
      "normalizeAll normalizeEmail (Emails allow) = Inr ems"
      "normalizeAll normalizeEmail (DenyEmails deny) = Inr dens"
    and p: "p = \<lparr>public = False, hostedDomains = set hds, emailDomains = firstOccurrences [] eds,
                  emails = set ems, denyEmails = set dens\<rparr>"
    and ne: "\<not> (set hds = {} \<and> firstOccurrences [] eds = [] \<and> set ems = {})"
    by (fastforce simp: New_def split: sum.splits if_splits)
  have "\<forall>d \<in> set hds. domainEntry False d" "\<forall>d \<in> set eds. domainEntry True d"
    using normalizeAll_Inr [OF n(1)] normalizeAll_Inr [OF n(2)] normalizeDomain_entry by blast+
  moreover have "\<forall>e \<in> set ems \<union> set dens. asciiLower e = e \<and> EmailDomain e \<noteq> ''''"
    using normalizeAll_Inr [OF n(3)] normalizeAll_Inr [OF n(4)] normalizeEmail_entry by blast
  ultimately show ?thesis
    using ne by (simp add: p policy_wf_def set_firstOccurrences distinct_firstOccurrences)
qed

section \<open>Lemmas: what a policy admits\<close>

lemma domainEntry_wildcard:
  "domainEntry True d \<Longrightarrow> take 1 d = ''.'' \<longleftrightarrow> (\<exists>base. d = CHR ''.'' # base \<and> Valid base)"
  using Valid_hd_not_dot by (cases d) (fastforce simp: domainEntry_def)+

text \<open>An entry covers a domain: equality for a plain entry, a proper subdomain for a wildcard.\<close>

definition domainCovers :: "string \<Rightarrow> string \<Rightarrow> bool" where
  "domainCovers d domain \<longleftrightarrow>
     (if take 1 d = ''.'' then \<exists>sub. domain = sub @ d else domain = d)"

lemma matchesDomain_iff: "matchesDomain ds domain \<longleftrightarrow> (\<exists>d \<in> set ds. domainCovers d domain)"
  by (induction ds) (auto simp: domainCovers_def goHasSuffix_iff)

lemma matchesEmail_iff:
  "matchesEmail p email \<longleftrightarrow> email \<in> emails p \<or>
     EmailDomain email \<noteq> '''' \<and> (\<exists>d \<in> set (emailDomains p). domainCovers d (EmailDomain email))"
  by (auto simp: matchesEmail_def matchesDomain_iff Let_def)

lemma Evaluate_cong:
  "asciiLower (Email s) = asciiLower (Email t) \<Longrightarrow> EmailVerified s = EmailVerified t \<Longrightarrow>
   asciiLower (HostedDomain s) = asciiLower (HostedDomain t) \<Longrightarrow> Evaluate p s = Evaluate p t"
  by (cases p) (simp_all add: Evaluate_def Let_def)

lemma Evaluate_unrestricted [simp]: "\<not> Restricted po \<Longrightarrow> Evaluate po s = Allow"
  by (simp add: Evaluate_def)

lemma Evaluate_Some:
  "\<not> public p \<Longrightarrow> Evaluate (Some p) s = Allow \<longleftrightarrow>
     asciiLower (Email s) \<notin> denyEmails p \<and>
     (HostedDomain s \<noteq> '''' \<and> asciiLower (HostedDomain s) \<in> hostedDomains p
      \<or> EmailVerified s \<and> matchesEmail p (asciiLower (Email s)))"
  by (auto simp: Evaluate_def Restricted_def Let_def)

section \<open>Properties\<close>

text \<open>\<^verbatim>\<open>domainname.Valid\<close> accepts exactly the DNS names: at most 253 bytes, dot-separated labels
  of 1 to 63 letters, digits and hyphens that neither start nor end with a hyphen.\<close>

lemma dns_name_exact: "Valid name \<longleftrightarrow> validName name"
  by (rule Valid_iff_validName)

subsection \<open>The rules as they are written\<close>

text \<open>
  The reference for \<^verbatim>\<open>New\<close> and \<^verbatim>\<open>Evaluate\<close> speaks of the entries of the configuration only: how an entry is
  read (without outer white space, in lower case, a domain without a leading at sign), which
  entries are acceptable and what they cover.
\<close>

definition writtenAddress :: "string \<Rightarrow> string" where
  "writtenAddress entry = asciiLower (goTrimSpace entry)"

definition writtenDomain :: "string \<Rightarrow> string" where
  "writtenDomain entry = goTrimPrefix (asciiLower (goTrimSpace entry)) ''@''"

definition isWildcard :: "string \<Rightarrow> bool" where
  "isWildcard entry \<longleftrightarrow> goHasPrefix (writtenDomain entry) ''*.''"

definition acceptableDomain :: "bool \<Rightarrow> string \<Rightarrow> bool" where
  "acceptableDomain wild entry \<longleftrightarrow>
     (isWildcard entry \<longrightarrow> wild)
     \<and> (let base = (if isWildcard entry then drop 2 (writtenDomain entry) else writtenDomain entry) in Valid base \<and> CHR ''.'' \<in> set base)"

definition acceptableAddress :: "string \<Rightarrow> bool" where
  "acceptableAddress entry \<longleftrightarrow>
     (\<exists>local domain. writtenAddress entry = local @ CHR ''@'' # domain \<and> local \<noteq> [] \<and> CHR ''@'' \<notin> set local
        \<and> set local \<inter> {CHR '' '', CHR 0x09, CHR 0x0D, CHR 0x0A} = {} \<and> Valid domain \<and> CHR ''.'' \<in> set domain)"

definition rulesOk :: "Rules \<Rightarrow> DenyRules \<Rightarrow> bool" where
  "rulesOk allow deny \<longleftrightarrow>
     (\<forall>e \<in> set (GoogleWorkspaceDomains allow). acceptableDomain False e) \<and> (\<forall>e \<in> set (EmailDomains allow). acceptableDomain True e)
     \<and> (\<forall>e \<in> set (Emails allow) \<union> set (DenyEmails deny). acceptableAddress e)
     \<and> GoogleWorkspaceDomains allow @ EmailDomains allow @ Emails allow \<noteq> []"

text \<open>A wildcard covers the domains that end in what follows its star: the proper subdomains.\<close>

definition entryCovers :: "string \<Rightarrow> string \<Rightarrow> bool" where
  "entryCovers entry domain \<longleftrightarrow>
     (if isWildcard entry then \<exists>sub. domain = sub @ drop 1 (writtenDomain entry) else domain = writtenDomain entry)"

definition deniedBy :: "DenyRules \<Rightarrow> Subject \<Rightarrow> bool" where
  "deniedBy deny s \<longleftrightarrow> asciiLower (Email s) \<in> writtenAddress ` set (DenyEmails deny)"

definition hostedBy :: "Rules \<Rightarrow> Subject \<Rightarrow> bool" where
  "hostedBy allow s \<longleftrightarrow> HostedDomain s \<noteq> '''' \<and> asciiLower (HostedDomain s) \<in> writtenDomain ` set (GoogleWorkspaceDomains allow)"

definition addressBy :: "Rules \<Rightarrow> Subject \<Rightarrow> bool" where
  "addressBy allow s \<longleftrightarrow>
     asciiLower (Email s) \<in> writtenAddress ` set (Emails allow)
     \<or> (let domain = EmailDomain (asciiLower (Email s)) in domain \<noteq> '''' \<and> (\<exists>e \<in> set (EmailDomains allow). entryCovers e domain))"

lemma normalizeAll_length: "normalizeAll f es = Inr ds \<Longrightarrow> length ds = length es"
  by (induction es arbitrary: ds) (auto split: sum.splits)

lemma normalizeAll_image:
  assumes "normalizeAll f es = Inr ds" "\<And>e d. e \<in> set es \<Longrightarrow> f e = Inr d \<Longrightarrow> d = g e"
  shows "ds = map g es"
  using assms by (induction es arbitrary: ds) (auto split: sum.splits)

lemma normalizeAll_total: "(\<exists>ds. normalizeAll f es = Inr ds) \<longleftrightarrow> (\<forall>e \<in> set es. \<exists>d. f e = Inr d)"
  by (induction es) (auto split: sum.splits)

lemma Valid_base:
  assumes "Valid base"
  shows "CHR ''*'' \<notin> set base" "\<not> goHasPrefix base ''.''" "\<not> list_ex (\<lambda>c. c = CHR ''@'' \<or> c = CHR '' '' \<or> c = CHR 0x09) base"
    "CHR ''@'' \<notin> set base"
proof -
  have plain: "c \<noteq> CHR ''*'' \<and> c \<noteq> CHR ''@'' \<and> c \<noteq> CHR '' '' \<and> c \<noteq> CHR 0x09" if "c \<in> set base" for c
    using Valid_chars [OF assms that] by (auto simp: isAlnum_def isLower_def isUpper_def isDigit_def)
  then show "CHR ''*'' \<notin> set base" "CHR ''@'' \<notin> set base"
    "\<not> list_ex (\<lambda>c. c = CHR ''@'' \<or> c = CHR '' '' \<or> c = CHR 0x09) base" by (auto simp: list_ex_iff)
  show "\<not> goHasPrefix base ''.''"
    using Valid_hd_not_dot [OF assms] Valid_not_Nil [OF assms] by (cases base) (auto simp: goHasPrefix_def)
qed

lemma Nil_invalid [simp]: "\<not> Valid ''''"
  by (simp add: Valid_def)

definition compiledDomain :: "string \<Rightarrow> string" where
  "compiledDomain entry = (if isWildcard entry then drop 1 (writtenDomain entry) else writtenDomain entry)"

lemma normalizeDomain_iff:
  "normalizeDomain entry wild = Inr d \<longleftrightarrow> acceptableDomain wild entry \<and> d = compiledDomain entry"
proof (cases "isWildcard entry")
  case True
  then have "goHasPrefix (writtenDomain entry) ''*.''" by (simp add: isWildcard_def)
  then obtain base where w: "writtenDomain entry = CHR ''*'' # CHR ''.'' # base"
    by (cases "writtenDomain entry"; cases "tl (writtenDomain entry)") (auto simp: goHasPrefix_def)
  have "normalizeDomain entry wild = Inr d \<longleftrightarrow> wild \<and> Valid base \<and> CHR ''.'' \<in> set base \<and> d = CHR ''.'' # base"
    using Valid_base [of base]
    by (simp add: normalizeDomain_def Let_def writtenDomain_def [symmetric] w goTrimPrefix_def [of _ "''*.''"] goHasPrefix_def [of _ "''*.''"]) auto
  with True show ?thesis by (auto simp: acceptableDomain_def compiledDomain_def w Let_def)
next
  case False
  then have "\<not> goHasPrefix (writtenDomain entry) ''*.''" by (simp add: isWildcard_def)
  then have "normalizeDomain entry wild = Inr d \<longleftrightarrow> Valid (writtenDomain entry) \<and> CHR ''.'' \<in> set (writtenDomain entry) \<and> d = writtenDomain entry"
    using Valid_base [of "writtenDomain entry"]
    by (cases "writtenDomain entry = ''''") (simp_all add: normalizeDomain_def Let_def writtenDomain_def [symmetric] goTrimPrefix_def [of _ "''*.''"], auto)
  with False show ?thesis by (auto simp: acceptableDomain_def compiledDomain_def Let_def)
qed

lemma normalizeEmail_iff: "normalizeEmail entry = Inr e \<longleftrightarrow> acceptableAddress entry \<and> e = writtenAddress entry"
proof -
  have split: "takeWhile (\<lambda>c. c \<noteq> CHR ''@'') (l @ CHR ''@'' # r) = l" "dropWhile (\<lambda>c. c \<noteq> CHR ''@'') (l @ CHR ''@'' # r) = CHR ''@'' # r"
    if "CHR ''@'' \<notin> set l" for l r :: string
    using that by (auto simp: takeWhile_append dropWhile_append takeWhile_eq_all_conv dropWhile_eq_Nil_conv)
  show ?thesis
  proof (cases "\<exists>l r. writtenAddress entry = l @ CHR ''@'' # r \<and> CHR ''@'' \<notin> set l")
    case True
    then obtain l r where lr: "asciiLower (goTrimSpace entry) = l @ CHR ''@'' # r" "CHR ''@'' \<notin> set l" by (auto simp: writtenAddress_def)
    have one: "l' = l \<and> r' = r" if "l @ CHR ''@'' # r = l' @ CHR ''@'' # r'" "CHR ''@'' \<notin> set l'" for l' r'
      using split [OF lr(2)] split [OF that(2)] that(1) by (metis list.inject)
    have acc: "acceptableAddress entry \<longleftrightarrow> l \<noteq> [] \<and> set l \<inter> {CHR '' '', CHR 0x09, CHR 0x0D, CHR 0x0A} = {} \<and> Valid r \<and> CHR ''.'' \<in> set r"
    proof
      assume "acceptableAddress entry"
      then obtain l' r' where w: "l @ CHR ''@'' # r = l' @ CHR ''@'' # r'" "l' \<noteq> []" "CHR ''@'' \<notin> set l'"
        "set l' \<inter> {CHR '' '', CHR 0x09, CHR 0x0D, CHR 0x0A} = {}" "Valid r'" "CHR ''.'' \<in> set r'"
        unfolding acceptableAddress_def writtenAddress_def lr(1) by blast
      with one [OF w(1,3)] show "l \<noteq> [] \<and> set l \<inter> {CHR '' '', CHR 0x09, CHR 0x0D, CHR 0x0A} = {} \<and> Valid r \<and> CHR ''.'' \<in> set r" by simp
    next
      assume "l \<noteq> [] \<and> set l \<inter> {CHR '' '', CHR 0x09, CHR 0x0D, CHR 0x0A} = {} \<and> Valid r \<and> CHR ''.'' \<in> set r"
      with lr(2) show "acceptableAddress entry"
        unfolding acceptableAddress_def writtenAddress_def lr(1) by (intro exI [of _ l] exI [of _ r]) simp
    qed
    have ws: "list_ex (\<lambda>c. c = CHR '' '' \<or> c = CHR 0x09 \<or> c = CHR 0x0D \<or> c = CHR 0x0A) l \<longleftrightarrow> set l \<inter> {CHR '' '', CHR 0x09, CHR 0x0D, CHR 0x0A} \<noteq> {}"
      by (auto simp: list_ex_iff)
    have cnt: "count_list (l @ CHR ''@'' # r) CHR ''@'' = 1 \<longleftrightarrow> CHR ''@'' \<notin> set r"
      using lr(2) by (simp add: count_list_0_iff)
    have v: "Valid r \<Longrightarrow> CHR ''@'' \<notin> set r" by (rule Valid_base)
    have "normalizeEmail entry = Inr e \<longleftrightarrow> CHR ''@'' \<notin> set r \<and> l \<noteq> [] \<and> set l \<inter> {CHR '' '', CHR 0x09, CHR 0x0D, CHR 0x0A} = {}
        \<and> Valid r \<and> CHR ''.'' \<in> set r \<and> e = l @ CHR ''@'' # r"
      unfolding normalizeEmail_def Let_def lr(1) split [OF lr(2)] list.sel ws cnt
      by (simp only: if_split_eq1 sum.simps not_not de_Morgan_disj simp_thms) blast
    with v show ?thesis unfolding acc writtenAddress_def lr(1) by blast
  next
    case False
    then have "CHR ''@'' \<notin> set (asciiLower (goTrimSpace entry))" by (metis split_list_first writtenAddress_def)
    then have "count_list (asciiLower (goTrimSpace entry)) CHR ''@'' = 0" by (simp add: count_list_0_iff)
    moreover have "\<not> acceptableAddress entry" using False by (auto simp: acceptableAddress_def)
    ultimately show ?thesis by (simp add: normalizeEmail_def Let_def)
  qed
qed

text \<open>The compiled policy of a list of rules.\<close>

lemma New_Inr:
  assumes "New allow deny = Inr p"
  shows "rulesOk allow deny" "\<not> public p" "denyEmails p = writtenAddress ` set (DenyEmails deny)" "emails p = writtenAddress ` set (Emails allow)"
    "hostedDomains p = writtenDomain ` set (GoogleWorkspaceDomains allow)"
    "set (emailDomains p) = compiledDomain ` set (EmailDomains allow)"
proof -
  from assms obtain hds eds ems dens where n:
      "normalizeAll (\<lambda>e. normalizeDomain e False) (GoogleWorkspaceDomains allow) = Inr hds"
      "normalizeAll (\<lambda>e. normalizeDomain e True) (EmailDomains allow) = Inr eds"
      "normalizeAll normalizeEmail (Emails allow) = Inr ems"
      "normalizeAll normalizeEmail (DenyEmails deny) = Inr dens"
    and p: "p = \<lparr>public = False, hostedDomains = set hds, emailDomains = firstOccurrences [] eds, emails = set ems, denyEmails = set dens\<rparr>"
    and ne: "\<not> (set hds = {} \<and> firstOccurrences [] eds = [] \<and> set ems = {})"
    by (fastforce simp: New_def split: sum.splits if_splits)
  have hds: "hds = map writtenDomain (GoogleWorkspaceDomains allow)"
    by (rule normalizeAll_image [OF n(1)]) (auto simp: normalizeDomain_iff acceptableDomain_def compiledDomain_def)
  have eds: "eds = map compiledDomain (EmailDomains allow)" by (rule normalizeAll_image [OF n(2)]) (simp add: normalizeDomain_iff)
  have ems: "ems = map writtenAddress (Emails allow)" "dens = map writtenAddress (DenyEmails deny)"
    by (rule normalizeAll_image [OF n(3)], simp add: normalizeEmail_iff) (rule normalizeAll_image [OF n(4)], simp add: normalizeEmail_iff)
  have fo: "set (firstOccurrences [] eds) = set eds" by (simp add: set_firstOccurrences)
  show "\<not> public p" "denyEmails p = writtenAddress ` set (DenyEmails deny)" "emails p = writtenAddress ` set (Emails allow)"
    "hostedDomains p = writtenDomain ` set (GoogleWorkspaceDomains allow)" "set (emailDomains p) = compiledDomain ` set (EmailDomains allow)"
    by (simp_all add: p hds ems fo) (simp add: eds)
  have "\<forall>e \<in> set (GoogleWorkspaceDomains allow). acceptableDomain False e" "\<forall>e \<in> set (EmailDomains allow). acceptableDomain True e"
    "\<forall>e \<in> set (Emails allow). acceptableAddress e" "\<forall>e \<in> set (DenyEmails deny). acceptableAddress e"
    using n normalizeAll_total [of "\<lambda>e. normalizeDomain e False"] normalizeAll_total [of "\<lambda>e. normalizeDomain e True"] normalizeAll_total [of normalizeEmail]
    by (meson normalizeDomain_iff normalizeEmail_iff)+
  moreover have "GoogleWorkspaceDomains allow @ EmailDomains allow @ Emails allow \<noteq> []" using ne fo hds eds ems by auto
  ultimately show "rulesOk allow deny" by (auto simp: rulesOk_def)
qed

lemma New_total:
  assumes "rulesOk allow deny"
  shows "\<exists>p. New allow deny = Inr p"
proof -
  have "\<exists>hds. normalizeAll (\<lambda>e. normalizeDomain e False) (GoogleWorkspaceDomains allow) = Inr hds"
    "\<exists>eds. normalizeAll (\<lambda>e. normalizeDomain e True) (EmailDomains allow) = Inr eds"
    "\<exists>ems. normalizeAll normalizeEmail (Emails allow) = Inr ems" "\<exists>dens. normalizeAll normalizeEmail (DenyEmails deny) = Inr dens"
    using assms by (simp_all add: normalizeAll_total normalizeDomain_iff normalizeEmail_iff rulesOk_def)
  then obtain hds eds ems dens where n: "normalizeAll (\<lambda>e. normalizeDomain e False) (GoogleWorkspaceDomains allow) = Inr hds"
    "normalizeAll (\<lambda>e. normalizeDomain e True) (EmailDomains allow) = Inr eds"
    "normalizeAll normalizeEmail (Emails allow) = Inr ems" "normalizeAll normalizeEmail (DenyEmails deny) = Inr dens" by blast
  have "length hds = length (GoogleWorkspaceDomains allow)" "length eds = length (EmailDomains allow)" "length ems = length (Emails allow)"
    using n by (auto dest: normalizeAll_length)
  moreover have "GoogleWorkspaceDomains allow @ EmailDomains allow @ Emails allow \<noteq> []" using assms by (simp add: rulesOk_def)
  moreover have "firstOccurrences [] eds = [] \<longleftrightarrow> eds = []" by (metis set_empty set_firstOccurrences Diff_empty list.set(1))
  ultimately show ?thesis using n by (auto simp: New_def)
qed

lemma covers_iff:
  assumes "acceptableDomain True e"
  shows "domainCovers (compiledDomain e) domain \<longleftrightarrow> entryCovers e domain"
proof (cases "isWildcard e")
  case True
  then have "take 1 (drop 1 (writtenDomain e)) = ''.''"
    by (cases "writtenDomain e"; cases "tl (writtenDomain e)") (auto simp: isWildcard_def goHasPrefix_def)
  with True show ?thesis by (simp add: domainCovers_def entryCovers_def compiledDomain_def)
next
  case False
  with assms have "Valid (writtenDomain e)" by (simp add: acceptableDomain_def Let_def)
  then have "take 1 (writtenDomain e) \<noteq> ''.''" using Valid_base(2) by (simp add: goHasPrefix_def)
  with False show ?thesis by (simp add: domainCovers_def entryCovers_def compiledDomain_def)
qed

text \<open>C22: Access policies, from the rules as they are written. Rules are accepted exactly if every entry is an
  acceptable domain (a DNS name with a dot, wildcards for e-mail domains only) or address, and something is
  allowed. The compiled policy refuses an account whose address is on the deny list, before every other
  rule; it admits an account whose hosted domain is listed, or whose address is listed or lies in a listed e-mail
  domain and is verified; an unverified address is named as the reason only where a rule covers the
  address, and every other account is refused. A wildcard entry covers proper subdomains only; letter case never
  matters.\<close>

theorem access_policy_admits:
  "((\<exists>p. New allow deny = Inr p) \<longleftrightarrow> rulesOk allow deny)
   \<and> (\<forall>p. New allow deny = Inr p \<longrightarrow>
        (Evaluate (Some p) s = Allow \<longleftrightarrow> \<not> deniedBy deny s \<and> (hostedBy allow s \<or> EmailVerified s \<and> addressBy allow s))
      \<and> (Evaluate (Some p) s = Refuse ReasonDenyListed \<longleftrightarrow> deniedBy deny s)
      \<and> (Evaluate (Some p) s = Refuse ReasonEmailUnverified \<longleftrightarrow> \<not> deniedBy deny s \<and> \<not> hostedBy allow s \<and> addressBy allow s \<and> \<not> EmailVerified s)
      \<and> (Evaluate (Some p) s = Refuse ReasonNotAllowed \<longleftrightarrow> \<not> deniedBy deny s \<and> \<not> hostedBy allow s \<and> \<not> addressBy allow s))"
proof (intro conjI allI impI)
  show "(\<exists>p. New allow deny = Inr p) \<longleftrightarrow> rulesOk allow deny" using New_Inr(1) New_total by blast
  fix p
  assume "New allow deny = Inr p"
  note n = New_Inr [OF this]
  have "addressBy allow s \<longleftrightarrow> matchesEmail p (asciiLower (Email s))"
    using n(1) by (auto simp: matchesEmail_iff addressBy_def n Let_def rulesOk_def covers_iff)
  moreover have "deniedBy deny s \<longleftrightarrow> asciiLower (Email s) \<in> denyEmails p"
    "hostedBy allow s \<longleftrightarrow> HostedDomain s \<noteq> '''' \<and> asciiLower (HostedDomain s) \<in> hostedDomains p"
    by (simp_all add: deniedBy_def hostedBy_def n)
  ultimately have ev: "Evaluate (Some p) s = (if deniedBy deny s then Refuse ReasonDenyListed else if hostedBy allow s then Allow
      else if \<not> addressBy allow s then Refuse ReasonNotAllowed else if \<not> EmailVerified s then Refuse ReasonEmailUnverified else Allow)"
    using n(2) by (simp add: Evaluate_def Restricted_def Let_def)
  have r: "ReasonDenyListed \<noteq> ReasonNotAllowed" "ReasonDenyListed \<noteq> ReasonEmailUnverified" "ReasonNotAllowed \<noteq> ReasonEmailUnverified"
    by (simp_all add: ReasonDenyListed_def ReasonNotAllowed_def ReasonEmailUnverified_def)
  show "Evaluate (Some p) s = Allow \<longleftrightarrow> \<not> deniedBy deny s \<and> (hostedBy allow s \<or> EmailVerified s \<and> addressBy allow s)"
    "Evaluate (Some p) s = Refuse ReasonDenyListed \<longleftrightarrow> deniedBy deny s"
    "Evaluate (Some p) s = Refuse ReasonEmailUnverified \<longleftrightarrow> \<not> deniedBy deny s \<and> \<not> hostedBy allow s \<and> addressBy allow s \<and> \<not> EmailVerified s"
    "Evaluate (Some p) s = Refuse ReasonNotAllowed \<longleftrightarrow> \<not> deniedBy deny s \<and> \<not> hostedBy allow s \<and> \<not> addressBy allow s"
    unfolding ev using r by auto
qed

definition exampleRules :: Rules where
  "exampleRules = \<lparr>GoogleWorkspaceDomains = [], EmailDomains = [''*.corp.io''], Emails = [''a@b.io'']\<rparr>"

definition examplePolicy :: Policy where
  "examplePolicy = \<lparr>public = False, hostedDomains = {}, emailDomains = [''.corp.io''], emails = {''a@b.io''}, denyEmails = {}\<rparr>"

lemma examplePolicy_New: "New exampleRules \<lparr>DenyEmails = []\<rparr> = Inr examplePolicy"
  by code_simp

theorem access_policy_admits_witness:
  "Evaluate (Some examplePolicy) \<lparr>Email = ''X@eu.corp.io'', EmailVerified = True, HostedDomain = ''''\<rparr> = Allow
   \<and> Evaluate (Some examplePolicy) \<lparr>Email = ''x@corp.io'', EmailVerified = True, HostedDomain = ''''\<rparr> = Refuse ReasonNotAllowed"
proof -
  let ?in = "\<lparr>Email = ''X@eu.corp.io'', EmailVerified = True, HostedDomain = ''''\<rparr>"
  let ?out = "\<lparr>Email = ''x@corp.io'', EmailVerified = True, HostedDomain = ''''\<rparr>"
  have "EmailDomain (asciiLower ''X@eu.corp.io'') = ''eu.corp.io''" "EmailDomain (asciiLower ''x@corp.io'') = ''corp.io''"
    "writtenDomain ''*.corp.io'' = ''*.corp.io''" "writtenAddress ''a@b.io'' = ''a@b.io''" "asciiLower ''x@corp.io'' \<noteq> ''a@b.io''"
    by code_simp+
  moreover have "isWildcard ''*.corp.io''" by code_simp
  ultimately have "addressBy exampleRules ?in" "\<not> addressBy exampleRules ?out"
    by (auto simp: addressBy_def exampleRules_def entryCovers_def intro: exI [of _ "''eu''"])
  moreover have "\<not> deniedBy \<lparr>DenyEmails = []\<rparr> u" "\<not> hostedBy exampleRules u" for u
    by (simp_all add: deniedBy_def hostedBy_def exampleRules_def)
  ultimately show ?thesis
    using access_policy_admits [of exampleRules "\<lparr>DenyEmails = []\<rparr>" ?in] access_policy_admits [of exampleRules "\<lparr>DenyEmails = []\<rparr>" ?out]
    by (simp add: examplePolicy_New)
qed

end
