(* ===== verification/Clients.thy ===== *)
theory Clients
  imports Client_Access
begin

text \<open>
  OAuth clients: \<^verbatim>\<open>internal/client\<close> (the client model, the validation of clients.yaml, the static
  registry and the core policies) and \<^verbatim>\<open>internal/adapter/mcp/policy.go\<close> (the MCP-aware policies).
  The grammar of \<^verbatim>\<open>net/url\<close> is a parameter \<open>parseURI\<close>; the decoding of the YAML document is not
  modelled, the checks of \<^verbatim>\<open>LoadConfig\<close> on the decoded entries are.
  The two interfaces of \<^verbatim>\<open>policy.go\<close> are locales: whoever resolves clients returns the client it
  was asked for, and whoever validates a token request accepts only the stored resource.
\<close>

section \<open>The client model\<close>

record Model =
  c_UUID :: string
  c_ID :: string
  c_SecretHash :: "string option"
  c_Type :: string
  c_LoginChannel :: string
  c_Name :: string
  c_URL :: string
  c_RedirectURIList :: "string list"
  c_AllowedScopeList :: "string list"
  c_AllowedGrantTypeList :: "string list"
  c_SkipPKCE :: bool
  c_IDTokenUserinfoAssertion :: bool
  c_Access :: "Policy option"

datatype application_type = ApplicationTypeWeb | ApplicationTypeNative
datatype auth_method = AuthMethodBasic | AuthMethodNone

definition ApplicationType :: "Model \<Rightarrow> application_type" where
  "ApplicationType c = (if c_Type c = ''confidential'' then ApplicationTypeWeb else ApplicationTypeNative)"

definition AuthMethod :: "Model \<Rightarrow> auth_method" where
  "AuthMethod c = (if c_SecretHash c \<noteq> None then AuthMethodBasic else AuthMethodNone)"

definition LoginURL :: "Model \<Rightarrow> string \<Rightarrow> string" where
  "LoginURL c authRequestID =
     (if c_LoginChannel c = ''mcp'' then ''/mcp/login?authRequestID='' @ authRequestID
      else ''/login?authRequestID='' @ authRequestID)"

definition IsScopeAllowed :: "Model \<Rightarrow> string \<Rightarrow> bool" where
  "IsScopeAllowed c scope = list_ex (\<lambda>s. s = scope) (c_AllowedScopeList c)"

section \<open>URL-form client ids\<close>

record Url =
  u_Scheme :: string
  u_Host :: string
  u_Hostname :: string
  u_User :: bool
  u_Path :: string

type_synonym uri_parser = "string \<Rightarrow> Url option"

definition IsCIMDClientID :: "uri_parser \<Rightarrow> string \<Rightarrow> bool" where
  "IsCIMDClientID parseURI clientID =
     (if CHR ''#'' \<in> set clientID then False
      else (case parseURI clientID of None \<Rightarrow> False
        | Some u \<Rightarrow>
            if u_Scheme u \<noteq> ''https'' then False
            else if u_Host u = '''' \<or> u_Hostname u = '''' then False
            else if u_User u then False
            else if u_Path u = '''' \<or> u_Path u = ''/'' then False
            else True))"

section \<open>Validation of clients.yaml\<close>

record ConfigEntry =
  e_ClientID :: string
  e_ClientSecretHash :: "string option"
  e_ClientType :: string
  e_SkipPKCE :: bool
  e_IDTokenUserinfoAssertion :: bool
  e_LoginChannel :: string
  e_Name :: string
  e_URL :: string
  e_RedirectURIs :: "string list"
  e_AllowedScopes :: "string list"
  e_AllowedGrantTypes :: "string list"
  e_Access :: "Policy option"

definition maxYAMLClientIDLength :: nat where "maxYAMLClientIDLength = 2048"
definition maxYAMLClientNameLength :: nat where "maxYAMLClientNameLength = 256"
definition maxYAMLRedirectURICount :: nat where "maxYAMLRedirectURICount = 10"
definition maxYAMLRedirectURILength :: nat where "maxYAMLRedirectURILength = 2048"
definition maxYAMLGrantTypeCount :: nat where "maxYAMLGrantTypeCount = 3"

definition allowedGrants :: "string list" where
  "allowedGrants = [''authorization_code'', ''refresh_token'', ''urn:ietf:params:oauth:grant-type:device_code'']"

fun checkRedirectURIs :: "string list \<Rightarrow> err option" where
  "checkRedirectURIs [] = None"
| "checkRedirectURIs (uri # uris) =
     (if goTrimSpace uri = '''' then Some (ErrMsg ''redirect_uri cannot be empty'')
      else if length uri > maxYAMLRedirectURILength then Some (ErrMsg ''redirect_uri too long'')
      else checkRedirectURIs uris)"

fun checkGrantTypes :: "string list \<Rightarrow> err option" where
  "checkGrantTypes [] = None"
| "checkGrantTypes (gt # gts) =
     (if gt \<notin> set allowedGrants then Some (ErrMsg ''unsupported allowed_grant_type'')
      else checkGrantTypes gts)"

text \<open>One round of the loop of \<^verbatim>\<open>LoadConfig\<close>: an error, or the entry with its channel defaulted.\<close>

definition checkEntry :: "uri_parser \<Rightarrow> string list \<Rightarrow> ConfigEntry \<Rightarrow> err + ConfigEntry" where
  "checkEntry parseURI seen c =
     (if e_ClientID c = '''' then Inl (ErrMsg ''client_id is required'')
      else if goTrimSpace (e_ClientID c) \<noteq> e_ClientID c then Inl (ErrMsg ''client_id has surrounding whitespace'')
      else if length (e_ClientID c) > maxYAMLClientIDLength then Inl (ErrMsg ''client_id too long'')
      else if IsCIMDClientID parseURI (e_ClientID c) then Inl (ErrMsg ''URL-form client_id cannot be registered statically'')
      else if e_ClientID c \<in> set seen then Inl (ErrMsg ''duplicate client_id'')
      else if e_ClientType c \<noteq> ''public'' \<and> e_ClientType c \<noteq> ''confidential''
        then Inl (ErrMsg ''client_type must be public or confidential'')
      else if e_ClientType c = ''confidential'' \<and>
           (case e_ClientSecretHash c of None \<Rightarrow> True | Some h \<Rightarrow> goTrimSpace h = '''')
        then Inl (ErrMsg ''confidential client requires client_secret_hash'')
      else if e_LoginChannel c \<noteq> '''' \<and> e_LoginChannel c \<noteq> ''browser'' \<and> e_LoginChannel c \<noteq> ''mcp''
        then Inl (ErrMsg ''login_channel must be browser or mcp'')
      else (let c' = (if e_LoginChannel c = '''' then c\<lparr>e_LoginChannel := ''browser''\<rparr> else c)
      in if e_SkipPKCE c \<and> e_ClientType c \<noteq> ''confidential''
        then Inl (ErrMsg ''skip_pkce is only allowed for confidential clients'')
      else if e_SkipPKCE c \<and> e_LoginChannel c' = ''mcp''
        then Inl (ErrMsg ''skip_pkce is not allowed on the mcp channel'')
      else if e_Name c = '''' then Inl (ErrMsg ''name is required'')
      else if length (e_Name c) > maxYAMLClientNameLength then Inl (ErrMsg ''name too long'')
      else if length (e_RedirectURIs c) = 0 then Inl (ErrMsg ''at least one redirect_uri is required'')
      else if length (e_RedirectURIs c) > maxYAMLRedirectURICount then Inl (ErrMsg ''too many redirect_uris'')
      else (case checkRedirectURIs (e_RedirectURIs c) of Some e \<Rightarrow> Inl e
      | None \<Rightarrow>
        if length (e_AllowedScopes c) = 0 then Inl (ErrMsg ''at least one allowed_scope is required'')
        else if length (e_AllowedGrantTypes c) = 0 then Inl (ErrMsg ''at least one allowed_grant_type is required'')
        else if length (e_AllowedGrantTypes c) > maxYAMLGrantTypeCount then Inl (ErrMsg ''too many allowed_grant_types'')
        else (case checkGrantTypes (e_AllowedGrantTypes c) of Some e \<Rightarrow> Inl e
        | None \<Rightarrow> Inr c'))))"

fun checkEntries :: "uri_parser \<Rightarrow> string list \<Rightarrow> ConfigEntry list \<Rightarrow> err + ConfigEntry list" where
  "checkEntries parseURI seen [] = Inr []"
| "checkEntries parseURI seen (c # cs) =
     (case checkEntry parseURI seen c of Inl e \<Rightarrow> Inl e
      | Inr c' \<Rightarrow> (case checkEntries parseURI (e_ClientID c # seen) cs of Inl e \<Rightarrow> Inl e
         | Inr cs' \<Rightarrow> Inr (c' # cs')))"

definition LoadConfig :: "uri_parser \<Rightarrow> ConfigEntry list \<Rightarrow> err + ConfigEntry list" where
  "LoadConfig parseURI entries = checkEntries parseURI [] entries"

fun ValidateChannels :: "ConfigEntry list \<Rightarrow> bool \<Rightarrow> err option" where
  "ValidateChannels [] enableMCP = None"
| "ValidateChannels (c # cs) enableMCP =
     (if enableMCP then None
      else if e_LoginChannel c = ''mcp'' then Some (ErrMsg ''login_channel=mcp requires ENABLE_MCP=true'')
      else ValidateChannels cs enableMCP)"

section \<open>The static registry\<close>

type_synonym resolver = "string \<Rightarrow> err + Model"

text \<open>\<open>policy\<close> is \<^const>\<open>None\<close> for the core in-memory lookup. \<open>clientNotFound\<close> is
  \<^verbatim>\<open>client.ErrNotFound\<close>, another value than \<^verbatim>\<open>storage.ErrNotFound\<close>.\<close>

record Registry =
  clients :: "string \<Rightarrow> Model option"
  policy :: "resolver option"

definition clientNotFound :: err where "clientNotFound = ErrMsg ''client: not found''"

definition NewRegistry :: Registry where
  "NewRegistry = \<lparr>clients = Map.empty, policy = None\<rparr>"

definition modelOfEntry :: "ConfigEntry \<Rightarrow> Model" where
  "modelOfEntry c = \<lparr>c_UUID = '''', c_ID = e_ClientID c, c_SecretHash = e_ClientSecretHash c,
     c_Type = e_ClientType c, c_LoginChannel = e_LoginChannel c, c_Name = e_Name c, c_URL = e_URL c,
     c_RedirectURIList = e_RedirectURIs c, c_AllowedScopeList = e_AllowedScopes c,
     c_AllowedGrantTypeList = e_AllowedGrantTypes c, c_SkipPKCE = e_SkipPKCE c,
     c_IDTokenUserinfoAssertion = e_IDTokenUserinfoAssertion c, c_Access = e_Access c\<rparr>"

fun Load :: "uri_parser \<Rightarrow> Registry \<Rightarrow> ConfigEntry list \<Rightarrow> Registry" where
  "Load parseURI r [] = r"
| "Load parseURI r (c # cs) =
     (if IsCIMDClientID parseURI (e_ClientID c) then Load parseURI r cs
      else Load parseURI (r\<lparr>clients := (clients r)(e_ClientID c \<mapsto> modelOfEntry c)\<rparr>) cs)"

definition StaticAccess :: "Registry \<Rightarrow> string \<Rightarrow> Policy option" where
  "StaticAccess r clientID = (case clients r clientID of None \<Rightarrow> None | Some m \<Rightarrow> c_Access m)"

definition StaticLoginChannel :: "Registry \<Rightarrow> string \<Rightarrow> string" where
  "StaticLoginChannel r clientID = (case clients r clientID of None \<Rightarrow> '''' | Some m \<Rightarrow> c_LoginChannel m)"

definition StaticName :: "Registry \<Rightarrow> string \<Rightarrow> string" where
  "StaticName r clientID = (case clients r clientID of None \<Rightarrow> '''' | Some m \<Rightarrow> c_Name m)"

definition SetPolicy :: "Registry \<Rightarrow> resolver option \<Rightarrow> Registry" where
  "SetPolicy r p = r\<lparr>policy := p\<rparr>"

definition CoreResolver :: "Registry \<Rightarrow> resolver" where
  "CoreResolver r clientID = (case clients r clientID of Some m \<Rightarrow> Inr m | None \<Rightarrow> Inl clientNotFound)"

definition Resolve :: "Registry \<Rightarrow> resolver" where
  "Resolve r clientID = (case policy r of None \<Rightarrow> CoreResolver r clientID | Some p \<Rightarrow> p clientID)"

definition StaticRefreshGraceAllowed :: "Registry \<Rightarrow> string \<Rightarrow> bool" where
  "StaticRefreshGraceAllowed r clientID =
     (case clients r clientID of None \<Rightarrow> False
      | Some m \<Rightarrow> c_Type m = ''confidential'' \<and> c_SecretHash m \<noteq> None \<and> c_SecretHash m \<noteq> Some '''')"

text \<open>The MCP resolution policy: the static table first, then the CIMD fetcher.\<close>

definition mcpResolveClient :: "uri_parser \<Rightarrow> resolver \<Rightarrow> resolver option \<Rightarrow> resolver" where
  "mcpResolveClient parseURI base fetcher clientID =
     (case base clientID of Inr m \<Rightarrow> Inr m
      | Inl e \<Rightarrow> (case fetcher of
            Some f \<Rightarrow> if IsCIMDClientID parseURI clientID \<and> errIs e clientNotFound then f clientID else Inl e
          | None \<Rightarrow> Inl e))"

section \<open>Resource binding\<close>

text \<open>The interface \<^verbatim>\<open>ResourceBindingPolicy\<close>; a nil error is \<^const>\<open>None\<close>.\<close>

record ResourceBindingPolicy =
  ValidateAuthorizeRequest :: "Model option \<Rightarrow> string \<Rightarrow> err option"
  ValidateTokenRequest :: "string \<Rightarrow> string \<Rightarrow> string \<Rightarrow> err option"

definition coreValidateTokenRequest :: "string \<Rightarrow> string \<Rightarrow> string \<Rightarrow> err option" where
  "coreValidateTokenRequest clientID storedResource requestResource =
     (if storedResource \<noteq> '''' then
        (if requestResource = '''' then Some (oidcErr ''invalid_target'' ''missing resource'')
         else if requestResource \<noteq> storedResource then Some (oidcErr ''invalid_target'' ''resource mismatch'')
         else None)
      else if requestResource \<noteq> '''' then Some (oidcErr ''invalid_target'' ''unexpected resource'')
      else None)"

definition coreResourceBindingPolicy :: ResourceBindingPolicy where
  "coreResourceBindingPolicy =
     \<lparr>ValidateAuthorizeRequest = (\<lambda>client res. None), ValidateTokenRequest = coreValidateTokenRequest\<rparr>"

definition mcpValidateAuthorizeRequest :: "ResourceBindingPolicy \<Rightarrow> Model option \<Rightarrow> string \<Rightarrow> err option" where
  "mcpValidateAuthorizeRequest base client requestResource =
     (case client of
        None \<Rightarrow> ValidateAuthorizeRequest base client requestResource
      | Some c \<Rightarrow>
          if c_LoginChannel c = ''mcp'' then
            (if requestResource = '''' then Some (oidcErr ''invalid_target'' ''missing resource'')
             else ValidateAuthorizeRequest base client requestResource)
          else if requestResource \<noteq> ''''
            then Some (oidcErr ''invalid_target'' ''resource parameter not permitted for this client'')
          else ValidateAuthorizeRequest base client requestResource)"

definition mcpValidateTokenRequest ::
  "ResourceBindingPolicy \<Rightarrow> resolver option \<Rightarrow> string \<Rightarrow> string \<Rightarrow> string \<Rightarrow> err option" where
  "mcpValidateTokenRequest base resolver clientID storedResource requestResource =
     (let refuse = (if storedResource \<noteq> '''' \<or> requestResource \<noteq> '''' then
            (case resolver of None \<Rightarrow> None
             | Some res \<Rightarrow> (case res clientID of Inl e \<Rightarrow> None
                | Inr c \<Rightarrow>
                    if c_LoginChannel c \<noteq> ''mcp'' then
                      (if storedResource \<noteq> ''''
                       then Some (oidcErr ''invalid_grant'' ''persisted resource binding invalid for client channel'')
                       else Some (oidcErr ''invalid_target'' ''resource parameter not permitted for this client''))
                    else None))
          else None)
      in (case refuse of Some e \<Rightarrow> Some e
          | None \<Rightarrow> ValidateTokenRequest base clientID storedResource requestResource))"

definition mcpResourceBindingPolicy :: "ResourceBindingPolicy \<Rightarrow> resolver option \<Rightarrow> ResourceBindingPolicy" where
  "mcpResourceBindingPolicy base resolver =
     \<lparr>ValidateAuthorizeRequest = mcpValidateAuthorizeRequest base,
      ValidateTokenRequest = mcpValidateTokenRequest base resolver\<rparr>"

section \<open>Interfaces\<close>

text \<open>Whoever validates token requests accepts only the resource bound at authorization.\<close>

locale resource_binding =
  fixes validateToken :: "string \<Rightarrow> string \<Rightarrow> string \<Rightarrow> err option"
  assumes accepts_stored: "validateToken cid stored req = None \<Longrightarrow> req = stored"
begin

lemma mismatch_refused: "req \<noteq> stored \<Longrightarrow> \<exists>e. validateToken cid stored req = Some e"
  using accepts_stored by fastforce

lemma one_resource: "validateToken cid stored req = None \<Longrightarrow> validateToken cid stored req' = None \<Longrightarrow> req = req'"
  using accepts_stored by blast

end

text \<open>Whoever resolves clients returns the client it was asked for.\<close>

locale client_resolution =
  fixes resolve :: resolver
  assumes resolves_asked: "resolve cid = Inr m \<Longrightarrow> c_ID m = cid"
begin

lemma resolve_inj: "resolve cid = Inr m \<Longrightarrow> resolve cid' = Inr m \<Longrightarrow> cid = cid'"
  using resolves_asked by blast

end

interpretation core_binding: resource_binding coreValidateTokenRequest
  by unfold_locales (auto simp: coreValidateTokenRequest_def split: if_splits)

interpretation mcp_binding: resource_binding "mcpValidateTokenRequest coreResourceBindingPolicy resolver"
  by unfold_locales
    (auto simp: mcpValidateTokenRequest_def coreResourceBindingPolicy_def Let_def
          split: option.splits if_splits sum.splits dest: core_binding.accepts_stored)

section \<open>Lemmas: the registry\<close>

definition registry_wf :: "uri_parser \<Rightarrow> Registry \<Rightarrow> bool" where
  "registry_wf parseURI r \<longleftrightarrow>
     (\<forall>cid m. clients r cid = Some m \<longrightarrow> c_ID m = cid \<and> \<not> IsCIMDClientID parseURI cid)"

lemma registry_wf_New: "registry_wf parseURI NewRegistry"
  by (simp add: registry_wf_def NewRegistry_def)

lemma modelOfEntry_ID [simp]: "c_ID (modelOfEntry c) = e_ClientID c"
  by (simp add: modelOfEntry_def)

lemma Load_wf: "registry_wf parseURI r \<Longrightarrow> registry_wf parseURI (Load parseURI r cs)"
proof (induction cs arbitrary: r)
  case (Cons c cs)
  show ?case
  proof (cases "IsCIMDClientID parseURI (e_ClientID c)")
    case True
    with Cons show ?thesis by simp
  next
    case False
    with Cons.prems have "registry_wf parseURI (r\<lparr>clients := (clients r)(e_ClientID c \<mapsto> modelOfEntry c)\<rparr>)"
      by (simp add: registry_wf_def)
    from Cons.IH [OF this] False show ?thesis by simp
  qed
qed simp

lemma Load_policy [simp]: "policy (Load parseURI r cs) = policy r"
  by (induction parseURI r cs rule: Load.induct) auto

lemma Load_clients_other: "cid \<notin> e_ClientID ` set cs \<Longrightarrow> clients (Load parseURI r cs) cid = clients r cid"
  by (induction parseURI r cs rule: Load.induct) auto

lemma Load_clients:
  assumes "distinct (map e_ClientID cs)" "c \<in> set cs" "\<not> IsCIMDClientID parseURI (e_ClientID c)"
  shows "clients (Load parseURI r cs) (e_ClientID c) = Some (modelOfEntry c)"
  using assms
proof (induction cs arbitrary: r)
  case (Cons d cs)
  show ?case
  proof (cases "c = d")
    case True
    with Cons.prems show ?thesis by (simp add: Load_clients_other)
  next
    case False
    with Cons show ?thesis by simp
  qed
qed simp

text \<open>The registry a server starts with: loaded from an empty table.\<close>

interpretation static_clients: client_resolution "CoreResolver (Load parseURI NewRegistry cs)"
proof unfold_locales
  fix cid m
  assume "CoreResolver (Load parseURI NewRegistry cs) cid = Inr m"
  moreover have "registry_wf parseURI (Load parseURI NewRegistry cs)"
    by (rule Load_wf [OF registry_wf_New])
  ultimately show "c_ID m = cid"
    by (auto simp: CoreResolver_def registry_wf_def split: option.splits)
qed

section \<open>Lemmas: validation of clients.yaml\<close>

lemma checkRedirectURIs_None:
  "checkRedirectURIs uris = None \<longleftrightarrow>
     (\<forall>u \<in> set uris. goTrimSpace u \<noteq> '''' \<and> length u \<le> maxYAMLRedirectURILength)"
  by (induction uris) auto

lemma checkGrantTypes_None: "checkGrantTypes gts = None \<longleftrightarrow> set gts \<subseteq> set allowedGrants"
  by (induction gts) auto

definition defaultChannel :: "ConfigEntry \<Rightarrow> ConfigEntry" where
  "defaultChannel c = (if e_LoginChannel c = '''' then c\<lparr>e_LoginChannel := ''browser''\<rparr> else c)"

text \<open>What an accepted entry satisfies, in one place.\<close>

definition entry_ok :: "uri_parser \<Rightarrow> ConfigEntry \<Rightarrow> bool" where
  "entry_ok parseURI c \<longleftrightarrow>
     e_ClientID c \<noteq> '''' \<and> goTrimSpace (e_ClientID c) = e_ClientID c
     \<and> length (e_ClientID c) \<le> maxYAMLClientIDLength \<and> \<not> IsCIMDClientID parseURI (e_ClientID c)
     \<and> (e_ClientType c = ''public'' \<or> e_ClientType c = ''confidential'')
     \<and> (e_ClientType c = ''confidential'' \<longrightarrow> (\<exists>h. e_ClientSecretHash c = Some h \<and> goTrimSpace h \<noteq> ''''))
     \<and> (e_LoginChannel c = ''browser'' \<or> e_LoginChannel c = ''mcp'')
     \<and> (e_SkipPKCE c \<longrightarrow> e_ClientType c = ''confidential'' \<and> e_LoginChannel c = ''browser'')
     \<and> e_Name c \<noteq> '''' \<and> length (e_Name c) \<le> maxYAMLClientNameLength
     \<and> e_RedirectURIs c \<noteq> [] \<and> length (e_RedirectURIs c) \<le> maxYAMLRedirectURICount
     \<and> (\<forall>u \<in> set (e_RedirectURIs c). goTrimSpace u \<noteq> '''' \<and> length u \<le> maxYAMLRedirectURILength)
     \<and> e_AllowedScopes c \<noteq> [] \<and> e_AllowedGrantTypes c \<noteq> []
     \<and> length (e_AllowedGrantTypes c) \<le> maxYAMLGrantTypeCount
     \<and> set (e_AllowedGrantTypes c) \<subseteq> set allowedGrants"

lemma defaultChannel_simps [simp]:
  "e_ClientID (defaultChannel c) = e_ClientID c" "e_ClientType (defaultChannel c) = e_ClientType c"
  by (simp_all add: defaultChannel_def)

lemma checkEntry_iff:
  "checkEntry parseURI seen c = Inr c' \<longleftrightarrow>
     c' = defaultChannel c \<and> e_ClientID c \<notin> set seen \<and> entry_ok parseURI (defaultChannel c)"
proof
  assume "checkEntry parseURI seen c = Inr c'"
  then show "c' = defaultChannel c \<and> e_ClientID c \<notin> set seen \<and> entry_ok parseURI (defaultChannel c)"
    by (auto simp: checkEntry_def Let_def entry_ok_def defaultChannel_def checkRedirectURIs_None
                   checkGrantTypes_None split: if_splits option.splits)
next
  assume "c' = defaultChannel c \<and> e_ClientID c \<notin> set seen \<and> entry_ok parseURI (defaultChannel c)"
  moreover from this have "checkRedirectURIs (e_RedirectURIs c) = None"
    "checkGrantTypes (e_AllowedGrantTypes c) = None"
    by (auto simp: entry_ok_def checkRedirectURIs_None checkGrantTypes_None defaultChannel_def split: if_splits)
  ultimately show "checkEntry parseURI seen c = Inr c'"
    by (auto simp: checkEntry_def Let_def entry_ok_def defaultChannel_def split: if_splits option.splits)
qed

lemma checkEntries_iff:
  "checkEntries parseURI seen cs = Inr cs' \<longleftrightarrow>
     cs' = map defaultChannel cs \<and> distinct (map e_ClientID cs)
     \<and> set (map e_ClientID cs) \<inter> set seen = {} \<and> (\<forall>c \<in> set cs. entry_ok parseURI (defaultChannel c))"
proof (induction cs arbitrary: seen cs')
  case (Cons c cs)
  have "checkEntries parseURI seen (c # cs) = Inr cs' \<longleftrightarrow>
      (\<exists>c' ds. checkEntry parseURI seen c = Inr c' \<and>
         checkEntries parseURI (e_ClientID c # seen) cs = Inr ds \<and> cs' = c' # ds)"
    by (auto split: sum.splits)
  then show ?case unfolding checkEntry_iff Cons.IH by auto
qed auto

lemma ValidateChannels_None:
  "ValidateChannels cs enableMCP = None \<longleftrightarrow> enableMCP \<or> (\<forall>c \<in> set cs. e_LoginChannel c \<noteq> ''mcp'')"
  by (induction cs) auto

section \<open>Properties\<close>

text \<open>\<^verbatim>\<open>LoadConfig\<close> accepts a client list exactly when the client ids are pairwise different and
  every entry is well formed (\<open>entry_ok\<close>); it then returns the entries unchanged but for the
  login channel, which defaults to browser.\<close>

lemma load_config_exact:
  "LoadConfig parseURI entries = Inr cs \<longleftrightarrow>
     cs = map defaultChannel entries \<and> distinct (map e_ClientID entries)
     \<and> list_all (\<lambda>c. entry_ok parseURI (defaultChannel c)) entries"
  by (auto simp: LoadConfig_def checkEntries_iff list_all_iff)

lemma defaultChannel_ID [simp]: "map e_ClientID (map defaultChannel cs) = map e_ClientID cs"
  by simp

text \<open>A registry loaded from an accepted client list resolves every configured id to the client
  configured under it and no other id; no URL-form id resolves statically.\<close>

lemma registry_serves_config:
  assumes "LoadConfig parseURI entries = Inr cs"
  shows "CoreResolver (Load parseURI NewRegistry cs) cid = Inr m \<longleftrightarrow>
    (\<exists>c \<in> set cs. e_ClientID c = cid \<and> m = modelOfEntry c \<and> \<not> IsCIMDClientID parseURI cid)"
proof -
  from assms have dist: "distinct (map e_ClientID cs)"
    and ok: "\<And>c. c \<in> set cs \<Longrightarrow> \<not> IsCIMDClientID parseURI (e_ClientID c)"
    by (auto simp: LoadConfig_def checkEntries_iff entry_ok_def comp_def)
  show ?thesis
  proof (cases "cid \<in> e_ClientID ` set cs")
    case True
    then obtain c where c: "c \<in> set cs" "e_ClientID c = cid" by auto
    with Load_clients [OF dist c(1) ok [OF c(1)], of NewRegistry]
    have l: "CoreResolver (Load parseURI NewRegistry cs) cid = Inr (modelOfEntry c)"
      by (simp add: CoreResolver_def)
    have "c' = c" if "c' \<in> set cs" "e_ClientID c' = cid" for c'
      using dist that c by (auto simp: distinct_map dest: inj_onD)
    with c ok [OF c(1)]
    have "(\<exists>c \<in> set cs. e_ClientID c = cid \<and> m = modelOfEntry c \<and> \<not> IsCIMDClientID parseURI cid) \<longleftrightarrow> modelOfEntry c = m"
      by blast
    then show ?thesis unfolding l by simp
  next
    case False
    with Load_clients_other [OF False, of parseURI NewRegistry] show ?thesis
      by (auto simp: CoreResolver_def NewRegistry_def)
  qed
qed

definition exampleEntry :: ConfigEntry where
  "exampleEntry = \<lparr>e_ClientID = ''app'', e_ClientSecretHash = Some ''h'', e_ClientType = ''confidential'', e_SkipPKCE = False,
     e_IDTokenUserinfoAssertion = False, e_LoginChannel = '''', e_Name = ''App'', e_URL = '''',
     e_RedirectURIs = [''https://a/cb''], e_AllowedScopes = [''openid''], e_AllowedGrantTypes = [''refresh_token''],
     e_Access = None\<rparr>"

lemma exampleEntry_loads: "LoadConfig (\<lambda>_. None) [exampleEntry] = Inr [exampleEntry\<lparr>e_LoginChannel := ''browser''\<rparr>]"
  by code_simp

text \<open>With the MCP policy in front of the core policy, an MCP client must name a resource at
  /authorize and a browser client must not, and at the token endpoint a request passes only with
  exactly the stored resource, which only an MCP client may have.\<close>

lemma resource_channel_matrix:
  "(mcpValidateAuthorizeRequest coreResourceBindingPolicy (Some c) res = None \<longleftrightarrow>
      (c_LoginChannel c = ''mcp'') = (res \<noteq> ''''))
   \<and> (mcpValidateTokenRequest coreResourceBindingPolicy (Some resolve) cid stored req = None \<longleftrightarrow>
      req = stored \<and> (stored = '''' \<or> (case resolve cid of Inl _ \<Rightarrow> True | Inr m \<Rightarrow> c_LoginChannel m = ''mcp'')))"
proof
  show "mcpValidateAuthorizeRequest coreResourceBindingPolicy (Some c) res = None \<longleftrightarrow>
      (c_LoginChannel c = ''mcp'') = (res \<noteq> '''')"
    by (simp add: mcpValidateAuthorizeRequest_def coreResourceBindingPolicy_def)
  show "mcpValidateTokenRequest coreResourceBindingPolicy (Some resolve) cid stored req = None \<longleftrightarrow>
      req = stored \<and> (stored = '''' \<or> (case resolve cid of Inl _ \<Rightarrow> True | Inr m \<Rightarrow> c_LoginChannel m = ''mcp''))"
    by (auto simp: mcpValidateTokenRequest_def coreResourceBindingPolicy_def coreValidateTokenRequest_def Let_def
             split: sum.splits)
qed

end
