(* ===== verification/Crypto.thy ===== *)
theory Crypto
  imports Prelude
begin

text \<open>
  The at-rest encryption and hashing of \<^verbatim>\<open>internal/crypto\<close>: domain roots, the purpose subkeys
  derived from them, lookup hashes, epoch tags and field encryption. AES-GCM, HKDF and HMAC-SHA256
  of Go's crypto packages are the fields of \<open>Prims\<close>; what the storage layer relies on of them is
  named: \<open>aead_ok\<close> (opening inverts sealing, under the same additional data only,
  and a sealed text is never empty: it carries the tag) and \<open>mac_ok\<close> (no two messages
  of one key collide). Byte slices are strings of bytes.
\<close>

section \<open>Primitives\<close>

record Prims =
  hkdfKey :: "string \<Rightarrow> string \<Rightarrow> nat \<Rightarrow> err + string"
  hmacSum :: "string \<Rightarrow> string \<Rightarrow> string"
  gcmSeal :: "string \<Rightarrow> string \<Rightarrow> string \<Rightarrow> string \<Rightarrow> string"
  gcmOpen :: "string \<Rightarrow> string \<Rightarrow> string \<Rightarrow> string \<Rightarrow> err + string"

definition aead_ok :: "Prims \<Rightarrow> bool" where
  "aead_ok p \<longleftrightarrow>
     (\<forall>k n m a. gcmOpen p k n (gcmSeal p k n m a) a = Inr m)
     \<and> (\<forall>k n m a m' a'. gcmOpen p k n (gcmSeal p k n m a) a' = Inr m' \<longrightarrow> a = a')
     \<and> (\<forall>k n m a. gcmSeal p k n m a \<noteq> [])"

definition mac_ok :: "Prims \<Rightarrow> bool" where
  "mac_ok p \<longleftrightarrow> (\<forall>k m m'. hmacSum p k m = hmacSum p k m' \<longrightarrow> m = m')"

text \<open>\<^verbatim>\<open>encoding/hex\<close> and the verb \<^verbatim>\<open>%d\<close> of \<^verbatim>\<open>fmt\<close>.\<close>

definition hexDigit :: "nat \<Rightarrow> char" where
  "hexDigit n = char_of (if n < 10 then 48 + n else 87 + n)"

definition hexEncode :: "string \<Rightarrow> string" where
  "hexEncode s = concat (map (\<lambda>c. [hexDigit (of_char c div 16), hexDigit (of_char c mod 16)]) s)"

fun showNat :: "nat \<Rightarrow> string" where
  "showNat n = (if n < 10 then [char_of (48 + n)] else showNat (n div 10) @ [char_of (48 + n mod 10)])"

declare showNat.simps [simp del]

section \<open>Roots and subkeys\<close>

definition KeySize :: nat where "KeySize = 32"
definition NonceSize :: nat where "NonceSize = 12"

definition DomainEnc :: string where "DomainEnc = ''enc''"
definition DomainLookup :: string where "DomainLookup = ''lookup''"

definition LabelEncEpochVerify :: string where "LabelEncEpochVerify = ''authgate/enc/epoch-verify/v1''"
definition LabelPIIField :: string where "LabelPIIField = ''authgate/enc/pii-field/v1''"
definition LabelLookupEpochVerify :: string where "LabelLookupEpochVerify = ''authgate/lookup/epoch-verify/v1''"
definition LabelProviderSub :: string where "LabelProviderSub = ''authgate/lookup/provider-sub/v1''"
definition LabelEmail :: string where "LabelEmail = ''authgate/lookup/email/v1''"
definition LabelCode :: string where "LabelCode = ''authgate/lookup/code/v1''"
definition LabelSession :: string where "LabelSession = ''authgate/lookup/session/v1''"
definition LabelRefresh :: string where "LabelRefresh = ''authgate/lookup/refresh/v1''"

record Root =
  r_domain :: string
  r_keyID :: string
  r_secret :: string

definition NewRoot :: "string \<Rightarrow> string \<Rightarrow> string \<Rightarrow> err + Root" where
  "NewRoot domain keyID secret =
     (if domain \<noteq> DomainEnc \<and> domain \<noteq> DomainLookup then Inl (ErrMsg ''crypto: unknown domain'')
      else if keyID = '''' then Inl (ErrMsg ''crypto: root key_id is required'')
      else if length secret < KeySize then Inl (ErrMsg ''crypto: root secret too short'')
      else Inr \<lparr>r_domain = domain, r_keyID = keyID, r_secret = secret\<rparr>)"

definition subkey :: "Prims \<Rightarrow> Root \<Rightarrow> string \<Rightarrow> err + string" where
  "subkey p r label = hkdfKey p (r_secret r) label KeySize"

record Keys =
  encKeyID :: string
  lookupKeyID :: string
  piiField :: string
  encEpochVerify :: string
  lookupEpochVerify :: string
  providerSub :: string
  emailKey :: string
  codeKey :: string
  sessionKey :: string
  refreshKey :: string

text \<open>The closure \<^verbatim>\<open>derive\<close> skips its work once an earlier derivation failed.\<close>

definition derive :: "Prims \<Rightarrow> Root \<Rightarrow> string \<Rightarrow> (string \<Rightarrow> Keys \<Rightarrow> Keys) \<Rightarrow> err + Keys \<Rightarrow> err + Keys" where
  "derive p r label dst acc =
     (case acc of Inl e \<Rightarrow> Inl e
      | Inr k \<Rightarrow> (case subkey p r label of Inl e \<Rightarrow> Inl e | Inr b \<Rightarrow> Inr (dst b k)))"

definition NewKeys :: "Prims \<Rightarrow> Root option \<Rightarrow> Root option \<Rightarrow> err + Keys" where
  "NewKeys p encRoot lookupRoot =
     (case (encRoot, lookupRoot) of
        (Some enc, Some lookup) \<Rightarrow>
          if r_domain enc \<noteq> DomainEnc then Inl (ErrMsg ''crypto: enc root has the wrong domain'')
          else if r_domain lookup \<noteq> DomainLookup then Inl (ErrMsg ''crypto: lookup root has the wrong domain'')
          else
            (let k0 = Inr \<lparr>encKeyID = r_keyID enc, lookupKeyID = r_keyID lookup, piiField = '''',
                   encEpochVerify = '''', lookupEpochVerify = '''', providerSub = '''', emailKey = '''',
                   codeKey = '''', sessionKey = '''', refreshKey = ''''\<rparr>;
                 k1 = derive p enc LabelPIIField (\<lambda>b. piiField_update (\<lambda>_. b)) k0;
                 k2 = derive p enc LabelEncEpochVerify (\<lambda>b. encEpochVerify_update (\<lambda>_. b)) k1;
                 k3 = derive p lookup LabelLookupEpochVerify (\<lambda>b. lookupEpochVerify_update (\<lambda>_. b)) k2;
                 k4 = derive p lookup LabelProviderSub (\<lambda>b. providerSub_update (\<lambda>_. b)) k3;
                 k5 = derive p lookup LabelEmail (\<lambda>b. emailKey_update (\<lambda>_. b)) k4;
                 k6 = derive p lookup LabelCode (\<lambda>b. codeKey_update (\<lambda>_. b)) k5;
                 k7 = derive p lookup LabelSession (\<lambda>b. sessionKey_update (\<lambda>_. b)) k6
             in derive p lookup LabelRefresh (\<lambda>b. refreshKey_update (\<lambda>_. b)) k7)
      | _ \<Rightarrow> Inl (ErrMsg ''crypto: enc and lookup roots are required''))"

section \<open>Field encryption\<close>

text \<open>\<open>nonce\<close> is what \<^verbatim>\<open>rand.Reader\<close> delivers for this call.\<close>

definition Encrypt :: "Prims \<Rightarrow> err + string \<Rightarrow> string \<Rightarrow> string \<Rightarrow> string \<Rightarrow> err + (string \<times> string)" where
  "Encrypt p nonce key plaintext aad =
     (if length key \<noteq> KeySize then Inl (ErrMsg ''crypto: key must be 32 bytes'')
      else (case nonce of Inl e \<Rightarrow> Inl e | Inr n \<Rightarrow> Inr (gcmSeal p key n plaintext aad, n)))"

definition Decrypt :: "Prims \<Rightarrow> string \<Rightarrow> string \<Rightarrow> string \<Rightarrow> string \<Rightarrow> err + string" where
  "Decrypt p key ciphertext nonce aad =
     (if length key \<noteq> KeySize then Inl (ErrMsg ''crypto: key must be 32 bytes'')
      else if length nonce \<noteq> NonceSize then Inl (ErrMsg ''crypto: invalid nonce size'')
      else gcmOpen p key nonce ciphertext aad)"

definition EncryptPII :: "Prims \<Rightarrow> Keys \<Rightarrow> err + string \<Rightarrow> string \<Rightarrow> string \<Rightarrow> err + (string \<times> string)" where
  "EncryptPII p k nonce plaintext aad = Encrypt p nonce (piiField k) plaintext aad"

definition DecryptPII :: "Prims \<Rightarrow> Keys \<Rightarrow> string \<Rightarrow> string \<Rightarrow> string \<Rightarrow> err + string" where
  "DecryptPII p k ciphertext nonce aad = Decrypt p (piiField k) ciphertext nonce aad"

definition FieldAAD :: "string \<Rightarrow> string \<Rightarrow> string \<Rightarrow> nat \<Rightarrow> string" where
  "FieldAAD field accountID keyID version =
     ''app=authgate;field='' @ field @ '';account_id='' @ accountID @ '';key_id='' @ keyID
       @ '';version='' @ showNat version"

section \<open>Lookup hashes\<close>

definition hmacHex :: "Prims \<Rightarrow> string \<Rightarrow> string \<Rightarrow> string" where
  "hmacHex p key msg = hexEncode (hmacSum p key msg)"

definition ProviderSubHash :: "Prims \<Rightarrow> Keys \<Rightarrow> string \<Rightarrow> string \<Rightarrow> string" where
  "ProviderSubHash p k provider subject = hmacHex p (providerSub k) (''provider-sub:v1:'' @ provider @ '':'' @ subject)"

definition EmailHash :: "Prims \<Rightarrow> Keys \<Rightarrow> string \<Rightarrow> string" where
  "EmailHash p k normalizedEmail = hmacHex p (emailKey k) (''email:v1:'' @ normalizedEmail)"

definition CodeHash :: "Prims \<Rightarrow> Keys \<Rightarrow> string \<Rightarrow> string" where
  "CodeHash p k code = hmacHex p (codeKey k) (''code:v1:'' @ code)"

definition SessionHash :: "Prims \<Rightarrow> Keys \<Rightarrow> string \<Rightarrow> string" where
  "SessionHash p k token = hmacHex p (sessionKey k) (''session:v1:'' @ token)"

definition RefreshHash :: "Prims \<Rightarrow> Keys \<Rightarrow> string \<Rightarrow> string" where
  "RefreshHash p k token = hmacHex p (refreshKey k) (''refresh:v1:'' @ token)"

definition VerifyTag :: "Prims \<Rightarrow> Keys \<Rightarrow> string \<Rightarrow> err + string" where
  "VerifyTag p k domain =
     (if domain = DomainEnc
        then Inr (hmacHex p (encEpochVerify k) (''key-epoch:v1:'' @ DomainEnc @ '':'' @ encKeyID k))
      else if domain = DomainLookup
        then Inr (hmacHex p (lookupEpochVerify k) (''key-epoch:v1:'' @ DomainLookup @ '':'' @ lookupKeyID k))
      else Inl (ErrMsg ''crypto: unknown domain''))"

section \<open>Lemmas\<close>

lemma hexDigit_inj: "m < 16 \<Longrightarrow> n < 16 \<Longrightarrow> hexDigit m = hexDigit n \<Longrightarrow> m = n"
proof -
  assume "m < 16" "n < 16" "hexDigit m = hexDigit n"
  then have "(of_char (hexDigit m) :: nat) = of_char (hexDigit n)" by simp
  with \<open>m < 16\<close> \<open>n < 16\<close> show "m = n"
    by (auto simp: hexDigit_def split: if_splits)
qed

lemma hexEncode_inj: "hexEncode s = hexEncode t \<Longrightarrow> s = t"
proof (induction s arbitrary: t)
  case Nil
  then show ?case by (cases t) (auto simp: hexEncode_def)
next
  case (Cons c s)
  then obtain d t' where t: "t = d # t'" by (cases t) (auto simp: hexEncode_def)
  have lt: "(of_char x :: nat) div 16 < 16" "(of_char x :: nat) mod 16 < 16" for x :: char
    by (simp_all add: div_less_iff_less_mult)
  from Cons.prems t have "hexDigit (of_char c div 16) = hexDigit (of_char d div 16)"
    "hexDigit (of_char c mod 16) = hexDigit (of_char d mod 16)" "hexEncode s = hexEncode t'"
    by (auto simp: hexEncode_def)
  with lt have "(of_char c :: nat) div 16 = of_char d div 16" "(of_char c :: nat) mod 16 = of_char d mod 16"
    by (blast intro: hexDigit_inj)+
  then have "(of_char c :: nat) = of_char d" by (metis div_mult_mod_eq)
  then have "c = d" by simp
  with Cons.IH [OF \<open>hexEncode s = hexEncode t'\<close>] t show ?case by simp
qed

lemma hmacHex_inj: "mac_ok p \<Longrightarrow> hmacHex p k m = hmacHex p k m' \<Longrightarrow> m = m'"
  by (auto simp: hmacHex_def mac_ok_def dest: hexEncode_inj)

lemma CodeHash_inj: "mac_ok p \<Longrightarrow> CodeHash p k c = CodeHash p k c' \<longleftrightarrow> c = c'"
  by (auto simp: CodeHash_def dest: hmacHex_inj)

lemma SessionHash_inj: "mac_ok p \<Longrightarrow> SessionHash p k c = SessionHash p k c' \<longleftrightarrow> c = c'"
  by (auto simp: SessionHash_def dest: hmacHex_inj)

lemma RefreshHash_inj: "mac_ok p \<Longrightarrow> RefreshHash p k c = RefreshHash p k c' \<longleftrightarrow> c = c'"
  by (auto simp: RefreshHash_def dest: hmacHex_inj)

lemma EmailHash_inj: "mac_ok p \<Longrightarrow> EmailHash p k c = EmailHash p k c' \<longleftrightarrow> c = c'"
  by (auto simp: EmailHash_def dest: hmacHex_inj)

lemma append_sep_inj:
  assumes "a @ c # s = b @ c # t" "c \<notin> set a" "c \<notin> set b"
  shows "a = b \<and> s = t"
  using assms
proof (induction a arbitrary: b)
  case Nil
  then show ?case by (cases b) auto
next
  case (Cons x a)
  then show ?case by (cases b) auto
qed

lemma ProviderSubHash_inj:
  assumes "mac_ok p" "CHR '':'' \<notin> set prov" "CHR '':'' \<notin> set prov'"
    and "ProviderSubHash p k prov sub = ProviderSubHash p k prov' sub'"
  shows "prov = prov' \<and> sub = sub'"
proof -
  have "prov @ CHR '':'' # sub = prov' @ CHR '':'' # sub'"
    using hmacHex_inj [OF assms(1) assms(4) [unfolded ProviderSubHash_def]] by simp
  with assms(2,3) show ?thesis by (blast dest: append_sep_inj)
qed

text \<open>Ids the database stores are UUIDs: without a semicolon the owner can be read off the AAD.\<close>

lemma FieldAAD_account:
  assumes "FieldAAD f a k v = FieldAAD f a' k' v'" "CHR '';'' \<notin> set a" "CHR '';'' \<notin> set a'"
  shows "a = a'"
  using assms append_sep_inj [of a "CHR '';''" _ a'] by (auto simp: FieldAAD_def)

lemma Encrypt_not_Nil: "aead_ok p \<Longrightarrow> Encrypt p nonce key m a = Inr (c, n) \<Longrightarrow> c \<noteq> []"
  by (auto simp: Encrypt_def aead_ok_def split: if_splits sum.splits)

lemma Encrypt_Decrypt:
  assumes "aead_ok p" "Encrypt p nonce key m a = Inr (c, n)" "length n = NonceSize"
  shows "Decrypt p key c n a = Inr m"
  using assms by (auto simp: Encrypt_def Decrypt_def aead_ok_def split: if_splits sum.splits)

lemma Encrypt_Decrypt_other_aad:
  assumes "aead_ok p" "Encrypt p nonce key m a = Inr (c, n)" "a \<noteq> a'"
  shows "\<exists>e. Decrypt p key c n a' = Inl e"
proof (cases "Decrypt p key c n a'")
  case (Inr m')
  with assms show ?thesis
    by (fastforce simp: Encrypt_def Decrypt_def aead_ok_def split: if_splits sum.splits)
qed auto

lemma NewKeys_fields:
  assumes "NewKeys p (Some enc) (Some lookup) = Inr k"
  shows "encKeyID k = r_keyID enc" "lookupKeyID k = r_keyID lookup"
    "Inr (piiField k) = subkey p enc LabelPIIField"
    "Inr (encEpochVerify k) = subkey p enc LabelEncEpochVerify"
    "Inr (lookupEpochVerify k) = subkey p lookup LabelLookupEpochVerify"
    "Inr (providerSub k) = subkey p lookup LabelProviderSub"
    "Inr (emailKey k) = subkey p lookup LabelEmail"
    "Inr (codeKey k) = subkey p lookup LabelCode"
    "Inr (sessionKey k) = subkey p lookup LabelSession"
    "Inr (refreshKey k) = subkey p lookup LabelRefresh"
  using assms by (auto simp: NewKeys_def derive_def Let_def split: if_splits sum.splits)

section \<open>A concrete instance\<close>

text \<open>
  Executable stand-ins for the primitives, on which the hypotheses above hold: the concrete
  examples of the development are evaluated with them.
\<close>

definition unarySeal :: "string \<Rightarrow> string \<Rightarrow> string \<Rightarrow> string \<Rightarrow> string" where
  "unarySeal k n m a = replicate (length m) CHR ''1'' @ CHR ''0'' # m @ a"

definition unaryOpen :: "string \<Rightarrow> string \<Rightarrow> string \<Rightarrow> string \<Rightarrow> err + string" where
  "unaryOpen k n c a =
     (let l = length (takeWhile (\<lambda>x. x = CHR ''1'') c); m = take l (drop (Suc l) c)
      in if c = unarySeal k n m a then Inr m else Inl (ErrMsg ''message authentication failed''))"

definition examplePrims :: Prims where
  "examplePrims = \<lparr>hkdfKey = (\<lambda>secret label n. Inr (take n (secret @ label))),
     hmacSum = (\<lambda>k m. m), gcmSeal = unarySeal, gcmOpen = unaryOpen\<rparr>"

lemma takeWhile_unarySeal: "takeWhile (\<lambda>x. x = CHR ''1'') (unarySeal k n m a) = replicate (length m) CHR ''1''"
  by (simp add: unarySeal_def takeWhile_append)

lemma unarySeal_inj: "unarySeal k n m a = unarySeal k n m' a' \<Longrightarrow> m = m' \<and> a = a'"
proof -
  assume eq: "unarySeal k n m a = unarySeal k n m' a'"
  then have "length m = length m'"
    by (metis length_replicate takeWhile_unarySeal)
  with eq show ?thesis by (simp add: unarySeal_def)
qed

lemma unaryOpen_seal: "unaryOpen k n (unarySeal k n m a) a' = (if a = a' then Inr m else Inl (ErrMsg ''message authentication failed''))"
proof -
  have "take (length m) (drop (Suc (length m)) (unarySeal k n m a)) = m"
    by (simp add: unarySeal_def)
  then show ?thesis
    using unarySeal_inj [of k n m a m a'] by (auto simp: unaryOpen_def takeWhile_unarySeal)
qed

lemma examplePrims_aead: "aead_ok examplePrims"
  by (simp add: aead_ok_def examplePrims_def unaryOpen_seal) (simp add: unarySeal_def)

lemma examplePrims_mac: "mac_ok examplePrims"
  by (simp add: mac_ok_def examplePrims_def)

end
