(* ===== verification/Storeq.thy ===== *)
theory Storeq
  imports Prelude
begin

text \<open>
  The database: the tables of \<^verbatim>\<open>migrations/\<close> as lists of rows (\<^verbatim>\<open>internal/db/storeq/models.go\<close>)
  and the statements of \<^verbatim>\<open>internal/db/storeq\<close> as pure functions on the database. A statement
  answers an error or a result and leaves the database unchanged when it fails. Primary keys,
  unique indexes, foreign keys and CHECK constraints that a statement of the code can violate are
  tested where Postgres tests them. A nullable column is an option; ids are UUID text.
\<close>

section \<open>Rows\<close>

text \<open>The values the code puts into audit metadata, and \<^verbatim>\<open>->>\<close> on them.\<close>

datatype jval = JStr string | JBool bool

type_synonym metadata = "(string \<times> jval) list"

fun jsonText :: "jval \<Rightarrow> string" where
  "jsonText (JStr s) = s"
| "jsonText (JBool b) = (if b then ''true'' else ''false'')"

definition jsonGet :: "metadata option \<Rightarrow> string \<Rightarrow> string option" where
  "jsonGet md key = (case md of None \<Rightarrow> None | Some kvs \<Rightarrow> map_option jsonText (map_of kvs key))"

record AuditLog =
  al_UserID :: "string option"
  al_EventType :: string
  al_IpAddress :: "string option"
  al_UserAgent :: "string option"
  al_Metadata :: "metadata option"
  al_CreatedAt :: time

record AuthRequest =
  ar_ID :: string
  ar_ClientID :: string
  ar_Resource :: "string option"
  ar_RedirectUri :: string
  ar_Scopes :: "string list"
  ar_State :: "string option"
  ar_Nonce :: "string option"
  ar_CodeChallenge :: "string option"
  ar_CodeChallengeMethod :: "string option"
  ar_Subject :: "string option"
  ar_AuthTime :: "time option"
  ar_Done :: bool
  ar_Code :: "string option"
  ar_ExpiresAt :: time
  ar_CreatedAt :: time
  ar_Prompt :: "string list"
  ar_MaxAge :: "int option"

record CryptoKeyEpoch =
  ep_KeyID :: string
  ep_Domain :: string
  ep_Status :: string
  ep_VerifyTag :: string
  ep_Version :: nat
  ep_CreatedAt :: time
  ep_ActivatedAt :: "time option"

record DeviceCode =
  dc_ID :: string
  dc_DeviceCode :: string
  dc_UserCode :: string
  dc_ClientID :: string
  dc_Scopes :: "string list"
  dc_State :: string
  dc_Subject :: "string option"
  dc_ExpiresAt :: time
  dc_AuthTime :: "time option"
  dc_CreatedAt :: time
  dc_LastPolledAt :: "time option"

record RefreshToken =
  rt_ID :: string
  rt_TokenHash :: string
  rt_FamilyID :: string
  rt_UserID :: string
  rt_ClientID :: string
  rt_Resource :: "string option"
  rt_Scopes :: "string list"
  rt_ExpiresAt :: time
  rt_RevokedAt :: "time option"
  rt_UsedAt :: "time option"
  rt_CreatedAt :: time
  rt_ParentID :: "string option"

record RefreshTokenFamily =
  rf_FamilyID :: string
  rf_UserID :: string
  rf_Reason :: string
  rf_RevokedAt :: time

record Session =
  se_ID :: string
  se_UserID :: string
  se_ExpiresAt :: time
  se_RevokedAt :: "time option"
  se_CreatedAt :: time
  se_TokenHash :: "string option"

record UserRow =
  us_ID :: string
  us_EmailVerified :: bool
  us_Status :: string
  us_DeletionRequestedAt :: "time option"
  us_DeletionScheduledAt :: "time option"
  us_DeletedAt :: "time option"
  us_CreatedAt :: time
  us_UpdatedAt :: time
  us_EmailCiphertext :: "string option"
  us_EmailNonce :: "string option"
  us_EmailEncKeyID :: "string option"
  us_EmailEncVersion :: "nat option"
  us_EmailHash :: "string option"
  us_EmailHashKeyID :: "string option"
  us_EmailHashVersion :: "nat option"
  us_NameCiphertext :: "string option"
  us_NameNonce :: "string option"
  us_NameEncKeyID :: "string option"
  us_NameEncVersion :: "nat option"

record UserIdentity =
  ui_ID :: string
  ui_UserID :: string
  ui_Provider :: string
  ui_CreatedAt :: time
  ui_ProviderSubHash :: "string option"
  ui_ProviderSubHashKeyID :: "string option"
  ui_ProviderSubHashVersion :: "nat option"
  ui_ProviderSubCiphertext :: "string option"
  ui_ProviderSubNonce :: "string option"
  ui_ProviderSubEncKeyID :: "string option"
  ui_ProviderSubEncVersion :: "nat option"
  ui_HostedDomain :: "string option"

record dbs =
  users :: "UserRow list"
  user_identities :: "UserIdentity list"
  sessions :: "Session list"
  auth_requests :: "AuthRequest list"
  device_codes :: "DeviceCode list"
  refresh_tokens :: "RefreshToken list"
  refresh_token_families :: "RefreshTokenFamily list"
  audit_log :: "AuditLog list"
  crypto_key_epochs :: "CryptoKeyEpoch list"

definition emptyDb :: dbs where
  "emptyDb = \<lparr>users = [], user_identities = [], sessions = [], auth_requests = [], device_codes = [],
     refresh_tokens = [], refresh_token_families = [], audit_log = [], crypto_key_epochs = []\<rparr>"

type_synonym 'a stmt = "dbs \<Rightarrow> (err + 'a) \<times> dbs"

section \<open>SQL helpers\<close>

definition coalesce :: "string option \<Rightarrow> string" where
  "coalesce v = (case v of None \<Rightarrow> '''' | Some s \<Rightarrow> s)"

definition nullIf :: "string \<Rightarrow> string option" where
  "nullIf v = (if v = '''' then None else Some v)"

definition before :: "time option \<Rightarrow> time \<Rightarrow> bool" where
  "before t cutoff = (case t of None \<Rightarrow> False | Some x \<Rightarrow> x < cutoff)"

text \<open>ORDER BY \<open>key\<close> DESC LIMIT 1, the later row among equals.\<close>

fun latestBy :: "('r \<Rightarrow> time) \<Rightarrow> 'r list \<Rightarrow> 'r option" where
  "latestBy f [] = None"
| "latestBy f (r # rs) =
     (case latestBy f rs of None \<Rightarrow> Some r | Some s \<Rightarrow> if f s \<ge> f r then Some s else Some r)"

definition userExists :: "dbs \<Rightarrow> string \<Rightarrow> bool" where
  "userExists d uid \<longleftrightarrow> list_ex (\<lambda>u. us_ID u = uid) (users d)"

definition epochExists :: "dbs \<Rightarrow> string option \<Rightarrow> bool" where
  "epochExists d kid = (case kid of None \<Rightarrow> True
     | Some k \<Rightarrow> list_ex (\<lambda>e. ep_KeyID e = k) (crypto_key_epochs d))"

definition hostedDomainOf :: "dbs \<Rightarrow> string \<Rightarrow> string" where
  "hostedDomainOf d uid =
     (case latestBy ui_CreatedAt (filter (\<lambda>i. ui_UserID i = uid) (user_identities d)) of
        None \<Rightarrow> '''' | Some i \<Rightarrow> coalesce (ui_HostedDomain i))"

section \<open>audit\_log.sql\<close>

definition InsertAuditLog :: "AuditLog \<Rightarrow> unit stmt" where
  [sql_defs]: "InsertAuditLog row d =
     (case al_UserID row of
        Some uid \<Rightarrow> if \<not> userExists d uid then (Inl (ForeignKeyViolation ''audit_log_user_id_fkey''), d)
                    else (Inr (), d\<lparr>audit_log := audit_log d @ [row]\<rparr>)
      | None \<Rightarrow> (Inr (), d\<lparr>audit_log := audit_log d @ [row]\<rparr>))"

definition GetAuditClientContextRow :: "string \<Rightarrow> string \<Rightarrow> (string \<times> string) stmt" where
  [sql_defs]: "GetAuditClientContextRow userID sessionID d =
     (case latestBy al_CreatedAt
             (filter (\<lambda>a. nullIf userID \<noteq> None \<and> al_UserID a = nullIf userID
                \<and> al_EventType a = ''auth.login'' \<and> jsonGet (al_Metadata a) ''session_id'' = Some sessionID)
             (audit_log d)) of
        None \<Rightarrow> (Inl ErrNoRows, d)
      | Some a \<Rightarrow> (Inr (coalesce (jsonGet (al_Metadata a) ''client_id''),
                        coalesce (jsonGet (al_Metadata a) ''client_name'')), d))"

section \<open>auth\_requests.sql\<close>

definition InsertAuthRequest :: "AuthRequest \<Rightarrow> unit stmt" where
  [sql_defs]: "InsertAuthRequest row d =
     (if list_ex (\<lambda>a. ar_ID a = ar_ID row) (auth_requests d)
      then (Inl (UniqueViolation ''auth_requests_pkey''), d)
      else (Inr (), d\<lparr>auth_requests := auth_requests d @
              [row\<lparr>ar_Subject := None, ar_AuthTime := None, ar_Done := False, ar_Code := None\<rparr>]\<rparr>))"

definition GetAuthRequestByID :: "string \<Rightarrow> AuthRequest stmt" where
  [sql_defs]: "GetAuthRequestByID rid d = (one_row (\<lambda>a. ar_ID a = rid) (auth_requests d), d)"

definition GetAuthRequestByCode :: "string \<Rightarrow> AuthRequest stmt" where
  [sql_defs]: "GetAuthRequestByCode code d = (one_row (\<lambda>a. ar_Code a = Some code) (auth_requests d), d)"

definition UpdateAuthRequestCode :: "string \<Rightarrow> string \<Rightarrow> unit stmt" where
  [sql_defs]: "UpdateAuthRequestCode code rid d =
     (Inr (), d\<lparr>auth_requests := upd_where (\<lambda>a. ar_ID a = rid) (ar_Code_update (\<lambda>_. Some code)) (auth_requests d)\<rparr>)"

definition DeleteAuthRequestByID :: "string \<Rightarrow> unit stmt" where
  [sql_defs]: "DeleteAuthRequestByID rid d =
     (Inr (), d\<lparr>auth_requests := del_where (\<lambda>a. ar_ID a = rid) (auth_requests d)\<rparr>)"

definition consumable :: "string \<Rightarrow> string \<Rightarrow> string \<Rightarrow> time \<Rightarrow> AuthRequest \<Rightarrow> bool" where
  [row_defs]: "consumable rid clientID code now a \<longleftrightarrow>
     ar_ID a = rid \<and> ar_ClientID a = clientID \<and> ar_Code a = Some code \<and> ar_Done a \<and> ar_ExpiresAt a > now"

definition ConsumeAuthCode :: "string \<Rightarrow> string \<Rightarrow> string \<Rightarrow> time \<Rightarrow> nat stmt" where
  [sql_defs]: "ConsumeAuthCode rid clientID code now d =
     (Inr (count_where (consumable rid clientID code now) (auth_requests d)),
      d\<lparr>auth_requests := del_where (consumable rid clientID code now) (auth_requests d)\<rparr>)"

text \<open>The guard compares the expiry with the authentication time, not with the clock.\<close>

definition CompleteAuthRequestByID :: "string \<Rightarrow> time \<Rightarrow> string \<Rightarrow> nat stmt" where
  [sql_defs]: "CompleteAuthRequestByID subject authTime rid d =
     (Inr (count_where (\<lambda>a. ar_ID a = rid \<and> ar_ExpiresAt a > authTime) (auth_requests d)),
      d\<lparr>auth_requests := upd_where (\<lambda>a. ar_ID a = rid \<and> ar_ExpiresAt a > authTime)
           (\<lambda>a. a\<lparr>ar_Subject := Some subject, ar_AuthTime := Some authTime, ar_Done := True\<rparr>)
           (auth_requests d)\<rparr>)"

section \<open>device\_codes.sql\<close>

definition InsertDeviceCode :: "DeviceCode \<Rightarrow> unit stmt" where
  [sql_defs]: "InsertDeviceCode row d =
     (if list_ex (\<lambda>c. dc_ID c = dc_ID row) (device_codes d)
        then (Inl (UniqueViolation ''device_codes_pkey''), d)
      else if list_ex (\<lambda>c. dc_DeviceCode c = dc_DeviceCode row) (device_codes d)
        then (Inl (UniqueViolation ''device_codes_device_code_key''), d)
      else if list_ex (\<lambda>c. dc_UserCode c = dc_UserCode row) (device_codes d)
        then (Inl (UniqueViolation ''device_codes_user_code_key''), d)
      else (Inr (), d\<lparr>device_codes := device_codes d @
              [row\<lparr>dc_State := ''pending'', dc_Subject := None, dc_AuthTime := None, dc_LastPolledAt := None\<rparr>]\<rparr>))"

definition GetDeviceAuthorizationForUpdate :: "string \<Rightarrow> string \<Rightarrow> DeviceCode stmt" where
  [sql_defs]: "GetDeviceAuthorizationForUpdate deviceCode clientID d =
     (one_row (\<lambda>c. dc_DeviceCode c = deviceCode \<and> dc_ClientID c = clientID) (device_codes d), d)"

definition UpdateDeviceCodeStateConsumedByID :: "string \<Rightarrow> unit stmt" where
  [sql_defs]: "UpdateDeviceCodeStateConsumedByID rid d =
     (Inr (), d\<lparr>device_codes := upd_where (\<lambda>c. dc_ID c = rid) (dc_State_update (\<lambda>_. ''consumed'')) (device_codes d)\<rparr>)"

definition UpdateDeviceCodeLastPolledAt :: "time \<Rightarrow> string \<Rightarrow> unit stmt" where
  [sql_defs]: "UpdateDeviceCodeLastPolledAt at rid d =
     (Inr (), d\<lparr>device_codes := upd_where (\<lambda>c. dc_ID c = rid) (dc_LastPolledAt_update (\<lambda>_. Some at)) (device_codes d)\<rparr>)"

definition GetDeviceCodeRowByUserCode :: "string \<Rightarrow> DeviceCode stmt" where
  [sql_defs]: "GetDeviceCodeRowByUserCode userCode d = (one_row (\<lambda>c. dc_UserCode c = userCode) (device_codes d), d)"

text \<open>Here too the expiry is compared with the authentication time.\<close>

definition approvable :: "string \<Rightarrow> time \<Rightarrow> DeviceCode \<Rightarrow> bool" where
  [row_defs]: "approvable userCode authTime c \<longleftrightarrow>
     dc_UserCode c = userCode \<and> dc_State c = ''pending'' \<and> dc_ExpiresAt c > authTime"

definition ApproveDeviceCodeByUserCode :: "string \<Rightarrow> time \<Rightarrow> string \<Rightarrow> nat stmt" where
  [sql_defs]: "ApproveDeviceCodeByUserCode subject authTime userCode d =
     (Inr (count_where (approvable userCode authTime) (device_codes d)),
      d\<lparr>device_codes := upd_where (approvable userCode authTime)
           (\<lambda>c. c\<lparr>dc_State := ''approved'', dc_Subject := Some subject, dc_AuthTime := Some authTime\<rparr>)
           (device_codes d)\<rparr>)"

definition DenyDeviceCodeByUserCode :: "string \<Rightarrow> unit stmt" where
  [sql_defs]: "DenyDeviceCodeByUserCode userCode d =
     (Inr (), d\<lparr>device_codes := upd_where (\<lambda>c. dc_UserCode c = userCode \<and> dc_State c = ''pending'')
           (dc_State_update (\<lambda>_. ''denied'')) (device_codes d)\<rparr>)"

section \<open>refresh\_tokens.sql\<close>

definition liveToken :: "RefreshToken \<Rightarrow> bool" where
  [row_defs]: "liveToken t \<longleftrightarrow> rt_RevokedAt t = None"

definition GetRefreshFamilyIDByTokenHash :: "string \<Rightarrow> string stmt" where
  [sql_defs]: "GetRefreshFamilyIDByTokenHash h d =
     (case one_row (\<lambda>t. rt_TokenHash t = h) (refresh_tokens d) of
        Inl e \<Rightarrow> (Inl e, d) | Inr t \<Rightarrow> (Inr (rt_FamilyID t), d))"

definition InsertRefreshToken :: "RefreshToken \<Rightarrow> unit stmt" where
  [sql_defs]: "InsertRefreshToken row d =
     (if list_ex (\<lambda>t. rt_ID t = rt_ID row) (refresh_tokens d)
        then (Inl (UniqueViolation ''refresh_tokens_pkey''), d)
      else if list_ex (\<lambda>t. rt_TokenHash t = rt_TokenHash row) (refresh_tokens d)
        then (Inl (UniqueViolation ''refresh_tokens_token_hash_key''), d)
      else if \<not> userExists d (rt_UserID row)
        then (Inl (ForeignKeyViolation ''refresh_tokens_user_id_fkey''), d)
      else (Inr (), d\<lparr>refresh_tokens := refresh_tokens d @ [row\<lparr>rt_RevokedAt := None, rt_UsedAt := None\<rparr>]\<rparr>))"

definition GetRefreshTokenForUpdateByHash :: "string \<Rightarrow> RefreshToken stmt" where
  [sql_defs]: "GetRefreshTokenForUpdateByHash h d = (one_row (\<lambda>t. rt_TokenHash t = h) (refresh_tokens d), d)"

definition revokeFamilyRows :: "time \<Rightarrow> string \<Rightarrow> RefreshToken list \<Rightarrow> RefreshToken list" where
  [row_defs]: "revokeFamilyRows now fam =
     upd_where (\<lambda>t. rt_FamilyID t = fam \<and> liveToken t) (rt_RevokedAt_update (\<lambda>_. Some now))"

definition RevokeRefreshFamily :: "time \<Rightarrow> string \<Rightarrow> nat stmt" where
  [sql_defs]: "RevokeRefreshFamily now fam d =
     (Inr (count_where (\<lambda>t. rt_FamilyID t = fam \<and> liveToken t) (refresh_tokens d)),
      d\<lparr>refresh_tokens := revokeFamilyRows now fam (refresh_tokens d)\<rparr>)"

definition GetRefreshTokenGrantByHash :: "string \<Rightarrow> string \<Rightarrow> (string \<times> string) stmt" where
  [sql_defs]: "GetRefreshTokenGrantByHash h clientID d =
     (case one_row (\<lambda>t. rt_TokenHash t = h \<and> rt_ClientID t = clientID) (refresh_tokens d) of
        Inl e \<Rightarrow> (Inl e, d) | Inr t \<Rightarrow> (Inr (rt_FamilyID t, rt_UserID t), d))"

definition GetRefreshTokenGrantByID :: "string \<Rightarrow> string \<Rightarrow> (string \<times> string) stmt" where
  [sql_defs]: "GetRefreshTokenGrantByID rid clientID d =
     (case one_row (\<lambda>t. rt_ID t = rid \<and> rt_ClientID t = clientID) (refresh_tokens d) of
        Inl e \<Rightarrow> (Inl e, d) | Inr t \<Rightarrow> (Inr (rt_FamilyID t, rt_UserID t), d))"

definition MarkRefreshTokenUsedAndRevokedByID :: "time \<Rightarrow> string \<Rightarrow> unit stmt" where
  [sql_defs]: "MarkRefreshTokenUsedAndRevokedByID now rid d =
     (Inr (), d\<lparr>refresh_tokens := upd_where (\<lambda>t. rt_ID t = rid)
          (\<lambda>t. t\<lparr>rt_UsedAt := Some now, rt_RevokedAt := Some now\<rparr>) (refresh_tokens d)\<rparr>)"

definition GetRefreshTokenInfoByHashAndClientID :: "string \<Rightarrow> string \<Rightarrow> (string \<times> string) stmt" where
  [sql_defs]: "GetRefreshTokenInfoByHashAndClientID h clientID d =
     (case one_row (\<lambda>t. rt_TokenHash t = h \<and> rt_ClientID t = clientID) (refresh_tokens d) of
        Inl e \<Rightarrow> (Inl e, d) | Inr t \<Rightarrow> (Inr (rt_UserID t, rt_ID t), d))"

definition tombstoned :: "dbs \<Rightarrow> string \<Rightarrow> bool" where
  "tombstoned d fam \<longleftrightarrow> list_ex (\<lambda>f. rf_FamilyID f = fam) (refresh_token_families d)"

definition TombstoneRefreshFamily :: "RefreshTokenFamily \<Rightarrow> nat stmt" where
  [sql_defs]: "TombstoneRefreshFamily row d =
     (if tombstoned d (rf_FamilyID row) then (Inr 0, d)
      else if \<not> userExists d (rf_UserID row)
        then (Inl (ForeignKeyViolation ''refresh_token_families_user_id_fkey''), d)
      else (Inr 1, d\<lparr>refresh_token_families := refresh_token_families d @ [row]\<rparr>))"

definition CountRefreshTokenChildren :: "string \<Rightarrow> nat stmt" where
  [sql_defs]: "CountRefreshTokenChildren parentID d =
     (Inr (count_where (\<lambda>t. rt_ParentID t = Some parentID) (refresh_tokens d)), d)"

definition HasRevokedUnredeemedRefreshTokenInFamily :: "string \<Rightarrow> bool stmt" where
  [sql_defs]: "HasRevokedUnredeemedRefreshTokenInFamily fam d =
     (Inr (list_ex (\<lambda>t. rt_FamilyID t = fam \<and> \<not> liveToken t \<and> rt_UsedAt t = None) (refresh_tokens d)), d)"

definition IsRefreshFamilyRevoked :: "string \<Rightarrow> bool stmt" where
  [sql_defs]: "IsRefreshFamilyRevoked fam d = (Inr (tombstoned d fam), d)"

text \<open>An advisory lock orders transactions; a handler here runs by itself, so it changes nothing.\<close>

definition LockRefreshFamily :: "string \<Rightarrow> unit stmt" where
  [sql_defs]: "LockRefreshFamily fam d = (Inr (), d)"

definition RevokeActiveRefreshTokensByUserID :: "time \<Rightarrow> string \<Rightarrow> unit stmt" where
  [sql_defs]: "RevokeActiveRefreshTokensByUserID now uid d =
     (Inr (), d\<lparr>refresh_tokens := upd_where (\<lambda>t. rt_UserID t = uid \<and> liveToken t)
          (rt_RevokedAt_update (\<lambda>_. Some now)) (refresh_tokens d)\<rparr>)"

section \<open>sessions.sql\<close>

definition InsertSession :: "Session \<Rightarrow> unit stmt" where
  [sql_defs]: "InsertSession row d =
     (if list_ex (\<lambda>s. se_ID s = se_ID row) (sessions d)
        then (Inl (UniqueViolation ''sessions_pkey''), d)
      else if se_TokenHash row \<noteq> None \<and> list_ex (\<lambda>s. se_TokenHash s = se_TokenHash row) (sessions d)
        then (Inl (UniqueViolation ''sessions_token_hash_key''), d)
      else if \<not> userExists d (se_UserID row)
        then (Inl (ForeignKeyViolation ''sessions_user_id_fkey''), d)
      else (Inr (), d\<lparr>sessions := sessions d @ [row\<lparr>se_RevokedAt := None\<rparr>]\<rparr>))"

definition validSession :: "string \<Rightarrow> time \<Rightarrow> Session \<Rightarrow> bool" where
  [row_defs]: "validSession h now s \<longleftrightarrow> se_TokenHash s = Some h \<and> se_ExpiresAt s > now \<and> se_RevokedAt s = None"

definition GetValidSessionUser :: "string \<Rightarrow> time \<Rightarrow> (UserRow \<times> string) stmt" where
  [sql_defs]: "GetValidSessionUser h now d =
     (case one_row (validSession h now) (sessions d) of
        Inl e \<Rightarrow> (Inl e, d)
      | Inr s \<Rightarrow> (case one_row (\<lambda>u. us_ID u = se_UserID s) (users d) of
            Inl e \<Rightarrow> (Inl e, d) | Inr u \<Rightarrow> (Inr (u, hostedDomainOf d (us_ID u)), d)))"

definition GetValidSessionCreatedAt :: "string \<Rightarrow> time \<Rightarrow> time stmt" where
  [sql_defs]: "GetValidSessionCreatedAt h now d =
     (case one_row (validSession h now) (sessions d) of
        Inl e \<Rightarrow> (Inl e, d) | Inr s \<Rightarrow> (Inr (se_CreatedAt s), d))"

definition RevokeSessionsByUserID :: "time \<Rightarrow> string \<Rightarrow> nat stmt" where
  [sql_defs]: "RevokeSessionsByUserID now uid d =
     (Inr (count_where (\<lambda>s. se_UserID s = uid \<and> se_RevokedAt s = None) (sessions d)),
      d\<lparr>sessions := upd_where (\<lambda>s. se_UserID s = uid \<and> se_RevokedAt s = None)
           (se_RevokedAt_update (\<lambda>_. Some now)) (sessions d)\<rparr>)"

section \<open>users.sql\<close>

definition InsertUser :: "UserRow \<Rightarrow> unit stmt" where
  [sql_defs]: "InsertUser row d =
     (if userExists d (us_ID row) then (Inl (UniqueViolation ''users_pkey''), d)
      else if us_EmailHash row \<noteq> None \<and> list_ex (\<lambda>u. us_EmailHash u = us_EmailHash row) (users d)
        then (Inl (UniqueViolation ''users_email_hash_key''), d)
      else if \<not> epochExists d (us_EmailEncKeyID row) \<or> \<not> epochExists d (us_EmailHashKeyID row)
           \<or> \<not> epochExists d (us_NameEncKeyID row)
        then (Inl (ForeignKeyViolation ''users_key_id_fkey''), d)
      else (Inr (), d\<lparr>users := users d @ [row\<lparr>us_Status := ''active'', us_DeletionRequestedAt := None,
              us_DeletionScheduledAt := None, us_DeletedAt := None, us_UpdatedAt := us_CreatedAt row\<rparr>]\<rparr>))"

definition InsertUserIdentity :: "UserIdentity \<Rightarrow> unit stmt" where
  [sql_defs]: "InsertUserIdentity row d =
     (if list_ex (\<lambda>i. ui_ID i = ui_ID row) (user_identities d)
        then (Inl (UniqueViolation ''user_identities_pkey''), d)
      else if ui_ProviderSubHash row \<noteq> None \<and>
           list_ex (\<lambda>i. ui_Provider i = ui_Provider row \<and> ui_ProviderSubHash i = ui_ProviderSubHash row) (user_identities d)
        then (Inl (UniqueViolation ''user_identities_provider_sub_hash_key''), d)
      else if \<not> userExists d (ui_UserID row)
        then (Inl (ForeignKeyViolation ''user_identities_user_id_fkey''), d)
      else if \<not> epochExists d (ui_ProviderSubHashKeyID row) \<or> \<not> epochExists d (ui_ProviderSubEncKeyID row)
        then (Inl (ForeignKeyViolation ''user_identities_key_id_fkey''), d)
      else (Inr (), d\<lparr>user_identities := user_identities d @ [row]\<rparr>))"

definition SetIdentityHostedDomainRow :: "string option \<Rightarrow> string \<Rightarrow> string \<Rightarrow> unit stmt" where
  [sql_defs]: "SetIdentityHostedDomainRow hdom provider subHash d =
     (Inr (), d\<lparr>user_identities := upd_where
          (\<lambda>i. ui_Provider i = provider \<and> ui_ProviderSubHash i = Some subHash \<and> ui_HostedDomain i \<noteq> hdom)
          (ui_HostedDomain_update (\<lambda>_. hdom)) (user_identities d)\<rparr>)"

definition GetUserByProviderSubHash :: "string \<Rightarrow> string \<Rightarrow> (UserRow \<times> string option) stmt" where
  [sql_defs]: "GetUserByProviderSubHash provider subHash d =
     (case one_row (\<lambda>i. ui_Provider i = provider \<and> ui_ProviderSubHash i = Some subHash) (user_identities d) of
        Inl e \<Rightarrow> (Inl e, d)
      | Inr i \<Rightarrow> (case one_row (\<lambda>u. us_ID u = ui_UserID i) (users d) of
            Inl e \<Rightarrow> (Inl e, d) | Inr u \<Rightarrow> (Inr (u, ui_HostedDomain i), d)))"

text \<open>\<^verbatim>\<open>GetUserByID\<close>, \<^verbatim>\<open>GetUserForTxByID\<close> and \<^verbatim>\<open>GetUserInfoFieldsByID\<close> select the same row.\<close>

definition GetUserRowByID :: "string \<Rightarrow> (UserRow \<times> string) stmt" where
  [sql_defs]: "GetUserRowByID uid d =
     (case one_row (\<lambda>u. us_ID u = uid) (users d) of
        Inl e \<Rightarrow> (Inl e, d) | Inr u \<Rightarrow> (Inr (u, hostedDomainOf d uid), d))"

definition userStatuses :: "string list" where
  "userStatuses = [''active'', ''disabled'', ''pending_deletion'', ''deleted'']"

definition SetUserStatusByID :: "string \<Rightarrow> time \<Rightarrow> string \<Rightarrow> unit stmt" where
  [sql_defs]: "SetUserStatusByID status now uid d =
     (if userExists d uid \<and> status \<notin> set userStatuses then (Inl (CheckViolation ''users_status_check''), d)
      else (Inr (), d\<lparr>users := upd_where (\<lambda>u. us_ID u = uid)
              (\<lambda>u. u\<lparr>us_Status := status, us_UpdatedAt := now\<rparr>) (users d)\<rparr>))"

definition RecoverPendingDeletionUserByID :: "time \<Rightarrow> string \<Rightarrow> unit stmt" where
  [sql_defs]: "RecoverPendingDeletionUserByID now uid d =
     (Inr (), d\<lparr>users := upd_where (\<lambda>u. us_ID u = uid \<and> us_Status u = ''pending_deletion'')
          (\<lambda>u. u\<lparr>us_Status := ''active'', us_DeletionRequestedAt := None, us_DeletionScheduledAt := None,
                 us_UpdatedAt := now\<rparr>) (users d)\<rparr>)"

definition MarkUserPendingDeletionByID :: "time \<Rightarrow> time \<Rightarrow> string \<Rightarrow> nat stmt" where
  [sql_defs]: "MarkUserPendingDeletionByID requestedAt scheduledAt uid d =
     (Inr (count_where (\<lambda>u. us_ID u = uid \<and> us_Status u = ''active'') (users d)),
      d\<lparr>users := upd_where (\<lambda>u. us_ID u = uid \<and> us_Status u = ''active'')
           (\<lambda>u. u\<lparr>us_Status := ''pending_deletion'', us_DeletionRequestedAt := Some requestedAt,
                  us_DeletionScheduledAt := Some scheduledAt, us_UpdatedAt := requestedAt\<rparr>) (users d)\<rparr>)"

section \<open>cleanup.sql\<close>

text \<open>Each batch DELETE removes at most \<open>batch\<close> matching rows and answers how many.\<close>

definition revokedBefore :: "time \<Rightarrow> RefreshToken \<Rightarrow> bool" where
  [row_defs]: "revokedBefore cutoff t \<longleftrightarrow> before (rt_RevokedAt t) cutoff"

definition DeleteRevokedRefreshTokensBefore :: "time \<Rightarrow> nat \<Rightarrow> nat stmt" where
  [sql_defs]: "DeleteRevokedRefreshTokensBefore cutoff batch d =
     (Inr (min batch (count_where (revokedBefore cutoff) (refresh_tokens d))),
      d\<lparr>refresh_tokens := del_limit batch (revokedBefore cutoff) (refresh_tokens d)\<rparr>)"

definition DeleteExpiredRefreshTokensBefore :: "time \<Rightarrow> nat \<Rightarrow> nat stmt" where
  [sql_defs]: "DeleteExpiredRefreshTokensBefore cutoff batch d =
     (Inr (min batch (count_where (\<lambda>t. rt_ExpiresAt t < cutoff) (refresh_tokens d))),
      d\<lparr>refresh_tokens := del_limit batch (\<lambda>t. rt_ExpiresAt t < cutoff) (refresh_tokens d)\<rparr>)"

definition deadSession :: "time \<Rightarrow> Session \<Rightarrow> bool" where
  [row_defs]: "deadSession cutoff s \<longleftrightarrow> se_ExpiresAt s < cutoff \<or> se_RevokedAt s \<noteq> None"

definition DeleteExpiredOrRevokedSessions :: "time \<Rightarrow> nat \<Rightarrow> nat stmt" where
  [sql_defs]: "DeleteExpiredOrRevokedSessions cutoff batch d =
     (Inr (min batch (count_where (deadSession cutoff) (sessions d))),
      d\<lparr>sessions := del_limit batch (deadSession cutoff) (sessions d)\<rparr>)"

definition DeleteExpiredAuthRequestsBefore :: "time \<Rightarrow> nat \<Rightarrow> nat stmt" where
  [sql_defs]: "DeleteExpiredAuthRequestsBefore cutoff batch d =
     (Inr (min batch (count_where (\<lambda>a. ar_ExpiresAt a < cutoff) (auth_requests d))),
      d\<lparr>auth_requests := del_limit batch (\<lambda>a. ar_ExpiresAt a < cutoff) (auth_requests d)\<rparr>)"

definition DeleteExpiredDeviceCodesBefore :: "time \<Rightarrow> nat \<Rightarrow> nat stmt" where
  [sql_defs]: "DeleteExpiredDeviceCodesBefore cutoff batch d =
     (Inr (min batch (count_where (\<lambda>c. dc_ExpiresAt c < cutoff) (device_codes d))),
      d\<lparr>device_codes := del_limit batch (\<lambda>c. dc_ExpiresAt c < cutoff) (device_codes d)\<rparr>)"

definition DeleteStaleRefreshTokenFamiliesBefore :: "time \<Rightarrow> nat \<Rightarrow> nat stmt" where
  [sql_defs]: "DeleteStaleRefreshTokenFamiliesBefore cutoff batch d =
     (Inr (min batch (count_where (\<lambda>f. rf_RevokedAt f < cutoff) (refresh_token_families d))),
      d\<lparr>refresh_token_families := del_limit batch (\<lambda>f. rf_RevokedAt f < cutoff) (refresh_token_families d)\<rparr>)"

definition ListPendingDeletionUserIDsBefore :: "time \<Rightarrow> string list stmt" where
  [sql_defs]: "ListPendingDeletionUserIDsBefore cutoff d =
     (Inr (map us_ID (filter (\<lambda>u. us_Status u = ''pending_deletion'' \<and> before (us_DeletionScheduledAt u) cutoff)
             (users d))), d)"

definition DeleteUserIdentitiesByUserID :: "string \<Rightarrow> unit stmt" where
  [sql_defs]: "DeleteUserIdentitiesByUserID uid d =
     (Inr (), d\<lparr>user_identities := del_where (\<lambda>i. ui_UserID i = uid) (user_identities d)\<rparr>)"

definition DeleteSessionsByUserID :: "string \<Rightarrow> unit stmt" where
  [sql_defs]: "DeleteSessionsByUserID uid d =
     (Inr (), d\<lparr>sessions := del_where (\<lambda>s. se_UserID s = uid) (sessions d)\<rparr>)"

definition DeleteRefreshTokensByUserID :: "string \<Rightarrow> unit stmt" where
  [sql_defs]: "DeleteRefreshTokensByUserID uid d =
     (Inr (), d\<lparr>refresh_tokens := del_where (\<lambda>t. rt_UserID t = uid) (refresh_tokens d)\<rparr>)"

definition deletable :: "string \<Rightarrow> time \<Rightarrow> UserRow \<Rightarrow> bool" where
  [row_defs]: "deletable uid now u \<longleftrightarrow>
     us_ID u = uid \<and> us_Status u = ''pending_deletion'' \<and> before (us_DeletionScheduledAt u) now"

definition redactUser :: "time \<Rightarrow> UserRow \<Rightarrow> UserRow" where
  [row_defs]: "redactUser now u = u\<lparr>us_EmailCiphertext := None, us_EmailNonce := None, us_EmailEncKeyID := None,
     us_EmailEncVersion := None, us_EmailHash := None, us_EmailHashKeyID := None, us_EmailHashVersion := None,
     us_NameCiphertext := None, us_NameNonce := None, us_NameEncKeyID := None, us_NameEncVersion := None,
     us_Status := ''deleted'', us_DeletedAt := Some now, us_DeletionRequestedAt := None,
     us_DeletionScheduledAt := None\<rparr>"

definition MarkUserDeletedByID :: "time \<Rightarrow> string \<Rightarrow> nat stmt" where
  [sql_defs]: "MarkUserDeletedByID now uid d =
     (Inr (count_where (deletable uid now) (users d)),
      d\<lparr>users := upd_where (deletable uid now) (redactUser now) (users d)\<rparr>)"

definition InsertDeletionCompletedAudit :: "string \<Rightarrow> string \<Rightarrow> time \<Rightarrow> unit stmt" where
  [sql_defs]: "InsertDeletionCompletedAudit uid reason now d =
     InsertAuditLog \<lparr>al_UserID = nullIf uid, al_EventType = ''auth.deletion_completed'', al_IpAddress = None,
       al_UserAgent = None, al_Metadata = Some [(''reason'', JStr reason)], al_CreatedAt = now\<rparr> d"

definition RedactAuditLogPIIRows :: "string \<Rightarrow> nat stmt" where
  [sql_defs]: "RedactAuditLogPIIRows uid d =
     (let P = (\<lambda>a. nullIf uid \<noteq> None \<and> al_UserID a = nullIf uid \<and> (al_IpAddress a \<noteq> None \<or> al_UserAgent a \<noteq> None))
      in (Inr (count_where P (audit_log d)),
          d\<lparr>audit_log := upd_where P (\<lambda>a. a\<lparr>al_IpAddress := None, al_UserAgent := None\<rparr>) (audit_log d)\<rparr>))"

definition anonymizeRow :: "AuditLog \<Rightarrow> AuditLog" where
  [row_defs]: "anonymizeRow a = a\<lparr>al_UserID := None, al_IpAddress := None, al_UserAgent := None\<rparr>"

definition hasTrace :: "AuditLog \<Rightarrow> bool" where
  [row_defs]: "hasTrace a \<longleftrightarrow> al_UserID a \<noteq> None \<or> al_IpAddress a \<noteq> None \<or> al_UserAgent a \<noteq> None"

definition AnonymizeAuditLogBefore :: "bool \<Rightarrow> time \<Rightarrow> nat stmt" where
  [sql_defs]: "AnonymizeAuditLogBefore admin cutoff d =
     (let P = (\<lambda>a. al_CreatedAt a < cutoff \<and> goHasPrefix (al_EventType a) ''admin.'' = admin \<and> hasTrace a)
      in (Inr (count_where P (audit_log d)), d\<lparr>audit_log := upd_where P anonymizeRow (audit_log d)\<rparr>))"

section \<open>crypto\_key\_epochs.sql\<close>

definition keyIDChar :: "char \<Rightarrow> bool" where
  "keyIDChar c \<longleftrightarrow> (let n = (of_char c :: nat) in (48 \<le> n \<and> n \<le> 57) \<or> (65 \<le> n \<and> n \<le> 90) \<or> (97 \<le> n \<and> n \<le> 122))"

definition keyIDWellFormed :: "string \<Rightarrow> bool" where
  "keyIDWellFormed k \<longleftrightarrow> k \<noteq> '''' \<and> length k \<le> 127 \<and> keyIDChar (hd k)
     \<and> list_all (\<lambda>c. keyIDChar c \<or> c \<in> set ''._-'') (tl k)"

definition GetActiveEpoch :: "string \<Rightarrow> CryptoKeyEpoch stmt" where
  [sql_defs]: "GetActiveEpoch domain d =
     (one_row (\<lambda>e. ep_Domain e = domain \<and> ep_Status e = ''active'') (crypto_key_epochs d), d)"

definition InsertActiveEpoch :: "string \<Rightarrow> string \<Rightarrow> string \<Rightarrow> time \<Rightarrow> unit stmt" where
  [sql_defs]: "InsertActiveEpoch keyID domain tag now d =
     (if domain \<notin> {''enc'', ''lookup''} \<or> \<not> keyIDWellFormed keyID
        then (Inl (CheckViolation ''crypto_key_epochs_check''), d)
      else if list_ex (\<lambda>e. ep_KeyID e = keyID \<or> (ep_Domain e = domain \<and> ep_Status e = ''active'')) (crypto_key_epochs d)
        then (Inr (), d)
      else (Inr (), d\<lparr>crypto_key_epochs := crypto_key_epochs d @ [\<lparr>ep_KeyID = keyID, ep_Domain = domain,
              ep_Status = ''active'', ep_VerifyTag = tag, ep_Version = 1, ep_CreatedAt = now, ep_ActivatedAt = Some now\<rparr>]\<rparr>))"

section \<open>Lemmas\<close>

lemma latestBy_in: "latestBy f rs = Some r \<Longrightarrow> r \<in> set rs"
  by (induction rs arbitrary: r) (auto split: option.splits if_splits)

lemma latestBy_max: "latestBy f rs = Some r \<Longrightarrow> s \<in> set rs \<Longrightarrow> f s \<le> f r"
proof (induction rs arbitrary: r s)
  case (Cons a rs)
  show ?case
  proof (cases "latestBy f rs")
    case None
    then have "rs = []" by (cases rs) (auto split: option.splits if_splits)
    with Cons.prems None show ?thesis by simp
  next
    case (Some b)
    with Cons.IH [OF Some] Cons.prems show ?thesis by (fastforce split: if_splits)
  qed
qed simp

text \<open>The schema's keys: what every statement keeps.\<close>

definition keys_wf :: "dbs \<Rightarrow> bool" where
  "keys_wf d \<longleftrightarrow> distinct (map us_ID (users d)) \<and> distinct (map ar_ID (auth_requests d))
     \<and> distinct (map dc_ID (device_codes d)) \<and> distinct (map dc_DeviceCode (device_codes d))
     \<and> distinct (map dc_UserCode (device_codes d)) \<and> distinct (map rt_ID (refresh_tokens d))
     \<and> distinct (map rt_TokenHash (refresh_tokens d)) \<and> distinct (map rf_FamilyID (refresh_token_families d))
     \<and> distinct (map se_ID (sessions d)) \<and> distinct (map ui_ID (user_identities d))"

lemma keys_wf_empty: "keys_wf emptyDb"
  by (simp add: keys_wf_def emptyDb_def)

end
