(* ===== verification/Store_Base.thy ===== *)
theory Store_Base
  imports Clients Crypto Storeq
begin

text \<open>
  What the operations of \<^verbatim>\<open>internal/storage\<close> share: the state they act on, the connection and
  transaction primitives, the \<open>Storage\<close> struct, the audit logger (\<^verbatim>\<open>audit.go\<close>,
  \<^verbatim>\<open>audit_logger.go\<close>) and the client policy check of the token paths (\<^verbatim>\<open>client_access.go\<close>).

  The world holds the committed database, the working copy of an open transaction, the clock, a
  counter that feeds the id generator and the outcomes of the database calls to come. Each call
  consumes one outcome: it succeeds, it fails without effect, or it takes effect but the reply is
  lost; an empty list is a healthy database. A handler runs at one instant of the clock.
\<close>

section \<open>The world\<close>

datatype outcome = Fine | Refused | LostReply

record world =
  w_db :: dbs
  w_tx :: "dbs option"
  w_now :: time
  w_idc :: nat
  w_faults :: "outcome list"

type_synonym 'a act = "(world, err + 'a) state"

definition nextOutcome :: "world \<Rightarrow> outcome \<times> world" where
  "nextOutcome w = (case w_faults w of [] \<Rightarrow> (Fine, w) | f # fs \<Rightarrow> (f, w\<lparr>w_faults := fs\<rparr>))"

text \<open>\<open>attempt m f\<close> is \<^verbatim>\<open>x, err := m; if err != nil { return err }; f(x)\<close>.\<close>

definition ok :: "'a \<Rightarrow> 'a act" where
  "ok x = State_Monad.return (Inr x)"

definition fail :: "err \<Rightarrow> 'a act" where
  "fail e = State_Monad.return (Inl e)"

definition attemptOr :: "'a act \<Rightarrow> (err \<Rightarrow> 'b act) \<Rightarrow> ('a \<Rightarrow> 'b act) \<Rightarrow> 'b act" where
  "attemptOr m h f = do { r \<leftarrow> m; (case r of Inl e \<Rightarrow> h e | Inr x \<Rightarrow> f x) }"

definition attempt :: "'a act \<Rightarrow> ('a \<Rightarrow> 'b act) \<Rightarrow> 'b act" where
  "attempt m f = attemptOr m fail f"

text \<open>A pure step that may fail.\<close>

definition liftE :: "err + 'a \<Rightarrow> 'a act" where
  "liftE r = State_Monad.return r"

definition clockNow :: "time act" where
  "clockNow = State (\<lambda>w. (Inr (w_now w), w))"

text \<open>\<open>DBc\<close> is a pooled connection (autocommit), \<open>TXc\<close> the open transaction. A statement on
  another connection while a transaction is open is committed by itself; the code does this only
  for audit inserts, which the transaction (READ COMMITTED) sees too.\<close>

datatype conn = DBc | TXc

definition exec :: "conn \<Rightarrow> 'a stmt \<Rightarrow> 'a act" where
  "exec c q = State (\<lambda>w. case nextOutcome w of (out, w') \<Rightarrow>
     (case c of
        DBc \<Rightarrow>
          (case out of
             Refused \<Rightarrow> (Inl ErrDb, w')
           | _ \<Rightarrow> (if out = Fine then fst (q (w_db w')) else Inl ErrDb,
                  w'\<lparr>w_db := snd (q (w_db w')), w_tx := map_option (\<lambda>t. snd (q t)) (w_tx w')\<rparr>))
      | TXc \<Rightarrow>
          (case w_tx w' of
             None \<Rightarrow> (Inl ErrTxDone, w')
           | Some t \<Rightarrow>
               (case out of
                  Refused \<Rightarrow> (Inl ErrDb, w')
                | _ \<Rightarrow> (if out = Fine then fst (q t) else Inl ErrDb, w'\<lparr>w_tx := Some (snd (q t))\<rparr>)))))"

definition beginTx :: "unit act" where
  "beginTx = State (\<lambda>w. case nextOutcome w of (out, w') \<Rightarrow>
     (if out = Fine then (Inr (), w'\<lparr>w_tx := Some (w_db w')\<rparr>) else (Inl ErrDb, w')))"

definition commitTx :: "unit act" where
  "commitTx = State (\<lambda>w. case nextOutcome w of (out, w') \<Rightarrow>
     (case w_tx w' of
        None \<Rightarrow> (Inl ErrTxDone, w')
      | Some t \<Rightarrow>
          (case out of
             Fine \<Rightarrow> (Inr (), w'\<lparr>w_db := t, w_tx := None\<rparr>)
           | Refused \<Rightarrow> (Inl ErrDb, w'\<lparr>w_tx := None\<rparr>)
           | LostReply \<Rightarrow> (Inl ErrDb, w'\<lparr>w_db := t, w_tx := None\<rparr>))))"

definition rollbackTx :: "(world, unit) state" where
  "rollbackTx = State (\<lambda>w. ((), w\<lparr>w_tx := None\<rparr>))"

text \<open>\<^verbatim>\<open>tx, err := db.BeginTx(...); defer tx.Rollback()\<close> around a body.\<close>

definition withTx :: "'a act \<Rightarrow> 'a act" where
  "withTx body = attempt beginTx (\<lambda>_. do { r \<leftarrow> body; rollbackTx; State_Monad.return r })"

section \<open>Models\<close>

record User =
  u_ID :: string
  u_Email :: string
  u_EmailVerified :: bool
  u_Name :: string
  u_Status :: string
  u_HostedDomain :: string
  u_CreatedAt :: time
  u_UpdatedAt :: time

text \<open>A context carries the request's resource indicator and the client info.\<close>

record Ctx =
  x_Resource :: string
  x_IP :: string
  x_UserAgent :: string

definition WithResource :: "Ctx \<Rightarrow> string \<Rightarrow> Ctx" where
  "WithResource ctx resource =
     (if goTrimSpace resource = '''' then ctx else ctx\<lparr>x_Resource := goTrimSpace resource\<rparr>)"

definition ResourceFromContext :: "Ctx \<Rightarrow> string" where
  "ResourceFromContext ctx = goTrimSpace (x_Resource ctx)"

text \<open>The values of the form field \<^verbatim>\<open>resource\<close>, or the error of \<^verbatim>\<open>ParseForm\<close>; \<^const>\<open>None\<close> is a nil request.\<close>

definition ResourceFromRequestStrict :: "(err + string list) option \<Rightarrow> err + string" where
  "ResourceFromRequestStrict r =
     (case r of None \<Rightarrow> Inr ''''
      | Some (Inl e) \<Rightarrow> Inl e
      | Some (Inr values) \<Rightarrow>
          if length values > 1 then Inl (ErrMsg ''multiple resource parameters not permitted'')
          else (case values of [] \<Rightarrow> Inr '''' | v # _ \<Rightarrow> Inr (goTrimSpace v)))"

section \<open>Storage\<close>

text \<open>
  The \<^verbatim>\<open>Storage\<close> struct; \<open>s_stateChecker\<close> answers \<^const>\<open>None\<close> for a nil error. The fields after
  \<open>s_keys\<close> are code outside the repository: the id generator's randomness, address parsing,
  \<^verbatim>\<open>uuid.Parse\<close>, Unicode normalization and case folding, bcrypt.
\<close>

record Storage =
  s_stateChecker :: "(User \<Rightarrow> err option) option"
  s_accessTokenTTL :: duration
  s_refreshTokenTTL :: duration
  s_devicePollInterval :: duration
  s_refreshReuseGrace :: duration
  s_registry :: Registry
  s_resourcePolicy :: ResourceBindingPolicy
  s_keys :: "Keys option"
  s_prims :: Prims
  s_uuid :: "nat \<Rightarrow> string"
  s_opaque :: "nat \<Rightarrow> err + string"
  s_nonce :: "nat \<Rightarrow> err + string"
  s_parseAddr :: "string \<Rightarrow> string option"
  s_splitHostPort :: "string \<Rightarrow> string option"
  s_uuidParse :: "string \<Rightarrow> bool"
  s_nfc :: "string \<Rightarrow> string"
  s_toLower :: "string \<Rightarrow> string"
  s_bcrypt :: "string \<Rightarrow> string \<Rightarrow> err option"

definition SetDevicePollInterval :: "Storage \<Rightarrow> duration \<Rightarrow> Storage" where
  "SetDevicePollInterval st d = st\<lparr>s_devicePollInterval := d\<rparr>"

definition SetRefreshReuseGrace :: "Storage \<Rightarrow> duration \<Rightarrow> Storage" where
  "SetRefreshReuseGrace st d = st\<lparr>s_refreshReuseGrace := d\<rparr>"

definition SetKeys :: "Storage \<Rightarrow> Keys option \<Rightarrow> Storage" where
  "SetKeys st k = st\<lparr>s_keys := k\<rparr>"

definition LoadClients :: "uri_parser \<Rightarrow> Storage \<Rightarrow> ConfigEntry list \<Rightarrow> Storage" where
  "LoadClients parseURI st cs = st\<lparr>s_registry := Load parseURI (s_registry st) cs\<rparr>"

definition SetClientResolutionPolicy :: "Storage \<Rightarrow> resolver option \<Rightarrow> Storage" where
  "SetClientResolutionPolicy st p = st\<lparr>s_registry := SetPolicy (s_registry st) p\<rparr>"

definition SetResourceBindingPolicy :: "Storage \<Rightarrow> ResourceBindingPolicy option \<Rightarrow> Storage" where
  "SetResourceBindingPolicy st p =
     (case p of None \<Rightarrow> st\<lparr>s_resourcePolicy := coreResourceBindingPolicy\<rparr> | Some q \<Rightarrow> st\<lparr>s_resourcePolicy := q\<rparr>)"

definition ResolveClient :: "Storage \<Rightarrow> resolver" where
  "ResolveClient st clientID =
     (case Resolve (s_registry st) clientID of
        Inl e \<Rightarrow> if errIs e clientNotFound then Inl ErrNotFound else Inl e
      | Inr m \<Rightarrow> Inr m)"

definition staticClientName :: "Storage \<Rightarrow> string \<Rightarrow> string" where
  "staticClientName st clientID = StaticName (s_registry st) clientID"

text \<open>Dereferencing nil keys panics; the deferred rollback runs.\<close>

definition withKeys :: "Storage \<Rightarrow> (Keys \<Rightarrow> 'a act) \<Rightarrow> 'a act" where
  "withKeys st f = (case s_keys st of None \<Rightarrow> fail NilDeref | Some k \<Rightarrow> f k)"

definition codeAtRest :: "Storage \<Rightarrow> string \<Rightarrow> err + string" where
  "codeAtRest st code = (case s_keys st of None \<Rightarrow> Inl NilDeref | Some k \<Rightarrow> Inr (CodeHash (s_prims st) k code))"

definition sessionAtRest :: "Storage \<Rightarrow> string \<Rightarrow> err + string" where
  "sessionAtRest st token = (case s_keys st of None \<Rightarrow> Inl NilDeref | Some k \<Rightarrow> Inr (SessionHash (s_prims st) k token))"

definition refreshAtRest :: "Storage \<Rightarrow> string \<Rightarrow> err + string" where
  "refreshAtRest st token = (case s_keys st of None \<Rightarrow> Inl NilDeref | Some k \<Rightarrow> Inr (RefreshHash (s_prims st) k token))"

definition NewUUID :: "Storage \<Rightarrow> string act" where
  "NewUUID st = State (\<lambda>w. (Inr (s_uuid st (w_idc w)), w\<lparr>w_idc := Suc (w_idc w)\<rparr>))"

definition NewOpaqueToken :: "Storage \<Rightarrow> string act" where
  "NewOpaqueToken st = State (\<lambda>w. (s_opaque st (w_idc w), w\<lparr>w_idc := Suc (w_idc w)\<rparr>))"

text \<open>The next 12 bytes of \<^verbatim>\<open>rand.Reader\<close>, read by \<open>Encrypt\<close>.\<close>

definition readNonce :: "Storage \<Rightarrow> (err + string) act" where
  "readNonce st = State (\<lambda>w. (Inr (s_nonce st (w_idc w)), w\<lparr>w_idc := Suc (w_idc w)\<rparr>))"

section \<open>Audit log\<close>

definition EventAuthRefreshReuseDetected :: string where "EventAuthRefreshReuseDetected = ''auth.refresh_reuse_detected''"
definition EventAuthRefreshFamilyRevoked :: string where "EventAuthRefreshFamilyRevoked = ''auth.refresh_family_revoked''"
definition EventAuthDeletionRequested :: string where "EventAuthDeletionRequested = ''auth.deletion_requested''"
definition EventAuthDeletionCancelled :: string where "EventAuthDeletionCancelled = ''auth.deletion_cancelled''"
definition EventAuthDeletionCompleted :: string where "EventAuthDeletionCompleted = ''auth.deletion_completed''"
definition EventAuthLogout :: string where "EventAuthLogout = ''auth.logout''"
definition EventAuthTokenRevoked :: string where "EventAuthTokenRevoked = ''auth.token_revoked''"
definition EventAuthChannelMismatch :: string where "EventAuthChannelMismatch = ''auth.channel_mismatch''"
definition EventAuthDeviceCodeIssued :: string where "EventAuthDeviceCodeIssued = ''auth.device_code_issued''"
definition EventAuthRefreshReuseGrace :: string where "EventAuthRefreshReuseGrace = ''auth.refresh_reuse_grace''"
definition EventAuthAccessDenied :: string where "EventAuthAccessDenied = ''auth.access_denied''"

lemmas event_defs = EventAuthRefreshReuseDetected_def EventAuthRefreshFamilyRevoked_def
  EventAuthDeletionRequested_def EventAuthDeletionCancelled_def EventAuthDeletionCompleted_def
  EventAuthLogout_def EventAuthTokenRevoked_def EventAuthChannelMismatch_def
  EventAuthDeviceCodeIssued_def EventAuthRefreshReuseGrace_def EventAuthAccessDenied_def

definition auditMetadataAllowlist :: "(string \<times> string list) list" where
  "auditMetadataAllowlist =
     [(EventAuthChannelMismatch, [''expected_channel'', ''actual_channel'', ''client_id'', ''client_name'']),
      (''auth.login'', [''channel'', ''session_id'', ''client_id'', ''client_name'', ''reused_session'', ''signup'']),
      (''auth.signup'', [''channel'', ''client_id'', ''client_name'']),
      (EventAuthAccessDenied, [''client_id'', ''client_name'', ''channel'', ''reason'', ''domain'', ''signup'']),
      (''auth.inactive_user'', [''status'', ''channel'', ''phase'']),
      (EventAuthDeletionRequested, [''channel'', ''client_id'', ''client_name'', ''session_id'']),
      (EventAuthDeletionCancelled, [''channel'', ''client_id'', ''client_name'', ''session_id'']),
      (EventAuthDeletionCompleted, [''reason'']),
      (''auth.device_denied'', [''client_id'', ''client_name'']),
      (''auth.device_approved'', [''client_id'', ''client_name'']),
      (EventAuthDeviceCodeIssued, [''client_id'', ''client_name'']),
      (EventAuthLogout, [''client_id'', ''client_name'']),
      (EventAuthTokenRevoked, [''client_id'', ''client_name'']),
      (EventAuthRefreshReuseDetected, [''family_id'']),
      (EventAuthRefreshFamilyRevoked, [''family_id'']),
      (EventAuthRefreshReuseGrace, [''family_id'', ''outcome''])]"

definition firstJust :: "string option \<Rightarrow> string option \<Rightarrow> string option" where
  "firstJust a b = (case a of None \<Rightarrow> b | Some x \<Rightarrow> Some x)"

definition normalizeIPAddress :: "Storage \<Rightarrow> string \<Rightarrow> string" where
  "normalizeIPAddress st raw =
     (let addr0 = goTrimSpace raw
      in if addr0 = '''' then ''''
         else
           (let addr = (if CHR '','' \<in> set addr0 then goTrimSpace (takeWhile (\<lambda>c. c \<noteq> CHR '','') addr0) else addr0);
                bare = s_parseAddr st addr;
                bracketed = (if goHasPrefix addr ''['' \<and> goHasSuffix addr '']''
                             then s_parseAddr st (goTrimPrefix (butlast addr) ''['') else None);
                hostPort = (case s_splitHostPort st addr of None \<Rightarrow> None | Some host \<Rightarrow> s_parseAddr st host)
            in (case firstJust bare (firstJust bracketed hostPort) of None \<Rightarrow> '''' | Some ip \<Rightarrow> ip)))"

text \<open>Metadata is a map; here its entries in the order the code lists them.\<close>

definition keepAllowed :: "string list \<Rightarrow> metadata \<Rightarrow> metadata" where
  "keepAllowed allowed md = filter (\<lambda>(k, v). k \<in> set allowed) md"

definition hashSessionID :: "(string \<Rightarrow> err + string) \<Rightarrow> metadata \<Rightarrow> err + metadata" where
  "hashSessionID sessionHash md =
     (case map_of md ''session_id'' of
        Some (JStr raw) \<Rightarrow>
          if raw = '''' then Inr md
          else (case sessionHash raw of Inl e \<Rightarrow> Inl e
                | Inr h \<Rightarrow> Inr (map (\<lambda>(k, v). if k = ''session_id'' then (k, JStr h) else (k, v)) md))
      | _ \<Rightarrow> Inr md)"

definition sanitize :: "Storage \<Rightarrow> string \<Rightarrow> metadata \<Rightarrow> err + metadata option" where
  "sanitize st eventType md =
     (if md = [] then Inr None
      else (case map_of auditMetadataAllowlist eventType of
          None \<Rightarrow> Inr None
        | Some allowed \<Rightarrow>
            if allowed = [] then Inr None
            else (case hashSessionID (sessionAtRest st) (keepAllowed allowed md) of
                Inl e \<Rightarrow> Inl e
              | Inr md' \<Rightarrow> if md' = [] then Inr None else Inr (Some md'))))"

definition prepareRow :: "Storage \<Rightarrow> time \<Rightarrow> string option \<Rightarrow> string \<Rightarrow> string \<Rightarrow> string \<Rightarrow> metadata \<Rightarrow> err + AuditLog" where
  "prepareRow st at userID eventType ipAddress userAgent md =
     (case sanitize st eventType md of Inl e \<Rightarrow> Inl e
      | Inr md' \<Rightarrow> Inr \<lparr>al_UserID = nullIf (coalesce userID), al_EventType = eventType,
          al_IpAddress = nullIf (normalizeIPAddress st ipAddress), al_UserAgent = nullIf userAgent,
          al_Metadata = md', al_CreatedAt = at\<rparr>)"

text \<open>\<^verbatim>\<open>Log\<close> swallows a failed insert; a panic of the session hash still unwinds.\<close>

definition AuditLogEvent :: "Storage \<Rightarrow> string option \<Rightarrow> string \<Rightarrow> string \<Rightarrow> string \<Rightarrow> metadata \<Rightarrow> unit act" where
  "AuditLogEvent st userID eventType ipAddress userAgent md =
     attempt clockNow (\<lambda>at.
     attempt (liftE (prepareRow st at userID eventType ipAddress userAgent md)) (\<lambda>row.
     attemptOr (exec DBc (InsertAuditLog row)) (\<lambda>_. ok ()) ok))"

definition writeAuditLogTx :: "Storage \<Rightarrow> string option \<Rightarrow> string \<Rightarrow> string \<Rightarrow> string \<Rightarrow> metadata \<Rightarrow> unit act" where
  "writeAuditLogTx st userID eventType ipAddress userAgent md =
     attempt clockNow (\<lambda>at.
     attempt (liftE (prepareRow st at userID eventType ipAddress userAgent md)) (\<lambda>row.
     exec TXc (InsertAuditLog row)))"

definition auditClientName :: "Storage \<Rightarrow> string \<Rightarrow> string" where
  "auditClientName st clientID =
     (if clientID = '''' then ''''
      else (case ResolveClient st clientID of Inl _ \<Rightarrow> '''' | Inr c \<Rightarrow> c_Name c))"

definition GetAuditClientContextBySessionID :: "Storage \<Rightarrow> string \<Rightarrow> string \<Rightarrow> (string \<times> string) act" where
  "GetAuditClientContextBySessionID st userID sessionID =
     attempt (liftE (sessionAtRest st sessionID)) (\<lambda>h.
     attemptOr (exec DBc (GetAuditClientContextRow userID h))
       (\<lambda>e. if e = ErrNoRows then fail ErrNotFound else fail e) ok)"

section \<open>The client policy on the token paths\<close>

definition AccessSubject :: "User \<Rightarrow> Subject" where
  "AccessSubject u = \<lparr>Email = u_Email u, EmailVerified = u_EmailVerified u, HostedDomain = u_HostedDomain u\<rparr>"

definition AccessDeniedAuditMetadata :: "string \<Rightarrow> string \<Rightarrow> string \<Rightarrow> string \<Rightarrow> string \<Rightarrow> bool \<Rightarrow> metadata" where
  "AccessDeniedAuditMetadata clientID clientName channel reason email signup =
     [(''client_id'', JStr clientID), (''client_name'', JStr clientName), (''channel'', JStr channel),
      (''reason'', JStr reason), (''signup'', JBool signup)]
     @ (let domain = EmailDomain email in if domain \<noteq> '''' then [(''domain'', JStr domain)] else [])"

definition errNotAllowed :: err where
  "errNotAllowed = oidcErr ''invalid_grant'' ''account is not allowed to use this client''"

definition enforceStaticClientAccess ::
  "Storage \<Rightarrow> Ctx \<Rightarrow> Policy option \<Rightarrow> string \<Rightarrow> string \<Rightarrow> User \<Rightarrow> unit act" where
  "enforceStaticClientAccess st ctx access clientID channel user =
     (case Evaluate access (AccessSubject user) of
        Allow \<Rightarrow> ok ()
      | Refuse reason \<Rightarrow>
          attempt (AuditLogEvent st (Some (u_ID user)) EventAuthAccessDenied (x_IP ctx) (x_UserAgent ctx)
             (AccessDeniedAuditMetadata clientID (staticClientName st clientID) channel reason (u_Email user) False))
            (\<lambda>_. fail errNotAllowed))"

section \<open>Lemmas: running actions\<close>

named_theorems run_simps \<open>how actions run\<close>

lemma run_ok [run_simps, simp]: "run_state (ok x) w = (Inr x, w)"
  by (simp add: ok_def)

lemma run_fail [run_simps, simp]: "run_state (fail e) w = (Inl e, w)"
  by (simp add: fail_def)

lemma run_liftE [run_simps, simp]: "run_state (liftE r) w = (r, w)"
  by (simp add: liftE_def)

lemma run_clockNow [run_simps, simp]: "run_state clockNow w = (Inr (w_now w), w)"
  by (simp add: clockNow_def)

lemma run_attemptOr [run_simps]:
  "run_state (attemptOr m h f) w =
     (case run_state m w of (Inl e, w') \<Rightarrow> run_state (h e) w' | (Inr x, w') \<Rightarrow> run_state (f x) w')"
  by (simp add: attemptOr_def split: prod.splits sum.splits)

lemma run_attempt [run_simps]:
  "run_state (attempt m f) w =
     (case run_state m w of (Inl e, w') \<Rightarrow> (Inl e, w') | (Inr x, w') \<Rightarrow> run_state (f x) w')"
  by (simp add: attempt_def run_attemptOr split: prod.splits sum.splits)

lemma run_NewUUID [run_simps, simp]: "run_state (NewUUID st) w = (Inr (s_uuid st (w_idc w)), w\<lparr>w_idc := Suc (w_idc w)\<rparr>)"
  by (simp add: NewUUID_def)

lemma run_NewOpaqueToken [run_simps, simp]:
  "run_state (NewOpaqueToken st) w = (s_opaque st (w_idc w), w\<lparr>w_idc := Suc (w_idc w)\<rparr>)"
  by (simp add: NewOpaqueToken_def)

lemma run_readNonce [run_simps, simp]:
  "run_state (readNonce st) w = (Inr (s_nonce st (w_idc w)), w\<lparr>w_idc := Suc (w_idc w)\<rparr>)"
  by (simp add: readNonce_def)

lemma run_rollbackTx [run_simps, simp]: "run_state rollbackTx w = ((), w\<lparr>w_tx := None\<rparr>)"
  by (simp add: rollbackTx_def)

lemma run_withTx [run_simps]:
  "run_state (withTx body) w =
     (case run_state beginTx w of (Inl e, w') \<Rightarrow> (Inl e, w')
      | (Inr _, w') \<Rightarrow> (case run_state body w' of (r, w'') \<Rightarrow> (r, w''\<lparr>w_tx := None\<rparr>)))"
  by (simp add: withTx_def run_attempt split: prod.splits sum.splits)

lemma world_tx_same [simp]: "w_tx w = x \<Longrightarrow> w\<lparr>w_tx := x\<rparr> = w"
  by simp

lemma world_db_same [simp]: "w\<lparr>w_db := w_db w\<rparr> = w"
  by simp

lemma nextOutcome_healthy [simp]: "w_faults w = [] \<Longrightarrow> nextOutcome w = (Fine, w)"
  by (simp add: nextOutcome_def)

lemma run_exec_DB_healthy [simp]:
  "w_faults w = [] \<Longrightarrow> w_tx w = None \<Longrightarrow>
   run_state (exec DBc q) w = (fst (q (w_db w)), w\<lparr>w_db := snd (q (w_db w))\<rparr>)"
  by (cases w) (simp add: exec_def)

lemma run_exec_TX_healthy [simp]:
  "w_faults w = [] \<Longrightarrow> w_tx w = Some t \<Longrightarrow>
   run_state (exec TXc q) w = (fst (q t), w\<lparr>w_tx := Some (snd (q t))\<rparr>)"
  by (simp add: exec_def)

lemma run_beginTx_healthy [simp]:
  "w_faults w = [] \<Longrightarrow> run_state beginTx w = (Inr (), w\<lparr>w_tx := Some (w_db w)\<rparr>)"
  by (simp add: beginTx_def)

lemma run_commitTx_healthy [simp]:
  "w_faults w = [] \<Longrightarrow> w_tx w = Some t \<Longrightarrow> run_state commitTx w = (Inr (), w\<lparr>w_db := t, w_tx := None\<rparr>)"
  by (simp add: commitTx_def)

section \<open>Lemmas: what every action keeps\<close>

text \<open>\<open>keeps\<close> rules for the combinators; an operation is shown to keep an invariant by applying them.\<close>

lemma keeps_ok [inv_intro]: "keeps I (ok x)"
  by (simp add: ok_def keeps_return)

lemma keeps_fail [inv_intro]: "keeps I (fail e)"
  by (simp add: fail_def keeps_return)

lemma keeps_liftE [inv_intro]: "keeps I (liftE r)"
  by (simp add: liftE_def keeps_return)

lemma keeps_clockNow [inv_intro]: "keeps I clockNow"
  by (rule keepsI) simp

lemma keeps_attemptOr [inv_intro]:
  "keeps I m \<Longrightarrow> (\<And>e. keeps I (h e)) \<Longrightarrow> (\<And>x. keeps I (f x)) \<Longrightarrow> keeps I (attemptOr m h f)"
  unfolding attemptOr_def by (rule keeps_bind) (auto intro: keeps_case_sum)

lemma keeps_attempt [inv_intro]: "keeps I m \<Longrightarrow> (\<And>x. keeps I (f x)) \<Longrightarrow> keeps I (attempt m f)"
  unfolding attempt_def by (rule keeps_attemptOr) (auto intro: keeps_fail)

lemma keeps_withKeys [inv_intro]: "(\<And>k. keeps I (f k)) \<Longrightarrow> keeps I (withKeys st f)"
  unfolding withKeys_def by (rule keeps_case_option) (auto intro: keeps_fail)

lemma keeps_withTx [inv_intro]:
  "keeps I beginTx \<Longrightarrow> keeps I body \<Longrightarrow> keeps I rollbackTx \<Longrightarrow> keeps I (withTx body)"
  unfolding withTx_def by (rule keeps_attempt) (auto intro!: inv_intro)

text \<open>An invariant of the committed database and of an open transaction's copy.\<close>

definition dbInv :: "(dbs \<Rightarrow> bool) \<Rightarrow> world \<Rightarrow> bool" where
  "dbInv J w \<longleftrightarrow> J (w_db w) \<and> (\<forall>t. w_tx w = Some t \<longrightarrow> J t)"

definition stmt_keeps :: "(dbs \<Rightarrow> bool) \<Rightarrow> 'a stmt \<Rightarrow> bool" where
  "stmt_keeps J q \<longleftrightarrow> (\<forall>d. J d \<longrightarrow> J (snd (q d)))"

lemma nextOutcome_frame [simp]:
  "nextOutcome w = (out, w') \<Longrightarrow> w_db w' = w_db w \<and> w_tx w' = w_tx w \<and> w_now w' = w_now w \<and> w_idc w' = w_idc w"
  by (auto simp: nextOutcome_def split: list.splits)

lemma dbInv_exec [inv_intro]: "stmt_keeps J q \<Longrightarrow> keeps (dbInv J) (exec c q)"
  by (rule keepsI)
     (auto simp: exec_def dbInv_def stmt_keeps_def split: prod.splits conn.splits option.splits outcome.splits
           dest!: nextOutcome_frame)

lemma dbInv_beginTx [inv_intro]: "keeps (dbInv J) beginTx"
  by (rule keepsI) (auto simp: beginTx_def dbInv_def split: prod.splits if_splits dest!: nextOutcome_frame)

lemma dbInv_commitTx [inv_intro]: "keeps (dbInv J) commitTx"
  by (rule keepsI)
     (auto simp: commitTx_def dbInv_def split: prod.splits option.splits outcome.splits dest!: nextOutcome_frame)

lemma dbInv_rollbackTx [inv_intro]: "keeps (dbInv J) rollbackTx"
  by (rule keepsI) (auto simp: dbInv_def)

lemma dbInv_NewUUID [inv_intro]: "keeps (dbInv J) (NewUUID st)"
  by (rule keepsI) (auto simp: dbInv_def)

lemma dbInv_NewOpaqueToken [inv_intro]: "keeps (dbInv J) (NewOpaqueToken st)"
  by (rule keepsI) (auto simp: dbInv_def)

lemma dbInv_readNonce [inv_intro]: "keeps (dbInv J) (readNonce st)"
  by (rule keepsI) (auto simp: dbInv_def)

lemma stmt_keeps_query [simp]: "(\<And>d. snd (q d) = d) \<Longrightarrow> stmt_keeps J q"
  by (simp add: stmt_keeps_def)

lemma snd_InsertAuditLog:
  "snd (InsertAuditLog row d) = d \<or> snd (InsertAuditLog row d) = d\<lparr>audit_log := audit_log d @ [row]\<rparr>"
  by (auto simp: InsertAuditLog_def split: option.splits)

text \<open>Invariants that do not look at the audit log survive every audit write.\<close>

lemma stmt_keeps_InsertAuditLog [inv_intro]:
  "(\<And>d a. J (d\<lparr>audit_log := a\<rparr>) = J d) \<Longrightarrow> stmt_keeps J (InsertAuditLog row)"
  using snd_InsertAuditLog [of row] by (metis stmt_keeps_def)

lemma keeps_AuditLogEvent [inv_intro]:
  "(\<And>d a. J (d\<lparr>audit_log := a\<rparr>) = J d) \<Longrightarrow> keeps (dbInv J) (AuditLogEvent st u ev ip ua md)"
  unfolding AuditLogEvent_def by (intro inv_intro) auto

lemma keeps_writeAuditLogTx [inv_intro]:
  "(\<And>d a. J (d\<lparr>audit_log := a\<rparr>) = J d) \<Longrightarrow> keeps (dbInv J) (writeAuditLogTx st u ev ip ua md)"
  unfolding writeAuditLogTx_def by (intro inv_intro) auto

lemma keeps_enforceStaticClientAccess [inv_intro]:
  "(\<And>d a. J (d\<lparr>audit_log := a\<rparr>) = J d) \<Longrightarrow> keeps (dbInv J) (enforceStaticClientAccess st ctx acc cid ch u)"
  unfolding enforceStaticClientAccess_def by (cases "Evaluate acc (AccessSubject u)") (auto intro!: inv_intro)

section \<open>Lemmas: successful calls\<close>

text \<open>A statement on a pooled connection either fails, or ran and its result is what it answers.\<close>

lemma exec_DB_Inr:
  assumes "run_state (exec DBc q) w = (Inr x, w')"
  shows "fst (q (w_db w)) = Inr x" "w_db w' = snd (q (w_db w))" "w_now w' = w_now w" "w_idc w' = w_idc w"
proof -
  obtain out w1 where n: "nextOutcome w = (out, w1)" by (cases "nextOutcome w")
  note fr = nextOutcome_frame [OF n]
  show "fst (q (w_db w)) = Inr x" "w_db w' = snd (q (w_db w))" "w_now w' = w_now w" "w_idc w' = w_idc w"
    using assms n fr by (cases out; auto simp: exec_def)+
qed

lemma exec_TX_Inr:
  assumes "run_state (exec TXc q) w = (Inr x, w')"
  obtains t where "w_tx w = Some t" "fst (q t) = Inr x" "w_tx w' = Some (snd (q t))"
proof -
  obtain out w1 where n: "nextOutcome w = (out, w1)" by (cases "nextOutcome w")
  show ?thesis
    using assms n nextOutcome_frame [OF n] that by (cases out; cases "w_tx w") (auto simp: exec_def)
qed

lemma commitTx_Inr:
  assumes "run_state commitTx w = (Inr (), w')"
  obtains t where "w_tx w = Some t" "w_db w' = t" "w_tx w' = None"
proof -
  obtain out w1 where n: "nextOutcome w = (out, w1)" by (cases "nextOutcome w")
  show ?thesis
    using assms n nextOutcome_frame [OF n] that by (cases out; cases "w_tx w") (auto simp: commitTx_def)
qed

lemma now_exec: "run_state (exec c q) w = (r, w') \<Longrightarrow> w_now w' = w_now w"
  by (auto simp: exec_def split: prod.splits conn.splits option.splits outcome.splits dest!: nextOutcome_frame)

lemma now_begin: "run_state beginTx w = (r, w') \<Longrightarrow> w_now w' = w_now w"
  by (auto simp: beginTx_def split: prod.splits if_splits dest!: nextOutcome_frame)

section \<open>Lemmas: audit metadata\<close>

lemma sanitize_allowed:
  assumes "sanitize st ev md = Inr (Some md')" "(k, v) \<in> set md'"
  shows "\<exists>allowed. map_of auditMetadataAllowlist ev = Some allowed \<and> k \<in> set allowed \<and> k \<in> fst ` set md"
proof -
  from assms(1) obtain allowed where al: "map_of auditMetadataAllowlist ev = Some allowed"
    and h: "hashSessionID (sessionAtRest st) (keepAllowed allowed md) = Inr md'"
    by (auto simp: sanitize_def split: if_splits option.splits sum.splits)
  have "map fst md' = map fst (keepAllowed allowed md)"
    using h by (auto simp: hashSessionID_def split: option.splits jval.splits if_splits sum.splits)
  with assms(2) have "k \<in> fst ` set (keepAllowed allowed md)"
    by (metis fst_conv image_eqI list.set_map)
  with al show ?thesis by (force simp: keepAllowed_def)
qed

lemma sanitize_session_hashed:
  assumes "sanitize st ev md = Inr (Some md')" "map_of md' ''session_id'' = Some (JStr s)"
    and "map_of md ''session_id'' = Some (JStr raw)" "raw \<noteq> ''''" "distinct (map fst md)"
  shows "sessionAtRest st raw = Inr s"
proof -
  from assms(1) obtain allowed where
    h: "hashSessionID (sessionAtRest st) (keepAllowed allowed md) = Inr md'" and ne: "md' \<noteq> []"
    by (auto simp: sanitize_def split: if_splits option.splits sum.splits)
  have keys: "map fst md' = map fst (keepAllowed allowed md)"
    using h by (auto simp: hashSessionID_def split: option.splits jval.splits if_splits sum.splits)
  have "''session_id'' \<in> set (map fst md')"
    using assms(2) by (metis domI dom_map_of_conv_image_fst list.set_map)
  then obtain v where "(''session_id'', v) \<in> set (keepAllowed allowed md)"
    unfolding keys by auto
  moreover from this have "(''session_id'', v) \<in> set md" by (simp add: keepAllowed_def)
  with assms(3,5) have "v = JStr raw" by simp
  moreover have "distinct (map fst (keepAllowed allowed md))"
    using assms(5) by (simp add: keepAllowed_def distinct_map_filter)
  ultimately have m: "map_of (keepAllowed allowed md) ''session_id'' = Some (JStr raw)" by simp
  then obtain hsh where hsh: "sessionAtRest st raw = Inr hsh"
    using h assms(4) by (auto simp: hashSessionID_def split: sum.splits)
  have mk: "map_of (map (\<lambda>(k, v). if k = ''session_id'' then (k, JStr hsh) else (k, v)) kvs) ''session_id''
      = map_option (\<lambda>_. JStr hsh) (map_of kvs ''session_id'')" for kvs :: metadata
    by (induction kvs) auto
  have "md' = map (\<lambda>(k, v). if k = ''session_id'' then (k, JStr hsh) else (k, v)) (keepAllowed allowed md)"
    using h m hsh assms(4) by (simp add: hashSessionID_def)
  with assms(2) m have "s = hsh" by (simp add: mk)
  with hsh show ?thesis by simp
qed

end
