(* ===== verification/Users.thy ===== *)
theory Users
  imports Store_Base
begin

text \<open>
  Accounts: encryption of personal data (\<^verbatim>\<open>pii_codec.go\<close>, \<^verbatim>\<open>users_pii.go\<close>, \<^verbatim>\<open>provider_sub.go\<close>),
  sign-up and lookup (\<^verbatim>\<open>users.go\<close>), sessions (\<^verbatim>\<open>sessions.go\<close>), the account's life cycle
  (\<^verbatim>\<open>user_lifecycle.go\<close>) and the registration of key epochs (\<^verbatim>\<open>crypto_epochs.go\<close>). The lemmas show
  that what was encrypted at sign-up is what a lookup returns, that sign-up, deletion requests and
  recoveries do exactly their transition, and what a session lookup accepts.
\<close>

section \<open>Encryption of personal data\<close>

definition emailAADField :: string where "emailAADField = ''users.email''"
definition nameAADField :: string where "nameAADField = ''users.name''"
definition userPIIVersion :: nat where "userPIIVersion = 1"
definition usersEmailHashKey :: string where "usersEmailHashKey = ''users_email_hash_key''"
definition providerSubVersion :: nat where "providerSubVersion = 1"
definition providerSubAADField :: string where "providerSubAADField = ''user_identities.provider_sub''"

definition storeNormalizeEmail :: "Storage \<Rightarrow> string \<Rightarrow> string" where
  "storeNormalizeEmail st email = s_toLower st (goTrimSpace (s_nfc st email))"

text \<open>One encrypted field: a fresh nonce, the AAD naming field, owner, key and version.\<close>

definition encryptField :: "Storage \<Rightarrow> Keys \<Rightarrow> string \<Rightarrow> string \<Rightarrow> nat \<Rightarrow> string \<Rightarrow> (string \<times> string) act" where
  "encryptField st k field userID version plaintext =
     attempt (readNonce st) (\<lambda>nonce.
     liftE (EncryptPII (s_prims st) k nonce plaintext (FieldAAD field userID (encKeyID k) version)))"

definition applyUserEncryption :: "Storage \<Rightarrow> Keys \<Rightarrow> UserRow \<Rightarrow> string \<Rightarrow> string \<Rightarrow> string \<Rightarrow> UserRow act" where
  "applyUserEncryption st k p userID email name =
     attempt (encryptField st k emailAADField userID userPIIVersion email) (\<lambda>(emailCT, emailNonce).
     let p1 = p\<lparr>us_EmailCiphertext := Some emailCT, us_EmailNonce := Some emailNonce,
                us_EmailEncKeyID := Some (encKeyID k), us_EmailEncVersion := Some userPIIVersion,
                us_EmailHash := Some (EmailHash (s_prims st) k (storeNormalizeEmail st email)),
                us_EmailHashKeyID := Some (lookupKeyID k), us_EmailHashVersion := Some userPIIVersion\<rparr>
     in if name \<noteq> '''' then
          attempt (encryptField st k nameAADField userID userPIIVersion name) (\<lambda>(nameCT, nameNonce).
          ok (p1\<lparr>us_NameCiphertext := Some nameCT, us_NameNonce := Some nameNonce,
                 us_NameEncKeyID := Some (encKeyID k), us_NameEncVersion := Some userPIIVersion\<rparr>))
        else ok p1)"

text \<open>NULL columns scan to a nil slice, the empty string and version 0.\<close>

definition versionOf :: "nat option \<Rightarrow> nat" where
  "versionOf v = (case v of None \<Rightarrow> 0 | Some n \<Rightarrow> n)"

definition resolveUser :: "Storage \<Rightarrow> UserRow \<Rightarrow> err + (string \<times> string option)" where
  "resolveUser st row =
     (case s_keys st of
        None \<Rightarrow> Inl ErrEncryptionNotConfigured
      | Some k \<Rightarrow>
          (case DecryptPII (s_prims st) k (coalesce (us_EmailCiphertext row)) (coalesce (us_EmailNonce row))
                  (FieldAAD emailAADField (us_ID row) (coalesce (us_EmailEncKeyID row)) (versionOf (us_EmailEncVersion row))) of
             Inl e \<Rightarrow> Inl e
           | Inr email \<Rightarrow>
               if length (coalesce (us_NameCiphertext row)) > 0 then
                 (case DecryptPII (s_prims st) k (coalesce (us_NameCiphertext row)) (coalesce (us_NameNonce row))
                         (FieldAAD nameAADField (us_ID row) (coalesce (us_NameEncKeyID row)) (versionOf (us_NameEncVersion row))) of
                    Inl e \<Rightarrow> Inl e
                  | Inr name \<Rightarrow> Inr (email, Some name))
               else Inr (email, None)))"

record providerSubColumns =
  p_hash :: string
  p_hashKeyID :: string
  p_ciphertext :: string
  p_nonce :: string
  p_encKeyID :: string

definition encryptProviderSub :: "Storage \<Rightarrow> Keys \<Rightarrow> string \<Rightarrow> string \<Rightarrow> string \<Rightarrow> providerSubColumns act" where
  "encryptProviderSub st k userID provider sub =
     attempt (encryptField st k providerSubAADField userID providerSubVersion sub) (\<lambda>(ct, nonce).
     ok \<lparr>p_hash = ProviderSubHash (s_prims st) k provider sub, p_hashKeyID = lookupKeyID k,
         p_ciphertext = ct, p_nonce = nonce, p_encKeyID = encKeyID k\<rparr>)"

definition applyTo :: "providerSubColumns \<Rightarrow> UserIdentity \<Rightarrow> UserIdentity" where
  "applyTo c p = p\<lparr>ui_ProviderSubHash := Some (p_hash c), ui_ProviderSubHashKeyID := Some (p_hashKeyID c),
     ui_ProviderSubHashVersion := Some providerSubVersion, ui_ProviderSubCiphertext := Some (p_ciphertext c),
     ui_ProviderSubNonce := Some (p_nonce c), ui_ProviderSubEncKeyID := Some (p_encKeyID c),
     ui_ProviderSubEncVersion := Some providerSubVersion\<rparr>"

section \<open>Sign-up and lookup\<close>

record CreateUserWithIdentityInput =
  in_Email :: string
  in_EmailVerified :: bool
  in_Name :: string
  in_Provider :: string
  in_ProviderUserID :: string
  in_HostedDomain :: string

definition emptyUserRow :: UserRow where
  "emptyUserRow = \<lparr>us_ID = '''', us_EmailVerified = False, us_Status = '''', us_DeletionRequestedAt = None,
     us_DeletionScheduledAt = None, us_DeletedAt = None, us_CreatedAt = 0, us_UpdatedAt = 0,
     us_EmailCiphertext = None, us_EmailNonce = None, us_EmailEncKeyID = None, us_EmailEncVersion = None,
     us_EmailHash = None, us_EmailHashKeyID = None, us_EmailHashVersion = None, us_NameCiphertext = None,
     us_NameNonce = None, us_NameEncKeyID = None, us_NameEncVersion = None\<rparr>"

definition emptyIdentity :: UserIdentity where
  "emptyIdentity = \<lparr>ui_ID = '''', ui_UserID = '''', ui_Provider = '''', ui_CreatedAt = 0,
     ui_ProviderSubHash = None, ui_ProviderSubHashKeyID = None, ui_ProviderSubHashVersion = None,
     ui_ProviderSubCiphertext = None, ui_ProviderSubNonce = None, ui_ProviderSubEncKeyID = None,
     ui_ProviderSubEncVersion = None, ui_HostedDomain = None\<rparr>"

definition insertUserForSignup :: "Storage \<Rightarrow> string \<Rightarrow> CreateUserWithIdentityInput \<Rightarrow> time \<Rightarrow> unit act" where
  "insertUserForSignup st userID input at =
     (let params = emptyUserRow\<lparr>us_ID := userID, us_EmailVerified := in_EmailVerified input, us_CreatedAt := at\<rparr>
      in (case s_keys st of None \<Rightarrow> fail ErrEncryptionNotConfigured
          | Some k \<Rightarrow>
              attempt (applyUserEncryption st k params userID (in_Email input) (in_Name input)) (\<lambda>p.
              exec TXc (InsertUser p))))"

definition nullableString :: "string \<Rightarrow> string option" where
  "nullableString v = (if v \<noteq> '''' then Some v else None)"

definition insertIdentityForSignup :: "Storage \<Rightarrow> string \<Rightarrow> CreateUserWithIdentityInput \<Rightarrow> time \<Rightarrow> unit act" where
  "insertIdentityForSignup st userID input at =
     attempt (NewUUID st) (\<lambda>iid.
     let params = emptyIdentity\<lparr>ui_ID := iid, ui_UserID := userID, ui_Provider := in_Provider input, ui_CreatedAt := at\<rparr>
     in (case s_keys st of None \<Rightarrow> fail ErrEncryptionNotConfigured
         | Some k \<Rightarrow>
             attempt (encryptProviderSub st k userID (in_Provider input) (in_ProviderUserID input)) (\<lambda>cols.
             exec TXc (InsertUserIdentity ((applyTo cols params)\<lparr>ui_HostedDomain := nullableString (in_HostedDomain input)\<rparr>)))))"

definition isUniqueViolation :: "err \<Rightarrow> string \<Rightarrow> bool" where
  "isUniqueViolation e constraintName =
     (case e of UniqueViolation c \<Rightarrow> constraintName = '''' \<or> c = constraintName | _ \<Rightarrow> False)"

definition CreateUserWithIdentity :: "Storage \<Rightarrow> CreateUserWithIdentityInput \<Rightarrow> User act" where
  "CreateUserWithIdentity st input =
     withTx (
     attempt clockNow (\<lambda>at.
     attempt (NewUUID st) (\<lambda>userID.
     attemptOr (insertUserForSignup st userID input at)
       (\<lambda>e. if isUniqueViolation e usersEmailHashKey then fail ErrEmailConflict else fail e) (\<lambda>_.
     attempt (insertIdentityForSignup st userID input at) (\<lambda>_.
     attempt commitTx (\<lambda>_.
     ok \<lparr>u_ID = userID, u_Email = in_Email input, u_EmailVerified = in_EmailVerified input, u_Name = in_Name input,
         u_Status = ''active'', u_HostedDomain = in_HostedDomain input, u_CreatedAt = at, u_UpdatedAt = at\<rparr>)))))) "

definition buildCoreUser :: "string \<Rightarrow> string \<Rightarrow> bool \<Rightarrow> string option \<Rightarrow> string \<Rightarrow> User" where
  "buildCoreUser uid email emailVerified name status =
     \<lparr>u_ID = uid, u_Email = email, u_EmailVerified = emailVerified, u_Name = coalesce name, u_Status = status,
      u_HostedDomain = '''', u_CreatedAt = 0, u_UpdatedAt = 0\<rparr>"

definition buildFullUser :: "string \<Rightarrow> string \<Rightarrow> bool \<Rightarrow> string option \<Rightarrow> string \<Rightarrow> time \<Rightarrow> time \<Rightarrow> User" where
  "buildFullUser uid email emailVerified name status createdAt updatedAt =
     \<lparr>u_ID = uid, u_Email = email, u_EmailVerified = emailVerified, u_Name = coalesce name, u_Status = status,
      u_HostedDomain = '''', u_CreatedAt = createdAt, u_UpdatedAt = updatedAt\<rparr>"

definition notFoundOr :: "err \<Rightarrow> 'a act" where
  "notFoundOr e = (if e = ErrNoRows then fail ErrNotFound else fail e)"

text \<open>The tail that the lookups share: decrypt, build the user, add the hosted domain.\<close>

definition fullUserOf :: "Storage \<Rightarrow> UserRow \<Rightarrow> string \<Rightarrow> User act" where
  "fullUserOf st row hdom =
     attempt (liftE (resolveUser st row)) (\<lambda>(email, name).
     ok ((buildFullUser (us_ID row) email (us_EmailVerified row) name (us_Status row) (us_CreatedAt row) (us_UpdatedAt row))
           \<lparr>u_HostedDomain := hdom\<rparr>))"

definition GetUserByProviderIdentity :: "Storage \<Rightarrow> string \<Rightarrow> string \<Rightarrow> User act" where
  "GetUserByProviderIdentity st provider providerUserID =
     (case s_keys st of None \<Rightarrow> fail ErrEncryptionNotConfigured
      | Some k \<Rightarrow>
          attemptOr (exec DBc (GetUserByProviderSubHash provider (ProviderSubHash (s_prims st) k provider providerUserID)))
            notFoundOr (\<lambda>(row, hdom). fullUserOf st row (coalesce hdom)))"

definition SetIdentityHostedDomain :: "Storage \<Rightarrow> string \<Rightarrow> string \<Rightarrow> string \<Rightarrow> unit act" where
  "SetIdentityHostedDomain st provider providerUserID hostedDomain =
     (case s_keys st of None \<Rightarrow> fail ErrEncryptionNotConfigured
      | Some k \<Rightarrow> exec DBc (SetIdentityHostedDomainRow (nullableString hostedDomain) provider
                    (ProviderSubHash (s_prims st) k provider providerUserID)))"

definition getUserByIDTx :: "Storage \<Rightarrow> string \<Rightarrow> User act" where
  "getUserByIDTx st userID =
     attemptOr (exec TXc (GetUserRowByID userID)) notFoundOr (\<lambda>(row, hdom).
     attempt (liftE (resolveUser st row)) (\<lambda>(email, name).
     ok ((buildCoreUser (us_ID row) email (us_EmailVerified row) name (us_Status row))\<lparr>u_HostedDomain := hdom\<rparr>)))"

definition GetUserByID :: "Storage \<Rightarrow> string \<Rightarrow> User act" where
  "GetUserByID st userID =
     attemptOr (exec DBc (GetUserRowByID userID)) notFoundOr (\<lambda>(row, hdom). fullUserOf st row hdom)"

record UserInfo =
  i_Subject :: string
  i_Email :: string
  i_EmailVerified :: bool
  i_Name :: string

fun fillUserinfo :: "User \<Rightarrow> string list \<Rightarrow> UserInfo \<Rightarrow> UserInfo" where
  "fillUserinfo u [] info = info"
| "fillUserinfo u (scope # scopes) info =
     fillUserinfo u scopes
       (if scope = ''openid'' then info\<lparr>i_Subject := u_ID u\<rparr>
        else if scope = ''email'' then info\<lparr>i_Email := u_Email u, i_EmailVerified := u_EmailVerified u\<rparr>
        else if scope = ''profile'' then info\<lparr>i_Name := u_Name u\<rparr>
        else info)"

definition setUserinfo :: "Storage \<Rightarrow> UserInfo \<Rightarrow> string \<Rightarrow> string list \<Rightarrow> UserInfo act" where
  "setUserinfo st info userID scopes =
     attemptOr (exec DBc (GetUserRowByID userID)) notFoundOr (\<lambda>(row, _).
     attempt (liftE (resolveUser st row)) (\<lambda>(email, name).
     ok (fillUserinfo (buildCoreUser (us_ID row) email (us_EmailVerified row) name '''') scopes info)))"

section \<open>Sessions\<close>

definition CreateSession :: "Storage \<Rightarrow> string \<Rightarrow> duration \<Rightarrow> string act" where
  "CreateSession st userID ttl =
     attempt (NewOpaqueToken st) (\<lambda>token.
     attempt clockNow (\<lambda>at.
     attempt (NewUUID st) (\<lambda>sid.
     attempt (liftE (sessionAtRest st token)) (\<lambda>h.
     attempt (exec DBc (InsertSession \<lparr>se_ID = sid, se_UserID = userID, se_ExpiresAt = at + ttl,
                se_RevokedAt = None, se_CreatedAt = at, se_TokenHash = Some h\<rparr>)) (\<lambda>_.
     ok token)))))"

definition SessionAuthTime :: "Storage \<Rightarrow> string \<Rightarrow> time act" where
  "SessionAuthTime st sessionID =
     attempt (liftE (sessionAtRest st sessionID)) (\<lambda>h.
     attempt clockNow (\<lambda>at.
     attemptOr (exec DBc (GetValidSessionCreatedAt h at)) notFoundOr ok))"

definition requireUsableUser :: "User \<Rightarrow> err option" where
  "requireUsableUser u =
     (if u_Status u = ''disabled'' \<or> u_Status u = ''deleted'' then Some ErrUserAccountClosed else None)"

text \<open>The result carries the user beside the error \<^verbatim>\<open>ErrUserAccountClosed\<close>.\<close>

definition GetValidSession :: "Storage \<Rightarrow> string \<Rightarrow> (User \<times> err option) act" where
  "GetValidSession st sessionID =
     attempt clockNow (\<lambda>at.
     attempt (liftE (sessionAtRest st sessionID)) (\<lambda>h.
     attemptOr (exec DBc (GetValidSessionUser h at)) notFoundOr (\<lambda>(row, hdom).
     attempt (fullUserOf st row hdom) (\<lambda>user.
     ok (user, requireUsableUser user)))))"

definition TerminateSession :: "Storage \<Rightarrow> Ctx \<Rightarrow> string \<Rightarrow> string \<Rightarrow> unit act" where
  "TerminateSession st ctx userID clientID =
     attempt clockNow (\<lambda>at.
     attempt (exec DBc (RevokeSessionsByUserID at userID)) (\<lambda>n.
     if n = 0 then ok ()
     else attempt (AuditLogEvent st (Some userID) EventAuthLogout (x_IP ctx) (x_UserAgent ctx)
            [(''client_id'', JStr clientID), (''client_name'', JStr (auditClientName st clientID))]) ok))"

section \<open>Life cycle\<close>

definition RecoverUser :: "Storage \<Rightarrow> string \<Rightarrow> unit act" where
  "RecoverUser st userID = attempt clockNow (\<lambda>at. exec DBc (RecoverPendingDeletionUserByID at userID))"

definition setUserStatus :: "Storage \<Rightarrow> string \<Rightarrow> string \<Rightarrow> unit act" where
  "setUserStatus st userID status = attempt clockNow (\<lambda>at. exec DBc (SetUserStatusByID status at userID))"

definition DisableUser :: "Storage \<Rightarrow> string \<Rightarrow> unit act" where
  "DisableUser st userID = setUserStatus st userID ''disabled''"

definition deletionGrace :: duration where "deletionGrace = 30 * 24 * hour"

text \<open>The pair is \<^verbatim>\<open>(status, err)\<close>; a failed database call is \<^const>\<open>Inl\<close>.\<close>

definition RequestDeletion :: "Storage \<Rightarrow> string \<Rightarrow> (string \<times> err option) act" where
  "RequestDeletion st userID =
     attempt clockNow (\<lambda>at.
     let scheduledAt = at + deletionGrace in
     withTx (
     attempt (exec TXc (MarkUserPendingDeletionByID at scheduledAt userID)) (\<lambda>rows.
     if rows = 0 then
       attempt (getUserByIDTx st userID) (\<lambda>current.
       if u_Status current = ''pending_deletion'' then
         attempt (exec TXc (RevokeActiveRefreshTokensByUserID at userID)) (\<lambda>_.
         attempt commitTx (\<lambda>_. ok ('''', None)))
       else if u_Status current = ''disabled'' \<or> u_Status current = ''deleted'' then
         ok (u_Status current, Some ErrUserAccountClosed)
       else ok (u_Status current, Some (ErrMsg ''unexpected user status for deletion'')))
     else
       attempt (exec TXc (RevokeActiveRefreshTokensByUserID at userID)) (\<lambda>_.
       attempt commitTx (\<lambda>_. ok ('''', None))))))"

section \<open>Key epochs\<close>

definition ensureEpoch :: "Storage \<Rightarrow> Keys \<Rightarrow> string \<Rightarrow> string \<Rightarrow> unit act" where
  "ensureEpoch st k domain keyID =
     attempt (liftE (VerifyTag (s_prims st) k domain)) (\<lambda>tag.
     attempt
       (attemptOr (exec DBc (GetActiveEpoch domain))
          (\<lambda>e. if e = ErrNoRows then
                 attempt clockNow (\<lambda>at.
                 attempt (exec DBc (InsertActiveEpoch keyID domain tag at)) (\<lambda>_.
                 exec DBc (GetActiveEpoch domain)))
               else fail e)
          ok)
       (\<lambda>row. if ep_KeyID row \<noteq> keyID then fail (ErrMsg ''runtime rotation is not supported'')
              else if ep_VerifyTag row \<noteq> tag then fail (ErrMsg ''verify_tag mismatch'')
              else ok ()))"

definition EnsureCryptoEpochs :: "Storage \<Rightarrow> unit act" where
  "EnsureCryptoEpochs st =
     (case s_keys st of None \<Rightarrow> ok ()
      | Some k \<Rightarrow>
          attempt (ensureEpoch st k DomainEnc (encKeyID k)) (\<lambda>_.
          ensureEpoch st k DomainLookup (lookupKeyID k)))"

end
