(* ===== verification/Auth_Requests.thy ===== *)
theory Auth_Requests
  imports Users
begin

text \<open>
  Authorization requests and codes: \<^verbatim>\<open>auth_requests.go\<close>, \<^verbatim>\<open>auth_code.go\<close> and the request models
  of \<^verbatim>\<open>models.go\<close>. A request is stored at /authorize, completed by a login, given a code, read by
  the code exchange and consumed by the issuance of tokens.
\<close>

section \<open>Models\<close>

record AuthRequestModel =
  am_ID :: string
  am_ClientID :: string
  am_Resource :: string
  am_RedirectURI :: string
  am_Scopes :: "string list"
  am_State :: string
  am_Nonce :: string
  am_CodeChallenge :: string
  am_CodeChallengeMethod :: string
  am_Prompt :: "string list"
  am_MaxAge :: "nat option"
  am_Subject :: "string option"
  am_AuthTime :: "time option"
  am_IsDone :: bool
  am_Code :: "string option"
  am_ExpiresAt :: time
  am_CreatedAt :: time

definition authGetAudience :: "AuthRequestModel \<Rightarrow> string list" where
  "authGetAudience a = (if am_Resource a \<noteq> '''' then [am_Resource a] else [am_ClientID a])"

definition authGetCodeChallenge :: "AuthRequestModel \<Rightarrow> (string \<times> string) option" where
  "authGetCodeChallenge a = (if am_CodeChallenge a = '''' then None else Some (am_CodeChallenge a, am_CodeChallengeMethod a))"

definition authGetAuthTime :: "AuthRequestModel \<Rightarrow> time" where
  "authGetAuthTime a = (case am_AuthTime a of Some t \<Rightarrow> t | None \<Rightarrow> 0)"

definition authGetSubject :: "AuthRequestModel \<Rightarrow> string" where
  "authGetSubject a = (case am_Subject a of Some s \<Rightarrow> s | None \<Rightarrow> '''')"

record RefreshTokenModel =
  rm_ID :: string
  rm_TokenHash :: string
  rm_FamilyID :: string
  rm_UserID :: string
  rm_ClientID :: string
  rm_Resource :: string
  rm_Scopes :: "string list"
  rm_ExpiresAt :: time
  rm_RevokedAt :: "time option"
  rm_UsedAt :: "time option"
  rm_currentScopes :: "string list option"

definition refreshGetAudience :: "RefreshTokenModel \<Rightarrow> string list" where
  "refreshGetAudience r = (if rm_Resource r \<noteq> '''' then [rm_Resource r] else [rm_ClientID r])"

definition refreshGetScopes :: "RefreshTokenModel \<Rightarrow> string list" where
  "refreshGetScopes r = (case rm_currentScopes r of Some s \<Rightarrow> s | None \<Rightarrow> rm_Scopes r)"

definition SetCurrentScopes :: "RefreshTokenModel \<Rightarrow> string list \<Rightarrow> RefreshTokenModel" where
  "SetCurrentScopes r scopes = r\<lparr>rm_currentScopes := Some scopes\<rparr>"

text \<open>\<^verbatim>\<open>op.DeviceAuthorizationState\<close>, the fields the code sets.\<close>

record DeviceAuthorizationState =
  ds_ClientID :: string
  ds_Scopes :: "string list"
  ds_Expires :: time
  ds_Done :: bool
  ds_Denied :: bool
  ds_Subject :: string
  ds_AuthTime :: time

text \<open>The token requests of the three grants the provider serves.\<close>

datatype TokenRequest =
    ReqAuth AuthRequestModel
  | ReqRefresh RefreshTokenModel
  | ReqDevice DeviceAuthorizationState

fun reqSubject :: "TokenRequest \<Rightarrow> string" where
  "reqSubject (ReqAuth a) = authGetSubject a"
| "reqSubject (ReqRefresh r) = rm_UserID r"
| "reqSubject (ReqDevice d) = ds_Subject d"

fun reqScopes :: "TokenRequest \<Rightarrow> string list" where
  "reqScopes (ReqAuth a) = am_Scopes a"
| "reqScopes (ReqRefresh r) = refreshGetScopes r"
| "reqScopes (ReqDevice d) = ds_Scopes d"

section \<open>Row mapping\<close>

text \<open>\<^verbatim>\<open>max_age\<close> is a 64-bit unsigned number of seconds; the column is a signed bigint.\<close>

definition maxAgeToNullInt64 :: "nat option \<Rightarrow> int option" where
  "maxAgeToNullInt64 m =
     (case m of None \<Rightarrow> None | Some n \<Rightarrow> Some (if n < 2 ^ 63 then int n else int n - 2 ^ 64))"

definition maxAgeFromNullInt64 :: "int option \<Rightarrow> nat option" where
  "maxAgeFromNullInt64 v = (case v of None \<Rightarrow> None | Some i \<Rightarrow> if i < 0 then None else Some (nat i))"

definition authRequestModelFromRow :: "AuthRequest \<Rightarrow> AuthRequestModel" where
  "authRequestModelFromRow row =
     \<lparr>am_ID = ar_ID row, am_ClientID = ar_ClientID row, am_Resource = coalesce (ar_Resource row),
      am_RedirectURI = ar_RedirectUri row, am_Scopes = ar_Scopes row, am_State = coalesce (ar_State row),
      am_Nonce = coalesce (ar_Nonce row), am_CodeChallenge = coalesce (ar_CodeChallenge row),
      am_CodeChallengeMethod = coalesce (ar_CodeChallengeMethod row), am_Prompt = ar_Prompt row,
      am_MaxAge = maxAgeFromNullInt64 (ar_MaxAge row), am_Subject = ar_Subject row, am_AuthTime = ar_AuthTime row,
      am_IsDone = ar_Done row, am_Code = ar_Code row, am_ExpiresAt = ar_ExpiresAt row, am_CreatedAt = ar_CreatedAt row\<rparr>"

section \<open>Operations\<close>

text \<open>The parsed /authorize request, \<^verbatim>\<open>oidc.AuthRequest\<close>.\<close>

record OidcAuthRequest =
  q_ClientID :: string
  q_RedirectURI :: string
  q_Scopes :: "string list"
  q_State :: string
  q_Nonce :: string
  q_CodeChallenge :: string
  q_CodeChallengeMethod :: string
  q_Prompt :: "string list"
  q_MaxAge :: "nat option"

definition errInvalidRequest :: "string \<Rightarrow> err" where
  "errInvalidRequest d = oidcErr ''invalid_request'' d"

definition authRequestTTL :: duration where "authRequestTTL = 10 * minute"

text \<open>The checks before anything is stored; \<open>client\<close> is the resolved client or the lookup error.\<close>

definition checkAuthorize :: "Storage \<Rightarrow> err + Model \<Rightarrow> string \<Rightarrow> OidcAuthRequest \<Rightarrow> err option" where
  "checkAuthorize st client resource req =
     (case (case client of Inl _ \<Rightarrow> None
            | Inr c \<Rightarrow> ValidateAuthorizeRequest (s_resourcePolicy st) (Some c) resource) of
        Some e \<Rightarrow> Some e
      | None \<Rightarrow>
          if (case client of Inl _ \<Rightarrow> True | Inr c \<Rightarrow> \<not> c_SkipPKCE c)
             \<and> (q_CodeChallenge req = '''' \<or> q_CodeChallengeMethod req \<noteq> ''S256'')
          then Some (errInvalidRequest ''PKCE S256 required'')
          else if q_CodeChallenge req \<noteq> '''' \<and> q_CodeChallengeMethod req \<notin> {'''', ''plain'', ''S256''}
          then Some (errInvalidRequest ''unsupported code_challenge_method'')
          else None)"

definition CreateAuthRequest :: "Storage \<Rightarrow> Ctx \<Rightarrow> OidcAuthRequest \<Rightarrow> AuthRequestModel act" where
  "CreateAuthRequest st ctx req =
     (let resource = ResourceFromContext ctx in
      case checkAuthorize st (ResolveClient st (q_ClientID req)) resource req of
        Some e \<Rightarrow> fail e
      | None \<Rightarrow>
          attempt (NewUUID st) (\<lambda>rid.
          attempt clockNow (\<lambda>at.
          let ar = \<lparr>am_ID = rid, am_ClientID = q_ClientID req, am_Resource = resource,
                 am_RedirectURI = q_RedirectURI req, am_Scopes = q_Scopes req, am_State = q_State req,
                 am_Nonce = q_Nonce req, am_CodeChallenge = q_CodeChallenge req,
                 am_CodeChallengeMethod = q_CodeChallengeMethod req, am_Prompt = q_Prompt req,
                 am_MaxAge = q_MaxAge req, am_Subject = None, am_AuthTime = None, am_IsDone = False,
                 am_Code = None, am_ExpiresAt = at + authRequestTTL, am_CreatedAt = at\<rparr>
          in attempt (exec DBc (InsertAuthRequest
               \<lparr>ar_ID = am_ID ar, ar_ClientID = am_ClientID ar, ar_Resource = Some (am_Resource ar),
                ar_RedirectUri = am_RedirectURI ar, ar_Scopes = am_Scopes ar, ar_State = Some (am_State ar),
                ar_Nonce = Some (am_Nonce ar), ar_CodeChallenge = Some (am_CodeChallenge ar),
                ar_CodeChallengeMethod = Some (am_CodeChallengeMethod ar), ar_Subject = None, ar_AuthTime = None,
                ar_Done = False, ar_Code = None, ar_ExpiresAt = am_ExpiresAt ar, ar_CreatedAt = am_CreatedAt ar,
                ar_Prompt = am_Prompt ar, ar_MaxAge = maxAgeToNullInt64 (am_MaxAge ar)\<rparr>)) (\<lambda>_.
             ok ar))))"

definition GetAuthRequestModel :: "Storage \<Rightarrow> string \<Rightarrow> AuthRequestModel act" where
  "GetAuthRequestModel st rid =
     attemptOr (exec DBc (GetAuthRequestByID rid)) notFoundOr (\<lambda>row.
     attempt clockNow (\<lambda>at.
     let ar = authRequestModelFromRow row in
     if at > am_ExpiresAt ar then fail (oidcErr ''invalid_request'' ''auth request expired'') else ok ar))"

definition AuthRequestByID :: "Storage \<Rightarrow> string \<Rightarrow> AuthRequestModel act" where
  "AuthRequestByID st rid = attempt (GetAuthRequestModel st rid) ok"

definition runStateChecker :: "Storage \<Rightarrow> User \<Rightarrow> err option" where
  "runStateChecker st user = (case s_stateChecker st of None \<Rightarrow> None | Some chk \<Rightarrow> chk user)"

definition AuthRequestByCode :: "Storage \<Rightarrow> Ctx \<Rightarrow> string \<Rightarrow> AuthRequestModel act" where
  "AuthRequestByCode st ctx code =
     attempt (liftE (codeAtRest st code)) (\<lambda>h.
     attemptOr (exec DBc (GetAuthRequestByCode h)) notFoundOr (\<lambda>row.
     let ar = (authRequestModelFromRow row)\<lparr>am_Code := Some code\<rparr> in
     attempt clockNow (\<lambda>at.
     if at > am_ExpiresAt ar then fail errInvalidGrant
     else (case ValidateTokenRequest (s_resourcePolicy st) (am_ClientID ar) (am_Resource ar) (ResourceFromContext ctx) of
         Some e \<Rightarrow> fail e
       | None \<Rightarrow>
           let access = StaticAccess (s_registry st) (am_ClientID ar) in
           if (s_stateChecker st \<noteq> None \<or> Restricted access) \<and> am_Subject ar \<noteq> None \<and> am_Subject ar \<noteq> Some '''' then
             attemptOr (GetUserByID st (authGetSubject ar)) (\<lambda>_. fail errInvalidGrant) (\<lambda>user.
             case runStateChecker st user of
               Some _ \<Rightarrow> fail errInvalidGrant
             | None \<Rightarrow>
                 attemptOr (enforceStaticClientAccess st ctx access (am_ClientID ar)
                              (StaticLoginChannel (s_registry st) (am_ClientID ar)) user)
                   (\<lambda>_. fail errInvalidGrant) (\<lambda>_. ok ar))
           else ok ar))))"

definition SaveAuthCode :: "Storage \<Rightarrow> string \<Rightarrow> string \<Rightarrow> unit act" where
  "SaveAuthCode st rid code =
     attempt (liftE (codeAtRest st code)) (\<lambda>h. exec DBc (UpdateAuthRequestCode h rid))"

definition DeleteAuthRequest :: "Storage \<Rightarrow> string \<Rightarrow> unit act" where
  "DeleteAuthRequest st rid = exec DBc (DeleteAuthRequestByID rid)"

definition CompleteAuthRequest :: "Storage \<Rightarrow> string \<Rightarrow> string \<Rightarrow> time \<Rightarrow> unit act" where
  "CompleteAuthRequest st authRequestID userID authTime =
     attempt clockNow (\<lambda>at.
     let t = (if timeIsZero authTime then at else authTime) in
     attempt (exec DBc (CompleteAuthRequestByID userID t authRequestID)) (\<lambda>rows.
     if rows = 0 then fail ErrNotFound else ok ()))"

text \<open>The one-shot boundary of a code; \<open>c\<close> is the connection the caller passes.\<close>

definition consumeAuthCode :: "Storage \<Rightarrow> conn \<Rightarrow> TokenRequest \<Rightarrow> unit act" where
  "consumeAuthCode st c request =
     (case request of
        ReqAuth ar \<Rightarrow>
          if am_Code ar = None \<or> am_Code ar = Some '''' then fail errInvalidGrant
          else
            attempt (liftE (codeAtRest st (coalesce (am_Code ar)))) (\<lambda>h.
            attempt clockNow (\<lambda>at.
            attempt (exec c (ConsumeAuthCode (am_ID ar) (am_ClientID ar) h at)) (\<lambda>n.
            if n \<noteq> 1 then fail errInvalidGrant else ok ())))
      | _ \<Rightarrow> ok ())"

end
