(* ===== verification/Refresh_Tokens.thy ===== *)
theory Refresh_Tokens
  imports Auth_Requests
begin

text \<open>
  Token issuance and refresh tokens: \<^verbatim>\<open>token_issuance.go\<close>, \<^verbatim>\<open>refresh_consumption.go\<close>,
  \<^verbatim>\<open>refresh_redemption.go\<close>, \<^verbatim>\<open>refresh_grace.go\<close> and \<^verbatim>\<open>refresh_revocation.go\<close>. A refresh token is
  redeemed once; a second presentation revokes its family, unless the bounded reuse grace applies.
\<close>

section \<open>Redemption\<close>

definition errText :: "err \<Rightarrow> string" where
  "errText e = (case e of ErrMsg s \<Rightarrow> s | ErrNotFound \<Rightarrow> ''not found'' | ErrEmailConflict \<Rightarrow> ''email_conflict''
     | ErrUserAccountClosed \<Rightarrow> ''user account is closed'' | OidcError t d _ \<Rightarrow> t | _ \<Rightarrow> '''')"

definition errRefreshGrantRefused :: err where
  "errRefreshGrantRefused = OidcError ''invalid_grant'' '''' (Some OpInvalidRefreshToken)"

definition refreshModelOfRow :: "RefreshToken \<Rightarrow> RefreshTokenModel" where
  "refreshModelOfRow row =
     \<lparr>rm_ID = rt_ID row, rm_TokenHash = rt_TokenHash row, rm_FamilyID = rt_FamilyID row, rm_UserID = rt_UserID row,
      rm_ClientID = rt_ClientID row, rm_Resource = coalesce (rt_Resource row), rm_Scopes = rt_Scopes row,
      rm_ExpiresAt = rt_ExpiresAt row, rm_RevokedAt = rt_RevokedAt row, rm_UsedAt = rt_UsedAt row,
      rm_currentScopes = None\<rparr>"

definition loadRefreshTokenForUpdate :: "string \<Rightarrow> RefreshTokenModel act" where
  "loadRefreshTokenForUpdate tokenHash =
     attemptOr (exec TXc (GetRefreshTokenForUpdateByHash tokenHash))
       (\<lambda>e. if e = ErrNoRows then fail OpInvalidRefreshToken else fail e)
       (\<lambda>row. ok (refreshModelOfRow row))"

definition isRefreshTokenUsedOrRevoked :: "RefreshTokenModel \<Rightarrow> bool" where
  "isRefreshTokenUsedOrRevoked rt \<longleftrightarrow> rm_RevokedAt rt \<noteq> None \<or> rm_UsedAt rt \<noteq> None"

definition validateRefreshTokenRequest :: "Storage \<Rightarrow> Ctx \<Rightarrow> RefreshTokenModel \<Rightarrow> time \<Rightarrow> unit act" where
  "validateRefreshTokenRequest st ctx rt at =
     (if \<not> at < rm_ExpiresAt rt then fail OpInvalidRefreshToken
      else (case ValidateTokenRequest (s_resourcePolicy st) (rm_ClientID rt) (rm_Resource rt) (ResourceFromContext ctx) of
          Some e \<Rightarrow> fail e
        | None \<Rightarrow>
            let access = StaticAccess (s_registry st) (rm_ClientID rt) in
            if s_stateChecker st = None \<and> \<not> Restricted access then ok ()
            else
              attemptOr (getUserByIDTx st (rm_UserID rt)) (\<lambda>_. fail OpInvalidRefreshToken) (\<lambda>user.
              case runStateChecker st user of
                Some e \<Rightarrow> fail (oidcErr ''invalid_grant'' (errText e))
              | None \<Rightarrow> enforceStaticClientAccess st ctx access (rm_ClientID rt) ''refresh'' user)))"

definition TokenRequestByRefreshToken :: "Storage \<Rightarrow> Ctx \<Rightarrow> string \<Rightarrow> RefreshTokenModel act" where
  "TokenRequestByRefreshToken st ctx refreshToken =
     attempt (liftE (refreshAtRest st refreshToken)) (\<lambda>h.
     attempt clockNow (\<lambda>at.
     withTx (
       attempt (loadRefreshTokenForUpdate h) (\<lambda>rt.
       attempt (validateRefreshTokenRequest st ctx rt at) (\<lambda>_.
       attempt commitTx (\<lambda>_. ok rt))))))"

section \<open>Reuse grace\<close>

definition refreshReuseGraceMaxIssued :: nat where "refreshReuseGraceMaxIssued = 3"

datatype refreshReuseGraceKind = graceNone | graceIssue | graceRefuse

definition countRedemptionChildren :: "RefreshTokenModel \<Rightarrow> nat act" where
  "countRedemptionChildren rt = exec TXc (CountRefreshTokenChildren (rm_ID rt))"

definition refreshReuseGraceDecision :: "Storage \<Rightarrow> RefreshTokenModel \<Rightarrow> time \<Rightarrow> refreshReuseGraceKind act" where
  "refreshReuseGraceDecision st rt at =
     (case rm_UsedAt rt of
        None \<Rightarrow> ok graceNone
      | Some usedAt \<Rightarrow>
     if s_refreshReuseGrace st \<le> 0 \<or> rm_RevokedAt rt \<noteq> Some usedAt then ok graceNone
     else if \<not> StaticRefreshGraceAllowed (s_registry st) (rm_ClientID rt) then ok graceNone
     else if timeSub at usedAt > s_refreshReuseGrace st then ok graceNone
     else
       attempt (exec TXc (IsRefreshFamilyRevoked (rm_FamilyID rt))) (\<lambda>tomb.
       if tomb then ok graceNone
       else
         attempt (exec TXc (HasRevokedUnredeemedRefreshTokenInFamily (rm_FamilyID rt))) (\<lambda>revokedOnPurpose.
         if revokedOnPurpose then ok graceNone
         else
           attempt (countRedemptionChildren rt) (\<lambda>children.
           if children \<ge> refreshReuseGraceMaxIssued then ok graceRefuse else ok graceIssue))))"

definition auditRefreshReuseGrace :: "Storage \<Rightarrow> Ctx \<Rightarrow> string \<Rightarrow> string \<Rightarrow> string \<Rightarrow> unit act" where
  "auditRefreshReuseGrace st ctx userID familyID outcome =
     AuditLogEvent st (Some userID) EventAuthRefreshReuseGrace (x_IP ctx) (x_UserAgent ctx)
       [(''family_id'', JStr familyID), (''outcome'', JStr outcome)]"

section \<open>Revocation\<close>

definition tombstoneReasonReuse :: string where "tombstoneReasonReuse = ''reuse_detected''"
definition tombstoneReasonRevoked :: string where "tombstoneReasonRevoked = ''revoked''"

definition revokeRefreshFamilyOnReuse :: "string \<Rightarrow> time \<Rightarrow> unit act" where
  "revokeRefreshFamilyOnReuse familyID at = attempt (exec TXc (RevokeRefreshFamily at familyID)) (\<lambda>_. ok ())"

definition tombstoneRefreshFamily :: "string \<Rightarrow> string \<Rightarrow> string \<Rightarrow> time \<Rightarrow> bool act" where
  "tombstoneRefreshFamily familyID userID reason at =
     attempt (exec TXc (TombstoneRefreshFamily
        \<lparr>rf_FamilyID = familyID, rf_UserID = userID, rf_Reason = reason, rf_RevokedAt = at\<rparr>)) (\<lambda>n.
     ok (n > 0))"

definition auditRefreshReuseDetectionTx :: "Storage \<Rightarrow> Ctx \<Rightarrow> string \<Rightarrow> string \<Rightarrow> bool \<Rightarrow> unit act" where
  "auditRefreshReuseDetectionTx st ctx userID familyID familyRevoked =
     attempt (writeAuditLogTx st (Some userID) EventAuthRefreshReuseDetected (x_IP ctx) (x_UserAgent ctx)
                [(''family_id'', JStr familyID)]) (\<lambda>_.
     if \<not> familyRevoked then ok ()
     else writeAuditLogTx st (Some userID) EventAuthRefreshFamilyRevoked (x_IP ctx) (x_UserAgent ctx)
            [(''family_id'', JStr familyID)])"

definition lookupRefreshGrant :: "Storage \<Rightarrow> string \<Rightarrow> string \<Rightarrow> string \<Rightarrow> (string \<times> string) act" where
  "lookupRefreshGrant st tokenHash tokenID clientID =
     attemptOr (exec TXc (GetRefreshTokenGrantByHash tokenHash clientID))
       (\<lambda>e. if e \<noteq> ErrNoRows then fail e
            else if \<not> s_uuidParse st tokenID then fail ErrNoRows
            else exec TXc (GetRefreshTokenGrantByID tokenID clientID))
       ok"

definition revokeRefreshGrant :: "Storage \<Rightarrow> string \<Rightarrow> string \<Rightarrow> (bool \<times> string) act" where
  "revokeRefreshGrant st tokenOrTokenID clientID =
     attempt clockNow (\<lambda>at.
     withTx (
       attempt (liftE (refreshAtRest st tokenOrTokenID)) (\<lambda>h.
       attemptOr (lookupRefreshGrant st h tokenOrTokenID clientID)
         (\<lambda>e. if e = ErrNoRows then ok (False, '''') else fail e)
         (\<lambda>(familyID, userID).
       attempt (exec TXc (LockRefreshFamily familyID)) (\<lambda>_.
       attempt (exec TXc (RevokeRefreshFamily at familyID)) (\<lambda>n.
       attempt (tombstoneRefreshFamily familyID userID tombstoneReasonRevoked at) (\<lambda>_.
       attempt commitTx (\<lambda>_.
       ok (n > 0, userID)))))))))"

definition RevokeToken :: "Storage \<Rightarrow> Ctx \<Rightarrow> string \<Rightarrow> string \<Rightarrow> string \<Rightarrow> unit act" where
  "RevokeToken st ctx tokenOrTokenID userID clientID =
     attemptOr (revokeRefreshGrant st tokenOrTokenID clientID)
       (\<lambda>e. fail (if e = NilDeref then e else errServerError e))
       (\<lambda>(revoked, grantUserID).
         if revoked then
           AuditLogEvent st (Some (if grantUserID \<noteq> '''' then grantUserID else userID)) EventAuthTokenRevoked
             (x_IP ctx) (x_UserAgent ctx)
             [(''client_id'', JStr clientID), (''client_name'', JStr (auditClientName st clientID))]
         else ok ())"

definition GetRefreshTokenInfo :: "Storage \<Rightarrow> string \<Rightarrow> string \<Rightarrow> (string \<times> string) act" where
  "GetRefreshTokenInfo st clientID token =
     attempt (liftE (refreshAtRest st token)) (\<lambda>h.
     attemptOr (exec DBc (GetRefreshTokenInfoByHashAndClientID h clientID))
       (\<lambda>e. if e = ErrNoRows then fail OpInvalidRefreshToken else fail e) ok)"

section \<open>Consumption\<close>

record refreshTokenAttributes =
  at_familyID :: string
  at_userID :: string
  at_clientID :: string
  at_resource :: string
  at_scopes :: "string list"

text \<open>Reuse detection: revoke, tombstone and audit in the caller's transaction, commit, refuse.\<close>

definition detectReuse :: "Storage \<Rightarrow> Ctx \<Rightarrow> RefreshTokenModel \<Rightarrow> time \<Rightarrow> 'a act" where
  "detectReuse st ctx rt at =
     attempt (revokeRefreshFamilyOnReuse (rm_FamilyID rt) at) (\<lambda>_.
     attempt (tombstoneRefreshFamily (rm_FamilyID rt) (rm_UserID rt) tombstoneReasonReuse at) (\<lambda>created.
     attempt (auditRefreshReuseDetectionTx st ctx (rm_UserID rt) (rm_FamilyID rt) created) (\<lambda>_.
     attempt commitTx (\<lambda>_. fail errRefreshGrantRefused))))"

definition redeem :: "RefreshTokenModel \<Rightarrow> time \<Rightarrow> bool \<Rightarrow> (refreshTokenAttributes \<times> string \<times> bool) act" where
  "redeem rt at graceChild =
     attempt (if graceChild then ok () else exec TXc (MarkRefreshTokenUsedAndRevokedByID at (rm_ID rt))) (\<lambda>_.
     ok (\<lparr>at_familyID = rm_FamilyID rt, at_userID = rm_UserID rt, at_clientID = rm_ClientID rt,
          at_resource = rm_Resource rt, at_scopes = rm_Scopes rt\<rparr>, rm_ID rt, graceChild))"

text \<open>The decision once the row is loaded and the request matches it.\<close>

definition decideRefresh :: "Storage \<Rightarrow> Ctx \<Rightarrow> RefreshTokenModel \<Rightarrow> time \<Rightarrow> (refreshTokenAttributes \<times> string \<times> bool) act" where
  "decideRefresh st ctx rt at =
     attempt (exec TXc (IsRefreshFamilyRevoked (rm_FamilyID rt))) (\<lambda>tomb.
     if isRefreshTokenUsedOrRevoked rt \<or> tomb then
       attempt (refreshReuseGraceDecision st rt at) (\<lambda>grace.
       case grace of
         graceIssue \<Rightarrow> redeem rt at True
       | graceRefuse \<Rightarrow>
           attempt (auditRefreshReuseGrace st ctx (rm_UserID rt) (rm_FamilyID rt) ''refused'') (\<lambda>_.
           fail errRefreshGrantRefused)
       | graceNone \<Rightarrow> detectReuse st ctx rt at)
     else redeem rt at False)"

definition refreshRequestMatches :: "TokenRequest \<Rightarrow> RefreshTokenModel \<Rightarrow> bool" where
  "refreshRequestMatches request rt =
     (case request of ReqRefresh r \<Rightarrow> rm_ClientID r = rm_ClientID rt \<and> rm_UserID r = rm_UserID rt | _ \<Rightarrow> False)"

definition consumeRefreshToken ::
  "Storage \<Rightarrow> Ctx \<Rightarrow> TokenRequest \<Rightarrow> string \<Rightarrow> (refreshTokenAttributes \<times> string \<times> bool) act" where
  "consumeRefreshToken st ctx request token =
     attempt (liftE (refreshAtRest st token)) (\<lambda>h.
     attemptOr (exec TXc (GetRefreshFamilyIDByTokenHash h))
       (\<lambda>e. if e = ErrNoRows then fail errRefreshGrantRefused else fail e) (\<lambda>family.
     attempt (exec TXc (LockRefreshFamily family)) (\<lambda>_.
     attemptOr (loadRefreshTokenForUpdate h)
       (\<lambda>e. if e = OpInvalidRefreshToken then fail errRefreshGrantRefused else fail e) (\<lambda>rt.
     if \<not> refreshRequestMatches request rt then fail errRefreshGrantRefused
     else if \<not> set (reqScopes request) \<subseteq> set (rm_Scopes rt) then fail errInvalidScope
     else
       attempt clockNow (\<lambda>at.
       attemptOr (validateRefreshTokenRequest st ctx rt at)
         (\<lambda>e. if isOidcError e \<or> e = NilDeref then fail e else fail errRefreshGrantRefused) (\<lambda>_.
       decideRefresh st ctx rt at))))))"

section \<open>Issuance\<close>

definition CreateAccessToken :: "Storage \<Rightarrow> TokenRequest \<Rightarrow> (string \<times> time) act" where
  "CreateAccessToken st request =
     attempt (consumeAuthCode st DBc request) (\<lambda>_.
     attempt (NewUUID st) (\<lambda>tokenID.
     attempt clockNow (\<lambda>at.
     ok (tokenID, at + s_accessTokenTTL st))))"

definition initialRefreshTokenAttributes :: "Storage \<Rightarrow> TokenRequest \<Rightarrow> refreshTokenAttributes act" where
  "initialRefreshTokenAttributes st request =
     attempt (NewUUID st) (\<lambda>fam.
     ok \<lparr>at_familyID = fam, at_userID = reqSubject request,
         at_clientID = (case request of ReqAuth r \<Rightarrow> am_ClientID r | ReqDevice r \<Rightarrow> ds_ClientID r | _ \<Rightarrow> ''''),
         at_resource = (case request of ReqAuth r \<Rightarrow> am_Resource r | _ \<Rightarrow> ''''),
         at_scopes = reqScopes request\<rparr>)"

text \<open>The attributes of the new token, its parent and whether it is a grace child.\<close>

definition deriveRefreshToken ::
  "Storage \<Rightarrow> Ctx \<Rightarrow> TokenRequest \<Rightarrow> string \<Rightarrow> (refreshTokenAttributes \<times> string option \<times> bool) act" where
  "deriveRefreshToken st ctx request currentRefreshToken =
     attempt (initialRefreshTokenAttributes st request) (\<lambda>derived.
     if currentRefreshToken \<noteq> '''' then
       attempt (consumeRefreshToken st ctx request currentRefreshToken) (\<lambda>(attrs, parent, graceChild).
       if \<not> s_uuidParse st parent then fail (ErrMsg ''invalid UUID'')
       else ok (attrs, Some parent, graceChild))
     else ok (derived, None, False))"

definition newRefreshRow :: "Storage \<Rightarrow> string \<Rightarrow> string \<Rightarrow> refreshTokenAttributes \<Rightarrow> string option \<Rightarrow> time \<Rightarrow> RefreshToken" where
  "newRefreshRow st rid h derived parent at =
     \<lparr>rt_ID = rid, rt_TokenHash = h, rt_FamilyID = at_familyID derived, rt_UserID = at_userID derived,
      rt_ClientID = at_clientID derived, rt_Resource = Some (at_resource derived), rt_Scopes = at_scopes derived,
      rt_ExpiresAt = at + s_refreshTokenTTL st, rt_RevokedAt = None, rt_UsedAt = None, rt_CreatedAt = at,
      rt_ParentID = parent\<rparr>"

definition CreateAccessAndRefreshTokens ::
  "Storage \<Rightarrow> Ctx \<Rightarrow> TokenRequest \<Rightarrow> string \<Rightarrow> (string \<times> string \<times> time) act" where
  "CreateAccessAndRefreshTokens st ctx request currentRefreshToken =
     attempt (NewUUID st) (\<lambda>tokenID.
     attempt clockNow (\<lambda>at.
     attempt (NewOpaqueToken st) (\<lambda>newRefresh.
     attempt (liftE (refreshAtRest st newRefresh)) (\<lambda>newHash.
     withTx (
       attempt (consumeAuthCode st TXc request) (\<lambda>_.
       attempt (deriveRefreshToken st ctx request currentRefreshToken) (\<lambda>(derived, parentID, graceChild).
       attempt (NewUUID st) (\<lambda>rid.
       attempt (exec TXc (InsertRefreshToken (newRefreshRow st rid newHash derived parentID at))) (\<lambda>_.
       attempt commitTx (\<lambda>_.
       attempt (if graceChild then auditRefreshReuseGrace st ctx (at_userID derived) (at_familyID derived) ''issued''
                else ok ()) (\<lambda>_.
       ok (tokenID, newRefresh, at + s_accessTokenTTL st))))))))))))"

end
