(* ===== verification/Devices.thy ===== *)
theory Devices
  imports Refresh_Tokens
begin

text \<open>
  The device authorization grant in storage: the device operations of \<^verbatim>\<open>storage_oidc_device.go\<close>.
  A code is pending, approved, denied or consumed; a poll of an approved code consumes it.
\<close>

section \<open>Models\<close>

record DeviceCodeModel =
  dm_ID :: string
  dm_DeviceCode :: string
  dm_UserCode :: string
  dm_ClientID :: string
  dm_Scopes :: "string list"
  dm_State :: string
  dm_Subject :: "string option"
  dm_ExpiresAt :: time
  dm_AuthTime :: "time option"
  dm_LastPolledAt :: "time option"

section \<open>Operations\<close>

definition StoreDeviceAuthorization :: "Storage \<Rightarrow> Ctx \<Rightarrow> string \<Rightarrow> string \<Rightarrow> string \<Rightarrow> time \<Rightarrow> string list \<Rightarrow> unit act" where
  "StoreDeviceAuthorization st ctx clientID deviceCode userCode expires scopes =
     attempt (NewUUID st) (\<lambda>rid.
     attempt (liftE (codeAtRest st deviceCode)) (\<lambda>dh.
     attempt (liftE (codeAtRest st userCode)) (\<lambda>uh.
     attempt clockNow (\<lambda>at.
     attempt (exec DBc (InsertDeviceCode \<lparr>dc_ID = rid, dc_DeviceCode = dh, dc_UserCode = uh, dc_ClientID = clientID,
        dc_Scopes = scopes, dc_State = ''pending'', dc_Subject = None, dc_ExpiresAt = expires, dc_AuthTime = None,
        dc_CreatedAt = at, dc_LastPolledAt = None\<rparr>)) (\<lambda>_.
     AuditLogEvent st None EventAuthDeviceCodeIssued (x_IP ctx) (x_UserAgent ctx)
       [(''client_id'', JStr clientID), (''client_name'', JStr (auditClientName st clientID))])))))"

definition deviceModelForUpdate :: "DeviceCode \<Rightarrow> DeviceCodeModel" where
  "deviceModelForUpdate row =
     \<lparr>dm_ID = dc_ID row, dm_DeviceCode = '''', dm_UserCode = '''', dm_ClientID = dc_ClientID row,
      dm_Scopes = dc_Scopes row, dm_State = dc_State row, dm_Subject = dc_Subject row,
      dm_ExpiresAt = dc_ExpiresAt row, dm_AuthTime = dc_AuthTime row, dm_LastPolledAt = dc_LastPolledAt row\<rparr>"

definition loadDeviceAuthorizationForUpdate :: "string \<Rightarrow> string \<Rightarrow> DeviceCodeModel act" where
  "loadDeviceAuthorizationForUpdate clientID deviceCode =
     attemptOr (exec TXc (GetDeviceAuthorizationForUpdate deviceCode clientID)) notFoundOr
       (\<lambda>row. ok (deviceModelForUpdate row))"

definition deviceState :: "DeviceAuthorizationState" where
  "deviceState = \<lparr>ds_ClientID = '''', ds_Scopes = [], ds_Expires = 0, ds_Done = False, ds_Denied = False,
     ds_Subject = '''', ds_AuthTime = 0\<rparr>"

definition toApprovedDeviceAuthorizationState :: "DeviceCodeModel \<Rightarrow> DeviceAuthorizationState" where
  "toApprovedDeviceAuthorizationState dc =
     deviceState\<lparr>ds_ClientID := dm_ClientID dc, ds_Scopes := dm_Scopes dc, ds_Expires := dm_ExpiresAt dc,
       ds_Done := True, ds_Subject := coalesce (dm_Subject dc),
       ds_AuthTime := (case dm_AuthTime dc of None \<Rightarrow> 0 | Some t \<Rightarrow> t)\<rparr>"

definition errConsumed :: err where
  "errConsumed = oidcErr ''invalid_grant'' ''device code already consumed''"

definition resolveDeviceAuthorizationState :: "DeviceCodeModel \<Rightarrow> time \<Rightarrow> DeviceAuthorizationState act" where
  "resolveDeviceAuthorizationState dc at =
     (if at > dm_ExpiresAt dc then attempt commitTx (\<lambda>_. ok (deviceState\<lparr>ds_Expires := dm_ExpiresAt dc\<rparr>))
      else if dm_State dc = ''denied'' then
        attempt commitTx (\<lambda>_. ok (deviceState\<lparr>ds_Denied := True, ds_Expires := dm_ExpiresAt dc\<rparr>))
      else if dm_State dc = ''approved'' then
        attempt (exec TXc (UpdateDeviceCodeStateConsumedByID (dm_ID dc))) (\<lambda>_.
        attempt commitTx (\<lambda>_. ok (toApprovedDeviceAuthorizationState dc)))
      else if dm_State dc = ''consumed'' then attempt commitTx (\<lambda>_. fail errConsumed)
      else attempt commitTx (\<lambda>_.
        ok (deviceState\<lparr>ds_ClientID := dm_ClientID dc, ds_Scopes := dm_Scopes dc, ds_Expires := dm_ExpiresAt dc\<rparr>)))"

text \<open>The cadence check: the poll is recorded, and \<open>True\<close> means that it came too soon.\<close>

definition recordPoll :: "Storage \<Rightarrow> DeviceCodeModel \<Rightarrow> time \<Rightarrow> bool act" where
  "recordPoll st dc at =
     (if dm_State dc \<noteq> ''denied'' \<and> dm_State dc \<noteq> ''consumed'' then
        attempt (exec TXc (UpdateDeviceCodeLastPolledAt at (dm_ID dc))) (\<lambda>_.
        ok ((case dm_LastPolledAt dc of None \<Rightarrow> False | Some l \<Rightarrow> timeSub at l < s_devicePollInterval st)
            \<and> dm_State dc = ''pending''))
      else ok False)"

text \<open>The re-check of an approved code's subject.\<close>

definition checkDeviceSubject :: "Storage \<Rightarrow> Ctx \<Rightarrow> DeviceCodeModel \<Rightarrow> unit act" where
  "checkDeviceSubject st ctx dc =
     (let access = StaticAccess (s_registry st) (dm_ClientID dc) in
      case dm_Subject dc of
        Some subject \<Rightarrow>
          if dm_State dc = ''approved'' \<and> (s_stateChecker st \<noteq> None \<or> Restricted access) then
            attemptOr (getUserByIDTx st subject) (\<lambda>_. fail (oidcErr ''invalid_grant'' ''subject lookup failed'')) (\<lambda>user.
            case runStateChecker st user of
              Some e \<Rightarrow> fail (oidcErr ''invalid_grant'' (errText e))
            | None \<Rightarrow> enforceStaticClientAccess st ctx access (dm_ClientID dc) ''device'' user)
          else ok ()
      | None \<Rightarrow> ok ())"

definition GetDeviceAuthorizatonState :: "Storage \<Rightarrow> Ctx \<Rightarrow> string \<Rightarrow> string \<Rightarrow> DeviceAuthorizationState act" where
  "GetDeviceAuthorizatonState st ctx clientID deviceCode =
     withTx (
       attempt (liftE (codeAtRest st deviceCode)) (\<lambda>h.
       attempt (loadDeviceAuthorizationForUpdate clientID h) (\<lambda>dc.
       attempt clockNow (\<lambda>at.
       attempt (recordPoll st dc at) (\<lambda>tooSoon.
       if tooSoon then attempt commitTx (\<lambda>_. fail DeadlineExceeded)
       else
         attempt (checkDeviceSubject st ctx dc) (\<lambda>_.
         resolveDeviceAuthorizationState dc at))))))"

definition GetDeviceCodeByUserCode :: "Storage \<Rightarrow> string \<Rightarrow> DeviceCodeModel act" where
  "GetDeviceCodeByUserCode st userCode =
     attempt (liftE (codeAtRest st userCode)) (\<lambda>h.
     attemptOr (exec DBc (GetDeviceCodeRowByUserCode h)) notFoundOr (\<lambda>row.
     ok \<lparr>dm_ID = dc_ID row, dm_DeviceCode = '''', dm_UserCode = userCode, dm_ClientID = dc_ClientID row,
         dm_Scopes = dc_Scopes row, dm_State = dc_State row, dm_Subject = dc_Subject row,
         dm_ExpiresAt = dc_ExpiresAt row, dm_AuthTime = dc_AuthTime row, dm_LastPolledAt = None\<rparr>))"

definition ensureDeviceCodeApproved :: "nat \<Rightarrow> unit act" where
  "ensureDeviceCodeApproved rows =
     (if rows = 0 then fail (ErrMsg ''device code not found, expired, or already processed'') else ok ())"

definition ApproveDeviceCode :: "Storage \<Rightarrow> string \<Rightarrow> string \<Rightarrow> time \<Rightarrow> unit act" where
  "ApproveDeviceCode st userCode subject authTime =
     attempt clockNow (\<lambda>at.
     let t = (if timeIsZero authTime then at else authTime) in
     attempt (liftE (codeAtRest st userCode)) (\<lambda>h.
     attempt (exec DBc (ApproveDeviceCodeByUserCode subject t h)) ensureDeviceCodeApproved))"

definition DenyDeviceCode :: "Storage \<Rightarrow> string \<Rightarrow> unit act" where
  "DenyDeviceCode st userCode =
     attempt (liftE (codeAtRest st userCode)) (\<lambda>h. exec DBc (DenyDeviceCodeByUserCode h))"

end
