(* ===== verification/Cleanup.thy ===== *)
theory Cleanup
  imports Devices
begin

text \<open>
  Retention: the batched deletes and the deletion of accounts of \<^verbatim>\<open>storage/cleanup_runner.go\<close> and the
  cleanup job of \<^verbatim>\<open>service/cleanup.go\<close>. The batch loop has no bound of its own, so it is a partial
  function, \<^const>\<open>None\<close> when it does not end; the theorems show that it ends. Row counts are natural
  numbers: a table has fewer than $2^{63}$ rows.
\<close>

section \<open>The runner\<close>

text \<open>An action that may not end; the pair \<^verbatim>\<open>(n, err)\<close> of a delete is kept as a pair.\<close>

type_synonym 'a pact = "world \<Rightarrow> ('a \<times> world) option"

definition cleanupBatchSize :: nat where "cleanupBatchSize = 10000"

partial_function (option) batchLoop :: "nat \<Rightarrow> (nat \<Rightarrow> nat act) \<Rightarrow> nat \<Rightarrow> (nat \<times> err option) pact" where
  "batchLoop batch del acc w =
     (case run_state (del batch) w of
        (Inl e, w') \<Rightarrow> Some ((acc, Some e), w')
      | (Inr n, w') \<Rightarrow> if n < batch then Some ((acc + n, None), w') else batchLoop batch del (acc + n) w')"

declare batchLoop.simps [code]

definition deleteInBatches :: "nat \<Rightarrow> (nat \<Rightarrow> nat act) \<Rightarrow> (nat \<times> err option) pact" where
  "deleteInBatches batch del = batchLoop batch del 0"

definition runnerDeleteRevokedRefreshTokensBefore :: "nat \<Rightarrow> time \<Rightarrow> (nat \<times> err option) pact" where
  "runnerDeleteRevokedRefreshTokensBefore batch cutoff =
     deleteInBatches batch (\<lambda>b. exec DBc (DeleteRevokedRefreshTokensBefore cutoff b))"

definition runnerDeleteExpiredRefreshTokensBefore :: "nat \<Rightarrow> time \<Rightarrow> (nat \<times> err option) pact" where
  "runnerDeleteExpiredRefreshTokensBefore batch cutoff =
     deleteInBatches batch (\<lambda>b. exec DBc (DeleteExpiredRefreshTokensBefore cutoff b))"

definition runnerDeleteExpiredOrRevokedSessions :: "nat \<Rightarrow> time \<Rightarrow> (nat \<times> err option) pact" where
  "runnerDeleteExpiredOrRevokedSessions batch cutoff =
     deleteInBatches batch (\<lambda>b. exec DBc (DeleteExpiredOrRevokedSessions cutoff b))"

definition runnerDeleteExpiredAuthRequestsBefore :: "nat \<Rightarrow> time \<Rightarrow> (nat \<times> err option) pact" where
  "runnerDeleteExpiredAuthRequestsBefore batch cutoff =
     deleteInBatches batch (\<lambda>b. exec DBc (DeleteExpiredAuthRequestsBefore cutoff b))"

definition runnerDeleteExpiredDeviceCodesBefore :: "nat \<Rightarrow> time \<Rightarrow> (nat \<times> err option) pact" where
  "runnerDeleteExpiredDeviceCodesBefore batch cutoff =
     deleteInBatches batch (\<lambda>b. exec DBc (DeleteExpiredDeviceCodesBefore cutoff b))"

definition runnerDeleteStaleRefreshTokenFamiliesBefore :: "nat \<Rightarrow> time \<Rightarrow> (nat \<times> err option) pact" where
  "runnerDeleteStaleRefreshTokenFamiliesBefore batch cutoff =
     deleteInBatches batch (\<lambda>b. exec DBc (DeleteStaleRefreshTokenFamiliesBefore cutoff b))"

text \<open>The hook runs inside the transaction, before the commit; the audit row is best effort.\<close>

definition DeleteUser :: "string \<Rightarrow> time \<Rightarrow> (string \<Rightarrow> unit act) option \<Rightarrow> unit act" where
  "DeleteUser userID now hook =
     withTx (
     attempt (exec TXc (MarkUserDeletedByID now userID)) (\<lambda>rows.
     if rows = 0 then ok ()
     else
       attempt (exec TXc (DeleteUserIdentitiesByUserID userID)) (\<lambda>_.
       attempt (exec TXc (DeleteSessionsByUserID userID)) (\<lambda>_.
       attempt (exec TXc (DeleteRefreshTokensByUserID userID)) (\<lambda>_.
       attempt (exec TXc (RedactAuditLogPIIRows userID)) (\<lambda>_.
       attempt (case hook of None \<Rightarrow> ok () | Some h \<Rightarrow> h userID) (\<lambda>_.
       attempt commitTx (\<lambda>_.
       attemptOr (exec DBc (InsertDeletionCompletedAudit userID ''pending_deletion_expired'' now))
         (\<lambda>_. ok ()) ok))))))))"

section \<open>The service\<close>

definition revokedRefreshRetention :: duration where "revokedRefreshRetention = 7 * 24 * hour"
definition expiredRefreshRetention :: duration where "expiredRefreshRetention = 24 * hour"
definition familyTombstoneMargin :: duration where "familyTombstoneMargin = 7 * 24 * hour"
definition defaultUserAuditPIIRetention :: duration where "defaultUserAuditPIIRetention = 90 * 24 * hour"
definition defaultAdminAuditPIIRetention :: duration where "defaultAdminAuditPIIRetention = 730 * 24 * hour"

record CleanupService =
  cs_batch :: nat
  cs_auditPIIRetention :: duration
  cs_adminAuditPIIRetention :: duration
  cs_refreshTokenTTL :: duration
  cs_deleteUserHook :: "(string \<Rightarrow> unit act) option"

definition NewCleanupService :: CleanupService where
  "NewCleanupService = \<lparr>cs_batch = cleanupBatchSize, cs_auditPIIRetention = defaultUserAuditPIIRetention,
     cs_adminAuditPIIRetention = defaultAdminAuditPIIRetention, cs_refreshTokenTTL = 30 * 24 * hour,
     cs_deleteUserHook = None\<rparr>"

definition SetAuditLogPIIRetention :: "CleanupService \<Rightarrow> duration \<Rightarrow> CleanupService" where
  "SetAuditLogPIIRetention c retention = (if retention > 0 then c\<lparr>cs_auditPIIRetention := retention\<rparr> else c)"

definition SetAdminAuditLogPIIRetention :: "CleanupService \<Rightarrow> duration \<Rightarrow> CleanupService" where
  "SetAdminAuditLogPIIRetention c retention = (if retention > 0 then c\<lparr>cs_adminAuditPIIRetention := retention\<rparr> else c)"

definition SetRefreshTokenTTL :: "CleanupService \<Rightarrow> duration \<Rightarrow> CleanupService" where
  "SetRefreshTokenTTL c ttl = (if ttl > 0 then c\<lparr>cs_refreshTokenTTL := ttl\<rparr> else c)"

text \<open>A job that fails is joined to \<^verbatim>\<open>runErr\<close>, here the list of errors, and the next one runs.\<close>

definition batchJob :: "(nat \<times> err option) pact \<Rightarrow> err list pact" where
  "batchJob m w = (case m w of None \<Rightarrow> None | Some ((n, e), w') \<Rightarrow> Some (case e of None \<Rightarrow> [] | Some x \<Rightarrow> [x], w'))"

definition actJob :: "'a act \<Rightarrow> err list pact" where
  "actJob m w = (case run_state m w of (Inl e, w') \<Rightarrow> Some ([e], w') | (Inr _, w') \<Rightarrow> Some ([], w'))"

fun deleteUsers :: "(string \<Rightarrow> unit act) option \<Rightarrow> time \<Rightarrow> string list \<Rightarrow> err list \<Rightarrow> world \<Rightarrow> err list \<times> world" where
  "deleteUsers hook now [] errs w = (errs, w)"
| "deleteUsers hook now (u # us) errs w =
     (case run_state (DeleteUser u now hook) w of
        (Inl e, w') \<Rightarrow> deleteUsers hook now us (errs @ [e]) w'
      | (Inr _, w') \<Rightarrow> deleteUsers hook now us errs w')"

definition deletionJob :: "(string \<Rightarrow> unit act) option \<Rightarrow> time \<Rightarrow> err list pact" where
  "deletionJob hook now w =
     (case run_state (exec DBc (ListPendingDeletionUserIDsBefore now)) w of
        (Inl e, w') \<Rightarrow> Some ([e], w')
      | (Inr userIDs, w') \<Rightarrow> Some (deleteUsers hook now userIDs [] w'))"

fun runJobs :: "err list pact list \<Rightarrow> err list pact" where
  "runJobs [] w = Some ([], w)"
| "runJobs (j # js) w =
     (case j w of None \<Rightarrow> None
      | Some (e1, w') \<Rightarrow> (case runJobs js w' of None \<Rightarrow> None | Some (e2, w'') \<Rightarrow> Some (e1 @ e2, w'')))"

definition cleanupJobs :: "CleanupService \<Rightarrow> time \<Rightarrow> err list pact list" where
  "cleanupJobs c now =
     [batchJob (runnerDeleteRevokedRefreshTokensBefore (cs_batch c) (now - revokedRefreshRetention)),
      batchJob (runnerDeleteExpiredRefreshTokensBefore (cs_batch c) (now - expiredRefreshRetention)),
      batchJob (runnerDeleteExpiredOrRevokedSessions (cs_batch c) now),
      batchJob (runnerDeleteExpiredAuthRequestsBefore (cs_batch c) (now - hour)),
      batchJob (runnerDeleteExpiredDeviceCodesBefore (cs_batch c) (now - hour)),
      deletionJob (cs_deleteUserHook c) now,
      batchJob (runnerDeleteStaleRefreshTokenFamiliesBefore (cs_batch c) (now - (cs_refreshTokenTTL c + familyTombstoneMargin))),
      actJob (exec DBc (AnonymizeAuditLogBefore False (now - cs_auditPIIRetention c))),
      actJob (exec DBc (AnonymizeAuditLogBefore True (now - cs_adminAuditPIIRetention c)))]"

definition runAllLocked :: "CleanupService \<Rightarrow> err list pact" where
  "runAllLocked c w = runJobs (cleanupJobs c (w_now w)) w"

text \<open>The advisory lock is held by the server: \<open>free\<close> is what the attempt to take it answers,
  \<open>released\<close> what the unlock answers. The result is \<^verbatim>\<open>(acquired, err)\<close>.\<close>

definition WithExclusiveLock :: "bool \<Rightarrow> bool \<Rightarrow> err list pact \<Rightarrow> (bool \<times> err list) pact" where
  "WithExclusiveLock free released fn w =
     (case run_state (attempt (exec DBc (\<lambda>d. (Inr (), d))) (\<lambda>_. exec DBc (\<lambda>d. (Inr free, d)))) w of
        (Inl e, w') \<Rightarrow> Some ((False, [e]), w')
      | (Inr acquired, w') \<Rightarrow>
          if \<not> acquired then Some ((False, []), w')
          else (case fn w' of None \<Rightarrow> None
                | Some (runErr, w'') \<Rightarrow>
                    (case run_state (exec DBc (\<lambda>d. (Inr released, d))) w'' of
                       (unlock, w3) \<Rightarrow>
                         Some ((True, if runErr \<noteq> [] then runErr
                                      else (case unlock of Inl e \<Rightarrow> [e]
                                            | Inr r \<Rightarrow> if \<not> r then [ErrMsg ''cleanup advisory unlock failed''] else [])), w3))))"

definition runAll :: "CleanupService \<Rightarrow> bool \<Rightarrow> bool \<Rightarrow> world \<Rightarrow> world option" where
  "runAll c free released w = map_option snd (WithExclusiveLock free released (runAllLocked c) w)"

text \<open>
  The loop of \<^verbatim>\<open>Start\<close> over the events of its select: a tick, before which the rest of the server has changed the
  world, or the end of the context. After the last event the loop waits.
\<close>

datatype StartEvent = Ticked bool bool "world \<Rightarrow> world" | CtxDone

fun startLoop :: "CleanupService \<Rightarrow> StartEvent list \<Rightarrow> world \<Rightarrow> world option" where
  "startLoop c [] w = Some w"
| "startLoop c (CtxDone # events) w = Some w"
| "startLoop c (Ticked free released others # events) w =
     (case runAll c free released (others w) of None \<Rightarrow> None | Some w' \<Rightarrow> startLoop c events w')"

definition Start :: "CleanupService \<Rightarrow> bool \<Rightarrow> bool \<Rightarrow> StartEvent list \<Rightarrow> world \<Rightarrow> world option" where
  "Start c free released events w = Option.bind (runAll c free released w) (startLoop c events)"

end
