(* ===== verification/Store_Logic.thy ===== *)
theory Store_Logic
  imports Store_Base
begin

text \<open>
  A program logic for storage actions. An assertion on a world has two parts: \<open>winv J\<close> on the
  committed database and \<open>txinv A\<close> on the working copy of an open transaction; both may mention the
  id counter, so that freshness of generated ids can be stated. The rules follow the statements of
  a transaction and hold for every outcome of the database calls.
\<close>

definition winv :: "(nat \<Rightarrow> dbs \<Rightarrow> bool) \<Rightarrow> world \<Rightarrow> bool" where
  "winv J w \<longleftrightarrow> J (w_idc w) (w_db w)"

definition txinv :: "(nat \<Rightarrow> dbs \<Rightarrow> bool) \<Rightarrow> world \<Rightarrow> bool" where
  "txinv A w \<longleftrightarrow> (\<forall>t. w_tx w = Some t \<longrightarrow> A (w_idc w) t)"

text \<open>\<open>tri J A m E B\<close>: from \<open>J\<close> and \<open>A\<close>, the action keeps \<open>J\<close> of the committed database and ends
  with \<open>E e\<close> (error) or \<open>B x\<close> (result) of the working copy.\<close>

definition tri :: "(nat \<Rightarrow> dbs \<Rightarrow> bool) \<Rightarrow> (nat \<Rightarrow> dbs \<Rightarrow> bool) \<Rightarrow> 'a act \<Rightarrow>
    (err \<Rightarrow> nat \<Rightarrow> dbs \<Rightarrow> bool) \<Rightarrow> ('a \<Rightarrow> nat \<Rightarrow> dbs \<Rightarrow> bool) \<Rightarrow> bool" where
  "tri J A m E B \<longleftrightarrow>
     triple (\<lambda>w. winv J w \<and> txinv A w) m
       (\<lambda>r w. winv J w \<and> (case r of Inl e \<Rightarrow> txinv (E e) w | Inr x \<Rightarrow> txinv (B x) w))"

abbreviation anyErr :: "err \<Rightarrow> nat \<Rightarrow> dbs \<Rightarrow> bool" where
  "anyErr \<equiv> \<lambda>_ _ _. True"

lemma triI:
  assumes "\<And>w r w'. winv J w \<Longrightarrow> txinv A w \<Longrightarrow> run_state m w = (r, w') \<Longrightarrow>
      winv J w' \<and> (case r of Inl e \<Rightarrow> txinv (E e) w' | Inr x \<Rightarrow> txinv (B x) w')"
  shows "tri J A m E B"
  unfolding tri_def by (rule tripleI) (use assms in blast)

lemma triD:
  assumes "tri J A m E B" "winv J w" "txinv A w" "run_state m w = (r, w')"
  shows "winv J w'" "r = Inl e \<Longrightarrow> txinv (E e) w'" "r = Inr x \<Longrightarrow> txinv (B x) w'"
proof -
  have "winv J w' \<and> (case r of Inl e \<Rightarrow> txinv (E e) w' | Inr x \<Rightarrow> txinv (B x) w')"
    using tripleD [OF assms(1) [unfolded tri_def]] assms(2-4) by blast
  then show "winv J w'" "r = Inl e \<Longrightarrow> txinv (E e) w'" "r = Inr x \<Longrightarrow> txinv (B x) w'"
    by auto
qed

lemma txinv_mono: "txinv A w \<Longrightarrow> (\<And>k t. A k t \<Longrightarrow> B k t) \<Longrightarrow> txinv B w"
  by (auto simp: txinv_def)

lemma tri_conseq:
  assumes "tri J A m E B" "\<And>k t. A' k t \<Longrightarrow> A k t" "\<And>e k t. E e k t \<Longrightarrow> E' e k t" "\<And>x k t. B x k t \<Longrightarrow> B' x k t"
  shows "tri J A' m E' B'"
proof (rule triI)
  fix w r w'
  assume *: "winv J w" "txinv A' w" "run_state m w = (r, w')"
  then have "txinv A w" using assms(2) by (auto simp: txinv_def)
  note D = triD [OF assms(1) *(1) this *(3)]
  show "winv J w' \<and> (case r of Inl e \<Rightarrow> txinv (E' e) w' | Inr x \<Rightarrow> txinv (B' x) w')"
    using D assms(3,4) by (cases r) (auto simp: txinv_def)
qed

lemma tri_ok: "(\<And>k t. A k t \<Longrightarrow> B x k t) \<Longrightarrow> tri J A (ok x) E B"
  by (rule triI) (auto simp: txinv_def)

lemma tri_fail: "(\<And>k t. A k t \<Longrightarrow> E e k t) \<Longrightarrow> tri J A (fail e) E B"
  by (rule triI) (auto simp: txinv_def)

lemma tri_liftE:
  "(\<And>e k t. r = Inl e \<Longrightarrow> A k t \<Longrightarrow> E e k t) \<Longrightarrow> (\<And>x k t. r = Inr x \<Longrightarrow> A k t \<Longrightarrow> B x k t) \<Longrightarrow> tri J A (liftE r) E B"
  by (rule triI) (auto simp: txinv_def split: sum.splits)

lemma tri_clockNow: "(\<And>x k t. A k t \<Longrightarrow> B x k t) \<Longrightarrow> tri J A clockNow E B"
  by (rule triI) (auto simp: txinv_def)

lemma tri_attemptOr:
  assumes "tri J A m E1 B1" "\<And>e. tri J (E1 e) (h e) E B" "\<And>x. tri J (B1 x) (f x) E B"
  shows "tri J A (attemptOr m h f) E B"
proof (rule triI)
  fix w r w'
  assume *: "winv J w" "txinv A w" "run_state (attemptOr m h f) w = (r, w')"
  obtain r1 w1 where m: "run_state m w = (r1, w1)" by (cases "run_state m w")
  note D = triD [OF assms(1) *(1,2) m]
  show "winv J w' \<and> (case r of Inl e \<Rightarrow> txinv (E e) w' | Inr x \<Rightarrow> txinv (B x) w')"
  proof (cases r1)
    case (Inl e)
    with *(3) m have "run_state (h e) w1 = (r, w')" by (simp add: run_attemptOr)
    from triD [OF assms(2) D(1) D(2) [OF Inl] this] show ?thesis by (auto split: sum.splits)
  next
    case (Inr x)
    with *(3) m have "run_state (f x) w1 = (r, w')" by (simp add: run_attemptOr)
    from triD [OF assms(3) D(1) D(3) [OF Inr] this] show ?thesis by (auto split: sum.splits)
  qed
qed

lemma tri_attempt:
  assumes "tri J A m E B1" "\<And>x. tri J (B1 x) (f x) E B"
  shows "tri J A (attempt m f) E B"
  unfolding attempt_def by (rule tri_attemptOr [OF assms(1) _ assms(2)]) (auto intro: tri_fail)

lemma tri_if: "(b \<Longrightarrow> tri J A m E B) \<Longrightarrow> (\<not> b \<Longrightarrow> tri J A n E B) \<Longrightarrow> tri J A (if b then m else n) E B"
  by simp

lemma tri_case_option:
  "(r = None \<Longrightarrow> tri J A m E B) \<Longrightarrow> (\<And>x. r = Some x \<Longrightarrow> tri J A (f x) E B) \<Longrightarrow>
   tri J A (case r of None \<Rightarrow> m | Some x \<Rightarrow> f x) E B"
  by (cases r) auto

lemma tri_case_prod:
  "(\<And>x y. p = (x, y) \<Longrightarrow> tri J A (f x y) E B) \<Longrightarrow> tri J A (case p of (x, y) \<Rightarrow> f x y) E B"
  by (cases p) auto

text \<open>Statements of the transaction: every outcome is covered.\<close>

lemma tri_exec_TX:
  assumes "\<And>k t x. A k t \<Longrightarrow> fst (q t) = Inr x \<Longrightarrow> B x k (snd (q t))"
    and "\<And>k t e. A k t \<Longrightarrow> fst (q t) = Inl e \<Longrightarrow> E e k (snd (q t))"
    and "\<And>k t. A k t \<Longrightarrow> E ErrDb k t" "\<And>k t. A k t \<Longrightarrow> E ErrDb k (snd (q t))"
  shows "tri J A (exec TXc q) E B"
proof (rule triI)
  fix w r w'
  assume *: "winv J w" "txinv A w" "run_state (exec TXc q) w = (r, w')"
  obtain out w1 where n: "nextOutcome w = (out, w1)" by (cases "nextOutcome w")
  note fr = nextOutcome_frame [OF n]
  show "winv J w' \<and> (case r of Inl e \<Rightarrow> txinv (E e) w' | Inr x \<Rightarrow> txinv (B x) w')"
  proof (cases "w_tx w")
    case None
    with * n fr show ?thesis by (auto simp: exec_def txinv_def winv_def)
  next
    case (Some t)
    with *(2) have A: "A (w_idc w) t" by (simp add: txinv_def)
    show ?thesis
      using * n fr Some A assms(1) [OF A] assms(2) [OF A] assms(3) [OF A] assms(4) [OF A]
      by (cases out) (auto simp: exec_def txinv_def winv_def split: sum.splits)
  qed
qed

text \<open>A query leaves the copy as it is.\<close>

lemma tri_query_TX:
  assumes "\<And>d. snd (q d) = d"
    and "\<And>k t x. A k t \<Longrightarrow> fst (q t) = Inr x \<Longrightarrow> B x k t"
  shows "tri J A (exec TXc q) (\<lambda>_. A) B"
  by (rule tri_exec_TX) (auto simp: assms)

lemma tri_query_TX_any:
  assumes "\<And>d. snd (q d) = d"
    and "\<And>k t x. A k t \<Longrightarrow> fst (q t) = Inr x \<Longrightarrow> B x k t"
  shows "tri J A (exec TXc q) anyErr B"
  by (rule tri_exec_TX) (auto simp: assms)

text \<open>Statements on a pooled connection while the transaction may be open.\<close>

lemma tri_exec_DB:
  assumes "\<And>k d. J k d \<Longrightarrow> J k (snd (q d))" "\<And>k t. A k t \<Longrightarrow> A k (snd (q t))"
  shows "tri J A (exec DBc q) (\<lambda>_. A) (\<lambda>_. A)"
proof (rule triI)
  fix w r w'
  assume *: "winv J w" "txinv A w" "run_state (exec DBc q) w = (r, w')"
  obtain out w1 where n: "nextOutcome w = (out, w1)" by (cases "nextOutcome w")
  note fr = nextOutcome_frame [OF n]
  show "winv J w' \<and> (case r of Inl e \<Rightarrow> txinv A w' | Inr x \<Rightarrow> txinv A w')"
    using * n fr assms by (cases out) (auto simp: exec_def txinv_def winv_def split: sum.splits)
qed

lemma tri_commitTx:
  assumes "\<And>k t. A k t \<Longrightarrow> J k t"
  shows "tri J A commitTx E (\<lambda>_ _ _. False)"
proof (rule triI)
  fix w r w'
  assume *: "winv J w" "txinv A w" "run_state commitTx w = (r, w')"
  obtain out w1 where n: "nextOutcome w = (out, w1)" by (cases "nextOutcome w")
  note fr = nextOutcome_frame [OF n]
  show "winv J w' \<and> (case r of Inl e \<Rightarrow> txinv (E e) w' | Inr x \<Rightarrow> txinv (\<lambda>_ _. False) w')"
    using * n fr assms
    by (cases "w_tx w"; cases out) (auto simp: commitTx_def txinv_def winv_def split: sum.splits)
qed

text \<open>A new id: the counter moves on, and the id is the one before it.\<close>

lemma tri_NewUUID:
  assumes "\<And>k d. J k d \<Longrightarrow> J (Suc k) d" "\<And>k t. A k t \<Longrightarrow> B (s_uuid st k) (Suc k) t"
  shows "tri J A (NewUUID st) E B"
  by (rule triI) (auto simp: txinv_def winv_def assms)

lemma tri_NewOpaqueToken:
  assumes "\<And>k d. J k d \<Longrightarrow> J (Suc k) d" "\<And>k t e. A k t \<Longrightarrow> E e (Suc k) t" "\<And>k t x. A k t \<Longrightarrow> B x (Suc k) t"
  shows "tri J A (NewOpaqueToken st) E B"
  by (rule triI) (auto simp: txinv_def winv_def assms split: sum.splits)

lemma tri_readNonce:
  assumes "\<And>k d. J k d \<Longrightarrow> J (Suc k) d" "\<And>k t x. A k t \<Longrightarrow> B x (Suc k) t"
  shows "tri J A (readNonce st) E B"
  by (rule triI) (auto simp: txinv_def winv_def assms)

text \<open>A whole transaction: the body starts on a copy of the committed database.\<close>

lemma tri_withTx:
  assumes "tri J J body E' B'" "\<And>k t. A k t \<Longrightarrow> E ErrDb k t"
  shows "tri J A (withTx body) E B"
proof (rule triI)
  fix w r w'
  assume *: "winv J w" "txinv A w" "run_state (withTx body) w = (r, w')"
  obtain out w1 where n: "nextOutcome w = (out, w1)" by (cases "nextOutcome w")
  note fr = nextOutcome_frame [OF n]
  show "winv J w' \<and> (case r of Inl e \<Rightarrow> txinv (E e) w' | Inr x \<Rightarrow> txinv (B x) w')"
  proof (cases "out = Fine")
    case True
    let ?w = "w1\<lparr>w_tx := Some (w_db w1)\<rparr>"
    obtain r2 w2 where b: "run_state body ?w = (r2, w2)" by (cases "run_state body ?w")
    have "winv J ?w" "txinv J ?w" using * fr by (auto simp: winv_def txinv_def)
    from triD(1) [OF assms(1) this b] have "winv J w2" .
    moreover have "r = r2" "w' = w2\<lparr>w_tx := None\<rparr>"
      using *(3) n True b by (auto simp: run_withTx beginTx_def)
    ultimately show ?thesis by (auto simp: winv_def txinv_def split: sum.splits)
  next
    case False
    with * n fr assms(2) show ?thesis
      by (auto simp: run_withTx beginTx_def winv_def txinv_def)
  qed
qed

text \<open>Audit writes keep every assertion that ignores the audit log.\<close>

definition audit_free :: "(nat \<Rightarrow> dbs \<Rightarrow> bool) \<Rightarrow> bool" where
  "audit_free J \<longleftrightarrow> (\<forall>k d a. J k (d\<lparr>audit_log := a\<rparr>) = J k d)"

lemma audit_freeD: "audit_free J \<Longrightarrow> J k d \<Longrightarrow> J k (snd (InsertAuditLog row d))"
  using snd_InsertAuditLog [of row d] by (auto simp: audit_free_def)

lemma tri_AuditLogEvent:
  assumes "audit_free J" "audit_free A"
  shows "tri J A (AuditLogEvent st u ev ip ua md) (\<lambda>_. A) (\<lambda>_. A)"
  unfolding AuditLogEvent_def
  by (intro tri_attempt [where ?B1.0 = "\<lambda>_. A"] tri_attemptOr [where ?B1.0 = "\<lambda>_. A" and ?E1.0 = "\<lambda>_. A"]
        tri_clockNow tri_liftE tri_exec_DB tri_ok) (auto dest: audit_freeD [OF assms(1)] audit_freeD [OF assms(2)])

lemma audit_free_const [simp]: "audit_free (\<lambda>_ _. c)"
  by (simp add: audit_free_def)

lemma tri_AuditLogEvent_any:
  assumes "audit_free J" "audit_free A"
  shows "tri J A (AuditLogEvent st u ev ip ua md) anyErr (\<lambda>_. A)"
  by (rule tri_conseq [OF tri_AuditLogEvent [OF assms]]) auto

lemma tri_writeAuditLogTx:
  assumes "audit_free A"
  shows "tri J A (writeAuditLogTx st u ev ip ua md) (\<lambda>_. A) (\<lambda>_. A)"
  unfolding writeAuditLogTx_def
  by (intro tri_attempt [where ?B1.0 = "\<lambda>_. A"] tri_clockNow tri_liftE tri_exec_TX)
     (auto dest: audit_freeD [OF assms])

lemma tri_enforceStaticClientAccess:
  assumes "audit_free J" "audit_free A"
  shows "tri J A (enforceStaticClientAccess st ctx acc cid ch u) (\<lambda>_. A) (\<lambda>_. A)"
  unfolding enforceStaticClientAccess_def
  by (cases "Evaluate acc (AccessSubject u)")
     (auto intro!: tri_ok tri_attempt [where ?B1.0 = "\<lambda>_. A"] tri_fail tri_AuditLogEvent assms)

text \<open>From a triple to a run that starts outside any transaction.\<close>

lemma tri_run:
  assumes "tri J A m E B" "winv J w" "w_tx w = None" "run_state m w = (r, w')"
  shows "winv J w'"
  using triD(1) [OF assms(1,2) _ assms(4)] assms(3) by (auto simp: txinv_def)

lemma tri_keeps: "tri J (\<lambda>_ _. True) m E B \<Longrightarrow> keeps (winv J) m"
  by (rule keepsI) (auto simp: txinv_def dest: triD(1))

lemma audited: "audit_free J \<Longrightarrow> keeps (winv J) (AuditLogEvent st u ev ip ua md)"
  by (rule tri_keeps [OF tri_AuditLogEvent_any]) simp_all

end
