(* ===== verification/Refresh_Safety.thy ===== *)
theory Refresh_Safety
  imports Refresh_Tokens Store_Logic
begin

text \<open>
  The invariant of the refresh-token tables and that token issuance, revocation and redemption keep
  it, whatever the database calls answer: a redeemed or revoked token never becomes live again, a
  token has children only after it was redeemed, a tombstoned family has no live token, the number
  of children is bounded, and a child carries its parent's grant. Generated ids are fresh: the
  invariant records that every id in the tables came from the generator.
\<close>

section \<open>The invariant\<close>

definition below :: "Storage \<Rightarrow> nat \<Rightarrow> string \<Rightarrow> bool" where
  "below st k s \<longleftrightarrow> (\<exists>n < k. s = s_uuid st n)"

definition children :: "dbs \<Rightarrow> string \<Rightarrow> nat" where
  "children d p = count_where (\<lambda>t. rt_ParentID t = Some p) (refresh_tokens d)"

definition graceOn :: "Storage \<Rightarrow> string \<Rightarrow> bool" where
  "graceOn st cid \<longleftrightarrow> s_refreshReuseGrace st > 0 \<and> StaticRefreshGraceAllowed (s_registry st) cid"

text \<open>Two rows of one grant.\<close>

definition sameGrant :: "RefreshToken \<Rightarrow> RefreshToken \<Rightarrow> bool" where
  "sameGrant c t \<longleftrightarrow> rt_FamilyID c = rt_FamilyID t \<and> rt_UserID c = rt_UserID t \<and> rt_ClientID c = rt_ClientID t
     \<and> coalesce (rt_Resource c) = coalesce (rt_Resource t) \<and> rt_Scopes c = rt_Scopes t"

definition rowInv :: "Storage \<Rightarrow> nat \<Rightarrow> dbs \<Rightarrow> RefreshToken \<Rightarrow> bool" where
  "rowInv st k d t \<longleftrightarrow>
     below st k (rt_ID t) \<and> below st k (rt_FamilyID t) \<and> (\<forall>p. rt_ParentID t = Some p \<longrightarrow> below st k p)
     \<and> (rt_RevokedAt t = None \<longrightarrow> rt_UsedAt t = None)
     \<and> (rt_UsedAt t = None \<longrightarrow> children d (rt_ID t) = 0)
     \<and> (tombstoned d (rt_FamilyID t) \<longrightarrow> rt_RevokedAt t \<noteq> None)
     \<and> (\<not> graceOn st (rt_ClientID t) \<longrightarrow> children d (rt_ID t) \<le> 1)
     \<and> (\<forall>c \<in> set (refresh_tokens d). rt_ParentID c = Some (rt_ID t) \<longrightarrow> sameGrant c t)"

definition rinv :: "Storage \<Rightarrow> nat \<Rightarrow> dbs \<Rightarrow> bool" where
  "rinv st k d \<longleftrightarrow> distinct (map rt_ID (refresh_tokens d))
     \<and> (\<forall>f \<in> set (refresh_token_families d). below st k (rf_FamilyID f))
     \<and> (\<forall>t \<in> set (refresh_tokens d). rowInv st k d t)
     \<and> (\<forall>p. children d p \<le> refreshReuseGraceMaxIssued)"

lemma below_mono: "below st k s \<Longrightarrow> k \<le> l \<Longrightarrow> below st l s"
  by (auto simp: below_def dest: order_less_le_trans)

lemma rowInv_Suc: "rowInv st k d t \<Longrightarrow> rowInv st (Suc k) d t"
  unfolding rowInv_def by (auto intro: below_mono)

lemma rinv_Suc: "rinv st k d \<Longrightarrow> rinv st (Suc k) d"
  by (auto simp: rinv_def intro: rowInv_Suc below_mono)

lemma rinv_empty: "rinv st k emptyDb"
  by (simp add: rinv_def emptyDb_def children_def)

lemma rinv_audit_free: "audit_free (rinv st)"
  by (simp add: audit_free_def rinv_def rowInv_def children_def tombstoned_def)

text \<open>The invariant reads only the two token tables.\<close>

lemma rinv_cong:
  "refresh_tokens d' = refresh_tokens d \<Longrightarrow> refresh_token_families d' = refresh_token_families d \<Longrightarrow>
   rinv st k d' \<longleftrightarrow> rinv st k d"
  by (simp add: rinv_def rowInv_def children_def tombstoned_def)

section \<open>Statements that only revoke\<close>

text \<open>A row update that keeps the grant and only moves the token forward.\<close>

definition forward :: "(RefreshToken \<Rightarrow> RefreshToken) \<Rightarrow> bool" where
  "forward f \<longleftrightarrow> (\<forall>t. rt_ID (f t) = rt_ID t \<and> rt_ParentID (f t) = rt_ParentID t \<and> sameGrant (f t) t
     \<and> rt_RevokedAt (f t) \<noteq> None \<and> (rt_UsedAt (f t) = None \<longrightarrow> rt_UsedAt t = None))"

lemma children_upd: "forward f \<Longrightarrow> children (d\<lparr>refresh_tokens := upd_where P f rs\<rparr>) p = children (d\<lparr>refresh_tokens := rs\<rparr>) p"
  by (simp add: children_def forward_def)

lemma sameGrant_trans: "sameGrant a b \<Longrightarrow> sameGrant b c \<Longrightarrow> sameGrant a c"
  by (simp add: sameGrant_def)

lemma sameGrant_sym: "sameGrant a b \<Longrightarrow> sameGrant b a"
  by (simp add: sameGrant_def)

lemma sameGrant_refl [simp]: "sameGrant a a"
  by (simp add: sameGrant_def)

lemma rowInv_upd:
  assumes f: "forward f" and inv: "rowInv st k d t" and t': "t' = (if P t then f t else t)"
  shows "rowInv st k (d\<lparr>refresh_tokens := upd_where P f (refresh_tokens d)\<rparr>) t'"
proof -
  let ?d = "d\<lparr>refresh_tokens := upd_where P f (refresh_tokens d)\<rparr>"
  have id: "rt_ID t' = rt_ID t" "rt_ParentID t' = rt_ParentID t" and g: "sameGrant t' t"
    and rev: "rt_RevokedAt t' = None \<longrightarrow> rt_RevokedAt t = None \<and> rt_UsedAt t' = rt_UsedAt t"
    and used: "rt_UsedAt t' = None \<longrightarrow> rt_UsedAt t = None"
    using f [unfolded forward_def, rule_format, of t] by (auto simp: t')
  have ch: "children ?d p = children d p" for p
    using children_upd [OF f, of P "refresh_tokens d" d p] by simp
  have "sameGrant c t'" if c: "c \<in> set (refresh_tokens ?d)" and pc: "rt_ParentID c = Some (rt_ID t)" for c
  proof -
    from c have "c \<in> set (upd_where P f (refresh_tokens d))" by simp
    then obtain c0 where "c0 \<in> set (refresh_tokens d)" "rt_ParentID c0 = Some (rt_ID t)" "sameGrant c c0"
    proof (cases rule: upd_whereE)
      case (1 c0)
      with f [unfolded forward_def, rule_format, of c0] pc show ?thesis by (auto intro: that)
    next
      case 2
      with pc show ?thesis by (auto intro: that)
    qed
    moreover from this inv have "sameGrant c0 t" by (simp add: rowInv_def)
    ultimately show ?thesis using g sameGrant_trans sameGrant_sym by blast
  qed
  moreover have "tombstoned ?d = tombstoned d" by (simp add: tombstoned_def fun_eq_iff)
  moreover have "rt_FamilyID t' = rt_FamilyID t" "rt_ClientID t' = rt_ClientID t"
    using g by (simp_all add: sameGrant_def)
  ultimately show ?thesis
    using inv id rev used unfolding rowInv_def ch by auto
qed

lemma rinv_upd:
  assumes "forward f" "rinv st k d"
  shows "rinv st k (d\<lparr>refresh_tokens := upd_where P f (refresh_tokens d)\<rparr>)"
proof -
  let ?d = "d\<lparr>refresh_tokens := upd_where P f (refresh_tokens d)\<rparr>"
  have "children ?d p = children d p" for p
    using children_upd [OF assms(1), of P "refresh_tokens d" d p] by simp
  moreover have "distinct (map rt_ID (upd_where P f (refresh_tokens d)))"
    using assms by (simp add: forward_def rinv_def)
  moreover have "rowInv st k ?d t'" if "t' \<in> set (refresh_tokens ?d)" for t'
  proof -
    from that have "t' \<in> set (upd_where P f (refresh_tokens d))" by simp
    then obtain t where "t \<in> set (refresh_tokens d)" "t' = (if P t then f t else t)"
      by (cases rule: upd_whereE) auto
    with assms(2) show ?thesis by (auto simp: rinv_def intro!: rowInv_upd [OF assms(1)])
  qed
  ultimately show ?thesis using assms(2) by (auto simp: rinv_def)
qed

lemma forward_revoke: "forward (rt_RevokedAt_update (\<lambda>_. Some now))"
  by (simp add: forward_def sameGrant_def)

lemma forward_use: "forward (\<lambda>t. t\<lparr>rt_UsedAt := Some now, rt_RevokedAt := Some now\<rparr>)"
  by (simp add: forward_def sameGrant_def)

lemma rinv_RevokeRefreshFamily: "rinv st k d \<Longrightarrow> rinv st k (snd (RevokeRefreshFamily now fam d))"
  by (simp add: RevokeRefreshFamily_def revokeFamilyRows_def rinv_upd forward_revoke)

lemma rinv_RevokeActive: "rinv st k d \<Longrightarrow> rinv st k (snd (RevokeActiveRefreshTokensByUserID now uid d))"
  by (simp add: RevokeActiveRefreshTokensByUserID_def rinv_upd forward_revoke)

lemma rinv_MarkUsed: "rinv st k d \<Longrightarrow> rinv st k (snd (MarkRefreshTokenUsedAndRevokedByID now i d))"
  by (simp add: MarkRefreshTokenUsedAndRevokedByID_def rinv_upd forward_use)

section \<open>Tombstones, deletions and insertions\<close>

definition familyDead :: "dbs \<Rightarrow> string \<Rightarrow> bool" where
  "familyDead d fam \<longleftrightarrow> (\<forall>t \<in> set (refresh_tokens d). rt_FamilyID t = fam \<longrightarrow> rt_RevokedAt t \<noteq> None)"

lemma familyDead_RevokeRefreshFamily: "familyDead (snd (RevokeRefreshFamily now fam d)) fam"
  by (simp add: familyDead_def RevokeRefreshFamily_def revokeFamilyRows_def ball_upd_where liveToken_def)

lemma rowInv_tombstone:
  assumes "rowInv st k d t" "rt_FamilyID t = rf_FamilyID row \<Longrightarrow> rt_RevokedAt t \<noteq> None"
  shows "rowInv st k (d\<lparr>refresh_token_families := refresh_token_families d @ [row]\<rparr>) t"
proof -
  let ?d = "d\<lparr>refresh_token_families := refresh_token_families d @ [row]\<rparr>"
  have "tombstoned ?d f \<longleftrightarrow> tombstoned d f \<or> f = rf_FamilyID row" for f
    by (auto simp: tombstoned_def)
  moreover have "children ?d = children d" by (simp add: children_def fun_eq_iff)
  ultimately show ?thesis using assms unfolding rowInv_def by auto
qed

lemma rinv_Tombstone:
  assumes "rinv st k d" "familyDead d (rf_FamilyID row)" "below st k (rf_FamilyID row)"
  shows "rinv st k (snd (TombstoneRefreshFamily row d))"
proof -
  let ?d = "d\<lparr>refresh_token_families := refresh_token_families d @ [row]\<rparr>"
  have "rowInv st k ?d t" if "t \<in> set (refresh_tokens d)" for t
    using assms that by (auto simp: rinv_def familyDead_def intro: rowInv_tombstone)
  moreover have "children ?d = children d" by (simp add: children_def fun_eq_iff)
  ultimately have "rinv st k ?d" using assms unfolding rinv_def by auto
  with assms(1) show ?thesis by (simp add: TombstoneRefreshFamily_def)
qed

lemma rinv_delete:
  assumes "rinv st k d" "distinct (map rt_ID rs)" "set rs \<subseteq> set (refresh_tokens d)"
    and "\<And>P. count_where P rs \<le> count_where P (refresh_tokens d)"
    and "set fs \<subseteq> set (refresh_token_families d)"
  shows "rinv st k (d\<lparr>refresh_tokens := rs, refresh_token_families := fs\<rparr>)"
proof -
  let ?d = "d\<lparr>refresh_tokens := rs, refresh_token_families := fs\<rparr>"
  have ch: "children ?d p \<le> children d p" for p using assms(4) by (simp add: children_def)
  have "rowInv st k ?d t" if "t \<in> set rs" for t
  proof -
    have "rowInv st k d t" using that assms(1,3) by (auto simp: rinv_def)
    moreover have "tombstoned ?d f \<Longrightarrow> tombstoned d f" for f
      using assms(5) by (auto simp: tombstoned_def list_ex_iff)
    ultimately show ?thesis
      using ch [of "rt_ID t"] assms(3) unfolding rowInv_def by fastforce
  qed
  moreover have "children ?d p \<le> refreshReuseGraceMaxIssued" for p
    using ch [of p] assms(1) by (meson le_trans rinv_def)
  ultimately show ?thesis using assms(1,2,5) by (auto simp: rinv_def)
qed

text \<open>What the row of a new token must satisfy when it is inserted.\<close>

definition insertable :: "Storage \<Rightarrow> nat \<Rightarrow> dbs \<Rightarrow> RefreshToken \<Rightarrow> bool" where
  "insertable st k d row \<longleftrightarrow>
     below st k (rt_FamilyID row) \<and> \<not> tombstoned d (rt_FamilyID row)
     \<and> (\<forall>p. rt_ParentID row = Some p \<longrightarrow> below st k p \<and> children d p < refreshReuseGraceMaxIssued
          \<and> (\<forall>t \<in> set (refresh_tokens d). rt_ID t = p \<longrightarrow> rt_UsedAt t \<noteq> None \<and> sameGrant row t
               \<and> (\<not> graceOn st (rt_ClientID t) \<longrightarrow> children d p = 0)))"

lemma children_insert:
  "children (d\<lparr>refresh_tokens := refresh_tokens d @ [row]\<rparr>) p =
     children d p + (if rt_ParentID row = Some p then 1 else 0)"
  by (simp add: children_def)

lemma rinv_insert:
  assumes inj: "inj (s_uuid st)" and inv: "rinv st k d" and ins: "insertable st k d row"
    and new: "rt_ID row = s_uuid st k" "rt_RevokedAt row = None" "rt_UsedAt row = None"
  shows "rinv st (Suc k) (d\<lparr>refresh_tokens := refresh_tokens d @ [row]\<rparr>)"
proof -
  let ?d = "d\<lparr>refresh_tokens := refresh_tokens d @ [row]\<rparr>"
  have fresh: "\<not> below st k (rt_ID row)" using inj by (auto simp: new below_def dest: injD)
  have ids: "t \<in> set (refresh_tokens d) \<Longrightarrow> below st k (rt_ID t)"
    and pars: "t \<in> set (refresh_tokens d) \<Longrightarrow> rt_ParentID t = Some p \<Longrightarrow> below st k p" for t p
    using inv by (auto simp: rinv_def rowInv_def)
  have tomb: "tombstoned ?d = tombstoned d" by (simp add: tombstoned_def fun_eq_iff)
  have noch: "children d (rt_ID row) = 0"
    using fresh pars by (auto simp: children_def count_where_eq_0_iff)
  have nopar: "rt_ParentID row \<noteq> Some (rt_ID row)" using ins fresh by (auto simp: insertable_def)
  have "rowInv st (Suc k) ?d t" if t: "t \<in> set (refresh_tokens d)" for t
  proof -
    have old: "rowInv st (Suc k) d t" using t inv by (auto simp: rinv_def intro: rowInv_Suc)
    show ?thesis
    proof (cases "rt_ParentID row = Some (rt_ID t)")
      case True
      with ins t have "rt_UsedAt t \<noteq> None" "sameGrant row t" "\<not> graceOn st (rt_ClientID t) \<longrightarrow> children d (rt_ID t) = 0"
        by (auto simp: insertable_def)
      with old True show ?thesis unfolding rowInv_def children_insert tomb by auto
    next
      case False
      with old show ?thesis unfolding rowInv_def children_insert tomb by auto
    qed
  qed
  moreover have "rowInv st (Suc k) ?d row"
  proof -
    have "c \<in> set (refresh_tokens d) \<Longrightarrow> rt_ParentID c \<noteq> Some (rt_ID row)" for c
      using fresh pars by blast
    moreover have "below st (Suc k) (rt_ID row)" by (auto simp: below_def new)
    ultimately show ?thesis
      using ins new noch nopar unfolding rowInv_def children_insert tomb insertable_def
      by (auto intro: below_mono)
  qed
  moreover have "distinct (map rt_ID (refresh_tokens ?d))"
    using inv fresh ids by (auto simp: rinv_def)
  moreover have "children ?d p \<le> refreshReuseGraceMaxIssued" for p
  proof (cases "rt_ParentID row = Some p")
    case True
    with ins show ?thesis by (auto simp: children_insert insertable_def Suc_le_eq)
  next
    case False
    with inv show ?thesis by (auto simp: children_insert rinv_def)
  qed
  ultimately show ?thesis using inv by (auto simp: rinv_def intro: below_mono)
qed

section \<open>Operations keep the invariant\<close>

lemma rinv_other_tables:
  "rinv st k d \<Longrightarrow> refresh_tokens d' = refresh_tokens d \<Longrightarrow> refresh_token_families d' = refresh_token_families d \<Longrightarrow>
   rinv st k d'"
  by (rule rinv_cong [THEN iffD2])

lemma tri_consumeAuthCode:
  "tri (rinv st) (rinv st) (consumeAuthCode st TXc req) anyErr (\<lambda>_. rinv st)"
proof (cases req)
  case (ReqAuth a)
  have "tri (rinv st) (rinv st) (exec TXc (ConsumeAuthCode i c h at)) anyErr (\<lambda>_. rinv st)" for i c h at
    by (rule tri_exec_TX) (auto simp: ConsumeAuthCode_def elim: rinv_other_tables)
  with ReqAuth show ?thesis unfolding consumeAuthCode_def
    by (auto intro!: tri_if tri_fail tri_attempt [where ?B1.0 = "\<lambda>_. rinv st"] tri_liftE tri_clockNow tri_ok)
qed (auto simp: consumeAuthCode_def intro!: tri_ok)

lemma tri_getUserByIDTx: "tri J A (getUserByIDTx st u) (\<lambda>_. A) (\<lambda>_. A)"
  unfolding getUserByIDTx_def notFoundOr_def
  by (intro tri_attemptOr [where ?E1.0 = "\<lambda>_. A" and ?B1.0 = "\<lambda>_. A"] tri_query_TX tri_attempt [where ?B1.0 = "\<lambda>_. A"]
        tri_if tri_fail tri_liftE tri_ok tri_case_prod)
     (auto simp: GetUserRowByID_def split: sum.splits)

lemma tri_validateRefreshTokenRequest:
  assumes "audit_free J" "audit_free A"
  shows "tri J A (validateRefreshTokenRequest st ctx rt at) (\<lambda>_. A) (\<lambda>_. A)"
  unfolding validateRefreshTokenRequest_def Let_def
  by (intro tri_if tri_fail tri_ok tri_case_option tri_attemptOr [where ?E1.0 = "\<lambda>_. A" and ?B1.0 = "\<lambda>_. A"]
        tri_getUserByIDTx tri_enforceStaticClientAccess assms) auto

text \<open>The model that a transaction works with is a row of its copy.\<close>

definition loaded :: "Storage \<Rightarrow> RefreshTokenModel \<Rightarrow> nat \<Rightarrow> dbs \<Rightarrow> bool" where
  "loaded st rt k t \<longleftrightarrow> rinv st k t \<and> (\<exists>r \<in> set (refresh_tokens t). rt = refreshModelOfRow r)"

lemma loaded_audit_free: "audit_free (loaded st rt)"
  using rinv_audit_free [of st] by (simp add: audit_free_def loaded_def)

lemma tri_loadRefreshTokenForUpdate:
  "tri J (rinv st) (loadRefreshTokenForUpdate h) anyErr (loaded st)"
  unfolding loadRefreshTokenForUpdate_def
  by (intro tri_attemptOr [where ?E1.0 = anyErr and ?B1.0 = "\<lambda>row k t. rinv st k t \<and> row \<in> set (refresh_tokens t)"]
        tri_query_TX_any tri_if tri_fail tri_ok)
     (auto simp: GetRefreshTokenForUpdateByHash_def loaded_def dest: one_row_Inr)

text \<open>A grace child is issued only for a redeemed token of an eligible client in a family that is
  not tombstoned, and only while the token has fewer than three children.\<close>

definition graceable :: "Storage \<Rightarrow> RefreshTokenModel \<Rightarrow> nat \<Rightarrow> dbs \<Rightarrow> bool" where
  "graceable st rt k t \<longleftrightarrow> loaded st rt k t \<and> rm_UsedAt rt \<noteq> None \<and> graceOn st (rm_ClientID rt)
     \<and> \<not> tombstoned t (rm_FamilyID rt) \<and> children t (rm_ID rt) < refreshReuseGraceMaxIssued"

lemma tri_graceDecision:
  "tri J (loaded st rt) (refreshReuseGraceDecision st rt at) anyErr
     (\<lambda>g. if g = graceIssue then graceable st rt else loaded st rt)"
proof (cases "rm_UsedAt rt")
  case None
  then show ?thesis by (auto simp: refreshReuseGraceDecision_def intro!: tri_ok)
next
  case (Some u)
  let ?B = "\<lambda>tomb k t. loaded st rt k t \<and> tomb = tombstoned t (rm_FamilyID rt)"
  let ?G = "\<lambda>g. if g = graceIssue then graceable st rt else loaded st rt"
  show ?thesis
  proof (cases "graceOn st (rm_ClientID rt)")
    case on: True
    have "tri J (?B False) (countRedemptionChildren rt) anyErr (\<lambda>n k t. ?B False k t \<and> n = children t (rm_ID rt))"
      unfolding countRedemptionChildren_def
      by (rule tri_query_TX_any) (auto simp: CountRefreshTokenChildren_def children_def)
    then have count: "tri J (?B False) (attempt (countRedemptionChildren rt)
        (\<lambda>n. if n \<ge> refreshReuseGraceMaxIssued then ok graceRefuse else ok graceIssue)) anyErr ?G"
      by (rule tri_attempt) (auto intro!: tri_if tri_ok simp: graceable_def Some on)
    have "tri J (?B False) (exec TXc (HasRevokedUnredeemedRefreshTokenInFamily f)) anyErr (\<lambda>_. ?B False)" for f
      by (rule tri_query_TX_any) (auto simp: HasRevokedUnredeemedRefreshTokenInFamily_def)
    then have has: "tri J (?B False) (attempt (exec TXc (HasRevokedUnredeemedRefreshTokenInFamily (rm_FamilyID rt)))
        (\<lambda>rev. if rev then ok graceNone else attempt (countRedemptionChildren rt)
          (\<lambda>n. if n \<ge> refreshReuseGraceMaxIssued then ok graceRefuse else ok graceIssue))) anyErr ?G"
      by (rule tri_attempt) (intro tri_if tri_ok count, auto)
    have "tri J (loaded st rt) (exec TXc (IsRefreshFamilyRevoked (rm_FamilyID rt))) anyErr ?B"
      by (rule tri_query_TX_any) (auto simp: IsRefreshFamilyRevoked_def)
    then have "tri J (loaded st rt) (attempt (exec TXc (IsRefreshFamilyRevoked (rm_FamilyID rt)))
        (\<lambda>tomb. if tomb then ok graceNone else attempt (exec TXc (HasRevokedUnredeemedRefreshTokenInFamily (rm_FamilyID rt)))
        (\<lambda>rev. if rev then ok graceNone else attempt (countRedemptionChildren rt)
          (\<lambda>n. if n \<ge> refreshReuseGraceMaxIssued then ok graceRefuse else ok graceIssue)))) anyErr ?G"
      by (rule tri_attempt) (rule tri_if, rule tri_ok, simp, use has in simp)
    then show ?thesis using Some unfolding refreshReuseGraceDecision_def by (auto intro!: tri_ok)
  next
    case False
    with Some show ?thesis by (auto simp: refreshReuseGraceDecision_def graceOn_def intro!: tri_ok)
  qed
qed

text \<open>What an issuance may rely on once the parent was consumed.\<close>

definition issuable :: "Storage \<Rightarrow> refreshTokenAttributes \<Rightarrow> string option \<Rightarrow> nat \<Rightarrow> dbs \<Rightarrow> bool" where
  "issuable st attrs parent k t \<longleftrightarrow> rinv st k t \<and> (\<forall>rid h at. insertable st k t (newRefreshRow st rid h attrs parent at))"

definition grantOf :: "RefreshTokenModel \<Rightarrow> refreshTokenAttributes" where
  "grantOf rt = \<lparr>at_familyID = rm_FamilyID rt, at_userID = rm_UserID rt, at_clientID = rm_ClientID rt,
     at_resource = rm_Resource rt, at_scopes = rm_Scopes rt\<rparr>"

lemma issuableI:
  assumes "rinv st k t" "r \<in> set (refresh_tokens t)" "rt_ID r = rm_ID rt" "rt_UsedAt r \<noteq> None"
    and "sameGrant r0 r" "rt = refreshModelOfRow r0"
    and "\<not> tombstoned t (rm_FamilyID rt)" "children t (rm_ID rt) < refreshReuseGraceMaxIssued"
    and "\<not> graceOn st (rm_ClientID rt) \<Longrightarrow> children t (rm_ID rt) = 0"
  shows "issuable st (grantOf rt) (Some (rm_ID rt)) k t"
proof -
  have row: "rowInv st k t r" and dist: "distinct (map rt_ID (refresh_tokens t))"
    using assms(1,2) by (auto simp: rinv_def)
  have uniq: "x = r" if "x \<in> set (refresh_tokens t)" "rt_ID x = rm_ID rt" for x
    using dist that assms(2,3) by (auto simp: distinct_map inj_on_def)
  have g: "sameGrant (newRefreshRow st rid h (grantOf rt) p at) r" for rid h p at
    using assms(5,6) by (simp add: sameGrant_def newRefreshRow_def grantOf_def refreshModelOfRow_def coalesce_def)
  have rr: "rt_ClientID r = rm_ClientID rt" "rt_FamilyID r = rm_FamilyID rt"
    using assms(5,6) by (simp_all add: sameGrant_def refreshModelOfRow_def)
  have bl: "below st k (rm_ID rt)" "below st k (rm_FamilyID rt)"
    using row assms(3) rr by (simp_all add: rowInv_def)
  have "insertable st k t (newRefreshRow st rid h (grantOf rt) (Some (rm_ID rt)) at)" for rid h at
  proof -
    let ?n = "newRefreshRow st rid h (grantOf rt) (Some (rm_ID rt)) at"
    have n: "rt_FamilyID ?n = rm_FamilyID rt" "rt_ParentID ?n = Some (rm_ID rt)"
      by (simp_all add: newRefreshRow_def grantOf_def)
    have "rt_UsedAt x \<noteq> None \<and> sameGrant ?n x \<and> (\<not> graceOn st (rt_ClientID x) \<longrightarrow> children t (rm_ID rt) = 0)"
      if "x \<in> set (refresh_tokens t)" "rt_ID x = rm_ID rt" for x
      unfolding uniq [OF that] rr using assms(4,9) g by blast
    with n bl assms(7,8) show ?thesis unfolding insertable_def by simp
  qed
  with assms(1) show ?thesis by (simp add: issuable_def)
qed

lemma issuable_after_mark:
  assumes "loaded st rt k t" "\<not> isRefreshTokenUsedOrRevoked rt" "\<not> tombstoned t (rm_FamilyID rt)"
  shows "issuable st (grantOf rt) (Some (rm_ID rt)) k (snd (MarkRefreshTokenUsedAndRevokedByID at (rm_ID rt) t))"
proof -
  let ?t = "snd (MarkRefreshTokenUsedAndRevokedByID at (rm_ID rt) t)"
  from assms(1) obtain r0 where inv: "rinv st k t" and r0: "r0 \<in> set (refresh_tokens t)" "rt = refreshModelOfRow r0"
    by (auto simp: loaded_def)
  have "children t (rm_ID rt) = 0"
    using assms(2) inv r0 by (auto simp: rinv_def rowInv_def isRefreshTokenUsedOrRevoked_def refreshModelOfRow_def)
  moreover have "children ?t p = children t p" for p
    by (simp add: MarkRefreshTokenUsedAndRevokedByID_def children_def)
  moreover have "tombstoned ?t = tombstoned t"
    by (simp add: MarkRefreshTokenUsedAndRevokedByID_def tombstoned_def fun_eq_iff)
  moreover have "r0\<lparr>rt_UsedAt := Some at, rt_RevokedAt := Some at\<rparr> \<in> set (refresh_tokens ?t)"
    using r0 by (auto simp: MarkRefreshTokenUsedAndRevokedByID_def set_upd_where refreshModelOfRow_def)
  ultimately show ?thesis
    using assms(3) r0 rinv_MarkUsed [OF inv]
    by (intro issuableI [where r = "r0\<lparr>rt_UsedAt := Some at, rt_RevokedAt := Some at\<rparr>" and ?r0.0 = r0])
       (auto simp: sameGrant_def refreshModelOfRow_def refreshReuseGraceMaxIssued_def)
qed

lemma issuable_grace:
  assumes "graceable st rt k t"
  shows "issuable st (grantOf rt) (Some (rm_ID rt)) k t"
proof -
  from assms obtain r0 where "rinv st k t" "r0 \<in> set (refresh_tokens t)" "rt = refreshModelOfRow r0"
    by (auto simp: graceable_def loaded_def)
  with assms show ?thesis
    by (intro issuableI [where r = r0 and ?r0.0 = r0]) (auto simp: graceable_def refreshModelOfRow_def)
qed

definition revoked_family :: "Storage \<Rightarrow> string \<Rightarrow> nat \<Rightarrow> dbs \<Rightarrow> bool" where
  "revoked_family st fam k t \<longleftrightarrow> rinv st k t \<and> familyDead t fam \<and> below st k fam"

lemma tri_revokeFamily:
  assumes "\<And>k t. A k t \<Longrightarrow> rinv st k t \<and> below st k fam"
  shows "tri J A (exec TXc (RevokeRefreshFamily at fam)) anyErr (\<lambda>_. revoked_family st fam)"
  by (rule tri_exec_TX)
     (auto simp: revoked_family_def familyDead_RevokeRefreshFamily dest!: assms intro: rinv_RevokeRefreshFamily)

lemma tri_tombstone:
  "tri J (revoked_family st fam) (tombstoneRefreshFamily fam uid reason at) anyErr (\<lambda>_. rinv st)"
proof -
  have "tri J (revoked_family st fam) (exec TXc (TombstoneRefreshFamily
      \<lparr>rf_FamilyID = fam, rf_UserID = uid, rf_Reason = reason, rf_RevokedAt = at\<rparr>)) anyErr (\<lambda>_. rinv st)"
    by (rule tri_exec_TX) (auto simp: revoked_family_def intro!: rinv_Tombstone)
  then show ?thesis unfolding tombstoneRefreshFamily_def
    by (rule tri_attempt) (rule tri_ok)
qed

lemma loaded_below: "loaded st rt k t \<Longrightarrow> rinv st k t \<and> below st k (rm_FamilyID rt)"
  by (auto simp: loaded_def rinv_def rowInv_def refreshModelOfRow_def)

lemma tri_detectReuse:
  "tri (rinv st) (loaded st rt) (detectReuse st ctx rt at) anyErr B"
proof -
  let ?J = "rinv st"
  have w: "tri ?J ?J (writeAuditLogTx st u ev ip ua md) anyErr (\<lambda>_. ?J)" for u ev ip ua md
    by (rule tri_conseq [OF tri_writeAuditLogTx [OF rinv_audit_free]]) auto
  have a: "tri ?J ?J (auditRefreshReuseDetectionTx st ctx u f created) anyErr (\<lambda>_. ?J)" for u f created
    unfolding auditRefreshReuseDetectionTx_def
    by (rule tri_attempt [OF w]) (auto intro: tri_ok w)
  have r: "tri ?J (loaded st rt) (revokeRefreshFamilyOnReuse (rm_FamilyID rt) at) anyErr (\<lambda>_. revoked_family st (rm_FamilyID rt))"
    unfolding revokeRefreshFamilyOnReuse_def
    by (rule tri_attempt [OF tri_revokeFamily]) (auto dest: loaded_below intro: tri_ok)
  have c: "tri ?J ?J (attempt commitTx (\<lambda>_. fail errRefreshGrantRefused)) anyErr B"
    by (rule tri_attempt [OF tri_commitTx]) (auto intro: tri_fail)
  show ?thesis unfolding detectReuse_def
    by (rule tri_attempt [OF r], rule tri_attempt [OF tri_tombstone], rule tri_attempt [OF a], rule c)
qed

abbreviation issued :: "Storage \<Rightarrow> refreshTokenAttributes \<times> string \<times> bool \<Rightarrow> nat \<Rightarrow> dbs \<Rightarrow> bool" where
  "issued st \<equiv> \<lambda>(attrs, parent, g). issuable st attrs (Some parent)"

lemma tri_redeem:
  "(g \<Longrightarrow> tri J (graceable st rt) (redeem rt at g) anyErr (issued st))"
  "(\<not> g \<Longrightarrow> \<not> isRefreshTokenUsedOrRevoked rt \<Longrightarrow>
     tri J (\<lambda>k t. loaded st rt k t \<and> \<not> tombstoned t (rm_FamilyID rt)) (redeem rt at g) anyErr (issued st))"
proof -
  show "tri J (graceable st rt) (redeem rt at g) anyErr (issued st)" if g
    unfolding redeem_def using that
    by (auto intro!: tri_attempt [where ?B1.0 = "\<lambda>_. graceable st rt"] tri_ok dest: issuable_grace simp: grantOf_def)
  show "tri J (\<lambda>k t. loaded st rt k t \<and> \<not> tombstoned t (rm_FamilyID rt)) (redeem rt at g) anyErr (issued st)"
    if "\<not> g" "\<not> isRefreshTokenUsedOrRevoked rt"
    unfolding redeem_def using that
    by (auto intro!: tri_attempt [where ?B1.0 = "\<lambda>_. issuable st (grantOf rt) (Some (rm_ID rt))"] tri_exec_TX tri_ok
             intro: issuable_after_mark simp: grantOf_def)
qed

lemma tri_decideRefresh:
  "tri (rinv st) (loaded st rt) (decideRefresh st ctx rt at) anyErr (issued st)"
proof -
  let ?J = "rinv st"
  let ?B = "\<lambda>tomb k t. loaded st rt k t \<and> tomb = tombstoned t (rm_FamilyID rt)"
  let ?G = "\<lambda>g. if g = graceIssue then graceable st rt else loaded st rt"
  let ?refuse = "attempt (auditRefreshReuseGrace st ctx (rm_UserID rt) (rm_FamilyID rt) ''refused'')
           (\<lambda>_. fail errRefreshGrantRefused) :: (refreshTokenAttributes \<times> string \<times> bool) act"
  have refuse: "tri ?J (loaded st rt) ?refuse anyErr (issued st)"
    unfolding auditRefreshReuseGrace_def
    by (rule tri_attempt [OF tri_conseq [OF tri_AuditLogEvent [OF rinv_audit_free loaded_audit_free]]])
       (auto intro: tri_fail)
  have grace: "tri ?J (?B tomb) (attempt (refreshReuseGraceDecision st rt at) (\<lambda>g. case g of
         graceIssue \<Rightarrow> redeem rt at True | graceRefuse \<Rightarrow> ?refuse | graceNone \<Rightarrow> detectReuse st ctx rt at))
      anyErr (issued st)" for tomb
  proof (rule tri_attempt)
    show "tri ?J (?B tomb) (refreshReuseGraceDecision st rt at) anyErr ?G"
      by (rule tri_conseq [OF tri_graceDecision]) auto
    show "tri ?J (?G g) (case g of graceIssue \<Rightarrow> redeem rt at True | graceRefuse \<Rightarrow> ?refuse
        | graceNone \<Rightarrow> detectReuse st ctx rt at) anyErr (issued st)" for g
      using refuse by (cases g) (auto intro: tri_redeem(1) tri_detectReuse)
  qed
  have "tri ?J (loaded st rt) (exec TXc (IsRefreshFamilyRevoked (rm_FamilyID rt))) anyErr ?B"
    by (rule tri_query_TX_any) (auto simp: IsRefreshFamilyRevoked_def)
  then show ?thesis unfolding decideRefresh_def
  proof (rule tri_attempt)
    fix tomb
    show "tri ?J (?B tomb) (if isRefreshTokenUsedOrRevoked rt \<or> tomb then attempt (refreshReuseGraceDecision st rt at)
        (\<lambda>g. case g of graceIssue \<Rightarrow> redeem rt at True | graceRefuse \<Rightarrow> ?refuse | graceNone \<Rightarrow> detectReuse st ctx rt at)
        else redeem rt at False) anyErr (issued st)"
    proof (rule tri_if)
      show "tri ?J (?B tomb) (redeem rt at False) anyErr (issued st)"
        if "\<not> (isRefreshTokenUsedOrRevoked rt \<or> tomb)"
        using that tri_redeem(2) [of False rt ?J st at] by simp
    qed (rule grace)
  qed
qed

lemma tri_consumeRefreshToken:
  "tri (rinv st) (rinv st) (consumeRefreshToken st ctx req token) anyErr (issued st)"
proof -
  let ?J = "rinv st"
  have q: "tri ?J ?J (exec TXc (GetRefreshFamilyIDByTokenHash h)) anyErr (\<lambda>_. ?J)" for h
    by (rule tri_query_TX_any) (auto simp: GetRefreshFamilyIDByTokenHash_def split: sum.splits)
  have l: "tri ?J ?J (exec TXc (LockRefreshFamily f)) anyErr (\<lambda>_. ?J)" for f
    by (rule tri_query_TX_any) (auto simp: LockRefreshFamily_def)
  have v: "tri ?J (loaded st rt) (validateRefreshTokenRequest st ctx rt at) anyErr (\<lambda>_. loaded st rt)" for rt at
    by (rule tri_conseq [OF tri_validateRefreshTokenRequest [OF rinv_audit_free loaded_audit_free]]) auto
  have dec: "tri ?J (loaded st rt) (attempt clockNow (\<lambda>at.
       attemptOr (validateRefreshTokenRequest st ctx rt at)
         (\<lambda>e. if isOidcError e \<or> e = NilDeref then fail e else fail errRefreshGrantRefused) (\<lambda>_.
       decideRefresh st ctx rt at))) anyErr (issued st)" for rt
    by (rule tri_attempt [OF tri_clockNow], assumption, rule tri_attemptOr [OF v _ tri_decideRefresh])
       (auto intro: tri_fail)
  show ?thesis unfolding consumeRefreshToken_def
    by (rule tri_attempt [OF tri_liftE [where B = "\<lambda>_. ?J"]], simp, assumption, rule tri_attemptOr [OF q], simp add: tri_fail,
        rule tri_attempt [OF l], rule tri_attemptOr [OF tri_loadRefreshTokenForUpdate], simp add: tri_fail)
       (auto intro: tri_fail dec)
qed

lemma issuable_initial:
  assumes "inj (s_uuid st)" "rinv st k t" "at_familyID attrs = s_uuid st k"
  shows "issuable st attrs None (Suc k) t"
proof -
  have "\<not> below st k (s_uuid st k)" using assms(1) by (auto simp: below_def dest: injD)
  with assms(2) have "\<not> tombstoned t (s_uuid st k)" by (auto simp: rinv_def tombstoned_def list_ex_iff)
  moreover have "below st (Suc k) (s_uuid st k)" by (auto simp: below_def)
  ultimately show ?thesis
    using assms(2,3) by (auto simp: issuable_def insertable_def newRefreshRow_def intro: rinv_Suc)
qed

abbreviation derived :: "Storage \<Rightarrow> refreshTokenAttributes \<times> string option \<times> bool \<Rightarrow> nat \<Rightarrow> dbs \<Rightarrow> bool" where
  "derived st \<equiv> \<lambda>(attrs, parent, g). issuable st attrs parent"

lemma tri_deriveRefreshToken:
  assumes "inj (s_uuid st)"
  shows "tri (rinv st) (rinv st) (deriveRefreshToken st ctx req token) anyErr (derived st)"
proof -
  let ?J = "rinv st"
  have i: "tri ?J ?J (initialRefreshTokenAttributes st req) anyErr (\<lambda>attrs. issuable st attrs None)"
    unfolding initialRefreshTokenAttributes_def
    by (rule tri_attempt [OF tri_NewUUID [where B = "\<lambda>fam k t. \<exists>k'. k = Suc k' \<and> fam = s_uuid st k' \<and> rinv st k' t"]])
       (auto intro!: tri_ok issuable_initial [OF assms] intro: rinv_Suc)
  have c: "tri ?J (issuable st attrs None) (consumeRefreshToken st ctx req token) anyErr (issued st)" for attrs
    by (rule tri_conseq [OF tri_consumeRefreshToken]) (auto simp: issuable_def)
  have "tri ?J (issuable st attrs None) (attempt (consumeRefreshToken st ctx req token)
      (\<lambda>(attrs, parent, g). if \<not> s_uuidParse st parent then fail (ErrMsg ''invalid UUID'') else ok (attrs, Some parent, g)))
      anyErr (derived st)" for attrs
    by (rule tri_attempt [OF c]) (auto intro!: tri_fail tri_ok split: prod.splits)
  then show ?thesis unfolding deriveRefreshToken_def
    by (intro tri_attempt [OF i] tri_if tri_ok) auto
qed

lemma rinv_InsertRefreshToken:
  assumes "inj (s_uuid st)" "issuable st attrs parent k t"
  shows "rinv st (Suc k) (snd (InsertRefreshToken (newRefreshRow st (s_uuid st k) h attrs parent at) t))"
proof -
  let ?row = "newRefreshRow st (s_uuid st k) h attrs parent at"
  have "rinv st (Suc k) (t\<lparr>refresh_tokens := refresh_tokens t @ [?row]\<rparr>)"
    using assms by (intro rinv_insert) (auto simp: issuable_def newRefreshRow_def)
  moreover have "?row\<lparr>rt_RevokedAt := None, rt_UsedAt := None\<rparr> = ?row" by (simp add: newRefreshRow_def)
  moreover have "rinv st (Suc k) t" using assms(2) by (auto simp: issuable_def intro: rinv_Suc)
  ultimately show ?thesis by (simp add: InsertRefreshToken_def)
qed

lemma tri_CreateAccessAndRefreshTokens:
  assumes "inj (s_uuid st)"
  shows "tri (rinv st) (\<lambda>_ _. True) (CreateAccessAndRefreshTokens st ctx req token) anyErr (\<lambda>_ _ _. True)"
proof -
  let ?J = "rinv st"
  let ?I = "\<lambda>attrs parent rid k t. \<exists>k'. k = Suc k' \<and> rid = s_uuid st k' \<and> issuable st attrs parent k' t"
  have ins: "tri ?J (?I attrs parent rid) (exec TXc (InsertRefreshToken (newRefreshRow st rid h attrs parent at))) anyErr (\<lambda>_. ?J)"
    for attrs parent rid h at
    by (rule tri_exec_TX) (auto intro: rinv_InsertRefreshToken [OF assms])
  have aud: "tri ?J (\<lambda>_ _. False) (if g then auditRefreshReuseGrace st ctx u f o' else ok ()) anyErr (\<lambda>_ _ _. True)" for g u f o'
    unfolding auditRefreshReuseGrace_def
    by (intro tri_if tri_ok tri_conseq [OF tri_AuditLogEvent_any [OF rinv_audit_free audit_free_const]]) auto
  have issue: "tri ?J (issuable st attrs parent) (attempt (NewUUID st) (\<lambda>rid.
       attempt (exec TXc (InsertRefreshToken (newRefreshRow st rid h attrs parent at))) (\<lambda>_.
       attempt commitTx (\<lambda>_.
       attempt (if g then auditRefreshReuseGrace st ctx (at_userID attrs) (at_familyID attrs) ''issued'' else ok ()) (\<lambda>_.
       ok (x, y, z)))))) anyErr (\<lambda>_ _ _. True)" for attrs parent g h at x y z
    by (rule tri_attempt [OF tri_NewUUID [where B = "?I attrs parent"]], blast intro: rinv_Suc, blast,
        rule tri_attempt [OF ins], rule tri_attempt [OF tri_commitTx], assumption, rule tri_attempt [OF aud], rule tri_ok, simp)
  have body: "tri ?J ?J (attempt (consumeAuthCode st TXc req) (\<lambda>_.
       attempt (deriveRefreshToken st ctx req token) (\<lambda>(attrs, parentID, g).
       attempt (NewUUID st) (\<lambda>rid.
       attempt (exec TXc (InsertRefreshToken (newRefreshRow st rid h attrs parentID at))) (\<lambda>_.
       attempt commitTx (\<lambda>_.
       attempt (if g then auditRefreshReuseGrace st ctx (at_userID attrs) (at_familyID attrs) ''issued'' else ok ()) (\<lambda>_.
       ok (x, y, z)))))))) anyErr (\<lambda>_ _ _. True)" for h at x y z
  proof (rule tri_attempt [OF tri_consumeAuthCode], rule tri_attempt [OF tri_deriveRefreshToken [OF assms]])
    fix p :: "refreshTokenAttributes \<times> string option \<times> bool"
    obtain attrs parent g where p: "p = (attrs, parent, g)" by (cases p)
    show "tri ?J (derived st p) (case p of (attrs, parentID, g) \<Rightarrow> attempt (NewUUID st) (\<lambda>rid.
       attempt (exec TXc (InsertRefreshToken (newRefreshRow st rid h attrs parentID at))) (\<lambda>_.
       attempt commitTx (\<lambda>_.
       attempt (if g then auditRefreshReuseGrace st ctx (at_userID attrs) (at_familyID attrs) ''issued'' else ok ()) (\<lambda>_.
       ok (x, y, z)))))) anyErr (\<lambda>_ _ _. True)"
      unfolding p prod.case by (rule issue)
  qed
  show ?thesis unfolding CreateAccessAndRefreshTokens_def
    by (intro tri_attempt [where ?B1.0 = "\<lambda>_ _ _. True"] tri_NewUUID tri_NewOpaqueToken tri_clockNow tri_liftE
          tri_withTx [OF body]) (auto intro: rinv_Suc)
qed

lemma tri_TokenRequestByRefreshToken:
  "tri (rinv st) (\<lambda>_ _. True) (TokenRequestByRefreshToken st ctx token) anyErr (\<lambda>_ _ _. True)"
proof -
  let ?J = "rinv st"
  have v: "tri ?J (loaded st rt) (validateRefreshTokenRequest st ctx rt at) anyErr (\<lambda>_. loaded st rt)" for rt at
    by (rule tri_conseq [OF tri_validateRefreshTokenRequest [OF rinv_audit_free loaded_audit_free]]) auto
  have body: "tri ?J ?J (attempt (loadRefreshTokenForUpdate h) (\<lambda>rt.
       attempt (validateRefreshTokenRequest st ctx rt at) (\<lambda>_.
       attempt commitTx (\<lambda>_. ok rt)))) anyErr (\<lambda>_ _ _. True)" for h at
    by (rule tri_attempt [OF tri_loadRefreshTokenForUpdate], rule tri_attempt [OF v], rule tri_attempt [OF tri_commitTx])
       (auto simp: loaded_def intro: tri_ok)
  show ?thesis unfolding TokenRequestByRefreshToken_def
    by (rule tri_attempt [OF tri_liftE [where B = "\<lambda>_ _ _. True"]], simp, simp,
        rule tri_attempt [OF tri_clockNow [where B = "\<lambda>_ _ _. True"]], simp, rule tri_withTx [OF body], simp)
qed

lemma tri_lookupRefreshGrant:
  "tri J (rinv st) (lookupRefreshGrant st h i c) (\<lambda>_. rinv st) (\<lambda>(fam, uid) k t. rinv st k t \<and> below st k fam)"
proof -
  have b: "one_row P (refresh_tokens t) = Inr r \<Longrightarrow> rinv st k t \<Longrightarrow> below st k (rt_FamilyID r)" for P t r k
    by (auto dest!: one_row_Inr simp: rinv_def rowInv_def)
  show ?thesis unfolding lookupRefreshGrant_def
    by (intro tri_attemptOr [where ?E1.0 = "\<lambda>_. rinv st" and ?B1.0 = "\<lambda>(fam, uid) k t. rinv st k t \<and> below st k fam"]
          tri_query_TX tri_if tri_fail tri_ok)
       (auto simp: GetRefreshTokenGrantByHash_def GetRefreshTokenGrantByID_def split: sum.splits intro: b)
qed

lemma tri_revokeRefreshGrant:
  "tri (rinv st) (\<lambda>_ _. True) (revokeRefreshGrant st tok cid) anyErr (\<lambda>_ _ _. True)"
proof -
  let ?J = "rinv st"
  let ?B = "\<lambda>fam k t. rinv st k t \<and> below st k fam"
  have l: "tri ?J (?B fam) (exec TXc (LockRefreshFamily fam)) anyErr (\<lambda>_. ?B fam)" for fam
    by (rule tri_query_TX_any) (auto simp: LockRefreshFamily_def)
  have rest: "tri ?J (?B fam) (attempt (exec TXc (LockRefreshFamily fam)) (\<lambda>_.
       attempt (exec TXc (RevokeRefreshFamily at fam)) (\<lambda>n.
       attempt (tombstoneRefreshFamily fam uid tombstoneReasonRevoked at) (\<lambda>_.
       attempt commitTx (\<lambda>_. ok (n > 0, uid)))))) anyErr (\<lambda>_ _ _. True)" for fam uid at
    by (rule tri_attempt [OF l], rule tri_attempt [OF tri_revokeFamily], simp, rule tri_attempt [OF tri_tombstone],
        rule tri_attempt [OF tri_commitTx]) (auto intro: tri_ok)
  have body: "tri ?J ?J (attempt (liftE (refreshAtRest st tok)) (\<lambda>h.
       attemptOr (lookupRefreshGrant st h tok cid)
         (\<lambda>e. if e = ErrNoRows then ok (False, '''') else fail e)
         (\<lambda>(fam, uid). attempt (exec TXc (LockRefreshFamily fam)) (\<lambda>_.
       attempt (exec TXc (RevokeRefreshFamily at fam)) (\<lambda>n.
       attempt (tombstoneRefreshFamily fam uid tombstoneReasonRevoked at) (\<lambda>_.
       attempt commitTx (\<lambda>_. ok (n > 0, uid)))))))) anyErr (\<lambda>_ _ _. True)" for at
    apply (rule tri_attempt [OF tri_liftE [where B = "\<lambda>_. ?J"]], simp, assumption)
    apply (rule tri_attemptOr [OF tri_lookupRefreshGrant])
     apply (auto intro!: tri_if tri_ok tri_fail rest)
    done
  show ?thesis unfolding revokeRefreshGrant_def
    by (rule tri_attempt [OF tri_clockNow [where B = "\<lambda>_ _ _. True"]], simp, rule tri_withTx [OF body], simp)
qed

lemma tri_RevokeToken:
  "tri (rinv st) (\<lambda>_ _. True) (RevokeToken st ctx tok uid cid) anyErr (\<lambda>_ _ _. True)"
proof -
  have a: "tri (rinv st) (\<lambda>_ _. True) (AuditLogEvent st u ev ip ua md) anyErr (\<lambda>_ _ _. True)" for u ev ip ua md
    by (rule tri_AuditLogEvent_any [OF rinv_audit_free audit_free_const])
  show ?thesis unfolding RevokeToken_def
    by (rule tri_attemptOr [OF tri_revokeRefreshGrant]) (auto intro!: tri_fail tri_ok a split: prod.splits)
qed

end
