(* ===== verification/Examples.thy ===== *)
theory Examples
  imports Refresh_Tokens
begin

text \<open>
  A small concrete server on which the theorems of the development are instantiated: one client,
  one account, the executable primitives of \<open>Crypto\<close> and an id generator that counts.
\<close>

definition exampleSecret :: string where
  "exampleSecret = replicate 32 CHR ''s''"

definition exampleKeys :: Keys where
  "exampleKeys = \<lparr>encKeyID = ''enc-1'', lookupKeyID = ''lkp-1'', piiField = exampleSecret,
     encEpochVerify = exampleSecret, lookupEpochVerify = exampleSecret, providerSub = exampleSecret,
     emailKey = exampleSecret, codeKey = exampleSecret, sessionKey = exampleSecret, refreshKey = exampleSecret\<rparr>"

definition exampleUUID :: "nat \<Rightarrow> string" where
  "exampleUUID n = replicate n CHR ''u''"

definition exampleRegistry :: Registry where
  "exampleRegistry = Load (\<lambda>_. None) NewRegistry [exampleEntry\<lparr>e_LoginChannel := ''browser''\<rparr>]"

definition exampleStorage :: Storage where
  "exampleStorage = \<lparr>s_stateChecker = None, s_accessTokenTTL = 900 * second, s_refreshTokenTTL = 30 * day,
     s_devicePollInterval = 5 * second, s_refreshReuseGrace = 0, s_registry = exampleRegistry,
     s_resourcePolicy = coreResourceBindingPolicy, s_keys = Some exampleKeys, s_prims = examplePrims,
     s_uuid = exampleUUID, s_opaque = (\<lambda>n. Inr (''t'' @ replicate n CHR ''x'')), s_nonce = (\<lambda>n. Inr (replicate 12 CHR ''n'')),
     s_parseAddr = Some, s_splitHostPort = (\<lambda>_. None), s_uuidParse = (\<lambda>_. True), s_nfc = (\<lambda>s. s), s_toLower = asciiLower,
     s_bcrypt = (\<lambda>h p. if h = p then None else Some (ErrMsg ''mismatch''))\<rparr>"

definition exampleCtx :: Ctx where
  "exampleCtx = \<lparr>x_Resource = '''', x_IP = '''', x_UserAgent = ''''\<rparr>"

definition exampleUser :: UserRow where
  "exampleUser = emptyUserRow\<lparr>us_ID := ''alice'', us_Status := ''active'',
     us_EmailCiphertext := Some (unarySeal '''' '''' ''a@b.io'' (FieldAAD emailAADField ''alice'' ''enc-1'' 1)),
     us_EmailNonce := Some (replicate 12 CHR ''n''), us_EmailEncKeyID := Some ''enc-1'', us_EmailEncVersion := Some 1\<rparr>"

definition exampleToken :: RefreshToken where
  "exampleToken = \<lparr>rt_ID = '''', rt_TokenHash = RefreshHash examplePrims exampleKeys ''old'', rt_FamilyID = ''fam'', rt_UserID = ''alice'',
     rt_ClientID = ''app'', rt_Resource = Some '''', rt_Scopes = [''openid''], rt_ExpiresAt = 100, rt_RevokedAt = None,
     rt_UsedAt = None, rt_CreatedAt = 0, rt_ParentID = None\<rparr>"

definition exampleDb :: dbs where
  "exampleDb = emptyDb\<lparr>users := [exampleUser], refresh_tokens := [exampleToken]\<rparr>"

definition exampleWorld :: "dbs \<Rightarrow> world" where
  "exampleWorld d = \<lparr>w_db = d, w_tx = None, w_now = 10, w_idc = 1, w_faults = []\<rparr>"

lemma exampleUUID_inj: "inj (s_uuid exampleStorage)"
proof (rule injI)
  fix m n
  assume "s_uuid exampleStorage m = s_uuid exampleStorage n"
  then have "length (exampleUUID m) = length (exampleUUID n)" by (simp add: exampleStorage_def)
  then show "m = n" by (simp add: exampleUUID_def)
qed

lemma exampleStorage_fields [simp]:
  "s_keys exampleStorage = Some exampleKeys" "s_prims exampleStorage = examplePrims"
  "s_stateChecker exampleStorage = None" "s_resourcePolicy exampleStorage = coreResourceBindingPolicy"
  "s_uuidParse exampleStorage x" "s_opaque exampleStorage n = Inr (CHR ''t'' # replicate n CHR ''x'')"
  "s_refreshReuseGrace exampleStorage = 0"
  by (simp_all add: exampleStorage_def)

lemma exampleWorld_fields [simp]:
  "w_db (exampleWorld d) = d" "w_tx (exampleWorld d) = None" "w_now (exampleWorld d) = 10"
  "w_idc (exampleWorld d) = 1" "w_faults (exampleWorld d) = []"
  by (simp_all add: exampleWorld_def)

lemma exampleToken_fields [simp]:
  "rt_ID exampleToken = ''''" "rt_TokenHash exampleToken = RefreshHash examplePrims exampleKeys ''old''"
  "rt_FamilyID exampleToken = ''fam''" "rt_UserID exampleToken = ''alice''" "rt_ClientID exampleToken = ''app''"
  "rt_Resource exampleToken = Some ''''" "rt_Scopes exampleToken = [''openid'']" "rt_ExpiresAt exampleToken = 100"
  "rt_RevokedAt exampleToken = None" "rt_UsedAt exampleToken = None" "rt_ParentID exampleToken = None"
  by (simp_all add: exampleToken_def)

lemma exampleDb_fields [simp]:
  "users exampleDb = [exampleUser]" "refresh_tokens exampleDb = [exampleToken]" "refresh_token_families exampleDb = []"
  "sessions exampleDb = []" "auth_requests exampleDb = []" "device_codes exampleDb = []" "user_identities exampleDb = []"
  "audit_log exampleDb = []" "us_ID exampleUser = ''alice''"
  by (simp_all add: exampleDb_def emptyDb_def exampleUser_def)

lemma exampleApp: "clients (s_registry exampleStorage) ''app'' = Some (modelOfEntry (exampleEntry\<lparr>e_LoginChannel := ''browser''\<rparr>))"
  by (simp add: exampleStorage_def exampleRegistry_def exampleEntry_def IsCIMDClientID_def)

lemma exampleApp_open: "StaticAccess (s_registry exampleStorage) ''app'' = None"
  by (simp add: StaticAccess_def exampleApp modelOfEntry_def) (simp add: exampleEntry_def)

end
