(* ===== verification/Refresh_Correct.thy ===== *)
theory Refresh_Correct
  imports Refresh_Safety Examples
begin

text \<open>
  What issuance and redemption do on a database that answers: rotation of a live token, detection
  of reuse, the grace decision, refusals. The pure functions \<open>coreUserOf\<close>, \<open>refreshAdmissible\<close> and
  \<open>graceKind\<close> say what the corresponding sequences of statements compute.
\<close>

section \<open>Runs on a healthy database\<close>

definition healthy :: "world \<Rightarrow> bool" where
  "healthy w \<longleftrightarrow> w_faults w = []"

definition coreUserOf :: "Storage \<Rightarrow> dbs \<Rightarrow> string \<Rightarrow> err + User" where
  "coreUserOf st d uid =
     (case one_row (\<lambda>u. us_ID u = uid) (users d) of
        Inl _ \<Rightarrow> Inl ErrNotFound
      | Inr row \<Rightarrow> (case resolveUser st row of Inl e \<Rightarrow> Inl e
          | Inr (email, name) \<Rightarrow> Inr ((buildCoreUser (us_ID row) email (us_EmailVerified row) name (us_Status row))
                                      \<lparr>u_HostedDomain := hostedDomainOf d uid\<rparr>)))"

lemma run_getUserByIDTx:
  "healthy w \<Longrightarrow> w_tx w = Some t \<Longrightarrow> run_state (getUserByIDTx st uid) w = (coreUserOf st t uid, w)"
  by (auto simp: healthy_def getUserByIDTx_def coreUserOf_def run_attemptOr run_attempt GetUserRowByID_def notFoundOr_def
           split: sum.splits prod.splits dest: one_row_Inl)

text \<open>Everything a redemption checks besides the token's own state.\<close>

definition refreshAdmissible :: "Storage \<Rightarrow> Ctx \<Rightarrow> dbs \<Rightarrow> RefreshTokenModel \<Rightarrow> time \<Rightarrow> bool" where
  "refreshAdmissible st ctx d rt at \<longleftrightarrow>
     at < rm_ExpiresAt rt
     \<and> ValidateTokenRequest (s_resourcePolicy st) (rm_ClientID rt) (rm_Resource rt) (ResourceFromContext ctx) = None
     \<and> (let access = StaticAccess (s_registry st) (rm_ClientID rt) in
        s_stateChecker st = None \<and> \<not> Restricted access
        \<or> (case coreUserOf st d (rm_UserID rt) of Inl _ \<Rightarrow> False
           | Inr u \<Rightarrow> runStateChecker st u = None \<and> Evaluate access (AccessSubject u) = Allow))"

lemma run_validate_ok:
  assumes "healthy w" "w_tx w = Some t" "refreshAdmissible st ctx t rt at"
  shows "run_state (validateRefreshTokenRequest st ctx rt at) w = (Inr (), w)"
  using assms
  by (auto simp: validateRefreshTokenRequest_def refreshAdmissible_def Let_def run_attemptOr run_getUserByIDTx
                 enforceStaticClientAccess_def split: sum.splits)

lemma validate_fails:
  assumes "healthy w" "w_tx w = Some t" "\<not> refreshAdmissible st ctx t rt at"
  shows "\<exists>e w'. run_state (validateRefreshTokenRequest st ctx rt at) w = (Inl e, w')"
  using assms
  by (auto simp: validateRefreshTokenRequest_def refreshAdmissible_def Let_def run_attemptOr run_attempt run_getUserByIDTx
                 enforceStaticClientAccess_def split: sum.splits option.splits Decision.splits prod.splits)

section \<open>The grace decision\<close>

definition revokedOnPurpose :: "dbs \<Rightarrow> string \<Rightarrow> bool" where
  "revokedOnPurpose d fam \<longleftrightarrow> list_ex (\<lambda>t. rt_FamilyID t = fam \<and> \<not> liveToken t \<and> rt_UsedAt t = None) (refresh_tokens d)"

definition graceKind :: "Storage \<Rightarrow> dbs \<Rightarrow> RefreshTokenModel \<Rightarrow> time \<Rightarrow> refreshReuseGraceKind" where
  "graceKind st d rt at =
     (case rm_UsedAt rt of
        None \<Rightarrow> graceNone
      | Some usedAt \<Rightarrow>
          if \<not> graceOn st (rm_ClientID rt) \<or> rm_RevokedAt rt \<noteq> Some usedAt
             \<or> timeSub at usedAt > s_refreshReuseGrace st
             \<or> tombstoned d (rm_FamilyID rt) \<or> revokedOnPurpose d (rm_FamilyID rt) then graceNone
          else if children d (rm_ID rt) \<ge> refreshReuseGraceMaxIssued then graceRefuse
          else graceIssue)"

lemma run_graceDecision:
  "healthy w \<Longrightarrow> w_tx w = Some t \<Longrightarrow> run_state (refreshReuseGraceDecision st rt at) w = (Inr (graceKind st t rt at), w)"
  by (auto simp: healthy_def refreshReuseGraceDecision_def graceKind_def graceOn_def run_attempt IsRefreshFamilyRevoked_def
                 HasRevokedUnredeemedRefreshTokenInFamily_def revokedOnPurpose_def countRedemptionChildren_def
                 CountRefreshTokenChildren_def children_def split: option.splits)

section \<open>Redemption\<close>

lemma run_decide_live:
  assumes "healthy w" "w_tx w = Some t" "\<not> isRefreshTokenUsedOrRevoked rt" "\<not> tombstoned t (rm_FamilyID rt)"
  shows "run_state (decideRefresh st ctx rt at) w =
    (Inr (grantOf rt, rm_ID rt, False), w\<lparr>w_tx := Some (snd (MarkRefreshTokenUsedAndRevokedByID at (rm_ID rt) t))\<rparr>)"
  using assms
  by (simp add: healthy_def decideRefresh_def run_attempt IsRefreshFamilyRevoked_def redeem_def grantOf_def)
     (simp add: MarkRefreshTokenUsedAndRevokedByID_def)

text \<open>The part of a consumption before the decision.\<close>

lemma run_consume_decide:
  assumes h: "healthy w" "w_tx w = Some t" and k: "refreshAtRest st token = Inr hsh"
    and r: "one_row (\<lambda>x. rt_TokenHash x = hsh) (refresh_tokens t) = Inr r"
    and m: "refreshRequestMatches req (refreshModelOfRow r)" "set (reqScopes req) \<subseteq> set (rt_Scopes r)"
    and v: "refreshAdmissible st ctx t (refreshModelOfRow r) (w_now w)"
  shows "run_state (consumeRefreshToken st ctx req token) w =
    run_state (decideRefresh st ctx (refreshModelOfRow r) (w_now w)) w"
proof -
  have w: "w\<lparr>w_tx := Some t\<rparr> = w" using h(2) by simp
  have "rm_Scopes (refreshModelOfRow r) = rt_Scopes r" by (simp add: refreshModelOfRow_def)
  with h k r m run_validate_ok [OF h v] show ?thesis
    by (simp add: healthy_def consumeRefreshToken_def run_attempt run_attemptOr GetRefreshFamilyIDByTokenHash_def
          LockRefreshFamily_def loadRefreshTokenForUpdate_def GetRefreshTokenForUpdateByHash_def w)
qed

section \<open>Reuse detection\<close>

definition familyAudit :: "Storage \<Rightarrow> Ctx \<Rightarrow> time \<Rightarrow> string \<Rightarrow> string \<Rightarrow> string \<Rightarrow> AuditLog" where
  "familyAudit st ctx at uid ev fam =
     \<lparr>al_UserID = nullIf uid, al_EventType = ev, al_IpAddress = nullIf (normalizeIPAddress st (x_IP ctx)),
      al_UserAgent = nullIf (x_UserAgent ctx), al_Metadata = Some [(''family_id'', JStr fam)], al_CreatedAt = at\<rparr>"

lemma prepareRow_family:
  "ev = EventAuthRefreshReuseDetected \<or> ev = EventAuthRefreshFamilyRevoked \<Longrightarrow>
   prepareRow st at (Some uid) ev (x_IP ctx) (x_UserAgent ctx) [(''family_id'', JStr fam)] = Inr (familyAudit st ctx at uid ev fam)"
  by (auto simp: prepareRow_def sanitize_def auditMetadataAllowlist_def event_defs keepAllowed_def hashSessionID_def
                 familyAudit_def coalesce_def)

text \<open>What reuse detection leaves behind.\<close>

definition afterReuse :: "Storage \<Rightarrow> Ctx \<Rightarrow> RefreshTokenModel \<Rightarrow> time \<Rightarrow> dbs \<Rightarrow> dbs" where
  "afterReuse st ctx rt at d =
     (let known = tombstoned d (rm_FamilyID rt) in
      d\<lparr>refresh_tokens := revokeFamilyRows at (rm_FamilyID rt) (refresh_tokens d),
        refresh_token_families := refresh_token_families d @ (if known then [] else
          [\<lparr>rf_FamilyID = rm_FamilyID rt, rf_UserID = rm_UserID rt, rf_Reason = tombstoneReasonReuse, rf_RevokedAt = at\<rparr>]),
        audit_log := audit_log d @ familyAudit st ctx at (rm_UserID rt) EventAuthRefreshReuseDetected (rm_FamilyID rt)
          # (if known then [] else [familyAudit st ctx at (rm_UserID rt) EventAuthRefreshFamilyRevoked (rm_FamilyID rt)])\<rparr>)"

lemma InsertAuditLog_known:
  "(\<And>u. al_UserID row = Some u \<Longrightarrow> userExists d u) \<Longrightarrow> InsertAuditLog row d = (Inr (), d\<lparr>audit_log := audit_log d @ [row]\<rparr>)"
  by (auto simp: InsertAuditLog_def split: option.splits)

lemma userExists_frame [simp]:
  "userExists (d\<lparr>refresh_tokens := a\<rparr>) u = userExists d u" "userExists (d\<lparr>refresh_token_families := b\<rparr>) u = userExists d u"
  "userExists (d\<lparr>audit_log := c\<rparr>) u = userExists d u"
  by (simp_all add: userExists_def)

lemma tombstoned_frame [simp]:
  "tombstoned (d\<lparr>refresh_tokens := a\<rparr>) f = tombstoned d f" "tombstoned (d\<lparr>audit_log := c\<rparr>) f = tombstoned d f"
  by (simp_all add: tombstoned_def)

lemma familyAudit_user: "al_UserID (familyAudit st ctx at uid ev fam) = Some u \<Longrightarrow> u = uid"
  by (auto simp: familyAudit_def nullIf_def split: if_splits)

lemma InsertAuditLog_family:
  "userExists d uid \<Longrightarrow> InsertAuditLog (familyAudit st ctx at uid ev fam) d =
     (Inr (), d\<lparr>audit_log := audit_log d @ [familyAudit st ctx at uid ev fam]\<rparr>)"
  by (rule InsertAuditLog_known) (auto dest: familyAudit_user)

lemma run_detectReuse:
  assumes "healthy w" "w_tx w = Some t" "userExists t (rm_UserID rt)" "w_now w = at"
  shows "run_state (detectReuse st ctx rt at) w =
    (Inl errRefreshGrantRefused, w\<lparr>w_db := afterReuse st ctx rt at t, w_tx := None\<rparr>)"
  using assms
  by (cases "tombstoned t (rm_FamilyID rt)")
     (simp_all add: healthy_def detectReuse_def revokeRefreshFamilyOnReuse_def tombstoneRefreshFamily_def
        auditRefreshReuseDetectionTx_def writeAuditLogTx_def run_attempt prepareRow_family RevokeRefreshFamily_def
        TombstoneRefreshFamily_def InsertAuditLog_family afterReuse_def Let_def)

lemma run_decide_reuse:
  assumes "healthy w" "w_tx w = Some t" "userExists t (rm_UserID rt)" "w_now w = at"
    and "isRefreshTokenUsedOrRevoked rt \<or> tombstoned t (rm_FamilyID rt)" "graceKind st t rt at = graceNone"
  shows "run_state (decideRefresh st ctx rt at) w =
    (Inl errRefreshGrantRefused, w\<lparr>w_db := afterReuse st ctx rt at t, w_tx := None\<rparr>)"
proof -
  have "w\<lparr>w_tx := Some t\<rparr> = w" using assms(2) by simp
  with assms run_detectReuse [OF assms(1-4)] run_graceDecision [OF assms(1,2), of st rt at] show ?thesis
    by (auto simp: decideRefresh_def run_attempt IsRefreshFamilyRevoked_def healthy_def)
qed

section \<open>Issuance\<close>

text \<open>A refresh request reaches the consumption with three ids drawn and a fresh transaction.\<close>

definition txStart :: "world \<Rightarrow> world" where
  "txStart w = w\<lparr>w_tx := Some (w_db w), w_idc := w_idc w + 3\<rparr>"

lemma healthy_txStart [simp]: "healthy (txStart w) = healthy w" "w_tx (txStart w) = Some (w_db w)" "w_now (txStart w) = w_now w"
  by (simp_all add: healthy_def txStart_def)

lemma run_issue_refused:
  assumes "healthy w" "s_opaque st (Suc (w_idc w)) = Inr tok" "refreshAtRest st tok = Inr hsh" "token \<noteq> ''''"
    and "run_state (consumeRefreshToken st ctx (ReqRefresh q) token) (txStart w) = (Inl e, w')"
  shows "run_state (CreateAccessAndRefreshTokens st ctx (ReqRefresh q) token) w = (Inl e, w'\<lparr>w_tx := None\<rparr>)"
  using assms
  by (simp add: healthy_def CreateAccessAndRefreshTokens_def run_attempt run_withTx consumeAuthCode_def deriveRefreshToken_def
        initialRefreshTokenAttributes_def txStart_def numeral_3_eq_3)

lemma run_issue_child:
  assumes "healthy w" "w_tx w = None" "s_opaque st (Suc (w_idc w)) = Inr tok" "refreshAtRest st tok = Inr hsh" "token \<noteq> ''''"
    and c: "run_state (consumeRefreshToken st ctx (ReqRefresh q) token) (txStart w) = (Inr (attrs, parent, False), w')"
    and w': "w' = (txStart w)\<lparr>w_tx := Some t\<rparr>" and "s_uuidParse st parent"
    and ins: "InsertRefreshToken (newRefreshRow st (s_uuid st (w_idc w + 3)) hsh attrs (Some parent) (w_now w)) t = (Inr (), t')"
  shows "run_state (CreateAccessAndRefreshTokens st ctx (ReqRefresh q) token) w =
    (Inr (s_uuid st (w_idc w), tok, w_now w + s_accessTokenTTL st), w\<lparr>w_idc := w_idc w + 4, w_db := t'\<rparr>)"
  using assms
  by (simp add: healthy_def CreateAccessAndRefreshTokens_def run_attempt run_withTx consumeAuthCode_def deriveRefreshToken_def
        initialRefreshTokenAttributes_def txStart_def numeral_3_eq_3 eval_nat_numeral)

section \<open>Properties\<close>

text \<open>C1: Rotation: redeeming a live refresh token of a family that is not tombstoned, for its own
  client and user, with scopes of the grant and all re-checks passed, marks that token used and
  revoked, adds exactly one new token, which carries the parent's family, owner, client, resource
  and original scopes, and changes nothing else.\<close>

theorem refresh_rotation:
  assumes "healthy w" "w_tx w = None" "token \<noteq> ''''" "refreshAtRest st token = Inr (rt_TokenHash r)"
    and "s_opaque st (Suc (w_idc w)) = Inr tok" "refreshAtRest st tok = Inr newHash"
    and "keys_wf (w_db w)" "r \<in> set (refresh_tokens (w_db w))"
    and "rt_RevokedAt r = None" "rt_UsedAt r = None" "\<not> tombstoned (w_db w) (rt_FamilyID r)"
    and "rm_ClientID q = rt_ClientID r" "rm_UserID q = rt_UserID r" "set (refreshGetScopes q) \<subseteq> set (rt_Scopes r)"
    and "refreshAdmissible st ctx (w_db w) (refreshModelOfRow r) (w_now w)"
    and "s_uuidParse st (rt_ID r)" "userExists (w_db w) (rt_UserID r)"
    and "s_uuid st (w_idc w + 3) \<notin> rt_ID ` set (refresh_tokens (w_db w))"
    and "newHash \<notin> rt_TokenHash ` set (refresh_tokens (w_db w))"
  shows "run_state (CreateAccessAndRefreshTokens st ctx (ReqRefresh q) token) w =
    (Inr (s_uuid st (w_idc w), tok, w_now w + s_accessTokenTTL st),
     w\<lparr>w_idc := w_idc w + 4, w_db := (w_db w)\<lparr>refresh_tokens :=
         upd_where (\<lambda>t. rt_ID t = rt_ID r)
           (\<lambda>t. t\<lparr>rt_UsedAt := Some (w_now w), rt_RevokedAt := Some (w_now w)\<rparr>) (refresh_tokens (w_db w)) @
         [\<lparr>rt_ID = s_uuid st (w_idc w + 3), rt_TokenHash = newHash, rt_FamilyID = rt_FamilyID r,
           rt_UserID = rt_UserID r, rt_ClientID = rt_ClientID r, rt_Resource = Some (coalesce (rt_Resource r)),
           rt_Scopes = rt_Scopes r, rt_ExpiresAt = w_now w + s_refreshTokenTTL st, rt_RevokedAt = None,
           rt_UsedAt = None, rt_CreatedAt = w_now w, rt_ParentID = Some (rt_ID r)\<rparr>]\<rparr>\<rparr>)"
proof -
  let ?d = "w_db w" and ?rt = "refreshModelOfRow r" and ?w = "txStart w"
  let ?t = "snd (MarkRefreshTokenUsedAndRevokedByID (w_now w) (rm_ID ?rt) ?d)"
  have row: "one_row (\<lambda>x. rt_TokenHash x = rt_TokenHash r) (refresh_tokens ?d) = Inr r"
    using assms by (intro one_row_unique [where g = rt_TokenHash]) (auto simp: keys_wf_def)
  have m: "refreshRequestMatches (ReqRefresh q) ?rt" "\<not> isRefreshTokenUsedOrRevoked ?rt" "rm_FamilyID ?rt = rt_FamilyID r"
    using assms by (auto simp: refreshRequestMatches_def isRefreshTokenUsedOrRevoked_def refreshModelOfRow_def)
  have "run_state (consumeRefreshToken st ctx (ReqRefresh q) token) ?w
      = run_state (decideRefresh st ctx ?rt (w_now w)) ?w"
    using assms row m(1) by (subst run_consume_decide [where t = ?d and hsh = "rt_TokenHash r"]) auto
  also have "\<dots> = (Inr (grantOf ?rt, rm_ID ?rt, False), ?w\<lparr>w_tx := Some ?t\<rparr>)"
    using assms m by (subst run_decide_live [where t = ?d]) auto
  finally have c: "run_state (consumeRefreshToken st ctx (ReqRefresh q) token) ?w
      = (Inr (grantOf ?rt, rm_ID ?rt, False), ?w\<lparr>w_tx := Some ?t\<rparr>)" .
  have ids: "rt_ID ` set (refresh_tokens ?t) = rt_ID ` set (refresh_tokens ?d)"
    "rt_TokenHash ` set (refresh_tokens ?t) = rt_TokenHash ` set (refresh_tokens ?d)"
    "userExists ?t u = userExists ?d u" for u
    by (simp_all add: MarkRefreshTokenUsedAndRevokedByID_def)
  have ins: "InsertRefreshToken (newRefreshRow st (s_uuid st (w_idc w + 3)) newHash (grantOf ?rt) (Some (rm_ID ?rt)) (w_now w)) ?t
    = (Inr (), ?t\<lparr>refresh_tokens := refresh_tokens ?t @ [newRefreshRow st (s_uuid st (w_idc w + 3)) newHash (grantOf ?rt) (Some (rm_ID ?rt)) (w_now w)]\<rparr>)"
    using assms(17-19) ids
    by (simp add: InsertRefreshToken_def list_ex_key newRefreshRow_def grantOf_def refreshModelOfRow_def)
  have "s_uuidParse st (rm_ID ?rt)" using assms(16) by (simp add: refreshModelOfRow_def)
  from run_issue_child [OF assms(1,2,5,6,3) c refl this ins] show ?thesis
    by (simp add: MarkRefreshTokenUsedAndRevokedByID_def newRefreshRow_def grantOf_def refreshModelOfRow_def)
qed

lemma exampleHash: "refreshAtRest exampleStorage s = Inr (RefreshHash examplePrims exampleKeys s)"
  by (simp add: refreshAtRest_def)

lemma exampleHash_inj: "RefreshHash examplePrims exampleKeys s = RefreshHash examplePrims exampleKeys t \<longleftrightarrow> s = t"
  by (rule RefreshHash_inj [OF examplePrims_mac])

lemma exampleAdmissible:
  "rt_ClientID r = ''app'' \<Longrightarrow> rt_Resource r = Some '''' \<Longrightarrow> 10 < rt_ExpiresAt r \<Longrightarrow>
   refreshAdmissible exampleStorage exampleCtx d (refreshModelOfRow r) 10"
  by (simp add: refreshAdmissible_def refreshModelOfRow_def exampleApp_open Restricted_def coreResourceBindingPolicy_def
        coreValidateTokenRequest_def ResourceFromContext_def exampleCtx_def coalesce_def goTrimSpace_def)

lemma exampleDb_wf: "keys_wf exampleDb"
  by (simp add: keys_wf_def)

theorem refresh_rotation_witness:
  "\<exists>w'. run_state (CreateAccessAndRefreshTokens exampleStorage exampleCtx (ReqRefresh (refreshModelOfRow exampleToken)) ''old'')
       (exampleWorld exampleDb) = (Inr (''u'', ''txx'', 10 + 900 * second), w')
     \<and> map rt_UsedAt (refresh_tokens (w_db w')) = [Some 10, None]"
proof -
  let ?q = "refreshModelOfRow exampleToken" and ?new = "RefreshHash examplePrims exampleKeys ''txx''"
  have "refreshGetScopes ?q = [''openid'']" "rm_ClientID ?q = ''app''" "rm_UserID ?q = ''alice''"
    by (simp_all add: refreshGetScopes_def refreshModelOfRow_def)
  moreover have "s_uuid exampleStorage 1 = ''u''" "s_uuid exampleStorage 4 \<noteq> ''''"
    by (simp_all add: exampleStorage_def exampleUUID_def)
  moreover have "refreshAdmissible exampleStorage exampleCtx exampleDb ?q 10"
    by (rule exampleAdmissible) simp_all
  moreover have "s_accessTokenTTL exampleStorage = 900 * second" by (simp add: exampleStorage_def)
  ultimately show ?thesis
    using refresh_rotation [of "exampleWorld exampleDb" "''old''" exampleStorage exampleToken "''txx''" ?new ?q exampleCtx]
    by (simp add: healthy_def exampleHash exampleHash_inj exampleDb_wf tombstoned_def userExists_def upd_where_def)
qed

text \<open>C2: Reuse: presenting a refresh token that was used or revoked, or whose family is tombstoned,
  outside the reuse grace is refused with invalid\_grant; every token of its family is revoked, the
  family is tombstoned so that nothing can be issued into it again, no token is added, no token of
  another family changes, and the detection is on the audit log.\<close>

theorem refresh_reuse_revokes_family:
  assumes "healthy w" "w_tx w = None" "token \<noteq> ''''" "refreshAtRest st token = Inr (rt_TokenHash r)"
    and "s_opaque st (Suc (w_idc w)) = Inr tok" "refreshAtRest st tok = Inr newHash"
    and "keys_wf (w_db w)" "r \<in> set (refresh_tokens (w_db w))"
    and "rt_RevokedAt r \<noteq> None \<or> rt_UsedAt r \<noteq> None \<or> tombstoned (w_db w) (rt_FamilyID r)"
    and "graceKind st (w_db w) (refreshModelOfRow r) (w_now w) = graceNone"
    and "rm_ClientID q = rt_ClientID r" "rm_UserID q = rt_UserID r" "set (refreshGetScopes q) \<subseteq> set (rt_Scopes r)"
    and "refreshAdmissible st ctx (w_db w) (refreshModelOfRow r) (w_now w)" "userExists (w_db w) (rt_UserID r)"
    and "run_state (CreateAccessAndRefreshTokens st ctx (ReqRefresh q) token) w = (res, w')"
  shows "res = Inl errRefreshGrantRefused \<and> familyDead (w_db w') (rt_FamilyID r) \<and> tombstoned (w_db w') (rt_FamilyID r)
    \<and> refresh_tokens (w_db w') = map (\<lambda>t. if rt_FamilyID t = rt_FamilyID r \<and> rt_RevokedAt t = None
          then t\<lparr>rt_RevokedAt := Some (w_now w)\<rparr> else t) (refresh_tokens (w_db w))
    \<and> familyAudit st ctx (w_now w) (rt_UserID r) EventAuthRefreshReuseDetected (rt_FamilyID r) \<in> set (audit_log (w_db w'))"
proof -
  let ?d = "w_db w" and ?rt = "refreshModelOfRow r" and ?w = "txStart w"
  have row: "one_row (\<lambda>x. rt_TokenHash x = rt_TokenHash r) (refresh_tokens ?d) = Inr r"
    using assms by (intro one_row_unique [where g = rt_TokenHash]) (auto simp: keys_wf_def)
  have m: "refreshRequestMatches (ReqRefresh q) ?rt" "isRefreshTokenUsedOrRevoked ?rt \<or> tombstoned ?d (rm_FamilyID ?rt)"
    "userExists ?d (rm_UserID ?rt)"
    using assms by (auto simp: refreshRequestMatches_def isRefreshTokenUsedOrRevoked_def refreshModelOfRow_def)
  have "run_state (consumeRefreshToken st ctx (ReqRefresh q) token) ?w
      = run_state (decideRefresh st ctx ?rt (w_now w)) ?w"
    using assms row m(1) by (subst run_consume_decide [where t = ?d and hsh = "rt_TokenHash r"]) auto
  also have "\<dots> = (Inl errRefreshGrantRefused, ?w\<lparr>w_db := afterReuse st ctx ?rt (w_now w) ?d, w_tx := None\<rparr>)"
    using assms m by (subst run_decide_reuse [where t = ?d]) auto
  finally have "run_state (consumeRefreshToken st ctx (ReqRefresh q) token) ?w = \<dots>" .
  from run_issue_refused [OF assms(1,5,6,3) this] assms(16) have res: "res = Inl errRefreshGrantRefused" "w_db w' = afterReuse st ctx ?rt (w_now w) ?d" by auto
  have "familyDead (w_db w') (rt_FamilyID r)"
    by (simp add: res afterReuse_def Let_def familyDead_def revokeFamilyRows_def ball_upd_where liveToken_def refreshModelOfRow_def)
  moreover have "tombstoned (w_db w') (rt_FamilyID r)"
    by (auto simp: res afterReuse_def Let_def tombstoned_def refreshModelOfRow_def)
  ultimately show ?thesis
    by (simp add: res afterReuse_def Let_def revokeFamilyRows_def upd_where_def liveToken_def refreshModelOfRow_def)
qed

definition reusedDb :: dbs where
  "reusedDb = exampleDb\<lparr>refresh_tokens := [exampleToken\<lparr>rt_RevokedAt := Some 5, rt_UsedAt := Some 5\<rparr>,
     exampleToken\<lparr>rt_ID := ''kid'', rt_TokenHash := ''h'', rt_ParentID := Some ''''\<rparr>]\<rparr>"

theorem refresh_reuse_revokes_family_witness:
  "familyDead (w_db (snd (run_state (CreateAccessAndRefreshTokens exampleStorage exampleCtx
      (ReqRefresh (refreshModelOfRow exampleToken)) ''old'') (exampleWorld reusedDb)))) ''fam''"
proof -
  let ?q = "refreshModelOfRow exampleToken" and ?new = "RefreshHash examplePrims exampleKeys ''txx''"
  let ?r = "exampleToken\<lparr>rt_RevokedAt := Some 5, rt_UsedAt := Some 5\<rparr>"
  obtain res w' where run: "run_state (CreateAccessAndRefreshTokens exampleStorage exampleCtx (ReqRefresh ?q) ''old'') (exampleWorld reusedDb) = (res, w')"
    by (rule prod.exhaust)
  have "refreshGetScopes ?q = [''openid'']" "rm_ClientID ?q = ''app''" "rm_UserID ?q = ''alice''"
    by (simp_all add: refreshGetScopes_def refreshModelOfRow_def)
  moreover have "refreshAdmissible exampleStorage exampleCtx reusedDb (refreshModelOfRow ?r) 10"
    by (rule exampleAdmissible) simp_all
  moreover have "RefreshHash examplePrims exampleKeys ''old'' \<noteq> ''h''"
    by (simp add: RefreshHash_def hmacHex_def hexEncode_def examplePrims_def)
  then have "keys_wf reusedDb" by (simp add: keys_wf_def reusedDb_def)
  moreover have "graceKind exampleStorage reusedDb (refreshModelOfRow ?r) 10 = graceNone"
    by (simp add: graceKind_def graceOn_def refreshModelOfRow_def)
  moreover have "?r \<in> set (refresh_tokens reusedDb)" "userExists reusedDb ''alice''"
    by (simp_all add: reusedDb_def userExists_def)
  ultimately show ?thesis
    using refresh_reuse_revokes_family [of "exampleWorld reusedDb" "''old''" exampleStorage ?r "''txx''" ?new ?q exampleCtx res w'] run
    by (simp add: healthy_def exampleHash)
qed

text \<open>The grace decision, exactly: a second presentation is redeemed again only while the grace
  is on for this client, the token was redeemed (used and revoked at one instant), at most the
  grace ago, its family is not tombstoned and holds no token revoked without being redeemed, and
  fewer than three children exist; with three children it is refused without revocation; every
  other case, a purposely revoked sibling included, runs reuse detection.\<close>

theorem grace_decision_exact:
  assumes "healthy w" "w_tx w = Some t"
  shows "run_state (refreshReuseGraceDecision st rt at) w =
    (Inr (if s_refreshReuseGrace st > 0 \<and> StaticRefreshGraceAllowed (s_registry st) (rm_ClientID rt)
             \<and> (\<exists>u. rm_UsedAt rt = Some u \<and> rm_RevokedAt rt = Some u \<and> timeSub at u \<le> s_refreshReuseGrace st)
             \<and> \<not> tombstoned t (rm_FamilyID rt) \<and> \<not> revokedOnPurpose t (rm_FamilyID rt)
          then if children t (rm_ID rt) < 3 then graceIssue else graceRefuse
          else graceNone), w)"
  using run_graceDecision [OF assms, of st rt at]
  by (auto simp: graceKind_def graceOn_def refreshReuseGraceMaxIssued_def split: option.splits)

theorem grace_decision_exact_witness:
  "fst (run_state (refreshReuseGraceDecision (exampleStorage\<lparr>s_refreshReuseGrace := 30 * second\<rparr>)
     (refreshModelOfRow (exampleToken\<lparr>rt_RevokedAt := Some 5, rt_UsedAt := Some 5\<rparr>)) 10)
     ((exampleWorld exampleDb)\<lparr>w_tx := Some reusedDb\<rparr>)) = Inr graceIssue"
proof -
  let ?w = "(exampleWorld exampleDb)\<lparr>w_tx := Some reusedDb\<rparr>"
  have "healthy ?w" "w_tx ?w = Some reusedDb" by (simp_all add: healthy_def)
  note g = grace_decision_exact [OF this]
  have "StaticRefreshGraceAllowed exampleRegistry ''app''" by code_simp
  moreover have "\<not> tombstoned reusedDb ''fam''" "\<not> revokedOnPurpose reusedDb ''fam''" "children reusedDb '''' = 1"
    by (simp_all add: reusedDb_def tombstoned_def revokedOnPurpose_def children_def liveToken_def)
  ultimately show ?thesis unfolding g
    by (simp add: refreshModelOfRow_def exampleStorage_def timeSub_def second_def)
qed

text \<open>C17: A refresh token presented by another client, for another user, with a scope outside the
  grant, or unknown, is refused with an OAuth error and changes nothing in the database: it neither
  rotates the token nor revokes its family.\<close>

theorem refresh_mismatch_harmless:
  assumes "healthy w" "w_tx w = None" "token \<noteq> ''''" "refreshAtRest st token = Inr hsh"
    and "s_opaque st (Suc (w_idc w)) = Inr tok" "refreshAtRest st tok = Inr newHash"
    and "case one_row (\<lambda>x. rt_TokenHash x = hsh) (refresh_tokens (w_db w)) of Inl _ \<Rightarrow> True
         | Inr r \<Rightarrow> rm_ClientID q \<noteq> rt_ClientID r \<or> rm_UserID q \<noteq> rt_UserID r \<or> \<not> set (refreshGetScopes q) \<subseteq> set (rt_Scopes r)"
    and "run_state (CreateAccessAndRefreshTokens st ctx (ReqRefresh q) token) w = (res, w')"
  shows "(res = Inl errRefreshGrantRefused \<or> res = Inl errInvalidScope) \<and> w_db w' = w_db w"
proof -
  let ?w = "txStart w"
  have "\<exists>e. run_state (consumeRefreshToken st ctx (ReqRefresh q) token) ?w = (Inl e, ?w)
      \<and> (e = errRefreshGrantRefused \<or> e = errInvalidScope)"
  proof (cases "one_row (\<lambda>x. rt_TokenHash x = hsh) (refresh_tokens (w_db w))")
    case (Inl e)
    then have "e = ErrNoRows" by (auto dest: one_row_Inl)
    with Inl assms show ?thesis
      by (simp add: healthy_def consumeRefreshToken_def run_attempt run_attemptOr GetRefreshFamilyIDByTokenHash_def txStart_def)
  next
    case (Inr r)
    with assms show ?thesis
      by (auto simp: healthy_def consumeRefreshToken_def run_attempt run_attemptOr GetRefreshFamilyIDByTokenHash_def
            LockRefreshFamily_def loadRefreshTokenForUpdate_def GetRefreshTokenForUpdateByHash_def refreshRequestMatches_def
            refreshModelOfRow_def txStart_def)
  qed
  then obtain e where "run_state (consumeRefreshToken st ctx (ReqRefresh q) token) ?w = (Inl e, ?w)"
    "e = errRefreshGrantRefused \<or> e = errInvalidScope" by blast
  with run_issue_refused [OF assms(1,5,6,3) this(1)] assms(8) show ?thesis by (auto simp: txStart_def)
qed

theorem refresh_mismatch_harmless_witness:
  "w_db (snd (run_state (CreateAccessAndRefreshTokens exampleStorage exampleCtx
      (ReqRefresh ((refreshModelOfRow exampleToken)\<lparr>rm_ClientID := ''evil''\<rparr>)) ''old'') (exampleWorld exampleDb))) = exampleDb"
proof -
  let ?q = "(refreshModelOfRow exampleToken)\<lparr>rm_ClientID := ''evil''\<rparr>"
  obtain res w' where run: "run_state (CreateAccessAndRefreshTokens exampleStorage exampleCtx (ReqRefresh ?q) ''old'')
      (exampleWorld exampleDb) = (res, w')"
    by (rule prod.exhaust)
  from refresh_mismatch_harmless [OF _ _ _ _ _ _ _ run, of "RefreshHash examplePrims exampleKeys ''old''" "''txx''"] run
  show ?thesis by (simp add: healthy_def exampleHash one_row_def)
qed

section \<open>Revocation\<close>

text \<open>The grant a revocation request names: the client's token with this hash, else with this id.\<close>

definition namedGrant :: "Storage \<Rightarrow> string \<Rightarrow> string \<Rightarrow> string \<Rightarrow> dbs \<Rightarrow> RefreshToken option" where
  "namedGrant st hsh tok cid d =
     (case find (\<lambda>t. rt_TokenHash t = hsh \<and> rt_ClientID t = cid) (refresh_tokens d) of
        Some r \<Rightarrow> Some r
      | None \<Rightarrow> if s_uuidParse st tok then find (\<lambda>t. rt_ID t = tok \<and> rt_ClientID t = cid) (refresh_tokens d) else None)"

definition afterRevoke :: "RefreshToken \<Rightarrow> time \<Rightarrow> dbs \<Rightarrow> dbs" where
  "afterRevoke r at d =
     d\<lparr>refresh_tokens := revokeFamilyRows at (rt_FamilyID r) (refresh_tokens d),
       refresh_token_families := refresh_token_families d @ (if tombstoned d (rt_FamilyID r) then [] else
         [\<lparr>rf_FamilyID = rt_FamilyID r, rf_UserID = rt_UserID r, rf_Reason = tombstoneReasonRevoked, rf_RevokedAt = at\<rparr>])\<rparr>"

lemma run_lookupRefreshGrant:
  assumes "healthy w" "w_tx w = Some t"
  shows "run_state (lookupRefreshGrant st hsh tok cid) w =
    (case namedGrant st hsh tok cid t of None \<Rightarrow> (Inl ErrNoRows, w) | Some r \<Rightarrow> (Inr (rt_FamilyID r, rt_UserID r), w))"
  using assms
  by (auto simp: healthy_def lookupRefreshGrant_def namedGrant_def run_attemptOr GetRefreshTokenGrantByHash_def
                 GetRefreshTokenGrantByID_def one_row_def split: option.splits)

lemma run_revokeRefreshGrant:
  assumes h: "healthy w" "w_tx w = None" "refreshAtRest st tok = Inr hsh"
    and u: "\<And>r. namedGrant st hsh tok cid (w_db w) = Some r \<Longrightarrow> userExists (w_db w) (rt_UserID r)"
  shows "run_state (revokeRefreshGrant st tok cid) w =
    (case namedGrant st hsh tok cid (w_db w) of
       None \<Rightarrow> (Inr (False, ''''), w)
     | Some r \<Rightarrow> (Inr (count_where (\<lambda>t. rt_FamilyID t = rt_FamilyID r \<and> liveToken t) (refresh_tokens (w_db w)) > 0, rt_UserID r),
                 w\<lparr>w_db := afterRevoke r (w_now w) (w_db w)\<rparr>))"
proof -
  let ?w = "w\<lparr>w_tx := Some (w_db w)\<rparr>"
  have hw: "healthy ?w" "w_tx ?w = Some (w_db w)" using h by (simp_all add: healthy_def)
  note l = run_lookupRefreshGrant [OF hw, of st hsh tok cid]
  show ?thesis
  proof (cases "namedGrant st hsh tok cid (w_db w)")
    case None
    with h l show ?thesis
      by (simp add: healthy_def revokeRefreshGrant_def run_attempt run_attemptOr run_withTx)
  next
    case (Some r)
    with h l u [OF Some] show ?thesis
      by (cases "tombstoned (w_db w) (rt_FamilyID r)")
         (simp_all add: healthy_def revokeRefreshGrant_def run_attempt run_attemptOr run_withTx LockRefreshFamily_def
            RevokeRefreshFamily_def tombstoneRefreshFamily_def TombstoneRefreshFamily_def afterRevoke_def)
  qed
qed

lemma run_AuditLogEvent:
  "healthy w \<Longrightarrow> w_tx w = None \<Longrightarrow> run_state (AuditLogEvent st u ev ip ua md) w =
     (case prepareRow st (w_now w) u ev ip ua md of Inl e \<Rightarrow> (Inl e, w)
      | Inr row \<Rightarrow> (Inr (), w\<lparr>w_db := snd (InsertAuditLog row (w_db w))\<rparr>))"
  by (simp add: healthy_def AuditLogEvent_def run_attempt run_attemptOr split: sum.splits)

lemma audit_keeps_tokens:
  assumes "healthy w" "w_tx w = None" "run_state (AuditLogEvent st u ev ip ua md) w = (r, w')"
  shows "refresh_tokens (w_db w') = refresh_tokens (w_db w) \<and> refresh_token_families (w_db w') = refresh_token_families (w_db w)"
proof (cases "prepareRow st (w_now w) u ev ip ua md")
  case (Inl e)
  with assms run_AuditLogEvent [OF assms(1,2), of st u ev ip ua md] show ?thesis by simp
next
  case (Inr row)
  with assms(3) run_AuditLogEvent [OF assms(1,2), of st u ev ip ua md]
  have "w_db w' = snd (InsertAuditLog row (w_db w))" by auto
  with snd_InsertAuditLog [of row "w_db w"] show ?thesis by auto
qed

text \<open>C18: Revocation (RFC 7009): the token, named by value or by id, is revoked with its whole family
  and the family is tombstoned exactly when it was issued to the requesting client; a token of
  another client, or an unknown one, is answered with success and the token tables stay as they
  are.\<close>

theorem revoke_token_exact:
  assumes "healthy w" "w_tx w = None" "refreshAtRest st tok = Inr hsh"
    and "list_all (\<lambda>r. userExists (w_db w) (rt_UserID r)) (refresh_tokens (w_db w))"
    and "run_state (RevokeToken st ctx tok uid cid) w = (res, w')"
  shows "case namedGrant st hsh tok cid (w_db w) of
      None \<Rightarrow> res = Inr () \<and> w' = w
    | Some r \<Rightarrow> rt_ClientID r = cid \<and> familyDead (w_db w') (rt_FamilyID r) \<and> tombstoned (w_db w') (rt_FamilyID r)
        \<and> refresh_tokens (w_db w') = revokeFamilyRows (w_now w) (rt_FamilyID r) (refresh_tokens (w_db w))"
proof -
  have u: "userExists (w_db w) (rt_UserID r)" if "namedGrant st hsh tok cid (w_db w) = Some r" for r
    using that assms(4) by (auto simp: namedGrant_def list_all_iff split: option.splits if_splits dest!: find_SomeD)
  note g = run_revokeRefreshGrant [OF assms(1-3), of cid, OF u]
  show ?thesis
  proof (cases "namedGrant st hsh tok cid (w_db w)")
    case None
    with g assms(5) show ?thesis by (auto simp: RevokeToken_def run_attemptOr)
  next
    case (Some r)
    let ?d = "afterRevoke r (w_now w) (w_db w)"
    have c: "rt_ClientID r = cid"
      using Some by (auto simp: namedGrant_def split: option.splits if_splits dest!: find_SomeD)
    have "refresh_tokens (w_db w') = refresh_tokens ?d \<and> refresh_token_families (w_db w') = refresh_token_families ?d"
      using g assms(5) Some assms(1,2) audit_keeps_tokens [of "w\<lparr>w_db := ?d\<rparr>"]
      by (simp add: RevokeToken_def run_attemptOr healthy_def split: if_splits) auto
    with c Some show ?thesis
      by (simp add: afterRevoke_def familyDead_def tombstoned_def revokeFamilyRows_def ball_upd_where liveToken_def)
  qed
qed

theorem revoke_token_exact_witness:
  "familyDead (w_db (snd (run_state (RevokeToken exampleStorage exampleCtx ''old'' '''' ''app'') (exampleWorld exampleDb)))) ''fam''
   \<and> snd (run_state (RevokeToken exampleStorage exampleCtx ''old'' '''' ''evil'') (exampleWorld exampleDb)) = exampleWorld exampleDb"
proof -
  have *: "healthy (exampleWorld exampleDb)" "w_tx (exampleWorld exampleDb) = None"
    "refreshAtRest exampleStorage ''old'' = Inr (RefreshHash examplePrims exampleKeys ''old'')"
    "list_all (\<lambda>r. userExists (w_db (exampleWorld exampleDb)) (rt_UserID r)) (refresh_tokens (w_db (exampleWorld exampleDb)))"
    by (simp_all add: healthy_def exampleHash userExists_def)
  obtain r1 w1 r2 w2 where
    r: "run_state (RevokeToken exampleStorage exampleCtx ''old'' '''' ''app'') (exampleWorld exampleDb) = (r1, w1)"
    "run_state (RevokeToken exampleStorage exampleCtx ''old'' '''' ''evil'') (exampleWorld exampleDb) = (r2, w2)"
    by (meson prod.exhaust)
  show ?thesis
    using revoke_token_exact [OF * r(1)] revoke_token_exact [OF * r(2)] r by (simp add: namedGrant_def)
qed

end
