(* ===== verification/Auth_Correct.thy ===== *)
theory Auth_Correct
  imports Refresh_Correct
begin

text \<open>
  Authorization requests and codes: what /authorize stores and refuses, that a code is exchanged at
  most once, what the exchange re-checks, and which guard the completion of a request applies.
\<close>

section \<open>Lemmas\<close>

lemma maxAge_roundtrip: "m < 2 ^ 63 \<Longrightarrow> maxAgeFromNullInt64 (maxAgeToNullInt64 (Some m)) = Some m"
  by (simp add: maxAgeFromNullInt64_def maxAgeToNullInt64_def)

section \<open>Properties\<close>

definition exampleRequest :: AuthRequest where
  "exampleRequest = \<lparr>ar_ID = ''req'', ar_ClientID = ''app'', ar_Resource = Some '''', ar_RedirectUri = ''https://a/cb'',
     ar_Scopes = [''openid''], ar_State = Some '''', ar_Nonce = Some '''', ar_CodeChallenge = Some ''ch'',
     ar_CodeChallengeMethod = Some ''S256'', ar_Subject = Some ''alice'', ar_AuthTime = Some 5, ar_Done = True,
     ar_Code = Some (CodeHash examplePrims exampleKeys ''code''), ar_ExpiresAt = 100, ar_CreatedAt = 1, ar_Prompt = [], ar_MaxAge = None\<rparr>"

lemma exampleRequest_fields [simp]:
  "ar_ID exampleRequest = ''req''" "ar_ClientID exampleRequest = ''app''" "ar_Done exampleRequest" "ar_ExpiresAt exampleRequest = 100"
  "ar_Code exampleRequest = Some (CodeHash examplePrims exampleKeys ''code'')"
  by (simp_all add: exampleRequest_def)

definition exampleModel :: AuthRequestModel where
  "exampleModel = (authRequestModelFromRow exampleRequest)\<lparr>am_Code := Some ''code''\<rparr>"

lemma exampleModel_fields [simp]:
  "am_ID exampleModel = ''req''" "am_ClientID exampleModel = ''app''" "am_Code exampleModel = Some ''code''"
  by (simp_all add: exampleModel_def authRequestModelFromRow_def)

text \<open>
  When a request may be authorized. The client of an unresolved id is checked like one that needs PKCE (the library
  refuses it before).
\<close>

definition authorizable :: "Storage \<Rightarrow> Ctx \<Rightarrow> OidcAuthRequest \<Rightarrow> bool" where
  "authorizable st ctx req \<longleftrightarrow>
     (let s256 = (q_CodeChallenge req \<noteq> '''' \<and> q_CodeChallengeMethod req = ''S256'') in
      case ResolveClient st (q_ClientID req) of
        Inl _ \<Rightarrow> s256
      | Inr c \<Rightarrow> ValidateAuthorizeRequest (s_resourcePolicy st) (Some c) (ResourceFromContext ctx) = None
          \<and> (s256 \<or> c_SkipPKCE c \<and> (q_CodeChallenge req = '''' \<or> q_CodeChallengeMethod req \<in> {'''', ''plain'', ''S256''})))"

lemma checkAuthorize_iff: "checkAuthorize st (ResolveClient st (q_ClientID req)) (ResourceFromContext ctx) req = None \<longleftrightarrow> authorizable st ctx req"
  by (auto simp: checkAuthorize_def authorizable_def Let_def split: sum.splits option.splits)

text \<open>C15: /authorize, exactly. A request is authorizable if PKCE S256 is used and the resource indicator fits the
  client's channel; only a resolved client that opted out may do without, and then with no challenge
  method but plain or S256 (of a client that does not resolve only PKCE is checked here). Any other request is refused and nothing changes, whatever the database does. An
  accepted request was authorizable, and the answer carries exactly its parameters (client, resource,
  redirect address, scopes, state, nonce, challenge and method, prompt, max_age), is not done, has no
  subject or code and expires after ten minutes; the database has got one new row, which is read back as that very request,
  and nothing else has changed (a max_age of 2^63 and more is cut off when it is stored). On a healthy
  database an authorizable request with a fresh id is accepted.\<close>

theorem authorize_requires_pkce:
  "(\<not> authorizable st ctx req \<longrightarrow> (\<exists>e. run_state (CreateAuthRequest st ctx req) w = (Inl e, w)))
   \<and> (\<forall>ar w'. run_state (CreateAuthRequest st ctx req) w = (Inr ar, w') \<longrightarrow>
        authorizable st ctx req
      \<and> ar = \<lparr>am_ID = s_uuid st (w_idc w), am_ClientID = q_ClientID req, am_Resource = ResourceFromContext ctx,
               am_RedirectURI = q_RedirectURI req, am_Scopes = q_Scopes req, am_State = q_State req,
               am_Nonce = q_Nonce req, am_CodeChallenge = q_CodeChallenge req, am_CodeChallengeMethod = q_CodeChallengeMethod req,
               am_Prompt = q_Prompt req, am_MaxAge = q_MaxAge req, am_Subject = None, am_AuthTime = None, am_IsDone = False,
               am_Code = None, am_ExpiresAt = w_now w + 10 * minute, am_CreatedAt = w_now w\<rparr>
      \<and> (\<exists>row. w_db w' = (w_db w)\<lparr>auth_requests := auth_requests (w_db w) @ [row]\<rparr>
           \<and> authRequestModelFromRow (row\<lparr>ar_MaxAge := None\<rparr>) = ar\<lparr>am_MaxAge := None\<rparr>
           \<and> (q_MaxAge req = None \<or> the (q_MaxAge req) < 2 ^ 63 \<longrightarrow> authRequestModelFromRow row = ar)))
   \<and> (authorizable st ctx req \<and> healthy w \<and> w_tx w = None \<and> (\<forall>a \<in> set (auth_requests (w_db w)). ar_ID a \<noteq> s_uuid st (w_idc w)) \<longrightarrow>
        (\<exists>ar w'. run_state (CreateAuthRequest st ctx req) w = (Inr ar, w')))"
proof (intro conjI allI impI)
  let ?client = "ResolveClient st (q_ClientID req)"
  show "\<exists>e. run_state (CreateAuthRequest st ctx req) w = (Inl e, w)" if "\<not> authorizable st ctx req"
  proof -
    from that obtain e where "checkAuthorize st ?client (ResourceFromContext ctx) req = Some e" by (auto simp flip: checkAuthorize_iff)
    then show ?thesis by (simp add: CreateAuthRequest_def Let_def)
  qed
  show "\<exists>ar w'. run_state (CreateAuthRequest st ctx req) w = (Inr ar, w')"
    if "authorizable st ctx req \<and> healthy w \<and> w_tx w = None \<and> (\<forall>a \<in> set (auth_requests (w_db w)). ar_ID a \<noteq> s_uuid st (w_idc w))"
  proof -
    have "checkAuthorize st ?client (ResourceFromContext ctx) req = None" using that by (simp add: checkAuthorize_iff)
    with that show ?thesis by (auto simp: healthy_def CreateAuthRequest_def Let_def run_attempt InsertAuthRequest_def list_ex_iff)
  qed
  fix ar w'
  assume run: "run_state (CreateAuthRequest st ctx req) w = (Inr ar, w')"
  have chk: "checkAuthorize st ?client (ResourceFromContext ctx) req = None"
    using run by (auto simp: CreateAuthRequest_def Let_def split: option.splits)
  then show "authorizable st ctx req" by (simp add: checkAuthorize_iff)
  let ?row = "\<lparr>ar_ID = s_uuid st (w_idc w), ar_ClientID = q_ClientID req, ar_Resource = Some (ResourceFromContext ctx),
      ar_RedirectUri = q_RedirectURI req, ar_Scopes = q_Scopes req, ar_State = Some (q_State req),
      ar_Nonce = Some (q_Nonce req), ar_CodeChallenge = Some (q_CodeChallenge req),
      ar_CodeChallengeMethod = Some (q_CodeChallengeMethod req), ar_Subject = None, ar_AuthTime = None, ar_Done = False,
      ar_Code = None, ar_ExpiresAt = w_now w + authRequestTTL, ar_CreatedAt = w_now w, ar_Prompt = q_Prompt req,
      ar_MaxAge = maxAgeToNullInt64 (q_MaxAge req)\<rparr>"
  from run chk obtain w1 where ins: "run_state (exec DBc (InsertAuthRequest ?row)) (w\<lparr>w_idc := Suc (w_idc w)\<rparr>) = (Inr (), w1)"
    and w': "w' = w1"
    and ar: "ar = \<lparr>am_ID = s_uuid st (w_idc w), am_ClientID = q_ClientID req, am_Resource = ResourceFromContext ctx,
                 am_RedirectURI = q_RedirectURI req, am_Scopes = q_Scopes req, am_State = q_State req,
                 am_Nonce = q_Nonce req, am_CodeChallenge = q_CodeChallenge req,
                 am_CodeChallengeMethod = q_CodeChallengeMethod req, am_Prompt = q_Prompt req,
                 am_MaxAge = q_MaxAge req, am_Subject = None, am_AuthTime = None, am_IsDone = False,
                 am_Code = None, am_ExpiresAt = w_now w + authRequestTTL, am_CreatedAt = w_now w\<rparr>"
    by (auto simp: CreateAuthRequest_def Let_def run_attempt split: sum.splits prod.splits)
  from ar show "ar = \<lparr>am_ID = s_uuid st (w_idc w), am_ClientID = q_ClientID req, am_Resource = ResourceFromContext ctx,
               am_RedirectURI = q_RedirectURI req, am_Scopes = q_Scopes req, am_State = q_State req,
               am_Nonce = q_Nonce req, am_CodeChallenge = q_CodeChallenge req, am_CodeChallengeMethod = q_CodeChallengeMethod req,
               am_Prompt = q_Prompt req, am_MaxAge = q_MaxAge req, am_Subject = None, am_AuthTime = None, am_IsDone = False,
               am_Code = None, am_ExpiresAt = w_now w + 10 * minute, am_CreatedAt = w_now w\<rparr>"
    by (simp add: authRequestTTL_def)
  have stored: "w_db w' = (w_db w)\<lparr>auth_requests := auth_requests (w_db w) @ [?row]\<rparr>"
    using exec_DB_Inr [OF ins] w' by (auto simp: InsertAuthRequest_def split: if_splits)
  have "authRequestModelFromRow ?row = ar" if "q_MaxAge req = None \<or> the (q_MaxAge req) < 2 ^ 63"
    using that ar by (cases "q_MaxAge req")
      (simp_all add: authRequestModelFromRow_def coalesce_def maxAge_roundtrip, simp_all add: maxAgeFromNullInt64_def maxAgeToNullInt64_def)
  moreover have "authRequestModelFromRow (?row\<lparr>ar_MaxAge := None\<rparr>) = ar\<lparr>am_MaxAge := None\<rparr>"
    using ar by (simp add: authRequestModelFromRow_def coalesce_def maxAgeFromNullInt64_def)
  ultimately show "\<exists>row. w_db w' = (w_db w)\<lparr>auth_requests := auth_requests (w_db w) @ [row]\<rparr>
      \<and> authRequestModelFromRow (row\<lparr>ar_MaxAge := None\<rparr>) = ar\<lparr>am_MaxAge := None\<rparr>
      \<and> (q_MaxAge req = None \<or> the (q_MaxAge req) < 2 ^ 63 \<longrightarrow> authRequestModelFromRow row = ar)"
    using stored by (intro exI [of _ ?row]) simp
qed

definition exampleOidc :: OidcAuthRequest where
  "exampleOidc = \<lparr>q_ClientID = ''app'', q_RedirectURI = ''https://a/cb'', q_Scopes = [''openid''], q_State = ''s'', q_Nonce = ''n'',
     q_CodeChallenge = ''ch'', q_CodeChallengeMethod = ''S256'', q_Prompt = [], q_MaxAge = Some 0\<rparr>"

theorem authorize_requires_pkce_witness:
  "(\<exists>ar w'. run_state (CreateAuthRequest exampleStorage exampleCtx exampleOidc) (exampleWorld emptyDb) = (Inr ar, w')
     \<and> am_ExpiresAt ar = 10 + 10 * minute \<and> am_Nonce ar = ''n'' \<and> length (auth_requests (w_db w')) = 1)
   \<and> (\<exists>e. run_state (CreateAuthRequest exampleStorage exampleCtx (exampleOidc\<lparr>q_CodeChallengeMethod := ''plain''\<rparr>)) (exampleWorld emptyDb)
        = (Inl e, exampleWorld emptyDb))"
proof -
  let ?w = "exampleWorld emptyDb" and ?plain = "exampleOidc\<lparr>q_CodeChallengeMethod := ''plain''\<rparr>"
  have "c_SkipPKCE c = False" if "ResolveClient exampleStorage ''app'' = Inr c" for c
  proof -
    show ?thesis using that
      by (auto simp: ResolveClient_def exampleStorage_def exampleRegistry_def exampleEntry_def Resolve_def CoreResolver_def NewRegistry_def IsCIMDClientID_def
          modelOfEntry_def split: sum.splits if_splits)
  qed
  then have "authorizable exampleStorage exampleCtx exampleOidc" "\<not> authorizable exampleStorage exampleCtx ?plain"
    by (auto simp: authorizable_def exampleOidc_def coreResourceBindingPolicy_def ResourceFromContext_def exampleCtx_def goTrimSpace_def split: sum.splits)
  moreover have "healthy ?w" "w_tx ?w = None" "auth_requests (w_db ?w) = []" "w_now ?w = 10" by (simp_all add: healthy_def emptyDb_def)
  ultimately show ?thesis
    using authorize_requires_pkce [of exampleStorage exampleCtx exampleOidc ?w] authorize_requires_pkce [of exampleStorage exampleCtx ?plain ?w]
    by (fastforce simp: exampleOidc_def)
qed

section \<open>The code exchange\<close>

text \<open>The account a lookup by id returns.\<close>

definition fullUserIn :: "Storage \<Rightarrow> dbs \<Rightarrow> UserRow \<Rightarrow> User \<Rightarrow> bool" where
  "fullUserIn st d urow u \<longleftrightarrow> urow \<in> set (users d) \<and> (\<exists>email name. resolveUser st urow = Inr (email, name)
     \<and> u = (buildFullUser (us_ID urow) email (us_EmailVerified urow) name (us_Status urow) (us_CreatedAt urow) (us_UpdatedAt urow))
             \<lparr>u_HostedDomain := hostedDomainOf d (us_ID urow)\<rparr>)"

lemma GetUserByID_Inr:
  assumes "run_state (GetUserByID st uid) w = (Inr u, w')"
  shows "w_db w' = w_db w" "\<exists>urow. fullUserIn st (w_db w) urow u \<and> us_ID urow = uid"
proof -
  from assms obtain urow hdom where e: "run_state (exec DBc (GetUserRowByID uid)) w = (Inr (urow, hdom), w')"
    and f: "run_state (fullUserOf st urow hdom) w' = (Inr u, w')"
    by (auto simp: GetUserByID_def run_attemptOr notFoundOr_def fullUserOf_def run_attempt split: prod.splits sum.splits if_splits)
  from exec_DB_Inr [OF e] have q: "fst (GetUserRowByID uid (w_db w)) = Inr (urow, hdom)" "w_db w' = w_db w"
    by (simp_all add: GetUserRowByID_def split: sum.splits)
  then show "w_db w' = w_db w" by simp
  from q(1) have "one_row (\<lambda>u. us_ID u = uid) (users (w_db w)) = Inr urow" "hdom = hostedDomainOf (w_db w) uid"
    by (auto simp: GetUserRowByID_def split: sum.splits)
  with one_row_Inr f show "\<exists>urow. fullUserIn st (w_db w) urow u \<and> us_ID urow = uid"
    by (force simp: fullUserOf_def run_attempt fullUserIn_def split: sum.splits prod.splits)
qed

lemma enforce_Inr:
  "run_state (enforceStaticClientAccess st ctx acc cid ch u) w = (Inr (), w') \<Longrightarrow> Evaluate acc (AccessSubject u) = Allow \<and> w' = w"
  by (auto simp: enforceStaticClientAccess_def run_attempt split: Decision.splits prod.splits sum.splits)

lemma AuthRequestByCode_Inr:
  assumes "run_state (AuthRequestByCode st ctx code) w = (Inr ar, w')"
  shows "\<exists>h row. codeAtRest st code = Inr h \<and> row \<in> set (auth_requests (w_db w)) \<and> ar_Code row = Some h
    \<and> ar = (authRequestModelFromRow row)\<lparr>am_Code := Some code\<rparr> \<and> w_now w \<le> ar_ExpiresAt row
    \<and> ValidateTokenRequest (s_resourcePolicy st) (ar_ClientID row) (coalesce (ar_Resource row)) (ResourceFromContext ctx) = None
    \<and> (let access = StaticAccess (s_registry st) (ar_ClientID row); subject = coalesce (ar_Subject row) in
       (s_stateChecker st \<noteq> None \<or> Restricted access) \<and> subject \<noteq> '''' \<longrightarrow>
         (\<exists>urow u. fullUserIn st (w_db w) urow u \<and> us_ID urow = subject \<and> runStateChecker st u = None
            \<and> Evaluate access (AccessSubject u) = Allow))"
proof -
  from assms obtain h row w1 where h: "codeAtRest st code = Inr h"
    and e: "run_state (exec DBc (GetAuthRequestByCode h)) w = (Inr row, w1)"
    by (auto simp: AuthRequestByCode_def run_attempt run_attemptOr notFoundOr_def split: sum.splits prod.splits if_splits)
  from exec_DB_Inr [OF e] have row: "row \<in> set (auth_requests (w_db w))" "ar_Code row = Some h"
    and w1: "w_db w1 = w_db w" "w_now w1 = w_now w"
    by (auto simp: GetAuthRequestByCode_def dest: one_row_Inr)
  let ?ar = "(authRequestModelFromRow row)\<lparr>am_Code := Some code\<rparr>"
  have f: "am_ClientID ?ar = ar_ClientID row" "am_Resource ?ar = coalesce (ar_Resource row)" "am_Subject ?ar = ar_Subject row"
    "am_ExpiresAt ?ar = ar_ExpiresAt row" by (simp_all add: authRequestModelFromRow_def)
  let ?access = "StaticAccess (s_registry st) (ar_ClientID row)"
  from assms h e w1 f have c: "w_now w \<le> ar_ExpiresAt row"
    "ValidateTokenRequest (s_resourcePolicy st) (ar_ClientID row) (coalesce (ar_Resource row)) (ResourceFromContext ctx) = None"
    by (auto simp: AuthRequestByCode_def run_attempt run_attemptOr Let_def not_less split: if_splits option.splits)
  show ?thesis
  proof (cases "(s_stateChecker st \<noteq> None \<or> Restricted ?access) \<and> ar_Subject row \<noteq> None \<and> ar_Subject row \<noteq> Some ''''")
    case False
    with assms h e w1 f c have "ar = ?ar"
      by (auto simp: AuthRequestByCode_def run_attempt run_attemptOr Let_def split: if_splits)
    moreover have "\<not> ((s_stateChecker st \<noteq> None \<or> Restricted ?access) \<and> coalesce (ar_Subject row) \<noteq> '''')"
      using False by (auto simp: coalesce_def split: option.splits)
    ultimately show ?thesis using h row c by (auto simp: Let_def)
  next
    case True
    with assms h e w1 f c obtain u w2 w3 where "ar = ?ar"
      and g: "run_state (GetUserByID st (authGetSubject ?ar)) w1 = (Inr u, w2)" and chk: "runStateChecker st u = None"
      and a: "run_state (enforceStaticClientAccess st ctx ?access (ar_ClientID row)
        (StaticLoginChannel (s_registry st) (ar_ClientID row)) u) w2 = (Inr (), w3)"
      by (auto simp: AuthRequestByCode_def run_attempt run_attemptOr Let_def split: if_splits option.splits sum.splits prod.splits)
    moreover have "authGetSubject ?ar = coalesce (ar_Subject row)"
      by (simp add: authGetSubject_def f coalesce_def)
    ultimately show ?thesis using GetUserByID_Inr [OF g] enforce_Inr [OF a] h row c w1 by (auto simp: Let_def)
  qed
qed

text \<open>C9: What the exchange of a code re-checks: an answer is the stored request with this code, not
  expired, with the resource it was granted for; where the server restricts accounts, the subject's
  account exists, passes the state checker and is admitted by the client's policy at this moment.\<close>

theorem code_exchange_rechecks:
  assumes "run_state (AuthRequestByCode st ctx code) w = (Inr ar, w')"
  shows "\<exists>h row. codeAtRest st code = Inr h \<and> row \<in> set (auth_requests (w_db w)) \<and> ar_Code row = Some h
    \<and> ar = (authRequestModelFromRow row)\<lparr>am_Code := Some code\<rparr> \<and> w_now w \<le> ar_ExpiresAt row
    \<and> ValidateTokenRequest (s_resourcePolicy st) (ar_ClientID row) (coalesce (ar_Resource row)) (ResourceFromContext ctx) = None
    \<and> (let access = StaticAccess (s_registry st) (ar_ClientID row); subject = coalesce (ar_Subject row) in
       (s_stateChecker st \<noteq> None \<or> Restricted access) \<and> subject \<noteq> '''' \<longrightarrow>
         (\<exists>urow u. fullUserIn st (w_db w) urow u \<and> us_ID urow = subject \<and> runStateChecker st u = None
            \<and> Evaluate access (AccessSubject u) = Allow))"
  using assms by (rule AuthRequestByCode_Inr)

theorem code_exchange_rechecks_witness:
  "\<exists>ar w'. run_state (AuthRequestByCode exampleStorage exampleCtx ''code'') (exampleWorld (exampleDb\<lparr>auth_requests := [exampleRequest]\<rparr>)) = (Inr ar, w')
     \<and> am_Code ar = Some ''code''"
proof -
  let ?w = "exampleWorld (exampleDb\<lparr>auth_requests := [exampleRequest]\<rparr>)"
  have "\<exists>ar w'. run_state (AuthRequestByCode exampleStorage exampleCtx ''code'') ?w = (Inr ar, w')"
    by (simp add: AuthRequestByCode_def run_attempt run_attemptOr codeAtRest_def GetAuthRequestByCode_def one_row_def Let_def
          authRequestModelFromRow_def exampleApp_open Restricted_def coreResourceBindingPolicy_def coreValidateTokenRequest_def ResourceFromContext_def
          exampleCtx_def goTrimSpace_def coalesce_def exampleRequest_def)
  then obtain ar w' where r: "run_state (AuthRequestByCode exampleStorage exampleCtx ''code'') ?w = (Inr ar, w')" by blast
  from code_exchange_rechecks [OF r] r show ?thesis by auto
qed

section \<open>Completion\<close>

text \<open>C16: A login completes a request exactly when its row exists and expires after the
  authentication time it records, which is the session's for a reused session and the clock's for a
  fresh login; otherwise nothing changes and the request is reported as not found.\<close>

theorem complete_request_exact:
  assumes "healthy w" "w_tx w = None" "t' = (if timeIsZero t then w_now w else t)"
  shows "run_state (CompleteAuthRequest st rid uid t) w =
    (if \<exists>r \<in> set (auth_requests (w_db w)). ar_ID r = rid \<and> t' < ar_ExpiresAt r
     then (Inr (), w\<lparr>w_db := (w_db w)\<lparr>auth_requests := upd_where (\<lambda>r. ar_ID r = rid \<and> t' < ar_ExpiresAt r)
             (\<lambda>r. r\<lparr>ar_Subject := Some uid, ar_AuthTime := Some t', ar_Done := True\<rparr>) (auth_requests (w_db w))\<rparr>\<rparr>)
     else (Inl ErrNotFound, w))"
proof (cases "\<exists>r \<in> set (auth_requests (w_db w)). ar_ID r = rid \<and> t' < ar_ExpiresAt r")
  case True
  then have "count_where (\<lambda>a. ar_ID a = rid \<and> t' < ar_ExpiresAt a) (auth_requests (w_db w)) \<noteq> 0"
    by (auto simp: count_where_eq_0_iff)
  with True assms show ?thesis by (simp add: healthy_def CompleteAuthRequest_def Let_def run_attempt CompleteAuthRequestByID_def)
next
  case False
  then have "count_where (\<lambda>a. ar_ID a = rid \<and> t' < ar_ExpiresAt a) (auth_requests (w_db w)) = 0"
    and "upd_where (\<lambda>a. ar_ID a = rid \<and> t' < ar_ExpiresAt a) f (auth_requests (w_db w)) = auth_requests (w_db w)" for f
    by (auto simp: count_where_eq_0_iff intro: upd_where_no_match)
  with False assms show ?thesis by (auto simp: healthy_def CompleteAuthRequest_def Let_def run_attempt CompleteAuthRequestByID_def)
qed

theorem complete_request_exact_witness:
  "fst (run_state (CompleteAuthRequest exampleStorage ''req'' ''bob'' 0) (exampleWorld (exampleDb\<lparr>auth_requests := [exampleRequest]\<rparr>))) = Inr ()
   \<and> fst (run_state (CompleteAuthRequest exampleStorage ''req'' ''bob'' 0) (exampleWorld exampleDb)) = Inl ErrNotFound"
proof -
  have "healthy (exampleWorld d)" "w_tx (exampleWorld d) = None" for d by (simp_all add: healthy_def)
  note c = complete_request_exact [OF this refl]
  show ?thesis unfolding c by (simp add: timeIsZero_def)
qed

text \<open>The guard does not look at the clock: a request that expired before now (8, at 10) is completed
  by a session that authenticated earlier (5).\<close>

lemma expired_request_completed:
  "\<exists>r w'. run_state (CompleteAuthRequest exampleStorage ''req'' ''bob'' 5)
      (exampleWorld (exampleDb\<lparr>auth_requests := [exampleRequest\<lparr>ar_ExpiresAt := 8\<rparr>]\<rparr>)) = (Inr (), w')
    \<and> auth_requests (w_db w') = [r] \<and> ar_Done r \<and> ar_Subject r = Some ''bob'' \<and> ar_ExpiresAt r < w_now w'"
  by (simp add: CompleteAuthRequest_def Let_def run_attempt CompleteAuthRequestByID_def timeIsZero_def upd_where_def)

end
