(* ===== verification/Cleanup_Correct.thy ===== *)
theory Cleanup_Correct
  imports Cleanup Auth_Correct
begin

text \<open>
  The cleanup job: the batch loop of every delete ends and drains its table, an account is erased
  exactly when its deletion is due, and a run on a healthy database leaves exactly the data that
  the retention rules allow.
\<close>

section \<open>The batch loop\<close>

text \<open>What the batch loop needs of a delete statement: it removes at most \<open>b\<close> matching rows of one
  table and answers how many.\<close>

locale batch_delete =
  fixes q :: "nat \<Rightarrow> nat stmt" and P :: "'r \<Rightarrow> bool"
    and get :: "dbs \<Rightarrow> 'r list" and put :: "'r list \<Rightarrow> dbs \<Rightarrow> dbs"
  assumes stmt: "q b d = (Inr (min b (count_where P (get d))), put (del_limit b P (get d)) d)"
    and get_put: "get (put rs d) = rs"
    and put_put: "put rs (put rs' d) = put rs d"
    and put_get: "put (get d) d = d"
begin

lemma step:
  assumes "run_state (exec DBc (q b)) w = (Inr n, w')"
  shows "n = min b (count_where P (get (w_db w)))" "w_db w' = put (del_limit b P (get (w_db w))) (w_db w)"
  using exec_DB_Inr [OF assms] by (simp_all add: stmt)

lemma loop_ends: "b > 0 \<Longrightarrow> \<exists>r. batchLoop b (\<lambda>b. exec DBc (q b)) acc w = Some r"
proof (induction "count_where P (get (w_db w))" arbitrary: acc w rule: less_induct)
  case less
  obtain r w' where r: "run_state (exec DBc (q b)) w = (r, w')" by (cases "run_state (exec DBc (q b)) w")
  show ?case
  proof (cases r)
    case (Inl e)
    with r show ?thesis by (simp add: batchLoop.simps)
  next
    case (Inr n)
    note s = step [OF r [unfolded Inr]]
    show ?thesis
    proof (cases "n < b")
      case True
      with r Inr show ?thesis by (simp add: batchLoop.simps)
    next
      case False
      with s less.prems have "count_where P (get (w_db w')) < count_where P (get (w_db w))"
        by (simp add: get_put count_del_limit)
      from less.hyps [OF this less.prems] False r Inr show ?thesis by (subst batchLoop.simps) simp
    qed
  qed
qed

lemma ends: "b > 0 \<Longrightarrow> \<exists>r. deleteInBatches b (\<lambda>b. exec DBc (q b)) w = Some r"
  unfolding deleteInBatches_def by (rule loop_ends)

lemma loop_drains:
  assumes "b > 0" "healthy w" "w_tx w = None"
  shows "batchLoop b (\<lambda>b. exec DBc (q b)) acc w =
    Some ((acc + count_where P (get (w_db w)), None), w\<lparr>w_db := put (del_where P (get (w_db w))) (w_db w)\<rparr>)"
  using assms(2,3)
proof (induction "count_where P (get (w_db w))" arbitrary: acc w rule: less_induct)
  case less
  let ?c = "count_where P (get (w_db w))"
  let ?w = "w\<lparr>w_db := put (del_limit b P (get (w_db w))) (w_db w)\<rparr>"
  have e: "run_state (exec DBc (q b)) w = (Inr (min b ?c), ?w)"
    using less.prems by (simp add: healthy_def stmt)
  show ?case
  proof (cases "?c < b")
    case True
    then have "del_limit b P (get (w_db w)) = del_where P (get (w_db w))" by (simp add: del_limit_all)
    with True e show ?thesis by (simp add: batchLoop.simps min_absorb2)
  next
    case False
    with assms(1) have "count_where P (get (w_db ?w)) < ?c" by (simp add: get_put count_del_limit)
    from less.hyps [OF this] less.prems False e show ?thesis
      by (subst batchLoop.simps)
         (simp add: healthy_def get_put put_put count_del_limit del_limit_del_where min_absorb1)
  qed
qed

lemma drains:
  assumes "b > 0" "healthy w" "w_tx w = None"
  shows "deleteInBatches b (\<lambda>b. exec DBc (q b)) w =
    Some ((count_where P (get (w_db w)), None), w\<lparr>w_db := put (del_where P (get (w_db w))) (w_db w)\<rparr>)"
  using loop_drains [OF assms, of 0] by (simp add: deleteInBatches_def)

text \<open>With any outcomes of the statements, only matching rows go.\<close>

lemma exec_rows:
  assumes "run_state (exec DBc (q b)) w = (r, w')" "w_tx w = None"
  shows "w_db w' = w_db w \<or> w_db w' = put (del_limit b P (get (w_db w))) (w_db w)" "w_tx w' = None"
proof -
  obtain out w1 where n: "nextOutcome w = (out, w1)" by (cases "nextOutcome w")
  show "w_db w' = w_db w \<or> w_db w' = put (del_limit b P (get (w_db w))) (w_db w)" "w_tx w' = None"
    using assms n nextOutcome_frame [OF n] by (cases out; auto simp: exec_def stmt)+
qed

end

interpretation revokedTokens: batch_delete "\<lambda>b. DeleteRevokedRefreshTokensBefore cutoff b" "revokedBefore cutoff"
    refresh_tokens "\<lambda>rs. refresh_tokens_update (\<lambda>_. rs)" for cutoff
  by unfold_locales (simp_all add: DeleteRevokedRefreshTokensBefore_def)

interpretation expiredTokens: batch_delete "\<lambda>b. DeleteExpiredRefreshTokensBefore cutoff b" "\<lambda>t. rt_ExpiresAt t < cutoff"
    refresh_tokens "\<lambda>rs. refresh_tokens_update (\<lambda>_. rs)" for cutoff
  by unfold_locales (simp_all add: DeleteExpiredRefreshTokensBefore_def)

interpretation deadSessions: batch_delete "\<lambda>b. DeleteExpiredOrRevokedSessions cutoff b" "deadSession cutoff"
    sessions "\<lambda>rs. sessions_update (\<lambda>_. rs)" for cutoff
  by unfold_locales (simp_all add: DeleteExpiredOrRevokedSessions_def)

interpretation expiredRequests: batch_delete "\<lambda>b. DeleteExpiredAuthRequestsBefore cutoff b" "\<lambda>a. ar_ExpiresAt a < cutoff"
    auth_requests "\<lambda>rs. auth_requests_update (\<lambda>_. rs)" for cutoff
  by unfold_locales (simp_all add: DeleteExpiredAuthRequestsBefore_def)

interpretation expiredCodes: batch_delete "\<lambda>b. DeleteExpiredDeviceCodesBefore cutoff b" "\<lambda>c. dc_ExpiresAt c < cutoff"
    device_codes "\<lambda>rs. device_codes_update (\<lambda>_. rs)" for cutoff
  by unfold_locales (simp_all add: DeleteExpiredDeviceCodesBefore_def)

interpretation staleFamilies: batch_delete "\<lambda>b. DeleteStaleRefreshTokenFamiliesBefore cutoff b" "\<lambda>f. rf_RevokedAt f < cutoff"
    refresh_token_families "\<lambda>rs. refresh_token_families_update (\<lambda>_. rs)" for cutoff
  by unfold_locales (simp_all add: DeleteStaleRefreshTokenFamiliesBefore_def)

lemmas runner_defs = runnerDeleteRevokedRefreshTokensBefore_def runnerDeleteExpiredRefreshTokensBefore_def
  runnerDeleteExpiredOrRevokedSessions_def runnerDeleteExpiredAuthRequestsBefore_def
  runnerDeleteExpiredDeviceCodesBefore_def runnerDeleteStaleRefreshTokenFamiliesBefore_def

lemmas all_end = revokedTokens.ends expiredTokens.ends deadSessions.ends expiredRequests.ends expiredCodes.ends staleFamilies.ends

lemmas all_drain = revokedTokens.drains expiredTokens.drains deadSessions.drains expiredRequests.drains
  expiredCodes.drains staleFamilies.drains

section \<open>Erasing an account\<close>

text \<open>What the transaction of \<open>DeleteUser\<close> does to the database, and the audit row after it.\<close>

definition eraseUser :: "string \<Rightarrow> time \<Rightarrow> dbs \<Rightarrow> dbs" where
  "eraseUser uid now d =
     (if list_ex (deletable uid now) (users d) then
        snd (InsertDeletionCompletedAudit uid ''pending_deletion_expired'' now
          (d\<lparr>users := upd_where (deletable uid now) (redactUser now) (users d),
             user_identities := del_where (\<lambda>i. ui_UserID i = uid) (user_identities d),
             sessions := del_where (\<lambda>s. se_UserID s = uid) (sessions d),
             refresh_tokens := del_where (\<lambda>t. rt_UserID t = uid) (refresh_tokens d),
             audit_log := audit_log (snd (RedactAuditLogPIIRows uid d))\<rparr>))
      else d)"

lemma run_DeleteUser:
  assumes "healthy w" "w_tx w = None"
  shows "run_state (DeleteUser uid now None) w = (Inr (), w\<lparr>w_db := eraseUser uid now (w_db w)\<rparr>)"
proof (cases "list_ex (deletable uid now) (users (w_db w))")
  case True
  then have "count_where (deletable uid now) (users (w_db w)) \<noteq> 0" by (auto simp: count_where_eq_0_iff list_ex_iff)
  with True assms show ?thesis
    by (simp add: healthy_def DeleteUser_def run_withTx run_attempt run_attemptOr MarkUserDeletedByID_def
          DeleteUserIdentitiesByUserID_def DeleteSessionsByUserID_def DeleteRefreshTokensByUserID_def
          RedactAuditLogPIIRows_def Let_def eraseUser_def split: sum.splits)
next
  case False
  then have "count_where (deletable uid now) (users (w_db w)) = 0" by (auto simp: count_where_eq_0_iff list_ex_iff)
  with False assms show ?thesis
    by (simp add: healthy_def DeleteUser_def run_withTx run_attempt MarkUserDeletedByID_def eraseUser_def)
qed

lemma snd_DeletionAudit:
  "\<exists>rows. snd (InsertDeletionCompletedAudit uid reason now d) = d\<lparr>audit_log := audit_log d @ rows\<rparr>"
proof -
  have "snd (InsertDeletionCompletedAudit uid reason now d) = d
      \<or> (\<exists>row. snd (InsertDeletionCompletedAudit uid reason now d) = d\<lparr>audit_log := audit_log d @ [row]\<rparr>)"
    unfolding InsertDeletionCompletedAudit_def using snd_InsertAuditLog by blast
  then show ?thesis
  proof
    assume "snd (InsertDeletionCompletedAudit uid reason now d) = d"
    then have "snd (InsertDeletionCompletedAudit uid reason now d) = d\<lparr>audit_log := audit_log d @ []\<rparr>" by simp
    then show ?thesis by blast
  qed blast
qed

lemma eraseUser_tables:
  "users (eraseUser uid now d) = upd_where (deletable uid now) (redactUser now) (users d)"
  "list_ex (deletable uid now) (users d) \<Longrightarrow>
     user_identities (eraseUser uid now d) = del_where (\<lambda>i. ui_UserID i = uid) (user_identities d)"
  "list_ex (deletable uid now) (users d) \<Longrightarrow> sessions (eraseUser uid now d) = del_where (\<lambda>s. se_UserID s = uid) (sessions d)"
  "list_ex (deletable uid now) (users d) \<Longrightarrow>
     refresh_tokens (eraseUser uid now d) = del_where (\<lambda>t. rt_UserID t = uid) (refresh_tokens d)"
  "auth_requests (eraseUser uid now d) = auth_requests d" "device_codes (eraseUser uid now d) = device_codes d"
  "refresh_token_families (eraseUser uid now d) = refresh_token_families d"
  "crypto_key_epochs (eraseUser uid now d) = crypto_key_epochs d"
proof -
  let ?d = "d\<lparr>users := upd_where (deletable uid now) (redactUser now) (users d),
     user_identities := del_where (\<lambda>i. ui_UserID i = uid) (user_identities d),
     sessions := del_where (\<lambda>s. se_UserID s = uid) (sessions d),
     refresh_tokens := del_where (\<lambda>t. rt_UserID t = uid) (refresh_tokens d),
     audit_log := audit_log (snd (RedactAuditLogPIIRows uid d))\<rparr>"
  obtain rows where r: "snd (InsertDeletionCompletedAudit uid ''pending_deletion_expired'' now ?d) = ?d\<lparr>audit_log := audit_log ?d @ rows\<rparr>"
    using snd_DeletionAudit by blast
  have no: "upd_where (deletable uid now) (redactUser now) (users d) = users d" if "\<not> list_ex (deletable uid now) (users d)"
    using that by (intro upd_where_no_match) (auto simp: list_ex_iff)
  show "users (eraseUser uid now d) = upd_where (deletable uid now) (redactUser now) (users d)"
    "auth_requests (eraseUser uid now d) = auth_requests d" "device_codes (eraseUser uid now d) = device_codes d"
    "refresh_token_families (eraseUser uid now d) = refresh_token_families d"
    "crypto_key_epochs (eraseUser uid now d) = crypto_key_epochs d"
    unfolding eraseUser_def r by (simp_all add: no)
  assume "list_ex (deletable uid now) (users d)"
  then show "user_identities (eraseUser uid now d) = del_where (\<lambda>i. ui_UserID i = uid) (user_identities d)"
    "sessions (eraseUser uid now d) = del_where (\<lambda>s. se_UserID s = uid) (sessions d)"
    "refresh_tokens (eraseUser uid now d) = del_where (\<lambda>t. rt_UserID t = uid) (refresh_tokens d)"
    unfolding eraseUser_def r by simp_all
qed

section \<open>The deletion job\<close>

lemma run_deleteUsers:
  "healthy w \<Longrightarrow> w_tx w = None \<Longrightarrow>
   deleteUsers None now ids errs w = (errs, w\<lparr>w_db := fold (\<lambda>u. eraseUser u now) ids (w_db w)\<rparr>)"
proof (induction ids arbitrary: w)
  case (Cons u us)
  then have "healthy (w\<lparr>w_db := eraseUser u now (w_db w)\<rparr>)" by (simp add: healthy_def)
  with Cons show ?case by (simp add: run_DeleteUser)
qed simp

lemma upd_where_upd_where:
  "(\<And>r. Q r \<Longrightarrow> \<not> P (f r)) \<Longrightarrow> upd_where P f (upd_where Q f rs) = upd_where (\<lambda>r. P r \<or> Q r) f rs"
  by (induction rs) (auto simp: upd_where_def)

lemma del_where_del_where: "del_where P (del_where Q rs) = del_where (\<lambda>r. P r \<or> Q r) rs"
  by (auto simp: del_where_def intro: filter_cong)

lemma list_ex_upd_other:
  "(\<And>r. Q r \<Longrightarrow> \<not> P r) \<Longrightarrow> list_ex P rs \<Longrightarrow> list_ex P (upd_where Q f rs)"
  by (induction rs) (auto simp: upd_where_def)

lemma eraseUser_others_due:
  "y \<noteq> x \<Longrightarrow> list_ex (deletable y now) (users d) \<Longrightarrow> list_ex (deletable y now) (users (eraseUser x now d))"
  unfolding eraseUser_tables(1) by (rule list_ex_upd_other) (auto simp: deletable_def)

text \<open>Erasing the due accounts one after the other, table by table.\<close>

lemma fold_eraseUser:
  assumes "distinct ids" "\<And>x. x \<in> set ids \<Longrightarrow> list_ex (deletable x now) (users d)"
  shows "users (fold (\<lambda>u. eraseUser u now) ids d)
      = upd_where (\<lambda>u. us_ID u \<in> set ids \<and> deletable (us_ID u) now u) (redactUser now) (users d)
    \<and> user_identities (fold (\<lambda>u. eraseUser u now) ids d) = del_where (\<lambda>i. ui_UserID i \<in> set ids) (user_identities d)
    \<and> sessions (fold (\<lambda>u. eraseUser u now) ids d) = del_where (\<lambda>s. se_UserID s \<in> set ids) (sessions d)
    \<and> refresh_tokens (fold (\<lambda>u. eraseUser u now) ids d) = del_where (\<lambda>t. rt_UserID t \<in> set ids) (refresh_tokens d)"
  using assms
proof (induction ids arbitrary: d)
  case Nil
  then show ?case by (simp add: upd_where_no_match) (simp add: del_where_def)
next
  case (Cons x xs)
  let ?d = "eraseUser x now d"
  have ex: "list_ex (deletable x now) (users d)" using Cons.prems by simp
  have "list_ex (deletable y now) (users ?d)" if "y \<in> set xs" for y
    using that Cons.prems by (intro eraseUser_others_due) auto
  note IH = Cons.IH [OF _ this]
  have red: "\<not> (us_ID (redactUser now u) \<in> set xs \<and> deletable (us_ID (redactUser now u)) now (redactUser now u))" for u
    by (simp add: deletable_def redactUser_def)
  have "(\<lambda>u. us_ID u \<in> set xs \<and> deletable (us_ID u) now u \<or> deletable x now u)
      = (\<lambda>u. us_ID u \<in> set (x # xs) \<and> deletable (us_ID u) now u)" by (auto simp: deletable_def)
  then have "upd_where (\<lambda>u. us_ID u \<in> set xs \<and> deletable (us_ID u) now u) (redactUser now) (users ?d)
      = upd_where (\<lambda>u. us_ID u \<in> set (x # xs) \<and> deletable (us_ID u) now u) (redactUser now) (users d)"
    unfolding eraseUser_tables(1) using red by (subst upd_where_upd_where) auto
  with IH Cons.prems(1) ex show ?case
    by (simp add: eraseUser_tables(2-4) del_where_del_where disj_commute)
qed

lemma fold_eraseUser_frame:
  "auth_requests (fold (\<lambda>u. eraseUser u now) ids d) = auth_requests d
   \<and> device_codes (fold (\<lambda>u. eraseUser u now) ids d) = device_codes d
   \<and> refresh_token_families (fold (\<lambda>u. eraseUser u now) ids d) = refresh_token_families d
   \<and> crypto_key_epochs (fold (\<lambda>u. eraseUser u now) ids d) = crypto_key_epochs d"
  by (induction ids arbitrary: d) (simp_all add: eraseUser_tables)

text \<open>
  The audit log of the erased accounts: their rows lose address and user agent, and every erased
  account gets a record of its deletion.
\<close>

definition forgetOrigin :: "string list \<Rightarrow> AuditLog \<Rightarrow> AuditLog" where
  "forgetOrigin ids a =
     (case al_UserID a of
        Some u \<Rightarrow> if u \<noteq> '''' \<and> u \<in> set ids then a\<lparr>al_IpAddress := None, al_UserAgent := None\<rparr> else a
      | None \<Rightarrow> a)"

definition deletionRecord :: "time \<Rightarrow> string \<Rightarrow> AuditLog" where
  "deletionRecord now uid =
     \<lparr>al_UserID = (if uid = '''' then None else Some uid), al_EventType = ''auth.deletion_completed'', al_IpAddress = None,
      al_UserAgent = None, al_Metadata = Some [(''reason'', JStr ''pending_deletion_expired'')], al_CreatedAt = now\<rparr>"

lemma forgetOrigin_simps [simp]:
  "forgetOrigin [] = (\<lambda>a. a)"
  "forgetOrigin xs (forgetOrigin [x] a) = forgetOrigin (x # xs) a"
  "forgetOrigin ids (deletionRecord now uid) = deletionRecord now uid"
  by (auto simp: forgetOrigin_def deletionRecord_def fun_eq_iff split: option.split)

lemma redact_forgets: "audit_log (snd (RedactAuditLogPIIRows uid d)) = map (forgetOrigin [uid]) (audit_log d)"
proof -
  have "(if nullIf uid \<noteq> None \<and> al_UserID a = nullIf uid \<and> (al_IpAddress a \<noteq> None \<or> al_UserAgent a \<noteq> None)
         then a\<lparr>al_IpAddress := None, al_UserAgent := None\<rparr> else a) = forgetOrigin [uid] a" for a :: AuditLog
    by (cases a) (auto simp: forgetOrigin_def nullIf_def split: option.split)
  then show ?thesis by (simp add: RedactAuditLogPIIRows_def Let_def upd_where_def)
qed

lemma eraseUser_audit:
  assumes "list_ex (deletable uid now) (users d)"
  shows "audit_log (eraseUser uid now d) = map (forgetOrigin [uid]) (audit_log d) @ [deletionRecord now uid]"
proof -
  have "list_ex (\<lambda>u. us_ID u = uid) (upd_where (deletable uid now) (redactUser now) us)"
    if "list_ex (deletable uid now) us" for us
    using that by (induction us) (auto simp: upd_where_def deletable_def redactUser_def)
  with assms show ?thesis
    by (simp add: eraseUser_def InsertDeletionCompletedAudit_def InsertAuditLog_def userExists_def nullIf_def
          redact_forgets deletionRecord_def)
qed

lemma fold_eraseUser_audit:
  "distinct ids \<Longrightarrow> (\<And>x. x \<in> set ids \<Longrightarrow> list_ex (deletable x now) (users d)) \<Longrightarrow>
   audit_log (fold (\<lambda>u. eraseUser u now) ids d) = map (forgetOrigin ids) (audit_log d) @ map (deletionRecord now) ids"
proof (induction ids arbitrary: d)
  case (Cons x xs)
  have "list_ex (deletable y now) (users (eraseUser x now d))" if "y \<in> set xs" for y
    using that Cons.prems by (intro eraseUser_others_due) auto
  with Cons show ?case by (simp add: eraseUser_audit comp_def)
qed simp

section \<open>A whole run\<close>

text \<open>The accounts whose deletion is due.\<close>

definition dueUsers :: "time \<Rightarrow> dbs \<Rightarrow> string list" where
  "dueUsers now d = map us_ID (filter (\<lambda>u. us_Status u = ''pending_deletion'' \<and> before (us_DeletionScheduledAt u) now) (users d))"

lemma run_runJobs_Cons:
  "j w = Some (e, w') \<Longrightarrow> runJobs (j # js) w = map_option (\<lambda>(e2, w2). (e @ e2, w2)) (runJobs js w')"
  by (simp split: option.splits)

lemma cleanup_total: "cs_batch c > 0 \<Longrightarrow> \<exists>r. runAllLocked c w = Some r"
proof -
  assume b: "cs_batch c > 0"
  have ends: "\<exists>r. runJobs js v = Some r" if "\<And>j u. j \<in> set js \<Longrightarrow> \<exists>r. j u = Some r" for js v
    using that
  proof (induction js arbitrary: v)
    case (Cons j js)
    then obtain e v' where "j v = Some (e, v')" by force
    moreover obtain r where "runJobs js v' = Some r" using Cons by force
    ultimately show ?case by (cases r) simp
  qed simp
  have batch: "\<exists>x y. batchJob m u = Some (x, y)" if "\<exists>r. m u = Some r" for m u
    using that by (force simp: batchJob_def)
  have "\<exists>r. j u = Some r" if "j \<in> set (cleanupJobs c now)" for j u now
    using that b unfolding cleanupJobs_def runner_defs
    by (auto intro!: batch all_end simp: actJob_def deletionJob_def split: prod.splits sum.splits)
  then show ?thesis unfolding runAllLocked_def by (intro ends) blast
qed

lemma healthy_db [simp]: "healthy (w\<lparr>w_db := d\<rparr>) = healthy w"
  by (simp add: healthy_def)

lemma run_deletionJob:
  "healthy w \<Longrightarrow> w_tx w = None \<Longrightarrow>
   deletionJob None now w = Some ([], w\<lparr>w_db := fold (\<lambda>u. eraseUser u now) (dueUsers now (w_db w)) (w_db w)\<rparr>)"
  by (simp add: deletionJob_def run_deleteUsers dueUsers_def ListPendingDeletionUserIDsBefore_def healthy_def [symmetric])

text \<open>The database after a run, job by job.\<close>

definition cleaned :: "CleanupService \<Rightarrow> time \<Rightarrow> dbs \<Rightarrow> dbs" where
  "cleaned c now d =
     (let d1 = d\<lparr>refresh_tokens := del_where (\<lambda>t. rt_ExpiresAt t < now - expiredRefreshRetention)
                  (del_where (revokedBefore (now - revokedRefreshRetention)) (refresh_tokens d)),
                 sessions := del_where (deadSession now) (sessions d),
                 auth_requests := del_where (\<lambda>a. ar_ExpiresAt a < now - hour) (auth_requests d),
                 device_codes := del_where (\<lambda>x. dc_ExpiresAt x < now - hour) (device_codes d)\<rparr>;
          d2 = fold (\<lambda>u. eraseUser u now) (dueUsers now d) d1;
          d3 = d2\<lparr>refresh_token_families := del_where (\<lambda>f. rf_RevokedAt f < now - (cs_refreshTokenTTL c + familyTombstoneMargin))
                    (refresh_token_families d2)\<rparr>
      in snd (AnonymizeAuditLogBefore True (now - cs_adminAuditPIIRetention c)
           (snd (AnonymizeAuditLogBefore False (now - cs_auditPIIRetention c) d3))))"

lemma run_cleanup:
  assumes "healthy w" "w_tx w = None" "cs_batch c > 0" "cs_deleteUserHook c = None"
  shows "runAllLocked c w = Some ([], w\<lparr>w_db := cleaned c (w_now w) (w_db w)\<rparr>)"
  using assms
  by (simp add: runAllLocked_def cleanupJobs_def runner_defs batchJob_def all_drain run_deletionJob actJob_def Let_def cleaned_def
        run_exec_DB_healthy [folded healthy_def] AnonymizeAuditLogBefore_def dueUsers_def)

lemma cleaned_tables:
  assumes "keys_wf d"
  shows "users (cleaned c now d) = upd_where (\<lambda>u. deletable (us_ID u) now u) (redactUser now) (users d)
    \<and> user_identities (cleaned c now d) = del_where (\<lambda>i. ui_UserID i \<in> set (dueUsers now d)) (user_identities d)
    \<and> sessions (cleaned c now d) = del_where (\<lambda>s. se_UserID s \<in> set (dueUsers now d) \<or> deadSession now s) (sessions d)
    \<and> refresh_tokens (cleaned c now d) = del_where (\<lambda>t. rt_UserID t \<in> set (dueUsers now d)
          \<or> rt_ExpiresAt t < now - expiredRefreshRetention \<or> revokedBefore (now - revokedRefreshRetention) t) (refresh_tokens d)
    \<and> auth_requests (cleaned c now d) = del_where (\<lambda>a. ar_ExpiresAt a < now - hour) (auth_requests d)
    \<and> device_codes (cleaned c now d) = del_where (\<lambda>x. dc_ExpiresAt x < now - hour) (device_codes d)
    \<and> refresh_token_families (cleaned c now d)
        = del_where (\<lambda>f. rf_RevokedAt f < now - (cs_refreshTokenTTL c + familyTombstoneMargin)) (refresh_token_families d)
    \<and> crypto_key_epochs (cleaned c now d) = crypto_key_epochs d"
proof -
  let ?ids = "dueUsers now d"
  let ?d1 = "d\<lparr>refresh_tokens := del_where (\<lambda>t. rt_ExpiresAt t < now - expiredRefreshRetention)
       (del_where (revokedBefore (now - revokedRefreshRetention)) (refresh_tokens d)),
     sessions := del_where (deadSession now) (sessions d),
     auth_requests := del_where (\<lambda>a. ar_ExpiresAt a < now - hour) (auth_requests d),
     device_codes := del_where (\<lambda>x. dc_ExpiresAt x < now - hour) (device_codes d)\<rparr>"
  have "distinct ?ids" using assms by (simp add: dueUsers_def keys_wf_def distinct_map_filter)
  moreover have "list_ex (deletable x now) (users ?d1)" if "x \<in> set ?ids" for x
    using that by (auto simp: dueUsers_def list_ex_iff deletable_def)
  ultimately have f: "users (fold (\<lambda>u. eraseUser u now) ?ids ?d1)
      = upd_where (\<lambda>u. us_ID u \<in> set ?ids \<and> deletable (us_ID u) now u) (redactUser now) (users ?d1)
    \<and> user_identities (fold (\<lambda>u. eraseUser u now) ?ids ?d1) = del_where (\<lambda>i. ui_UserID i \<in> set ?ids) (user_identities ?d1)
    \<and> sessions (fold (\<lambda>u. eraseUser u now) ?ids ?d1) = del_where (\<lambda>s. se_UserID s \<in> set ?ids) (sessions ?d1)
    \<and> refresh_tokens (fold (\<lambda>u. eraseUser u now) ?ids ?d1) = del_where (\<lambda>t. rt_UserID t \<in> set ?ids) (refresh_tokens ?d1)"
    by (rule fold_eraseUser)
  have "upd_where (\<lambda>u. us_ID u \<in> set ?ids \<and> deletable (us_ID u) now u) (redactUser now) (users d)
      = upd_where (\<lambda>u. deletable (us_ID u) now u) (redactUser now) (users d)"
    unfolding upd_where_def by (rule map_cong) (auto simp: dueUsers_def deletable_def)
  with f fold_eraseUser_frame [of now ?ids ?d1] show ?thesis
    by (simp add: cleaned_def Let_def AnonymizeAuditLogBefore_def del_where_del_where)
qed

text \<open>An audit row past its horizon, which is longer for the actions of operators, names nobody.\<close>

definition agedAudit :: "CleanupService \<Rightarrow> time \<Rightarrow> AuditLog \<Rightarrow> AuditLog" where
  "agedAudit c now a =
     (if al_CreatedAt a < now - (if goHasPrefix (al_EventType a) ''admin.'' then cs_adminAuditPIIRetention c else cs_auditPIIRetention c)
      then a\<lparr>al_UserID := None, al_IpAddress := None, al_UserAgent := None\<rparr> else a)"

lemma anonymize_ages:
  "audit_log (snd (AnonymizeAuditLogBefore True (now - cs_adminAuditPIIRetention c)
     (snd (AnonymizeAuditLogBefore False (now - cs_auditPIIRetention c) d)))) = map (agedAudit c now) (audit_log d)"
proof -
  have no: "a\<lparr>al_UserID := None, al_IpAddress := None, al_UserAgent := None\<rparr> = a" if "\<not> hasTrace a" for a :: AuditLog
    using that by (cases a) (simp add: hasTrace_def)
  show ?thesis
    by (auto simp: AnonymizeAuditLogBefore_def Let_def upd_where_def agedAudit_def anonymizeRow_def no)
qed

lemma cleaned_audit:
  assumes "keys_wf d"
  shows "audit_log (cleaned c now d)
    = map (agedAudit c now) (map (forgetOrigin (dueUsers now d)) (audit_log d) @ map (deletionRecord now) (dueUsers now d))"
proof -
  have "distinct (dueUsers now d)" using assms by (simp add: dueUsers_def keys_wf_def distinct_map_filter)
  then show ?thesis
    unfolding cleaned_def Let_def anonymize_ages
    by (simp, subst fold_eraseUser_audit) (auto simp: dueUsers_def list_ex_iff deletable_def)
qed

section \<open>Properties\<close>

lemma runAll_returns:
  assumes "cs_batch c > 0"
  shows "\<exists>w'. runAll c free released w = Some w'"
  using cleanup_total [OF assms]
  by (auto simp: runAll_def WithExclusiveLock_def split: prod.splits sum.splits option.splits) (metis option.distinct(1))

lemma startLoop_returns: "cs_batch c > 0 \<Longrightarrow> \<exists>w'. startLoop c events w = Some w'"
proof (induction c events w rule: startLoop.induct)
  case (3 c free released others events w)
  with runAll_returns [of c free released "others w"] show ?case by auto
qed auto

text \<open>C20: The cleanup never hangs, whatever the database answers and whatever the rest of the server does between its
  runs: every run ends, as each batch loop removes rows until its table is drained or a statement
  fails, so the service gets through every sequence of ticks and is back at waiting, or has stopped at
  the end of its context.\<close>

theorem cleanup_terminates:
  assumes "cs_batch c > 0"
  shows "(\<exists>w'. runAll c free released w = Some w') \<and> (\<exists>w'. Start c free released events w = Some w')"
  using runAll_returns [OF assms] startLoop_returns [OF assms] by (auto simp: Start_def Option.bind_eq_Some_conv) metis

theorem cleanup_terminates_witness:
  "\<exists>w'. Start NewCleanupService True True [Ticked True True (\<lambda>w. w), CtxDone] ((exampleWorld exampleDb)\<lparr>w_faults := [Fine, Fine, LostReply, Refused]\<rparr>) = Some w'"
  using cleanup_terminates [of NewCleanupService True True _ "[Ticked True True (\<lambda>w. w), CtxDone]"] by (simp add: NewCleanupService_def cleanupBatchSize_def)

text \<open>C21: Retention, exactly, table by table: after a run on a healthy database every account whose
  deletion is due is redacted (no ciphertext, no lookup hash, status deleted) and has no identity,
  session or refresh token left; sessions that ended, refresh tokens expired for a day or revoked for
  a week, requests and device codes expired for an hour and tombstones older than the refresh lifetime
  and a week are gone, and every other row is unchanged. The audit log loses no row: the rows of the
  erased accounts lose address and user agent, one record is added for each erased account, a row past
  the horizon of its kind names nobody, and every other row is unchanged. These are the horizons of the
  code; \<^verbatim>\<open>docs/spec/005\<close> and \<^verbatim>\<open>007\<close> keep refresh tokens for 30 days after expiry or revocation, where
  the code keeps them for a day and a week, and call tombstones permanent, which the code deletes.\<close>

theorem cleanup_retention:
  assumes "healthy w" "w_tx w = None" "cs_batch c > 0" "cs_deleteUserHook c = None" "keys_wf (w_db w)" "now = w_now w"
    and "runAll c True released w = Some w'"
  shows "users (w_db w') = upd_where (\<lambda>u. us_ID u \<in> set (dueUsers now (w_db w))) (redactUser now) (users (w_db w))
    \<and> user_identities (w_db w') = filter (\<lambda>i. ui_UserID i \<notin> set (dueUsers now (w_db w))) (user_identities (w_db w))
    \<and> sessions (w_db w') = filter (\<lambda>s. now \<le> se_ExpiresAt s \<and> se_RevokedAt s = None
          \<and> se_UserID s \<notin> set (dueUsers now (w_db w))) (sessions (w_db w))
    \<and> refresh_tokens (w_db w') = filter (\<lambda>t. now - day \<le> rt_ExpiresAt t \<and> \<not> before (rt_RevokedAt t) (now - 7 * day)
          \<and> rt_UserID t \<notin> set (dueUsers now (w_db w))) (refresh_tokens (w_db w))
    \<and> auth_requests (w_db w') = filter (\<lambda>a. now - hour \<le> ar_ExpiresAt a) (auth_requests (w_db w))
    \<and> device_codes (w_db w') = filter (\<lambda>x. now - hour \<le> dc_ExpiresAt x) (device_codes (w_db w))
    \<and> refresh_token_families (w_db w')
        = filter (\<lambda>f. now - (cs_refreshTokenTTL c + 7 * day) \<le> rf_RevokedAt f) (refresh_token_families (w_db w))
    \<and> audit_log (w_db w') = map (agedAudit c now)
          (map (forgetOrigin (dueUsers now (w_db w))) (audit_log (w_db w)) @ map (deletionRecord now) (dueUsers now (w_db w)))
    \<and> crypto_key_epochs (w_db w') = crypto_key_epochs (w_db w)"
proof -
  let ?d = "w_db w"
  have db: "w_db w' = cleaned c now ?d"
    using assms run_cleanup [OF assms(1-4)]
    by (auto simp: runAll_def WithExclusiveLock_def run_attempt healthy_def)
  have "upd_where (\<lambda>u. deletable (us_ID u) now u) (redactUser now) (users ?d)
      = upd_where (\<lambda>u. us_ID u \<in> set (dueUsers now ?d)) (redactUser now) (users ?d)"
    unfolding upd_where_def using assms(5)
    by (intro map_cong) (auto simp: dueUsers_def deletable_def keys_wf_def distinct_map inj_on_def)
  then show ?thesis
    using cleaned_tables [OF assms(5), of c now] unfolding db cleaned_audit [OF assms(5)]
    by (simp add: del_where_def deadSession_def revokedBefore_def expiredRefreshRetention_def revokedRefreshRetention_def
          familyTombstoneMargin_def not_less day_def conj_ac cong: filter_cong)
qed

lemma exampleWorld_db: "(exampleWorld d)\<lparr>w_db := e\<rparr> = exampleWorld e"
  by (simp add: exampleWorld_def)

theorem cleanup_retention_witness:
  "\<exists>w'. runAll NewCleanupService True True (exampleWorld (exampleDb\<lparr>users := [exampleUser\<lparr>us_Status := ''pending_deletion'',
       us_DeletionScheduledAt := Some 5\<rparr>]\<rparr>)) = Some w' \<and> refresh_tokens (w_db w') = []
     \<and> map us_Status (users (w_db w')) = [''deleted''] \<and> map us_EmailCiphertext (users (w_db w')) = [None]
     \<and> deletionRecord 10 ''alice'' \<in> set (audit_log (w_db w'))"
proof -
  let ?d = "exampleDb\<lparr>users := [exampleUser\<lparr>us_Status := ''pending_deletion'', us_DeletionScheduledAt := Some 5\<rparr>]\<rparr>"
  have "\<exists>r. runAllLocked NewCleanupService (exampleWorld ?d) = Some r"
    by (rule cleanup_total) (simp add: NewCleanupService_def cleanupBatchSize_def)
  then have "\<exists>w'. runAll NewCleanupService True True (exampleWorld ?d) = Some w'"
    by (auto simp: runAll_def WithExclusiveLock_def run_attempt exampleWorld_db split: prod.splits)
  then obtain w' where w': "runAll NewCleanupService True True (exampleWorld ?d) = Some w'" by blast
  have due: "dueUsers 10 ?d = [''alice'']" by (simp add: dueUsers_def before_def)
  have k: "keys_wf ?d" by (simp add: keys_wf_def)
  have "agedAudit NewCleanupService 10 (deletionRecord 10 ''alice'') = deletionRecord 10 ''alice''"
    by (simp add: agedAudit_def deletionRecord_def NewCleanupService_def defaultUserAuditPIIRetention_def
          defaultAdminAuditPIIRetention_def hour_def minute_def second_def)
  then show ?thesis
    using cleanup_retention [OF _ _ _ _ _ refl w'] w' due k
    by (simp add: healthy_def NewCleanupService_def cleanupBatchSize_def redactUser_def upd_where_def)
qed

end
