(* ===== verification/Login.thy ===== *)
theory Login
  imports Devices
begin

text \<open>
  The browser login service: \<^verbatim>\<open>service/login.go\<close>, \<^verbatim>\<open>login_callback.go\<close>, \<^verbatim>\<open>login_request.go\<close>,
  \<^verbatim>\<open>login_contract.go\<close>, \<^verbatim>\<open>prompt.go\<close>, \<^verbatim>\<open>client_access.go\<close>, \<^verbatim>\<open>access.go\<close> and \<^verbatim>\<open>audit_helper.go\<close>. A
  handler is an action whose result is the page to show; its \<^const>\<open>Inl\<close> is a panic, an error of a
  storage call is a case of the handler. \<^verbatim>\<open>time.Now()\<close> is the same clock the storage reads.
\<close>

section \<open>Access by status and channel\<close>

datatype AccessResult = AccessAllow | AccessRecover | AccessDeny

definition CheckAccess :: "string \<Rightarrow> string \<Rightarrow> AccessResult" where
  "CheckAccess status channel =
     (if status = ''disabled'' \<or> status = ''deleted'' then AccessDeny
      else if status = ''pending_deletion'' then (if channel = ''browser'' then AccessRecover else AccessDeny)
      else AccessAllow)"

definition IsActive :: "string \<Rightarrow> bool" where
  "IsActive status \<longleftrightarrow> status = ''active''"

text \<open>\<^verbatim>\<open>app/storage_wiring.go\<close>: the state checker the server installs.\<close>

definition newStateChecker :: "User \<Rightarrow> err option" where
  "newStateChecker user = (if \<not> IsActive (u_Status user) then Some (ErrMsg (''account not active: '' @ u_Status user)) else None)"

section \<open>Results\<close>

datatype LoginAction = ActionRedirectToIdP | ActionAutoApprove | ActionError | ActionRedirectToClient

text \<open>A parsed URL: whether it has a scheme, what precedes the query, and the query's values by key.\<close>

record URL =
  url_IsAbs :: bool
  url_Base :: string
  url_Query :: "string \<Rightarrow> string list"

definition querySet :: "string \<Rightarrow> string \<Rightarrow> (string \<Rightarrow> string list) \<Rightarrow> string \<Rightarrow> string list" where
  "querySet k v q = q(k := [v])"

record LoginResult =
  lr_Action :: LoginAction
  lr_RedirectURL :: "URL option"
  lr_AuthRequestID :: string
  lr_UpstreamPrompt :: string
  lr_Error :: string
  lr_ErrorCode :: nat

record CallbackResult =
  cr_Action :: LoginAction
  cr_RedirectURL :: "URL option"
  cr_AuthRequestID :: string
  cr_SessionID :: string
  cr_Error :: string
  cr_ErrorCode :: nat

definition loginError :: "string \<Rightarrow> nat \<Rightarrow> LoginResult" where
  "loginError msg code = \<lparr>lr_Action = ActionError, lr_RedirectURL = None, lr_AuthRequestID = '''',
     lr_UpstreamPrompt = '''', lr_Error = msg, lr_ErrorCode = code\<rparr>"

definition loginAct :: "LoginAction \<Rightarrow> string \<Rightarrow> string \<Rightarrow> LoginResult" where
  "loginAct a rid prompt = \<lparr>lr_Action = a, lr_RedirectURL = None, lr_AuthRequestID = rid,
     lr_UpstreamPrompt = prompt, lr_Error = '''', lr_ErrorCode = 0\<rparr>"

definition callbackError :: "string \<Rightarrow> nat \<Rightarrow> CallbackResult" where
  "callbackError msg code = \<lparr>cr_Action = ActionError, cr_RedirectURL = None, cr_AuthRequestID = '''',
     cr_SessionID = '''', cr_Error = msg, cr_ErrorCode = code\<rparr>"

definition callbackResultFrom :: "LoginResult \<Rightarrow> CallbackResult" where
  "callbackResultFrom r = \<lparr>cr_Action = lr_Action r, cr_RedirectURL = lr_RedirectURL r, cr_AuthRequestID = lr_AuthRequestID r,
     cr_SessionID = '''', cr_Error = lr_Error r, cr_ErrorCode = lr_ErrorCode r\<rparr>"

text \<open>The identity the upstream provider asserted.\<close>

record UpstreamUserInfo =
  up_Sub :: string
  up_Email :: string
  up_EmailVerified :: bool
  up_Name :: string
  up_HostedDomain :: string

text \<open>The service struct; \<open>ls_parseURL\<close> is \<^verbatim>\<open>url.Parse\<close>.\<close>

record LoginService =
  ls_store :: Storage
  ls_providerName :: string
  ls_issuer :: string
  ls_sessionTTL :: duration
  ls_parseURL :: "string \<Rightarrow> URL option"

text \<open>\<^verbatim>\<open>x, err := m; if err != nil { return h }\<close>: a panic is not an error and unwinds. \<open>orReturn\<close> is the
  idiom \<^verbatim>\<open>x, result := m; if result != nil { return result }\<close>.\<close>

definition catching :: "'a act \<Rightarrow> (err \<Rightarrow> 'b act) \<Rightarrow> ('a \<Rightarrow> 'b act) \<Rightarrow> 'b act" where
  "catching m h f = attemptOr m (\<lambda>e. if e = NilDeref then fail e else h e) f"

definition orReturn :: "('r + 'a) act \<Rightarrow> ('a \<Rightarrow> 'r act) \<Rightarrow> 'r act" where
  "orReturn m f = attempt m (\<lambda>r. case r of Inl res \<Rightarrow> ok res | Inr x \<Rightarrow> f x)"

section \<open>Prompt\<close>

datatype promptMode = promptDefault | promptSilent | promptInteractive

definition upstreamPromptSelectAccount :: string where "upstreamPromptSelectAccount = ''select_account''"

fun loginPromptLoop :: "promptMode \<Rightarrow> string list \<Rightarrow> promptMode" where
  "loginPromptLoop mode [] = mode"
| "loginPromptLoop mode (v # vs) =
     (if v = ''none'' then promptSilent
      else if v = ''login'' \<or> v = ''select_account'' then loginPromptLoop promptInteractive vs
      else loginPromptLoop mode vs)"

definition loginPromptMode :: "string list \<Rightarrow> promptMode" where
  "loginPromptMode prompt = loginPromptLoop promptDefault prompt"

definition loadLoginAuthRequest :: "Storage \<Rightarrow> string \<Rightarrow> (LoginResult + AuthRequestModel) act" where
  "loadLoginAuthRequest st rid =
     catching (GetAuthRequestModel st rid)
       (\<lambda>e. ok (Inl (if errIs e ErrNotFound then loginError ''auth_request_not_found'' 400
                     else if isOidcError e then loginError ''auth_request_expired'' 400
                     else loginError ''internal_error'' 500)))
       (\<lambda>ar. ok (Inr ar))"

definition loadCallbackAuthRequest :: "Storage \<Rightarrow> string \<Rightarrow> (CallbackResult + AuthRequestModel) act" where
  "loadCallbackAuthRequest st rid =
     catching (GetAuthRequestModel st rid)
       (\<lambda>e. ok (Inl (if errIs e ErrNotFound then callbackError ''auth_request_not_found'' 400
                     else callbackError ''internal_error'' 500)))
       (\<lambda>ar. ok (Inr ar))"

definition redirectToProviderSelectingAccount :: "string \<Rightarrow> LoginResult" where
  "redirectToProviderSelectingAccount rid = loginAct ActionRedirectToIdP rid upstreamPromptSelectAccount"

definition authorizationErrorRedirect :: "(string \<Rightarrow> URL option) \<Rightarrow> string \<Rightarrow> AuthRequestModel \<Rightarrow> string \<Rightarrow> LoginResult" where
  "authorizationErrorRedirect parseURL issuer ar errorCode =
     (case parseURL (am_RedirectURI ar) of
        None \<Rightarrow> loginError ''internal_error'' 500
      | Some target \<Rightarrow>
          if \<not> url_IsAbs target then loginError ''internal_error'' 500
          else
            let q1 = querySet ''error'' errorCode (url_Query target);
                q2 = (if am_State ar \<noteq> '''' then querySet ''state'' (am_State ar) q1 else q1);
                q3 = querySet ''iss'' issuer q2
            in (loginAct ActionRedirectToClient (am_ID ar) '''')\<lparr>lr_RedirectURL := Some (target\<lparr>url_Query := q3\<rparr>)\<rparr>)"

definition accessDeniedRedirect :: "(string \<Rightarrow> URL option) \<Rightarrow> string \<Rightarrow> AuthRequestModel \<Rightarrow> LoginResult" where
  "accessDeniedRedirect parseURL issuer ar = authorizationErrorRedirect parseURL issuer ar ''access_denied''"

definition sessionTooOldForMaxAge :: "AuthRequestModel \<Rightarrow> time \<Rightarrow> time \<Rightarrow> bool" where
  "sessionTooOldForMaxAge ar authTime now =
     (case am_MaxAge ar of
        None \<Rightarrow> False
      | Some maxAge \<Rightarrow>
          if timeIsZero authTime then True
          else let elapsed = timeSub now authTime in
               if elapsed < 0 then False else nat (elapsed div second) > maxAge)"

section \<open>Shared steps\<close>

definition verifyAuthRequestChannel ::
  "Storage \<Rightarrow> AuthRequestModel \<Rightarrow> string \<Rightarrow> string \<Rightarrow> string \<Rightarrow> string option \<Rightarrow> ((string \<times> nat) + Model) act" where
  "verifyAuthRequestChannel st ar expected ip ua userID =
     (case ResolveClient st (am_ClientID ar) of
        Inl _ \<Rightarrow> ok (Inl (''internal_error'', 500))
      | Inr client \<Rightarrow>
          if c_LoginChannel client \<noteq> expected then
            attempt (AuditLogEvent st userID EventAuthChannelMismatch ip ua
              [(''expected_channel'', JStr expected), (''actual_channel'', JStr (c_LoginChannel client)),
               (''client_id'', JStr (am_ClientID ar)), (''client_name'', JStr (c_Name client))]) (\<lambda>_.
            ok (Inl (''channel_mismatch'', 400)))
          else ok (Inr client))"

definition loginRequired ::
  "(string \<Rightarrow> URL option) \<Rightarrow> Storage \<Rightarrow> string \<Rightarrow> string \<Rightarrow> AuthRequestModel \<Rightarrow> string \<Rightarrow> string \<Rightarrow> LoginResult act" where
  "loginRequired parseURL st channel issuer ar ip ua =
     attempt (verifyAuthRequestChannel st ar channel ip ua None) (\<lambda>r.
     case r of Inl (msg, code) \<Rightarrow> ok (loginError msg code)
     | Inr _ \<Rightarrow> ok (authorizationErrorRedirect parseURL issuer ar ''login_required''))"

definition maxAgeExceeded ::
  "(string \<Rightarrow> URL option) \<Rightarrow> Storage \<Rightarrow> string \<Rightarrow> string \<Rightarrow> AuthRequestModel \<Rightarrow> promptMode \<Rightarrow> string \<Rightarrow> string \<Rightarrow> LoginResult act" where
  "maxAgeExceeded parseURL st channel issuer ar mode ip ua =
     (if mode = promptSilent then loginRequired parseURL st channel issuer ar ip ua
      else ok (redirectToProviderSelectingAccount (am_ID ar)))"

definition checkClientAccess ::
  "Storage \<Rightarrow> Model \<Rightarrow> string \<Rightarrow> string option \<Rightarrow> Subject \<Rightarrow> bool \<Rightarrow> string \<Rightarrow> string \<Rightarrow> bool act" where
  "checkClientAccess st client channel userID subject signup ip ua =
     (case Evaluate (c_Access client) subject of
        Allow \<Rightarrow> ok True
      | Refuse reason \<Rightarrow>
          attempt (AuditLogEvent st userID EventAuthAccessDenied ip ua
            (AccessDeniedAuditMetadata (c_ID client) (c_Name client) channel reason (Email subject) signup)) (\<lambda>_.
          ok False))"

definition accessSubjectFromUpstream :: "UpstreamUserInfo \<Rightarrow> Subject" where
  "accessSubjectFromUpstream info = \<lparr>Email = up_Email info, EmailVerified = up_EmailVerified info, HostedDomain = up_HostedDomain info\<rparr>"

definition checkExistingAccountAccess ::
  "Storage \<Rightarrow> Model \<Rightarrow> string \<Rightarrow> User \<Rightarrow> UpstreamUserInfo \<Rightarrow> string \<Rightarrow> string \<Rightarrow> bool act" where
  "checkExistingAccountAccess st client channel user info ip ua =
     attempt (checkClientAccess st client channel (Some (u_ID user)) (accessSubjectFromUpstream info) False ip ua) (\<lambda>fresh.
     if \<not> fresh then ok False
     else checkClientAccess st client channel (Some (u_ID user)) (AccessSubject user) False ip ua)"

definition recordHostedDomain ::
  "Storage \<Rightarrow> string \<Rightarrow> UpstreamUserInfo \<Rightarrow> User \<Rightarrow> (CallbackResult + User) act" where
  "recordHostedDomain st provider info user =
     catching (SetIdentityHostedDomain st provider (up_Sub info) (up_HostedDomain info))
       (\<lambda>_. ok (Inl (callbackError ''internal_error'' 500)))
       (\<lambda>_. ok (Inr (user\<lparr>u_HostedDomain := up_HostedDomain info\<rparr>)))"

definition resolveClientName :: "Storage \<Rightarrow> string \<Rightarrow> string" where
  "resolveClientName st clientID =
     (if clientID = '''' then '''' else (case ResolveClient st clientID of Inl _ \<Rightarrow> '''' | Inr c \<Rightarrow> c_Name c))"

definition lifecycleAuditMetadata :: "string \<Rightarrow> string \<Rightarrow> string \<Rightarrow> string \<Rightarrow> metadata" where
  "lifecycleAuditMetadata channel sessionID clientID clientName =
     [(''channel'', JStr channel), (''session_id'', JStr sessionID), (''client_id'', JStr clientID), (''client_name'', JStr clientName)]"

definition completeReusedSessionLogin ::
  "Storage \<Rightarrow> string \<Rightarrow> string \<Rightarrow> User \<Rightarrow> AuthRequestModel \<Rightarrow> time \<Rightarrow> string \<Rightarrow> string \<Rightarrow> string \<Rightarrow> bool \<Rightarrow> LoginResult act" where
  "completeReusedSessionLogin st channel clientName user ar authTime sessionID ip ua recovered =
     attempt (if recovered then AuditLogEvent st (Some (u_ID user)) EventAuthDeletionCancelled ip ua
                (lifecycleAuditMetadata channel sessionID (am_ClientID ar) clientName) else ok ()) (\<lambda>_.
     catching (CompleteAuthRequest st (am_ID ar) (u_ID user) authTime)
       (\<lambda>_. ok (loginError ''failed to complete auth request'' 500)) (\<lambda>_.
     attempt (AuditLogEvent st (Some (u_ID user)) ''auth.login'' ip ua
       [(''channel'', JStr channel), (''session_id'', JStr sessionID), (''client_id'', JStr (am_ClientID ar)),
        (''client_name'', JStr clientName), (''reused_session'', JBool True)]) (\<lambda>_.
     ok (loginAct ActionAutoApprove (am_ID ar) ''''))))"

section \<open>Login\<close>

definition auditInactiveUser :: "Storage \<Rightarrow> string \<Rightarrow> User \<Rightarrow> string \<Rightarrow> string \<Rightarrow> unit act" where
  "auditInactiveUser st channel user ip ua =
     AuditLogEvent st (Some (u_ID user)) ''auth.inactive_user'' ip ua
       [(''status'', JStr (u_Status user)), (''channel'', JStr channel)]"

definition accountInactive :: "LoginService \<Rightarrow> AuthRequestModel \<Rightarrow> promptMode \<Rightarrow> string \<Rightarrow> string \<Rightarrow> LoginResult act" where
  "accountInactive s ar mode ip ua =
     (if mode = promptSilent then loginRequired (ls_parseURL s) (ls_store s) ''browser'' (ls_issuer s) ar ip ua
      else ok (loginError ''account_inactive'' 403))"

text \<open>The tail of \<^verbatim>\<open>handleExistingSession\<close> once channel and policy let the account in.\<close>

definition recoverAndComplete ::
  "LoginService \<Rightarrow> User \<Rightarrow> AuthRequestModel \<Rightarrow> time \<Rightarrow> promptMode \<Rightarrow> Model \<Rightarrow> string \<Rightarrow> string \<Rightarrow> string \<Rightarrow> LoginResult act" where
  "recoverAndComplete s user ar authTime mode client sessionID ip ua =
     (let st = ls_store s in
      if CheckAccess (u_Status user) ''browser'' = AccessRecover then
        if mode = promptSilent then
          attempt (auditInactiveUser st ''browser'' user ip ua) (\<lambda>_.
          ok (authorizationErrorRedirect (ls_parseURL s) (ls_issuer s) ar ''login_required''))
        else
          catching (RecoverUser st (u_ID user)) (\<lambda>_. ok (loginError ''failed to recover account'' 500)) (\<lambda>_.
          completeReusedSessionLogin st ''browser'' (c_Name client) user ar authTime sessionID ip ua True)
      else completeReusedSessionLogin st ''browser'' (c_Name client) user ar authTime sessionID ip ua False)"

definition handleExistingSession ::
  "LoginService \<Rightarrow> User \<Rightarrow> AuthRequestModel \<Rightarrow> time \<Rightarrow> promptMode \<Rightarrow> string \<Rightarrow> string \<Rightarrow> string \<Rightarrow> LoginResult act" where
  "handleExistingSession s user ar authTime mode sessionID ip ua =
     (let st = ls_store s in
      if CheckAccess (u_Status user) ''browser'' = AccessDeny then
        attempt (auditInactiveUser st ''browser'' user ip ua) (\<lambda>_. accountInactive s ar mode ip ua)
      else
        attempt (verifyAuthRequestChannel st ar ''browser'' ip ua (Some (u_ID user))) (\<lambda>r.
        case r of Inl (msg, code) \<Rightarrow> ok (loginError msg code)
        | Inr client \<Rightarrow>
            attempt (checkClientAccess st client ''browser'' (Some (u_ID user)) (AccessSubject user) False ip ua) (\<lambda>allowed.
            if \<not> allowed then ok (accessDeniedRedirect (ls_parseURL s) (ls_issuer s) ar)
            else recoverAndComplete s user ar authTime mode client sessionID ip ua)))"

text \<open>\<^const>\<open>None\<close> is the nil result: the session does not decide the request.\<close>

definition handleSessionLogin ::
  "LoginService \<Rightarrow> AuthRequestModel \<Rightarrow> promptMode \<Rightarrow> string \<Rightarrow> string \<Rightarrow> string \<Rightarrow> LoginResult option act" where
  "handleSessionLogin s ar mode sessionID ip ua =
     (let st = ls_store s in
      if sessionID = '''' then ok None
      else catching (GetValidSession st sessionID) (\<lambda>_. ok None) (\<lambda>(user, closed).
        if closed \<noteq> None then
          attempt (auditInactiveUser st ''browser'' user ip ua) (\<lambda>_.
          attempt (accountInactive s ar mode ip ua) (\<lambda>r. ok (Some r)))
        else
          catching (SessionAuthTime st sessionID) (\<lambda>_. ok None) (\<lambda>authTime.
          attempt clockNow (\<lambda>at.
          if sessionTooOldForMaxAge ar authTime at then
            attempt (maxAgeExceeded (ls_parseURL s) st ''browser'' (ls_issuer s) ar mode ip ua) (\<lambda>r. ok (Some r))
          else
            attempt (handleExistingSession s user ar authTime mode sessionID ip ua) (\<lambda>r. ok (Some r))))))"

definition HandleLogin :: "LoginService \<Rightarrow> string \<Rightarrow> string \<Rightarrow> string \<Rightarrow> string \<Rightarrow> LoginResult act" where
  "HandleLogin s authRequestID sessionID ip ua =
     (if authRequestID = '''' then ok (loginError ''missing authRequestID'' 400)
      else
        orReturn (loadLoginAuthRequest (ls_store s) authRequestID) (\<lambda>ar.
        let mode = loginPromptMode (am_Prompt ar) in
        if mode = promptInteractive then ok (redirectToProviderSelectingAccount authRequestID)
        else
          attempt (handleSessionLogin s ar mode sessionID ip ua) (\<lambda>result.
          case result of
            Some r \<Rightarrow> ok r
          | None \<Rightarrow>
              if mode = promptSilent then loginRequired (ls_parseURL s) (ls_store s) ''browser'' (ls_issuer s) ar ip ua
              else ok (loginAct ActionRedirectToIdP authRequestID ''''))))"

section \<open>Callback\<close>

definition signupBrowserUser ::
  "LoginService \<Rightarrow> UpstreamUserInfo \<Rightarrow> AuthRequestModel \<Rightarrow> string \<Rightarrow> string \<Rightarrow> (CallbackResult + User) act" where
  "signupBrowserUser s info ar ip ua =
     (let st = ls_store s in
      catching (CreateUserWithIdentity st \<lparr>in_Email = up_Email info, in_EmailVerified = up_EmailVerified info,
          in_Name = up_Name info, in_Provider = ls_providerName s, in_ProviderUserID = up_Sub info,
          in_HostedDomain = up_HostedDomain info\<rparr>)
        (\<lambda>e. ok (Inl (if errIs e ErrEmailConflict then callbackError ''email_conflict'' 409
                      else callbackError (''signup failed: '' @ errText e) 500)))
        (\<lambda>user.
          attempt (AuditLogEvent st (Some (u_ID user)) ''auth.signup'' ip ua
            [(''channel'', JStr ''browser''), (''client_id'', JStr (am_ClientID ar)),
             (''client_name'', JStr (resolveClientName st (am_ClientID ar)))]) (\<lambda>_.
          ok (Inr user))))"

definition ensureBrowserAccess :: "LoginService \<Rightarrow> User \<Rightarrow> string \<Rightarrow> string \<Rightarrow> (CallbackResult + User \<times> bool) act" where
  "ensureBrowserAccess s user ip ua =
     (let st = ls_store s in
      case CheckAccess (u_Status user) ''browser'' of
        AccessDeny \<Rightarrow>
          attempt (auditInactiveUser st ''browser'' user ip ua) (\<lambda>_. ok (Inl (callbackError ''account_inactive'' 403)))
      | AccessRecover \<Rightarrow>
          catching (RecoverUser st (u_ID user)) (\<lambda>_. ok (Inl (callbackError ''recovery failed'' 500))) (\<lambda>_.
          catching (GetUserByID st (u_ID user)) (\<lambda>_. ok (Inl (callbackError ''failed to read user after recovery'' 500))) (\<lambda>u.
          ok (Inr (u, True))))
      | AccessAllow \<Rightarrow> ok (Inr (user, False)))"

text \<open>The result is the user, whether it signed up and whether it was recovered.\<close>

definition existingBrowserUser ::
  "LoginService \<Rightarrow> UpstreamUserInfo \<Rightarrow> AuthRequestModel \<Rightarrow> Model \<Rightarrow> User \<Rightarrow> string \<Rightarrow> string \<Rightarrow>
   (CallbackResult + User \<times> bool \<times> bool) act" where
  "existingBrowserUser s info ar client found ip ua =
     (let st = ls_store s; denied = callbackResultFrom (accessDeniedRedirect (ls_parseURL s) (ls_issuer s) ar) in
      attempt (recordHostedDomain st (ls_providerName s) info found) (\<lambda>r.
      case r of Inl res \<Rightarrow> ok (Inl res)
      | Inr user \<Rightarrow>
          attempt (if CheckAccess (u_Status user) ''browser'' \<noteq> AccessDeny
                   then checkExistingAccountAccess st client ''browser'' user info ip ua else ok True) (\<lambda>allowed.
          if \<not> allowed then ok (Inl denied)
          else
            attempt (ensureBrowserAccess s user ip ua) (\<lambda>a.
            case a of Inl res \<Rightarrow> ok (Inl res) | Inr (u, recovered) \<Rightarrow> ok (Inr (u, False, recovered))))))"

definition prepareBrowserCallbackUser ::
  "LoginService \<Rightarrow> UpstreamUserInfo \<Rightarrow> AuthRequestModel \<Rightarrow> Model \<Rightarrow> string \<Rightarrow> string \<Rightarrow>
   (CallbackResult + User \<times> bool \<times> bool) act" where
  "prepareBrowserCallbackUser s info ar client ip ua =
     (let st = ls_store s; denied = callbackResultFrom (accessDeniedRedirect (ls_parseURL s) (ls_issuer s) ar) in
      catching (GetUserByProviderIdentity st (ls_providerName s) (up_Sub info))
        (\<lambda>e. if errIs e ErrNotFound then
               attempt (checkClientAccess st client ''browser'' None (accessSubjectFromUpstream info) True ip ua) (\<lambda>allowed.
               if \<not> allowed then ok (Inl denied)
               else attempt (signupBrowserUser s info ar ip ua) (\<lambda>r.
                    case r of Inl res \<Rightarrow> ok (Inl res) | Inr u \<Rightarrow> ok (Inr (u, True, False))))
             else ok (Inl (callbackError ''internal_error'' 500)))
        (\<lambda>found. existingBrowserUser s info ar client found ip ua))"

text \<open>The session and the completed request, once the account is settled.\<close>

definition finishBrowserLogin ::
  "LoginService \<Rightarrow> AuthRequestModel \<Rightarrow> string \<Rightarrow> string \<Rightarrow> User \<times> bool \<times> bool \<Rightarrow> string \<Rightarrow> string \<Rightarrow> CallbackResult act" where
  "finishBrowserLogin s ar authRequestID clientName = (\<lambda>(user, signedUp, recovered) ip ua.
     (let st = ls_store s in
      catching (CreateSession st (u_ID user) (ls_sessionTTL s)) (\<lambda>_. ok (callbackError ''session creation failed'' 500)) (\<lambda>sessionID.
      attempt (if recovered then AuditLogEvent st (Some (u_ID user)) EventAuthDeletionCancelled ip ua
          (lifecycleAuditMetadata ''browser'' sessionID (am_ClientID ar) (resolveClientName st (am_ClientID ar))) else ok ()) (\<lambda>_.
      catching (CompleteAuthRequest st authRequestID (u_ID user) 0)
        (\<lambda>_. ok (callbackError ''failed to complete auth request'' 500)) (\<lambda>_.
      attempt (AuditLogEvent st (Some (u_ID user)) ''auth.login'' ip ua
        [(''channel'', JStr ''browser''), (''session_id'', JStr sessionID), (''client_id'', JStr (am_ClientID ar)),
         (''client_name'', JStr clientName), (''signup'', JBool signedUp)]) (\<lambda>_.
      ok \<lparr>cr_Action = ActionAutoApprove, cr_RedirectURL = None, cr_AuthRequestID = authRequestID,
          cr_SessionID = sessionID, cr_Error = '''', cr_ErrorCode = 0\<rparr>))))))"

text \<open>\<^const>\<open>None\<close> is the nil \<^verbatim>\<open>UserInfo\<close>.\<close>

definition CompleteBrowserLogin ::
  "LoginService \<Rightarrow> string \<Rightarrow> UpstreamUserInfo option \<Rightarrow> string \<Rightarrow> string \<Rightarrow> CallbackResult act" where
  "CompleteBrowserLogin s authRequestID info ip ua =
     (case info of
        None \<Rightarrow> ok (callbackError ''missing code or state'' 400)
      | Some userInfo \<Rightarrow>
          if authRequestID = '''' then ok (callbackError ''missing code or state'' 400)
          else
            orReturn (loadCallbackAuthRequest (ls_store s) authRequestID) (\<lambda>ar.
            attempt (verifyAuthRequestChannel (ls_store s) ar ''browser'' ip ua None) (\<lambda>v.
            case v of Inl (msg, code) \<Rightarrow> ok (callbackError msg code)
            | Inr client \<Rightarrow>
                orReturn (prepareBrowserCallbackUser s userInfo ar client ip ua) (\<lambda>user.
                finishBrowserLogin s ar authRequestID (c_Name client) user ip ua))))"

end
