(* ===== verification/Channels.thy ===== *)
theory Channels
  imports Login
begin

text \<open>
  The two other login channels: \<^verbatim>\<open>service/mcp_login.go\<close>, which reuses the browser's steps but never
  signs anyone up and never recovers an account, and \<^verbatim>\<open>service/device.go\<close>, the pages of the device
  grant. An MCP service is the same struct as the browser's.
\<close>

section \<open>MCP login\<close>

definition mcpSessionLogin ::
  "LoginService \<Rightarrow> AuthRequestModel \<Rightarrow> promptMode \<Rightarrow> string \<Rightarrow> string \<Rightarrow> string \<Rightarrow> string \<Rightarrow> LoginResult option act" where
  "mcpSessionLogin s ar mode authRequestID sessionID ip ua =
     (let st = ls_store s in
      if sessionID = '''' then ok None
      else catching (GetValidSession st sessionID) (\<lambda>_. ok None) (\<lambda>(user, closed).
        if closed \<noteq> None \<or> CheckAccess (u_Status user) ''mcp'' \<noteq> AccessAllow then
          attempt (auditInactiveUser st ''mcp'' user ip ua) (\<lambda>_.
          if mode = promptSilent then
            attempt (loginRequired (ls_parseURL s) st ''mcp'' (ls_issuer s) ar ip ua) (\<lambda>r. ok (Some r))
          else ok (Some (loginError ''account_inactive'' 403)))
        else
          catching (SessionAuthTime st sessionID)
            (\<lambda>_. if mode = promptSilent then
                   attempt (loginRequired (ls_parseURL s) st ''mcp'' (ls_issuer s) ar ip ua) (\<lambda>r. ok (Some r))
                 else ok (Some (loginAct ActionRedirectToIdP authRequestID ''''))) (\<lambda>authTime.
          attempt clockNow (\<lambda>at.
          if sessionTooOldForMaxAge ar authTime at then
            attempt (maxAgeExceeded (ls_parseURL s) st ''mcp'' (ls_issuer s) ar mode ip ua) (\<lambda>r. ok (Some r))
          else
            attempt (verifyAuthRequestChannel st ar ''mcp'' ip ua (Some (u_ID user))) (\<lambda>r.
            case r of Inl (msg, code) \<Rightarrow> ok (Some (loginError msg code))
            | Inr client \<Rightarrow>
                attempt (checkClientAccess st client ''mcp'' (Some (u_ID user)) (AccessSubject user) False ip ua) (\<lambda>allowed.
                if \<not> allowed then ok (Some (accessDeniedRedirect (ls_parseURL s) (ls_issuer s) ar))
                else attempt (completeReusedSessionLogin st ''mcp'' (c_Name client) user ar authTime sessionID ip ua False)
                       (\<lambda>r. ok (Some r))))))))"

definition mcpHandleLogin :: "LoginService \<Rightarrow> string \<Rightarrow> string \<Rightarrow> string \<Rightarrow> string \<Rightarrow> LoginResult act" where
  "mcpHandleLogin s authRequestID sessionID ip ua =
     (if authRequestID = '''' then ok (loginError ''missing authRequestID'' 400)
      else
        orReturn (loadLoginAuthRequest (ls_store s) authRequestID) (\<lambda>ar.
        let mode = loginPromptMode (am_Prompt ar) in
        if mode = promptInteractive then ok (redirectToProviderSelectingAccount authRequestID)
        else
          attempt (mcpSessionLogin s ar mode authRequestID sessionID ip ua) (\<lambda>result.
          case result of
            Some r \<Rightarrow> ok r
          | None \<Rightarrow>
              if mode = promptSilent then loginRequired (ls_parseURL s) (ls_store s) ''mcp'' (ls_issuer s) ar ip ua
              else ok (loginAct ActionRedirectToIdP authRequestID ''''))))"

definition finishMCPLogin ::
  "LoginService \<Rightarrow> AuthRequestModel \<Rightarrow> string \<Rightarrow> string \<Rightarrow> User \<Rightarrow> string \<Rightarrow> string \<Rightarrow> CallbackResult act" where
  "finishMCPLogin s ar authRequestID clientName user ip ua =
     (let st = ls_store s in
      catching (CreateSession st (u_ID user) (ls_sessionTTL s)) (\<lambda>_. ok (callbackError ''session creation failed'' 500)) (\<lambda>sessionID.
      catching (CompleteAuthRequest st authRequestID (u_ID user) 0)
        (\<lambda>_. ok (callbackError ''failed to complete auth request'' 500)) (\<lambda>_.
      attempt (AuditLogEvent st (Some (u_ID user)) ''auth.login'' ip ua
        [(''channel'', JStr ''mcp''), (''session_id'', JStr sessionID), (''client_id'', JStr (am_ClientID ar)),
         (''client_name'', JStr clientName)]) (\<lambda>_.
      ok \<lparr>cr_Action = ActionAutoApprove, cr_RedirectURL = None, cr_AuthRequestID = authRequestID,
          cr_SessionID = sessionID, cr_Error = '''', cr_ErrorCode = 0\<rparr>))))"

definition CompleteMCPLogin ::
  "LoginService \<Rightarrow> string \<Rightarrow> UpstreamUserInfo option \<Rightarrow> string \<Rightarrow> string \<Rightarrow> CallbackResult act" where
  "CompleteMCPLogin s authRequestID info ip ua =
     (let st = ls_store s in
      case info of
        None \<Rightarrow> ok (callbackError ''missing code or state'' 400)
      | Some userInfo \<Rightarrow>
          if authRequestID = '''' then ok (callbackError ''missing code or state'' 400)
          else
            orReturn (loadCallbackAuthRequest st authRequestID) (\<lambda>ar.
            if am_Resource ar = '''' then ok (callbackError ''invalid_target'' 400)
            else
              attempt (verifyAuthRequestChannel st ar ''mcp'' ip ua None) (\<lambda>v.
              case v of Inl (msg, code) \<Rightarrow> ok (callbackError msg code)
              | Inr client \<Rightarrow>
                  catching (GetUserByProviderIdentity st (ls_providerName s) (up_Sub userInfo))
                    (\<lambda>e. ok (if errIs e ErrNotFound then callbackError ''account_not_found'' 403
                             else callbackError ''internal_error'' 500)) (\<lambda>found.
                  orReturn (recordHostedDomain st (ls_providerName s) userInfo found) (\<lambda>user.
                  if CheckAccess (u_Status user) ''mcp'' \<noteq> AccessAllow then
                    attempt (auditInactiveUser st ''mcp'' user ip ua) (\<lambda>_. ok (callbackError ''account_inactive'' 403))
                  else
                    attempt (checkExistingAccountAccess st client ''mcp'' user userInfo ip ua) (\<lambda>allowed.
                    if \<not> allowed then ok (callbackResultFrom (accessDeniedRedirect (ls_parseURL s) (ls_issuer s) ar))
                    else finishMCPLogin s ar authRequestID (c_Name client) user ip ua))))))"

section \<open>Device pages\<close>

datatype DeviceAction = DeviceShowEntry | DeviceShowApprove | DeviceShowResult | DeviceRedirectIdP | DeviceRedirectBack | DeviceError

text \<open>\<^verbatim>\<open>CSRFToken\<close> is filled in by the HTTP handler.\<close>

record DevicePageResult =
  dp_Action :: DeviceAction
  dp_UserCode :: string
  dp_SessionID :: string
  dp_Error :: string
  dp_ErrorCode :: nat

record DeviceApproveResult =
  da_Success :: bool
  da_Message :: string
  da_ErrorCode :: nat

record DeviceService =
  dv_store :: Storage
  dv_providerName :: string
  dv_sessionTTL :: duration

definition devicePage :: "DeviceAction \<Rightarrow> string \<Rightarrow> string \<Rightarrow> string \<Rightarrow> nat \<Rightarrow> DevicePageResult" where
  "devicePage a code sid e n = \<lparr>dp_Action = a, dp_UserCode = code, dp_SessionID = sid, dp_Error = e, dp_ErrorCode = n\<rparr>"

definition deviceError :: "string \<Rightarrow> nat \<Rightarrow> DevicePageResult" where
  "deviceError e n = devicePage DeviceError '''' '''' e n"

definition approveResult :: "bool \<Rightarrow> string \<Rightarrow> nat \<Rightarrow> DeviceApproveResult" where
  "approveResult b m n = \<lparr>da_Success = b, da_Message = m, da_ErrorCode = n\<rparr>"

definition deviceAccessDeniedMessage :: string where "deviceAccessDeniedMessage = ''This account is not allowed to use this application. You can close this window.''"

definition validateDevicePage :: "DeviceService \<Rightarrow> string \<Rightarrow> DevicePageResult option act" where
  "validateDevicePage s userCode =
     catching (GetDeviceCodeByUserCode (dv_store s) userCode)
       (\<lambda>e. ok (Some (if errIs e ErrNotFound then devicePage DeviceShowEntry '''' '''' ''Invalid code. Please check and try again.'' 0
                      else deviceError ''internal_error'' 500)))
       (\<lambda>dc. attempt clockNow (\<lambda>now.
         ok (if now > dm_ExpiresAt dc then Some (devicePage DeviceShowEntry '''' '''' ''This code has expired. Please request a new one.'' 0)
             else if dm_State dc \<noteq> ''pending'' then Some (devicePage DeviceShowEntry '''' '''' ''This code has already been used.'' 0)
             else None)))"

definition redirectDeviceToProvider :: "string \<Rightarrow> DevicePageResult" where
  "redirectDeviceToProvider userCode = devicePage DeviceRedirectIdP userCode '''' '''' 0"

definition ensureDeviceAccess :: "DeviceService \<Rightarrow> User \<Rightarrow> string \<Rightarrow> string \<Rightarrow> DevicePageResult option act" where
  "ensureDeviceAccess s user ip ua =
     (if CheckAccess (u_Status user) ''device'' = AccessAllow then ok None
      else attempt (auditInactiveUser (dv_store s) ''device'' user ip ua) (\<lambda>_. ok (Some (deviceError ''account_inactive'' 403))))"

text \<open>The session variant takes address and agent from the context, the callback variant from its arguments.\<close>

definition ensureDeviceSessionAccess :: "DeviceService \<Rightarrow> Ctx \<Rightarrow> User \<Rightarrow> DevicePageResult option act" where
  "ensureDeviceSessionAccess s ctx user = ensureDeviceAccess s user (x_IP ctx) (x_UserAgent ctx)"

definition ensureDeviceCallbackAccess :: "DeviceService \<Rightarrow> User \<Rightarrow> string \<Rightarrow> string \<Rightarrow> DevicePageResult option act" where
  "ensureDeviceCallbackAccess s user ip ua = ensureDeviceAccess s user ip ua"

text \<open>A closed account always gets a page from \<open>ensureDeviceSessionAccess\<close>; a nil page there would be a
  nil dereference in the handler.\<close>

definition HandleDevicePage :: "DeviceService \<Rightarrow> Ctx \<Rightarrow> string \<Rightarrow> string \<Rightarrow> DevicePageResult act" where
  "HandleDevicePage s ctx userCode sessionID =
     (if userCode = '''' then ok (devicePage DeviceShowEntry '''' '''' '''' 0)
      else
        attempt (validateDevicePage s userCode) (\<lambda>v.
        case v of Some page \<Rightarrow> ok page
        | None \<Rightarrow>
            if sessionID = '''' then ok (redirectDeviceToProvider userCode)
            else
              catching (GetValidSession (dv_store s) sessionID)
                (\<lambda>e. if errIs e ErrNotFound then ok (redirectDeviceToProvider userCode)
                     else ok (deviceError ''internal_error'' 500))
                (\<lambda>(user, closed).
                  if closed \<noteq> None then
                    attempt (ensureDeviceSessionAccess s ctx user) (\<lambda>r. case r of Some page \<Rightarrow> ok page | None \<Rightarrow> fail NilDeref)
                  else
                    attempt (ensureDeviceSessionAccess s ctx user) (\<lambda>r.
                    case r of Some page \<Rightarrow> ok page | None \<Rightarrow> ok (devicePage DeviceShowApprove userCode '''' '''' 0)))))"

definition findDeviceCallbackUser :: "DeviceService \<Rightarrow> string \<Rightarrow> (DevicePageResult + User) act" where
  "findDeviceCallbackUser s providerUserID =
     catching (GetUserByProviderIdentity (dv_store s) (dv_providerName s) providerUserID)
       (\<lambda>e. ok (Inl (if errIs e ErrNotFound then deviceError ''account_not_found: please sign up via browser first'' 403
                     else deviceError ''internal_error'' 500)))
       (\<lambda>user. ok (Inr user))"

definition ensureDeviceCallbackClientAccess ::
  "DeviceService \<Rightarrow> string \<Rightarrow> User \<Rightarrow> UpstreamUserInfo \<Rightarrow> string \<Rightarrow> string \<Rightarrow> DevicePageResult option act" where
  "ensureDeviceCallbackClientAccess s clientID user info ip ua =
     (case ResolveClient (dv_store s) clientID of
        Inl _ \<Rightarrow> ok None
      | Inr client \<Rightarrow>
          attempt (checkExistingAccountAccess (dv_store s) client ''device'' user info ip ua) (\<lambda>allowed.
          ok (if \<not> allowed then Some (deviceError deviceAccessDeniedMessage 403) else None)))"

definition finishDeviceLogin :: "DeviceService \<Rightarrow> string \<Rightarrow> string \<Rightarrow> User \<Rightarrow> string \<Rightarrow> string \<Rightarrow> DevicePageResult act" where
  "finishDeviceLogin s userCode clientID user ip ua =
     (let st = dv_store s in
      catching (CreateSession st (u_ID user) (dv_sessionTTL s)) (\<lambda>_. ok (deviceError ''session creation failed'' 500)) (\<lambda>sessionID.
      attempt (AuditLogEvent st (Some (u_ID user)) ''auth.login'' ip ua
        [(''channel'', JStr ''device''), (''session_id'', JStr sessionID), (''client_id'', JStr clientID),
         (''client_name'', JStr (resolveClientName st clientID))]) (\<lambda>_.
      ok (devicePage DeviceRedirectBack userCode sessionID '''' 0))))"

definition CompleteDeviceLogin ::
  "DeviceService \<Rightarrow> string \<Rightarrow> UpstreamUserInfo option \<Rightarrow> string \<Rightarrow> string \<Rightarrow> DevicePageResult act" where
  "CompleteDeviceLogin s userCode info ip ua =
     (let st = dv_store s; invalid = deviceError ''invalid_request'' 400 in
      case info of
        None \<Rightarrow> ok invalid
      | Some userInfo \<Rightarrow>
          if userCode = '''' then ok invalid
          else
            catching (GetDeviceCodeByUserCode st userCode)
              (\<lambda>e. ok (if errIs e ErrNotFound then invalid else deviceError ''internal_error'' 500)) (\<lambda>dc.
            attempt clockNow (\<lambda>now.
            if now > dm_ExpiresAt dc then ok invalid
            else if dm_State dc \<noteq> ''pending'' then ok invalid
            else
              orReturn (findDeviceCallbackUser s (up_Sub userInfo)) (\<lambda>found.
              attempt (recordHostedDomain st (dv_providerName s) userInfo found) (\<lambda>h.
              case h of Inl r \<Rightarrow> ok (deviceError (cr_Error r) (cr_ErrorCode r))
              | Inr user \<Rightarrow>
                  attempt (ensureDeviceCallbackAccess s user ip ua) (\<lambda>a.
                  case a of Some page \<Rightarrow> ok page
                  | None \<Rightarrow>
                      attempt (ensureDeviceCallbackClientAccess s (dm_ClientID dc) user userInfo ip ua) (\<lambda>c.
                      case c of Some page \<Rightarrow> ok page
                      | None \<Rightarrow> finishDeviceLogin s userCode (dm_ClientID dc) user ip ua)))))))"

section \<open>Approval\<close>

definition loadDeviceAuditContext :: "DeviceService \<Rightarrow> string \<Rightarrow> (DeviceCodeModel \<times> metadata) act" where
  "loadDeviceAuditContext s userCode =
     attempt (GetDeviceCodeByUserCode (dv_store s) userCode) (\<lambda>dc.
     ok (dc, (''client_id'', JStr (dm_ClientID dc)) #
         (case ResolveClient (dv_store s) (dm_ClientID dc) of Inl _ \<Rightarrow> [] | Inr c \<Rightarrow> [(''client_name'', JStr (c_Name c))])))"

definition denyDeviceCode :: "DeviceService \<Rightarrow> string \<Rightarrow> string \<Rightarrow> string \<Rightarrow> string \<Rightarrow> unit act" where
  "denyDeviceCode s userCode userID ip ua =
     catching (loadDeviceAuditContext s userCode) (\<lambda>_. ok ()) (\<lambda>(dc, metadata).
     if dm_State dc \<noteq> ''pending'' then ok ()
     else
       catching (DenyDeviceCode (dv_store s) userCode) (\<lambda>_. ok ()) (\<lambda>_.
       AuditLogEvent (dv_store s) (Some userID) ''auth.device_denied'' ip ua metadata))"

definition staleCode :: DeviceApproveResult where
  "staleCode = approveResult False ''Device code expired or already processed.'' 400"

definition approveDeviceCode :: "DeviceService \<Rightarrow> string \<Rightarrow> User \<Rightarrow> string \<Rightarrow> string \<Rightarrow> string \<Rightarrow> DeviceApproveResult act" where
  "approveDeviceCode s userCode user sessionID ip ua =
     (let st = dv_store s; userID = u_ID user in
      catching (loadDeviceAuditContext s userCode) (\<lambda>_. ok staleCode) (\<lambda>(dc, metadata).
      case ResolveClient st (dm_ClientID dc) of
        Inl _ \<Rightarrow> ok staleCode
      | Inr client \<Rightarrow>
          attempt (checkClientAccess st client ''device'' (Some userID) (AccessSubject user) False ip ua) (\<lambda>allowed.
          if \<not> allowed then ok (approveResult False deviceAccessDeniedMessage 403)
          else
            catching (SessionAuthTime st sessionID)
              (\<lambda>_. ok (approveResult False ''Your session has expired. Sign in again.'' 401)) (\<lambda>authTime.
            catching (ApproveDeviceCode st userCode userID authTime) (\<lambda>_. ok staleCode) (\<lambda>_.
            attempt (AuditLogEvent st (Some userID) ''auth.device_approved'' ip ua metadata) (\<lambda>_.
            ok (approveResult True ''You have successfully authorized the CLI application. You can close this window.'' 0)))))))"

definition HandleDeviceApprove ::
  "DeviceService \<Rightarrow> string \<Rightarrow> string \<Rightarrow> string \<Rightarrow> string \<Rightarrow> string \<Rightarrow> DeviceApproveResult act" where
  "HandleDeviceApprove s userCode action sessionID ip ua =
     (let st = dv_store s in
      if sessionID = '''' then ok (approveResult False ''no session'' 401)
      else
        catching (GetValidSession st sessionID) (\<lambda>_. ok (approveResult False ''invalid session'' 401)) (\<lambda>(user, closed).
        if closed \<noteq> None then
          attempt (auditInactiveUser st ''device'' user ip ua) (\<lambda>_. ok (approveResult False ''account_inactive'' 403))
        else if CheckAccess (u_Status user) ''device'' \<noteq> AccessAllow then ok (approveResult False ''account_inactive'' 403)
        else if action = ''approve'' then approveDeviceCode s userCode user sessionID ip ua
        else if action = ''deny'' then
          attempt (denyDeviceCode s userCode (u_ID user) ip ua) (\<lambda>_.
          ok (approveResult False ''You denied the authorization request. You can close this window.'' 0))
        else ok (approveResult False ''invalid action'' 400)))"

end
