(* ===== verification/Server.thy ===== *)
theory Server
  imports Cleanup_Correct Channels
begin

text \<open>
  The whole server as a transition system. A step is one storage operation with any arguments and
  any outcomes of its database calls, one cleanup run, or the passing of time; the handlers of the
  login services and of the provider library only compose such operations. \<open>reachable\<close> is what a
  server started on an empty database can get to. The locales say what an invariant of the server
  has to satisfy, operation by operation or statement by statement; the theory interprets them for
  the schema's keys, the refresh tokens, an exchanged request and a consumed device code.
\<close>

section \<open>Steps\<close>

inductive server_step :: "Storage \<Rightarrow> world \<Rightarrow> world \<Rightarrow> bool" for st where
  idle: "w_now w \<le> t \<Longrightarrow> w_idc w \<le> i \<Longrightarrow> server_step st w (w\<lparr>w_now := t, w_idc := i, w_faults := fs\<rparr>)"
| audit: "run_state (AuditLogEvent st u ev ip ua md) w = (r, w') \<Longrightarrow> server_step st w w'"
| authorize: "run_state (CreateAuthRequest st ctx req) w = (r, w') \<Longrightarrow> server_step st w w'"
| complete: "run_state (CompleteAuthRequest st rid uid t) w = (r, w') \<Longrightarrow> server_step st w w'"
| saveCode: "run_state (SaveAuthCode st rid code) w = (r, w') \<Longrightarrow> server_step st w w'"
| exchange: "run_state (AuthRequestByCode st ctx code) w = (r, w') \<Longrightarrow> server_step st w w'"
| dropRequest: "run_state (DeleteAuthRequest st rid) w = (r, w') \<Longrightarrow> server_step st w w'"
| accessToken: "run_state (CreateAccessToken st req) w = (r, w') \<Longrightarrow> server_step st w w'"
| tokens: "run_state (CreateAccessAndRefreshTokens st ctx req token) w = (r, w') \<Longrightarrow> server_step st w w'"
| refresh: "run_state (TokenRequestByRefreshToken st ctx token) w = (r, w') \<Longrightarrow> server_step st w w'"
| revoke: "run_state (RevokeToken st ctx tok uid cid) w = (r, w') \<Longrightarrow> server_step st w w'"
| deviceStart: "run_state (StoreDeviceAuthorization st ctx cid dcode ucode t scopes) w = (r, w') \<Longrightarrow> server_step st w w'"
| devicePoll: "run_state (GetDeviceAuthorizatonState st ctx cid dcode) w = (r, w') \<Longrightarrow> server_step st w w'"
| deviceApprove: "run_state (ApproveDeviceCode st ucode uid t) w = (r, w') \<Longrightarrow> server_step st w w'"
| deviceDeny: "run_state (DenyDeviceCode st ucode) w = (r, w') \<Longrightarrow> server_step st w w'"
| signup: "run_state (CreateUserWithIdentity st input) w = (r, w') \<Longrightarrow> server_step st w w'"
| hostedDomain: "run_state (SetIdentityHostedDomain st p sub hdom) w = (r, w') \<Longrightarrow> server_step st w w'"
| session: "run_state (CreateSession st uid ttl) w = (r, w') \<Longrightarrow> server_step st w w'"
| logout: "run_state (TerminateSession st ctx uid cid) w = (r, w') \<Longrightarrow> server_step st w w'"
| recover: "run_state (RecoverUser st uid) w = (r, w') \<Longrightarrow> server_step st w w'"
| disable: "run_state (DisableUser st uid) w = (r, w') \<Longrightarrow> server_step st w w'"
| requestDeletion: "run_state (RequestDeletion st uid) w = (r, w') \<Longrightarrow> server_step st w w'"
| epochs: "run_state (EnsureCryptoEpochs st) w = (r, w') \<Longrightarrow> server_step st w w'"
| cleanup: "cs_deleteUserHook c = None \<Longrightarrow> runAll c free released w = Some w' \<Longrightarrow> server_step st w w'"

definition start :: "world \<Rightarrow> bool" where
  "start w \<longleftrightarrow> w_db w = emptyDb \<and> w_tx w = None"

abbreviation steps :: "Storage \<Rightarrow> world \<Rightarrow> world \<Rightarrow> bool" where
  "steps st \<equiv> (server_step st)\<^sup>*\<^sup>*"

definition reachable :: "Storage \<Rightarrow> world \<Rightarrow> bool" where
  "reachable st w \<longleftrightarrow> (\<exists>w0. start w0 \<and> steps st w0 w)"

section \<open>Effects of the statements\<close>

text \<open>The changes to the database that statements outside the issuance of tokens make.\<close>

inductive common_effect :: "(dbs \<Rightarrow> dbs) \<Rightarrow> bool" where
  "common_effect (\<lambda>d. snd (InsertAuditLog row d))"
| "common_effect (\<lambda>d. snd (UpdateAuthRequestCode code rid d))"
| "common_effect (\<lambda>d. snd (DeleteAuthRequestByID rid d))"
| "common_effect (\<lambda>d. snd (ConsumeAuthCode rid cid code t d))"
| "common_effect (\<lambda>d. snd (CompleteAuthRequestByID uid t rid d))"
| "common_effect (\<lambda>d. snd (UpdateDeviceCodeStateConsumedByID rid d))"
| "common_effect (\<lambda>d. snd (UpdateDeviceCodeLastPolledAt t rid d))"
| "common_effect (\<lambda>d. snd (ApproveDeviceCodeByUserCode uid t code d))"
| "common_effect (\<lambda>d. snd (DenyDeviceCodeByUserCode code d))"
| "common_effect (\<lambda>d. snd (RevokeActiveRefreshTokensByUserID t uid d))"
| "common_effect (\<lambda>d. snd (InsertSession s d))"
| "common_effect (\<lambda>d. snd (RevokeSessionsByUserID t uid d))"
| "common_effect (\<lambda>d. snd (InsertUser u d))"
| "common_effect (\<lambda>d. snd (InsertUserIdentity i d))"
| "common_effect (\<lambda>d. snd (SetIdentityHostedDomainRow hdom p sub d))"
| "common_effect (\<lambda>d. snd (SetUserStatusByID ''disabled'' t uid d))"
| "common_effect (\<lambda>d. snd (RecoverPendingDeletionUserByID t uid d))"
| "common_effect (\<lambda>d. snd (MarkUserPendingDeletionByID t t' uid d))"
| "common_effect (\<lambda>d. snd (DeleteRevokedRefreshTokensBefore t n d))"
| "common_effect (\<lambda>d. snd (DeleteExpiredRefreshTokensBefore t n d))"
| "common_effect (\<lambda>d. snd (DeleteExpiredOrRevokedSessions t n d))"
| "common_effect (\<lambda>d. snd (DeleteExpiredAuthRequestsBefore t n d))"
| "common_effect (\<lambda>d. snd (DeleteExpiredDeviceCodesBefore t n d))"
| "common_effect (\<lambda>d. snd (DeleteStaleRefreshTokenFamiliesBefore t n d))"
| "common_effect (\<lambda>d. snd (DeleteUserIdentitiesByUserID uid d))"
| "common_effect (\<lambda>d. snd (DeleteSessionsByUserID uid d))"
| "common_effect (\<lambda>d. snd (DeleteRefreshTokensByUserID uid d))"
| "common_effect (\<lambda>d. snd (MarkUserDeletedByID t uid d))"
| "common_effect (\<lambda>d. snd (InsertDeletionCompletedAudit uid reason t d))"
| "common_effect (\<lambda>d. snd (RedactAuditLogPIIRows uid d))"
| "common_effect (\<lambda>d. snd (AnonymizeAuditLogBefore admin t d))"
| "common_effect (\<lambda>d. snd (InsertActiveEpoch keyID domain tag t d))"

text \<open>Those of issuance, reuse detection and revocation.\<close>

inductive token_effect :: "(dbs \<Rightarrow> dbs) \<Rightarrow> bool" where
  "token_effect (\<lambda>d. snd (InsertRefreshToken row d))"
| "token_effect (\<lambda>d. snd (RevokeRefreshFamily t fam d))"
| "token_effect (\<lambda>d. snd (MarkRefreshTokenUsedAndRevokedByID t rid d))"
| "token_effect (\<lambda>d. snd (TombstoneRefreshFamily row d))"

lemma query_keeps [simp]:
  "snd (GetAuthRequestByID rid d) = d" "snd (GetAuthRequestByCode code d) = d"
  "snd (GetDeviceAuthorizationForUpdate code cid d) = d" "snd (GetDeviceCodeRowByUserCode code d) = d"
  "snd (GetRefreshFamilyIDByTokenHash h d) = d" "snd (GetRefreshTokenForUpdateByHash h d) = d"
  "snd (GetRefreshTokenGrantByHash h cid d) = d" "snd (GetRefreshTokenGrantByID rid cid d) = d"
  "snd (CountRefreshTokenChildren rid d) = d" "snd (HasRevokedUnredeemedRefreshTokenInFamily fam d) = d"
  "snd (IsRefreshFamilyRevoked fam d) = d" "snd (LockRefreshFamily fam d) = d"
  "snd (GetUserRowByID uid d) = d" "snd (ListPendingDeletionUserIDsBefore t d) = d" "snd (GetActiveEpoch domain d) = d"
  by (simp_all add: sql_defs split: sum.splits)

section \<open>Rules for invariants\<close>

definition kinv :: "(nat \<Rightarrow> dbs \<Rightarrow> bool) \<Rightarrow> world \<Rightarrow> bool" where
  "kinv J w \<longleftrightarrow> winv J w \<and> txinv J w"

definition harmless :: "(nat \<Rightarrow> dbs \<Rightarrow> bool) \<Rightarrow> 'a stmt \<Rightarrow> bool" where
  "harmless J q \<longleftrightarrow> (\<forall>k d. J k d \<longrightarrow> J k (snd (q d)))"

lemma harmless_query: "(\<And>d. snd (q d) = d) \<Longrightarrow> harmless J q"
  by (simp add: harmless_def)

lemma winv_exec: "harmless J q \<Longrightarrow> keeps (winv J) (exec c q)"
  by (rule keepsI)
     (auto simp: exec_def winv_def harmless_def split: prod.splits conn.splits option.splits outcome.splits
           dest!: nextOutcome_frame)

lemma kinv_exec: "harmless J q \<Longrightarrow> keeps (kinv J) (exec c q)"
  by (rule keepsI)
     (auto simp: exec_def kinv_def winv_def txinv_def harmless_def split: prod.splits conn.splits option.splits outcome.splits
           dest!: nextOutcome_frame)

lemma kinv_commitTx: "keeps (kinv J) commitTx"
  by (rule keepsI)
     (auto simp: commitTx_def kinv_def winv_def txinv_def split: prod.splits option.splits outcome.splits dest!: nextOutcome_frame)

lemma winv_withTx:
  assumes "keeps (kinv J) body"
  shows "keeps (winv J) (withTx body)"
proof (rule keepsI)
  fix w r w'
  assume w: "winv J w" "run_state (withTx body) w = (r, w')"
  obtain out w1 where n: "nextOutcome w = (out, w1)" by (cases "nextOutcome w")
  note fr = nextOutcome_frame [OF n]
  show "winv J w'"
  proof (cases "out = Fine")
    case True
    let ?w = "w1\<lparr>w_tx := Some (w_db w1)\<rparr>"
    obtain r2 w2 where b: "run_state body ?w = (r2, w2)" by (cases "run_state body ?w")
    have "kinv J ?w" using w fr by (auto simp: kinv_def winv_def txinv_def)
    from keepsD [OF assms this b] have "winv J w2" by (simp add: kinv_def)
    with w n True b show ?thesis by (auto simp: run_withTx beginTx_def winv_def)
  next
    case False
    with w n fr show ?thesis by (auto simp: run_withTx beginTx_def winv_def)
  qed
qed

lemma keeps_counter:
  assumes "\<And>k d. J k d \<Longrightarrow> J (Suc k) d"
  shows "keeps (winv J) (NewUUID st)" "keeps (winv J) (NewOpaqueToken st)" "keeps (winv J) (readNonce st)"
    "keeps (kinv J) (NewUUID st)" "keeps (kinv J) (NewOpaqueToken st)" "keeps (kinv J) (readNonce st)"
  using assms by (auto intro!: keepsI simp: winv_def kinv_def txinv_def)

lemma winv_runJobs:
  assumes "\<And>j w e w'. j \<in> set js \<Longrightarrow> I w \<Longrightarrow> j w = Some (e, w') \<Longrightarrow> I w'" "I w" "runJobs js w = Some (e, w')"
  shows "I w'"
  using assms
proof (induction js arbitrary: w e w')
  case (Cons j js)
  from Cons.prems(3) obtain e1 w1 e2 where "j w = Some (e1, w1)" "runJobs js w1 = Some (e2, w')"
    by (auto split: option.splits prod.splits)
  with Cons.IH [of w1 e2 w'] Cons.prems show ?case by auto
qed simp

lemma batchLoop_keeps: "batchLoop b del acc w = Some y \<Longrightarrow> keeps I (del b) \<Longrightarrow> I w \<Longrightarrow> I (snd y)"
proof (induction b del acc w y rule: batchLoop.raw_induct [rotated, consumes 1, case_names 1])
  case (1 f b del acc w y)
  obtain r w' where r: "run_state (del b) w = (r, w')" by (cases "run_state (del b) w")
  have w': "I w'" using keepsD [OF 1(3,4) r] .
  show ?case
  proof (cases r)
    case (Inl e)
    with 1(2) r w' show ?thesis by auto
  next
    case (Inr n)
    with 1 r w' show ?thesis by (auto split: if_splits)
  qed
qed

lemma winv_batchJob:
  assumes "batchJob (deleteInBatches b del) w = Some (e, w')" "keeps I (del b)" "I w"
  shows "I w'"
proof -
  from assms(1) obtain y where "batchLoop b del 0 w = Some y" "w' = snd y"
    by (auto simp: batchJob_def deleteInBatches_def split: option.splits prod.splits)
  with batchLoop_keeps [OF this(1) assms(2,3)] show ?thesis by simp
qed

lemma winv_deleteUsers:
  assumes "\<And>u. keeps I (DeleteUser u now hook)" "I w"
  shows "I (snd (deleteUsers hook now us errs w))"
  using assms(2)
proof (induction us arbitrary: errs w)
  case (Cons u us)
  obtain r w' where r: "run_state (DeleteUser u now hook) w = (r, w')" by (cases "run_state (DeleteUser u now hook) w")
  from keepsD [OF assms(1) Cons.prems r] Cons.IH r show ?case by (cases r) auto
qed simp

section \<open>Invariants, operation by operation\<close>

locale server_invariant =
  fixes st :: Storage and J :: "nat \<Rightarrow> dbs \<Rightarrow> bool"
  assumes later: "J k d \<Longrightarrow> J (Suc k) d"
    and common: "common_effect f \<Longrightarrow> J k d \<Longrightarrow> J k (f d)"
    and new_request: "J k d \<Longrightarrow> ar_ID req = s_uuid st k \<Longrightarrow> J (Suc k) (snd (InsertAuthRequest req d))"
    and new_device: "J k d \<Longrightarrow> dc_ID dev = s_uuid st k \<Longrightarrow> J (Suc k) (snd (InsertDeviceCode dev d))"
    and issuing: "keeps (winv J) (CreateAccessAndRefreshTokens st ctx treq token)"
    and revoking: "keeps (winv J) (RevokeToken st ctx tok uid cid)"
begin

lemma harmless_common: "common_effect (\<lambda>d. snd (q d)) \<Longrightarrow> harmless J q"
  using common by (auto simp: harmless_def)

lemma winv_common: "common_effect (\<lambda>d. snd (q d)) \<Longrightarrow> keeps (winv J) (exec c q)"
  by (rule winv_exec) (rule harmless_common)

lemma kinv_common: "common_effect (\<lambda>d. snd (q d)) \<Longrightarrow> keeps (kinv J) (exec c q)"
  by (rule kinv_exec) (rule harmless_common)

lemmas query = winv_exec [OF harmless_query] kinv_exec [OF harmless_query]
lemmas update = winv_common kinv_common common_effect.intros
lemma counters:
  "keeps (winv J) (NewUUID st)" "keeps (winv J) (NewOpaqueToken st)" "keeps (winv J) (readNonce st)"
  "keeps (kinv J) (NewUUID st)" "keeps (kinv J) (NewOpaqueToken st)" "keeps (kinv J) (readNonce st)"
  using keeps_counter [where J = J and st = st] later by blast+

lemmas frame = inv_intro winv_withTx kinv_commitTx counters

lemma keeps_audit: "keeps (winv J) (AuditLogEvent st u ev ip ua md)" "keeps (kinv J) (AuditLogEvent st u ev ip ua md)"
  unfolding AuditLogEvent_def by (intro frame update)+

lemma keeps_access:
  "keeps (winv J) (enforceStaticClientAccess st ctx acc cid ch u)" "keeps (kinv J) (enforceStaticClientAccess st ctx acc cid ch u)"
  unfolding enforceStaticClientAccess_def by (cases "Evaluate acc (AccessSubject u)"; auto intro!: frame keeps_audit)+

lemma keeps_notFoundOr: "keeps I (notFoundOr e)"
  unfolding notFoundOr_def by (intro frame)

lemma keeps_lookups:
  "keeps (winv J) (GetUserByID st uid)" "keeps (kinv J) (getUserByIDTx st uid)"
  unfolding GetUserByID_def getUserByIDTx_def fullUserOf_def by (intro frame query keeps_notFoundOr; simp)+

lemma keeps_requests:
  "keeps (winv J) (CompleteAuthRequest st rid uid t)" "keeps (winv J) (SaveAuthCode st rid code)"
  "keeps (winv J) (DeleteAuthRequest st rid)" "keeps (winv J) (AuthRequestByCode st ctx code)"
  unfolding CompleteAuthRequest_def SaveAuthCode_def DeleteAuthRequest_def AuthRequestByCode_def Let_def
  by (intro frame query update keeps_notFoundOr keeps_access keeps_lookups; simp)+

lemma keeps_consume: "keeps (winv J) (consumeAuthCode st c req)" "keeps (kinv J) (consumeAuthCode st c req)"
  unfolding consumeAuthCode_def by (cases req; auto intro!: frame update)+

lemma keeps_CreateAccessToken: "keeps (winv J) (CreateAccessToken st req)"
  unfolding CreateAccessToken_def by (intro frame keeps_consume)

lemma keeps_validate: "keeps (kinv J) (validateRefreshTokenRequest st ctx rt at)"
  unfolding validateRefreshTokenRequest_def Let_def by (intro frame keeps_access keeps_lookups; simp)+

lemma keeps_TokenRequest: "keeps (winv J) (TokenRequestByRefreshToken st ctx token)"
  unfolding TokenRequestByRefreshToken_def loadRefreshTokenForUpdate_def by (intro frame query keeps_validate; simp)+

lemma keeps_poll: "keeps (winv J) (GetDeviceAuthorizatonState st ctx cid dcode)"
  unfolding GetDeviceAuthorizatonState_def loadDeviceAuthorizationForUpdate_def recordPoll_def checkDeviceSubject_def
    resolveDeviceAuthorizationState_def Let_def
  by (intro frame query update keeps_notFoundOr keeps_access keeps_lookups; simp)+

lemma keeps_devices:
  "keeps (winv J) (ApproveDeviceCode st ucode uid t)" "keeps (winv J) (DenyDeviceCode st ucode)"
  unfolding ApproveDeviceCode_def DenyDeviceCode_def ensureDeviceCodeApproved_def Let_def by (intro frame update; simp)+

lemma keeps_signup: "keeps (winv J) (CreateUserWithIdentity st input)"
  unfolding CreateUserWithIdentity_def insertUserForSignup_def insertIdentityForSignup_def applyUserEncryption_def
    encryptProviderSub_def encryptField_def Let_def
  by (intro frame update; simp)+

lemma keeps_accounts:
  "keeps (winv J) (SetIdentityHostedDomain st p sub hdom)" "keeps (winv J) (CreateSession st uid ttl)"
  "keeps (winv J) (TerminateSession st ctx uid cid)" "keeps (winv J) (RecoverUser st uid)"
  "keeps (winv J) (DisableUser st uid)" "keeps (winv J) (RequestDeletion st uid)" "keeps (winv J) (EnsureCryptoEpochs st)"
  unfolding SetIdentityHostedDomain_def CreateSession_def TerminateSession_def RecoverUser_def DisableUser_def setUserStatus_def
    RequestDeletion_def EnsureCryptoEpochs_def ensureEpoch_def Let_def
  by (intro frame query update keeps_audit keeps_lookups; simp)+

lemma exec_fresh:
  assumes "\<And>d. J k d \<Longrightarrow> J (Suc k) (snd (q d))" "winv J w" "w_idc w = k"
    and "run_state (exec DBc q) (w\<lparr>w_idc := Suc k\<rparr>) = (r, w')"
  shows "winv J w'"
proof -
  obtain out w1 where n: "nextOutcome (w\<lparr>w_idc := Suc k\<rparr>) = (out, w1)" by (cases "nextOutcome (w\<lparr>w_idc := Suc k\<rparr>)")
  show ?thesis
    using assms n nextOutcome_frame [OF n] later [of k "w_db w"]
    by (cases out) (auto simp: exec_def winv_def)
qed

lemma keeps_CreateAuthRequest: "keeps (winv J) (CreateAuthRequest st ctx req)"
proof (rule keepsI)
  fix w r w'
  assume w: "winv J w" and r: "run_state (CreateAuthRequest st ctx req) w = (r, w')"
  show "winv J w'"
  proof (cases "checkAuthorize st (ResolveClient st (q_ClientID req)) (ResourceFromContext ctx) req")
    case (Some e)
    with w r show ?thesis by (simp add: CreateAuthRequest_def)
  next
    case None
    with r have "\<exists>row r1. ar_ID row = s_uuid st (w_idc w)
      \<and> run_state (exec DBc (InsertAuthRequest row)) (w\<lparr>w_idc := Suc (w_idc w)\<rparr>) = (r1, w')"
      by (auto simp: CreateAuthRequest_def Let_def run_attempt split: prod.splits sum.splits intro!: exI)
    then obtain row r1 where "ar_ID row = s_uuid st (w_idc w)"
      and e: "run_state (exec DBc (InsertAuthRequest row)) (w\<lparr>w_idc := Suc (w_idc w)\<rparr>) = (r1, w')" by blast
    then show ?thesis by (intro exec_fresh [OF _ w refl e] new_request)
  qed
qed

lemma keeps_StoreDevice: "keeps (winv J) (StoreDeviceAuthorization st ctx cid dcode ucode t scopes)"
proof (rule keepsI)
  fix w r w'
  assume w: "winv J w" and r: "run_state (StoreDeviceAuthorization st ctx cid dcode ucode t scopes) w = (r, w')"
  show "winv J w'"
  proof (cases "codeAtRest st dcode")
    case (Inl e)
    with w r later show ?thesis by (auto simp: StoreDeviceAuthorization_def run_attempt winv_def)
  next
    case (Inr dh)
    then obtain uh where uh: "codeAtRest st ucode = Inr uh" by (cases "s_keys st") (auto simp: codeAtRest_def)
    let ?row = "\<lparr>dc_ID = s_uuid st (w_idc w), dc_DeviceCode = dh, dc_UserCode = uh, dc_ClientID = cid,
        dc_Scopes = scopes, dc_State = ''pending'', dc_Subject = None, dc_ExpiresAt = t, dc_AuthTime = None,
        dc_CreatedAt = w_now w, dc_LastPolledAt = None\<rparr>"
    obtain r1 w1 where e: "run_state (exec DBc (InsertDeviceCode ?row)) (w\<lparr>w_idc := Suc (w_idc w)\<rparr>) = (r1, w1)"
      by (cases "run_state (exec DBc (InsertDeviceCode ?row)) (w\<lparr>w_idc := Suc (w_idc w)\<rparr>)")
    have "winv J w1" by (rule exec_fresh [OF _ w refl e]) (simp add: new_device)
    with r e Inr uh keepsD [OF keeps_audit(1)] show ?thesis
      by (cases r1) (auto simp: StoreDeviceAuthorization_def run_attempt)
  qed
qed

lemma keeps_DeleteUser: "keeps (winv J) (DeleteUser uid now None)"
  unfolding DeleteUser_def option.case by (intro frame update)

lemma keeps_cleanup:
  assumes "cs_deleteUserHook c = None" "runAll c free released w = Some w'" "winv J w"
  shows "winv J w'"
proof -
  have idle: "keeps (winv J) (attempt (exec DBc (\<lambda>d. (Inr (), d))) (\<lambda>_. exec DBc (\<lambda>d. (Inr b, d))))"
    "keeps (winv J) (exec DBc (\<lambda>d. (Inr b, d)))" for b :: bool
    by (intro frame query; simp)+
  have jobs: "winv J w2" if "j \<in> set (cleanupJobs c now)" "winv J w1" "j w1 = Some (e, w2)" for j now w1 e w2
  proof -
    have del: "winv J w2" if "j = batchJob (deleteInBatches b (\<lambda>b. exec DBc (q b)))" "\<And>b. common_effect (\<lambda>d. snd (q b d))" for b q
      using winv_batchJob [of b "\<lambda>b. exec DBc (q b)" w1 e w2 "winv J"] \<open>j w1 = Some (e, w2)\<close> \<open>winv J w1\<close> that
      by (simp add: winv_common)
    have act: "winv J w2" if "j = actJob (exec DBc q)" "common_effect (\<lambda>d. snd (q d))" for q :: "nat stmt"
      using \<open>j w1 = Some (e, w2)\<close> that keepsD [OF winv_common [OF that(2)] \<open>winv J w1\<close>]
      by (auto simp: actJob_def split: prod.splits sum.splits)
    have lst: "keeps (winv J) (exec DBc (ListPendingDeletionUserIDsBefore now))" by (rule query) simp
    have users: "winv J w2" if "j = deletionJob None now"
      using \<open>j w1 = Some (e, w2)\<close> that keepsD [OF lst \<open>winv J w1\<close>] winv_deleteUsers [OF keeps_DeleteUser, of _ now]
      by (auto simp: deletionJob_def split: prod.splits sum.splits) (metis snd_conv)
    from \<open>j \<in> set (cleanupJobs c now)\<close> assms(1) show ?thesis
      unfolding cleanupJobs_def runner_defs
      by (auto intro: users act common_effect.intros del)
  qed
  from assms(2) obtain r1 w1 where l: "run_state (attempt (exec DBc (\<lambda>d. (Inr (), d))) (\<lambda>_. exec DBc (\<lambda>d. (Inr free, d)))) w = (r1, w1)"
    and rest: "w' = w1 \<or> (\<exists>e2 w2. runAllLocked c w1 = Some (e2, w2) \<and> w' = snd (run_state (exec DBc (\<lambda>d. (Inr released, d))) w2))"
    by (auto simp: runAll_def WithExclusiveLock_def split: prod.splits sum.splits option.splits if_splits)
  have "winv J w1" using keepsD [OF idle(1) assms(3) l] .
  moreover have "winv J w2" if "runAllLocked c w1 = Some (e2, w2)" for e2 w2
    using winv_runJobs [of "cleanupJobs c (w_now w1)" "winv J" w1 e2 w2] jobs \<open>winv J w1\<close> that
    by (simp add: runAllLocked_def)
  ultimately show ?thesis using rest keeps_snd [OF idle(2)] by blast
qed

lemma later_le: "k \<le> l \<Longrightarrow> J k d \<Longrightarrow> J l d"
  by (induction rule: dec_induct) (auto intro: later)

theorem step_keeps: "server_step st w w' \<Longrightarrow> winv J w \<Longrightarrow> winv J w'"
proof (induction rule: server_step.induct)
  case (idle w t i fs)
  then show ?case using later_le by (auto simp: winv_def)
next
  case (cleanup c free released w w')
  then show ?case by (rule keeps_cleanup)
qed (erule (1) keepsD [rotated], intro keeps_audit keeps_CreateAuthRequest keeps_requests keeps_CreateAccessToken issuing
    keeps_TokenRequest revoking keeps_StoreDevice keeps_poll keeps_devices keeps_signup keeps_accounts)+

theorem steps_keep: "steps st w w' \<Longrightarrow> winv J w \<Longrightarrow> winv J w'"
  by (induction rule: rtranclp_induct) (auto intro: step_keeps)

end

section \<open>Invariants inside a transaction\<close>

text \<open>A predicate on worlds that survives every statement, on either connection, the end of the
  transaction and new ids; the body of an issuance and of a revocation keep it.\<close>

locale tx_invariant =
  fixes st :: Storage and I :: "world \<Rightarrow> bool"
  assumes pooled: "common_effect f \<or> token_effect f \<Longrightarrow> I w \<Longrightarrow> I (w\<lparr>w_db := f (w_db w), w_tx := map_option f (w_tx w)\<rparr>)"
    and inTx: "common_effect f \<or> token_effect f \<Longrightarrow> I w \<Longrightarrow> I (w\<lparr>w_tx := map_option f (w_tx w)\<rparr>)"
    and faults: "I w \<Longrightarrow> I (w\<lparr>w_faults := fs\<rparr>)"
    and counter: "I w \<Longrightarrow> I (w\<lparr>w_idc := Suc (w_idc w)\<rparr>)"
    and committed: "I w \<Longrightarrow> w_tx w = Some t \<Longrightarrow> I (w\<lparr>w_db := t, w_tx := None\<rparr>)"
    and dropped: "I w \<Longrightarrow> I (w\<lparr>w_tx := None\<rparr>)"
begin

lemma outcome:
  assumes "nextOutcome w = (out, w')" "I w"
  shows "I w'"
proof (cases "w_faults w")
  case Nil
  with assms show ?thesis by (simp add: nextOutcome_def)
next
  case (Cons f fs)
  with assms(1) have "w' = w\<lparr>w_faults := fs\<rparr>" by (simp add: nextOutcome_def)
  with faults [OF assms(2)] show ?thesis by simp
qed

lemma exec_worlds:
  assumes "nextOutcome w = (out, w1)" "run_state (exec c q) w = (r, w')"
  shows "w' = w1 \<or> w' = w1\<lparr>w_db := snd (q (w_db w1)), w_tx := map_option (\<lambda>t. snd (q t)) (w_tx w1)\<rparr>
    \<or> w' = w1\<lparr>w_tx := map_option (\<lambda>t. snd (q t)) (w_tx w1)\<rparr>"
  using assms by (cases c; cases out; cases "w_tx w1") (auto simp: exec_def)

lemma exec_effect:
  assumes "common_effect (\<lambda>d. snd (q d)) \<or> token_effect (\<lambda>d. snd (q d))"
  shows "keeps I (exec c q)"
proof (rule keepsI)
  fix w r w'
  assume w: "I w" "run_state (exec c q) w = (r, w')"
  obtain out w1 where n: "nextOutcome w = (out, w1)" by (cases "nextOutcome w")
  note w1 = outcome [OF n w(1)]
  from exec_worlds [OF n w(2)] w1 pooled [OF assms w1] inTx [OF assms w1] show "I w'" by auto
qed

lemma exec_read:
  assumes "\<And>d. snd (q d) = d"
  shows "keeps I (exec c q)"
proof (rule keepsI)
  fix w r w'
  assume w: "I w" "run_state (exec c q) w = (r, w')"
  obtain out w1 where n: "nextOutcome w = (out, w1)" by (cases "nextOutcome w")
  from exec_worlds [OF n w(2)] have "w' = w1" by (auto simp: assms option.map_ident)
  with outcome [OF n w(1)] show "I w'" by simp
qed

lemma commits: "keeps I commitTx"
  by (rule keepsI)
     (auto simp: commitTx_def intro: committed dropped dest: outcome split: prod.splits option.splits outcome.splits)

lemma ids: "keeps I (NewUUID st)" "keeps I (NewOpaqueToken st)" "keeps I (readNonce st)"
  by (auto intro!: keepsI counter)

lemmas common = exec_effect [OF disjI1] and token = exec_effect [OF disjI2]
lemmas rules = inv_intro commits ids common_effect.intros token_effect.intros

lemma audits: "keeps I (AuditLogEvent st u ev ip ua md)" "keeps I (writeAuditLogTx st u ev ip ua md)"
  unfolding AuditLogEvent_def writeAuditLogTx_def by (intro rules common)+

lemma consumes_code: "keeps I (consumeAuthCode st c treq)"
  unfolding consumeAuthCode_def by (cases treq; auto intro!: rules common)

lemma validates: "keeps I (validateRefreshTokenRequest st ctx rt at)"
  unfolding validateRefreshTokenRequest_def Let_def getUserByIDTx_def enforceStaticClientAccess_def notFoundOr_def
  by (intro rules exec_read audits; (simp add: rules audits split: Decision.split)?)+

lemma reuse: "keeps I (detectReuse st ctx rt at :: 'a act)"
  unfolding detectReuse_def revokeRefreshFamilyOnReuse_def tombstoneRefreshFamily_def auditRefreshReuseDetectionTx_def
  by (intro rules token audits)

lemma redeems: "keeps I (redeem rt at g)"
  unfolding redeem_def by (intro rules token)

lemma graces: "keeps I (refreshReuseGraceDecision st rt at)"
  unfolding refreshReuseGraceDecision_def countRedemptionChildren_def by (intro rules exec_read; simp)

lemma decides: "keeps I (decideRefresh st ctx rt at)"
proof -
  have "keeps I (case g of graceIssue \<Rightarrow> redeem rt at True | graceRefuse \<Rightarrow>
      attempt (auditRefreshReuseGrace st ctx (rm_UserID rt) (rm_FamilyID rt) ''refused'') (\<lambda>_. fail errRefreshGrantRefused)
      | graceNone \<Rightarrow> detectReuse st ctx rt at)" for g
    by (cases g) (auto intro!: rules redeems reuse audits simp: auditRefreshReuseGrace_def)
  then show ?thesis unfolding decideRefresh_def by (intro rules exec_read redeems graces; simp)
qed

lemma derives: "keeps I (deriveRefreshToken st ctx treq tok)"
  unfolding deriveRefreshToken_def initialRefreshTokenAttributes_def consumeRefreshToken_def loadRefreshTokenForUpdate_def
  by (intro rules exec_read validates decides; simp)

lemma looks_up: "keeps I (lookupRefreshGrant st h tok cid)"
  unfolding lookupRefreshGrant_def by (intro rules exec_read; simp)

lemma polls: "keeps I (recordPoll st dc at)" "keeps I (checkDeviceSubject st ctx dc)"
  unfolding recordPoll_def checkDeviceSubject_def getUserByIDTx_def enforceStaticClientAccess_def notFoundOr_def Let_def
  by (intro rules exec_read common audits; (simp add: rules audits split: Decision.split)?)+

end

section \<open>Invariants, statement by statement\<close>

text \<open>An invariant that every statement keeps; it is an invariant of the server.\<close>

locale effect_invariant =
  fixes st :: Storage and J :: "nat \<Rightarrow> dbs \<Rightarrow> bool"
  assumes mono: "J k d \<Longrightarrow> J (Suc k) d"
    and common_keeps: "common_effect f \<Longrightarrow> J k d \<Longrightarrow> J k (f d)"
    and token_keeps: "token_effect f \<Longrightarrow> J k d \<Longrightarrow> J k (f d)"
    and insert_request: "J k d \<Longrightarrow> ar_ID req = s_uuid st k \<Longrightarrow> J (Suc k) (snd (InsertAuthRequest req d))"
    and insert_device: "J k d \<Longrightarrow> dc_ID dev = s_uuid st k \<Longrightarrow> J (Suc k) (snd (InsertDeviceCode dev d))"

sublocale effect_invariant \<subseteq> tx: tx_invariant st "kinv J"
  by unfold_locales (auto simp: kinv_def winv_def txinv_def intro: mono common_keeps token_keeps)

context effect_invariant
begin

lemma winv_audit: "keeps (winv J) (AuditLogEvent st u ev ip ua md)"
  unfolding AuditLogEvent_def using common_keeps
  by (intro inv_intro winv_exec) (auto simp: harmless_def intro: common_effect.intros)

lemma issues: "keeps (winv J) (CreateAccessAndRefreshTokens st ctx treq tok)"
proof -
  have "keeps (winv J) (NewUUID st)" "keeps (winv J) (NewOpaqueToken st)"
    using keeps_counter [where J = J and st = st] mono by blast+
  then show ?thesis
    unfolding CreateAccessAndRefreshTokens_def auditRefreshReuseGrace_def
    by (intro winv_withTx tx.rules tx.consumes_code tx.derives tx.token tx.audits)
qed

lemma revokes: "keeps (winv J) (RevokeToken st ctx tok uid cid)"
  unfolding RevokeToken_def revokeRefreshGrant_def tombstoneRefreshFamily_def
  by (intro winv_withTx winv_audit tx.rules tx.exec_read tx.looks_up tx.token; simp)

end

sublocale effect_invariant \<subseteq> server_invariant
  by unfold_locales (auto intro: mono common_keeps insert_request insert_device issues revokes)

end
