(* ===== verification/Server_Correct.thy ===== *)
theory Server_Correct
  imports Server
begin

text \<open>
  Invariants of the running server: the keys of the schema, the refresh token families, requests
  that were exchanged and device codes that were consumed, each an interpretation of the locales of
  \<open>Server\<close>. The theorems hold for every reachable world, so for every order of the operations and
  every pattern of failing database calls.
\<close>

section \<open>Keys\<close>

lemma distinct_del_limit: "distinct (map g rs) \<Longrightarrow> distinct (map g (del_limit n P rs))"
proof (induction n P rs rule: del_limit.induct)
  case (2 n P r rs)
  have "g ` set (del_limit m P rs) \<subseteq> g ` set rs" for m using del_limit_subset by (rule image_mono)
  with 2 show ?case by (auto split: nat.splits)
qed simp

lemma count_del_limit_le: "count_where Q (del_limit n P rs) \<le> count_where Q rs"
  by (induction n P rs rule: del_limit.induct) (auto split: nat.splits intro: le_SucI)

lemma keys_common:
  assumes "common_effect f" "keys_wf d"
  shows "keys_wf (f d)"
  using assms
  by cases (auto simp: sql_defs keys_wf_def userExists_def list_ex_iff redactUser_def Let_def intro: distinct_del_limit
       split: option.splits if_splits)

lemma keys_token:
  assumes "token_effect f" "keys_wf d"
  shows "keys_wf (f d)"
  using assms by cases (auto simp: sql_defs keys_wf_def list_ex_iff revokeFamilyRows_def tombstoned_def)

interpretation keys: effect_invariant st "\<lambda>_. keys_wf" for st
proof
  show "keys_wf (snd (InsertAuthRequest req d))" if "keys_wf d" for d req
    using that by (auto simp: InsertAuthRequest_def keys_wf_def list_ex_iff)
  show "keys_wf (snd (InsertDeviceCode dev d))" if "keys_wf d" for d dev
    using that by (auto simp: InsertDeviceCode_def keys_wf_def list_ex_iff)
qed (auto intro: keys_common keys_token)

section \<open>Refresh tokens\<close>

lemma rinv_common:
  assumes "common_effect f" "rinv st k d"
  shows "rinv st k (f d)"
proof -
  have free: "rinv st k d'" if "refresh_tokens d' = refresh_tokens d" "refresh_token_families d' = refresh_token_families d" for d'
    using that assms(2) rinv_cong by blast
  have fewer: "rinv st k (d\<lparr>refresh_tokens := rs\<rparr>)"
    if "distinct (map rt_ID rs)" "set rs \<subseteq> set (refresh_tokens d)" "\<And>P. count_where P rs \<le> count_where P (refresh_tokens d)" for rs
    using rinv_delete [OF assms(2) that, of "refresh_token_families d"] by simp
  have stale: "rinv st k (d\<lparr>refresh_token_families := fs\<rparr>)" if "set fs \<subseteq> set (refresh_token_families d)" for fs
    using rinv_delete [OF assms(2) _ _ _ that, of "refresh_tokens d"] assms(2) by (simp add: rinv_def)
  have ids: "distinct (map rt_ID (refresh_tokens d))" using assms(2) by (simp add: rinv_def)
  from assms(1) show ?thesis
  proof cases
    case (10 t uid)
    then show ?thesis using assms(2) by (simp add: rinv_RevokeActive)
  next
    case (19 t n)
    then show ?thesis using fewer ids
      by (simp add: DeleteRevokedRefreshTokensBefore_def distinct_del_limit del_limit_subset count_del_limit_le)
  next
    case (20 t n)
    then show ?thesis using fewer ids
      by (simp add: DeleteExpiredRefreshTokensBefore_def distinct_del_limit del_limit_subset count_del_limit_le)
  next
    case (24 t n)
    then show ?thesis using stale by (simp add: DeleteStaleRefreshTokenFamiliesBefore_def del_limit_subset)
  next
    case (27 uid)
    then show ?thesis unfolding DeleteRefreshTokensByUserID_def using ids
      by (auto intro!: fewer distinct_map_del_where simp: count_where_del_le)
  qed (auto simp: sql_defs Let_def intro!: free split: option.splits if_splits)
qed

interpretation tokens: server_invariant st "\<lambda>k d. inj (s_uuid st) \<longrightarrow> rinv st k d" for st
proof
  have w: "winv (\<lambda>k d. inj (s_uuid st) \<longrightarrow> rinv st k d) = (\<lambda>w. inj (s_uuid st) \<longrightarrow> winv (rinv st) w)" for st
    by (auto simp: winv_def fun_eq_iff)
  have k: "keeps (winv (\<lambda>k d. inj (s_uuid st) \<longrightarrow> rinv st k d)) m" if "inj (s_uuid st) \<Longrightarrow> keeps (winv (rinv st)) m" for st and m :: "'a act"
    using that unfolding w by (auto intro!: keepsI dest: keepsD)
  show "keeps (winv (\<lambda>k d. inj (s_uuid st) \<longrightarrow> rinv st k d)) (CreateAccessAndRefreshTokens st ctx treq token)" for ctx treq token
    by (rule k) (rule tri_keeps [OF tri_CreateAccessAndRefreshTokens])
  show "keeps (winv (\<lambda>k d. inj (s_uuid st) \<longrightarrow> rinv st k d)) (RevokeToken st ctx tok uid cid)" for ctx tok uid cid
    by (rule k) (rule tri_keeps [OF tri_RevokeToken])
  have free: "rinv st (Suc k) d'" if "rinv st k d" "refresh_tokens d' = refresh_tokens d"
    "refresh_token_families d' = refresh_token_families d" for k d d'
    using that rinv_cong rinv_Suc by blast
  show "inj (s_uuid st) \<longrightarrow> rinv st (Suc k) (snd (InsertAuthRequest req d))" if "inj (s_uuid st) \<longrightarrow> rinv st k d" for k d req
    using that free by (auto simp: InsertAuthRequest_def)
  show "inj (s_uuid st) \<longrightarrow> rinv st (Suc k) (snd (InsertDeviceCode dev d))" if "inj (s_uuid st) \<longrightarrow> rinv st k d" for k d dev
    using that free by (auto simp: InsertDeviceCode_def)
qed (blast intro: rinv_Suc rinv_common)+

section \<open>Exchanged requests\<close>

definition requestIds :: "Storage \<Rightarrow> nat \<Rightarrow> dbs \<Rightarrow> bool" where
  "requestIds st k d \<longleftrightarrow> (\<forall>x \<in> ar_ID ` set (auth_requests d). below st k x)"

text \<open>The request \<open>X\<close> is gone; its id was handed out, so no new request will get it.\<close>

definition requestSpent :: "Storage \<Rightarrow> string \<Rightarrow> nat \<Rightarrow> dbs \<Rightarrow> bool" where
  "requestSpent st X k d \<longleftrightarrow> below st k X \<and> X \<notin> ar_ID ` set (auth_requests d)"

lemma common_requests:
  assumes "common_effect f"
  shows "ar_ID ` set (auth_requests (f d)) \<subseteq> ar_ID ` set (auth_requests d)"
  using assms
proof cases
  case (22 t n)
  then show ?thesis using del_limit_subset by (fastforce simp: DeleteExpiredAuthRequestsBefore_def)
qed (auto simp: sql_defs Let_def image_upd_where split: option.splits if_splits)

lemma token_requests: "token_effect f \<Longrightarrow> auth_requests (f d) = auth_requests d"
  by (cases rule: token_effect.cases) (auto simp: sql_defs)

lemma below_Suc [intro]: "below st k s \<Longrightarrow> below st (Suc k) s"
  by (auto intro: below_mono)

lemma below_new [simp]: "below st (Suc k) (s_uuid st k)"
  by (auto simp: below_def)

lemma below_fresh: "inj (s_uuid st) \<Longrightarrow> \<not> below st k (s_uuid st k)"
  by (auto simp: below_def dest: injD)

lemma auth_requests_InsertDevice [simp]: "auth_requests (snd (InsertDeviceCode dev d)) = auth_requests d"
  by (simp add: InsertDeviceCode_def)

lemma requests_Insert: "ar_ID ` set (auth_requests (snd (InsertAuthRequest req d))) \<subseteq> insert (ar_ID req) (ar_ID ` set (auth_requests d))"
  by (auto simp: InsertAuthRequest_def)

interpretation requests: effect_invariant st "requestIds st" for st
proof
  show "requestIds st k (f d)" if "common_effect f" "requestIds st k d" for f k d
    using common_requests [OF that(1), of d] that(2) unfolding requestIds_def by blast
  show "requestIds st (Suc k) (snd (InsertAuthRequest req d))" if "requestIds st k d" "ar_ID req = s_uuid st k" for k d req
    unfolding requestIds_def
  proof
    fix x
    assume "x \<in> ar_ID ` set (auth_requests (snd (InsertAuthRequest req d)))"
    with requests_Insert [of req d] have "x = ar_ID req \<or> x \<in> ar_ID ` set (auth_requests d)" by blast
    then show "below st (Suc k) x" using that by (auto simp: requestIds_def)
  qed
qed (auto simp: requestIds_def token_requests)

interpretation spent: effect_invariant st "\<lambda>k d. inj (s_uuid st) \<longrightarrow> requestSpent st X k d" for st X
proof
  show "inj (s_uuid st) \<longrightarrow> requestSpent st X k (f d)" if "common_effect f" "inj (s_uuid st) \<longrightarrow> requestSpent st X k d" for f k d
    using common_requests [OF that(1), of d] that(2) by (auto simp: requestSpent_def)
  show "inj (s_uuid st) \<longrightarrow> requestSpent st X (Suc k) (snd (InsertAuthRequest req d))"
    if "inj (s_uuid st) \<longrightarrow> requestSpent st X k d" "ar_ID req = s_uuid st k" for k d req
    using requests_Insert [of req d] that below_fresh [of st k] by (auto simp: requestSpent_def)
qed (auto simp: requestSpent_def token_requests)

text \<open>The id counter never goes back.\<close>

interpretation counter: effect_invariant st "\<lambda>k _. n \<le> k" for st n
  by unfold_locales auto

section \<open>Consumed device codes\<close>

definition deviceIds :: "Storage \<Rightarrow> nat \<Rightarrow> dbs \<Rightarrow> bool" where
  "deviceIds st k d \<longleftrightarrow> (\<forall>c \<in> set (device_codes d). below st k (dc_ID c))"

definition deviceSpent :: "Storage \<Rightarrow> string \<Rightarrow> nat \<Rightarrow> dbs \<Rightarrow> bool" where
  "deviceSpent st X k d \<longleftrightarrow> below st k X \<and> (\<forall>c \<in> set (device_codes d). dc_ID c = X \<longrightarrow> dc_State c = ''consumed'')"

text \<open>What may become of a device code: what was granted and to which client never changes, and once
  it is decided the decision stands; a decided code can only be consumed.\<close>

definition deviceStep :: "DeviceCode \<Rightarrow> DeviceCode \<Rightarrow> bool" where
  "deviceStep c0 c \<longleftrightarrow> dc_ID c = dc_ID c0 \<and> dc_ClientID c = dc_ClientID c0 \<and> dc_Scopes c = dc_Scopes c0
     \<and> dc_DeviceCode c = dc_DeviceCode c0 \<and> dc_UserCode c = dc_UserCode c0 \<and> dc_ExpiresAt c = dc_ExpiresAt c0
     \<and> (dc_State c0 \<noteq> ''pending'' \<longrightarrow> dc_Subject c = dc_Subject c0 \<and> dc_AuthTime c = dc_AuthTime c0
          \<and> (dc_State c = dc_State c0 \<or> dc_State c = ''consumed''))"

lemma deviceStep_refl [simp]: "deviceStep c c"
  by (simp add: deviceStep_def)

lemma deviceStep_trans: "deviceStep a b \<Longrightarrow> deviceStep b c \<Longrightarrow> deviceStep a c"
  by (auto simp: deviceStep_def)

definition deviceFrom :: "Storage \<Rightarrow> DeviceCode \<Rightarrow> nat \<Rightarrow> dbs \<Rightarrow> bool" where
  "deviceFrom st c0 k d \<longleftrightarrow> below st k (dc_ID c0) \<and> (\<forall>c \<in> set (device_codes d). dc_ID c = dc_ID c0 \<longrightarrow> deviceStep c0 c)"

lemma common_devices:
  assumes "common_effect f" "c \<in> set (device_codes (f d))"
  shows "\<exists>c0 \<in> set (device_codes d). deviceStep c0 c"
  using assms
proof cases
  case (23 t n)
  then show ?thesis using assms(2) del_limit_subset deviceStep_refl
    by (fastforce simp: DeleteExpiredDeviceCodesBefore_def)
qed (auto simp: sql_defs Let_def approvable_def deviceStep_def split: option.splits if_splits elim!: upd_whereE)

lemma token_devices: "token_effect f \<Longrightarrow> device_codes (f d) = device_codes d"
  by (cases rule: token_effect.cases) (auto simp: sql_defs)

lemma device_codes_InsertRequest [simp]: "device_codes (snd (InsertAuthRequest req d)) = device_codes d"
  by (simp add: InsertAuthRequest_def)

lemma devices_Insert:
  "c \<in> set (device_codes (snd (InsertDeviceCode dev d))) \<Longrightarrow> c \<in> set (device_codes d) \<or> dc_ID c = dc_ID dev"
  by (auto simp: InsertDeviceCode_def split: if_splits)

interpretation devices: effect_invariant st "deviceIds st" for st
proof
  show "deviceIds st k (f d)" if "common_effect f" "deviceIds st k d" for f k d
    using common_devices [OF that(1), of _ d] that(2) by (fastforce simp: deviceIds_def deviceStep_def)
  show "deviceIds st (Suc k) (snd (InsertDeviceCode dev d))" if "deviceIds st k d" "dc_ID dev = s_uuid st k" for k d dev
    using devices_Insert [of _ dev d] that by (fastforce simp: deviceIds_def)
qed (auto simp: deviceIds_def token_devices)

interpretation consumed: effect_invariant st "\<lambda>k d. inj (s_uuid st) \<longrightarrow> deviceSpent st X k d" for st X
proof
  show "inj (s_uuid st) \<longrightarrow> deviceSpent st X k (f d)" if "common_effect f" "inj (s_uuid st) \<longrightarrow> deviceSpent st X k d" for f k d
    using common_devices [OF that(1), of _ d] that(2) by (fastforce simp: deviceSpent_def deviceStep_def)
  show "inj (s_uuid st) \<longrightarrow> deviceSpent st X (Suc k) (snd (InsertDeviceCode dev d))"
    if "inj (s_uuid st) \<longrightarrow> deviceSpent st X k d" "dc_ID dev = s_uuid st k" for k d dev
    using devices_Insert [of _ dev d] that below_fresh [of st k] by (fastforce simp: deviceSpent_def)
qed (auto simp: deviceSpent_def token_devices)

interpretation decided: effect_invariant st "\<lambda>k d. inj (s_uuid st) \<longrightarrow> deviceFrom st c0 k d" for st c0
proof
  show "inj (s_uuid st) \<longrightarrow> deviceFrom st c0 k (f d)" if "common_effect f" "inj (s_uuid st) \<longrightarrow> deviceFrom st c0 k d" for f k d
  proof (clarsimp simp: deviceFrom_def)
    assume "inj (s_uuid st)"
    with that(2) have d: "deviceFrom st c0 k d" by simp
    moreover have "deviceStep c0 c" if c: "c \<in> set (device_codes (f d))" "dc_ID c = dc_ID c0" for c
    proof -
      from common_devices [OF \<open>common_effect f\<close> c(1)] obtain b where b: "b \<in> set (device_codes d)" "deviceStep b c" by blast
      with c(2) d have "deviceStep c0 b" by (auto simp: deviceFrom_def deviceStep_def)
      then show ?thesis using b(2) by (rule deviceStep_trans)
    qed
    ultimately show "below st k (dc_ID c0) \<and> (\<forall>c \<in> set (device_codes (f d)). dc_ID c = dc_ID c0 \<longrightarrow> deviceStep c0 c)"
      by (simp add: deviceFrom_def)
  qed
  show "inj (s_uuid st) \<longrightarrow> deviceFrom st c0 (Suc k) (snd (InsertDeviceCode dev d))"
    if "inj (s_uuid st) \<longrightarrow> deviceFrom st c0 k d" "dc_ID dev = s_uuid st k" for k d dev
    using devices_Insert [of _ dev d] that below_fresh [of st k] by (fastforce simp: deviceFrom_def)
qed (auto simp: deviceFrom_def token_devices)

section \<open>Reachable worlds\<close>

lemma reachable_keeps:
  assumes "\<And>w w'. steps st w w' \<Longrightarrow> winv J w \<Longrightarrow> winv J w'" "\<And>k. J k emptyDb" "reachable st w"
  shows "J (w_idc w) (w_db w)"
  using assms unfolding reachable_def start_def winv_def by metis

lemma reachable_facts:
  assumes "reachable st w"
  shows "keys_wf (w_db w)" "requestIds st (w_idc w) (w_db w)" "deviceIds st (w_idc w) (w_db w)"
    "inj (s_uuid st) \<Longrightarrow> rinv st (w_idc w) (w_db w)"
proof -
  show "keys_wf (w_db w)" by (rule reachable_keeps [OF keys.steps_keep keys_wf_empty assms])
  show "requestIds st (w_idc w) (w_db w)"
    by (rule reachable_keeps [OF requests.steps_keep _ assms]) (simp_all add: requestIds_def emptyDb_def)
  show "deviceIds st (w_idc w) (w_db w)"
    by (rule reachable_keeps [OF devices.steps_keep _ assms]) (simp_all add: deviceIds_def emptyDb_def)
  show "rinv st (w_idc w) (w_db w)" if "inj (s_uuid st)"
    using reachable_keeps [where J = "\<lambda>k d. inj (s_uuid st) \<longrightarrow> rinv st k d", OF tokens.steps_keep _ assms] that
    by (simp add: rinv_empty)
qed

section \<open>A successful issuance spends its request\<close>

abbreviation withoutRequest :: "string \<Rightarrow> nat \<Rightarrow> dbs \<Rightarrow> bool" where
  "withoutRequest X \<equiv> \<lambda>_ d. X \<notin> ar_ID ` set (auth_requests d)"

lemma withoutRequest_effect:
  "common_effect f \<or> token_effect f \<Longrightarrow> withoutRequest X k d \<Longrightarrow> withoutRequest X k (f d)"
  using common_requests [of f d] by (auto simp: token_requests)

interpretation dropped: tx_invariant st "txinv (withoutRequest X)" for st X
proof
  show "txinv (withoutRequest X) (w\<lparr>w_db := f (w_db w), w_tx := map_option f (w_tx w)\<rparr>)"
    "txinv (withoutRequest X) (w\<lparr>w_tx := map_option f (w_tx w)\<rparr>)"
    if "common_effect f \<or> token_effect f" "txinv (withoutRequest X) w" for f w
    using that(2) withoutRequest_effect [OF that(1), of X] by (auto simp: txinv_def)
qed (auto simp: txinv_def)

lemma deleted_request:
  assumes "keys_wf d" "fst (ConsumeAuthCode X cid h now d) = Inr 1"
  shows "X \<in> ar_ID ` set (auth_requests d)" "X \<notin> ar_ID ` set (auth_requests (snd (ConsumeAuthCode X cid h now d)))"
proof -
  from assms(2) have "count_where (consumable X cid h now) (auth_requests d) \<noteq> 0" by (simp add: ConsumeAuthCode_def)
  then obtain b where b: "b \<in> set (auth_requests d)" "consumable X cid h now b" by (auto simp: count_where_eq_0_iff)
  then show "X \<in> ar_ID ` set (auth_requests d)" by (auto simp: consumable_def)
  show "X \<notin> ar_ID ` set (auth_requests (snd (ConsumeAuthCode X cid h now d)))"
  proof
    assume "X \<in> ar_ID ` set (auth_requests (snd (ConsumeAuthCode X cid h now d)))"
    then obtain c where "c \<in> set (auth_requests d)" "\<not> consumable X cid h now c" "ar_ID c = X"
      by (auto simp: ConsumeAuthCode_def)
    with b assms(1) show False by (auto simp: keys_wf_def distinct_map inj_on_def consumable_def)
  qed
qed

lemma consume_spends:
  assumes "run_state (consumeAuthCode st c (ReqAuth a)) w = (Inr (), w')" "keys_wf (w_db w)"
    and "c = TXc \<Longrightarrow> w_tx w = Some (w_db w)"
  shows "am_ID a \<in> ar_ID ` set (auth_requests (w_db w))"
    "c = DBc \<Longrightarrow> am_ID a \<notin> ar_ID ` set (auth_requests (w_db w'))"
    "c = TXc \<Longrightarrow> txinv (withoutRequest (am_ID a)) w'"
proof -
  from assms(1) obtain h w1 where e: "run_state (exec c (ConsumeAuthCode (am_ID a) (am_ClientID a) h (w_now w))) w = (Inr 1, w1)" "w' = w1"
    by (auto simp: consumeAuthCode_def run_attempt split: if_splits sum.splits prod.splits)
  let ?q = "ConsumeAuthCode (am_ID a) (am_ClientID a) h (w_now w)"
  have "fst (?q (w_db w)) = Inr 1 \<and> (c = DBc \<longrightarrow> w_db w' = snd (?q (w_db w))) \<and> (c = TXc \<longrightarrow> w_tx w' = Some (snd (?q (w_db w))))"
  proof (cases c)
    case DBc
    with e exec_DB_Inr [of ?q w 1 w1] show ?thesis by simp
  next
    case TXc
    with e assms(3) show ?thesis by (auto elim!: exec_TX_Inr)
  qed
  with deleted_request [OF assms(2)] show "am_ID a \<in> ar_ID ` set (auth_requests (w_db w))"
    "c = DBc \<Longrightarrow> am_ID a \<notin> ar_ID ` set (auth_requests (w_db w'))"
    "c = TXc \<Longrightarrow> txinv (withoutRequest (am_ID a)) w'"
    by (auto simp: txinv_def)
qed

lemma issue_spends:
  assumes "run_state (CreateAccessAndRefreshTokens st ctx (ReqAuth a) token) w = (Inr y, w')" "keys_wf (w_db w)"
  shows "am_ID a \<in> ar_ID ` set (auth_requests (w_db w))" "am_ID a \<notin> ar_ID ` set (auth_requests (w_db w'))"
proof -
  let ?X = "am_ID a"
  from assms(1) obtain tok h wb wc p wd attrs parent g where
    b: "run_state beginTx (w\<lparr>w_idc := Suc (Suc (w_idc w))\<rparr>) = (Inr (), wb)"
    and c: "run_state (consumeAuthCode st TXc (ReqAuth a)) wb = (Inr (), wc)"
    and d: "run_state (deriveRefreshToken st ctx (ReqAuth a) token) wc = (Inr (attrs, parent, g), wd)"
    and rest: "run_state (attempt (NewUUID st) (\<lambda>rid.
       attempt (exec TXc (InsertRefreshToken (newRefreshRow st rid h attrs parent (w_now w)))) (\<lambda>_.
       attempt commitTx (\<lambda>_.
       attempt (if g then auditRefreshReuseGrace st ctx (at_userID attrs) (at_familyID attrs) ''issued'' else ok ()) (\<lambda>_.
       ok (s_uuid st (w_idc w), tok, w_now w + s_accessTokenTTL st)))))) wd = (Inr y, p)"
    and w': "w' = p\<lparr>w_tx := None\<rparr>"
    by (auto simp: CreateAccessAndRefreshTokens_def run_attempt run_withTx split: prod.splits sum.splits)
  have wb: "w_db wb = w_db w" "w_tx wb = Some (w_db w)"
    using b by (auto simp: beginTx_def split: prod.splits if_splits dest!: nextOutcome_frame)
  have "keys_wf (w_db wb)" "w_tx wb = Some (w_db wb)" using wb assms(2) by simp_all
  note spent = consume_spends [OF c this(1) this(2)]
  from spent(1) wb show "?X \<in> ar_ID ` set (auth_requests (w_db w))" by simp
  have wd: "txinv (withoutRequest ?X) wd" using keepsD [OF dropped.derives spent(3) d] by simp
  from rest obtain we wf wg where
    e: "run_state (exec TXc (InsertRefreshToken (newRefreshRow st (s_uuid st (w_idc wd)) h attrs parent (w_now w))))
          (wd\<lparr>w_idc := Suc (w_idc wd)\<rparr>) = (Inr (), we)"
    and f: "run_state commitTx we = (Inr (), wf)"
    and g: "run_state (if g then auditRefreshReuseGrace st ctx (at_userID attrs) (at_familyID attrs) ''issued'' else ok ()) wf = (Inr (), p)"
    by (auto simp: run_attempt split: prod.splits sum.splits)
  have "txinv (withoutRequest ?X) we"
    by (rule keepsD [OF dropped.token [OF token_effect.intros(1)] _ e]) (use wd in \<open>simp add: txinv_def\<close>)
  with commitTx_Inr [OF f] have wf: "winv (withoutRequest ?X) wf" by (metis txinv_def winv_def)
  have "keeps (winv (withoutRequest ?X)) (if g then auditRefreshReuseGrace st ctx (at_userID attrs) (at_familyID attrs) ''issued'' else ok ())"
    unfolding auditRefreshReuseGrace_def by (simp add: audited keeps_ok audit_free_def)
  from keepsD [OF this wf g] have "winv (withoutRequest ?X) p" .
  with w' show "?X \<notin> ar_ID ` set (auth_requests (w_db w'))" by (simp add: winv_def)
qed

section \<open>A successful poll consumes its device code\<close>

abbreviation consumedDevice :: "string \<Rightarrow> nat \<Rightarrow> dbs \<Rightarrow> bool" where
  "consumedDevice X \<equiv> \<lambda>_ d. \<forall>c \<in> set (device_codes d). dc_ID c = X \<longrightarrow> dc_State c = ''consumed''"

lemma resolve_done:
  assumes "run_state (resolveDeviceAuthorizationState dc at) w = (Inr s, w')" "ds_Done s"
  shows "at \<le> dm_ExpiresAt dc \<and> dm_State dc = ''approved'' \<and> s = toApprovedDeviceAuthorizationState dc
    \<and> (\<exists>w1. run_state (exec TXc (UpdateDeviceCodeStateConsumedByID (dm_ID dc))) w = (Inr (), w1) \<and> run_state commitTx w1 = (Inr (), w'))"
proof -
  have no: False if "run_state (attempt commitTx (\<lambda>_. ok t)) w = (Inr s, w')" "\<not> ds_Done t" for t
    using that assms(2) by (auto simp: run_attempt split: prod.splits sum.splits)
  have a: "at \<le> dm_ExpiresAt dc" "dm_State dc = ''approved''"
  proof -
    show at: "at \<le> dm_ExpiresAt dc"
      using assms(1) no by (fastforce simp: resolveDeviceAuthorizationState_def deviceState_def not_less split: if_splits)
    show "dm_State dc = ''approved''"
      using assms(1) no at
      by (fastforce simp: resolveDeviceAuthorizationState_def deviceState_def run_attempt split: if_splits prod.splits sum.splits)
  qed
  with assms(1) show ?thesis
    by (auto simp: resolveDeviceAuthorizationState_def run_attempt split: prod.splits sum.splits)
qed

lemma poll_done:
  assumes "run_state (GetDeviceAuthorizatonState st ctx cid dcode) w = (Inr s, w')" "ds_Done s"
  shows "\<exists>h c. codeAtRest st dcode = Inr h \<and> c \<in> set (device_codes (w_db w)) \<and> dc_DeviceCode c = h \<and> dc_ClientID c = cid
    \<and> dc_State c = ''approved'' \<and> w_now w \<le> dc_ExpiresAt c \<and> ds_Subject s = coalesce (dc_Subject c) \<and> ds_ClientID s = cid
    \<and> ds_Scopes s = dc_Scopes c \<and> consumedDevice (dc_ID c) 0 (w_db w')"
proof -
  from assms(1) obtain h wb c wc wd where h: "codeAtRest st dcode = Inr h"
    and b: "run_state beginTx w = (Inr (), wb)"
    and l: "run_state (exec TXc (GetDeviceAuthorizationForUpdate h cid)) wb = (Inr c, wc)"
    and p: "run_state (recordPoll st (deviceModelForUpdate c) (w_now wc)) wc = (Inr False, wd)"
    and rest: "\<exists>we wf. run_state (checkDeviceSubject st ctx (deviceModelForUpdate c)) wd = (Inr (), we)
      \<and> run_state (resolveDeviceAuthorizationState (deviceModelForUpdate c) (w_now wc)) we = (Inr s, wf) \<and> w' = wf\<lparr>w_tx := None\<rparr>"
    by (auto simp: GetDeviceAuthorizatonState_def loadDeviceAuthorizationForUpdate_def notFoundOr_def run_attempt run_attemptOr run_withTx
        split: prod.splits sum.splits if_splits)
  have "w_tx wb = Some (w_db w)" using b by (auto simp: beginTx_def split: prod.splits if_splits dest!: nextOutcome_frame)
  with l have c: "c \<in> set (device_codes (w_db w))" "dc_DeviceCode c = h" "dc_ClientID c = cid"
    by (auto elim!: exec_TX_Inr simp: GetDeviceAuthorizationForUpdate_def dest!: one_row_Inr)
  have now: "w_now wc = w_now w" using now_begin [OF b] now_exec [OF l] by simp
  from rest obtain we wf where r: "run_state (resolveDeviceAuthorizationState (deviceModelForUpdate c) (w_now wc)) we = (Inr s, wf)"
    and w': "w' = wf\<lparr>w_tx := None\<rparr>" by blast
  have m: "dm_ID (deviceModelForUpdate c) = dc_ID c" "dm_State (deviceModelForUpdate c) = dc_State c"
    "dm_ExpiresAt (deviceModelForUpdate c) = dc_ExpiresAt c" by (simp_all add: deviceModelForUpdate_def)
  from resolve_done [OF r assms(2)] obtain wg where
    u: "run_state (exec TXc (UpdateDeviceCodeStateConsumedByID (dc_ID c))) we = (Inr (), wg)"
    and f: "run_state commitTx wg = (Inr (), wf)"
    and s: "s = toApprovedDeviceAuthorizationState (deviceModelForUpdate c)" "dc_State c = ''approved''" "w_now wc \<le> dc_ExpiresAt c"
    unfolding m by blast
  from u f obtain t where t: "w_db wf = snd (UpdateDeviceCodeStateConsumedByID (dc_ID c) t)"
    by (metis commitTx_Inr exec_TX_Inr option.inject)
  have "consumedDevice (dc_ID c) 0 (w_db w')"
    unfolding w' by (auto simp: t UpdateDeviceCodeStateConsumedByID_def elim!: upd_whereE)
  with h c s now show ?thesis
    by (auto simp: toApprovedDeviceAuthorizationState_def deviceModelForUpdate_def deviceState_def)
qed

section \<open>Properties\<close>

text \<open>C4: In every reachable world, whatever the order of operations and the failures of the database:
  no token of a tombstoned family is live, a token that was not redeemed has no child, no token has
  more than three children and none more than one where the reuse grace is off for its client, and
  a child carries its parent's family, owner, client, resource and scopes.\<close>

theorem refresh_families_safe:
  assumes "reachable st w" "inj (s_uuid st)" "t \<in> set (refresh_tokens (w_db w))"
  shows "(tombstoned (w_db w) (rt_FamilyID t) \<longrightarrow> rt_RevokedAt t \<noteq> None)
    \<and> (rt_UsedAt t = None \<longrightarrow> children (w_db w) (rt_ID t) = 0)
    \<and> children (w_db w) (rt_ID t) \<le> 3
    \<and> (s_refreshReuseGrace st \<le> 0 \<or> \<not> StaticRefreshGraceAllowed (s_registry st) (rt_ClientID t)
         \<longrightarrow> children (w_db w) (rt_ID t) \<le> 1)
    \<and> (\<forall>c \<in> set (refresh_tokens (w_db w)). rt_ParentID c = Some (rt_ID t) \<longrightarrow> sameGrant c t)"
  using reachable_facts(4) [OF assms(1,2)] assms(3)
  by (auto simp: rinv_def rowInv_def graceOn_def refreshReuseGraceMaxIssued_def)

text \<open>C3: An authorization code buys tokens once: after tokens were issued for a request, by either
  operation, no later issuance for it succeeds, in any continuation of the server's run.\<close>

theorem auth_code_exchanged_once:
  assumes "reachable st w" "inj (s_uuid st)"
    and "(\<exists>x. run_state (CreateAccessToken st (ReqAuth a)) w = (Inr x, w1))
      \<or> (\<exists>y. run_state (CreateAccessAndRefreshTokens st ctx (ReqAuth a) token) w = (Inr y, w1))"
    and "steps st w1 w2"
  shows "(\<exists>e. fst (run_state (CreateAccessToken st (ReqAuth a)) w2) = Inl e)
    \<and> (\<exists>e. fst (run_state (CreateAccessAndRefreshTokens st ctx' (ReqAuth a) token') w2) = Inl e)"
proof -
  let ?X = "am_ID a"
  note facts = reachable_facts [OF assms(1)]
  have at: "?X \<in> ar_ID ` set (auth_requests (w_db v)) \<and> ?X \<notin> ar_ID ` set (auth_requests (w_db v'))"
    if "keys_wf (w_db v)" "run_state (CreateAccessToken st (ReqAuth a)) v = (Inr x, v')" for v v' x
  proof -
    from that(2) obtain v1 where "run_state (consumeAuthCode st DBc (ReqAuth a)) v = (Inr (), v1)" "w_db v' = w_db v1"
      by (auto simp: CreateAccessToken_def run_attempt split: sum.splits prod.splits)
    with consume_spends [OF this(1) that(1)] show ?thesis by simp
  qed
  have step: "server_step st w w1" using assms(3) by (auto intro: server_step.intros)
  with assms(1) have w1: "reachable st w1" unfolding reachable_def by (meson rtranclp.rtrancl_into_rtrancl)
  have "?X \<in> ar_ID ` set (auth_requests (w_db w))" "?X \<notin> ar_ID ` set (auth_requests (w_db w1))"
    using assms(3) at [OF facts(1)] issue_spends [OF _ facts(1)] by blast+
  moreover have "w_idc w \<le> w_idc w1" using counter.step_keeps [OF step] by (simp add: winv_def)
  ultimately have "winv (\<lambda>k d. inj (s_uuid st) \<longrightarrow> requestSpent st ?X k d) w1"
    using facts(2) below_mono [of st "w_idc w" ?X "w_idc w1"] by (auto simp: winv_def requestSpent_def requestIds_def)
  from spent.steps_keep [OF assms(4) this] assms(2) have gone: "?X \<notin> ar_ID ` set (auth_requests (w_db w2))"
    by (simp add: winv_def requestSpent_def)
  have "reachable st w2" using w1 assms(4) unfolding reachable_def by (meson rtranclp_trans)
  note k = reachable_facts(1) [OF this]
  from gone at [OF k] issue_spends(1) [OF _ k] show ?thesis
    by (metis prod.collapse sum.collapse(2) sum.collapse(1))
qed

text \<open>C7: A device authorization yields tokens once: after a poll answered that it was approved, no
  later poll of this authorization does, in any continuation of the server's run, as long as no new
  authorization was stored under the same device code.\<close>

theorem device_code_polled_once:
  assumes "reachable st w" "inj (s_uuid st)" "codeAtRest st dcode = Inr h"
    and "run_state (GetDeviceAuthorizatonState st ctx cid dcode) w = (Inr s, w1)" "ds_Done s"
    and "row \<in> set (device_codes (w_db w))" "dc_DeviceCode row = h"
    and "steps st w1 w2"
    and "\<forall>c \<in> set (device_codes (w_db w2)). dc_DeviceCode c = h \<longrightarrow> dc_ID c = dc_ID row"
    and "run_state (GetDeviceAuthorizatonState st ctx' cid' dcode) w2 = (Inr s2, w3)"
  shows "\<not> ds_Done s2"
proof
  assume dn: "ds_Done s2"
  note facts = reachable_facts [OF assms(1)]
  from poll_done [OF assms(4,5)] assms(3) obtain c where "c \<in> set (device_codes (w_db w))" "dc_DeviceCode c = h"
    and c: "consumedDevice (dc_ID c) 0 (w_db w1)" by auto
  with facts(1) assms(6,7) have row: "c = row" by (auto simp: keys_wf_def distinct_map inj_on_def)
  have step: "server_step st w w1" using assms(4) by (rule server_step.devicePoll)
  have "w_idc w \<le> w_idc w1" using counter.step_keeps [OF step] by (simp add: winv_def)
  with facts(3) assms(6) have "below st (w_idc w1) (dc_ID row)" by (auto simp: deviceIds_def intro: below_mono)
  with c row have "winv (\<lambda>k d. inj (s_uuid st) \<longrightarrow> deviceSpent st (dc_ID row) k d) w1"
    by (simp add: winv_def deviceSpent_def)
  from consumed.steps_keep [OF assms(8) this] assms(2)
  have "\<forall>c \<in> set (device_codes (w_db w2)). dc_ID c = dc_ID row \<longrightarrow> dc_State c = ''consumed''"
    by (simp add: winv_def deviceSpent_def)
  with poll_done [OF assms(10) dn] assms(3,9) show False by auto
qed

text \<open>C8: The decision about a device authorization is final. Whatever the server does from a
  reachable world on, a code keeps its client, scopes and expiry; once it was approved or denied,
  the subject and time of the approval stay and the code can only become consumed, so a denied code
  is never approved and an approved one is never handed to another account.\<close>

theorem device_decision_final:
  assumes "reachable st w" "inj (s_uuid st)" "steps st w w'"
    and "c0 \<in> set (device_codes (w_db w))" "c \<in> set (device_codes (w_db w'))" "dc_ID c = dc_ID c0"
  shows "dc_ClientID c = dc_ClientID c0 \<and> dc_Scopes c = dc_Scopes c0 \<and> dc_ExpiresAt c = dc_ExpiresAt c0
    \<and> (dc_State c0 \<noteq> ''pending'' \<longrightarrow>
         dc_Subject c = dc_Subject c0 \<and> dc_AuthTime c = dc_AuthTime c0 \<and> dc_State c \<in> {dc_State c0, ''consumed''})"
proof -
  note facts = reachable_facts [OF assms(1)]
  have "x = c0" if "x \<in> set (device_codes (w_db w))" "dc_ID x = dc_ID c0" for x
    using facts(1) that assms(4) by (auto simp: keys_wf_def distinct_map inj_on_def)
  with facts(3) assms(4) have "winv (\<lambda>k d. inj (s_uuid st) \<longrightarrow> deviceFrom st c0 k d) w"
    using deviceStep_refl [of c0] unfolding winv_def deviceFrom_def deviceIds_def by metis
  from decided.steps_keep [OF assms(3) this] assms(2,5,6) show ?thesis
    by (auto simp: winv_def deviceFrom_def deviceStep_def)
qed

section \<open>Witnesses\<close>

text \<open>A short run of the example server: /authorize, login, code; and a device authorization.\<close>

definition exampleStart :: world where "exampleStart = exampleWorld emptyDb"

definition codeRun :: world where
  "codeRun = snd (run_state (SaveAuthCode exampleStorage ''u'' ''code'')
     (snd (run_state (CompleteAuthRequest exampleStorage ''u'' ''alice'' 0)
       (snd (run_state (CreateAuthRequest exampleStorage exampleCtx exampleOidc) exampleStart)))))"

definition deviceRun :: world where
  "deviceRun = snd (run_state (ApproveDeviceCode exampleStorage ''user'' ''alice'' 0)
     (snd (run_state (StoreDeviceAuthorization exampleStorage exampleCtx ''app'' ''dev'' ''user'' 100 [''openid'']) exampleStart)))"

lemma exampleStart_reachable: "reachable exampleStorage exampleStart"
  unfolding reachable_def by (rule exI [of _ exampleStart]) (simp add: start_def exampleStart_def)

lemma reachable_step: "reachable st w \<Longrightarrow> server_step st w w' \<Longrightarrow> reachable st w'"
  unfolding reachable_def by (meson rtranclp.rtrancl_into_rtrancl)

lemma codeRun_reachable: "reachable exampleStorage codeRun"
  unfolding codeRun_def
  by (rule reachable_step [OF reachable_step [OF reachable_step [OF exampleStart_reachable]]])
     (rule server_step.authorize [OF prod.collapse [symmetric]] server_step.complete [OF prod.collapse [symmetric]]
        server_step.saveCode [OF prod.collapse [symmetric]])+

lemma deviceRun_reachable: "reachable exampleStorage deviceRun"
  unfolding deviceRun_def
  by (rule reachable_step [OF reachable_step [OF exampleStart_reachable]])
     (rule server_step.deviceStart [OF prod.collapse [symmetric]] server_step.deviceApprove [OF prod.collapse [symmetric]])+

lemma exampleUUID_1 [simp]: "s_uuid exampleStorage (Suc 0) = ''u''" "s_uuid exampleStorage 1 = ''u''"
  by (simp_all add: exampleStorage_def exampleUUID_def)

lemma checkAuthorize_example: "checkAuthorize exampleStorage c '''' exampleOidc = None"
  by (simp add: checkAuthorize_def exampleOidc_def coreResourceBindingPolicy_def split: sum.splits)

lemma exampleOidc_client: "q_ClientID exampleOidc = ''app''"
  by (simp add: exampleOidc_def)

lemma codeRun_row:
  "\<exists>r. auth_requests (w_db codeRun) = [r] \<and> ar_ID r = ''u'' \<and> ar_ClientID r = ''app'' \<and> ar_Done r
    \<and> ar_Code r = Some (CodeHash examplePrims exampleKeys ''code'') \<and> ar_ExpiresAt r = 10 + authRequestTTL"
  "w_faults codeRun = []" "w_tx codeRun = None" "w_now codeRun = 10"
  by (simp_all add: codeRun_def exampleStart_def CreateAuthRequest_def Let_def checkAuthorize_example ResourceFromContext_def exampleCtx_def
       goTrimSpace_def run_attempt CompleteAuthRequest_def SaveAuthCode_def codeAtRest_def InsertAuthRequest_def emptyDb_def
       CompleteAuthRequestByID_def UpdateAuthRequestCode_def upd_where_def timeIsZero_def authRequestTTL_def exampleOidc_client)

theorem auth_code_exchanged_once_witness:
  "\<exists>x w1. run_state (CreateAccessToken exampleStorage (ReqAuth (exampleModel\<lparr>am_ID := ''u''\<rparr>))) codeRun = (Inr x, w1)
     \<and> (\<exists>e. fst (run_state (CreateAccessToken exampleStorage (ReqAuth (exampleModel\<lparr>am_ID := ''u''\<rparr>))) w1) = Inl e)"
proof -
  let ?a = "exampleModel\<lparr>am_ID := ''u''\<rparr>"
  have "\<exists>x w1. run_state (CreateAccessToken exampleStorage (ReqAuth ?a)) codeRun = (Inr x, w1)"
    using codeRun_row
    by (auto simp: CreateAccessToken_def consumeAuthCode_def run_attempt codeAtRest_def ConsumeAuthCode_def consumable_def coalesce_def
          authRequestTTL_def)
  then obtain x w1 where r: "run_state (CreateAccessToken exampleStorage (ReqAuth ?a)) codeRun = (Inr x, w1)" by blast
  then have "(\<exists>x. run_state (CreateAccessToken exampleStorage (ReqAuth ?a)) codeRun = (Inr x, w1))
      \<or> (\<exists>y. run_state (CreateAccessAndRefreshTokens exampleStorage exampleCtx (ReqAuth ?a) '''') codeRun = (Inr y, w1))" by blast
  from auth_code_exchanged_once [OF codeRun_reachable exampleUUID_inj this rtranclp.rtrancl_refl] r show ?thesis by blast
qed

lemma deviceRun_row:
  "\<exists>c. device_codes (w_db deviceRun) = [c] \<and> dc_DeviceCode c = CodeHash examplePrims exampleKeys ''dev'' \<and> dc_ID c = ''u''
    \<and> dc_ClientID c = ''app'' \<and> dc_State c = ''approved'' \<and> dc_ExpiresAt c = 100 \<and> dc_LastPolledAt c = None"
  "w_faults deviceRun = []" "w_tx deviceRun = None" "w_now deviceRun = 10"
  by (simp_all add: deviceRun_def exampleStart_def StoreDeviceAuthorization_def run_attempt codeAtRest_def InsertDeviceCode_def emptyDb_def
       AuditLogEvent_def run_attemptOr ApproveDeviceCode_def ApproveDeviceCodeByUserCode_def upd_where_def approvable_def
       ensureDeviceCodeApproved_def timeIsZero_def prepareRow_def InsertAuditLog_def coalesce_def nullIf_def split: sum.splits)

theorem device_code_polled_once_witness:
  "\<exists>s w1. run_state (GetDeviceAuthorizatonState exampleStorage exampleCtx ''app'' ''dev'') deviceRun = (Inr s, w1) \<and> ds_Done s
     \<and> (\<forall>s2 w3. run_state (GetDeviceAuthorizatonState exampleStorage exampleCtx ''app'' ''dev'') w1 = (Inr s2, w3) \<longrightarrow> \<not> ds_Done s2)"
proof -
  let ?h = "CodeHash examplePrims exampleKeys ''dev''"
  obtain c where c: "device_codes (w_db deviceRun) = [c]" "dc_DeviceCode c = ?h" "dc_ID c = ''u''" "dc_ClientID c = ''app''"
    "dc_State c = ''approved''" "dc_ExpiresAt c = 100" "dc_LastPolledAt c = None" using deviceRun_row(1) by blast
  have "\<exists>s w1. run_state (GetDeviceAuthorizatonState exampleStorage exampleCtx ''app'' ''dev'') deviceRun = (Inr s, w1) \<and> ds_Done s
      \<and> map dc_ID (device_codes (w_db w1)) = [''u'']"
    using c deviceRun_row(2-)
    by (simp add: GetDeviceAuthorizatonState_def loadDeviceAuthorizationForUpdate_def run_withTx run_attempt run_attemptOr codeAtRest_def
          GetDeviceAuthorizationForUpdate_def one_row_def deviceModelForUpdate_def recordPoll_def UpdateDeviceCodeLastPolledAt_def
          checkDeviceSubject_def Let_def exampleApp_open Restricted_def resolveDeviceAuthorizationState_def
          UpdateDeviceCodeStateConsumedByID_def upd_where_def toApprovedDeviceAuthorizationState_def deviceState_def split: option.split)
  then obtain s w1 where r: "run_state (GetDeviceAuthorizatonState exampleStorage exampleCtx ''app'' ''dev'') deviceRun = (Inr s, w1)"
    "ds_Done s" "map dc_ID (device_codes (w_db w1)) = [''u'']" by (elim exE conjE) (rule that)
  have "\<not> ds_Done s2" if "run_state (GetDeviceAuthorizatonState exampleStorage exampleCtx ''app'' ''dev'') w1 = (Inr s2, w3)" for s2 w3
    using r(3) c
    by (intro device_code_polled_once [OF deviceRun_reachable exampleUUID_inj _ r(1,2) _ _ rtranclp.rtrancl_refl _ that, of ?h c])
       (auto simp: codeAtRest_def)
  with r show ?thesis by blast
qed

theorem device_decision_final_witness:
  "\<exists>c. device_codes (w_db deviceRun) = [c] \<and> dc_State c = ''approved''
     \<and> (\<forall>c' \<in> set (device_codes (w_db (snd (run_state (DenyDeviceCode exampleStorage ''user'') deviceRun)))).
          dc_ID c' = dc_ID c \<longrightarrow> dc_Subject c' = dc_Subject c \<and> dc_State c' \<noteq> ''denied'')"
proof -
  obtain c where c: "device_codes (w_db deviceRun) = [c]" "dc_State c = ''approved''" using deviceRun_row(1) by blast
  let ?w = "snd (run_state (DenyDeviceCode exampleStorage ''user'') deviceRun)"
  have "steps exampleStorage deviceRun ?w" by (intro r_into_rtranclp server_step.deviceDeny) (rule prod.collapse [symmetric])
  from device_decision_final [OF deviceRun_reachable exampleUUID_inj this, of c] c show ?thesis by fastforce
qed

end
