(* ===== verification/Users_Correct.thy ===== *)
theory Users_Correct
  imports Auth_Correct
begin

text \<open>
  Accounts on a healthy database: a sign-up, exactly, and the round trip from sign-up to lookup
  through the field encryption; the binding of ciphertexts to their account; the account's life
  cycle; sessions from creation to termination.
\<close>

section \<open>Sign-up\<close>

text \<open>What sign-up relies on besides the database: keys, fresh nonces of the right length, sound primitives.\<close>

definition crypto_ready :: "Storage \<Rightarrow> Keys \<Rightarrow> bool" where
  "crypto_ready st k \<longleftrightarrow> s_keys st = Some k \<and> length (piiField k) = KeySize \<and> aead_ok (s_prims st)
     \<and> (\<forall>n. \<exists>x. s_nonce st n = Inr x \<and> length x = NonceSize)"

definition nonceAt :: "Storage \<Rightarrow> nat \<Rightarrow> string" where
  "nonceAt st n = (case s_nonce st n of Inl _ \<Rightarrow> '''' | Inr x \<Rightarrow> x)"

definition sealField :: "Storage \<Rightarrow> Keys \<Rightarrow> string \<Rightarrow> string \<Rightarrow> nat \<Rightarrow> nat \<Rightarrow> string \<Rightarrow> string" where
  "sealField st k field uid version n m =
     gcmSeal (s_prims st) (piiField k) (nonceAt st n) m (FieldAAD field uid (encKeyID k) version)"

text \<open>The rows a sign-up stores when its first id is the \<open>n\<close>-th one drawn.\<close>

definition signupUser :: "Storage \<Rightarrow> Keys \<Rightarrow> nat \<Rightarrow> time \<Rightarrow> CreateUserWithIdentityInput \<Rightarrow> UserRow" where
  "signupUser st k n at input =
     (let uid = s_uuid st n;
          base = emptyUserRow\<lparr>us_ID := uid, us_EmailVerified := in_EmailVerified input, us_CreatedAt := at,
            us_EmailCiphertext := Some (sealField st k emailAADField uid userPIIVersion (n + 1) (in_Email input)),
            us_EmailNonce := Some (nonceAt st (n + 1)), us_EmailEncKeyID := Some (encKeyID k), us_EmailEncVersion := Some userPIIVersion,
            us_EmailHash := Some (EmailHash (s_prims st) k (storeNormalizeEmail st (in_Email input))),
            us_EmailHashKeyID := Some (lookupKeyID k), us_EmailHashVersion := Some userPIIVersion\<rparr>
      in if in_Name input = '''' then base
         else base\<lparr>us_NameCiphertext := Some (sealField st k nameAADField uid userPIIVersion (n + 2) (in_Name input)),
                   us_NameNonce := Some (nonceAt st (n + 2)), us_NameEncKeyID := Some (encKeyID k), us_NameEncVersion := Some userPIIVersion\<rparr>)"

definition signupDraws :: "CreateUserWithIdentityInput \<Rightarrow> nat" where
  "signupDraws input = (if in_Name input = '''' then 2 else 3)"

definition signupIdentity :: "Storage \<Rightarrow> Keys \<Rightarrow> nat \<Rightarrow> time \<Rightarrow> CreateUserWithIdentityInput \<Rightarrow> UserIdentity" where
  "signupIdentity st k n at input =
     (let m = n + signupDraws input in
      emptyIdentity\<lparr>ui_ID := s_uuid st m, ui_UserID := s_uuid st n, ui_Provider := in_Provider input, ui_CreatedAt := at,
        ui_ProviderSubHash := Some (ProviderSubHash (s_prims st) k (in_Provider input) (in_ProviderUserID input)),
        ui_ProviderSubHashKeyID := Some (lookupKeyID k), ui_ProviderSubHashVersion := Some providerSubVersion,
        ui_ProviderSubCiphertext := Some (sealField st k providerSubAADField (s_uuid st n) providerSubVersion (Suc m) (in_ProviderUserID input)),
        ui_ProviderSubNonce := Some (nonceAt st (Suc m)), ui_ProviderSubEncKeyID := Some (encKeyID k),
        ui_ProviderSubEncVersion := Some providerSubVersion, ui_HostedDomain := nullableString (in_HostedDomain input)\<rparr>)"

definition signupResult :: "Storage \<Rightarrow> nat \<Rightarrow> time \<Rightarrow> CreateUserWithIdentityInput \<Rightarrow> User" where
  "signupResult st n at input =
     \<lparr>u_ID = s_uuid st n, u_Email = in_Email input, u_EmailVerified = in_EmailVerified input, u_Name = in_Name input,
      u_Status = ''active'', u_HostedDomain = in_HostedDomain input, u_CreatedAt = at, u_UpdatedAt = at\<rparr>"

lemma run_encryptField:
  assumes "crypto_ready st k"
  shows "run_state (encryptField st k field uid version m) w =
    (Inr (sealField st k field uid version (w_idc w) m, nonceAt st (w_idc w)), w\<lparr>w_idc := Suc (w_idc w)\<rparr>)"
proof -
  obtain x where "s_nonce st (w_idc w) = Inr x" using assms by (auto simp: crypto_ready_def)
  with assms show ?thesis
    by (simp add: encryptField_def run_attempt EncryptPII_def Encrypt_def crypto_ready_def sealField_def nonceAt_def)
qed

lemma run_insertUserForSignup:
  assumes "crypto_ready st k" "healthy w" "w_tx w = Some t" "w_idc w = Suc n"
  shows "run_state (insertUserForSignup st (s_uuid st n) input at) w =
    (fst (InsertUser (signupUser st k n at input) t),
     w\<lparr>w_idc := n + signupDraws input, w_tx := Some (snd (InsertUser (signupUser st k n at input) t))\<rparr>)"
proof -
  have k: "s_keys st = Some k" using assms(1) by (simp add: crypto_ready_def)
  show ?thesis
    using assms(2-)
    by (simp add: insertUserForSignup_def k applyUserEncryption_def run_attempt run_encryptField [OF assms(1)] Let_def
          healthy_def signupUser_def signupDraws_def)
qed

lemma run_insertIdentityForSignup:
  assumes "crypto_ready st k" "healthy w" "w_tx w = Some t" "w_idc w = n + signupDraws input"
  shows "run_state (insertIdentityForSignup st (s_uuid st n) input at) w =
    (fst (InsertUserIdentity (signupIdentity st k n at input) t),
     w\<lparr>w_idc := n + signupDraws input + 2, w_tx := Some (snd (InsertUserIdentity (signupIdentity st k n at input) t))\<rparr>)"
proof -
  have k: "s_keys st = Some k" using assms(1) by (simp add: crypto_ready_def)
  show ?thesis
    using assms(2-)
    by (simp add: insertIdentityForSignup_def k encryptProviderSub_def run_attempt run_encryptField [OF assms(1)] Let_def
          healthy_def signupIdentity_def applyTo_def)
qed

text \<open>A sign-up is the two inserts, or nothing.\<close>

lemma run_signup:
  assumes "crypto_ready st k" "healthy w" "w_tx w = None"
  shows "run_state (CreateUserWithIdentity st input) w =
    (case InsertUser (signupUser st k (w_idc w) (w_now w) input) (w_db w) of
       (Inl e, _) \<Rightarrow> (Inl (if isUniqueViolation e usersEmailHashKey then ErrEmailConflict else e), w\<lparr>w_idc := w_idc w + signupDraws input\<rparr>)
     | (Inr _, d) \<Rightarrow>
         (case InsertUserIdentity (signupIdentity st k (w_idc w) (w_now w) input) d of
            (Inl e, _) \<Rightarrow> (Inl e, w\<lparr>w_idc := w_idc w + signupDraws input + 2\<rparr>)
          | (Inr _, d') \<Rightarrow> (Inr (signupResult st (w_idc w) (w_now w) input),
                            w\<lparr>w_db := d', w_idc := w_idc w + signupDraws input + 2\<rparr>)))"
proof -
  let ?w = "w\<lparr>w_tx := Some (w_db w), w_idc := Suc (w_idc w)\<rparr>"
  have w: "healthy ?w" "w_tx ?w = Some (w_db w)" "w_idc ?w = Suc (w_idc w)" using assms(2) by (simp_all add: healthy_def)
  note u = run_insertUserForSignup [OF assms(1) w]
  obtain r d where i: "InsertUser (signupUser st k (w_idc w) (w_now w) input) (w_db w) = (r, d)" by force
  show ?thesis
  proof (cases r)
    case (Inl e)
    with assms(2,3) u i show ?thesis
      by (simp add: CreateUserWithIdentity_def run_withTx run_attempt run_attemptOr healthy_def)
  next
    case (Inr x)
    let ?v = "w\<lparr>w_idc := w_idc w + signupDraws input, w_tx := Some d\<rparr>"
    have v: "healthy ?v" "w_tx ?v = Some d" "w_idc ?v = w_idc w + signupDraws input" using assms(2) by (simp_all add: healthy_def)
    note j = run_insertIdentityForSignup [OF assms(1) v]
    obtain r' d' where i': "InsertUserIdentity (signupIdentity st k (w_idc w) (w_now w) input) d = (r', d')" by force
    show ?thesis
      using assms(2,3) u i j i' Inr
      by (cases r') (simp_all add: CreateUserWithIdentity_def run_withTx run_attempt run_attemptOr healthy_def signupResult_def)
  qed
qed

lemma InsertUser_Inr:
  "InsertUser row d = (Inr x, d') \<Longrightarrow>
     \<not> userExists d (us_ID row)
     \<and> d' = d\<lparr>users := users d @ [row\<lparr>us_Status := ''active'', us_DeletionRequestedAt := None, us_DeletionScheduledAt := None,
                us_DeletedAt := None, us_UpdatedAt := us_CreatedAt row\<rparr>]\<rparr>"
  by (auto simp: InsertUser_def split: if_splits)

lemma InsertUserIdentity_Inr:
  "InsertUserIdentity row d = (Inr x, d') \<Longrightarrow> d' = d\<lparr>user_identities := user_identities d @ [row]\<rparr>
     \<and> (ui_ProviderSubHash row \<noteq> None \<longrightarrow>
          (\<forall>i \<in> set (user_identities d). \<not> (ui_Provider i = ui_Provider row \<and> ui_ProviderSubHash i = ui_ProviderSubHash row)))"
  by (auto simp: InsertUserIdentity_def list_ex_iff split: if_splits)

lemma one_row_append: "\<forall>r \<in> set rs. \<not> P r \<Longrightarrow> P x \<Longrightarrow> one_row P (rs @ [x]) = Inr x"
  by (induction rs) (auto simp: one_row_def)

lemma open_sealField:
  assumes "crypto_ready st k"
  shows "DecryptPII (s_prims st) k (sealField st k field uid version n m) (nonceAt st n) (FieldAAD field uid (encKeyID k) version) = Inr m"
proof -
  obtain x where "s_nonce st n = Inr x" "length x = NonceSize" using assms by (auto simp: crypto_ready_def)
  with assms show ?thesis by (auto simp: DecryptPII_def Decrypt_def sealField_def nonceAt_def crypto_ready_def aead_ok_def)
qed

lemma sealField_not_Nil: "crypto_ready st k \<Longrightarrow> sealField st k field uid version n m \<noteq> []"
  by (simp add: sealField_def crypto_ready_def aead_ok_def)

text \<open>The stored row decrypts to what was signed up, whatever its non-encrypted columns became.\<close>

lemma resolve_signupUser:
  assumes "crypto_ready st k"
  shows "resolveUser st (signupUser st k n at input) = Inr (in_Email input, nullableString (in_Name input))"
  using assms open_sealField [OF assms] sealField_not_Nil [OF assms]
  by (simp add: resolveUser_def crypto_ready_def signupUser_def Let_def versionOf_def coalesce_def nullableString_def emptyUserRow_def)

lemma resolveUser_plain [simp]:
  "resolveUser st (row\<lparr>us_Status := s\<rparr>) = resolveUser st row" "resolveUser st (row\<lparr>us_UpdatedAt := t\<rparr>) = resolveUser st row"
  "resolveUser st (row\<lparr>us_DeletionRequestedAt := o1\<rparr>) = resolveUser st row"
  "resolveUser st (row\<lparr>us_DeletionScheduledAt := o1\<rparr>) = resolveUser st row"
  "resolveUser st (row\<lparr>us_DeletedAt := o1\<rparr>) = resolveUser st row"
  by (simp_all add: resolveUser_def split: option.split sum.split)

text \<open>What a successful sign-up left in the database.\<close>

lemma signup_Inr:
  assumes "crypto_ready st k" "healthy w" "w_tx w = None" "run_state (CreateUserWithIdentity st input) w = (Inr u, w')"
  obtains row where
    "u = signupResult st (w_idc w) (w_now w) input" "\<not> userExists (w_db w) (u_ID u)" "healthy w'" "w_tx w' = None"
    "w_db w' = (w_db w)\<lparr>users := users (w_db w) @ [row], user_identities := user_identities (w_db w) @ [signupIdentity st k (w_idc w) (w_now w) input]\<rparr>"
    "row = (signupUser st k (w_idc w) (w_now w) input)\<lparr>us_Status := ''active'', us_DeletionRequestedAt := None,
        us_DeletionScheduledAt := None, us_DeletedAt := None, us_UpdatedAt := w_now w\<rparr>"
    "\<forall>i \<in> set (user_identities (w_db w)). \<not> (ui_Provider i = in_Provider input
        \<and> ui_ProviderSubHash i = Some (ProviderSubHash (s_prims st) k (in_Provider input) (in_ProviderUserID input)))"
proof -
  let ?n = "w_idc w" and ?at = "w_now w"
  have created: "us_CreatedAt (signupUser st k ?n ?at input) = ?at" "us_ID (signupUser st k ?n ?at input) = s_uuid st ?n"
    by (simp_all add: signupUser_def Let_def emptyUserRow_def)
  from assms(4) [unfolded run_signup [OF assms(1-3)]] obtain d where
    d: "InsertUser (signupUser st k ?n ?at input) (w_db w) = (Inr (), d)"
    and d': "InsertUserIdentity (signupIdentity st k ?n ?at input) d = (Inr (), w_db w')"
    and u: "u = signupResult st ?n ?at input" and w': "w' = w\<lparr>w_db := w_db w', w_idc := ?n + signupDraws input + 2\<rparr>"
    by (auto split: prod.splits sum.splits)
  show ?thesis
    using InsertUser_Inr [OF d] InsertUserIdentity_Inr [OF d'] u assms(2,3) arg_cong [OF w', of w_faults] arg_cong [OF w', of w_tx]
    by (intro that) (simp_all add: created signupResult_def healthy_def signupIdentity_def Let_def)
qed

section \<open>Properties\<close>

text \<open>C11: A sign-up and the lookups agree: the account that a successful sign-up returns is, field by
  field and through encryption at rest, the account found afterwards by its identity at the provider
  and by its id.\<close>

theorem signup_roundtrip:
  assumes "crypto_ready st k" "healthy w" "w_tx w = None"
    and "run_state (CreateUserWithIdentity st input) w = (Inr u, w')"
    and "\<forall>i \<in> set (user_identities (w_db w)). ui_UserID i \<noteq> u_ID u"
  shows "run_state (GetUserByProviderIdentity st (in_Provider input) (in_ProviderUserID input)) w' = (Inr u, w')
    \<and> run_state (GetUserByID st (u_ID u)) w' = (Inr u, w')"
proof -
  obtain row where u: "u = signupResult st (w_idc w) (w_now w) input" and fresh: "\<not> userExists (w_db w) (u_ID u)"
    and w': "healthy w'" "w_tx w' = None"
    and db: "w_db w' = (w_db w)\<lparr>users := users (w_db w) @ [row], user_identities := user_identities (w_db w) @ [signupIdentity st k (w_idc w) (w_now w) input]\<rparr>"
    and row: "row = (signupUser st k (w_idc w) (w_now w) input)\<lparr>us_Status := ''active'', us_DeletionRequestedAt := None,
        us_DeletionScheduledAt := None, us_DeletedAt := None, us_UpdatedAt := w_now w\<rparr>"
    and new: "\<forall>i \<in> set (user_identities (w_db w)). \<not> (ui_Provider i = in_Provider input
        \<and> ui_ProviderSubHash i = Some (ProviderSubHash (s_prims st) k (in_Provider input) (in_ProviderUserID input)))"
    by (rule signup_Inr [OF assms(1-4)]) blast
  let ?i = "signupIdentity st k (w_idc w) (w_now w) input"
  have k: "s_keys st = Some k" using assms(1) by (simp add: crypto_ready_def)
  have cols: "us_ID row = u_ID u" "us_EmailVerified row = in_EmailVerified input" "us_CreatedAt row = w_now w" "us_UpdatedAt row = w_now w"
    "us_Status row = ''active''" "resolveUser st row = Inr (in_Email input, nullableString (in_Name input))"
    using resolve_signupUser [OF assms(1)] by (simp_all add: row u signupResult_def) (simp_all add: signupUser_def Let_def emptyUserRow_def)
  have ident: "ui_UserID ?i = u_ID u" "ui_Provider ?i = in_Provider input" "coalesce (ui_HostedDomain ?i) = in_HostedDomain input"
    "ui_ProviderSubHash ?i = Some (ProviderSubHash (s_prims st) k (in_Provider input) (in_ProviderUserID input))"
    by (simp_all add: signupIdentity_def Let_def u signupResult_def nullableString_def coalesce_def)
  have user: "one_row (\<lambda>x. us_ID x = u_ID u) (users (w_db w')) = Inr row"
    using fresh cols(1) by (simp add: db one_row_append userExists_def list_ex_iff)
  have found: "one_row (\<lambda>i. ui_Provider i = in_Provider input \<and> ui_ProviderSubHash i = Some (ProviderSubHash (s_prims st) k (in_Provider input) (in_ProviderUserID input)))
      (user_identities (w_db w')) = Inr ?i" using new ident by (simp add: db one_row_append)
  have hdom: "hostedDomainOf (w_db w') (u_ID u) = in_HostedDomain input"
    using assms(5) ident by (simp add: hostedDomainOf_def db filter_False)
  have full: "run_state (fullUserOf st row (in_HostedDomain input)) w' = (Inr u, w')"
    by (simp add: fullUserOf_def run_attempt cols buildFullUser_def u signupResult_def nullableString_def coalesce_def)
  show ?thesis
    using w' user found hdom full
    by (simp add: GetUserByProviderIdentity_def GetUserByID_def k run_attemptOr healthy_def GetUserByProviderSubHash_def GetUserRowByID_def ident)
qed

definition exampleEpoch :: "string \<Rightarrow> string \<Rightarrow> CryptoKeyEpoch" where
  "exampleEpoch kid domain = \<lparr>ep_KeyID = kid, ep_Domain = domain, ep_Status = ''active'', ep_VerifyTag = '''', ep_Version = 1,
     ep_CreatedAt = 0, ep_ActivatedAt = Some 0\<rparr>"

definition exampleInput :: CreateUserWithIdentityInput where
  "exampleInput = \<lparr>in_Email = ''bob@b.io'', in_EmailVerified = True, in_Name = ''Bob'', in_Provider = ''google'',
     in_ProviderUserID = ''g1'', in_HostedDomain = ''''\<rparr>"

lemma exampleStorage_crypto: "crypto_ready exampleStorage exampleKeys"
  by (simp add: crypto_ready_def examplePrims_aead) (simp add: exampleStorage_def exampleKeys_def exampleSecret_def KeySize_def NonceSize_def)

definition exampleEmpty :: world where
  "exampleEmpty = exampleWorld (emptyDb\<lparr>crypto_key_epochs := [exampleEpoch ''enc-1'' ''enc'', exampleEpoch ''lkp-1'' ''lookup'']\<rparr>)"

lemma exampleSignup: "\<exists>u w'. run_state (CreateUserWithIdentity exampleStorage exampleInput) exampleEmpty = (Inr u, w') \<and> u_Email u = ''bob@b.io'' \<and> u_Name u = ''Bob''"
proof -
  have "healthy exampleEmpty" "w_tx exampleEmpty = None" by (simp_all add: exampleEmpty_def healthy_def)
  from run_signup [OF exampleStorage_crypto this] show ?thesis
    by (simp add: exampleEmpty_def InsertUser_def InsertUserIdentity_def userExists_def epochExists_def exampleEpoch_def emptyDb_def
          signupUser_def signupIdentity_def signupResult_def Let_def exampleInput_def emptyUserRow_def emptyIdentity_def exampleKeys_def)
qed

theorem signup_roundtrip_witness:
  "\<exists>u w'. run_state (CreateUserWithIdentity exampleStorage exampleInput) exampleEmpty = (Inr u, w') \<and> u_Email u = ''bob@b.io''
     \<and> run_state (GetUserByProviderIdentity exampleStorage ''google'' ''g1'') w' = (Inr u, w')
     \<and> run_state (GetUserByID exampleStorage (u_ID u)) w' = (Inr u, w')"
proof -
  obtain u w' where r: "run_state (CreateUserWithIdentity exampleStorage exampleInput) exampleEmpty = (Inr u, w')" "u_Email u = ''bob@b.io''"
    using exampleSignup by blast
  have "healthy exampleEmpty" "w_tx exampleEmpty = None" "user_identities (w_db exampleEmpty) = []"
    by (simp_all add: exampleEmpty_def healthy_def emptyDb_def)
  then show ?thesis
    using signup_roundtrip [OF exampleStorage_crypto _ _ r(1)] r by (auto simp: exampleInput_def)
qed

text \<open>C12: A ciphertext belongs to its account: the e-mail or name columns of a signed-up account, put
  into the row of another account, do not decrypt there, whatever else that row holds.\<close>

theorem ciphertext_bound_to_account:
  assumes "crypto_ready st k" "healthy w" "w_tx w = None"
    and "run_state (CreateUserWithIdentity st input) w = (Inr u, w')"
    and "CHR '';'' \<notin> set (u_ID u)" "CHR '';'' \<notin> set (us_ID other)" "us_ID other \<noteq> u_ID u"
  shows "\<exists>row \<in> set (users (w_db w')). us_ID row = u_ID u
    \<and> (\<exists>e. resolveUser st (other\<lparr>us_EmailCiphertext := us_EmailCiphertext row, us_EmailNonce := us_EmailNonce row,
              us_EmailEncKeyID := us_EmailEncKeyID row, us_EmailEncVersion := us_EmailEncVersion row\<rparr>) = Inl e)
    \<and> (in_Name input \<noteq> '''' \<longrightarrow>
         (\<exists>e. resolveUser st (other\<lparr>us_NameCiphertext := us_NameCiphertext row, us_NameNonce := us_NameNonce row,
                 us_NameEncKeyID := us_NameEncKeyID row, us_NameEncVersion := us_NameEncVersion row\<rparr>) = Inl e))"
proof -
  have other: "\<exists>e. DecryptPII (s_prims st) k (sealField st k field (u_ID u) version n m) (nonceAt st n) (FieldAAD field (us_ID other) kid v) = Inl e"
    for field version n m kid v
  proof -
    have "FieldAAD field (u_ID u) (encKeyID k) version \<noteq> FieldAAD field (us_ID other) kid v"
      using FieldAAD_account assms(5-7) by metis
    moreover have "Encrypt (s_prims st) (Inr (nonceAt st n)) (piiField k) m (FieldAAD field (u_ID u) (encKeyID k) version)
        = Inr (sealField st k field (u_ID u) version n m, nonceAt st n)"
      using assms(1) by (simp add: Encrypt_def sealField_def crypto_ready_def)
    ultimately show ?thesis
      using Encrypt_Decrypt_other_aad assms(1) unfolding DecryptPII_def crypto_ready_def by blast
  qed
  obtain row where u: "u = signupResult st (w_idc w) (w_now w) input"
    and db: "w_db w' = (w_db w)\<lparr>users := users (w_db w) @ [row], user_identities := user_identities (w_db w) @ [signupIdentity st k (w_idc w) (w_now w) input]\<rparr>"
    and row: "row = (signupUser st k (w_idc w) (w_now w) input)\<lparr>us_Status := ''active'', us_DeletionRequestedAt := None,
        us_DeletionScheduledAt := None, us_DeletedAt := None, us_UpdatedAt := w_now w\<rparr>"
    by (rule signup_Inr [OF assms(1-4)]) blast
  have uid: "s_uuid st (w_idc w) = u_ID u" by (simp add: u signupResult_def)
  have cols: "us_ID row = u_ID u" "us_EmailCiphertext row = Some (sealField st k emailAADField (u_ID u) userPIIVersion (w_idc w + 1) (in_Email input))"
    "us_EmailNonce row = Some (nonceAt st (w_idc w + 1))"
    "in_Name input \<noteq> '''' \<Longrightarrow> us_NameCiphertext row = Some (sealField st k nameAADField (u_ID u) userPIIVersion (w_idc w + 2) (in_Name input))"
    "in_Name input \<noteq> '''' \<Longrightarrow> us_NameNonce row = Some (nonceAt st (w_idc w + 2))"
    by (simp_all add: row) (simp_all add: signupUser_def Let_def uid)
  have k: "s_keys st = Some k" using assms(1) by (simp add: crypto_ready_def)
  have "\<exists>e. resolveUser st (other\<lparr>us_EmailCiphertext := us_EmailCiphertext row, us_EmailNonce := us_EmailNonce row,
              us_EmailEncKeyID := us_EmailEncKeyID row, us_EmailEncVersion := us_EmailEncVersion row\<rparr>) = Inl e"
    using other [of emailAADField userPIIVersion "w_idc w + 1" "in_Email input" "coalesce (us_EmailEncKeyID row)" "versionOf (us_EmailEncVersion row)"]
    by (auto simp: resolveUser_def k cols coalesce_def)
  moreover have "\<exists>e. resolveUser st (other\<lparr>us_NameCiphertext := us_NameCiphertext row, us_NameNonce := us_NameNonce row,
                 us_NameEncKeyID := us_NameEncKeyID row, us_NameEncVersion := us_NameEncVersion row\<rparr>) = Inl e" if "in_Name input \<noteq> ''''"
    using other [of nameAADField userPIIVersion "w_idc w + 2" "in_Name input" "coalesce (us_NameEncKeyID row)" "versionOf (us_NameEncVersion row)"]
      sealField_not_Nil [OF assms(1)]
    by (auto simp: resolveUser_def k cols(4,5) [OF that] coalesce_def split: sum.split)
  ultimately show ?thesis using cols(1) by (auto simp: db)
qed

theorem ciphertext_bound_to_account_witness:
  "\<exists>u w'. run_state (CreateUserWithIdentity exampleStorage exampleInput) exampleEmpty = (Inr u, w')
     \<and> (\<exists>row \<in> set (users (w_db w')). us_ID row = u_ID u
         \<and> (\<exists>e. resolveUser exampleStorage (exampleUser\<lparr>us_EmailCiphertext := us_EmailCiphertext row, us_EmailNonce := us_EmailNonce row,
              us_EmailEncKeyID := us_EmailEncKeyID row, us_EmailEncVersion := us_EmailEncVersion row\<rparr>) = Inl e))"
proof -
  have w: "healthy exampleEmpty" "w_tx exampleEmpty = None" by (simp_all add: exampleEmpty_def healthy_def)
  obtain u w' where r: "run_state (CreateUserWithIdentity exampleStorage exampleInput) exampleEmpty = (Inr u, w')"
    using exampleSignup by blast
  have "u_ID u = s_uuid exampleStorage (w_idc exampleEmpty)"
    by (rule signup_Inr [OF exampleStorage_crypto w r]) (simp add: signupResult_def)
  then have "u_ID u = ''u''" by (simp add: exampleEmpty_def exampleStorage_def exampleUUID_def)
  with ciphertext_bound_to_account [OF exampleStorage_crypto w r, of exampleUser] r show ?thesis by fastforce
qed

section \<open>Life cycle\<close>

definition withUser :: "string \<Rightarrow> (UserRow \<Rightarrow> UserRow) \<Rightarrow> dbs \<Rightarrow> dbs" where
  "withUser uid f d = d\<lparr>users := upd_where (\<lambda>u. us_ID u = uid) f (users d)\<rparr>"

definition revokeTokensOf :: "time \<Rightarrow> string \<Rightarrow> dbs \<Rightarrow> dbs" where
  "revokeTokensOf at uid d = d\<lparr>refresh_tokens := upd_where (\<lambda>t. rt_UserID t = uid \<and> liveToken t)
     (rt_RevokedAt_update (\<lambda>_. Some at)) (refresh_tokens d)\<rparr>"

lemma only_user:
  assumes "keys_wf d" "u \<in> set (users d)" "us_ID u = uid"
  shows "upd_where (\<lambda>x. us_ID x = uid \<and> P x) f (users d) = (if P u then upd_where (\<lambda>x. us_ID x = uid) f (users d) else users d)"
    and "count_where (\<lambda>x. us_ID x = uid \<and> P x) (users d) = (if P u then 1 else 0)"
    and "one_row (\<lambda>x. us_ID x = uid) (users d) = Inr u"
proof -
  have only: "x = u" if "x \<in> set (users d)" "us_ID x = uid" for x
    using assms that by (auto simp: keys_wf_def distinct_map inj_on_def)
  show "upd_where (\<lambda>x. us_ID x = uid \<and> P x) f (users d) = (if P u then upd_where (\<lambda>x. us_ID x = uid) f (users d) else users d)"
    using only by (auto simp: upd_where_def intro!: map_idI)
  have "count_where (\<lambda>x. us_ID x = uid) (users d) = 1"
    using assms by (intro count_where_unique [where g = us_ID and r = u]) (auto simp: keys_wf_def)
  moreover have "count_where (\<lambda>x. us_ID x = uid \<and> P x) (users d) = count_where (\<lambda>x. us_ID x = uid \<and> P u) (users d)"
    using only by (intro count_where_cong) auto
  ultimately show "count_where (\<lambda>x. us_ID x = uid \<and> P x) (users d) = (if P u then 1 else 0)"
    by (auto simp: count_where_eq_0_iff)
  show "one_row (\<lambda>x. us_ID x = uid) (users d) = Inr u"
    using assms by (intro one_row_unique [where g = us_ID]) (auto simp: keys_wf_def)
qed

lemma run_RequestDeletion:
  assumes "healthy w" "w_tx w = None" "keys_wf (w_db w)" "row \<in> set (users (w_db w))" "us_ID row = uid"
  shows "run_state (RequestDeletion st uid) w =
      (if us_Status row = ''active'' then
         (Inr ('''', None), w\<lparr>w_db := revokeTokensOf (w_now w) uid (withUser uid (\<lambda>u. u\<lparr>us_Status := ''pending_deletion'',
            us_DeletionRequestedAt := Some (w_now w), us_DeletionScheduledAt := Some (w_now w + deletionGrace), us_UpdatedAt := w_now w\<rparr>) (w_db w))\<rparr>)
       else (case coreUserOf st (w_db w) uid of
          Inl e \<Rightarrow> (Inl e, w)
        | Inr _ \<Rightarrow>
            if us_Status row = ''pending_deletion'' then (Inr ('''', None), w\<lparr>w_db := revokeTokensOf (w_now w) uid (w_db w)\<rparr>)
            else if us_Status row = ''disabled'' \<or> us_Status row = ''deleted'' then (Inr (us_Status row, Some ErrUserAccountClosed), w)
            else (Inr (us_Status row, Some (ErrMsg ''unexpected user status for deletion'')), w)))"
proof -
  note only = only_user [OF assms(3-5)]
  let ?v = "w\<lparr>w_tx := Some (w_db w)\<rparr>"
  have v: "healthy ?v" "w_tx ?v = Some (w_db w)" using assms(1) by (simp_all add: healthy_def)
  note start = RequestDeletion_def Let_def run_withTx run_attempt healthy_def MarkUserPendingDeletionByID_def only
    RevokeActiveRefreshTokensByUserID_def revokeTokensOf_def withUser_def
  show ?thesis
  proof (cases "us_Status row = ''active''")
    case True
    then show ?thesis using assms(1,2) by (simp add: start)
  next
    case False
    note get = run_getUserByIDTx [OF v, of st uid]
    show ?thesis
    proof (cases "coreUserOf st (w_db w) uid")
      case (Inl e)
      with False get show ?thesis using assms(1,2) by (simp add: start)
    next
      case (Inr u)
      then have "u_Status u = us_Status row"
        by (auto simp: coreUserOf_def only(3) buildCoreUser_def split: sum.splits prod.splits)
      with False get Inr show ?thesis using assms(1,2) by (simp add: start)
    qed
  qed
qed

text \<open>C13: The life cycle of an account, exactly. A deletion request moves an active account to pending
  with the deletion thirty days ahead and revokes its refresh tokens, in one transaction; a repeated
  request only revokes the tokens issued since and does not move the date; a disabled account is
  reported as closed and nothing changes. A recovery takes a pending account back to active and
  clears the schedule and leaves every other account alone; disabling closes it.\<close>

theorem account_lifecycle_exact:
  assumes "healthy w" "w_tx w = None" "keys_wf (w_db w)" "row \<in> set (users (w_db w))" "us_ID row = uid"
  shows "run_state (RequestDeletion st uid) w =
      (if us_Status row = ''active'' then
         (Inr ('''', None), w\<lparr>w_db := revokeTokensOf (w_now w) uid (withUser uid (\<lambda>u. u\<lparr>us_Status := ''pending_deletion'',
            us_DeletionRequestedAt := Some (w_now w), us_DeletionScheduledAt := Some (w_now w + deletionGrace), us_UpdatedAt := w_now w\<rparr>) (w_db w))\<rparr>)
       else (case coreUserOf st (w_db w) uid of
          Inl e \<Rightarrow> (Inl e, w)
        | Inr _ \<Rightarrow>
            if us_Status row = ''pending_deletion'' then (Inr ('''', None), w\<lparr>w_db := revokeTokensOf (w_now w) uid (w_db w)\<rparr>)
            else if us_Status row = ''disabled'' \<or> us_Status row = ''deleted'' then (Inr (us_Status row, Some ErrUserAccountClosed), w)
            else (Inr (us_Status row, Some (ErrMsg ''unexpected user status for deletion'')), w)))
    \<and> run_state (RecoverUser st uid) w =
      (Inr (), if us_Status row = ''pending_deletion''
         then w\<lparr>w_db := withUser uid (\<lambda>u. u\<lparr>us_Status := ''active'', us_DeletionRequestedAt := None, us_DeletionScheduledAt := None,
                us_UpdatedAt := w_now w\<rparr>) (w_db w)\<rparr> else w)
    \<and> run_state (DisableUser st uid) w =
      (Inr (), w\<lparr>w_db := withUser uid (\<lambda>u. u\<lparr>us_Status := ''disabled'', us_UpdatedAt := w_now w\<rparr>) (w_db w)\<rparr>)"
proof -
  note only = only_user [OF assms(3-5)]
  have "run_state (RecoverUser st uid) w =
      (Inr (), if us_Status row = ''pending_deletion''
         then w\<lparr>w_db := withUser uid (\<lambda>u. u\<lparr>us_Status := ''active'', us_DeletionRequestedAt := None, us_DeletionScheduledAt := None,
                us_UpdatedAt := w_now w\<rparr>) (w_db w)\<rparr> else w)"
    using assms(1,2) by (simp add: RecoverUser_def run_attempt healthy_def RecoverPendingDeletionUserByID_def only withUser_def)
  moreover have "run_state (DisableUser st uid) w =
      (Inr (), w\<lparr>w_db := withUser uid (\<lambda>u. u\<lparr>us_Status := ''disabled'', us_UpdatedAt := w_now w\<rparr>) (w_db w)\<rparr>)"
    using assms(1,2) by (simp add: DisableUser_def setUserStatus_def run_attempt healthy_def SetUserStatusByID_def userStatuses_def withUser_def)
  ultimately show ?thesis using run_RequestDeletion [OF assms] by blast
qed

theorem account_lifecycle_exact_witness:
  "let w = exampleWorld exampleDb in
   us_Status exampleUser = ''active'' \<and>
   run_state (RequestDeletion exampleStorage ''alice'') w =
     (Inr ('''', None), w\<lparr>w_db := revokeTokensOf 10 ''alice'' (withUser ''alice'' (\<lambda>u. u\<lparr>us_Status := ''pending_deletion'',
            us_DeletionRequestedAt := Some 10, us_DeletionScheduledAt := Some (10 + deletionGrace), us_UpdatedAt := 10\<rparr>) exampleDb)\<rparr>)"
  using account_lifecycle_exact [of "exampleWorld exampleDb" exampleUser "''alice''" exampleStorage]
  by (simp add: healthy_def exampleDb_wf Let_def) (simp add: exampleUser_def)

section \<open>Sessions\<close>

lemma session_Inr:
  assumes "healthy w" "w_tx w = None" "run_state (CreateSession st uid ttl) w = (Inr tok, w1)"
  obtains h s where "sessionAtRest st tok = Inr h" "sessions (w_db w1) = sessions (w_db w) @ [s]" "users (w_db w1) = users (w_db w)"
    "user_identities (w_db w1) = user_identities (w_db w)"
    "se_TokenHash s = Some h" "se_UserID s = uid" "se_RevokedAt s = None" "se_CreatedAt s = w_now w" "se_ExpiresAt s = w_now w + ttl"
    "\<forall>x \<in> set (sessions (w_db w)). se_TokenHash x \<noteq> Some h" "healthy w1" "w_tx w1 = None"
proof -
  from assms obtain h where h: "sessionAtRest st tok = Inr h"
    by (auto simp: CreateSession_def run_attempt healthy_def InsertSession_def split: sum.splits if_splits)
  with assms show ?thesis
    by (intro that [of h "\<lparr>se_ID = s_uuid st (Suc (w_idc w)), se_UserID = uid, se_ExpiresAt = w_now w + ttl, se_RevokedAt = None,
          se_CreatedAt = w_now w, se_TokenHash = Some h\<rparr>"])
       (auto simp: CreateSession_def run_attempt healthy_def InsertSession_def list_ex_iff split: sum.splits if_splits)
qed

lemma validSession_append:
  assumes "\<forall>x \<in> set ss. se_TokenHash x \<noteq> Some h" "se_TokenHash s = Some h"
  shows "one_row (validSession h at) (ss @ [s]) = (if validSession h at s then Inr s else Inl ErrNoRows)"
proof -
  have "find (validSession h at) ss = None" using assms(1) by (auto simp: find_None_iff validSession_def)
  then show ?thesis by (induction ss) (auto simp: one_row_def split: if_splits)
qed

lemma audit_keeps_sessions:
  assumes "run_state (AuditLogEvent st u ev ip ua md) w = (r, w')" "healthy w" "w_tx w = None"
  shows "sessions (w_db w') = sessions (w_db w) \<and> healthy w' \<and> w_tx w' = None"
proof (cases "prepareRow st (w_now w) u ev ip ua md")
  case (Inl e)
  with assms run_AuditLogEvent [OF assms(2,3), of st u ev ip ua md] show ?thesis by simp
next
  case (Inr row)
  with assms(1) run_AuditLogEvent [OF assms(2,3), of st u ev ip ua md]
  have "w' = w\<lparr>w_db := snd (InsertAuditLog row (w_db w))\<rparr>" by simp
  with snd_InsertAuditLog [of row "w_db w"] assms(2,3) show ?thesis by (auto simp: healthy_def)
qed

lemma run_TerminateSession:
  assumes "healthy w" "w_tx w = None" "run_state (TerminateSession st ctx uid cid) w = (r, w')"
  shows "healthy w' \<and> w_tx w' = None \<and> sessions (w_db w') =
    upd_where (\<lambda>s. se_UserID s = uid \<and> se_RevokedAt s = None) (se_RevokedAt_update (\<lambda>_. Some (w_now w))) (sessions (w_db w))"
proof -
  let ?rs = "sessions (w_db w)" and ?P = "\<lambda>s. se_UserID s = uid \<and> se_RevokedAt s = None"
  let ?w = "w\<lparr>w_db := (w_db w)\<lparr>sessions := upd_where ?P (se_RevokedAt_update (\<lambda>_. Some (w_now w))) ?rs\<rparr>\<rparr>"
  have w: "healthy ?w" "w_tx ?w = None" using assms by (simp_all add: healthy_def)
  show ?thesis
  proof (cases "count_where ?P ?rs = 0")
    case True
    with assms w show ?thesis by (simp add: TerminateSession_def run_attempt healthy_def RevokeSessionsByUserID_def) auto
  next
    case False
    obtain r1 w1 where a: "run_state (AuditLogEvent st (Some uid) EventAuthLogout (x_IP ctx) (x_UserAgent ctx)
            [(''client_id'', JStr cid), (''client_name'', JStr (auditClientName st cid))]) ?w = (r1, w1)" by force
    have "w' = w1" using assms a False
      by (cases r1) (simp_all add: TerminateSession_def run_attempt healthy_def RevokeSessionsByUserID_def)
    with audit_keeps_sessions [OF a w] show ?thesis by simp
  qed
qed

text \<open>C14: A session lives from its creation to its expiry or termination. Until then its token finds the
  account it was created for, with the closed-account error exactly for a disabled or deleted account,
  and the authentication time is the time of creation; from the expiry on, and after the user's
  sessions were terminated, the token finds nothing.\<close>

theorem session_lifetime_exact:
  assumes "healthy w" "w_tx w = None" "run_state (CreateSession st uid ttl) w = (Inr tok, w1)"
    and "fullUserIn st (w_db w) row u" "us_ID row = uid" "keys_wf (w_db w)"
    and "healthy v" "w_tx v = None" "w_db v = w_db w1"
  shows "(w_now v < w_now w + ttl \<longrightarrow>
        run_state (GetValidSession st tok) v =
          (Inr (u, if u_Status u = ''disabled'' \<or> u_Status u = ''deleted'' then Some ErrUserAccountClosed else None), v)
      \<and> run_state (SessionAuthTime st tok) v = (Inr (w_now w), v))
    \<and> (w_now w + ttl \<le> w_now v \<longrightarrow>
        run_state (GetValidSession st tok) v = (Inl ErrNotFound, v) \<and> run_state (SessionAuthTime st tok) v = (Inl ErrNotFound, v))
    \<and> (\<forall>ctx cid r v'. run_state (TerminateSession st ctx uid cid) v = (r, v') \<longrightarrow>
        run_state (GetValidSession st tok) v' = (Inl ErrNotFound, v'))"
proof -
  obtain h s where h: "sessionAtRest st tok = Inr h" and ss: "sessions (w_db w1) = sessions (w_db w) @ [s]" "users (w_db w1) = users (w_db w)"
      "user_identities (w_db w1) = user_identities (w_db w)"
    and s: "se_TokenHash s = Some h" "se_UserID s = uid" "se_RevokedAt s = None" "se_CreatedAt s = w_now w" "se_ExpiresAt s = w_now w + ttl"
    and new: "\<forall>x \<in> set (sessions (w_db w)). se_TokenHash x \<noteq> Some h"
    by (rule session_Inr [OF assms(1-3)]) blast
  note find = validSession_append [OF new s(1)]
  have row: "row \<in> set (users (w_db w))" using assms(4) by (simp add: fullUserIn_def)
  note user = only_user(3) [OF assms(6) row assms(5)]
  obtain email name where e: "resolveUser st row = Inr (email, name)"
    and u: "u = (buildFullUser (us_ID row) email (us_EmailVerified row) name (us_Status row) (us_CreatedAt row) (us_UpdatedAt row))
             \<lparr>u_HostedDomain := hostedDomainOf (w_db w) (us_ID row)\<rparr>"
    using assms(4) by (auto simp: fullUserIn_def)
  have hd: "hostedDomainOf (w_db w1) uid = hostedDomainOf (w_db w) uid" by (simp add: hostedDomainOf_def ss)
  have valid: "validSession h (w_now v) s \<longleftrightarrow> w_now v < w_now w + ttl" by (auto simp: validSession_def s)
  have live: "run_state (GetValidSession st tok) v = (Inr (u, requireUsableUser u), v)" "run_state (SessionAuthTime st tok) v = (Inr (w_now w), v)"
    if "w_now v < w_now w + ttl"
    using that assms(5,7-9) find user
    by (simp_all add: GetValidSession_def SessionAuthTime_def run_attempt run_attemptOr h healthy_def GetValidSessionUser_def
          GetValidSessionCreatedAt_def ss valid s fullUserOf_def e u hd)
  have dead: "run_state (GetValidSession st tok) v = (Inl ErrNotFound, v)" "run_state (SessionAuthTime st tok) v = (Inl ErrNotFound, v)"
    if "w_now w + ttl \<le> w_now v"
    using that assms(7-9) find
    by (simp_all add: GetValidSession_def SessionAuthTime_def run_attempt run_attemptOr h healthy_def GetValidSessionUser_def
          GetValidSessionCreatedAt_def ss valid notFoundOr_def)
  have ended: "run_state (GetValidSession st tok) v' = (Inl ErrNotFound, v')"
    if t: "run_state (TerminateSession st ctx uid cid) v = (r, v')" for ctx cid r v'
  proof -
    note v' = run_TerminateSession [OF assms(7,8) t]
    have "one_row (validSession h (w_now v')) (sessions (w_db v')) = Inl ErrNoRows"
      using v' new s(1,2) by (auto simp: one_row_def find_None_iff assms(9) ss validSession_def set_upd_where split: option.split dest!: find_SomeD)
    then show ?thesis using v'
      by (simp add: GetValidSession_def run_attempt run_attemptOr h healthy_def GetValidSessionUser_def notFoundOr_def)
  qed
  show ?thesis using live dead ended by (auto simp: requireUsableUser_def)
qed

lemma resolve_exampleUser: "resolveUser exampleStorage exampleUser = Inr (''a@b.io'', None)"
proof -
  have "unaryOpen k n (unarySeal [] [] m a) a = Inr m" for k n m a
    using unaryOpen_seal [of k n m a a] by (simp add: unarySeal_def)
  then have "DecryptPII examplePrims exampleKeys (coalesce (us_EmailCiphertext exampleUser)) (coalesce (us_EmailNonce exampleUser))
      (FieldAAD emailAADField (us_ID exampleUser) (coalesce (us_EmailEncKeyID exampleUser)) (versionOf (us_EmailEncVersion exampleUser))) = Inr ''a@b.io''"
    by (simp add: DecryptPII_def Decrypt_def)
       (simp add: exampleUser_def exampleKeys_def exampleSecret_def KeySize_def NonceSize_def examplePrims_def coalesce_def versionOf_def)
  moreover have "us_NameCiphertext exampleUser = None" by (simp add: exampleUser_def emptyUserRow_def)
  ultimately show ?thesis by (simp add: resolveUser_def coalesce_def)
qed

theorem session_lifetime_exact_witness:
  "\<exists>tok w1. run_state (CreateSession exampleStorage ''alice'' 100) (exampleWorld exampleDb) = (Inr tok, w1)
     \<and> (\<exists>u. run_state (GetValidSession exampleStorage tok) w1 = (Inr (u, None), w1) \<and> u_Email u = ''a@b.io'')
     \<and> run_state (GetValidSession exampleStorage tok) (w1\<lparr>w_now := 110\<rparr>) = (Inl ErrNotFound, w1\<lparr>w_now := 110\<rparr>)"
proof -
  let ?w = "exampleWorld exampleDb"
  have w: "healthy ?w" "w_tx ?w = None" "keys_wf (w_db ?w)" by (simp_all add: healthy_def exampleDb_wf)
  obtain tok w1 where r: "run_state (CreateSession exampleStorage ''alice'' 100) ?w = (Inr tok, w1)"
    by (force simp: CreateSession_def run_attempt sessionAtRest_def InsertSession_def userExists_def)
  have w1: "healthy w1" "w_tx w1 = None" by (rule session_Inr [OF w(1,2) r], simp)+
  have now: "w_now w1 = 10"
    using r by (auto simp: CreateSession_def run_attempt sessionAtRest_def InsertSession_def userExists_def)
  have full: "fullUserIn exampleStorage (w_db ?w) exampleUser
      \<lparr>u_ID = ''alice'', u_Email = ''a@b.io'', u_EmailVerified = False, u_Name = '''', u_Status = ''active'', u_HostedDomain = '''',
       u_CreatedAt = 0, u_UpdatedAt = 0\<rparr>"
    by (simp add: fullUserIn_def resolve_exampleUser hostedDomainOf_def buildFullUser_def)
       (simp add: exampleUser_def emptyUserRow_def coalesce_def)
  note s = session_lifetime_exact [OF w(1,2) r full _ w(3)]
  from s [OF _ w1 refl] s [of "w1\<lparr>w_now := 110\<rparr>"] w1 now r show ?thesis
    by (simp add: healthy_def)
qed

end
