(* ===== verification/Issuance.thy ===== *)
theory Issuance
  imports Server_Correct Users_Correct
begin

text \<open>
  The first tokens of a grant, on a healthy database: the code is spent and one refresh token of a
  new family is stored, in one transaction. A run of the example server from an empty database to a
  stored refresh token shows that the invariant of the token families is about something.
\<close>

section \<open>First issuance\<close>

definition firstToken :: "Storage \<Rightarrow> world \<Rightarrow> string \<Rightarrow> string \<Rightarrow> string \<Rightarrow> string \<Rightarrow> string list \<Rightarrow> RefreshToken" where
  "firstToken st w h uid cid resource scopes =
     \<lparr>rt_ID = s_uuid st (w_idc w + 3), rt_TokenHash = h, rt_FamilyID = s_uuid st (w_idc w + 2), rt_UserID = uid, rt_ClientID = cid,
      rt_Resource = Some resource, rt_Scopes = scopes, rt_ExpiresAt = w_now w + s_refreshTokenTTL st, rt_RevokedAt = None,
      rt_UsedAt = None, rt_CreatedAt = w_now w, rt_ParentID = None\<rparr>"

lemma run_issue_first:
  assumes "healthy w" "w_tx w = None" "s_opaque st (Suc (w_idc w)) = Inr tok" "refreshAtRest st tok = Inr h"
    and consume: "run_state (consumeAuthCode st TXc request) (w\<lparr>w_idc := w_idc w + 2, w_tx := Some (w_db w)\<rparr>)
      = (Inr (), w\<lparr>w_idc := w_idc w + 2, w_tx := Some t\<rparr>)"
    and attrs: "reqSubject request = uid" "reqScopes request = scopes"
      "(case request of ReqAuth r \<Rightarrow> am_ClientID r | ReqDevice r \<Rightarrow> ds_ClientID r | _ \<Rightarrow> '''') = cid"
      "(case request of ReqAuth r \<Rightarrow> am_Resource r | _ \<Rightarrow> '''') = resource"
    and fresh: "userExists t uid" "s_uuid st (w_idc w + 3) \<notin> rt_ID ` set (refresh_tokens t)" "h \<notin> rt_TokenHash ` set (refresh_tokens t)"
  shows "run_state (CreateAccessAndRefreshTokens st ctx request '''') w =
    (Inr (s_uuid st (w_idc w), tok, w_now w + s_accessTokenTTL st),
     w\<lparr>w_db := t\<lparr>refresh_tokens := refresh_tokens t @ [firstToken st w h uid cid resource scopes]\<rparr>, w_idc := w_idc w + 4\<rparr>)"
proof -
  let ?a = "\<lparr>at_familyID = s_uuid st (w_idc w + 2), at_userID = uid, at_clientID = cid, at_resource = resource, at_scopes = scopes\<rparr>"
  have ins: "InsertRefreshToken (newRefreshRow st (s_uuid st (w_idc w + 3)) h ?a None (w_now w)) t
      = (Inr (), t\<lparr>refresh_tokens := refresh_tokens t @ [firstToken st w h uid cid resource scopes]\<rparr>)"
    using fresh by (simp add: InsertRefreshToken_def list_ex_key newRefreshRow_def firstToken_def)
  show ?thesis
    using assms(1-4) consume attrs ins
    by (simp add: CreateAccessAndRefreshTokens_def run_attempt run_withTx healthy_def deriveRefreshToken_def
          initialRefreshTokenAttributes_def eval_nat_numeral)
qed

lemma run_consume_code:
  assumes "healthy w" "w_tx w = Some t" "codeAtRest st code = Inr h" "am_Code a = Some code" "code \<noteq> ''''"
    and "keys_wf t" "row \<in> set (auth_requests t)" "consumable (am_ID a) (am_ClientID a) h (w_now w) row"
  shows "run_state (consumeAuthCode st TXc (ReqAuth a)) w =
    (Inr (), w\<lparr>w_tx := Some (t\<lparr>auth_requests := del_where (\<lambda>x. ar_ID x = am_ID a) (auth_requests t)\<rparr>)\<rparr>)"
proof -
  have only: "x = row" if "x \<in> set (auth_requests t)" "ar_ID x = am_ID a" for x
    using assms(6-8) that by (auto simp: keys_wf_def distinct_map inj_on_def consumable_def)
  have "count_where (consumable (am_ID a) (am_ClientID a) h (w_now w)) (auth_requests t) = 1"
    using assms(6-8) by (intro count_where_unique [where g = ar_ID and r = row]) (auto simp: keys_wf_def consumable_def)
  moreover have "del_where (consumable (am_ID a) (am_ClientID a) h (w_now w)) (auth_requests t) = del_where (\<lambda>x. ar_ID x = am_ID a) (auth_requests t)"
    unfolding del_where_def using only assms(8) by (intro filter_cong refl) (auto simp: consumable_def)
  ultimately show ?thesis
    using assms(1-5) by (simp add: consumeAuthCode_def run_attempt healthy_def ConsumeAuthCode_def coalesce_def)
qed

text \<open>C10: The exchange of an authorization code, exactly: the request is deleted and one live refresh
  token without parent is stored, in a family of its own, for the subject, client, resource and
  scopes of the request; nothing else changes, and the answer carries the new token.\<close>

theorem code_exchange_exact:
  assumes "healthy w" "w_tx w = None" "s_opaque st (Suc (w_idc w)) = Inr tok" "refreshAtRest st tok = Inr h"
    and "codeAtRest st code = Inr hc" "am_Code a = Some code" "code \<noteq> ''''"
    and "keys_wf (w_db w)" "row \<in> set (auth_requests (w_db w))" "consumable (am_ID a) (am_ClientID a) hc (w_now w) row"
    and "userExists (w_db w) (authGetSubject a)" "s_uuid st (w_idc w + 3) \<notin> rt_ID ` set (refresh_tokens (w_db w))"
    and "h \<notin> rt_TokenHash ` set (refresh_tokens (w_db w))"
  shows "run_state (CreateAccessAndRefreshTokens st ctx (ReqAuth a) '''') w =
    (Inr (s_uuid st (w_idc w), tok, w_now w + s_accessTokenTTL st),
     w\<lparr>w_db := (w_db w)\<lparr>auth_requests := del_where (\<lambda>x. ar_ID x = am_ID a) (auth_requests (w_db w)),
                         refresh_tokens := refresh_tokens (w_db w) @
                           [firstToken st w h (authGetSubject a) (am_ClientID a) (am_Resource a) (am_Scopes a)]\<rparr>,
        w_idc := w_idc w + 4\<rparr>)"
proof -
  let ?w = "w\<lparr>w_idc := w_idc w + 2, w_tx := Some (w_db w)\<rparr>"
  have "healthy ?w" "w_tx ?w = Some (w_db w)" "w_now ?w = w_now w" using assms(1) by (simp_all add: healthy_def)
  note c = run_consume_code [OF this(1,2) assms(5-9), unfolded this(3), OF assms(10)]
  show ?thesis
    by (subst run_issue_first [OF assms(1-4), where t = "(w_db w)\<lparr>auth_requests := del_where (\<lambda>x. ar_ID x = am_ID a) (auth_requests (w_db w))\<rparr>"])
       (use c assms(11-13) in \<open>simp_all add: userExists_def\<close>)
qed

theorem code_exchange_exact_witness:
  "let w = exampleWorld (exampleDb\<lparr>auth_requests := [exampleRequest]\<rparr>);
       (r, w') = run_state (CreateAccessAndRefreshTokens exampleStorage exampleCtx (ReqAuth exampleModel) '''') w
   in (\<exists>x. r = Inr x) \<and> auth_requests (w_db w') = [] \<and> map rt_UserID (refresh_tokens (w_db w')) = [''alice'', ''alice'']"
proof -
  let ?w = "exampleWorld (exampleDb\<lparr>auth_requests := [exampleRequest]\<rparr>)"
  let ?tok = "''txx''" and ?hc = "CodeHash examplePrims exampleKeys ''code''"
  let ?h = "RefreshHash examplePrims exampleKeys ?tok"
  have sub: "authGetSubject exampleModel = ''alice''"
    by (simp add: exampleModel_def authRequestModelFromRow_def authGetSubject_def exampleRequest_def)
  have "run_state (CreateAccessAndRefreshTokens exampleStorage exampleCtx (ReqAuth exampleModel) '''') ?w =
    (Inr (s_uuid exampleStorage (w_idc ?w), ?tok, w_now ?w + s_accessTokenTTL exampleStorage),
     ?w\<lparr>w_db := (w_db ?w)\<lparr>auth_requests := del_where (\<lambda>x. ar_ID x = am_ID exampleModel) (auth_requests (w_db ?w)),
                         refresh_tokens := refresh_tokens (w_db ?w) @
                           [firstToken exampleStorage ?w ?h (authGetSubject exampleModel) (am_ClientID exampleModel) (am_Resource exampleModel) (am_Scopes exampleModel)]\<rparr>,
        w_idc := w_idc ?w + 4\<rparr>)"
  proof (rule code_exchange_exact [where row = exampleRequest and code = "''code''" and hc = ?hc])
    show "keys_wf (w_db ?w)" by (simp add: keys_wf_def)
    show "?h \<notin> rt_TokenHash ` set (refresh_tokens (w_db ?w))" by (simp add: RefreshHash_inj [OF examplePrims_mac])
    show "s_uuid exampleStorage (w_idc ?w + 3) \<notin> rt_ID ` set (refresh_tokens (w_db ?w))" by (simp add: exampleStorage_def exampleUUID_def)
  qed (simp_all add: healthy_def eval_nat_numeral refreshAtRest_def codeAtRest_def consumable_def userExists_def sub)
  then show ?thesis by (simp add: del_where_def firstToken_def sub)
qed

section \<open>A run to the first token\<close>

definition exampleGrant :: TokenRequest where
  "exampleGrant = ReqDevice (deviceState\<lparr>ds_ClientID := ''app'', ds_Subject := ''u'', ds_Scopes := [''openid'']\<rparr>)"

definition tokenRun :: world where
  "tokenRun = snd (run_state (CreateAccessAndRefreshTokens exampleStorage exampleCtx exampleGrant '''')
     (snd (run_state (CreateUserWithIdentity exampleStorage exampleInput)
       (snd (run_state (EnsureCryptoEpochs exampleStorage) exampleStart)))))"

lemma tokenRun_reachable: "reachable exampleStorage tokenRun"
  unfolding tokenRun_def
  by (rule reachable_step [OF reachable_step [OF reachable_step [OF exampleStart_reachable]]])
     (rule server_step.epochs [OF prod.collapse [symmetric]] server_step.signup [OF prod.collapse [symmetric]]
        server_step.tokens [OF prod.collapse [symmetric]])+

definition epochsRun :: world where
  "epochsRun = snd (run_state (EnsureCryptoEpochs exampleStorage) exampleStart)"

lemma run_exampleEpochs:
  "epochsRun = exampleStart\<lparr>w_db := emptyDb\<lparr>crypto_key_epochs := crypto_key_epochs (w_db epochsRun)\<rparr>\<rparr>"
  "map ep_KeyID (crypto_key_epochs (w_db epochsRun)) = [''enc-1'', ''lkp-1'']"
  by (simp_all add: epochsRun_def EnsureCryptoEpochs_def ensureEpoch_def VerifyTag_def DomainEnc_def DomainLookup_def run_attempt run_attemptOr
       exampleStart_def emptyDb_def GetActiveEpoch_def InsertActiveEpoch_def one_row_def keyIDWellFormed_def keyIDChar_def Let_def exampleKeys_def)

lemma epochsRun_fields:
  "w_tx epochsRun = None" "healthy epochsRun" "w_idc epochsRun = 1" "w_now epochsRun = 10" "users (w_db epochsRun) = []"
  "user_identities (w_db epochsRun) = []" "refresh_tokens (w_db epochsRun) = []"
  "epochExists (w_db epochsRun) (Some ''enc-1'')" "epochExists (w_db epochsRun) (Some ''lkp-1'')"
proof -
  have "''enc-1'' \<in> ep_KeyID ` set (crypto_key_epochs (w_db epochsRun))" "''lkp-1'' \<in> ep_KeyID ` set (crypto_key_epochs (w_db epochsRun))"
    by (simp_all flip: set_map add: run_exampleEpochs(2))
  then show "epochExists (w_db epochsRun) (Some ''enc-1'')" "epochExists (w_db epochsRun) (Some ''lkp-1'')"
    by (simp_all add: epochExists_def list_ex_key)
qed (subst run_exampleEpochs(1), simp add: exampleStart_def emptyDb_def healthy_def)+

lemma tokenRun_token: "map rt_UserID (refresh_tokens (w_db tokenRun)) = [''u'']"
proof -
  note e = epochsRun_fields
  have ep: "epochExists (w_db epochsRun\<lparr>users := us\<rparr>) k = epochExists (w_db epochsRun) k" for us k by (simp add: epochExists_def split: option.split)
  have u: "InsertUser (signupUser exampleStorage exampleKeys 1 10 exampleInput) (w_db epochsRun) = (Inr (),
      (w_db epochsRun)\<lparr>users := [(signupUser exampleStorage exampleKeys 1 10 exampleInput)\<lparr>us_Status := ''active'',
        us_DeletionRequestedAt := None, us_DeletionScheduledAt := None, us_DeletedAt := None, us_UpdatedAt := 10\<rparr>]\<rparr>)" (is "_ = (_, ?d)")
    using e by (simp add: InsertUser_def userExists_def signupUser_def Let_def exampleInput_def exampleKeys_def emptyUserRow_def)
  have uid: "us_ID (signupUser exampleStorage exampleKeys 1 10 exampleInput) = ''u''" by (simp add: signupUser_def Let_def)
  have i: "InsertUserIdentity (signupIdentity exampleStorage exampleKeys 1 10 exampleInput) ?d =
      (Inr (), ?d\<lparr>user_identities := [signupIdentity exampleStorage exampleKeys 1 10 exampleInput]\<rparr>)"
    using e uid by (simp add: InsertUserIdentity_def userExists_def ep signupIdentity_def Let_def exampleKeys_def)
  let ?w = "snd (run_state (CreateUserWithIdentity exampleStorage exampleInput) epochsRun)"
  have w: "healthy ?w" "w_tx ?w = None" "userExists (w_db ?w) ''u''" "refresh_tokens (w_db ?w) = []"
    using run_signup [OF exampleStorage_crypto e(2,1), of exampleInput] e u i uid by (simp_all add: healthy_def userExists_def)
  have "run_state (consumeAuthCode exampleStorage TXc exampleGrant) v = (Inr (), v)" for v
    by (simp add: exampleGrant_def consumeAuthCode_def)
  from run_issue_first [OF w(1,2) exampleStorage_fields(6) _ this, of _ "''u''" "[''openid'']" "''app''" "''''" exampleCtx] w(3,4)
  have "map rt_UserID (refresh_tokens (w_db (snd (run_state (CreateAccessAndRefreshTokens exampleStorage exampleCtx exampleGrant '''') ?w)))) = [''u'']"
    by (simp add: exampleGrant_def refreshAtRest_def deviceState_def firstToken_def)
  then show ?thesis by (simp add: tokenRun_def epochsRun_def)
qed

theorem refresh_families_safe_witness:
  "\<exists>w t. reachable exampleStorage w \<and> t \<in> set (refresh_tokens (w_db w)) \<and> rt_UserID t = ''u''
     \<and> children (w_db w) (rt_ID t) \<le> 1 \<and> (tombstoned (w_db w) (rt_FamilyID t) \<longrightarrow> rt_RevokedAt t \<noteq> None)"
proof -
  from tokenRun_token obtain t where t: "t \<in> set (refresh_tokens (w_db tokenRun))" "rt_UserID t = ''u''" by force
  from refresh_families_safe [OF tokenRun_reachable exampleUUID_inj t(1)] have
    "children (w_db tokenRun) (rt_ID t) \<le> 1" "tombstoned (w_db tokenRun) (rt_FamilyID t) \<longrightarrow> rt_RevokedAt t \<noteq> None" by auto
  with tokenRun_reachable t show ?thesis by blast
qed

end
