(* ===== verification/Seed_Requests.thy ===== *)
theory Seed_Requests
  imports Auth_Correct
begin

text \<open>
  The operations of \<^verbatim>\<open>internal/storage/auth_requests.go\<close> that seed an authorization request without an
  authorization endpoint, and their statements. They load the client they use first, so a result is the storage
  with that client and the action on it. The lemmas: a seeded request is pending for ten minutes
  and belongs to a client of the channel that it is meant for.
\<close>

definition InsertTestAuthRequest :: "string \<Rightarrow> string option \<Rightarrow> time \<Rightarrow> time \<Rightarrow> unit stmt" where
  "InsertTestAuthRequest rid state expiresAt createdAt =
     InsertAuthRequest \<lparr>ar_ID = rid, ar_ClientID = ''test-app'', ar_Resource = None, ar_RedirectUri = ''http://localhost/callback'',
       ar_Scopes = [''openid''], ar_State = state, ar_Nonce = Some ''test-nonce'', ar_CodeChallenge = Some ''E9Melhoa2OwvFrEMT'',
       ar_CodeChallengeMethod = Some ''S256'', ar_Subject = None, ar_AuthTime = None, ar_Done = False, ar_Code = None,
       ar_ExpiresAt = expiresAt, ar_CreatedAt = createdAt, ar_Prompt = [], ar_MaxAge = None\<rparr>"

definition InsertTestAuthRequestWithResource :: "string \<Rightarrow> string option \<Rightarrow> string option \<Rightarrow> time \<Rightarrow> time \<Rightarrow> unit stmt" where
  "InsertTestAuthRequestWithResource rid state resource expiresAt createdAt =
     InsertAuthRequest \<lparr>ar_ID = rid, ar_ClientID = ''test-mcp-app'', ar_Resource = resource, ar_RedirectUri = ''http://localhost/callback'',
       ar_Scopes = [''openid''], ar_State = state, ar_Nonce = Some ''test-nonce'', ar_CodeChallenge = Some ''E9Melhoa2OwvFrEMT'',
       ar_CodeChallengeMethod = Some ''S256'', ar_Subject = None, ar_AuthTime = None, ar_Done = False, ar_Code = None,
       ar_ExpiresAt = expiresAt, ar_CreatedAt = createdAt, ar_Prompt = [], ar_MaxAge = None\<rparr>"

text \<open>A client entry with an id, a name and a channel only; every other field has its zero value.\<close>

definition seedClient :: "string \<Rightarrow> string \<Rightarrow> string \<Rightarrow> ConfigEntry" where
  "seedClient clientID name channel =
     \<lparr>e_ClientID = clientID, e_ClientSecretHash = None, e_ClientType = '''', e_SkipPKCE = False, e_IDTokenUserinfoAssertion = False,
      e_LoginChannel = channel, e_Name = name, e_URL = '''', e_RedirectURIs = [], e_AllowedScopes = [], e_AllowedGrantTypes = [], e_Access = None\<rparr>"

definition CreateTestAuthRequest :: "uri_parser \<Rightarrow> Storage \<Rightarrow> string \<Rightarrow> Storage \<times> string act" where
  "CreateTestAuthRequest parseURI st label =
     (let st' = LoadClients parseURI st [seedClient ''test-app'' ''Test App'' ''browser''] in
      (st', attempt (NewUUID st') (\<lambda>rid.
        attempt clockNow (\<lambda>at.
        attempt (exec DBc (InsertTestAuthRequest rid (Some label) (at + 10 * 60 * second) at)) (\<lambda>_. ok rid)))))"

definition CreateTestAuthRequestWithResource :: "uri_parser \<Rightarrow> Storage \<Rightarrow> string \<Rightarrow> string \<Rightarrow> Storage \<times> string act" where
  "CreateTestAuthRequestWithResource parseURI st label resource =
     (let st' = LoadClients parseURI st [seedClient ''test-mcp-app'' ''Test MCP App'' ''mcp''] in
      (st', attempt (NewUUID st') (\<lambda>rid.
        attempt clockNow (\<lambda>at.
        attempt (exec DBc (InsertTestAuthRequestWithResource rid (Some label) (Some resource) (at + 10 * 60 * second) at)) (\<lambda>_. ok rid)))))"

text \<open>A browser request is for a client of the browser channel, a request with a resource for one of the MCP channel.\<close>

lemma seeded_client:
  assumes "\<not> IsCIMDClientID parseURI ''test-app''" "\<not> IsCIMDClientID parseURI ''test-mcp-app''"
  shows "StaticLoginChannel (s_registry (fst (CreateTestAuthRequest parseURI st label))) ''test-app'' = ''browser''"
    "StaticLoginChannel (s_registry (fst (CreateTestAuthRequestWithResource parseURI st label resource))) ''test-mcp-app'' = ''mcp''"
  using assms
  by (simp_all add: CreateTestAuthRequest_def CreateTestAuthRequestWithResource_def LoadClients_def seedClient_def StaticLoginChannel_def modelOfEntry_def Let_def)

text \<open>On a healthy database the seeded request is pending, and expires ten minutes after the call.\<close>

lemma seeded_request:
  assumes "healthy w" "w_tx w = None" "\<forall>a \<in> set (auth_requests (w_db w)). ar_ID a \<noteq> s_uuid st (w_idc w)"
  shows "\<exists>rid w' row. run_state (snd (CreateTestAuthRequest parseURI st label)) w = (Inr rid, w')
      \<and> auth_requests (w_db w') = auth_requests (w_db w) @ [row] \<and> ar_ID row = rid \<and> \<not> ar_Done row \<and> ar_Resource row = None
      \<and> ar_ExpiresAt row = w_now w + 10 * 60 * second"
    "\<exists>rid w' row. run_state (snd (CreateTestAuthRequestWithResource parseURI st label resource)) w = (Inr rid, w')
      \<and> auth_requests (w_db w') = auth_requests (w_db w) @ [row] \<and> ar_ID row = rid \<and> \<not> ar_Done row \<and> ar_Resource row = Some resource
      \<and> ar_ExpiresAt row = w_now w + 10 * 60 * second"
  using assms
  by (simp_all add: healthy_def CreateTestAuthRequest_def CreateTestAuthRequestWithResource_def LoadClients_def InsertTestAuthRequest_def
      InsertTestAuthRequestWithResource_def InsertAuthRequest_def run_attempt list_ex_iff Let_def)

end
