(* ===== verification/Go_Std.thy ===== *)
theory Go_Std
  imports Client_Access
begin

text \<open>
  What the request boundary uses of Go's standard library: \<^verbatim>\<open>strings.Split\<close>, \<^verbatim>\<open>strings.Join\<close> and
  \<^verbatim>\<open>path.Clean\<close>, the integer and boolean parsers of \<^verbatim>\<open>strconv\<close>, the wrap-around of 64-bit
  durations, the two encodings of \<^verbatim>\<open>encoding/base64\<close>, and decoded JSON documents.
\<close>

section \<open>Splitting and joining\<close>

fun goSplit :: "char \<Rightarrow> string \<Rightarrow> string list" where
  "goSplit sep [] = [[]]"
| "goSplit sep (c # cs) =
     (if c = sep then [] # goSplit sep cs
      else case goSplit sep cs of [] \<Rightarrow> [[c]] | p # ps \<Rightarrow> (c # p) # ps)"

fun goJoin :: "char \<Rightarrow> string list \<Rightarrow> string" where
  "goJoin sep [] = []"
| "goJoin sep [p] = p"
| "goJoin sep (p # ps) = p @ sep # goJoin sep ps"

lemma goSplit_not_Nil [simp]: "goSplit sep s \<noteq> []"
  by (induction s) (auto split: list.split)

lemma goJoin_Cons: "ps \<noteq> [] \<Longrightarrow> goJoin sep (p # ps) = p @ sep # goJoin sep ps"
  by (cases ps) auto

lemma goJoin_goSplit [simp]: "goJoin sep (goSplit sep s) = s"
proof (induction s)
  case (Cons c s)
  then show ?case
  proof (cases "goSplit sep s")
    case (Cons p ps)
    with \<open>goJoin sep (goSplit sep s) = s\<close> show ?thesis by (cases ps) auto
  qed simp
qed simp

lemma goSplit_sep: "p \<in> set (goSplit sep s) \<Longrightarrow> sep \<notin> set p"
  by (induction s arbitrary: p) (auto split: if_splits list.splits)

lemma goSplit_piece: "sep \<notin> set p \<Longrightarrow> goSplit sep p = [p]"
  by (induction p) auto

lemma goSplit_append: "sep \<notin> set p \<Longrightarrow> goSplit sep (p @ sep # s) = p # goSplit sep s"
  by (induction p) auto

lemma goSplit_goJoin: "ps \<noteq> [] \<Longrightarrow> \<forall>p \<in> set ps. sep \<notin> set p \<Longrightarrow> goSplit sep (goJoin sep ps) = ps"
  by (induction sep ps rule: goJoin.induct) (auto simp: goSplit_piece goSplit_append)

text \<open>
  \<^verbatim>\<open>path.Clean\<close> works on the segments between slashes: empty and \<open>.\<close> segments go, \<open>..\<close> removes the
  segment before it, at the root it goes too. The accumulator holds the kept segments, last first.
\<close>

fun cleanSegments :: "bool \<Rightarrow> string list \<Rightarrow> string list \<Rightarrow> string list" where
  "cleanSegments rooted acc [] = rev acc"
| "cleanSegments rooted acc (p # ps) =
     (if p = '''' \<or> p = ''.'' then cleanSegments rooted acc ps
      else if p = ''..'' then
        (case acc of [] \<Rightarrow> if rooted then cleanSegments rooted acc ps else cleanSegments rooted [''..''] ps
         | q # qs \<Rightarrow> if q = ''..'' then cleanSegments rooted (''..'' # acc) ps else cleanSegments rooted qs ps)
      else cleanSegments rooted (p # acc) ps)"

definition pathClean :: "string \<Rightarrow> string" where
  "pathClean p =
     (let rooted = goHasPrefix p ''/''; segs = cleanSegments rooted [] (goSplit CHR ''/'' p) in
      if rooted then ''/'' @ goJoin CHR ''/'' segs
      else if segs = [] then ''.'' else goJoin CHR ''/'' segs)"

section \<open>Numbers\<close>

fun parseDigits :: "nat \<Rightarrow> string \<Rightarrow> nat option" where
  "parseDigits acc [] = Some acc"
| "parseDigits acc (c # cs) =
     (if isDigit c then parseDigits (10 * acc + (of_char c - 48)) cs else None)"

text \<open>\<^verbatim>\<open>strconv.ParseInt(s, 10, 64)\<close> and, on 64-bit platforms, \<^verbatim>\<open>strconv.Atoi(s)\<close>.\<close>

definition goParseInt :: "string \<Rightarrow> int option" where
  "goParseInt s =
     (let neg = goHasPrefix s ''-''; ds = (if neg \<or> goHasPrefix s ''+'' then tl s else s) in
      if ds = '''' then None
      else case parseDigits 0 ds of None \<Rightarrow> None
        | Some n \<Rightarrow> if neg then (if n \<le> 2 ^ 63 then Some (- int n) else None)
                   else (if n < 2 ^ 63 then Some (int n) else None))"

lemma goParseInt_range: "goParseInt s = Some n \<Longrightarrow> - (2 ^ 63) \<le> n \<and> n < 2 ^ 63"
  by (auto simp: goParseInt_def Let_def split: if_splits option.splits)

text \<open>Signed 64-bit arithmetic wraps around.\<close>

definition wrap64 :: "int \<Rightarrow> int" where
  "wrap64 x = (x + 2 ^ 63) mod 2 ^ 64 - 2 ^ 63"

lemma wrap64_range: "- (2 ^ 63) \<le> wrap64 x" "wrap64 x < 2 ^ 63"
  by (simp_all add: wrap64_def)

lemma wrap64_id: "- (2 ^ 63) \<le> x \<Longrightarrow> x < 2 ^ 63 \<Longrightarrow> wrap64 x = x"
  by (simp add: wrap64_def)

definition goParseBool :: "string \<Rightarrow> bool option" where
  "goParseBool s =
     (if s \<in> set [''1'', ''t'', ''T'', ''TRUE'', ''true'', ''True''] then Some True
      else if s \<in> set [''0'', ''f'', ''F'', ''FALSE'', ''false'', ''False''] then Some False
      else None)"

section \<open>Base64\<close>

definition b64Char :: "bool \<Rightarrow> nat \<Rightarrow> char" where
  "b64Char url v =
     (if v < 26 then char_of (v + 65) else if v < 52 then char_of (v + 71) else if v < 62 then char_of (v - 4)
      else if v = 62 then (if url then CHR ''-'' else CHR ''+'') else (if url then CHR ''_'' else CHR ''/''))"

definition b64Val :: "bool \<Rightarrow> char \<Rightarrow> nat option" where
  "b64Val url c =
     (if isUpper c then Some (of_char c - 65) else if isLower c then Some (of_char c - 71)
      else if isDigit c then Some (of_char c + 4)
      else if c = (if url then CHR ''-'' else CHR ''+'') then Some 62
      else if c = (if url then CHR ''_'' else CHR ''/'') then Some 63 else None)"

fun b64Vals :: "bool \<Rightarrow> string \<Rightarrow> nat list option" where
  "b64Vals url [] = Some []"
| "b64Vals url (c # cs) =
     (case b64Val url c of None \<Rightarrow> None
      | Some v \<Rightarrow> (case b64Vals url cs of None \<Rightarrow> None | Some vs \<Rightarrow> Some (v # vs)))"

fun sextets :: "nat list \<Rightarrow> nat list" where
  "sextets [] = []"
| "sextets [a] = [a div 4, 16 * (a mod 4)]"
| "sextets [a, b] = [a div 4, 16 * (a mod 4) + b div 16, 4 * (b mod 16)]"
| "sextets (a # b # c # r) = a div 4 # (16 * (a mod 4) + b div 16) # (4 * (b mod 16) + c div 64) # c mod 64 # sextets r"

fun octets :: "bool \<Rightarrow> nat list \<Rightarrow> nat list option" where
  "octets strict [] = Some []"
| "octets strict [a] = None"
| "octets strict [a, b] = (if strict \<and> b mod 16 \<noteq> 0 then None else Some [4 * a + b div 16])"
| "octets strict [a, b, c] = (if strict \<and> c mod 4 \<noteq> 0 then None else Some [4 * a + b div 16, 16 * (b mod 16) + c div 4])"
| "octets strict (a # b # c # d # r) =
     (case octets strict r of None \<Rightarrow> None
      | Some bs \<Rightarrow> Some ((4 * a + b div 16) # (16 * (b mod 16) + c div 4) # (64 * (c mod 4) + d) # bs))"

definition bytesOf :: "nat list \<Rightarrow> string" where
  "bytesOf = map char_of"

text \<open>\<^verbatim>\<open>RawURLEncoding\<close>: encoding, and decoding with and without \<^verbatim>\<open>Strict()\<close>. The decoder skips line ends.\<close>

definition rawURLEncode :: "string \<Rightarrow> string" where
  "rawURLEncode s = map (b64Char True) (sextets (map of_char s))"

definition noLineEnds :: "string \<Rightarrow> string" where
  "noLineEnds s = filter (\<lambda>c. c \<noteq> CHR 0x0A \<and> c \<noteq> CHR 0x0D) s"

definition rawURLDecode :: "bool \<Rightarrow> string \<Rightarrow> string option" where
  "rawURLDecode strict s =
     (case b64Vals True (noLineEnds s) of None \<Rightarrow> None | Some vs \<Rightarrow> map_option bytesOf (octets strict vs))"

text \<open>\<^verbatim>\<open>StdEncoding\<close> is padded with \<open>=\<close>.\<close>

fun stdChunks :: "string \<Rightarrow> nat list option" where
  "stdChunks [] = Some []"
| "stdChunks (a # b # c # d # r) =
     (if r = [] \<and> d = CHR ''='' then
        (case b64Vals False (if c = CHR ''='' then [a, b] else [a, b, c]) of None \<Rightarrow> None | Some vs \<Rightarrow> octets False vs)
      else (case b64Vals False [a, b, c, d] of None \<Rightarrow> None
        | Some vs \<Rightarrow> (case (octets False vs, stdChunks r) of (Some bs, Some rs) \<Rightarrow> Some (bs @ rs) | _ \<Rightarrow> None)))"
| "stdChunks _ = None"

definition stdDecode :: "string \<Rightarrow> string option" where
  "stdDecode s = map_option bytesOf (stdChunks (noLineEnds s))"

lemma pack_div_mod: "(y::nat) < m \<Longrightarrow> (m * x + y) div m = x" "(y::nat) < m \<Longrightarrow> (m * x + y) mod m = y"
  by (simp_all add: add.commute)

lemma octets_sextets: "\<forall>b \<in> set bs. b < 256 \<Longrightarrow> octets strict (sextets bs) = Some bs"
proof (induction bs rule: sextets.induct)
  case (4 a b c r)
  then have "b div 16 < 16" "c div 64 < 4" "octets strict (sextets r) = Some r" by auto
  then show ?case by (simp add: pack_div_mod)
next
  case (3 a b)
  then have "b div 16 < 16" by auto
  then show ?case by (simp add: pack_div_mod)
qed simp_all

lemma sextets_bound: "\<forall>b \<in> set bs. b < 256 \<Longrightarrow> v \<in> set (sextets bs) \<Longrightarrow> v < 64"
  by (induction bs rule: sextets.induct) auto

lemma of_char_char_of: "n < 256 \<Longrightarrow> of_char (char_of n :: char) = (n :: nat)"
  by simp

lemma b64Val_Char: "v < 64 \<Longrightarrow> b64Val url (b64Char url v) = Some v"
proof -
  have sym: "\<not> isUpper CHR ''-''" "\<not> isUpper CHR ''+''" "\<not> isUpper CHR ''_''" "\<not> isUpper CHR ''/''"
    "\<not> isLower CHR ''-''" "\<not> isLower CHR ''+''" "\<not> isLower CHR ''_''" "\<not> isLower CHR ''/''"
    "\<not> isDigit CHR ''-''" "\<not> isDigit CHR ''+''" "\<not> isDigit CHR ''_''" "\<not> isDigit CHR ''/''"
    by (simp_all add: isUpper_def isLower_def isDigit_def)
  assume "v < 64"
  then consider "v < 26" | "26 \<le> v" "v < 52" | "52 \<le> v" "v < 62" | "v = 62" | "v = 63" by linarith
  then show ?thesis
  proof cases
    case 1
    then have "isUpper (char_of (v + 65))" by (simp add: isUpper_def)
    with 1 show ?thesis by (simp add: b64Char_def b64Val_def)
  next
    case 2
    then have "isLower (char_of (v + 71))" "\<not> isUpper (char_of (v + 71))" by (simp_all add: isUpper_def isLower_def)
    with 2 show ?thesis by (simp add: b64Char_def b64Val_def)
  next
    case 3
    then have "isDigit (char_of (v - 4))" "\<not> isLower (char_of (v - 4))" "\<not> isUpper (char_of (v - 4))"
      by (simp_all add: isUpper_def isLower_def isDigit_def) linarith
    with 3 show ?thesis by (simp add: b64Char_def b64Val_def)
  qed (simp_all add: b64Char_def b64Val_def sym)
qed

lemma b64Vals_Chars: "\<forall>v \<in> set vs. v < 64 \<Longrightarrow> b64Vals url (map (b64Char url) vs) = Some vs"
  by (induction vs) (simp_all add: b64Val_Char)

lemma b64Char_line: "b64Char url v \<noteq> CHR 0x0A" "b64Char url v \<noteq> CHR 0x0D"
proof -
  have "b64Val url (b64Char url (min v 63)) = Some (min v 63)" by (rule b64Val_Char) simp
  moreover have "b64Char url v = b64Char url (min v 63)" by (simp add: b64Char_def min_def)
  moreover have "b64Val url CHR 0x0A = None" "b64Val url CHR 0x0D = None"
    by (simp_all add: b64Val_def isUpper_def isLower_def isDigit_def)
  ultimately show "b64Char url v \<noteq> CHR 0x0A" "b64Char url v \<noteq> CHR 0x0D" by auto
qed

lemma rawURL_roundtrip: "rawURLDecode strict (rawURLEncode s) = Some s"
proof -
  have "noLineEnds (rawURLEncode s) = rawURLEncode s"
    by (auto simp: noLineEnds_def rawURLEncode_def b64Char_line filter_id_conv)
  moreover have "\<forall>b \<in> set (map of_char s). b < (256 :: nat)" by auto
  ultimately show ?thesis
    using b64Vals_Chars [of "sextets (map of_char s)" True] sextets_bound [of "map of_char s"] octets_sextets [of "map of_char s" strict]
    by (simp add: rawURLDecode_def rawURLEncode_def bytesOf_def comp_def)
qed

section \<open>JSON documents\<close>

text \<open>
  A document as \<^verbatim>\<open>encoding/json\<close> reads it: the members of an object in their order, duplicates
  included, and numbers by their literal.
\<close>

datatype json =
    JsNull
  | JsBool bool
  | JsNumber string
  | JsString string
  | JsArray "json list"
  | JsObject "(string \<times> json) list"

text \<open>\<^verbatim>\<open>json.Unmarshal\<close> into a map: the last of several members with one name stays.\<close>

definition jsMember :: "(string \<times> json) list \<Rightarrow> string \<Rightarrow> json option" where
  "jsMember ms k = map_of (rev ms) k"

lemma jsMember_mem: "jsMember ms k = Some v \<Longrightarrow> (k, v) \<in> set ms"
  by (auto simp: jsMember_def dest: map_of_SomeD)

end
