(* ===== verification/CIMD.thy ===== *)
theory CIMD
  imports Clients Go_Std "HOL-Library.Word"
begin

text \<open>
  MCP clients that publish their own metadata: \<^verbatim>\<open>internal/adapter/mcp/cimd*.go\<close>. A client id that is
  an https URL is resolved by fetching the document behind it; the fetcher gates the id (canonical
  form, host allowlist), answers from a cache, counts failures per id, and validates the document.

  Parameters: \<^verbatim>\<open>net/url\<close>, \<^verbatim>\<open>mime\<close> and \<^verbatim>\<open>encoding/json\<close> through \<open>CimdEnv\<close>, the LRU cache of
  \<^verbatim>\<open>hashicorp/golang-lru\<close> through \<open>lru_ops\<close>, the HTTP response through the argument \<open>resp\<close>. A call
  reads the clock three times (\<open>t1\<close> before the cache, \<open>t2\<close> before the quota, \<open>t3\<close> after the
  response). Concurrent calls for one id are collapsed by \<^verbatim>\<open>singleflight\<close>; the model runs calls one
  after the other.
\<close>

unbundle bit_operations_syntax

section \<open>Where a document may be fetched from\<close>

text \<open>A \<^verbatim>\<open>net.IP\<close> is a slice of 4 or 16 bytes; the methods of \<^verbatim>\<open>net.IP\<close> that the check uses.\<close>

type_synonym IP = "8 word list"

definition To4 :: "IP \<Rightarrow> IP option" where
  "To4 ip =
     (if length ip = 4 then Some ip
      else if length ip = 16 \<and> take 12 ip = replicate 10 0 @ [255, 255] then Some (drop 12 ip)
      else None)"

definition IsLoopback :: "IP \<Rightarrow> bool" where
  "IsLoopback ip = (case To4 ip of Some v \<Rightarrow> v ! 0 = 127 | None \<Rightarrow> ip = replicate 15 0 @ [1])"

definition IsPrivate :: "IP \<Rightarrow> bool" where
  "IsPrivate ip =
     (case To4 ip of
        Some v \<Rightarrow> v ! 0 = 10 \<or> (v ! 0 = 172 \<and> v ! 1 AND 0xF0 = 16) \<or> (v ! 0 = 192 \<and> v ! 1 = 168)
      | None \<Rightarrow> length ip = 16 \<and> ip ! 0 AND 0xFE = 0xFC)"

definition IsMulticast :: "IP \<Rightarrow> bool" where
  "IsMulticast ip =
     (case To4 ip of Some v \<Rightarrow> v ! 0 AND 0xF0 = 0xE0 | None \<Rightarrow> length ip = 16 \<and> ip ! 0 = 0xFF)"

definition IsLinkLocalMulticast :: "IP \<Rightarrow> bool" where
  "IsLinkLocalMulticast ip =
     (case To4 ip of Some v \<Rightarrow> v ! 0 = 224 \<and> v ! 1 = 0 \<and> v ! 2 = 0
      | None \<Rightarrow> length ip = 16 \<and> ip ! 0 = 0xFF \<and> ip ! 1 AND 0x0F = 0x02)"

definition IsLinkLocalUnicast :: "IP \<Rightarrow> bool" where
  "IsLinkLocalUnicast ip =
     (case To4 ip of Some v \<Rightarrow> v ! 0 = 169 \<and> v ! 1 = 254
      | None \<Rightarrow> length ip = 16 \<and> ip ! 0 = 0xFE \<and> ip ! 1 AND 0xC0 = 0x80)"

definition IsUnspecified :: "IP \<Rightarrow> bool" where
  "IsUnspecified ip = (case To4 ip of Some v \<Rightarrow> v = [0, 0, 0, 0] | None \<Rightarrow> ip = replicate 16 0)"

text \<open>A network: its address and the length of its prefix; \<open>cidrMask\<close> is \<^verbatim>\<open>net.CIDRMask\<close>.\<close>

type_synonym IPNet = "IP \<times> nat"

fun cidrMask :: "nat \<Rightarrow> nat \<Rightarrow> IP" where
  "cidrMask p 0 = []"
| "cidrMask p (Suc n) = NOT (mask (8 - min p 8)) # cidrMask (p - 8) n"

definition Contains :: "IPNet \<Rightarrow> IP \<Rightarrow> bool" where
  "Contains n ip =
     (let x = (case To4 ip of Some v \<Rightarrow> v | None \<Rightarrow> ip); m = cidrMask (snd n) (length (fst n)) in
      length x = length (fst n) \<and> map2 (AND) (fst n) m = map2 (AND) x m)"

definition specialPurposeCIDRs :: "IPNet list" where
  "specialPurposeCIDRs =
     [([100, 64, 0, 0], 10), ([192, 0, 0, 0], 24), ([192, 0, 2, 0], 24), ([198, 51, 100, 0], 24),
      ([203, 0, 113, 0], 24), ([198, 18, 0, 0], 15), ([240, 0, 0, 0], 4),
      ([0x00, 0x64, 0xFF, 0x9B, 0, 0, 0, 0, 0, 0, 0, 0, 0, 0, 0, 0], 96),
      ([0x01, 0x00, 0, 0, 0, 0, 0, 0, 0, 0, 0, 0, 0, 0, 0, 0], 64),
      ([0x20, 0x01, 0x0D, 0xB8, 0, 0, 0, 0, 0, 0, 0, 0, 0, 0, 0, 0], 32)]"

definition isPrivateIP :: "IP option \<Rightarrow> bool" where
  "isPrivateIP ipo =
     (case ipo of None \<Rightarrow> True
      | Some ip0 \<Rightarrow>
          (let ip = (case To4 ip0 of Some v4 \<Rightarrow> v4 | None \<Rightarrow> ip0) in
           IsLoopback ip \<or> IsPrivate ip \<or> IsLinkLocalUnicast ip \<or> IsLinkLocalMulticast ip \<or> IsMulticast ip \<or> IsUnspecified ip
           \<or> list_ex (\<lambda>n. Contains n ip) specialPurposeCIDRs))"

text \<open>The dialer of \<^verbatim>\<open>newSSRFSafeHTTPClient\<close>: the address it dials for a resolved name.\<close>

fun dialTarget :: "IP list \<Rightarrow> err + IP" where
  "dialTarget [] = Inl (ErrMsg ''cimd: no public IP found'')"
| "dialTarget (ip # ips) = (if isPrivateIP (Some ip) then dialTarget ips else Inr ip)"

section \<open>Client ids\<close>

record CUrl =
  cu_Scheme :: string
  cu_Opaque :: string
  cu_User :: "string option"
  cu_Host :: string
  cu_Path :: string
  cu_RawPath :: string
  cu_RawQuery :: string
  cu_Fragment :: string
  cu_RawFragment :: string

record CIMDMetadata =
  cm_ClientID :: string
  cm_ClientName :: string
  cm_RedirectURIs :: "string list"
  cm_GrantTypes :: "string list"
  cm_ResponseTypes :: "string list"
  cm_TokenEndpointAuthMethod :: string
  cm_TokenEndpointAuthMethodsSupported :: "string list"

text \<open>
  \<^verbatim>\<open>url.ParseRequestURI\<close>, \<^verbatim>\<open>url.Parse\<close>, \<^verbatim>\<open>URL.String\<close>, the query parameters of a raw query,
  \<^verbatim>\<open>mime.ParseMediaType\<close> (the media type) and \<^verbatim>\<open>json.Unmarshal\<close> into the metadata.
\<close>

record CimdEnv =
  ce_parseURI :: uri_parser
  ce_parse :: "string \<Rightarrow> CUrl option"
  ce_string :: "CUrl \<Rightarrow> string"
  ce_queryGet :: "string \<Rightarrow> string \<Rightarrow> string"
  ce_mediaType :: "string \<Rightarrow> string option"
  ce_unmarshal :: "string \<Rightarrow> CIMDMetadata option"

definition maxCIMDDocSize :: nat where "maxCIMDDocSize = 10 * 1024"
definition maxCIMDClientIDLength :: nat where "maxCIMDClientIDLength = 2048"
definition maxCIMDClientNameLength :: nat where "maxCIMDClientNameLength = 256"
definition maxCIMDRedirectURICount :: nat where "maxCIMDRedirectURICount = 10"
definition maxCIMDRedirectURILength :: nat where "maxCIMDRedirectURILength = 2048"
definition maxCIMDGrantTypeCount :: nat where "maxCIMDGrantTypeCount = 8"
definition maxCIMDResponseTypeCount :: nat where "maxCIMDResponseTypeCount = 1"
definition cimdCacheMaxEntries :: nat where "cimdCacheMaxEntries = 4096"
definition cimdNegativeCacheTTL :: duration where "cimdNegativeCacheTTL = 30 * second"
definition cimdFloorTTL :: duration where "cimdFloorTTL = 5 * second"
definition cimdCeilTTL :: duration where "cimdCeilTTL = 24 * hour"

text \<open>\<^verbatim>\<open>URL.Hostname\<close> and \<^verbatim>\<open>URL.Port\<close>: the host before its last colon where digits follow it, without brackets.\<close>

definition splitHostPort :: "string \<Rightarrow> string \<times> string" where
  "splitHostPort hostPort =
     (let port = rev (takeWhile (\<lambda>c. c \<noteq> CHR '':'') (rev hostPort));
          (host, port) = (if CHR '':'' \<in> set hostPort \<and> list_all isDigit port
                          then (take (length hostPort - length port - 1) hostPort, port) else (hostPort, ''''))
      in (if goHasPrefix host ''['' \<and> goHasSuffix host '']'' then take (length host - 2) (tl host) else host, port))"

definition urlHostname :: "CUrl \<Rightarrow> string" where
  "urlHostname u = fst (splitHostPort (cu_Host u))"

definition urlPort :: "CUrl \<Rightarrow> string" where
  "urlPort u = snd (splitHostPort (cu_Host u))"

definition canonicalCIMDKey :: "CimdEnv \<Rightarrow> string \<Rightarrow> string" where
  "canonicalCIMDKey env clientID =
     (case ce_parse env clientID of None \<Rightarrow> clientID
      | Some u \<Rightarrow>
          if cu_Scheme u = '''' \<or> cu_Host u = '''' then clientID
          else (let host = asciiLower (urlHostname u); p = urlPort u;
                    host = (if p \<noteq> '''' \<and> p \<noteq> ''443'' then host @ '':'' @ p else host);
                    cleaned = (let c = pathClean (cu_Path u) in if c = ''.'' then ''/'' else c);
                    path = (if cu_Path u \<noteq> '''' then cleaned else cu_Path u)
                in ce_string env (u\<lparr>cu_Host := host, cu_Path := path, cu_RawPath := '''', cu_Fragment := ''''\<rparr>)))"

definition isCanonicalCIMDClientID :: "CimdEnv \<Rightarrow> string \<Rightarrow> bool" where
  "isCanonicalCIMDClientID env clientID \<longleftrightarrow>
     list_all (\<lambda>c. of_char c \<le> (127 :: nat)) clientID \<and> canonicalCIMDKey env clientID = clientID"

section \<open>The host allowlist\<close>

definition AnyCIMDHost :: string where "AnyCIMDHost = ''*''"

definition DefaultCIMDHosts :: "string list" where "DefaultCIMDHosts = [''claude.ai'', ''chatgpt.com'']"

record CIMDHostPolicy =
  hp_any :: bool
  hp_hosts :: "string set"

fun checkCIMDHosts :: "string list \<Rightarrow> err option" where
  "checkCIMDHosts [] = None"
| "checkCIMDHosts (h # hs) =
     (if \<not> Valid h \<or> h \<noteq> asciiLower h then Some (ErrMsg ''cimd host allowlist: not a lowercase host name'') else checkCIMDHosts hs)"

definition NewCIMDHostPolicy :: "string list \<Rightarrow> err + CIMDHostPolicy" where
  "NewCIMDHostPolicy hosts =
     (if hosts = [] then Inl (ErrMsg ''cimd host allowlist is empty'')
      else if AnyCIMDHost \<in> set hosts then
        (if length hosts \<noteq> 1 then Inl (ErrMsg ''cimd host allowlist: * must be the only entry'')
         else Inr \<lparr>hp_any = True, hp_hosts = {}\<rparr>)
      else case checkCIMDHosts hosts of Some e \<Rightarrow> Inl e
        | None \<Rightarrow> Inr \<lparr>hp_any = False, hp_hosts = set hosts\<rparr>)"

definition allowsClientID :: "CimdEnv \<Rightarrow> CIMDHostPolicy \<Rightarrow> string \<Rightarrow> bool" where
  "allowsClientID env p clientID =
     (if hp_any p then True
      else case ce_parse env clientID of None \<Rightarrow> False | Some u \<Rightarrow> urlHostname u \<in> hp_hosts p)"

section \<open>Validation of a document\<close>

definition stripCIMDQuery :: "string \<Rightarrow> string" where
  "stripCIMDQuery clientID = takeWhile (\<lambda>c. c \<noteq> CHR ''?'') clientID"

definition cimdClientOffersNone :: "CimdEnv \<Rightarrow> string \<Rightarrow> string list \<Rightarrow> bool" where
  "cimdClientOffersNone env clientID supported =
     (if (case ce_parse env clientID of Some u \<Rightarrow> ce_queryGet env (cu_RawQuery u) ''token_endpoint_auth_method'' = ''none'' | None \<Rightarrow> False)
      then True else list_ex (\<lambda>m. m = ''none'') supported)"

fun collectGrantTypes :: "string list \<Rightarrow> string list \<Rightarrow> string list" where
  "collectGrantTypes supported [] = supported"
| "collectGrantTypes supported (gt # gts) =
     (if (gt = ''authorization_code'' \<or> gt = ''refresh_token'') \<and> gt \<notin> set supported
      then collectGrantTypes (supported @ [gt]) gts else collectGrantTypes supported gts)"

definition supportedCIMDGrantTypes :: "string list \<Rightarrow> err + string list" where
  "supportedCIMDGrantTypes grantTypes =
     (if grantTypes = [] then Inr [''authorization_code'']
      else if length grantTypes > maxCIMDGrantTypeCount then Inl (ErrMsg ''cimd: grant_types exceeds 8 entries'')
      else let supported = collectGrantTypes [] grantTypes in
           if ''authorization_code'' \<notin> set supported then Inl (ErrMsg ''cimd: grant_types must include authorization_code'')
           else Inr supported)"

fun checkCIMDRedirectURIs :: "string list \<Rightarrow> err option" where
  "checkCIMDRedirectURIs [] = None"
| "checkCIMDRedirectURIs (uri # uris) =
     (if length uri = 0 then Some (ErrMsg ''cimd: redirect_uri cannot be empty'')
      else if length uri > maxCIMDRedirectURILength then Some (ErrMsg ''cimd: redirect_uri exceeds 2048 chars'')
      else checkCIMDRedirectURIs uris)"

definition cimdModel :: "string \<Rightarrow> CIMDMetadata \<Rightarrow> string list \<Rightarrow> Model" where
  "cimdModel clientID meta grantTypes =
     \<lparr>c_UUID = '''', c_ID = clientID, c_SecretHash = None, c_Type = ''public'', c_LoginChannel = ''mcp'',
      c_Name = cm_ClientName meta, c_URL = '''', c_RedirectURIList = cm_RedirectURIs meta,
      c_AllowedScopeList = [''openid'', ''profile'', ''email'', ''offline_access''],
      c_AllowedGrantTypeList = grantTypes, c_SkipPKCE = False, c_IDTokenUserinfoAssertion = False, c_Access = None\<rparr>"

definition validateCIMDMetadata :: "CimdEnv \<Rightarrow> string \<Rightarrow> string \<Rightarrow> err + Model" where
  "validateCIMDMetadata env body clientID =
     (case ce_unmarshal env body of None \<Rightarrow> Inl (ErrMsg ''cimd: invalid JSON'')
      | Some meta \<Rightarrow>
        if cm_ClientID meta \<noteq> clientID \<and> cm_ClientID meta \<noteq> stripCIMDQuery clientID then Inl (ErrMsg ''cimd: client_id mismatch'')
        else if length (cm_ClientID meta) > maxCIMDClientIDLength then Inl (ErrMsg ''cimd: client_id exceeds 2048 chars'')
        else if cm_ClientName meta = '''' then Inl (ErrMsg ''cimd: client_name is required'')
        else if length (cm_ClientName meta) > maxCIMDClientNameLength then Inl (ErrMsg ''cimd: client_name exceeds 256 chars'')
        else if length (cm_RedirectURIs meta) = 0 then Inl (ErrMsg ''cimd: redirect_uris is required'')
        else if length (cm_RedirectURIs meta) > maxCIMDRedirectURICount then Inl (ErrMsg ''cimd: redirect_uris exceeds 10 entries'')
        else case checkCIMDRedirectURIs (cm_RedirectURIs meta) of Some e \<Rightarrow> Inl e
        | None \<Rightarrow>
        (case supportedCIMDGrantTypes (cm_GrantTypes meta) of Inl e \<Rightarrow> Inl e
        | Inr grantTypes \<Rightarrow>
          (let am = (if cm_TokenEndpointAuthMethod meta = '''' then ''none'' else cm_TokenEndpointAuthMethod meta) in
           if am \<noteq> ''none'' \<and> \<not> cimdClientOffersNone env clientID (cm_TokenEndpointAuthMethodsSupported meta)
             then Inl (ErrMsg ''cimd: unsupported token_endpoint_auth_method'')
           else if list_ex (\<lambda>rt. rt \<noteq> ''code'') (cm_ResponseTypes meta) then Inl (ErrMsg ''cimd: unsupported response_type'')
           else if length (cm_ResponseTypes meta) > maxCIMDResponseTypeCount then Inl (ErrMsg ''cimd: response_types exceeds 1 entries'')
           else Inr (cimdModel clientID meta grantTypes))))"

section \<open>The cache\<close>

text \<open>
  The operations of an LRU cache: \<open>lru_get\<close> also marks the entry as recently used. The contents
  \<open>lru_peek\<close> and the size \<open>lru_cap\<close> are only used to state what the library documents: a cache of
  size \<open>n\<close> evicts nothing while it holds at most \<open>n\<close> keys.
\<close>

record ('l, 'v) lru_ops =
  lru_new :: "nat \<Rightarrow> 'l"
  lru_get :: "'l \<Rightarrow> string \<Rightarrow> 'v option \<times> 'l"
  lru_add :: "'l \<Rightarrow> string \<Rightarrow> 'v \<Rightarrow> 'l"
  lru_remove :: "'l \<Rightarrow> string \<Rightarrow> 'l"
  lru_peek :: "'l \<Rightarrow> string \<rightharpoonup> 'v"
  lru_cap :: "'l \<Rightarrow> nat"

definition lru_ok :: "('l, 'v) lru_ops \<Rightarrow> bool" where
  "lru_ok ops \<longleftrightarrow>
     (\<forall>n. lru_peek ops (lru_new ops n) = Map.empty \<and> lru_cap ops (lru_new ops n) = n)
   \<and> (\<forall>l k. fst (lru_get ops l k) = lru_peek ops l k \<and> lru_peek ops (snd (lru_get ops l k)) = lru_peek ops l
            \<and> lru_cap ops (snd (lru_get ops l k)) = lru_cap ops l)
   \<and> (\<forall>l k. lru_peek ops (lru_remove ops l k) = (lru_peek ops l)(k := None) \<and> lru_cap ops (lru_remove ops l k) = lru_cap ops l)
   \<and> (\<forall>l k v. lru_cap ops (lru_add ops l k v) = lru_cap ops l
            \<and> (card (insert k (dom (lru_peek ops l))) \<le> lru_cap ops l \<longrightarrow> lru_peek ops (lru_add ops l k v) = (lru_peek ops l)(k \<mapsto> v)))"

record cimdCacheEntry =
  ce_result :: "err + Model"
  ce_expiresAt :: time

definition Lookup :: "('c, cimdCacheEntry) lru_ops \<Rightarrow> 'c \<Rightarrow> string \<Rightarrow> time \<Rightarrow> (err + Model) option \<times> 'c" where
  "Lookup ops c clientID now =
     (case lru_get ops c clientID of
        (None, c') \<Rightarrow> (None, c')
      | (Some e, c') \<Rightarrow> if now < ce_expiresAt e then (Some (ce_result e), c') else (None, lru_remove ops c' clientID))"

definition PutPositive :: "('c, cimdCacheEntry) lru_ops \<Rightarrow> 'c \<Rightarrow> string \<Rightarrow> Model \<Rightarrow> time \<Rightarrow> 'c" where
  "PutPositive ops c clientID client expiresAt = lru_add ops c clientID \<lparr>ce_result = Inr client, ce_expiresAt = expiresAt\<rparr>"

definition PutNegative :: "('c, cimdCacheEntry) lru_ops \<Rightarrow> 'c \<Rightarrow> string \<Rightarrow> err \<Rightarrow> time \<Rightarrow> 'c" where
  "PutNegative ops c clientID e expiresAt = lru_add ops c clientID \<lparr>ce_result = Inl e, ce_expiresAt = expiresAt\<rparr>"

text \<open>
  The directives of a Cache-Control header, in order. \<^verbatim>\<open>strings.ToLower\<close> is ASCII here: no other
  letter has one of the letters of the directives as its lower case.
\<close>

fun cacheDirectives :: "string list \<Rightarrow> duration \<Rightarrow> duration" where
  "cacheDirectives [] fallback = fallback"
| "cacheDirectives (d0 # ds) fallback =
     (let d = goTrimSpace (asciiLower d0) in
      if d = ''no-store'' \<or> d = ''no-cache'' then 0
      else if goHasPrefix d ''max-age='' then
        (case goParseInt (goTrimSpace (goTrimPrefix d ''max-age='')) of None \<Rightarrow> 0
         | Some seconds \<Rightarrow> if seconds \<le> 0 then 0 else wrap64 (seconds * second))
      else cacheDirectives ds fallback)"

definition parseCacheControlTTL :: "string \<Rightarrow> duration \<Rightarrow> duration" where
  "parseCacheControlTTL cacheControl fallback =
     (if cacheControl = '''' then fallback else cacheDirectives (goSplit CHR '','' cacheControl) fallback)"

definition cacheTTLFromCacheControl :: "string \<Rightarrow> duration \<Rightarrow> duration" where
  "cacheTTLFromCacheControl cacheControl fallback =
     (let ttl = parseCacheControlTTL cacheControl fallback in
      if ttl < cimdFloorTTL then cimdFloorTTL else if ttl > cimdCeilTTL then cimdCeilTTL else ttl)"

section \<open>The failure quota\<close>

definition cimdFailureLimit :: nat where "cimdFailureLimit = 5"
definition cimdFailureWindow :: duration where "cimdFailureWindow = 5 * minute"

definition errCIMDRateLimited :: err where "errCIMDRateLimited = ErrMsg ''cimd: too many recent failures, retry later''"
definition errCIMDHostNotAllowed :: err where "errCIMDHostNotAllowed = ErrMsg ''cimd: client_id host is not allowed''"

text \<open>The tracker's cache holds pointers to records, which both operations change in place: \<open>ft_heap\<close>.\<close>

record 'f failureTracker =
  ft_lru :: 'f
  ft_heap :: "nat \<Rightarrow> time list"
  ft_next :: nat

definition pruneOldTimestamps :: "time list \<Rightarrow> time \<Rightarrow> duration \<Rightarrow> time list" where
  "pruneOldTimestamps ts now window = (let cutoff = now - window in filter (\<lambda>t. cutoff < t) ts)"

definition IsRateLimited :: "('f, nat) lru_ops \<Rightarrow> 'f failureTracker \<Rightarrow> string \<Rightarrow> time \<Rightarrow> bool \<times> 'f failureTracker" where
  "IsRateLimited ops t clientID now =
     (case lru_get ops (ft_lru t) clientID of
        (None, l) \<Rightarrow> (False, t\<lparr>ft_lru := l\<rparr>)
      | (Some r, l) \<Rightarrow>
          (let ts = pruneOldTimestamps (ft_heap t r) now cimdFailureWindow in
           (cimdFailureLimit \<le> length ts, t\<lparr>ft_lru := l, ft_heap := (ft_heap t)(r := ts)\<rparr>)))"

definition Record :: "('f, nat) lru_ops \<Rightarrow> 'f failureTracker \<Rightarrow> string \<Rightarrow> time \<Rightarrow> 'f failureTracker" where
  "Record ops t clientID now =
     (case lru_get ops (ft_lru t) clientID of
        (Some r, l) \<Rightarrow>
          t\<lparr>ft_lru := l, ft_heap := (ft_heap t)(r := pruneOldTimestamps (ft_heap t r) now cimdFailureWindow @ [now])\<rparr>
      | (None, l) \<Rightarrow>
          (let r = ft_next t in
           t\<lparr>ft_lru := lru_add ops l clientID r, ft_heap := (ft_heap t)(r := pruneOldTimestamps [] now cimdFailureWindow @ [now]),
             ft_next := r + 1\<rparr>))"

section \<open>The fetcher\<close>

text \<open>
  The two caches are created on first use. \<open>f_sent\<close> records the attempts to fetch a document: for
  each its client id, the clock before and after it, and whether it ended in a failure.
\<close>

record Attempt =
  at_client :: string
  at_start :: time
  at_end :: time
  at_failed :: bool

record ('c, 'f) HTTPCIMDFetcher =
  f_hosts :: CIMDHostPolicy
  f_cacheTTL :: duration
  f_cacheMax :: nat
  f_cache :: "'c option"
  f_failures :: "'f failureTracker option"
  f_sent :: "Attempt list"

definition NewHTTPCIMDFetcher :: "CIMDHostPolicy \<Rightarrow> ('c, 'f) HTTPCIMDFetcher" where
  "NewHTTPCIMDFetcher hosts =
     \<lparr>f_hosts = hosts, f_cacheTTL = 5 * minute, f_cacheMax = 0, f_cache = None, f_failures = None, f_sent = []\<rparr>"

definition cacheMax :: "('c, 'f) HTTPCIMDFetcher \<Rightarrow> nat" where
  "cacheMax f = (if f_cacheMax f = 0 then cimdCacheMaxEntries else f_cacheMax f)"

definition ensureCache :: "('c, cimdCacheEntry) lru_ops \<Rightarrow> ('c, 'f) HTTPCIMDFetcher \<Rightarrow> 'c" where
  "ensureCache ops f = (case f_cache f of Some c \<Rightarrow> c | None \<Rightarrow> lru_new ops (cacheMax f))"

definition ensureFailures :: "('f, nat) lru_ops \<Rightarrow> ('c, 'f) HTTPCIMDFetcher \<Rightarrow> 'f failureTracker" where
  "ensureFailures ops f =
     (case f_failures f of Some t \<Rightarrow> t | None \<Rightarrow> \<lparr>ft_lru = lru_new ops (cacheMax f), ft_heap = (\<lambda>_. []), ft_next = 0\<rparr>)"

record HTTPResponse =
  hr_StatusCode :: nat
  hr_ContentType :: string
  hr_CacheControl :: string
  hr_Body :: "err + string"

definition fetchAndValidate :: "CimdEnv \<Rightarrow> duration \<Rightarrow> string \<Rightarrow> err + HTTPResponse \<Rightarrow> err + Model \<times> duration" where
  "fetchAndValidate env cacheTTL clientID resp =
     (if ce_parse env clientID = None then Inl (ErrMsg ''cimd: invalid URL'')
      else case resp of Inl e \<Rightarrow> Inl (ErrMsg ''cimd: fetch failed'')
      | Inr r \<Rightarrow>
          if hr_StatusCode r \<noteq> 200 then Inl (ErrMsg ''cimd: unexpected HTTP status'')
          else (case ce_mediaType env (hr_ContentType r) of None \<Rightarrow> Inl (ErrMsg ''cimd: invalid Content-Type header'')
          | Some mediaType \<Rightarrow>
              if mediaType \<noteq> ''application/json'' then Inl (ErrMsg ''cimd: unsupported Content-Type'')
              else (case hr_Body r of Inl e \<Rightarrow> Inl (ErrMsg ''cimd: read failed'')
              | Inr full \<Rightarrow>
                  (let body = take (maxCIMDDocSize + 1) full in
                   if length body > maxCIMDDocSize then Inl (ErrMsg ''cimd: document exceeds 10KB limit'')
                   else (case validateCIMDMetadata env body clientID of Inl e \<Rightarrow> Inl e
                   | Inr client \<Rightarrow> Inr (client, cacheTTLFromCacheControl (hr_CacheControl r) cacheTTL))))))"

definition FetchClient ::
  "CimdEnv \<Rightarrow> ('c, cimdCacheEntry) lru_ops \<Rightarrow> ('f, nat) lru_ops \<Rightarrow> string \<Rightarrow> time \<Rightarrow> time \<Rightarrow> time \<Rightarrow> err + HTTPResponse \<Rightarrow>
   ('c, 'f) HTTPCIMDFetcher \<Rightarrow> (err + Model) \<times> ('c, 'f) HTTPCIMDFetcher" where
  "FetchClient env cops fops clientID t1 t2 t3 resp f =
     (if \<not> IsCIMDClientID (ce_parseURI env) clientID then (Inl (ErrMsg ''cimd: invalid client_id URL''), f)
      else if \<not> isCanonicalCIMDClientID env clientID then (Inl (ErrMsg ''cimd: client_id must be in canonical form''), f)
      else if \<not> allowsClientID env (f_hosts f) clientID then (Inl errCIMDHostNotAllowed, f)
      else case Lookup cops (ensureCache cops f) clientID t1 of
        (Some res, c) \<Rightarrow> (res, f\<lparr>f_cache := Some c\<rparr>)
      | (None, c) \<Rightarrow>
        (case IsRateLimited fops (ensureFailures fops f) clientID t2 of
           (True, t) \<Rightarrow> (Inl errCIMDRateLimited, f\<lparr>f_cache := Some c, f_failures := Some t\<rparr>)
         | (False, t) \<Rightarrow>
           (case fetchAndValidate env (f_cacheTTL f) clientID resp of
              Inl e \<Rightarrow>
                (Inl e, f\<lparr>f_cache := Some (PutNegative cops c clientID e (t3 + cimdNegativeCacheTTL)),
                          f_failures := Some (Record fops t clientID t3), f_sent := f_sent f @ [\<lparr>at_client = clientID, at_start = t2, at_end = t3, at_failed = True\<rparr>]\<rparr>)
            | Inr (client, ttl) \<Rightarrow>
                (Inr client, f\<lparr>f_cache := Some (if ttl > 0 then PutPositive cops c clientID client (t3 + ttl) else c),
                               f_failures := Some t, f_sent := f_sent f @ [\<lparr>at_client = clientID, at_start = t2, at_end = t3, at_failed = False\<rparr>]\<rparr>))))"

end
