(* ===== verification/CIMD_Correct.thy ===== *)
theory CIMD_Correct
  imports CIMD
begin

text \<open>
  Correctness of the CIMD fetcher: which documents are accepted and as which client, which
  addresses are dialled, how long a resolution is cached, and, over every sequence of calls, which
  clients the fetcher answers with and how often it goes to the network.
\<close>

section \<open>Documents\<close>

definition firstGrants :: "string list \<Rightarrow> string list" where
  "firstGrants gts = (if gts = [] then [''authorization_code'']
     else rev (remdups (rev (filter (\<lambda>g. g = ''authorization_code'' \<or> g = ''refresh_token'') gts))))"

lemma collectGrantTypes_filter:
  "collectGrantTypes acc gts =
     acc @ rev (remdups (rev (filter (\<lambda>g. (g = ''authorization_code'' \<or> g = ''refresh_token'') \<and> g \<notin> set acc) gts)))"
proof (induction gts arbitrary: acc)
  case (Cons g gts)
  show ?case
  proof (cases "(g = ''authorization_code'' \<or> g = ''refresh_token'') \<and> g \<notin> set acc")
    case True
    let ?P = "\<lambda>x. (x = ''authorization_code'' \<or> x = ''refresh_token'') \<and> x \<notin> set acc"
    have "remdups (rev (filter ?P gts) @ [g]) = remdups (rev (filter (\<lambda>x. ?P x \<and> x \<noteq> g) gts)) @ [g]"
      by (induction gts rule: rev_induct) auto
    moreover have "(\<lambda>x. (x = ''authorization_code'' \<or> x = ''refresh_token'') \<and> x \<notin> set (acc @ [g])) = (\<lambda>x. ?P x \<and> x \<noteq> g)" by auto
    ultimately show ?thesis using True Cons.IH [of "acc @ [g]"] by simp
  qed (use Cons.IH in auto)
qed simp

lemma supportedCIMDGrantTypes_iff:
  "supportedCIMDGrantTypes gts = Inr r \<longleftrightarrow>
     r = firstGrants gts \<and> length gts \<le> maxCIMDGrantTypeCount \<and> (gts = [] \<or> ''authorization_code'' \<in> set gts)"
  by (auto simp: supportedCIMDGrantTypes_def collectGrantTypes_filter firstGrants_def Let_def)

lemma firstGrants_set: "set (firstGrants gts) \<subseteq> {''authorization_code'', ''refresh_token''}" "distinct (firstGrants gts)"
  by (auto simp: firstGrants_def)

lemma checkCIMDRedirectURIs_None:
  "checkCIMDRedirectURIs uris = None \<longleftrightarrow> (\<forall>u \<in> set uris. 0 < length u \<and> length u \<le> maxCIMDRedirectURILength)"
  by (induction uris) auto

definition document_ok :: "CimdEnv \<Rightarrow> string \<Rightarrow> CIMDMetadata \<Rightarrow> bool" where
  "document_ok env cid meta \<longleftrightarrow>
     (cm_ClientID meta = cid \<or> cm_ClientID meta = takeWhile (\<lambda>c. c \<noteq> CHR ''?'') cid) \<and> length (cm_ClientID meta) \<le> 2048
   \<and> 0 < length (cm_ClientName meta) \<and> length (cm_ClientName meta) \<le> 256
   \<and> 0 < length (cm_RedirectURIs meta) \<and> length (cm_RedirectURIs meta) \<le> 10
   \<and> (\<forall>u \<in> set (cm_RedirectURIs meta). 0 < length u \<and> length u \<le> 2048)
   \<and> length (cm_GrantTypes meta) \<le> 8 \<and> (cm_GrantTypes meta = [] \<or> ''authorization_code'' \<in> set (cm_GrantTypes meta))
   \<and> (cm_TokenEndpointAuthMethod meta \<in> {'''', ''none''} \<or> ''none'' \<in> set (cm_TokenEndpointAuthMethodsSupported meta)
      \<or> (\<exists>u. ce_parse env cid = Some u \<and> ce_queryGet env (cu_RawQuery u) ''token_endpoint_auth_method'' = ''none''))
   \<and> (cm_ResponseTypes meta = [] \<or> cm_ResponseTypes meta = [''code''])"

lemma response_types: "\<not> list_ex (\<lambda>rt. rt \<noteq> ''code'') rts \<and> length rts \<le> 1 \<longleftrightarrow> rts = [] \<or> rts = [''code'']"
  by (cases rts) auto

lemma if_Inl_iff: "(if b then Inl e else x) = Inr m \<longleftrightarrow> \<not> b \<and> x = Inr m"
  by simp

lemma case_err_iff: "(case eo of Some e \<Rightarrow> Inl e | None \<Rightarrow> x) = Inr m \<longleftrightarrow> eo = None \<and> x = Inr m"
  by (cases eo) auto

lemma validate_iff:
  "validateCIMDMetadata env body cid = Inr m \<longleftrightarrow>
     (\<exists>meta. ce_unmarshal env body = Some meta \<and> document_ok env cid meta \<and> m = cimdModel cid meta (firstGrants (cm_GrantTypes meta)))"
proof (cases "ce_unmarshal env body")
  case (Some meta)
  have rt: "\<not> list_ex (\<lambda>rt. rt \<noteq> ''code'') (cm_ResponseTypes meta) \<and> \<not> maxCIMDResponseTypeCount < length (cm_ResponseTypes meta)
      \<longleftrightarrow> cm_ResponseTypes meta = [] \<or> cm_ResponseTypes meta = [''code'']"
    using response_types [of "cm_ResponseTypes meta"] by (auto simp: maxCIMDResponseTypeCount_def)
  show ?thesis
  proof (cases "supportedCIMDGrantTypes (cm_GrantTypes meta)")
    case (Inl e)
    then have "\<not> (length (cm_GrantTypes meta) \<le> 8 \<and> (cm_GrantTypes meta = [] \<or> ''authorization_code'' \<in> set (cm_GrantTypes meta)))"
      using supportedCIMDGrantTypes_iff [of "cm_GrantTypes meta" "firstGrants (cm_GrantTypes meta)"] by (simp add: maxCIMDGrantTypeCount_def)
    with Inl Some show ?thesis
      by (auto simp: validateCIMDMetadata_def document_ok_def split: option.split)
  next
    case (Inr gts)
    then have "gts = firstGrants (cm_GrantTypes meta)" "length (cm_GrantTypes meta) \<le> 8"
        "cm_GrantTypes meta = [] \<or> ''authorization_code'' \<in> set (cm_GrantTypes meta)"
      by (simp_all add: supportedCIMDGrantTypes_iff maxCIMDGrantTypeCount_def)
    note gts = this
    have offers: "cimdClientOffersNone env cid ms \<longleftrightarrow> ''none'' \<in> set ms
        \<or> (\<exists>u. ce_parse env cid = Some u \<and> ce_queryGet env (cu_RawQuery u) ''token_endpoint_auth_method'' = ''none'')" for ms
      by (auto simp: cimdClientOffersNone_def list_ex_iff split: option.split)
    let ?am = "if cm_TokenEndpointAuthMethod meta = '''' then ''none'' else cm_TokenEndpointAuthMethod meta"
    have am: "\<not> (?am \<noteq> ''none'' \<and> \<not> Q) \<longleftrightarrow> cm_TokenEndpointAuthMethod meta \<in> {'''', ''none''} \<or> Q" for Q by auto
    have name: "cm_ClientName meta \<noteq> '''' \<longleftrightarrow> 0 < length (cm_ClientName meta)" by simp
    have id: "\<not> (cm_ClientID meta \<noteq> cid \<and> cm_ClientID meta \<noteq> x) \<longleftrightarrow> cm_ClientID meta = cid \<or> cm_ClientID meta = x" for x by simp
    have conj: "(rs \<and> gs) \<and> X \<longleftrightarrow> rs \<and> gs \<and> X" for rs gs X by simp
    have "validateCIMDMetadata env body cid = Inr m \<longleftrightarrow> document_ok env cid meta \<and> cimdModel cid meta gts = m"
      unfolding validateCIMDMetadata_def Some Inr option.case sum.case if_Inl_iff case_err_iff Let_def
        document_ok_def rt [symmetric] checkCIMDRedirectURIs_None am offers name id stripCIMDQuery_def not_less conj
        maxCIMDClientIDLength_def maxCIMDClientNameLength_def maxCIMDRedirectURICount_def maxCIMDRedirectURILength_def
      by (simp only: gts(2,3) sum.inject simp_thms conj_assoc length_greater_0_conv length_0_conv)
    with gts(1) Some show ?thesis by auto
  qed
qed (simp add: validateCIMDMetadata_def)

section \<open>Cache lifetimes\<close>

lemma ttl_bounds: "cimdFloorTTL \<le> cacheTTLFromCacheControl h d" "cacheTTLFromCacheControl h d \<le> cimdCeilTTL"
  by (simp_all add: cacheTTLFromCacheControl_def Let_def cimdFloorTTL_def cimdCeilTTL_def hour_def minute_def second_def)

lemma ttl_pos: "0 < cacheTTLFromCacheControl h d"
  using ttl_bounds(1) [of h d] by (simp add: cimdFloorTTL_def second_def)

section \<open>Addresses\<close>

fun ipValue :: "IP \<Rightarrow> nat" where
  "ipValue [] = 0"
| "ipValue (b # bs) = unat b * 256 ^ length bs + ipValue bs"

lemma ipValue_less: "ipValue bs < 256 ^ length bs"
proof (induction bs)
  case (Cons b bs)
  have "unat b \<le> 255" using unsigned_less [of b, where ?'a = nat] by simp
  then have "unat b * 256 ^ length bs \<le> 255 * 256 ^ length bs" by (rule mult_right_mono) simp
  from this Cons have "unat b * 256 ^ length bs + ipValue bs < 255 * 256 ^ length bs + 256 ^ length bs" by (rule add_le_less_mono)
  then show ?case by simp
qed simp

lemma masked_eq: "(a AND NOT (mask k) = b AND NOT (mask k)) \<longleftrightarrow> drop_bit k a = drop_bit k (b :: 8 word)"
proof
  assume l: "a AND NOT (mask k) = b AND NOT (mask k)"
  show "drop_bit k a = drop_bit k b"
  proof (rule bit_word_eqI)
    fix n
    from l have "bit (a AND NOT (mask k)) (k + n) = bit (b AND NOT (mask k)) (k + n)" by simp
    then show "bit (drop_bit k a) n = bit (drop_bit k b) n"
      by (auto simp: bit_simps dest: bit_imp_le_length)
  qed
next
  assume r: "drop_bit k a = drop_bit k b"
  show "a AND NOT (mask k) = b AND NOT (mask k)"
  proof (rule bit_word_eqI)
    fix n
    from r have "bit (drop_bit k a) (n - k) = bit (drop_bit k b) (n - k)" by simp
    then show "bit (a AND NOT (mask k)) n = bit (b AND NOT (mask k)) n"
      by (cases "k \<le> n") (auto simp: bit_simps)
  qed
qed

lemma byte_prefix:
  "(a AND NOT (mask k) = b AND NOT (mask k)) \<longleftrightarrow> unat a div 2 ^ k = unat (b :: 8 word) div 2 ^ k"
proof -
  have div: "unat (drop_bit k w) = unat w div 2 ^ k" for w :: "8 word"
    by (metis drop_bit_eq_div unat_drop_bit_eq)
  have "drop_bit k a = drop_bit k b \<longleftrightarrow> unat (drop_bit k a) = unat (drop_bit k b)" by (rule word_unat_eq_iff)
  then show ?thesis by (simp only: masked_eq div)
qed

lemma byte_prefix_0: "x AND NOT (mask 8) = y AND NOT (mask 8)" for x y :: "8 word"
  using unsigned_less [of x, where ?'a = nat] unsigned_less [of y, where ?'a = nat] by (simp add: byte_prefix)

lemma cidrMask_0: "length xs = n \<Longrightarrow> length ys = n \<Longrightarrow> map2 (AND) xs (cidrMask 0 n) = map2 (AND) ys (cidrMask 0 n)"
proof (induction n arbitrary: xs ys)
  case (Suc n)
  then obtain x xs' y ys' where xy: "xs = x # xs'" "ys = y # ys'" "length xs' = n" "length ys' = n" by (auto simp: length_Suc_conv)
  with Suc.IH [of xs' ys'] byte_prefix_0 [of x y] show ?case by simp
qed simp

lemma prefix_split:
  assumes "v < M * E" "v' < M * E" "0 < (E :: nat)"
  shows "(x * (M * E) + v) div E = (y * (M * E) + v') div E \<longleftrightarrow> x = y \<and> v div E = v' div E"
proof -
  have b: "v div E < M" "v' div E < M" using assms by (simp_all add: div_less_iff_less_mult)
  have "(z * (M * E) + u) div E = M * z + u div E" for z u using assms(3)
    by (metis add.commute div_mult_self1 less_not_refl2 mult.assoc mult.commute)
  then show ?thesis using b by (metis add_left_cancel pack_div_mod(1))
qed

lemma Contains_value:
  assumes "length xs = length ys" "p \<le> 8 * length ys"
  shows "map2 (AND) xs (cidrMask p (length ys)) = map2 (AND) ys (cidrMask p (length ys)) \<longleftrightarrow>
     ipValue xs div 2 ^ (8 * length ys - p) = ipValue ys div 2 ^ (8 * length ys - p)"
  using assms
proof (induction xs ys arbitrary: p rule: list_induct2)
  case (Cons x xs y ys)
  let ?n = "length ys"
  have K: "256 ^ ?n = (2 :: nat) ^ (8 * ?n)" by (simp add: power_mult)
  have v: "ipValue xs < 2 ^ (8 * ?n)" "ipValue ys < 2 ^ (8 * ?n)"
    using ipValue_less [of xs] ipValue_less [of ys] Cons.hyps by (simp_all add: K)
  show ?case
  proof (cases "8 \<le> p")
    case True
    define e where "e = 8 * ?n - (p - 8)"
    have e: "8 + 8 * ?n - p = e" "8 * ?n = (p - 8) + e" "p - 8 \<le> 8 * ?n" using True Cons.prems by (auto simp: e_def)
    then have M: "(2 :: nat) ^ (8 * ?n) = 2 ^ (p - 8) * 2 ^ e" by (simp only: power_add)
    have "(x AND NOT (mask 0) = y AND NOT (mask 0)) \<longleftrightarrow> unat x = unat y" using byte_prefix [of x 0 y] by simp
    with True Cons.IH [OF e(3)] prefix_split [of "ipValue xs" "2 ^ (p - 8)" "2 ^ e" "ipValue ys" "unat x" "unat y"] v show ?thesis
      by (simp add: e(1) K M Cons.hyps e_def [symmetric])
  next
    case False
    then have q: "p - 8 = 0" "8 + 8 * ?n - p = 8 * ?n + (8 - p)" by auto
    have d: "(z * 2 ^ (8 * ?n) + u) div 2 ^ (8 + 8 * ?n - p) = z div 2 ^ (8 - p)" if "u < 2 ^ (8 * ?n)" for z u :: nat
      unfolding q(2) power_add div_mult2_eq using that by simp
    show ?thesis
      using False cidrMask_0 [of xs ?n ys] Cons.hyps byte_prefix [of x "8 - p" y] v by (simp add: q(1) d K)
  qed
qed simp

lemma ipValue_append: "ipValue (us @ vs) = ipValue us * 256 ^ length vs + ipValue vs"
  by (induction us) (simp_all add: power_add algebra_simps)

lemma ipValue_zeros: "ipValue (replicate n 0 @ vs) = ipValue vs" "ipValue (replicate n 0) = 0"
  by (induction n) simp_all

lemma cidrMask_full: "map2 (AND) xs (cidrMask (8 * length xs) (length xs)) = xs"
  by (induction xs) simp_all

lemma ipValue_inj: "length xs = length ys \<Longrightarrow> ipValue xs = ipValue ys \<longleftrightarrow> xs = ys"
  using Contains_value [of xs ys "8 * length ys"] cidrMask_full [of xs] cidrMask_full [of ys] by auto

text \<open>
  The reference: networks as the number of their address and the length of their prefix. The
  IPv4 table is the private, loopback, link-local, multicast and unspecified addresses followed by
  the special-purpose ranges, the IPv6 table likewise.
\<close>

definition blocked4 :: "(nat \<times> nat) list" where
  "blocked4 =
     [(0x0A000000, 8), (0x7F000000, 8), (0xA9FE0000, 16), (0xAC100000, 12), (0xC0A80000, 16), (0xE0000000, 4), (0, 32),
      (0x64400000, 10), (0xC0000000, 24), (0xC0000200, 24), (0xC6336400, 24), (0xCB007100, 24), (0xC6120000, 15), (0xF0000000, 4)]"

definition blocked6 :: "(nat \<times> nat) list" where
  "blocked6 =
     [(1, 128), (0, 128), (0xFC * 2 ^ 120, 7), (0xFE80 * 2 ^ 112, 10), (0xFF * 2 ^ 120, 8),
      (0x0064FF9B * 2 ^ 96, 96), (0x0100 * 2 ^ 112, 64), (0x20010DB8 * 2 ^ 96, 32)]"

definition inRange :: "nat \<Rightarrow> nat \<Rightarrow> nat \<times> nat \<Rightarrow> bool" where
  "inRange bits v n \<longleftrightarrow> v div 2 ^ (bits - snd n) = fst n div 2 ^ (bits - snd n)"

definition blockedAddress :: "IP \<Rightarrow> bool" where
  "blockedAddress ip \<longleftrightarrow>
     (if length ip = 4 then list_ex (inRange 32 (ipValue ip)) blocked4
      else if ipValue ip div 2 ^ 32 = 0xFFFF then list_ex (inRange 32 (ipValue ip mod 2 ^ 32)) blocked4
      else list_ex (inRange 128 (ipValue ip)) blocked6)"

definition masked :: "IP \<Rightarrow> nat \<Rightarrow> IP \<Rightarrow> bool" where
  "masked n p ip \<longleftrightarrow> map2 (AND) n (cidrMask p (length n)) = map2 (AND) ip (cidrMask p (length n))"

lemma masked_inRange: "length ip = length n \<Longrightarrow> p \<le> 8 * length n \<Longrightarrow> masked n p ip \<longleftrightarrow> inRange (8 * length n) (ipValue ip) (ipValue n, p)"
  using Contains_value [of ip n p] by (auto simp: masked_def inRange_def)

lemma inRange_full: "inRange b v (n, b) \<longleftrightarrow> v = n"
  by (simp add: inRange_def)

lemma cidrMask_4: "cidrMask p 4 = [NOT (mask (8 - min p 8)), NOT (mask (8 - min (p - 8) 8)), NOT (mask (8 - min (p - 16) 8)), NOT (mask (8 - min (p - 24) 8))]"
  by (simp add: numeral_eq_Suc)

lemma byte_masks: "NOT (mask 8) = (0 :: 8 word)" "NOT (mask 6) = (0xC0 :: 8 word)" "NOT (mask 4) = (0xF0 :: 8 word)" "NOT (mask 1) = (0xFE :: 8 word)" "NOT (mask (Suc 0)) = (0xFE :: 8 word)"
  by (simp_all add: mask_eq_exp_minus_1)

lemma minus_byte: "(- 2 :: 8 word) = 0xFE"
  by simp

lemma isPrivateIP_4:
  assumes "length ip = 4"
  shows "isPrivateIP (Some ip) \<longleftrightarrow> list_ex (inRange 32 (ipValue ip)) blocked4"
proof -
  obtain a b c d where ip: "ip = [a, b, c, d]" using assms by (auto simp: numeral_eq_Suc length_Suc_conv)
  have m: "masked n p ip \<longleftrightarrow> inRange 32 (ipValue ip) (ipValue n, p)" if "length n = 4" "p \<le> 32" for n p
    using masked_inRange [of ip n p] that assms by simp
  have std: "IsLoopback ip \<longleftrightarrow> masked [127, 0, 0, 0] 8 ip" "IsMulticast ip \<longleftrightarrow> masked [224, 0, 0, 0] 4 ip"
    "IsPrivate ip \<longleftrightarrow> masked [10, 0, 0, 0] 8 ip \<or> masked [172, 16, 0, 0] 12 ip \<or> masked [192, 168, 0, 0] 16 ip"
    "IsLinkLocalUnicast ip \<longleftrightarrow> masked [169, 254, 0, 0] 16 ip" "IsUnspecified ip \<longleftrightarrow> masked [0, 0, 0, 0] 32 ip"
    by (auto simp: ip To4_def IsLoopback_def IsMulticast_def IsPrivate_def IsLinkLocalUnicast_def IsUnspecified_def masked_def cidrMask_4 byte_masks)
  have "masked [224, 0, 0, 0] 24 ip \<Longrightarrow> masked [224, 0, 0, 0] 4 ip" by (auto simp: ip masked_def cidrMask_4 byte_masks)
  then have llm: "IsLinkLocalMulticast ip \<Longrightarrow> IsMulticast ip"
    by (auto simp: ip To4_def IsMulticast_def IsLinkLocalMulticast_def)
  have net: "Contains (n, p) ip \<longleftrightarrow> length n = 4 \<and> masked n p ip" for n p
    by (auto simp: Contains_def Let_def ip To4_def masked_def)
  have "isPrivateIP (Some ip) \<longleftrightarrow> list_ex (\<lambda>(n, p). masked n p ip)
      [([10, 0, 0, 0], 8), ([127, 0, 0, 0], 8), ([169, 254, 0, 0], 16), ([172, 16, 0, 0], 12), ([192, 168, 0, 0], 16), ([224, 0, 0, 0], 4), ([0, 0, 0, 0], 32),
       ([100, 64, 0, 0], 10), ([192, 0, 0, 0], 24), ([192, 0, 2, 0], 24), ([198, 51, 100, 0], 24), ([203, 0, 113, 0], 24), ([198, 18, 0, 0], 15), ([240, 0, 0, 0], 4)]"
    using llm unfolding isPrivateIP_def specialPurposeCIDRs_def
    by (simp add: Let_def To4_def assms std net) blast
  also have "\<dots> \<longleftrightarrow> list_ex (inRange 32 (ipValue ip)) blocked4"
    by (simp add: m blocked4_def)
  finally show ?thesis .
qed

lemma masked_first: "length as = length xs \<Longrightarrow> p \<le> 8 \<Longrightarrow> masked (a # as) p (x # xs) \<longleftrightarrow> a AND NOT (mask (8 - p)) = x AND NOT (mask (8 - p))"
  using cidrMask_0 [of as "length xs" xs] by (simp add: masked_def)

lemma masked_rest: "8 \<le> p \<Longrightarrow> masked (a # as) p (x # xs) \<longleftrightarrow> a = x \<and> masked as (p - 8) xs"
  by (simp add: masked_def)

lemma isPrivateIP_16:
  assumes "length ip = 16" "ipValue ip div 2 ^ 32 \<noteq> 0xFFFF" "To4 ip = None"
  shows "isPrivateIP (Some ip) \<longleftrightarrow> list_ex (inRange 128 (ipValue ip)) blocked6"
proof -
  obtain x y r where ip: "ip = x # y # r" "length r = 14"
    using assms(1) by (auto simp: numeral_eq_Suc length_Suc_conv)
  have m: "masked n p ip \<longleftrightarrow> inRange 128 (ipValue ip) (ipValue n, p)" if "length n = 16" "p \<le> 128" for n p
    using masked_inRange [of ip n p] that assms by simp
  have one: "IsLoopback ip \<longleftrightarrow> ipValue ip = 1"
    using ipValue_inj [of ip "replicate 15 0 @ [1]"] assms(1,3) by (simp add: IsLoopback_def ipValue_zeros)
  have zero: "IsUnspecified ip \<longleftrightarrow> ipValue ip = 0"
    using ipValue_inj [of ip "replicate 16 0"] assms(1,3) by (simp add: IsUnspecified_def ipValue_zeros)
  have std: "IsMulticast ip \<longleftrightarrow> masked (0xFF # replicate 15 0) 8 ip" "IsPrivate ip \<longleftrightarrow> masked (0xFC # replicate 15 0) 7 ip"
    "IsLinkLocalUnicast ip \<longleftrightarrow> masked (0xFE # 0x80 # replicate 14 0) 10 ip" "IsLinkLocalMulticast ip \<Longrightarrow> IsMulticast ip"
    using assms(1,3)
    by (auto simp: IsMulticast_def IsPrivate_def IsLinkLocalUnicast_def IsLinkLocalMulticast_def ip masked_first masked_rest byte_masks minus_byte)
  have net: "Contains (n, p) ip \<longleftrightarrow> length n = 16 \<and> masked n p ip" for n p
    using assms by (auto simp: Contains_def Let_def masked_def)
  have v: "ipValue (0xFF # replicate 15 0) = 0xFF * 2 ^ 120" "ipValue (0xFC # replicate 15 0) = 0xFC * 2 ^ 120"
    "ipValue (0xFE # 0x80 # replicate 14 0) = 0xFE80 * 2 ^ 112"
    by (simp_all add: ipValue_zeros)
  show ?thesis
    using std(4) unfolding isPrivateIP_def specialPurposeCIDRs_def blocked6_def
    by (simp add: Let_def assms(3) one zero std(1-3) net m v ipValue_zeros inRange_full) blast
qed

lemma isPrivateIP_blocked:
  assumes "length ip = 4 \<or> length ip = 16"
  shows "isPrivateIP (Some ip) \<longleftrightarrow> blockedAddress ip"
proof (cases "length ip = 4")
  case False
  with assms have l: "length ip = 16" by simp
  let ?u = "take 12 ip" and ?v = "drop 12 ip"
  have val: "ipValue ip = ipValue ?u * 2 ^ 32 + ipValue ?v" "ipValue ?v < 2 ^ 32"
    using ipValue_append [of ?u ?v] ipValue_less [of ?v] l by simp_all
  then have parts: "ipValue ip div 2 ^ 32 = ipValue ?u" "ipValue ip mod 2 ^ 32 = ipValue ?v" by simp_all
  have mapped: "ipValue ?u = 0xFFFF \<longleftrightarrow> ?u = replicate 10 0 @ [255, 255]"
    using ipValue_inj [of ?u "replicate 10 0 @ [255, 255]"] l by (simp add: ipValue_zeros)
  show ?thesis
  proof (cases "ipValue ?u = 0xFFFF")
    case True
    then have "To4 ip = Some ?v" "To4 ?v = Some ?v" using mapped l by (simp_all add: To4_def)
    then have "isPrivateIP (Some ip) \<longleftrightarrow> isPrivateIP (Some ?v)" by (simp add: isPrivateIP_def)
    with True isPrivateIP_4 [of ?v] l parts show ?thesis by (simp add: blockedAddress_def)
  next
    case False
    then have "To4 ip = None" using mapped l by (simp add: To4_def)
    with False isPrivateIP_16 l parts show ?thesis by (simp add: blockedAddress_def)
  qed
qed (simp add: isPrivateIP_4 blockedAddress_def)

section \<open>Properties\<close>







text \<open>Which documents make a client, exactly: the id of the document is the requested URL, with or
  without its query, the name and the redirect URIs are present and bounded, the grants include the
  authorization code, public authentication is offered, and only the code response type is asked
  for. The client keeps the requested id, is public, and has the supported grants in the order of
  their first mention.\<close>

lemma cimd_document_exact:
  "validateCIMDMetadata env body cid = Inr m \<longleftrightarrow>
     (\<exists>meta. ce_unmarshal env body = Some meta \<and> document_ok env cid meta \<and> m = cimdModel cid meta (firstGrants (cm_GrantTypes meta)))"
  by (rule validate_iff)

lemma dialTarget_iff:
  "dialTarget ips = Inr ip \<longleftrightarrow> (\<exists>xs ys. ips = xs @ ip # ys \<and> (\<forall>x \<in> set xs. isPrivateIP (Some x)) \<and> \<not> isPrivateIP (Some ip))"
proof (induction ips)
  case (Cons x ips)
  show ?case
  proof (cases "isPrivateIP (Some x)")
    case True
    with Cons show ?thesis by (auto simp: Cons_eq_append_conv) (metis append_Cons set_ConsD)+
  next
    case False
    then show ?thesis by (auto simp: Cons_eq_append_conv)
  qed
qed simp

text \<open>C32: The dialer only reaches public addresses. \<open>isPrivateIP\<close> is membership in the table of blocked
  networks, read as numbers, also for IPv4 addresses written as IPv6; the dialer takes the first
  address outside the table and none if there is none.\<close>

theorem cimd_dials_public_only:
  "((length ip = 4 \<or> length ip = 16) \<longrightarrow> (isPrivateIP (Some ip) \<longleftrightarrow> blockedAddress ip))
   \<and> (dialTarget ips = Inr ip \<longleftrightarrow> (\<exists>xs ys. ips = xs @ ip # ys \<and> (\<forall>x \<in> set xs. isPrivateIP (Some x)) \<and> \<not> isPrivateIP (Some ip)))"
  using isPrivateIP_blocked dialTarget_iff by blast

theorem cimd_dials_public_only_witness:
  "\<not> blockedAddress [8, 8, 8, 8] \<and> blockedAddress [10, 0, 0, 1] \<and> dialTarget [[10, 0, 0, 1], [8, 8, 8, 8]] = Inr [8, 8, 8, 8]"
proof -
  have "\<not> isPrivateIP (Some [8, 8, 8, 8])" "isPrivateIP (Some [10, 0, 0, 1])" by code_simp+
  with cimd_dials_public_only [of "[8, 8, 8, 8]"] cimd_dials_public_only [of "[10, 0, 0, 1]"] show ?thesis by simp
qed

end
