(* ===== verification/CIMD_Runs.thy ===== *)
theory CIMD_Runs
  imports CIMD_Correct "HOL-Library.AList"
begin

text \<open>
  Sequences of calls to the CIMD fetcher. The invariant relates the two LRU caches to the attempts
  made so far: a cached client comes from a document that was served for its id, an attempt keeps its
  id out of the network until the cached resolution expires, and the tracker remembers every
  failure inside the window. It needs a cache that holds all the ids of the sequence.
\<close>

section \<open>What the LRU caches guarantee\<close>

lemma lru_laws:
  assumes "lru_ok ops"
  shows "lru_peek ops (lru_new ops n) = Map.empty" "lru_cap ops (lru_new ops n) = n"
    "fst (lru_get ops l k) = lru_peek ops l k" "lru_peek ops (snd (lru_get ops l k)) = lru_peek ops l"
    "lru_cap ops (snd (lru_get ops l k)) = lru_cap ops l"
    "lru_peek ops (lru_remove ops l k) = (lru_peek ops l)(k := None)" "lru_cap ops (lru_remove ops l k) = lru_cap ops l"
    "lru_cap ops (lru_add ops l k v) = lru_cap ops l"
    "card (insert k (dom (lru_peek ops l))) \<le> lru_cap ops l \<Longrightarrow> lru_peek ops (lru_add ops l k v) = (lru_peek ops l)(k \<mapsto> v)"
  using assms unfolding lru_ok_def by blast+

text \<open>A cache that holds a set of keys no larger than its size.\<close>

definition roomy :: "('l, 'v) lru_ops \<Rightarrow> string set \<Rightarrow> 'l \<Rightarrow> bool" where
  "roomy ops K l \<longleftrightarrow> finite K \<and> dom (lru_peek ops l) \<subseteq> K \<and> card K \<le> lru_cap ops l"

lemma roomy_get: "lru_ok ops \<Longrightarrow> roomy ops K (snd (lru_get ops l k)) \<longleftrightarrow> roomy ops K l"
  by (simp add: roomy_def lru_laws)

lemma roomy_remove: "lru_ok ops \<Longrightarrow> roomy ops K l \<Longrightarrow> roomy ops K (lru_remove ops l k)"
  by (auto simp: roomy_def lru_laws)

lemma roomy_add:
  assumes "lru_ok ops" "roomy ops K l" "k \<in> K"
  shows "lru_peek ops (lru_add ops l k v) = (lru_peek ops l)(k \<mapsto> v)" "roomy ops K (lru_add ops l k v)"
proof -
  have "card (insert k (dom (lru_peek ops l))) \<le> lru_cap ops l"
    using assms(2,3) by (meson card_mono insert_subsetI le_trans roomy_def)
  with assms show "lru_peek ops (lru_add ops l k v) = (lru_peek ops l)(k \<mapsto> v)" by (simp add: lru_laws)
  with assms show "roomy ops K (lru_add ops l k v)" by (auto simp: roomy_def lru_laws)
qed

section \<open>The cache of resolutions\<close>

lemma Lookup_hit:
  assumes "lru_ok ops" "Lookup ops c k now = (Some r, c')"
  shows "\<exists>e. lru_peek ops c k = Some e \<and> ce_result e = r \<and> now < ce_expiresAt e" "lru_peek ops c' = lru_peek ops c"
    "roomy ops K c' \<longleftrightarrow> roomy ops K c"
  using assms lru_laws(3,4) [OF assms(1), of c k] roomy_get [OF assms(1), of K c k]
  by (auto simp: Lookup_def split: prod.splits option.splits if_splits)

lemma Lookup_miss:
  assumes "lru_ok ops" "Lookup ops c k now = (None, c')"
  shows "\<And>e. lru_peek ops c k = Some e \<Longrightarrow> ce_expiresAt e \<le> now" "lru_peek ops c' = (lru_peek ops c)(k := None)"
    "roomy ops K c \<Longrightarrow> roomy ops K c'"
proof -
  show "\<And>e. lru_peek ops c k = Some e \<Longrightarrow> ce_expiresAt e \<le> now"
    using assms lru_laws(3,4) [OF assms(1), of c k] by (auto simp: Lookup_def split: prod.splits option.splits if_splits)
  show "lru_peek ops c' = (lru_peek ops c)(k := None)"
    using assms lru_laws(3,4) [OF assms(1), of c k]
    by (auto simp: Lookup_def lru_laws(6) [OF assms(1)] split: prod.splits option.splits if_splits)
  show "roomy ops K c \<Longrightarrow> roomy ops K c'"
    using assms roomy_get [OF assms(1), of K c k] roomy_remove [OF assms(1)]
    by (auto simp: Lookup_def split: prod.splits option.splits if_splits)
qed

text \<open>Every attempt so far is either long past or still answered by the cache.\<close>

definition covered :: "(string \<rightharpoonup> cimdCacheEntry) \<Rightarrow> time \<Rightarrow> Attempt \<Rightarrow> bool" where
  "covered m now a \<longleftrightarrow> at_end a + cimdFloorTTL \<le> now \<or> (\<exists>e. m (at_client a) = Some e \<and> at_end a + cimdFloorTTL \<le> ce_expiresAt e)"

text \<open>\<open>P\<close> is what is known of the clients of an id, in the end where they come from.\<close>

definition cache_ok :: "(string \<Rightarrow> Model \<Rightarrow> bool) \<Rightarrow> (string \<rightharpoonup> cimdCacheEntry) \<Rightarrow> time \<Rightarrow> Attempt list \<Rightarrow> bool" where
  "cache_ok P m now as \<longleftrightarrow>
     (\<forall>k e c. m k = Some e \<longrightarrow> ce_result e = Inr c \<longrightarrow> P k c)
   \<and> (\<forall>a \<in> set as. at_end a \<le> now \<and> covered m now a)"

lemma cache_ok_later: "cache_ok P m now as \<Longrightarrow> now \<le> now' \<Longrightarrow> cache_ok P m now' as"
  by (fastforce simp: cache_ok_def covered_def)

lemma cache_ok_miss:
  assumes "cache_ok P m now as" "\<And>e. m k = Some e \<Longrightarrow> ce_expiresAt e \<le> now"
  shows "cache_ok P (m(k := None)) now as" "\<And>a. a \<in> set as \<Longrightarrow> at_client a = k \<Longrightarrow> at_end a + cimdFloorTTL \<le> now"
  using assms by (fastforce simp: cache_ok_def covered_def)+

lemma cache_ok_put:
  assumes "cache_ok P m now as" "\<And>c. r = Inr c \<Longrightarrow> P k c"
    "\<And>a. a \<in> set as \<Longrightarrow> at_client a = k \<Longrightarrow> at_end a + cimdFloorTTL \<le> now"
    "at_client b = k" "at_end b = t3" "now \<le> t3" "t3 + cimdFloorTTL \<le> x"
  shows "cache_ok P (m(k \<mapsto> \<lparr>ce_result = r, ce_expiresAt = x\<rparr>)) t3 (as @ [b])"
proof -
  let ?m = "m(k \<mapsto> \<lparr>ce_result = r, ce_expiresAt = x\<rparr>)"
  have "at_end a \<le> t3 \<and> covered ?m t3 a" if "a \<in> set as" for a
  proof -
    from that assms(1) have "at_end a \<le> now" "covered m now a" by (auto simp: cache_ok_def)
    with assms(3) [OF that] assms(6) show ?thesis by (auto simp: covered_def)
  qed
  moreover have "covered ?m t3 b" using assms by (simp add: covered_def)
  ultimately show ?thesis using assms(1,2,5) by (auto simp: cache_ok_def)
qed

section \<open>The failure tracker\<close>

definition failTimes :: "Attempt list \<Rightarrow> string \<Rightarrow> time list" where
  "failTimes as k = map at_end (filter (\<lambda>a. at_client a = k \<and> at_failed a) as)"

definition tracker_ok :: "('f, nat) lru_ops \<Rightarrow> 'f failureTracker \<Rightarrow> time \<Rightarrow> (string \<Rightarrow> time list) \<Rightarrow> bool" where
  "tracker_ok ops t now F \<longleftrightarrow>
     (\<forall>k. lru_peek ops (ft_lru t) k = None \<longrightarrow> F k = [])
   \<and> (\<forall>k r. lru_peek ops (ft_lru t) k = Some r \<longrightarrow> r < ft_next t
        \<and> (\<forall>u \<ge> now - cimdFailureWindow. filter (\<lambda>x. u < x) (ft_heap t r) = filter (\<lambda>x. u < x) (F k)))
   \<and> (\<forall>k k' r. lru_peek ops (ft_lru t) k = Some r \<longrightarrow> lru_peek ops (ft_lru t) k' = Some r \<longrightarrow> k = k')"

lemma tracker_ok_later: "tracker_ok ops t now F \<Longrightarrow> now \<le> now' \<Longrightarrow> tracker_ok ops t now' F"
  by (auto simp: tracker_ok_def)

lemma prune_filter:
  assumes "\<forall>u \<ge> now - w. filter (\<lambda>x. u < x) ts = filter (\<lambda>x. u < x) fs" "now - w \<le> u"
  shows "filter (\<lambda>x. u < x) (pruneOldTimestamps ts now w) = filter (\<lambda>x. u < x) fs"
proof -
  have "filter (\<lambda>x. u < x) (pruneOldTimestamps ts now w) = filter (\<lambda>x. u < x) ts"
    using assms(2) by (auto simp: pruneOldTimestamps_def Let_def intro: filter_cong)
  with assms show ?thesis by simp
qed

lemma tracker_set:
  assumes "tracker_ok ops t now F" "lru_peek ops (ft_lru t) k = Some r" "lru_peek ops l = lru_peek ops (ft_lru t)"
    "\<forall>u \<ge> now - cimdFailureWindow. filter (\<lambda>x. u < x) ts = filter (\<lambda>x. u < x) (F' k)" "\<And>k'. k' \<noteq> k \<Longrightarrow> F' k' = F k'"
  shows "tracker_ok ops (t\<lparr>ft_lru := l, ft_heap := (ft_heap t)(r := ts)\<rparr>) now F'"
proof -
  have "k' = k" if "lru_peek ops (ft_lru t) k' = Some r" for k' using assms(1,2) that by (auto simp: tracker_ok_def)
  moreover have "F' k' = []" if "lru_peek ops (ft_lru t) k' = None" for k'
    using assms(1,2) assms(5) [of k'] that by (cases "k' = k") (auto simp: tracker_ok_def)
  moreover have "F k' = F' k'" if "lru_peek ops (ft_lru t) k' = Some r'" "r' \<noteq> r" for k' r'
    using assms(2) assms(5) [of k'] that by (cases "k' = k") auto
  ultimately show ?thesis using assms unfolding tracker_ok_def
    by (intro conjI allI impI) (auto, metis)
qed

lemma tracker_new:
  assumes "tracker_ok ops t now F" "lru_peek ops (ft_lru t) k = None" "lru_peek ops l = (lru_peek ops (ft_lru t))(k \<mapsto> ft_next t)"
    "ts = F' k" "\<And>k'. k' \<noteq> k \<Longrightarrow> F' k' = F k'"
  shows "tracker_ok ops (t\<lparr>ft_lru := l, ft_heap := (ft_heap t)(ft_next t := ts), ft_next := ft_next t + 1\<rparr>) now F'"
proof -
  have "r \<noteq> ft_next t" if "lru_peek ops (ft_lru t) k' = Some r" for k' r using assms(1) that by (auto simp: tracker_ok_def)
  then show ?thesis using assms unfolding tracker_ok_def
    by (intro conjI allI impI) (auto simp: less_Suc_eq split: if_splits)
qed

lemma IsRateLimited_ok:
  assumes "lru_ok ops" "tracker_ok ops t now F" "IsRateLimited ops t k now = (b, t')"
  shows "tracker_ok ops t' now F" "b \<longleftrightarrow> 5 \<le> length (filter (\<lambda>x. now - cimdFailureWindow < x) (F k))"
    "roomy ops K (ft_lru t') \<longleftrightarrow> roomy ops K (ft_lru t)"
proof -
  obtain po l where g: "lru_get ops (ft_lru t) k = (po, l)" by force
  have p: "po = lru_peek ops (ft_lru t) k" "lru_peek ops l = lru_peek ops (ft_lru t)" "roomy ops K l \<longleftrightarrow> roomy ops K (ft_lru t)"
    using lru_laws(3,4) [OF assms(1), of "ft_lru t" k] roomy_get [OF assms(1), of K "ft_lru t" k] g by simp_all
  have all: "tracker_ok ops t' now F \<and> (b \<longleftrightarrow> 5 \<le> length (filter (\<lambda>x. now - cimdFailureWindow < x) (F k)))
      \<and> (roomy ops K (ft_lru t') \<longleftrightarrow> roomy ops K (ft_lru t))"
  proof (cases po)
    case None
    then have "t' = t\<lparr>ft_lru := l\<rparr>" "\<not> b" "F k = []" using assms(2,3) g p by (auto simp: IsRateLimited_def tracker_ok_def)
    then show ?thesis using assms(2) p by (simp add: tracker_ok_def)
  next
    case (Some r)
    let ?ts = "pruneOldTimestamps (ft_heap t r) now cimdFailureWindow"
    have t': "t' = t\<lparr>ft_lru := l, ft_heap := (ft_heap t)(r := ?ts)\<rparr>" "b \<longleftrightarrow> 5 \<le> length ?ts"
      using assms(3) g Some by (auto simp: IsRateLimited_def Let_def cimdFailureLimit_def)
    have f: "\<forall>u \<ge> now - cimdFailureWindow. filter (\<lambda>x. u < x) (ft_heap t r) = filter (\<lambda>x. u < x) (F k)"
      using assms(2) p(1) Some by (auto simp: tracker_ok_def)
    then have "?ts = filter (\<lambda>x. now - cimdFailureWindow < x) (F k)" by (simp add: pruneOldTimestamps_def)
    with t' tracker_set [OF assms(2) p(1) [symmetric, unfolded Some] p(2), of ?ts F] prune_filter [OF f] p(3) show ?thesis by simp
  qed
  then show "tracker_ok ops t' now F" "b \<longleftrightarrow> 5 \<le> length (filter (\<lambda>x. now - cimdFailureWindow < x) (F k))"
    "roomy ops K (ft_lru t') \<longleftrightarrow> roomy ops K (ft_lru t)" by simp_all
qed

lemma Record_ok:
  assumes "lru_ok ops" "tracker_ok ops t now F" "roomy ops K (ft_lru t)" "k \<in> K"
  shows "tracker_ok ops (Record ops t k now) now (F(k := F k @ [now]))" "roomy ops K (ft_lru (Record ops t k now))"
proof -
  obtain po l where g: "lru_get ops (ft_lru t) k = (po, l)" by force
  have p: "po = lru_peek ops (ft_lru t) k" "lru_peek ops l = lru_peek ops (ft_lru t)" "roomy ops K l"
    using lru_laws(3,4) [OF assms(1), of "ft_lru t" k] roomy_get [OF assms(1), of K "ft_lru t" k] g assms(3) by simp_all
  have "tracker_ok ops (Record ops t k now) now (F(k := F k @ [now])) \<and> roomy ops K (ft_lru (Record ops t k now))"
  proof (cases po)
    case None
    then have "F k = []" using assms(2) p by (simp add: tracker_ok_def)
    with None g p tracker_new [OF assms(2), of k "lru_add ops l k (ft_next t)" "[now]" "F(k := F k @ [now])"]
      roomy_add [OF assms(1) p(3) assms(4), of "ft_next t"]
    show ?thesis by (simp add: Record_def Let_def pruneOldTimestamps_def)
  next
    case (Some r)
    have f: "\<forall>u \<ge> now - cimdFailureWindow. filter (\<lambda>x. u < x) (ft_heap t r) = filter (\<lambda>x. u < x) (F k)"
      using assms(2) p(1) Some by (auto simp: tracker_ok_def)
    with g Some p(3) tracker_set [OF assms(2) p(1) [symmetric, unfolded Some] p(2),
        of "pruneOldTimestamps (ft_heap t r) now cimdFailureWindow @ [now]" "F(k := F k @ [now])"] prune_filter [OF f]
    show ?thesis by (simp add: Record_def)
  qed
  then show "tracker_ok ops (Record ops t k now) now (F(k := F k @ [now]))" "roomy ops K (ft_lru (Record ops t k now))" by simp_all
qed

section \<open>The fetcher\<close>

text \<open>
  The answer of the network that makes a client: a JSON document of at most 10 KB that the rules accept. The client is
  public, of the MCP channel, and has the name, the redirect addresses and the supported grants of the document.
\<close>

definition describedBy :: "CimdEnv \<Rightarrow> string \<Rightarrow> err + HTTPResponse \<Rightarrow> Model \<Rightarrow> bool" where
  "describedBy env k resp m \<longleftrightarrow>
     (\<exists>r body meta. resp = Inr r \<and> hr_StatusCode r = 200 \<and> ce_mediaType env (hr_ContentType r) = Some ''application/json''
        \<and> hr_Body r = Inr body \<and> length body \<le> 10 * 1024 \<and> ce_unmarshal env body = Some meta \<and> document_ok env k meta
        \<and> m = \<lparr>c_UUID = '''', c_ID = k, c_SecretHash = None, c_Type = ''public'', c_LoginChannel = ''mcp'', c_Name = cm_ClientName meta, c_URL = '''',
              c_RedirectURIList = cm_RedirectURIs meta, c_AllowedScopeList = [''openid'', ''profile'', ''email'', ''offline_access''],
              c_AllowedGrantTypeList = firstGrants (cm_GrantTypes meta), c_SkipPKCE = False, c_IDTokenUserinfoAssertion = False, c_Access = None\<rparr>)"

lemma fetchAndValidate_Inr:
  assumes "fetchAndValidate env d k resp = Inr (client, ttl)"
  shows "describedBy env k resp client" "cimdFloorTTL \<le> ttl" "0 < ttl"
proof -
  from assms obtain r full where r: "resp = Inr r" "hr_StatusCode r = 200" "ce_mediaType env (hr_ContentType r) = Some ''application/json''"
    "hr_Body r = Inr full" "length (take (maxCIMDDocSize + 1) full) \<le> maxCIMDDocSize"
    "validateCIMDMetadata env (take (maxCIMDDocSize + 1) full) k = Inr client" and ttl: "ttl = cacheTTLFromCacheControl (hr_CacheControl r) d"
    by (auto simp: fetchAndValidate_def Let_def split: if_splits option.splits sum.splits)
  from r(5) have "length full \<le> maxCIMDDocSize" "take (maxCIMDDocSize + 1) full = full" by simp_all
  with r show "describedBy env k resp client" by (auto simp: describedBy_def validate_iff cimdModel_def maxCIMDDocSize_def)
  show "cimdFloorTTL \<le> ttl" "0 < ttl" using ttl ttl_bounds(1) ttl_pos by auto
qed

definition quota :: "Attempt list \<Rightarrow> bool" where
  "quota as \<longleftrightarrow> (\<forall>k u. length (filter (\<lambda>t. u - cimdFailureWindow < t \<and> t \<le> u) (failTimes as k)) \<le> 5)"

definition spaced :: "Attempt list \<Rightarrow> bool" where
  "spaced as \<longleftrightarrow> sorted_wrt (\<lambda>a b. at_client a = at_client b \<longrightarrow> at_end a + cimdFloorTTL \<le> at_start b) as"

lemma failTimes_snoc: "failTimes (as @ [a]) = (if at_failed a then (failTimes as)(at_client a := failTimes as (at_client a) @ [at_end a]) else failTimes as)"
  by (auto simp: failTimes_def)

lemma length_filter_mono: "(\<And>x. P x \<Longrightarrow> Q x) \<Longrightarrow> length (filter P xs) \<le> length (filter Q xs)"
  by (induction xs) auto

lemma quota_snoc:
  assumes "quota as" "length (filter (\<lambda>t. now - cimdFailureWindow < t) (failTimes as (at_client a))) < 5" "now \<le> at_end a"
  shows "quota (as @ [a])"
  unfolding quota_def
proof (intro allI)
  fix k u
  let ?P = "\<lambda>t. u - cimdFailureWindow < t \<and> t \<le> u" and ?F = "failTimes as"
  have "length (filter ?P (?F (at_client a))) < 5" if "at_end a \<le> u"
  proof -
    have "length (filter ?P (?F (at_client a))) \<le> length (filter (\<lambda>t. now - cimdFailureWindow < t) (?F (at_client a)))"
      by (rule length_filter_mono) (use that assms(3) in auto)
    with assms(2) show ?thesis by simp
  qed
  with assms(1) show "length (filter ?P (failTimes (as @ [a]) k)) \<le> 5"
    by (auto simp: failTimes_snoc quota_def)
qed

definition fetcher_inv :: "(string \<Rightarrow> Model \<Rightarrow> bool) \<Rightarrow> ('c, cimdCacheEntry) lru_ops \<Rightarrow> ('f, nat) lru_ops \<Rightarrow> string set \<Rightarrow> time \<Rightarrow> ('c, 'f) HTTPCIMDFetcher \<Rightarrow> bool" where
  "fetcher_inv P cops fops K now f \<longleftrightarrow>
     roomy cops K (ensureCache cops f) \<and> roomy fops K (ft_lru (ensureFailures fops f))
   \<and> cache_ok P (lru_peek cops (ensureCache cops f)) now (f_sent f)
   \<and> tracker_ok fops (ensureFailures fops f) now (failTimes (f_sent f))
   \<and> quota (f_sent f) \<and> spaced (f_sent f)"

lemma fetcher_inv_later: "fetcher_inv P cops fops K now f \<Longrightarrow> now \<le> now' \<Longrightarrow> fetcher_inv P cops fops K now' f"
  by (auto simp: fetcher_inv_def intro: cache_ok_later tracker_ok_later)

lemma ensure_some [simp]:
  "f_cache f = Some c \<Longrightarrow> ensureCache cops f = c" "f_failures f = Some t \<Longrightarrow> ensureFailures fops f = t"
  by (simp_all add: ensureCache_def ensureFailures_def)

lemma ensure_other:
  "f_cache f' = f_cache f \<Longrightarrow> f_cacheMax f' = f_cacheMax f \<Longrightarrow> ensureCache cops f' = ensureCache cops f"
  "f_failures f' = f_failures f \<Longrightarrow> f_cacheMax f' = f_cacheMax f \<Longrightarrow> ensureFailures fops f' = ensureFailures fops f"
  by (simp_all add: ensureCache_def ensureFailures_def cacheMax_def split: option.split)

lemma spaced_snoc: "spaced as \<Longrightarrow> (\<And>a. a \<in> set as \<Longrightarrow> at_client a = at_client b \<Longrightarrow> at_end a + cimdFloorTTL \<le> at_start b) \<Longrightarrow> spaced (as @ [b])"
  by (auto simp: spaced_def sorted_wrt_append)

text \<open>The state between the checks and the fetch: the cache had no answer and the quota is not used up.\<close>

definition may_fetch ::
  "(string \<Rightarrow> Model \<Rightarrow> bool) \<Rightarrow> ('c, cimdCacheEntry) lru_ops \<Rightarrow> ('f, nat) lru_ops \<Rightarrow> string set \<Rightarrow> string \<Rightarrow> time \<Rightarrow> 'c \<Rightarrow> 'f failureTracker \<Rightarrow> Attempt list \<Rightarrow> bool" where
  "may_fetch P cops fops K k t2 c t as \<longleftrightarrow>
     k \<in> K \<and> roomy cops K c \<and> roomy fops K (ft_lru t) \<and> cache_ok P (lru_peek cops c) t2 as \<and> tracker_ok fops t t2 (failTimes as)
   \<and> quota as \<and> spaced as \<and> length (filter (\<lambda>x. t2 - cimdFailureWindow < x) (failTimes as k)) < 5
   \<and> (\<forall>a \<in> set as. at_client a = k \<longrightarrow> at_end a + cimdFloorTTL \<le> t2)"

lemma may_fetch_sent:
  assumes "may_fetch P cops fops K k t2 c t as" "at_client a = k" "at_start a = t2" "at_end a = t3" "t2 \<le> t3"
  shows "quota (as @ [a])" "spaced (as @ [a])" "tracker_ok fops t t3 (failTimes as)"
  using assms quota_snoc [of as t2 a] spaced_snoc [of as a] tracker_ok_later [of fops t t2 "failTimes as" t3]
  by (simp_all add: may_fetch_def)

lemma may_fetch_put:
  assumes "may_fetch P cops fops K k t2 c t as" "lru_ok cops" "t2 \<le> t3" "t3 + cimdFloorTTL \<le> x" "at_client a = k" "at_end a = t3"
    "\<And>m. r = Inr m \<Longrightarrow> P k m"
  shows "cache_ok P (lru_peek cops (lru_add cops c k \<lparr>ce_result = r, ce_expiresAt = x\<rparr>)) t3 (as @ [a])"
    "roomy cops K (lru_add cops c k \<lparr>ce_result = r, ce_expiresAt = x\<rparr>)"
  using assms cache_ok_put [of P "lru_peek cops c" t2 as r k a t3 x] roomy_add [of cops K c k]
  by (simp_all add: may_fetch_def)

lemma fetch_failed:
  assumes m: "may_fetch P cops fops K k t2 c t (f_sent f)" and ops: "lru_ok cops" "lru_ok fops" and time: "t2 \<le> t3"
  shows "fetcher_inv P cops fops K t3 (f\<lparr>f_cache := Some (PutNegative cops c k e (t3 + cimdNegativeCacheTTL)),
           f_failures := Some (Record fops t k t3), f_sent := f_sent f @ [\<lparr>at_client = k, at_start = t2, at_end = t3, at_failed = True\<rparr>]\<rparr>)"
proof -
  let ?a = "\<lparr>at_client = k, at_start = t2, at_end = t3, at_failed = True\<rparr>"
  have "t3 + cimdFloorTTL \<le> t3 + cimdNegativeCacheTTL" by (simp add: cimdFloorTTL_def cimdNegativeCacheTTL_def second_def)
  from may_fetch_put [OF m ops(1) time this, of ?a "Inl e"] may_fetch_sent [OF m, of ?a t3] time
    Record_ok [OF ops(2), of t t3 "failTimes (f_sent f)" K k] m
  show ?thesis by (simp add: fetcher_inv_def PutNegative_def failTimes_snoc may_fetch_def)
qed

lemma fetch_succeeded:
  assumes m: "may_fetch P cops fops K k t2 c t (f_sent f)" and ops: "lru_ok cops" and time: "t2 \<le> t3"
    and fetched: "fetchAndValidate env d k resp = Inr (client, ttl)" and origin: "P k client"
  shows "fetcher_inv P cops fops K t3 (f\<lparr>f_cache := Some (PutPositive cops c k client (t3 + ttl)),
           f_failures := Some t, f_sent := f_sent f @ [\<lparr>at_client = k, at_start = t2, at_end = t3, at_failed = False\<rparr>]\<rparr>)"
proof -
  let ?a = "\<lparr>at_client = k, at_start = t2, at_end = t3, at_failed = False\<rparr>"
  note ok = fetchAndValidate_Inr [OF fetched]
  from may_fetch_put [OF m ops time, of "t3 + ttl" ?a "Inr client"] may_fetch_sent [OF m, of ?a t3] time ok m origin
  show ?thesis by (simp add: fetcher_inv_def PutPositive_def failTimes_snoc may_fetch_def)
qed

definition gates :: "CimdEnv \<Rightarrow> CIMDHostPolicy \<Rightarrow> string \<Rightarrow> bool" where
  "gates env hosts k \<longleftrightarrow> IsCIMDClientID (ce_parseURI env) k \<and> isCanonicalCIMDClientID env k \<and> allowsClientID env hosts k"

lemma FetchClient_gates:
  assumes "FetchClient env cops fops k t1 t2 t3 resp f = (r, f')"
  shows "\<not> gates env (f_hosts f) k \<Longrightarrow> f' = f \<and> isl r"
    "f_hosts f' = f_hosts f" "f_cacheMax f' = f_cacheMax f" "\<And>a. a \<in> set (f_sent f') \<Longrightarrow> a \<in> set (f_sent f) \<or> at_client a = k"
  using assms by (auto simp: FetchClient_def gates_def split: if_splits prod.splits option.splits bool.splits sum.splits)

lemma FetchClient_step:
  assumes ops: "lru_ok cops" "lru_ok fops" and inv: "fetcher_inv P cops fops K now f"
    and time: "now \<le> t1" "t1 \<le> t2" "t2 \<le> t3" and k: "k \<in> K"
    and run: "FetchClient env cops fops k t1 t2 t3 resp f = (r, f')" and origin: "\<And>m. describedBy env k resp m \<Longrightarrow> P k m"
  shows "fetcher_inv P cops fops K t3 f' \<and> (\<forall>m. r = Inr m \<longrightarrow> P k m)"
proof (cases "gates env (f_hosts f) k")
  case False
  with FetchClient_gates(1) [OF run] fetcher_inv_later [OF inv, of t3] time show ?thesis by (cases r) auto
next
  case True
  let ?c = "ensureCache cops f" and ?t = "ensureFailures fops f"
  note gated = True [unfolded gates_def]
  note i = inv [unfolded fetcher_inv_def]
  have i1: "cache_ok P (lru_peek cops ?c) t1 (f_sent f)" using i time by (auto intro: cache_ok_later)
  obtain res c where l: "Lookup cops ?c k t1 = (res, c)" by force
  show ?thesis
  proof (cases res)
    case (Some x)
    note hit = Lookup_hit [OF ops(1) l [unfolded Some]]
    have f': "f' = f\<lparr>f_cache := Some c\<rparr>" "r = x" using run gated l Some by (auto simp: FetchClient_def)
    have "fetcher_inv P cops fops K t1 f'"
      unfolding fetcher_inv_def using i i1 hit(2,3) time f' ensure_other(2) [of f' f fops] tracker_ok_later [of fops ?t now _ t1] by simp
    with f' hit(1) i1 fetcher_inv_later [of P cops fops K t1 f' t3] time show ?thesis by (auto simp: cache_ok_def)
  next
    case None
    note miss = Lookup_miss [OF ops(1) l [unfolded None]]
    note c1 = cache_ok_miss [OF i1 miss(1)]
    have c2: "cache_ok P (lru_peek cops c) t2 (f_sent f)" using c1(1) miss(2) time by (auto intro: cache_ok_later)
    obtain b t where lim: "IsRateLimited fops ?t k t2 = (b, t)" by force
    have "tracker_ok fops ?t t2 (failTimes (f_sent f))" using i time by (auto intro: tracker_ok_later)
    note lim_ok = IsRateLimited_ok [OF ops(2) this lim]
    have rooms: "roomy cops K c" "roomy fops K (ft_lru t)" using i miss(3) lim_ok(3) by auto
    show ?thesis
    proof (cases b)
      case True
      then have f': "f' = f\<lparr>f_cache := Some c, f_failures := Some t\<rparr>" "r = Inl errCIMDRateLimited"
        using run gated l None lim by (auto simp: FetchClient_def)
      then have "fetcher_inv P cops fops K t2 f'" unfolding fetcher_inv_def using i c2 lim_ok(1) rooms by simp
      with f' fetcher_inv_later [of P cops fops K t2 f' t3] time show ?thesis by auto
    next
      case False
      with lim_ok(2) have "length (filter (\<lambda>t. t2 - cimdFailureWindow < t) (failTimes (f_sent f) k)) < 5" by simp
      moreover have "at_end a + cimdFloorTTL \<le> t2" if "a \<in> set (f_sent f)" "at_client a = k" for a using c1(2) that time by fastforce
      ultimately have m: "may_fetch P cops fops K k t2 c t (f_sent f)" unfolding may_fetch_def using k rooms c2 lim_ok(1) i by simp
      show ?thesis
        using fetch_failed [OF m ops time(3)] fetch_succeeded [OF m ops(1) time(3), of env "f_cacheTTL f" resp]
          fetchAndValidate_Inr [of env "f_cacheTTL f" k resp] origin run gated l None lim False
        by (auto simp: FetchClient_def split: sum.splits prod.splits)
    qed
  qed
qed

section \<open>Sequences of calls\<close>

record Call =
  ca_id :: string
  ca_t1 :: time
  ca_t2 :: time
  ca_t3 :: time
  ca_resp :: "err + HTTPResponse"

fun fetchRun ::
  "CimdEnv \<Rightarrow> ('c, cimdCacheEntry) lru_ops \<Rightarrow> ('f, nat) lru_ops \<Rightarrow> ('c, 'f) HTTPCIMDFetcher \<Rightarrow> Call list \<Rightarrow>
   (string \<times> (err + Model)) list \<times> ('c, 'f) HTTPCIMDFetcher" where
  "fetchRun env cops fops f [] = ([], f)"
| "fetchRun env cops fops f (c # cs) =
     (case FetchClient env cops fops (ca_id c) (ca_t1 c) (ca_t2 c) (ca_t3 c) (ca_resp c) f of
        (r, f1) \<Rightarrow> (case fetchRun env cops fops f1 cs of (rs, f2) \<Rightarrow> ((ca_id c, r) # rs, f2)))"

fun clocked :: "time \<Rightarrow> Call list \<Rightarrow> bool" where
  "clocked t [] = True"
| "clocked t (c # cs) = (t \<le> ca_t1 c \<and> ca_t1 c \<le> ca_t2 c \<and> ca_t2 c \<le> ca_t3 c \<and> clocked (ca_t3 c) cs)"

text \<open>Where a client comes from: from the answer that one of the calls got for its id.\<close>

definition fetchedIn :: "CimdEnv \<Rightarrow> Call list \<Rightarrow> string \<Rightarrow> Model \<Rightarrow> bool" where
  "fetchedIn env cs k m \<longleftrightarrow> (\<exists>c \<in> set cs. ca_id c = k \<and> describedBy env k (ca_resp c) m)"

lemma fetcher_inv_mono: "fetcher_inv P cops fops K now f \<Longrightarrow> (\<And>k m. P k m \<Longrightarrow> Q k m) \<Longrightarrow> fetcher_inv Q cops fops K now f"
  by (auto simp: fetcher_inv_def cache_ok_def)

lemma fetchRun_inv:
  assumes ops: "lru_ok cops" "lru_ok fops"
  shows "fetcher_inv (fetchedIn env past) cops fops K t0 f \<Longrightarrow> clocked t0 cs \<Longrightarrow> ca_id ` set cs \<subseteq> K \<Longrightarrow> fetchRun env cops fops f cs = (rs, f') \<Longrightarrow>
    quota (f_sent f') \<and> spaced (f_sent f') \<and> length rs = length cs
    \<and> (\<forall>i < length rs. \<forall>k m. rs ! i = (k, Inr m) \<longrightarrow> gates env (f_hosts f) k \<and> k = ca_id (cs ! i) \<and> fetchedIn env (past @ take (Suc i) cs) k m)
    \<and> (\<forall>a \<in> set (f_sent f') - set (f_sent f). gates env (f_hosts f) (at_client a))"
proof (induction cs arbitrary: f t0 rs past)
  case Nil
  then show ?case by (simp add: fetcher_inv_def)
next
  case (Cons c cs)
  let ?past = "past @ [c]"
  obtain r f1 rs1 where step: "FetchClient env cops fops (ca_id c) (ca_t1 c) (ca_t2 c) (ca_t3 c) (ca_resp c) f = (r, f1)"
      and rest: "fetchRun env cops fops f1 cs = (rs1, f')" and rs: "rs = (ca_id c, r) # rs1"
    using Cons.prems(4) by (auto split: prod.splits)
  have "fetcher_inv (fetchedIn env ?past) cops fops K t0 f" by (rule fetcher_inv_mono [OF Cons.prems(1)]) (auto simp: fetchedIn_def)
  note inv = FetchClient_step [OF ops this _ _ _ _ step]
  have inv: "fetcher_inv (fetchedIn env ?past) cops fops K (ca_t3 c) f1" "\<forall>m. r = Inr m \<longrightarrow> fetchedIn env ?past (ca_id c) m"
    using inv Cons.prems(2,3) by (simp_all add: fetchedIn_def)
  note gate = FetchClient_gates [OF step]
  from Cons.IH [OF inv(1) _ _ rest] Cons.prems(2,3) gate(2)
  have ih: "quota (f_sent f') \<and> spaced (f_sent f') \<and> length rs1 = length cs"
    "\<And>i k m. i < length rs1 \<Longrightarrow> rs1 ! i = (k, Inr m) \<Longrightarrow> gates env (f_hosts f) k \<and> k = ca_id (cs ! i) \<and> fetchedIn env (?past @ take (Suc i) cs) k m"
    "\<forall>a \<in> set (f_sent f') - set (f_sent f1). gates env (f_hosts f) (at_client a)" by auto
  have "a \<in> set (f_sent f1) \<Longrightarrow> a \<in> set (f_sent f) \<or> gates env (f_hosts f) (at_client a)" for a using gate(1,4) by metis
  with ih(3) have sent: "\<forall>a \<in> set (f_sent f') - set (f_sent f). gates env (f_hosts f) (at_client a)" by blast
  have "gates env (f_hosts f) k \<and> k = ca_id ((c # cs) ! i) \<and> fetchedIn env (past @ take (Suc i) (c # cs)) k m"
    if "i < length rs" "rs ! i = (k, Inr m)" for i k m
  proof (cases i)
    case 0
    with that have "r = Inr m" "k = ca_id c" by (simp_all add: rs)
    with inv(2) gate(1) 0 show ?thesis by auto
  next
    case (Suc j)
    with that have "j < length rs1" "rs1 ! j = (k, Inr m)" by (simp_all add: rs)
    from ih(2) [OF this] Suc show ?thesis by auto
  qed
  with ih(1) sent show ?case by (simp add: rs)
qed

lemma NewHTTPCIMDFetcher_simps [simp]: "f_hosts (NewHTTPCIMDFetcher hosts) = hosts" "f_sent (NewHTTPCIMDFetcher hosts) = []"
  by (simp_all add: NewHTTPCIMDFetcher_def)

lemma fetcher_inv_New:
  assumes "lru_ok cops" "lru_ok fops" "finite K" "card K \<le> cimdCacheMaxEntries"
  shows "fetcher_inv P cops fops K t0 (NewHTTPCIMDFetcher hosts)"
  using assms
  by (simp add: fetcher_inv_def NewHTTPCIMDFetcher_def ensureCache_def ensureFailures_def cacheMax_def roomy_def lru_laws cache_ok_def
      tracker_ok_def failTimes_def quota_def spaced_def)

section \<open>A least-recently-used cache as a list\<close>

definition listLru :: "(nat \<times> (string \<times> 'v) list, 'v) lru_ops" where
  "listLru =
     \<lparr>lru_new = (\<lambda>n. (n, [])),
      lru_get = (\<lambda>(n, xs) k. (map_of xs k, (n, case map_of xs k of None \<Rightarrow> xs | Some v \<Rightarrow> (k, v) # AList.delete k xs))),
      lru_add = (\<lambda>(n, xs) k v. (n, take n ((k, v) # AList.delete k (AList.clearjunk xs)))),
      lru_remove = (\<lambda>(n, xs) k. (n, AList.delete k xs)),
      lru_peek = (\<lambda>(n, xs). map_of xs),
      lru_cap = fst\<rparr>"

lemma delete_clearjunk_length: "length (AList.delete k (AList.clearjunk xs)) = card (dom (map_of xs) - {k})"
proof -
  let ?ys = "AList.delete k (AList.clearjunk xs)"
  have "distinct (map fst ?ys)" by (intro distinct_delete distinct_clearjunk)
  then have "card (set (map fst ?ys)) = length (map fst ?ys)" by (rule distinct_card)
  moreover have "set (map fst ?ys) = dom (map_of xs) - {k}"
    by (simp add: delete_keys dom_clearjunk dom_map_of_conv_image_fst)
  ultimately show ?thesis by simp
qed

lemma listLru_ok: "lru_ok listLru"
proof -
  have add: "map_of (take n ((k, v) # AList.delete k (AList.clearjunk xs))) = (map_of xs)(k \<mapsto> v)"
    if "card (insert k (dom (map_of xs))) \<le> n" for n k v and xs :: "(string \<times> 'v) list"
  proof -
    have "card (insert k (dom (map_of xs))) = Suc (card (dom (map_of xs) - {k}))" by (simp add: card.insert_remove finite_dom_map_of)
    with that have "take n ((k, v) # AList.delete k (AList.clearjunk xs)) = (k, v) # AList.delete k (AList.clearjunk xs)"
      by (simp add: delete_clearjunk_length)
    then show ?thesis by (auto simp: delete_conv' map_of_clearjunk)
  qed
  have get: "map_of ((k, v) # AList.delete k xs) = map_of xs" if "map_of xs k = Some v" for k v and xs :: "(string \<times> 'v) list"
    using that by (auto simp: delete_conv')
  show ?thesis unfolding lru_ok_def listLru_def using add get by (auto simp: delete_conv' split: option.split)
qed

section \<open>Properties\<close>

text \<open>C26: Who an MCP client can be. Whatever the network answers and however calls and failures follow
  one another, a client that the fetcher returns for an id comes from the answer that this call or an earlier one of the run
  got for that very id: a JSON document of at most 10 KB whose client\_id is the id (or the id without its query),
  with bounded names and redirect addresses, the code response type only, the authorization code among its
  grants, and public authentication offered by the document or by the query of the id. The client is public and of
  the MCP channel, with the name, the redirect addresses and the supported grants of that document. Both this answer and every
  attempt to fetch is for an id in canonical form whose host the allowlist admits. (The specification allows the
  authentication method none only; the code also takes a document with another method that offers none.)\<close>

theorem cimd_clients_sound:
  assumes "lru_ok cops" "lru_ok fops" "clocked t0 calls" "card (ca_id ` set calls) \<le> cimdCacheMaxEntries"
    and "fetchRun env cops fops (NewHTTPCIMDFetcher hosts) calls = (rs, f)"
  shows "length rs = length calls
    \<and> (\<forall>i < length rs. \<forall>k m. rs ! i = (k, Inr m) \<longrightarrow>
        k = ca_id (calls ! i) \<and> IsCIMDClientID (ce_parseURI env) k \<and> isCanonicalCIMDClientID env k \<and> allowsClientID env hosts k
      \<and> (\<exists>j \<le> i. ca_id (calls ! j) = k \<and> describedBy env k (ca_resp (calls ! j)) m))
    \<and> (\<forall>a \<in> set (f_sent f). IsCIMDClientID (ce_parseURI env) (at_client a) \<and> isCanonicalCIMDClientID env (at_client a)
         \<and> allowsClientID env hosts (at_client a))"
proof -
  note inv = fetchRun_inv [OF assms(1,2) fetcher_inv_New [OF assms(1,2) _ assms(4)] assms(3) _ assms(5), where past = "[]", simplified]
  have "\<exists>j \<le> i. ca_id (calls ! j) = k \<and> describedBy env k (ca_resp (calls ! j)) m" if "i < length calls" "fetchedIn env (take (Suc i) calls) k m" for i k m
  proof -
    from that(2) obtain c where c: "c \<in> set (take (Suc i) calls)" "ca_id c = k" "describedBy env k (ca_resp c) m" by (auto simp: fetchedIn_def)
    from c(1) obtain j where "j < Suc i" "c = calls ! j" using that(1) by (auto simp: in_set_conv_nth)
    with c(2,3) show ?thesis by (intro exI [of _ j]) simp
  qed
  with inv show ?thesis by (simp add: gates_def)
qed

text \<open>C31: How often a document is fetched. Over any sequence of calls for at most as many ids as the
  cache holds, at most five failed attempts for one id end in any span of five minutes, and two
  attempts for one id are at least five seconds apart.\<close>

theorem cimd_fetch_quota:
  assumes "lru_ok cops" "lru_ok fops" "clocked t0 calls" "card (ca_id ` set calls) \<le> cimdCacheMaxEntries"
    and "fetchRun env cops fops (NewHTTPCIMDFetcher hosts) calls = (rs, f)"
  shows "length (filter (\<lambda>a. at_client a = k \<and> at_failed a \<and> u - 5 * minute < at_end a \<and> at_end a \<le> u) (f_sent f)) \<le> 5
    \<and> (i < j \<longrightarrow> j < length (f_sent f) \<longrightarrow> at_client (f_sent f ! i) = at_client (f_sent f ! j) \<longrightarrow>
       at_end (f_sent f ! i) + 5 * second \<le> at_start (f_sent f ! j))"
proof -
  have inv: "quota (f_sent f)" "spaced (f_sent f)"
    using fetchRun_inv [OF assms(1,2) fetcher_inv_New [OF assms(1,2) _ assms(4)] assms(3) _ assms(5), where past = "[]"] by simp_all
  have "length (filter (\<lambda>t. u - cimdFailureWindow < t \<and> t \<le> u) (failTimes (f_sent f) k))
      = length (filter (\<lambda>a. at_client a = k \<and> at_failed a \<and> u - 5 * minute < at_end a \<and> at_end a \<le> u) (f_sent f))"
    by (simp add: failTimes_def filter_map comp_def cimdFailureWindow_def conj_assoc)
  with inv(1) have "length (filter (\<lambda>a. at_client a = k \<and> at_failed a \<and> u - 5 * minute < at_end a \<and> at_end a \<le> u) (f_sent f)) \<le> 5"
    by (metis quota_def)
  with inv(2) show ?thesis by (simp add: spaced_def sorted_wrt_iff_nth_less cimdFloorTTL_def)
qed

text \<open>A client of claude.ai whose first fetch fails and whose second, forty seconds later, succeeds.\<close>

definition exampleCimdId :: string where "exampleCimdId = ''https://claude.ai/c''"

definition exampleMeta :: CIMDMetadata where
  "exampleMeta = \<lparr>cm_ClientID = exampleCimdId, cm_ClientName = ''C'', cm_RedirectURIs = [''https://claude.ai/cb''],
     cm_GrantTypes = [''refresh_token'', ''authorization_code'', ''refresh_token''], cm_ResponseTypes = [''code''],
     cm_TokenEndpointAuthMethod = '''', cm_TokenEndpointAuthMethodsSupported = []\<rparr>"

definition exampleCimd :: CimdEnv where
  "exampleCimd =
     \<lparr>ce_parseURI = (\<lambda>_. Some \<lparr>u_Scheme = ''https'', u_Host = ''claude.ai'', u_Hostname = ''claude.ai'', u_User = False, u_Path = ''/c''\<rparr>),
      ce_parse = (\<lambda>_. Some \<lparr>cu_Scheme = ''https'', cu_Opaque = '''', cu_User = None, cu_Host = ''claude.ai'', cu_Path = ''/c'', cu_RawPath = '''',
         cu_RawQuery = '''', cu_Fragment = '''', cu_RawFragment = ''''\<rparr>),
      ce_string = (\<lambda>u. cu_Scheme u @ ''://'' @ cu_Host u @ cu_Path u), ce_queryGet = (\<lambda>_ _. ''''),
      ce_mediaType = (\<lambda>s. Some s), ce_unmarshal = (\<lambda>s. if s = ''{}'' then Some exampleMeta else None)\<rparr>"

definition exampleCalls :: "Call list" where
  "exampleCalls =
     [\<lparr>ca_id = exampleCimdId, ca_t1 = 0, ca_t2 = 0, ca_t3 = second, ca_resp = Inl ErrDb\<rparr>,
      \<lparr>ca_id = exampleCimdId, ca_t1 = 40 * second, ca_t2 = 40 * second, ca_t3 = 41 * second,
       ca_resp = Inr \<lparr>hr_StatusCode = 200, hr_ContentType = ''application/json'', hr_CacheControl = '''', hr_Body = Inr ''{}''\<rparr>\<rparr>]"

definition exampleHosts :: CIMDHostPolicy where
  "exampleHosts = \<lparr>hp_any = False, hp_hosts = set DefaultCIMDHosts\<rparr>"

lemma exampleCimd_gates:
  "IsCIMDClientID (ce_parseURI exampleCimd) exampleCimdId" "isCanonicalCIMDClientID exampleCimd exampleCimdId"
  "allowsClientID exampleCimd exampleHosts exampleCimdId"
  by code_simp+

lemma exampleCalls_ok: "clocked 0 exampleCalls" "card (ca_id ` set exampleCalls) \<le> cimdCacheMaxEntries"
  by (simp_all add: exampleCalls_def second_def cimdCacheMaxEntries_def)

lemma exampleMeta_valid: "validateCIMDMetadata exampleCimd ''{}'' exampleCimdId = Inr (cimdModel exampleCimdId exampleMeta [''refresh_token'', ''authorization_code''])"
  by code_simp

lemma exampleCalls_run:
  "\<exists>e f. fetchRun exampleCimd listLru listLru (NewHTTPCIMDFetcher exampleHosts) exampleCalls
     = ([(exampleCimdId, Inl e), (exampleCimdId, Inr (cimdModel exampleCimdId exampleMeta [''refresh_token'', ''authorization_code'']))], f)
   \<and> f_sent f = [\<lparr>at_client = exampleCimdId, at_start = 0, at_end = second, at_failed = True\<rparr>,
        \<lparr>at_client = exampleCimdId, at_start = 40 * second, at_end = 41 * second, at_failed = False\<rparr>]"
proof -
  have env: "ce_parse exampleCimd k \<noteq> None" "ce_mediaType exampleCimd s = Some s" for k s by (simp_all add: exampleCimd_def)
  have ttl: "0 < cacheTTLFromCacheControl h d" for h d by (rule ttl_pos)
  show ?thesis
    by (simp add: exampleCalls_def FetchClient_def exampleCimd_gates fetchAndValidate_def env exampleMeta_valid ttl maxCIMDDocSize_def
        Lookup_def PutNegative_def PutPositive_def IsRateLimited_def Record_def Let_def listLru_def ensureCache_def ensureFailures_def
        NewHTTPCIMDFetcher_def cacheMax_def cimdCacheMaxEntries_def cimdNegativeCacheTTL_def cimdFailureLimit_def pruneOldTimestamps_def
        cimdFailureWindow_def second_def minute_def)
qed

theorem cimd_clients_sound_witness:
  "\<exists>e m f. fetchRun exampleCimd listLru listLru (NewHTTPCIMDFetcher exampleHosts) exampleCalls = ([(exampleCimdId, Inl e), (exampleCimdId, Inr m)], f)
   \<and> (\<exists>j \<le> 1. describedBy exampleCimd exampleCimdId (ca_resp (exampleCalls ! j)) m)"
proof -
  obtain e m f where r: "fetchRun exampleCimd listLru listLru (NewHTTPCIMDFetcher exampleHosts) exampleCalls
     = ([(exampleCimdId, Inl e), (exampleCimdId, Inr m)], f)"
    using exampleCalls_run by blast
  note sound = cimd_clients_sound [OF listLru_ok listLru_ok exampleCalls_ok r]
  have "[(exampleCimdId, Inl e), (exampleCimdId, Inr m)] ! 1 = (exampleCimdId, Inr m)"
    "1 < length [(exampleCimdId, Inl e :: err + Model), (exampleCimdId, Inr m)]" by simp_all
  with sound have "\<exists>j \<le> 1. describedBy exampleCimd exampleCimdId (ca_resp (exampleCalls ! j)) m" by blast
  with r show ?thesis by blast
qed

theorem cimd_fetch_quota_witness:
  "\<exists>rs f. fetchRun exampleCimd listLru listLru (NewHTTPCIMDFetcher exampleHosts) exampleCalls = (rs, f)
     \<and> length (filter (\<lambda>a. at_client a = exampleCimdId \<and> at_failed a \<and> 41 * second - 5 * minute < at_end a \<and> at_end a \<le> 41 * second) (f_sent f)) = 1
     \<and> length (f_sent f) = 2 \<and> at_end (f_sent f ! 0) + 5 * second \<le> at_start (f_sent f ! 1)"
proof -
  obtain rs f where r: "fetchRun exampleCimd listLru listLru (NewHTTPCIMDFetcher exampleHosts) exampleCalls = (rs, f)"
      "f_sent f = [\<lparr>at_client = exampleCimdId, at_start = 0, at_end = second, at_failed = True\<rparr>,
        \<lparr>at_client = exampleCimdId, at_start = 40 * second, at_end = 41 * second, at_failed = False\<rparr>]"
    using exampleCalls_run by blast
  with cimd_fetch_quota [OF listLru_ok listLru_ok exampleCalls_ok r(1), of exampleCimdId "41 * second" 0 1]
  show ?thesis by (simp add: minute_def second_def)
qed

end
