(* ===== verification/Login_Correct.thy ===== *)
theory Login_Correct
  imports Channels Users_Correct
begin

text \<open>
  The login services, on any database and with any failures: when a session is reused without asking
  the provider, what prompt and max\_age do to that decision, when an account may be created, and
  that the MCP and device channels never touch an account.
\<close>

section \<open>What a valid session is\<close>

text \<open>
  The session that a token finds, and the account it stands for, with the e-mail address, its
  verification and the hosted domain as they are stored.
\<close>

definition sessionFor :: "Storage \<Rightarrow> dbs \<Rightarrow> time \<Rightarrow> string \<Rightarrow> Session \<Rightarrow> User \<Rightarrow> bool" where
  "sessionFor st d now sid s u \<longleftrightarrow>
     (\<exists>h. sessionAtRest st sid = Inr h \<and> s \<in> set (sessions d) \<and> validSession h now s)
     \<and> (\<exists>row. fullUserIn st d row u \<and> us_ID row = se_UserID s)"

lemma GetValidSession_Inr:
  assumes "run_state (GetValidSession st sid) w = (Inr (u, closed), w')"
  shows "\<exists>s h. sessionAtRest st sid = Inr h \<and> one_row (validSession h (w_now w)) (sessions (w_db w)) = Inr s
      \<and> sessionFor st (w_db w) (w_now w) sid s u"
    and "closed = requireUsableUser u" "w_db w' = w_db w" "w_now w' = w_now w"
proof -
  from assms obtain h row hdom where h: "sessionAtRest st sid = Inr h"
    and e: "run_state (exec DBc (GetValidSessionUser h (w_now w))) w = (Inr (row, hdom), w')"
    and u: "run_state (fullUserOf st row hdom) w' = (Inr u, w')" and c: "closed = requireUsableUser u"
    by (auto simp: GetValidSession_def fullUserOf_def run_attempt run_attemptOr notFoundOr_def split: prod.splits sum.splits if_splits)
  from exec_DB_Inr [OF e] obtain s where s: "one_row (validSession h (w_now w)) (sessions (w_db w)) = Inr s"
    and row: "one_row (\<lambda>x. us_ID x = se_UserID s) (users (w_db w)) = Inr row" "hdom = hostedDomainOf (w_db w) (us_ID row)"
    and w': "w_db w' = w_db w" "w_now w' = w_now w"
    by (auto simp: GetValidSessionUser_def split: sum.splits)
  show "closed = requireUsableUser u" "w_db w' = w_db w" "w_now w' = w_now w" using c w' by auto
  have "fullUserIn st (w_db w) row u" using one_row_Inr [OF row(1)] u row(2)
    by (auto simp: fullUserIn_def fullUserOf_def run_attempt split: sum.splits prod.splits)
  then show "\<exists>s h. sessionAtRest st sid = Inr h \<and> one_row (validSession h (w_now w)) (sessions (w_db w)) = Inr s
      \<and> sessionFor st (w_db w) (w_now w) sid s u"
    using h s one_row_Inr [OF s] one_row_Inr [OF row(1)] by (auto simp: sessionFor_def)
qed

lemma SessionAuthTime_Inr:
  assumes "run_state (SessionAuthTime st sid) w = (Inr t, w')" "sessionAtRest st sid = Inr h"
    and "one_row (validSession h (w_now w)) (sessions (w_db w)) = Inr s"
  shows "t = se_CreatedAt s" "w_now w' = w_now w"
proof -
  from assms(1,2) have e: "run_state (exec DBc (GetValidSessionCreatedAt h (w_now w))) w = (Inr t, w')"
    by (auto simp: SessionAuthTime_def run_attempt run_attemptOr notFoundOr_def split: prod.splits sum.splits if_splits)
  from exec_DB_Inr [OF e] assms(3) show "t = se_CreatedAt s" "w_now w' = w_now w" by (simp_all add: GetValidSessionCreatedAt_def)
qed

section \<open>Reusing a session\<close>

text \<open>The client, its channel and its policy let the account in.\<close>

definition admitted :: "Storage \<Rightarrow> string \<Rightarrow> AuthRequestModel \<Rightarrow> User \<Rightarrow> bool" where
  "admitted st channel ar u \<longleftrightarrow>
     (\<exists>client. ResolveClient st (am_ClientID ar) = Inr client \<and> c_LoginChannel client = channel
        \<and> Evaluate (c_Access client) (AccessSubject u) = Allow)"

lemma verify_Inr:
  "run_state (verifyAuthRequestChannel st ar ch ip ua uid) w = (Inr (Inr client), w') \<Longrightarrow>
     ResolveClient st (am_ClientID ar) = Inr client \<and> c_LoginChannel client = ch"
  by (auto simp: verifyAuthRequestChannel_def run_attempt split: sum.splits if_splits prod.splits)

lemma checkClientAccess_True:
  "run_state (checkClientAccess st client ch uid sub b ip ua) w = (Inr True, w') \<Longrightarrow> Evaluate (c_Access client) sub = Allow"
  by (auto simp: checkClientAccess_def run_attempt split: Decision.splits sum.splits prod.splits)

lemma not_auto [simp]:
  "lr_Action (loginError m c) \<noteq> ActionAutoApprove" "lr_Action (authorizationErrorRedirect p i ar e) \<noteq> ActionAutoApprove"
  "lr_Action (accessDeniedRedirect p i ar) \<noteq> ActionAutoApprove" "lr_Action (redirectToProviderSelectingAccount rid) \<noteq> ActionAutoApprove"
  "lr_Action (loginError m c) \<noteq> ActionRedirectToIdP" "lr_Action (authorizationErrorRedirect p i ar e) \<noteq> ActionRedirectToIdP"
  "lr_Action (accessDeniedRedirect p i ar) \<noteq> ActionRedirectToIdP"
  by (auto simp: loginError_def authorizationErrorRedirect_def accessDeniedRedirect_def redirectToProviderSelectingAccount_def loginAct_def
      Let_def split: option.splits)

lemma loginRequired_Inr:
  "run_state (loginRequired p st ch iss ar ip ua) w = (Inr r, w') \<Longrightarrow> lr_Action r \<noteq> ActionAutoApprove \<and> lr_Action r \<noteq> ActionRedirectToIdP"
  by (auto simp: loginRequired_def run_attempt split: sum.splits prod.splits)

lemma maxAgeExceeded_Inr:
  "run_state (maxAgeExceeded p st ch iss ar mode ip ua) w = (Inr r, w') \<Longrightarrow>
     lr_Action r \<noteq> ActionAutoApprove \<and> (mode = promptSilent \<longrightarrow> lr_Action r \<noteq> ActionRedirectToIdP)"
  by (auto simp: maxAgeExceeded_def dest: loginRequired_Inr split: if_splits)

lemma completeReused_Inr:
  "run_state (completeReusedSessionLogin st ch cn u ar t sid ip ua rec) w = (Inr r, w') \<Longrightarrow> lr_Action r \<noteq> ActionRedirectToIdP"
  by (auto simp: completeReusedSessionLogin_def catching_def run_attempt run_attemptOr loginAct_def split: sum.splits prod.splits if_splits)

text \<open>What holds when a session was reused: the mode, the session's age and the account.\<close>

definition reuseOk :: "Storage \<Rightarrow> string \<Rightarrow> AuthRequestModel \<Rightarrow> promptMode \<Rightarrow> User \<Rightarrow> bool" where
  "reuseOk st channel ar mode u \<longleftrightarrow> admitted st channel ar u
     \<and> (CheckAccess (u_Status u) channel = AccessAllow \<or> CheckAccess (u_Status u) channel = AccessRecover \<and> mode \<noteq> promptSilent)"

lemma handleExistingSession_Inr:
  assumes "run_state (handleExistingSession s u ar t mode sid ip ua) w = (Inr r, w')"
  shows "(lr_Action r = ActionAutoApprove \<longrightarrow> reuseOk (ls_store s) ''browser'' ar mode u) \<and> lr_Action r \<noteq> ActionRedirectToIdP"
proof (cases "CheckAccess (u_Status u) ''browser'' = AccessDeny")
  case True
  with assms show ?thesis
    by (auto simp: handleExistingSession_def Let_def run_attempt accountInactive_def dest: loginRequired_Inr split: sum.splits prod.splits if_splits)
next
  case False
  then obtain v w1 where v: "run_state (verifyAuthRequestChannel (ls_store s) ar ''browser'' ip ua (Some (u_ID u))) w = (Inr v, w1)"
    using assms by (auto simp: handleExistingSession_def Let_def run_attempt split: sum.splits prod.splits)
  show ?thesis
  proof (cases v)
    case (Inl e)
    with assms False v show ?thesis by (auto simp: handleExistingSession_def Let_def run_attempt split: prod.splits)
  next
    case (Inr client)
    note c = verify_Inr [OF v [unfolded Inr]]
    from assms False v Inr obtain b w2 where
      b: "run_state (checkClientAccess (ls_store s) client ''browser'' (Some (u_ID u)) (AccessSubject u) False ip ua) w1 = (Inr b, w2)"
      and rest: "run_state (if \<not> b then ok (accessDeniedRedirect (ls_parseURL s) (ls_issuer s) ar)
            else recoverAndComplete s u ar t mode client sid ip ua) w2 = (Inr r, w')"
      by (auto simp: handleExistingSession_def Let_def run_attempt split: sum.splits prod.splits)
    show ?thesis
    proof (cases b)
      case True
      with b c have "admitted (ls_store s) ''browser'' ar u" by (auto simp: admitted_def dest: checkClientAccess_True)
      with True False rest show ?thesis
        by (cases "CheckAccess (u_Status u) ''browser''")
           (auto simp: recoverAndComplete_def Let_def reuseOk_def run_attempt run_attemptOr catching_def dest: completeReused_Inr
             split: if_splits sum.splits prod.splits)
    next
      case False
      with rest show ?thesis by auto
    qed
  qed
qed

lemma not_too_old: "\<not> sessionTooOldForMaxAge ar t now \<Longrightarrow> am_MaxAge ar = Some m \<Longrightarrow> timeSub now t div second \<le> int m"
  using pos_imp_zdiv_neg_iff [OF second_pos, of "timeSub now t"]
  by (auto simp: sessionTooOldForMaxAge_def Let_def not_less nat_le_iff split: if_splits)

lemma young_enough:
  assumes "\<not> timeIsZero t" "\<And>m. am_MaxAge ar = Some m \<Longrightarrow> timeSub now t div second \<le> int m"
  shows "\<not> sessionTooOldForMaxAge ar t now"
  using assms by (auto simp: sessionTooOldForMaxAge_def Let_def not_less nat_le_iff split: option.splits)

text \<open>What a channel answers from a session, if it does.\<close>

definition sessionDecision :: "Storage \<Rightarrow> string \<Rightarrow> AuthRequestModel \<Rightarrow> promptMode \<Rightarrow> string \<Rightarrow> world \<Rightarrow> LoginResult \<Rightarrow> bool" where
  "sessionDecision st channel ar mode sid w r \<longleftrightarrow>
     (lr_Action r = ActionAutoApprove \<longrightarrow>
        (\<exists>s u. sessionFor st (w_db w) (w_now w) sid s u \<and> reuseOk st channel ar mode u
           \<and> (\<forall>m. am_MaxAge ar = Some m \<longrightarrow> timeSub (w_now w) (se_CreatedAt s) div second \<le> int m)))
     \<and> (mode = promptSilent \<longrightarrow> lr_Action r \<noteq> ActionRedirectToIdP)"

lemma sessionDecision_refuse [simp]:
  "lr_Action r \<noteq> ActionAutoApprove \<Longrightarrow> mode \<noteq> promptSilent \<or> lr_Action r \<noteq> ActionRedirectToIdP \<Longrightarrow> sessionDecision st ch ar mode sid w r"
  by (auto simp: sessionDecision_def)

lemma handleSessionLogin_Inr:
  assumes "run_state (handleSessionLogin s ar mode sid ip ua) w = (Inr (Some r), w')"
  shows "sessionDecision (ls_store s) ''browser'' ar mode sid w r"
proof -
  let ?st = "ls_store s"
  from assms obtain u closed w1 where g: "run_state (GetValidSession ?st sid) w = (Inr (u, closed), w1)"
    by (auto simp: handleSessionLogin_def Let_def catching_def run_attemptOr split: if_splits sum.splits prod.splits)
  show ?thesis
  proof (cases "closed = None")
    case False
    with assms g show ?thesis
      by (auto simp: handleSessionLogin_def Let_def catching_def run_attemptOr run_attempt accountInactive_def dest!: loginRequired_Inr
          split: if_splits sum.splits prod.splits)
  next
    case True
    from GetValidSession_Inr [OF g] obtain x h where h: "sessionAtRest ?st sid = Inr h"
      and x: "one_row (validSession h (w_now w)) (sessions (w_db w)) = Inr x" "sessionFor ?st (w_db w) (w_now w) sid x u"
      and w1: "w_db w1 = w_db w" "w_now w1 = w_now w" by blast
    from True assms g obtain t w2 where t: "run_state (SessionAuthTime ?st sid) w1 = (Inr t, w2)"
      by (auto simp: handleSessionLogin_def Let_def catching_def run_attemptOr run_attempt split: if_splits sum.splits prod.splits)
    note tt = SessionAuthTime_Inr [OF t h, unfolded w1, OF x(1)]
    show ?thesis
    proof (cases "sessionTooOldForMaxAge ar t (w_now w)")
      case old: True
      with True assms g t tt w1 show ?thesis
        by (auto simp: handleSessionLogin_def Let_def catching_def run_attemptOr run_attempt dest!: maxAgeExceeded_Inr split: if_splits sum.splits prod.splits)
    next
      case False
      with True assms g t tt w1 obtain w3 where "run_state (handleExistingSession s u ar t mode sid ip ua) w2 = (Inr r, w3)"
        by (auto simp: handleSessionLogin_def Let_def catching_def run_attemptOr run_attempt split: if_splits sum.splits prod.splits)
      from handleExistingSession_Inr [OF this] x(2) not_too_old [OF False] tt(1) show ?thesis by (auto simp: sessionDecision_def)
    qed
  qed
qed

lemma mcpSessionLogin_Inr:
  assumes "run_state (mcpSessionLogin s ar mode rid sid ip ua) w = (Inr (Some r), w')"
  shows "sessionDecision (ls_store s) ''mcp'' ar mode sid w r"
proof -
  let ?st = "ls_store s"
  from assms obtain u closed w1 where g: "run_state (GetValidSession ?st sid) w = (Inr (u, closed), w1)"
    by (auto simp: mcpSessionLogin_def Let_def catching_def run_attemptOr split: if_splits sum.splits prod.splits)
  show ?thesis
  proof (cases "closed = None \<and> CheckAccess (u_Status u) ''mcp'' = AccessAllow")
    case False
    with assms g show ?thesis
      by (auto simp: mcpSessionLogin_def Let_def catching_def run_attemptOr run_attempt dest!: loginRequired_Inr
          split: if_splits sum.splits prod.splits)
  next
    case True
    from GetValidSession_Inr [OF g] obtain x h where h: "sessionAtRest ?st sid = Inr h"
      and x: "one_row (validSession h (w_now w)) (sessions (w_db w)) = Inr x" "sessionFor ?st (w_db w) (w_now w) sid x u"
      and w1: "w_db w1 = w_db w" "w_now w1 = w_now w" by blast
    obtain rt w2 where t: "run_state (SessionAuthTime ?st sid) w1 = (rt, w2)" by force
    show ?thesis
    proof (cases rt)
      case (Inl e)
      with True assms g t show ?thesis
        by (auto simp: mcpSessionLogin_def Let_def catching_def run_attemptOr run_attempt loginAct_def dest!: loginRequired_Inr split: if_splits sum.splits prod.splits)
    next
      case (Inr t)
      note tt = SessionAuthTime_Inr [OF t [unfolded Inr] h, unfolded w1, OF x(1)]
      note unf = mcpSessionLogin_def Let_def catching_def run_attemptOr run_attempt
      show ?thesis
      proof (cases "sessionTooOldForMaxAge ar t (w_now w)")
        case old: True
        with True assms g t Inr tt w1 show ?thesis
          by (auto simp: unf dest!: maxAgeExceeded_Inr split: if_splits sum.splits prod.splits)
      next
        case False
        have "lr_Action r = ActionAutoApprove \<longrightarrow> reuseOk ?st ''mcp'' ar mode u"
          using False True assms g t Inr tt w1
          by (auto simp: unf reuseOk_def admitted_def dest!: verify_Inr checkClientAccess_True split: sum.splits prod.splits if_splits)
        moreover have "lr_Action r \<noteq> ActionRedirectToIdP"
          using False True assms g t Inr tt w1
          by (auto simp: unf dest!: completeReused_Inr split: sum.splits prod.splits if_splits)
        ultimately show ?thesis using x(2) not_too_old [OF False] tt(1) by (auto simp: sessionDecision_def)
      qed
    qed
  qed
qed

lemma GetAuthRequestModel_Inr:
  assumes "run_state (GetAuthRequestModel st rid) w = (Inr ar, w')"
  shows "\<exists>row \<in> set (auth_requests (w_db w)). ar_ID row = rid \<and> ar = authRequestModelFromRow row \<and> w_now w \<le> ar_ExpiresAt row"
    and "w_db w' = w_db w" "w_now w' = w_now w"
proof -
  from assms obtain row where e: "run_state (exec DBc (GetAuthRequestByID rid)) w = (Inr row, w')"
    and ar: "ar = authRequestModelFromRow row" "\<not> w_now w' > am_ExpiresAt ar"
    by (auto simp: GetAuthRequestModel_def run_attempt run_attemptOr notFoundOr_def Let_def split: prod.splits sum.splits if_splits)
  from exec_DB_Inr [OF e] have x: "one_row (\<lambda>a. ar_ID a = rid) (auth_requests (w_db w)) = Inr row" "w_db w' = w_db w" "w_now w' = w_now w"
    by (simp_all add: GetAuthRequestByID_def)
  then show "w_db w' = w_db w" "w_now w' = w_now w" by simp_all
  show "\<exists>row \<in> set (auth_requests (w_db w)). ar_ID row = rid \<and> ar = authRequestModelFromRow row \<and> w_now w \<le> ar_ExpiresAt row"
    using one_row_Inr [OF x(1)] ar x(3) by (auto simp: authRequestModelFromRow_def)
qed

lemma loadLogin_Inr:
  "run_state (loadLoginAuthRequest st rid) w = (Inr (Inr ar), w') \<Longrightarrow> run_state (GetAuthRequestModel st rid) w = (Inr ar, w')"
  by (auto simp: loadLoginAuthRequest_def catching_def run_attemptOr split: sum.splits prod.splits if_splits)

lemma loadLogin_refused:
  "run_state (loadLoginAuthRequest st rid) w = (Inr (Inl r), w') \<Longrightarrow> lr_Action r = ActionError"
  by (auto simp: loadLoginAuthRequest_def catching_def run_attemptOr loginError_def split: sum.splits prod.splits if_splits)

text \<open>The frame both channels share: load the request, look at its prompt, then at the session.\<close>

definition loginFrame ::
  "LoginService \<Rightarrow> string \<Rightarrow> (AuthRequestModel \<Rightarrow> promptMode \<Rightarrow> LoginResult option act) \<Rightarrow> string \<Rightarrow> string \<Rightarrow> string \<Rightarrow> LoginResult act" where
  "loginFrame s channel decide rid ip ua =
     (if rid = '''' then ok (loginError ''missing authRequestID'' 400)
      else
        orReturn (loadLoginAuthRequest (ls_store s) rid) (\<lambda>ar.
        let mode = loginPromptMode (am_Prompt ar) in
        if mode = promptInteractive then ok (redirectToProviderSelectingAccount rid)
        else
          attempt (decide ar mode) (\<lambda>result.
          case result of Some r \<Rightarrow> ok r
          | None \<Rightarrow> if mode = promptSilent then loginRequired (ls_parseURL s) (ls_store s) channel (ls_issuer s) ar ip ua
                    else ok (loginAct ActionRedirectToIdP rid ''''))))"

lemma login_frames:
  "HandleLogin s rid sid ip ua = loginFrame s ''browser'' (\<lambda>ar mode. handleSessionLogin s ar mode sid ip ua) rid ip ua"
  "mcpHandleLogin s rid sid ip ua = loginFrame s ''mcp'' (\<lambda>ar mode. mcpSessionLogin s ar mode rid sid ip ua) rid ip ua"
  by (simp_all add: HandleLogin_def mcpHandleLogin_def loginFrame_def)

text \<open>What an answer says about the stored request.\<close>

definition loginOk :: "Storage \<Rightarrow> string \<Rightarrow> string \<Rightarrow> world \<Rightarrow> string \<Rightarrow> LoginResult \<Rightarrow> bool" where
  "loginOk st channel sid w rid r \<longleftrightarrow>
     (lr_Action r = ActionAutoApprove \<or> lr_Action r = ActionRedirectToIdP \<longrightarrow>
      (\<exists>row \<in> set (auth_requests (w_db w)). ar_ID row = rid \<and> w_now w \<le> ar_ExpiresAt row \<and>
        (let ar = authRequestModelFromRow row; mode = loginPromptMode (am_Prompt ar) in
         (lr_Action r = ActionRedirectToIdP \<longrightarrow> mode \<noteq> promptSilent)
         \<and> (lr_Action r = ActionAutoApprove \<longrightarrow> mode \<noteq> promptInteractive \<and> sessionDecision st channel ar mode sid w r))))"

lemma loginFrame_Inr:
  assumes "run_state (loginFrame s channel decide rid ip ua) w = (Inr r, w')"
    and decide: "\<And>ar mode w r w'. run_state (decide ar mode) w = (Inr (Some r), w') \<Longrightarrow> sessionDecision (ls_store s) channel ar mode sid w r"
  shows "loginOk (ls_store s) channel sid w rid r"
proof (cases "rid = ''''")
  case True
  with assms(1) show ?thesis by (auto simp: loginFrame_def loginOk_def)
next
  case False
  with assms(1) obtain v w1 where l: "run_state (loadLoginAuthRequest (ls_store s) rid) w = (Inr v, w1)"
    by (auto simp: loginFrame_def orReturn_def run_attempt split: sum.splits prod.splits)
  show ?thesis
  proof (cases v)
    case (Inl x)
    with False assms(1) l loadLogin_refused [of "ls_store s" rid w x w1] show ?thesis by (auto simp: loginFrame_def orReturn_def run_attempt loginOk_def)
  next
    case (Inr ar)
    note g = loadLogin_Inr [OF l [unfolded Inr]]
    let ?mode = "loginPromptMode (am_Prompt ar)"
    from GetAuthRequestModel_Inr [OF g] obtain row where row: "row \<in> set (auth_requests (w_db w))" "ar_ID row = rid"
      "ar = authRequestModelFromRow row" "w_now w \<le> ar_ExpiresAt row" and w1: "w_db w1 = w_db w" "w_now w1 = w_now w" by auto
    have same: "sessionDecision st ch a m sid w1 r = sessionDecision st ch a m sid w r" for st ch a m
      by (simp add: sessionDecision_def w1)
    show ?thesis
    proof (cases "?mode = promptInteractive")
      case True
      with False assms(1) l Inr row show ?thesis by (auto simp: loginFrame_def orReturn_def run_attempt Let_def loginOk_def)
    next
      case interactive: False
      with False assms(1) l Inr obtain v w2 where d: "run_state (decide ar ?mode) w1 = (Inr v, w2)"
        by (auto simp: loginFrame_def orReturn_def run_attempt Let_def split: sum.splits prod.splits)
      have "(lr_Action r = ActionRedirectToIdP \<longrightarrow> ?mode \<noteq> promptSilent) \<and> (lr_Action r = ActionAutoApprove \<longrightarrow> sessionDecision (ls_store s) channel ar ?mode sid w r)"
      proof (cases v)
        case None
        with False interactive assms(1) l Inr d show ?thesis
          by (auto simp: loginFrame_def orReturn_def run_attempt Let_def loginAct_def dest: loginRequired_Inr split: if_splits)
      next
        case (Some x)
        with False interactive assms(1) l Inr d have "v = Some r"
          by (auto simp: loginFrame_def orReturn_def run_attempt Let_def)
        from decide [OF d [unfolded this]] show ?thesis unfolding same by (auto simp: sessionDecision_def)
      qed
      with row interactive show ?thesis by (auto simp: Let_def loginOk_def)
    qed
  qed
qed

section \<open>A login that succeeds\<close>

lemma run_audit_ok:
  assumes "healthy w" "w_tx w = None" "s_keys st = Some k"
  shows "\<exists>al. run_state (AuditLogEvent st u ev ip ua md) w = (Inr (), w\<lparr>w_db := (w_db w)\<lparr>audit_log := al\<rparr>\<rparr>)"
proof -
  obtain md' where "sanitize st ev md = Inr md'"
    using assms(3) by (fastforce simp: sanitize_def hashSessionID_def sessionAtRest_def split: option.split jval.split)
  then obtain row where row: "prepareRow st (w_now w) u ev ip ua md = Inr row" by (simp add: prepareRow_def)
  have same: "w = w\<lparr>w_db := (w_db w)\<lparr>audit_log := audit_log (w_db w)\<rparr>\<rparr>" by simp
  from snd_InsertAuditLog [of row "w_db w"] show ?thesis
  proof
    assume "snd (InsertAuditLog row (w_db w)) = w_db w"
    then show ?thesis using row same by (intro exI [of _ "audit_log (w_db w)"]) (simp add: run_AuditLogEvent [OF assms(1,2)])
  next
    assume "snd (InsertAuditLog row (w_db w)) = (w_db w)\<lparr>audit_log := audit_log (w_db w) @ [row]\<rparr>"
    then show ?thesis using row by (auto simp: run_AuditLogEvent [OF assms(1,2)])
  qed
qed

lemma run_GetAuthRequestModel:
  assumes "healthy w" "w_tx w = None" "keys_wf (w_db w)" "row \<in> set (auth_requests (w_db w))" "w_now w \<le> ar_ExpiresAt row"
  shows "run_state (GetAuthRequestModel st (ar_ID row)) w = (Inr (authRequestModelFromRow row), w)"
proof -
  have "one_row (\<lambda>a. ar_ID a = ar_ID row) (auth_requests (w_db w)) = Inr row"
    using assms(3,4) by (intro one_row_unique [where g = ar_ID]) (auto simp: keys_wf_def)
  with assms show ?thesis
    by (simp add: GetAuthRequestModel_def run_attempt run_attemptOr healthy_def GetAuthRequestByID_def Let_def authRequestModelFromRow_def)
qed

lemma run_session:
  assumes "healthy w" "w_tx w = None" "keys_wf (w_db w)" "sessionAtRest st sid = Inr h"
    and "one_row (validSession h (w_now w)) (sessions (w_db w)) = Inr x" "fullUserIn st (w_db w) urow u" "us_ID urow = se_UserID x"
  shows "run_state (GetValidSession st sid) w = (Inr (u, requireUsableUser u), w)"
    and "run_state (SessionAuthTime st sid) w = (Inr (se_CreatedAt x), w)"
proof -
  have row: "urow \<in> set (users (w_db w))" using assms(6) by (simp add: fullUserIn_def)
  note user = only_user(3) [OF assms(3) row assms(7)]
  have "run_state (fullUserOf st urow (hostedDomainOf (w_db w) (us_ID urow))) w = (Inr u, w)"
    using assms(6) by (auto simp: fullUserIn_def fullUserOf_def run_attempt)
  with assms user show "run_state (GetValidSession st sid) w = (Inr (u, requireUsableUser u), w)"
    by (simp add: GetValidSession_def run_attempt run_attemptOr healthy_def GetValidSessionUser_def)
  show "run_state (SessionAuthTime st sid) w = (Inr (se_CreatedAt x), w)"
    using assms by (simp add: SessionAuthTime_def run_attempt run_attemptOr healthy_def GetValidSessionCreatedAt_def)
qed

lemma run_CompleteAuthRequest:
  assumes "healthy w" "w_tx w = None" "keys_wf (w_db w)" "row \<in> set (auth_requests (w_db w))" "t < ar_ExpiresAt row" "\<not> timeIsZero t"
  shows "run_state (CompleteAuthRequest st (ar_ID row) uid t) w =
    (Inr (), w\<lparr>w_db := (w_db w)\<lparr>auth_requests := upd_where (\<lambda>a. ar_ID a = ar_ID row)
        (\<lambda>a. a\<lparr>ar_Subject := Some uid, ar_AuthTime := Some t, ar_Done := True\<rparr>) (auth_requests (w_db w))\<rparr>\<rparr>)"
proof -
  have only: "a = row" if "a \<in> set (auth_requests (w_db w))" "ar_ID a = ar_ID row" for a
    using assms(3,4) that by (auto simp: keys_wf_def distinct_map inj_on_def)
  have "upd_where (\<lambda>a. ar_ID a = ar_ID row \<and> t < ar_ExpiresAt a) f (auth_requests (w_db w)) = upd_where (\<lambda>a. ar_ID a = ar_ID row) f (auth_requests (w_db w))" for f
    using only assms(5) by (auto simp: upd_where_def)
  moreover have "count_where (\<lambda>a. ar_ID a = ar_ID row \<and> t < ar_ExpiresAt a) (auth_requests (w_db w)) \<noteq> 0"
    using assms(4,5) by (auto simp: count_where_eq_0_iff)
  ultimately show ?thesis
    using assms(1,2,6) by (simp add: CompleteAuthRequest_def Let_def run_attempt healthy_def CompleteAuthRequestByID_def)
qed

lemma run_HandleLogin:
  assumes "healthy w" "w_tx w = None" "keys_wf (w_db w)" "s_keys (ls_store s) = Some k"
    and "row \<in> set (auth_requests (w_db w))" "ar_ID row \<noteq> ''''" "w_now w \<le> ar_ExpiresAt row"
    and "loginPromptMode (ar_Prompt row) \<noteq> promptInteractive" "sid \<noteq> ''''" "sessionAtRest (ls_store s) sid = Inr h"
    and "one_row (validSession h (w_now w)) (sessions (w_db w)) = Inr x"
    and "se_CreatedAt x < ar_ExpiresAt row" "\<not> timeIsZero (se_CreatedAt x)"
    and "fullUserIn (ls_store s) (w_db w) urow u" "us_ID urow = se_UserID x" "us_Status urow = ''active''"
    and "\<not> sessionTooOldForMaxAge (authRequestModelFromRow row) (se_CreatedAt x) (w_now w)"
    and "ResolveClient (ls_store s) (ar_ClientID row) = Inr client" "c_LoginChannel client = ''browser''"
    and "Evaluate (c_Access client) (AccessSubject u) = Allow"
  shows "\<exists>al. run_state (HandleLogin s (ar_ID row) sid ip ua) w =
    (Inr (loginAct ActionAutoApprove (ar_ID row) ''''),
     w\<lparr>w_db := (w_db w)\<lparr>auth_requests := upd_where (\<lambda>a. ar_ID a = ar_ID row)
          (\<lambda>a. a\<lparr>ar_Subject := Some (us_ID urow), ar_AuthTime := Some (se_CreatedAt x), ar_Done := True\<rparr>) (auth_requests (w_db w)),
        audit_log := al\<rparr>\<rparr>)"
proof -
  let ?st = "ls_store s" and ?ar = "authRequestModelFromRow row" and ?t = "se_CreatedAt x"
  have ar: "am_ID ?ar = ar_ID row" "am_ClientID ?ar = ar_ClientID row" "am_Prompt ?ar = ar_Prompt row"
    by (simp_all add: authRequestModelFromRow_def)
  have u: "u_Status u = ''active''" "u_ID u = us_ID urow"
    using assms(14,16) by (auto simp: fullUserIn_def buildFullUser_def)
  have load: "run_state (loadLoginAuthRequest ?st (ar_ID row)) w = (Inr (Inr ?ar), w)"
    by (simp add: loadLoginAuthRequest_def catching_def run_attemptOr run_GetAuthRequestModel [OF assms(1-3,5,7)])
  note session = run_session [OF assms(1-3,10,11,14,15)]
  have usable: "requireUsableUser u = None" by (simp add: requireUsableUser_def u)
  have verify: "run_state (verifyAuthRequestChannel ?st ?ar ''browser'' ip ua uid) w = (Inr (Inr client), w)" for uid
    using assms(18,19) by (simp add: verifyAuthRequestChannel_def ar)
  have allow: "run_state (checkClientAccess ?st client ''browser'' uid (AccessSubject u) b ip ua) w = (Inr True, w)" for uid b
    using assms(20) by (simp add: checkClientAccess_def)
  note complete = run_CompleteAuthRequest [OF assms(1-3,5,12,13), of ?st "us_ID urow"]
  define w1 where "w1 = w\<lparr>w_db := (w_db w)\<lparr>auth_requests := upd_where (\<lambda>a. ar_ID a = ar_ID row)
      (\<lambda>a. a\<lparr>ar_Subject := Some (us_ID urow), ar_AuthTime := Some ?t, ar_Done := True\<rparr>) (auth_requests (w_db w))\<rparr>\<rparr>"
  have "healthy w1" "w_tx w1 = None" using assms(1,2) by (simp_all add: w1_def healthy_def)
  from run_audit_ok [OF this assms(4)] obtain al where audit: "run_state (AuditLogEvent ?st (Some (us_ID urow)) ''auth.login'' ip ua
       [(''channel'', JStr ''browser''), (''session_id'', JStr sid), (''client_id'', JStr (ar_ClientID row)),
        (''client_name'', JStr (c_Name client)), (''reused_session'', JBool True)]) w1 = (Inr (), w1\<lparr>w_db := (w_db w1)\<lparr>audit_log := al\<rparr>\<rparr>)" by blast
  have "run_state (completeReusedSessionLogin ?st ''browser'' (c_Name client) u ?ar ?t sid ip ua False) w
      = (Inr (loginAct ActionAutoApprove (ar_ID row) ''''), w1\<lparr>w_db := (w_db w1)\<lparr>audit_log := al\<rparr>\<rparr>)"
    using complete audit by (simp add: completeReusedSessionLogin_def catching_def run_attempt run_attemptOr ar u w1_def [symmetric])
  then have "run_state (handleExistingSession s u ?ar ?t mode sid ip ua) w
      = (Inr (loginAct ActionAutoApprove (ar_ID row) ''''), w1\<lparr>w_db := (w_db w1)\<lparr>audit_log := al\<rparr>\<rparr>)" for mode
    by (simp add: handleExistingSession_def Let_def run_attempt verify allow u CheckAccess_def recoverAndComplete_def)
  then have "run_state (HandleLogin s (ar_ID row) sid ip ua) w
      = (Inr (loginAct ActionAutoApprove (ar_ID row) ''''), w1\<lparr>w_db := (w_db w1)\<lparr>audit_log := al\<rparr>\<rparr>)"
    using assms(6,8,9,17) session usable
    by (simp add: HandleLogin_def orReturn_def run_attempt load Let_def ar handleSessionLogin_def catching_def run_attemptOr)
  then show ?thesis by (auto simp: w1_def)
qed

section \<open>Properties\<close>

text \<open>C23: When a login is granted without the provider. An answer that approves from a session, by the
  browser or the MCP channel, is for a stored, unexpired request whose prompt does not ask for
  interaction; the session is valid and its age in whole seconds is at most max\_age; the stored account
  of the session, with its stored address and hosted domain, is not closed and is admitted by the
  policy of the client, which belongs to this channel; and a pending account is only let in by the
  browser and never silently. A silent request is never sent to the provider. As the age is
  counted in whole seconds, max\_age=0 does not refuse every session, as the documentation has it: one of less than a
  second passes.\<close>

theorem session_reuse_contract:
  assumes "run_state (HandleLogin s rid sid ip ua) w = (Inr r, w') \<and> channel = ''browser''
    \<or> run_state (mcpHandleLogin s rid sid ip ua) w = (Inr r, w') \<and> channel = ''mcp''"
  shows "lr_Action r = ActionAutoApprove \<or> lr_Action r = ActionRedirectToIdP \<longrightarrow>
      (\<exists>row \<in> set (auth_requests (w_db w)). ar_ID row = rid \<and> w_now w \<le> ar_ExpiresAt row \<and>
        (let ar = authRequestModelFromRow row; mode = loginPromptMode (am_Prompt ar); st = ls_store s in
         (lr_Action r = ActionRedirectToIdP \<longrightarrow> mode \<noteq> promptSilent)
         \<and> (lr_Action r = ActionAutoApprove \<longrightarrow> mode \<noteq> promptInteractive
             \<and> (\<exists>x u client. sessionFor st (w_db w) (w_now w) sid x u
                 \<and> (\<forall>m. am_MaxAge ar = Some m \<longrightarrow> timeSub (w_now w) (se_CreatedAt x) div second \<le> int m)
                 \<and> ResolveClient st (am_ClientID ar) = Inr client \<and> c_LoginChannel client = channel
                 \<and> Evaluate (c_Access client) (AccessSubject u) = Allow
                 \<and> (u_Status u \<noteq> ''disabled'' \<and> u_Status u \<noteq> ''deleted'')
                 \<and> (u_Status u = ''pending_deletion'' \<longrightarrow> channel = ''browser'' \<and> mode \<noteq> promptSilent)))))"
proof -
  have status: "u_Status u \<noteq> ''disabled'' \<and> u_Status u \<noteq> ''deleted'' \<and> (u_Status u = ''pending_deletion'' \<longrightarrow> channel = ''browser'' \<and> mode \<noteq> promptSilent)"
    if "reuseOk st channel ar mode u" for st ar mode u
    using that by (auto simp: reuseOk_def CheckAccess_def split: if_splits)
  from assms have ok: "loginOk (ls_store s) channel sid w rid r"
    unfolding login_frames
    by (elim disjE conjE; simp; elim loginFrame_Inr) (erule handleSessionLogin_Inr mcpSessionLogin_Inr)+
  show ?thesis
  proof (rule impI)
    assume act: "lr_Action r = ActionAutoApprove \<or> lr_Action r = ActionRedirectToIdP"
    with ok obtain row where row: "row \<in> set (auth_requests (w_db w))" "ar_ID row = rid" "w_now w \<le> ar_ExpiresAt row"
      and idp: "lr_Action r = ActionRedirectToIdP \<longrightarrow> loginPromptMode (am_Prompt (authRequestModelFromRow row)) \<noteq> promptSilent"
      and auto: "lr_Action r = ActionAutoApprove \<longrightarrow> loginPromptMode (am_Prompt (authRequestModelFromRow row)) \<noteq> promptInteractive
        \<and> sessionDecision (ls_store s) channel (authRequestModelFromRow row) (loginPromptMode (am_Prompt (authRequestModelFromRow row))) sid w r"
      unfolding loginOk_def Let_def by blast
    let ?ar = "authRequestModelFromRow row"
    let ?mode = "loginPromptMode (am_Prompt ?ar)"
    have "\<exists>x u client. sessionFor (ls_store s) (w_db w) (w_now w) sid x u
                 \<and> (\<forall>m. am_MaxAge ?ar = Some m \<longrightarrow> timeSub (w_now w) (se_CreatedAt x) div second \<le> int m)
                 \<and> ResolveClient (ls_store s) (am_ClientID ?ar) = Inr client \<and> c_LoginChannel client = channel
                 \<and> Evaluate (c_Access client) (AccessSubject u) = Allow
                 \<and> (u_Status u \<noteq> ''disabled'' \<and> u_Status u \<noteq> ''deleted'')
                 \<and> (u_Status u = ''pending_deletion'' \<longrightarrow> channel = ''browser'' \<and> ?mode \<noteq> promptSilent)" if "lr_Action r = ActionAutoApprove"
    proof -
      from that auto obtain x u where u: "sessionFor (ls_store s) (w_db w) (w_now w) sid x u" "reuseOk (ls_store s) channel ?ar ?mode u"
        "\<forall>m. am_MaxAge ?ar = Some m \<longrightarrow> timeSub (w_now w) (se_CreatedAt x) div second \<le> int m"
        unfolding sessionDecision_def by blast
      from u(2) obtain client where "ResolveClient (ls_store s) (am_ClientID ?ar) = Inr client"
        "c_LoginChannel client = channel" "Evaluate (c_Access client) (AccessSubject u) = Allow"
        unfolding reuseOk_def admitted_def by blast
      with u status [OF u(2)] show ?thesis by blast
    qed
    with row idp auto show "\<exists>row \<in> set (auth_requests (w_db w)). ar_ID row = rid \<and> w_now w \<le> ar_ExpiresAt row \<and>
        (let ar = authRequestModelFromRow row; mode = loginPromptMode (am_Prompt ar); st = ls_store s in
         (lr_Action r = ActionRedirectToIdP \<longrightarrow> mode \<noteq> promptSilent)
         \<and> (lr_Action r = ActionAutoApprove \<longrightarrow> mode \<noteq> promptInteractive
             \<and> (\<exists>x u client. sessionFor st (w_db w) (w_now w) sid x u
                 \<and> (\<forall>m. am_MaxAge ar = Some m \<longrightarrow> timeSub (w_now w) (se_CreatedAt x) div second \<le> int m)
                 \<and> ResolveClient st (am_ClientID ar) = Inr client \<and> c_LoginChannel client = channel
                 \<and> Evaluate (c_Access client) (AccessSubject u) = Allow
                 \<and> (u_Status u \<noteq> ''disabled'' \<and> u_Status u \<noteq> ''deleted'')
                 \<and> (u_Status u = ''pending_deletion'' \<longrightarrow> channel = ''browser'' \<and> mode \<noteq> promptSilent))))"
      unfolding Let_def by blast
  qed
qed

text \<open>C24: A login from a good session succeeds. On a healthy database, with a stored, unexpired request
  that does not ask for interaction and a valid session of an active, admitted account that is not
  too old, the browser login approves at once: the request is done for this account with the time of
  the session as its authentication time, and besides the audit log nothing else changes. Too old means
  that the age in whole seconds exceeds max\_age; so, against the documentation, a session of less than
  a second is reused even for max\_age=0, as in the example.\<close>

theorem session_login_succeeds:
  assumes "healthy w" "w_tx w = None" "keys_wf (w_db w)" "s_keys (ls_store s) = Some k"
    and "row \<in> set (auth_requests (w_db w))" "ar_ID row \<noteq> ''''" "w_now w \<le> ar_ExpiresAt row"
    and "loginPromptMode (ar_Prompt row) \<noteq> promptInteractive" "sid \<noteq> ''''" "sessionAtRest (ls_store s) sid = Inr h"
    and "one_row (validSession h (w_now w)) (sessions (w_db w)) = Inr x"
    and "se_CreatedAt x < ar_ExpiresAt row" "\<not> timeIsZero (se_CreatedAt x)"
    and "fullUserIn (ls_store s) (w_db w) urow u" "us_ID urow = se_UserID x" "us_Status urow = ''active''"
    and "\<And>m. am_MaxAge (authRequestModelFromRow row) = Some m \<Longrightarrow> timeSub (w_now w) (se_CreatedAt x) div second \<le> int m"
    and "ResolveClient (ls_store s) (ar_ClientID row) = Inr client" "c_LoginChannel client = ''browser''"
    and "Evaluate (c_Access client) (AccessSubject u) = Allow"
  shows "\<exists>al. run_state (HandleLogin s (ar_ID row) sid ip ua) w =
    (Inr (loginAct ActionAutoApprove (ar_ID row) ''''),
     w\<lparr>w_db := (w_db w)\<lparr>auth_requests := upd_where (\<lambda>a. ar_ID a = ar_ID row)
          (\<lambda>a. a\<lparr>ar_Subject := Some (us_ID urow), ar_AuthTime := Some (se_CreatedAt x), ar_Done := True\<rparr>) (auth_requests (w_db w)),
        audit_log := al\<rparr>\<rparr>)"
proof -
  have "\<not> sessionTooOldForMaxAge (authRequestModelFromRow row) (se_CreatedAt x) (w_now w)" using assms(13,17) by (rule young_enough)
  with assms(1-16,18-20) show ?thesis by (intro run_HandleLogin)
qed

text \<open>An example: a session of the account, created at 5, and a request with max\_age=0 that waits for a login.\<close>

definition exampleSession :: Session where
  "exampleSession = \<lparr>se_ID = ''s1'', se_UserID = ''alice'', se_ExpiresAt = 100, se_RevokedAt = None, se_CreatedAt = 5,
     se_TokenHash = Some (SessionHash examplePrims exampleKeys ''tok'')\<rparr>"

definition exampleWaiting :: AuthRequest where
  "exampleWaiting = exampleRequest\<lparr>ar_Done := False, ar_Subject := None, ar_AuthTime := None, ar_Code := None, ar_MaxAge := Some 0\<rparr>"

definition exampleLogin :: LoginService where
  "exampleLogin = \<lparr>ls_store = exampleStorage, ls_providerName = ''google'', ls_issuer = ''https://i'', ls_sessionTTL = day,
     ls_parseURL = (\<lambda>_. None)\<rparr>"

definition exampleVisit :: world where
  "exampleVisit = exampleWorld (exampleDb\<lparr>sessions := [exampleSession], auth_requests := [exampleWaiting]\<rparr>)"

lemma exampleVisit_ready:
  "healthy exampleVisit" "w_tx exampleVisit = None" "keys_wf (w_db exampleVisit)" "exampleWaiting \<in> set (auth_requests (w_db exampleVisit))"
  "w_now exampleVisit \<le> ar_ExpiresAt exampleWaiting" "sessionAtRest exampleStorage ''tok'' = Inr (SessionHash examplePrims exampleKeys ''tok'')"
  "one_row (validSession (SessionHash examplePrims exampleKeys ''tok'') (w_now exampleVisit)) (sessions (w_db exampleVisit)) = Inr exampleSession"
  by (simp_all add: exampleVisit_def healthy_def keys_wf_def exampleWaiting_def exampleRequest_def exampleSession_def sessionAtRest_def
      one_row_def validSession_def)

lemma exampleVisit_fields:
  "ar_ID exampleWaiting = ''req''" "ar_ClientID exampleWaiting = ''app''" "ar_Prompt exampleWaiting = []" "ar_ExpiresAt exampleWaiting = 100"
  "se_CreatedAt exampleSession = 5" "se_UserID exampleSession = ''alice''" "us_Status exampleUser = ''active''" "ar_MaxAge exampleWaiting = Some 0"
  "w_now exampleVisit = 10"
  by (simp_all add: exampleWaiting_def exampleRequest_def exampleSession_def exampleUser_def exampleVisit_def)

lemma exampleVisit_age:
  "\<not> sessionTooOldForMaxAge (authRequestModelFromRow exampleWaiting) 5 10"
  "am_MaxAge (authRequestModelFromRow exampleWaiting) = Some m \<Longrightarrow> timeSub 10 5 div second \<le> int m"
  by (simp_all add: sessionTooOldForMaxAge_def authRequestModelFromRow_def exampleVisit_fields maxAgeFromNullInt64_def timeIsZero_def Let_def timeSub_def second_def)

lemma exampleVisit_user:
  "fullUserIn exampleStorage (w_db exampleVisit) exampleUser
     \<lparr>u_ID = ''alice'', u_Email = ''a@b.io'', u_EmailVerified = False, u_Name = '''', u_Status = ''active'', u_HostedDomain = '''',
      u_CreatedAt = 0, u_UpdatedAt = 0\<rparr>"
  by (simp add: fullUserIn_def resolve_exampleUser hostedDomainOf_def buildFullUser_def exampleVisit_def)
     (simp add: exampleUser_def emptyUserRow_def coalesce_def)

lemma exampleApp_client:
  "\<exists>client. ResolveClient exampleStorage ''app'' = Inr client \<and> c_LoginChannel client = ''browser'' \<and> c_Access client = None"
proof -
  have "policy (s_registry exampleStorage) = None" by (simp add: exampleStorage_def exampleRegistry_def Load_policy NewRegistry_def)
  then show ?thesis
    by (simp add: ResolveClient_def Resolve_def CoreResolver_def exampleApp modelOfEntry_def) (simp add: exampleEntry_def)
qed

lemma exampleVisit_login:
  "\<exists>w'. run_state (HandleLogin exampleLogin ''req'' ''tok'' '''' '''') exampleVisit = (Inr (loginAct ActionAutoApprove ''req'' ''''), w')"
proof -
  have st: "ls_store exampleLogin = exampleStorage" by (simp add: exampleLogin_def)
  obtain client where c: "ResolveClient exampleStorage ''app'' = Inr client" "c_LoginChannel client = ''browser''" "c_Access client = None"
    using exampleApp_client by blast
  from run_HandleLogin [where s = exampleLogin and k = exampleKeys and row = exampleWaiting and sid = "''tok''" and x = exampleSession
      and urow = exampleUser and client = client and ip = "''''" and ua = "''''", unfolded st, OF exampleVisit_ready(1-3) _ exampleVisit_ready(4) _
      exampleVisit_ready(5) _ _ exampleVisit_ready(6,7) _ _ exampleVisit_user]
  show ?thesis
    using c exampleVisit_age by (fastforce simp: exampleVisit_fields loginPromptMode_def timeIsZero_def Evaluate_def Restricted_def)
qed

theorem session_reuse_contract_witness:
  "\<exists>r w'. run_state (HandleLogin exampleLogin ''req'' ''tok'' '''' '''') exampleVisit = (Inr r, w') \<and> lr_Action r = ActionAutoApprove
     \<and> (\<exists>x u. sessionFor exampleStorage (w_db exampleVisit) (w_now exampleVisit) ''tok'' x u \<and> u_Status u \<noteq> ''disabled'')"
proof -
  obtain r w' where r: "run_state (HandleLogin exampleLogin ''req'' ''tok'' '''' '''') exampleVisit = (Inr r, w')" "lr_Action r = ActionAutoApprove"
    using exampleVisit_login by (auto simp: loginAct_def)
  have "ls_store exampleLogin = exampleStorage" by (simp add: exampleLogin_def)
  with session_reuse_contract [where channel = "''browser''", OF disjI1, OF conjI, OF r(1) refl] r show ?thesis
    unfolding Let_def by auto
qed

theorem session_login_succeeds_witness:
  "am_MaxAge (authRequestModelFromRow exampleWaiting) = Some 0 \<and> (\<exists>al. run_state (HandleLogin exampleLogin ''req'' ''tok'' '''' '''') exampleVisit =
    (Inr (loginAct ActionAutoApprove ''req'' ''''),
     exampleVisit\<lparr>w_db := (w_db exampleVisit)\<lparr>auth_requests := [exampleWaiting\<lparr>ar_Subject := Some ''alice'', ar_AuthTime := Some 5, ar_Done := True\<rparr>],
        audit_log := al\<rparr>\<rparr>))"
proof -
  have st: "ls_store exampleLogin = exampleStorage" by (simp add: exampleLogin_def)
  obtain client where c: "ResolveClient exampleStorage ''app'' = Inr client" "c_LoginChannel client = ''browser''" "c_Access client = None"
    using exampleApp_client by blast
  from session_login_succeeds [where s = exampleLogin and k = exampleKeys and row = exampleWaiting and sid = "''tok''" and x = exampleSession
      and urow = exampleUser and client = client and ip = "''''" and ua = "''''", unfolded st, OF exampleVisit_ready(1-3) _ exampleVisit_ready(4) _
      exampleVisit_ready(5) _ _ exampleVisit_ready(6,7) _ _ exampleVisit_user]
  show ?thesis
    using c exampleVisit_age(2) by (simp add: exampleVisit_fields loginPromptMode_def timeIsZero_def Evaluate_def Restricted_def
        authRequestModelFromRow_def maxAgeFromNullInt64_def) (simp add: exampleVisit_def upd_where_def exampleVisit_fields)
qed

end
