(* ===== verification/Services.thy ===== *)
theory Services
  imports Login_Correct Server_Correct
begin

text \<open>
  The login services over the storage operations. The locales name what a service relies on: a
  property of worlds that every storage operation the service calls keeps. The handlers' lemmas are
  proved once inside them; the interpretations give that a handler is a sequence of server steps, so
  that what holds of the server holds of the services, and that the MCP and device channels touch no
  account.
\<close>

section \<open>Contracts\<close>

lemma query_faults:
  assumes "run_state (exec DBc q) w = (r, w')" "\<And>d. snd (q d) = d"
  shows "\<exists>fs. w' = w\<lparr>w_faults := fs\<rparr>"
proof (cases "w_faults w")
  case Nil
  then have "w' = w\<lparr>w_faults := []\<rparr>" using assms by (cases w) (auto simp: exec_def nextOutcome_def option.map_ident)
  then show ?thesis ..
next
  case (Cons f fs)
  then have "w' = w\<lparr>w_faults := fs\<rparr>" using assms by (cases f) (auto simp: exec_def nextOutcome_def option.map_ident)
  then show ?thesis ..
qed

locale service_ops =
  fixes st :: Storage and I :: "world \<Rightarrow> bool"
  assumes faults: "I w \<Longrightarrow> I (w\<lparr>w_faults := fs\<rparr>)"
    and audit: "keeps I (AuditLogEvent st u ev ip ua md)"
    and complete: "keeps I (CompleteAuthRequest st rid uid t)"
    and session: "keeps I (CreateSession st uid ttl)"
    and hostedDomain: "keeps I (SetIdentityHostedDomain st p sub hdom)"
    and approve: "keeps I (ApproveDeviceCode st ucode uid t)"
    and deny: "keeps I (DenyDeviceCode st ucode)"
begin

text \<open>A query only takes the next outcome of the database.\<close>

lemma read:
  assumes "\<And>d. snd (q d) = d"
  shows "keeps I (exec DBc q)"
proof (rule keepsI)
  fix w r w'
  assume w: "I w" "run_state (exec DBc q) w = (r, w')"
  from query_faults [OF w(2) assms] obtain fs where "w' = w\<lparr>w_faults := fs\<rparr>" by blast
  with faults [OF w(1)] show "I w'" by simp
qed

lemma keeps_catching: "keeps I m \<Longrightarrow> (\<And>e. keeps I (h e)) \<Longrightarrow> (\<And>x. keeps I (f x)) \<Longrightarrow> keeps I (catching m h f)"
  unfolding catching_def by (intro inv_intro)

lemma keeps_orReturn: "keeps I m \<Longrightarrow> (\<And>x. keeps I (f x)) \<Longrightarrow> keeps I (orReturn m f)"
  unfolding orReturn_def by (intro inv_intro)

lemmas ops = audit complete session hostedDomain approve deny
lemmas glue = inv_intro keeps_catching keeps_orReturn

lemma lookups:
  "keeps I (GetAuthRequestModel st rid)" "keeps I (GetValidSession st sid)" "keeps I (SessionAuthTime st sid)"
  "keeps I (GetUserByProviderIdentity st p sub)" "keeps I (GetUserByID st uid)" "keeps I (GetDeviceCodeByUserCode st ucode)"
  unfolding GetAuthRequestModel_def GetValidSession_def SessionAuthTime_def GetUserByProviderIdentity_def GetUserByID_def
    GetDeviceCodeByUserCode_def fullUserOf_def notFoundOr_def Let_def
  by (intro glue read; simp add: GetAuthRequestByID_def GetValidSessionUser_def GetValidSessionCreatedAt_def GetUserByProviderSubHash_def
      GetUserRowByID_def GetDeviceCodeRowByUserCode_def split: sum.split)+

lemma requests: "keeps I (loadLoginAuthRequest st rid)" "keeps I (loadCallbackAuthRequest st rid)"
  unfolding loadLoginAuthRequest_def loadCallbackAuthRequest_def by (intro glue lookups)+

lemma verify: "keeps I (verifyAuthRequestChannel st ar ch ip ua uid)"
  unfolding verifyAuthRequestChannel_def by (intro glue ops)

lemma policy: "keeps I (checkClientAccess st client ch uid sub b ip ua)"
  unfolding checkClientAccess_def by (cases "Evaluate (c_Access client) sub") (auto intro!: glue ops)

lemma refusals: "keeps I (loginRequired p st ch iss ar ip ua)" "keeps I (maxAgeExceeded p st ch iss ar mode ip ua)"
  "keeps I (auditInactiveUser st ch u ip ua)"
  unfolding loginRequired_def maxAgeExceeded_def auditInactiveUser_def by (intro glue ops verify)+

lemma existing: "keeps I (checkExistingAccountAccess st client ch u info ip ua)" "keeps I (recordHostedDomain st p info u)"
  "keeps I (completeReusedSessionLogin st ch cn u ar t sid ip ua rec)"
  unfolding checkExistingAccountAccess_def recordHostedDomain_def completeReusedSessionLogin_def
  by (intro glue ops policy)+

lemmas parts = lookups requests verify policy refusals existing

lemma mcp:
  assumes "ls_store s = st"
  shows "keeps I (mcpHandleLogin s rid sid ip ua)" "keeps I (CompleteMCPLogin s rid info ip ua)"
  unfolding mcpHandleLogin_def mcpSessionLogin_def CompleteMCPLogin_def finishMCPLogin_def Let_def assms
  by (intro glue ops parts)+

lemma device:
  assumes "dv_store s = st"
  shows "keeps I (HandleDevicePage s ctx ucode sid)" "keeps I (CompleteDeviceLogin s ucode info ip ua)"
    "keeps I (HandleDeviceApprove s ucode action sid ip ua)"
  unfolding HandleDevicePage_def CompleteDeviceLogin_def HandleDeviceApprove_def validateDevicePage_def ensureDeviceSessionAccess_def
    ensureDeviceCallbackAccess_def ensureDeviceAccess_def findDeviceCallbackUser_def ensureDeviceCallbackClientAccess_def finishDeviceLogin_def
    approveDeviceCode_def denyDeviceCode_def loadDeviceAuditContext_def Let_def assms
  by (intro glue ops parts)+

end

text \<open>The browser channel also recovers accounts and signs them up.\<close>

locale recover_ops = service_ops +
  assumes recover: "keeps I (RecoverUser st uid)"
begin

lemma browser_login:
  assumes "ls_store s = st"
  shows "keeps I (HandleLogin s rid sid ip ua)"
  unfolding HandleLogin_def handleSessionLogin_def handleExistingSession_def recoverAndComplete_def accountInactive_def Let_def assms
  by (intro glue ops parts recover)

lemma existing_user:
  assumes "ls_store s = st"
  shows "keeps I (existingBrowserUser s info ar client found ip ua)"
proof -
  have "keeps I (ensureBrowserAccess s u ip ua)" for u
    unfolding ensureBrowserAccess_def Let_def assms
    by (cases "CheckAccess (u_Status u) ''browser''") (auto intro!: glue ops parts recover)
  then show ?thesis
    unfolding existingBrowserUser_def Let_def assms by (intro glue ops parts)
qed

lemma finish:
  assumes "ls_store s = st"
  shows "keeps I (finishBrowserLogin s ar rid cn user ip ua)"
  unfolding finishBrowserLogin_def Let_def assms by (cases user) (auto intro!: glue ops parts)

text \<open>What follows the policy check only has to keep the property for an admitted account.\<close>

lemma gate:
  assumes "Evaluate (c_Access client) sub = Allow \<Longrightarrow> keeps I (f True)" "keeps I (f False)"
  shows "keeps I (attempt (checkClientAccess st client ch uid sub b ip ua) f)"
proof (cases "Evaluate (c_Access client) sub")
  case Allow
  with keepsD [OF assms(1)] show ?thesis by (auto intro!: keepsI simp: checkClientAccess_def run_attempt)
next
  case (Refuse x)
  have "keeps I (attempt (AuditLogEvent st uid EventAuthAccessDenied ip ua
      (AccessDeniedAuditMetadata (c_ID client) (c_Name client) ch x (Email sub) b)) (\<lambda>_. f False))"
    by (intro glue audit assms(2))
  from keepsD [OF this] show ?thesis
    by (intro keepsI) (auto simp: checkClientAccess_def Refuse run_attempt split: sum.splits prod.splits)
qed

lemma prepare:
  assumes "ls_store s = st" "Evaluate (c_Access client) (accessSubjectFromUpstream info) = Allow \<Longrightarrow> keeps I (signupBrowserUser s info ar ip ua)"
  shows "keeps I (prepareBrowserCallbackUser s info ar client ip ua)"
  unfolding prepareBrowserCallbackUser_def Let_def assms(1)
  by (intro glue ops parts gate assms(2) existing_user [OF assms(1)]) auto

end

locale browser_ops = recover_ops +
  assumes signup: "keeps I (CreateUserWithIdentity st input)"
begin

lemma callback:
  assumes "ls_store s = st"
  shows "keeps I (CompleteBrowserLogin s rid info ip ua)"
proof -
  have "keeps I (signupBrowserUser s i ar ip ua)" for i ar
    unfolding signupBrowserUser_def Let_def assms by (intro glue ops parts signup)
  then show ?thesis
    unfolding CompleteBrowserLogin_def assms by (intro glue ops parts prepare finish assms)
qed

end

section \<open>Handlers are sequences of server steps\<close>

interpretation run: browser_ops st "steps st w0" for st w0
proof
  show "steps st w0 (w\<lparr>w_faults := fs\<rparr>)" if "steps st w0 w" for w fs
  proof -
    have "w\<lparr>w_faults := fs\<rparr> = w\<lparr>w_now := w_now w, w_idc := w_idc w, w_faults := fs\<rparr>" by simp
    then have "server_step st w (w\<lparr>w_faults := fs\<rparr>)" using server_step.idle [of w "w_now w" "w_idc w" st fs] by simp
    with that show ?thesis by (rule rtranclp.rtrancl_into_rtrancl)
  qed
qed (auto intro!: keepsI intro: server_step.intros rtranclp.rtrancl_into_rtrancl)

section \<open>Channels that touch no account\<close>

lemma users_audit: "harmless (\<lambda>_ d. P (users d)) (InsertAuditLog row)"
proof -
  have "users (snd (InsertAuditLog row d)) = users d" for d using snd_InsertAuditLog [of row d] by auto
  then show ?thesis by (simp add: harmless_def)
qed

interpretation untouched: service_ops st "winv (\<lambda>_ d. P (users d))" for st P
proof -
  let ?J = "\<lambda>_ d. P (users d)"
  note rules = inv_intro winv_exec keeps_counter users_audit
  show "service_ops st (winv ?J)"
  proof
    show "winv ?J (w\<lparr>w_faults := fs\<rparr>)" if "winv ?J w" for w fs using that by (simp add: winv_def)
    show "keeps (winv ?J) (AuditLogEvent st u ev ip ua md)" for u ev ip ua md
      unfolding AuditLogEvent_def by (intro rules)
    show "keeps (winv ?J) (CompleteAuthRequest st rid uid t)" for rid uid t
      unfolding CompleteAuthRequest_def Let_def by (intro rules) (simp add: harmless_def CompleteAuthRequestByID_def)
    show "keeps (winv ?J) (CreateSession st uid ttl)" for uid ttl
      unfolding CreateSession_def by (intro rules) (auto simp: harmless_def InsertSession_def)
    show "keeps (winv ?J) (SetIdentityHostedDomain st p sub hdom)" for p sub hdom
      unfolding SetIdentityHostedDomain_def by (intro rules) (simp add: harmless_def SetIdentityHostedDomainRow_def)
    show "keeps (winv ?J) (ApproveDeviceCode st ucode uid t)" for ucode uid t
      unfolding ApproveDeviceCode_def ensureDeviceCodeApproved_def Let_def by (intro rules) (simp add: harmless_def ApproveDeviceCodeByUserCode_def)
    show "keeps (winv ?J) (DenyDeviceCode st ucode)" for ucode
      unfolding DenyDeviceCode_def by (intro rules) (simp add: harmless_def DenyDeviceCodeByUserCode_def)
  qed
qed

text \<open>A recovery changes an account but creates none.\<close>

interpretation ids: recover_ops st "winv (\<lambda>_ d. us_ID ` set (users d) = S)" for st S
proof
  show "keeps (winv (\<lambda>_ d. us_ID ` set (users d) = S)) (RecoverUser st uid)" for uid
    unfolding RecoverUser_def by (intro inv_intro winv_exec) (simp add: harmless_def RecoverPendingDeletionUserByID_def)
qed

lemma steps_of: "(\<And>w0. keeps (steps st w0) m) \<Longrightarrow> run_state m w = (r, w') \<Longrightarrow> steps st w w'"
  by (metis keepsD rtranclp.rtrancl_refl)

lemma users_kept:
  assumes "\<And>P. keeps (winv (\<lambda>_ d. P (users d))) m" "run_state m w = (r, w')"
  shows "users (w_db w') = users (w_db w)"
  using keepsD [OF assms(1) [of "\<lambda>us. us = users (w_db w)"] _ assms(2)] by (simp add: winv_def)

lemma browser_signup:
  assumes "run_state (CompleteBrowserLogin s rid (Some i) ip ua) w = (cr, w')"
    and "us_ID ` set (users (w_db w')) \<noteq> us_ID ` set (users (w_db w))"
  shows "\<exists>row \<in> set (auth_requests (w_db w)). \<exists>client. ar_ID row = rid \<and> w_now w \<le> ar_ExpiresAt row \<and> ResolveClient (ls_store s) (ar_ClientID row) = Inr client
         \<and> c_LoginChannel client = ''browser'' \<and> Evaluate (c_Access client) (accessSubjectFromUpstream i) = Allow"
proof -
  let ?st = "ls_store s" and ?I = "winv (\<lambda>_ d. us_ID ` set (users d) = us_ID ` set (users (w_db w)))"
  have w: "?I w" "\<not> ?I w'" using assms(2) by (auto simp: winv_def)
  from assms(1) w obtain v w1 where l: "run_state (loadCallbackAuthRequest ?st rid) w = (v, w1)" by force
  note w1 = keepsD [OF ids.requests(2) w(1) l]
  from l w1 assms(1) w obtain ar where ar: "v = Inr (Inr ar)"
    by (auto simp: CompleteBrowserLogin_def orReturn_def run_attempt split: if_splits sum.splits)
  obtain x w2 where x: "run_state (verifyAuthRequestChannel ?st ar ''browser'' ip ua None) w1 = (x, w2)" by force
  note w2 = keepsD [OF ids.verify w1 x]
  from x w2 assms(1) w l ar obtain client where c: "x = Inr (Inr client)"
    by (auto simp: CompleteBrowserLogin_def orReturn_def run_attempt split: if_splits sum.splits prod.splits)
  note client = verify_Inr [OF x [unfolded c]]
  obtain row where row: "row \<in> set (auth_requests (w_db w))" "ar_ID row = rid" "am_ClientID ar = ar_ClientID row" "w_now w \<le> ar_ExpiresAt row"
    using l ar GetAuthRequestModel_Inr(1) [of ?st rid w ar w1]
    by (auto simp: loadCallbackAuthRequest_def catching_def run_attemptOr authRequestModelFromRow_def split: sum.splits prod.splits if_splits)
  have "Evaluate (c_Access client) (accessSubjectFromUpstream i) = Allow"
  proof (rule ccontr)
    assume "Evaluate (c_Access client) (accessSubjectFromUpstream i) \<noteq> Allow"
    then have "keeps ?I (orReturn (prepareBrowserCallbackUser s i ar client ip ua) (\<lambda>user. finishBrowserLogin s ar rid (c_Name client) user ip ua))"
      by (intro ids.glue ids.prepare ids.finish refl) auto
    from keepsD [OF this w2, of cr w'] assms(1) l ar x c w show False
      by (auto simp: CompleteBrowserLogin_def orReturn_def run_attempt split: if_splits)
  qed
  with client row show ?thesis by auto
qed

section \<open>Properties\<close>

text \<open>The services refine the server: every run of a login, callback or device handler, whatever the
  database does, is a sequence of server steps. What holds in every continuation of the server holds
  after every request the services handle.\<close>

theorem services_are_server_steps:
  assumes "run_state (HandleLogin s rid sid ip ua) w = (lr, w') \<or> run_state (mcpHandleLogin s rid sid ip ua) w = (lr, w')
      \<or> run_state (CompleteBrowserLogin s rid info ip ua) w = (cr, w') \<or> run_state (CompleteMCPLogin s rid info ip ua) w = (cr, w')
      \<or> dv_store dv = ls_store s
        \<and> (run_state (HandleDevicePage dv ctx ucode sid) w = (dr, w') \<or> run_state (CompleteDeviceLogin dv ucode info ip ua) w = (dr, w')
           \<or> run_state (HandleDeviceApprove dv ucode action sid ip ua) w = (ar, w'))"
  shows "steps (ls_store s) w w'"
  using assms
  by (elim disjE conjE)
     (auto dest: steps_of [OF run.browser_login [OF refl]] steps_of [OF run.mcp(1) [OF refl]] steps_of [OF run.mcp(2) [OF refl]]
        steps_of [OF run.callback [OF refl]] steps_of [OF run.device(1) [OF refl]] steps_of [OF run.device(2) [OF refl]]
        steps_of [OF run.device(3) [OF refl]])

text \<open>C25: Who may change accounts. No MCP or device handler adds or changes an account row. The browser
  callback adds one only for a stored, unexpired request of a browser client whose access policy
  admits the identity that the provider asserted.\<close>

theorem accounts_only_by_admitted_signup:
  "(run_state (mcpHandleLogin s rid sid ip ua) w = (lr, w') \<or> run_state (CompleteMCPLogin s rid info ip ua) w = (cr, w')
      \<or> run_state (HandleDevicePage dv ctx ucode sid) w = (dr, w') \<or> run_state (CompleteDeviceLogin dv ucode info ip ua) w = (dr, w')
      \<or> run_state (HandleDeviceApprove dv ucode action sid ip ua) w = (ar, w') \<longrightarrow> users (w_db w') = users (w_db w))
   \<and> (run_state (CompleteBrowserLogin s rid (Some i) ip ua) w = (cr, w') \<longrightarrow>
      us_ID ` set (users (w_db w')) \<noteq> us_ID ` set (users (w_db w)) \<longrightarrow>
      (\<exists>row \<in> set (auth_requests (w_db w)). \<exists>client. ar_ID row = rid \<and> w_now w \<le> ar_ExpiresAt row \<and> ResolveClient (ls_store s) (ar_ClientID row) = Inr client
         \<and> c_LoginChannel client = ''browser'' \<and> Evaluate (c_Access client) (accessSubjectFromUpstream i) = Allow))"
proof (rule conjI)
  show "run_state (mcpHandleLogin s rid sid ip ua) w = (lr, w') \<or> run_state (CompleteMCPLogin s rid info ip ua) w = (cr, w')
      \<or> run_state (HandleDevicePage dv ctx ucode sid) w = (dr, w') \<or> run_state (CompleteDeviceLogin dv ucode info ip ua) w = (dr, w')
      \<or> run_state (HandleDeviceApprove dv ucode action sid ip ua) w = (ar, w') \<longrightarrow> users (w_db w') = users (w_db w)"
    by (auto dest: users_kept [OF untouched.mcp(1) [OF refl]] users_kept [OF untouched.mcp(2) [OF refl]] users_kept [OF untouched.device(1) [OF refl]]
          users_kept [OF untouched.device(2) [OF refl]] users_kept [OF untouched.device(3) [OF refl]])
  show "run_state (CompleteBrowserLogin s rid (Some i) ip ua) w = (cr, w') \<longrightarrow>
      us_ID ` set (users (w_db w')) \<noteq> us_ID ` set (users (w_db w)) \<longrightarrow>
      (\<exists>row \<in> set (auth_requests (w_db w)). \<exists>client. ar_ID row = rid \<and> w_now w \<le> ar_ExpiresAt row \<and> ResolveClient (ls_store s) (ar_ClientID row) = Inr client
         \<and> c_LoginChannel client = ''browser'' \<and> Evaluate (c_Access client) (accessSubjectFromUpstream i) = Allow)"
    using browser_signup by blast
qed

theorem services_are_server_steps_witness:
  "\<exists>w'. run_state (HandleLogin exampleLogin ''req'' ''tok'' '''' '''') exampleVisit = (Inr (loginAct ActionAutoApprove ''req'' ''''), w')
     \<and> steps exampleStorage exampleVisit w'"
proof -
  obtain w' where r: "run_state (HandleLogin exampleLogin ''req'' ''tok'' '''' '''') exampleVisit = (Inr (loginAct ActionAutoApprove ''req'' ''''), w')"
    using exampleVisit_login by blast
  have "ls_store exampleLogin = exampleStorage" by (simp add: exampleLogin_def)
  with services_are_server_steps [OF disjI1, OF r] r show ?thesis by auto
qed

text \<open>A first login of a new account on the example server.\<close>

definition exampleIdentity :: UpstreamUserInfo where
  "exampleIdentity = \<lparr>up_Sub = ''g1'', up_Email = ''bob@b.io'', up_EmailVerified = True, up_Name = ''Bob'', up_HostedDomain = ''''\<rparr>"

definition exampleFirst :: world where
  "exampleFirst = exampleWorld (emptyDb\<lparr>crypto_key_epochs := [exampleEpoch ''enc-1'' ''enc'', exampleEpoch ''lkp-1'' ''lookup''],
     auth_requests := [exampleWaiting]\<rparr>)"

lemma exampleFirst_ready:
  "healthy exampleFirst" "w_tx exampleFirst = None" "keys_wf (w_db exampleFirst)" "exampleWaiting \<in> set (auth_requests (w_db exampleFirst))"
  "w_now exampleFirst \<le> ar_ExpiresAt exampleWaiting" "users (w_db exampleFirst) = []"
  "user_identities (w_db exampleFirst) = []"
  by (simp_all add: exampleFirst_def healthy_def keys_wf_def emptyDb_def exampleVisit_fields)

lemma exampleFirst_signup:
  "\<exists>u w1. run_state (CreateUserWithIdentity exampleStorage exampleInput) exampleFirst = (Inr u, w1) \<and> healthy w1 \<and> w_tx w1 = None \<and> users (w_db w1) \<noteq> []"
  using run_signup [OF exampleStorage_crypto exampleFirst_ready(1,2), of exampleInput]
  by (simp add: exampleFirst_def InsertUser_def InsertUserIdentity_def userExists_def epochExists_def exampleEpoch_def emptyDb_def healthy_def
       signupUser_def signupIdentity_def signupResult_def Let_def exampleInput_def emptyUserRow_def emptyIdentity_def exampleKeys_def)

lemma exampleFirst_callback:
  "us_ID ` set (users (w_db (snd (run_state (CompleteBrowserLogin exampleLogin ''req'' (Some exampleIdentity) '''' '''') exampleFirst)))) \<noteq> {}"
proof -
  let ?w = exampleFirst and ?ar = "authRequestModelFromRow exampleWaiting"
  have st: "ls_store exampleLogin = exampleStorage" "ls_providerName exampleLogin = ''google''" by (simp_all add: exampleLogin_def)
  obtain client where c: "ResolveClient exampleStorage ''app'' = Inr client" "c_LoginChannel client = ''browser''" "c_Access client = None"
    using exampleApp_client by blast
  have ar: "am_ClientID ?ar = ''app''" by (simp add: authRequestModelFromRow_def exampleVisit_fields)
  have load: "run_state (loadCallbackAuthRequest exampleStorage ''req'') ?w = (Inr (Inr ?ar), ?w)"
    using run_GetAuthRequestModel [OF exampleFirst_ready(1-5), of exampleStorage]
    by (simp add: loadCallbackAuthRequest_def catching_def run_attemptOr exampleVisit_fields)
  have verify: "run_state (verifyAuthRequestChannel exampleStorage ?ar ''browser'' '''' '''' None) ?w = (Inr (Inr client), ?w)"
    using c by (simp add: verifyAuthRequestChannel_def ar)
  have none: "run_state (GetUserByProviderIdentity exampleStorage ''google'' ''g1'') ?w = (Inl ErrNotFound, ?w)"
    using exampleFirst_ready(1,2)
    by (simp add: GetUserByProviderIdentity_def run_attemptOr healthy_def GetUserByProviderSubHash_def one_row_def notFoundOr_def
         exampleFirst_ready(6,7) world_db_same)
  have allow: "run_state (checkClientAccess exampleStorage client ''browser'' None sub True '''' '''') ?w = (Inr True, ?w)" for sub
    using c(3) by (simp add: checkClientAccess_def Evaluate_def Restricted_def)
  obtain u w1 where s: "run_state (CreateUserWithIdentity exampleStorage exampleInput) ?w = (Inr u, w1)" "healthy w1" "w_tx w1 = None" "users (w_db w1) \<noteq> []"
    using exampleFirst_signup by blast
  have input: "\<lparr>in_Email = up_Email exampleIdentity, in_EmailVerified = up_EmailVerified exampleIdentity, in_Name = up_Name exampleIdentity,
      in_Provider = ''google'', in_ProviderUserID = up_Sub exampleIdentity, in_HostedDomain = up_HostedDomain exampleIdentity\<rparr> = exampleInput"
    by (simp add: exampleIdentity_def exampleInput_def)
  obtain al where al: "run_state (AuditLogEvent exampleStorage (Some (u_ID u)) ''auth.signup'' '''' ''''
      [(''channel'', JStr ''browser''), (''client_id'', JStr ''app''), (''client_name'', JStr (resolveClientName exampleStorage ''app''))]) w1
      = (Inr (), w1\<lparr>w_db := (w_db w1)\<lparr>audit_log := al\<rparr>\<rparr>)"
    using run_audit_ok [OF s(2,3) conjunct1 [OF exampleStorage_crypto [unfolded crypto_ready_def]]] by blast
  let ?v = "w1\<lparr>w_db := (w_db w1)\<lparr>audit_log := al\<rparr>\<rparr>"
  have sub: "up_Sub exampleIdentity = ''g1''" by (simp add: exampleIdentity_def)
  have "run_state (prepareBrowserCallbackUser exampleLogin exampleIdentity ?ar client '''' '''') ?w = (Inr (Inr (u, True, False)), ?v)"
    using none allow s(1) al
    by (simp add: prepareBrowserCallbackUser_def Let_def st sub catching_def run_attemptOr run_attempt signupBrowserUser_def input [unfolded sub] ar)
  then have run: "run_state (CompleteBrowserLogin exampleLogin ''req'' (Some exampleIdentity) '''' '''') ?w
      = run_state (finishBrowserLogin exampleLogin ?ar ''req'' (c_Name client) (u, True, False) '''' '''') ?v"
    using load verify by (simp add: CompleteBrowserLogin_def st orReturn_def run_attempt)
  have "winv (\<lambda>_ d. us_ID ` set (users d) = us_ID ` set (users (w_db ?v))) ?v" by (simp add: winv_def)
  from keeps_snd [OF ids.finish [OF refl] this, of exampleLogin] have
    "us_ID ` set (users (w_db (snd (run_state (finishBrowserLogin exampleLogin ?ar ''req'' (c_Name client) (u, True, False) '''' '''') ?v))))
      = us_ID ` set (users (w_db w1))" by (simp add: winv_def)
  with run s(4) show ?thesis by simp
qed

theorem accounts_only_by_admitted_signup_witness:
  "\<exists>cr w'. run_state (CompleteBrowserLogin exampleLogin ''req'' (Some exampleIdentity) '''' '''') exampleFirst = (cr, w')
     \<and> us_ID ` set (users (w_db w')) \<noteq> us_ID ` set (users (w_db exampleFirst))
     \<and> (\<exists>client. ResolveClient exampleStorage ''app'' = Inr client \<and> c_LoginChannel client = ''browser''
          \<and> Evaluate (c_Access client) (accessSubjectFromUpstream exampleIdentity) = Allow)"
proof -
  obtain cr w' where r: "run_state (CompleteBrowserLogin exampleLogin ''req'' (Some exampleIdentity) '''' '''') exampleFirst = (cr, w')" by force
  with exampleFirst_callback exampleFirst_ready(6) have n: "us_ID ` set (users (w_db w')) \<noteq> us_ID ` set (users (w_db exampleFirst))" by simp
  have "\<exists>row \<in> set (auth_requests (w_db exampleFirst)). \<exists>client. ar_ID row = ''req'' \<and> ResolveClient (ls_store exampleLogin) (ar_ClientID row) = Inr client
         \<and> c_LoginChannel client = ''browser'' \<and> Evaluate (c_Access client) (accessSubjectFromUpstream exampleIdentity) = Allow"
    using accounts_only_by_admitted_signup [of exampleLogin "''req''" _ "''''" "''''" exampleFirst _ w' _ cr _ _ _ _ _ _ exampleIdentity] r n by blast
  then have "\<exists>client. ResolveClient exampleStorage ''app'' = Inr client \<and> c_LoginChannel client = ''browser''
          \<and> Evaluate (c_Access client) (accessSubjectFromUpstream exampleIdentity) = Allow"
    by (simp add: exampleFirst_def emptyDb_def exampleLogin_def exampleVisit_fields)
  with r n show ?thesis by blast
qed

end
