(* ===== verification/Config.thy ===== *)
theory Config
  imports Complex_Main Crypto Go_Std
begin

text \<open>
  The configuration of the server: \<^verbatim>\<open>internal/config/config.go\<close>. \<open>configLoad\<close> reads the environment (a map,
  as \<^verbatim>\<open>os.LookupEnv\<close> sees it) and refuses what it cannot use. Numbers of seconds and days become
  64-bit durations, whose multiplication wraps around. Parameters: \<^verbatim>\<open>strconv.ParseFloat\<close>,
  \<^verbatim>\<open>net.SplitHostPort\<close> and the host of \<^verbatim>\<open>url.Parse\<close>. The warning about an empty issuer allowlist is
  logging and not modelled.
\<close>

section \<open>Reading the environment\<close>

text \<open>A float64: a comparison with NaN is false.\<close>

datatype float64 = NaN | PosInf | NegInf | Finite rat

fun floatLe0 :: "float64 \<Rightarrow> bool" where
  "floatLe0 NaN = False"
| "floatLe0 PosInf = False"
| "floatLe0 NegInf = True"
| "floatLe0 (Finite q) = (q \<le> 0)"

record ConfigEnv =
  os_env :: "string \<rightharpoonup> string"
  os_parseFloat :: "string \<Rightarrow> float64 option"
  os_hostPort :: "string \<Rightarrow> bool"
  os_urlHost :: "string \<Rightarrow> string option"

definition Getenv :: "ConfigEnv \<Rightarrow> string \<Rightarrow> string" where
  "Getenv e key = (case os_env e key of Some v \<Rightarrow> v | None \<Rightarrow> '''')"

definition envDefault :: "ConfigEnv \<Rightarrow> string \<Rightarrow> string \<Rightarrow> string" where
  "envDefault e key fallback = (let v = Getenv e key in if v \<noteq> '''' then v else fallback)"

definition envInt :: "ConfigEnv \<Rightarrow> string \<Rightarrow> int \<Rightarrow> int" where
  "envInt e key fallback =
     (let v = Getenv e key in if v = '''' then fallback else case goParseInt v of None \<Rightarrow> fallback | Some n \<Rightarrow> n)"

definition envBool :: "ConfigEnv \<Rightarrow> string \<Rightarrow> bool \<Rightarrow> bool" where
  "envBool e key fallback =
     (let v = Getenv e key in if v = '''' then fallback else case goParseBool v of None \<Rightarrow> fallback | Some b \<Rightarrow> b)"

definition envFloat :: "ConfigEnv \<Rightarrow> string \<Rightarrow> float64 \<Rightarrow> float64" where
  "envFloat e key fallback =
     (let v = Getenv e key in if v = '''' then fallback else case os_parseFloat e v of None \<Rightarrow> fallback | Some f \<Rightarrow> f)"

text \<open>\<^const>\<open>None\<close> is the nil slice. Of the list of issuer hosts the code only reads the length and the elements.\<close>

definition envCommaList :: "ConfigEnv \<Rightarrow> string \<Rightarrow> string list option" where
  "envCommaList e key =
     (let v = goTrimSpace (Getenv e key) in
      if v = '''' then None else Some (filter (\<lambda>p. p \<noteq> '''') (map goTrimSpace (goSplit CHR '','' v))))"

definition seconds :: "int \<Rightarrow> duration" where "seconds n = wrap64 (n * second)"
definition days :: "int \<Rightarrow> duration" where "days n = wrap64 (wrap64 (n * 24) * hour)"

definition intKeys :: "string list" where
  "intKeys = [''PORT'', ''DB_MAX_OPEN_CONNS'', ''DB_MAX_IDLE_CONNS'', ''DB_CONN_MAX_LIFETIME_SEC'', ''DB_CONN_MAX_IDLE_TIME_SEC'',
     ''OIDC_HTTP_TIMEOUT_SEC'', ''SESSION_TTL'', ''ACCESS_TOKEN_TTL'', ''REFRESH_TOKEN_TTL'', ''REFRESH_TOKEN_REUSE_GRACE_SEC'',
     ''AUDIT_LOG_PII_RETENTION_DAYS'', ''ADMIN_AUDIT_LOG_PII_RETENTION_DAYS'', ''HTTP_READ_HEADER_TIMEOUT_SEC'', ''HTTP_READ_TIMEOUT_SEC'',
     ''HTTP_WRITE_TIMEOUT_SEC'', ''HTTP_IDLE_TIMEOUT_SEC'', ''SHUTDOWN_TIMEOUT_SEC'', ''RATE_LIMIT_TOKEN_BURST'', ''RATE_LIMIT_AUTH_BURST'']"

text \<open>The first guard of a list that holds, as the error it stands for.\<close>

fun firstError :: "(bool \<times> string) list \<Rightarrow> err option" where
  "firstError [] = None"
| "firstError ((bad, msg) # gs) = (if bad then Some (ErrMsg msg) else firstError gs)"

definition validateParseableEnv :: "ConfigEnv \<Rightarrow> err option" where
  "validateParseableEnv e =
     firstError
       (map (\<lambda>k. (Getenv e k \<noteq> '''' \<and> goParseInt (Getenv e k) = None, k @ '' must be an integer'')) intKeys
      @ map (\<lambda>k. (Getenv e k \<noteq> '''' \<and> goParseBool (Getenv e k) = None, k @ '' must be a boolean'')) [''DEV_MODE'', ''ENABLE_MCP'']
      @ map (\<lambda>k. (Getenv e k \<noteq> '''' \<and> os_parseFloat e (Getenv e k) = None, k @ '' must be a number'')) [''RATE_LIMIT_TOKEN_RPS'', ''RATE_LIMIT_AUTH_RPS''])"

definition validateRootSecret :: "string \<Rightarrow> string \<Rightarrow> err option" where
  "validateRootSecret name b64 =
     (case stdDecode b64 of None \<Rightarrow> Some (ErrMsg (name @ '' must be base64''))
      | Some raw \<Rightarrow> if length raw < KeySize then Some (ErrMsg (name @ '' must decode to >= 32 bytes'')) else None)"

definition signingKeyPaths :: "ConfigEnv \<Rightarrow> err + string \<times> string" where
  "signingKeyPaths e =
     (let legacySet = (os_env e ''SIGNING_KEY_PATH'' \<noteq> None); legacyPath = Getenv e ''SIGNING_KEY_PATH''; bundlePath = Getenv e ''SIGNING_KEY_BUNDLE_PATH'' in
      case firstError (map (\<lambda>(name, v). (v \<noteq> '''' \<and> goTrimSpace v = '''', name @ '' must not contain only whitespace''))
             [(''SIGNING_KEY_PATH'', legacyPath), (''SIGNING_KEY_BUNDLE_PATH'', bundlePath)]) of
        Some err \<Rightarrow> Inl err
      | None \<Rightarrow>
          if bundlePath \<noteq> '''' then
            (if legacySet \<and> legacyPath \<noteq> '''' then Inl (ErrMsg ''SIGNING_KEY_BUNDLE_PATH and explicit SIGNING_KEY_PATH cannot both be set'')
             else Inr ('''', bundlePath))
          else Inr (if legacyPath = '''' then ''signing_key.pem'' else legacyPath, ''''))"

section \<open>The configuration\<close>

record Config =
  g_Port :: int
  g_DatabaseURL :: string
  g_DBMaxOpenConns :: int
  g_DBMaxIdleConns :: int
  g_DBConnMaxLifetime :: duration
  g_DBConnMaxIdleTime :: duration
  g_SessionSecret :: string
  g_PublicURL :: string
  g_OIDCIssuerURL :: string
  g_OIDCIssuerHostAllowlist :: "string list"
  g_OIDCInternalURL :: string
  g_OIDCHTTPTimeout :: duration
  g_OIDCClientID :: string
  g_OIDCClientSecret :: string
  g_EncRootKeyID :: string
  g_EncRootSecret :: string
  g_LookupRootKeyID :: string
  g_LookupRootSecret :: string
  g_SessionTTL :: duration
  g_AccessTokenTTL :: duration
  g_RefreshTokenTTL :: duration
  g_RefreshTokenReuseGrace :: duration
  g_AuditLogPIIRetention :: duration
  g_AdminAuditLogPIIRetention :: duration
  g_DevMode :: bool
  g_EnableMCP :: bool
  g_MCPCIMDHostAllowlist :: "string list option"
  g_ClientConfigPath :: string
  g_MigrationsPath :: string
  g_SigningKeyPath :: string
  g_SigningKeyBundlePath :: string
  g_BrandName :: string
  g_BrandLogoPath :: string
  g_BrandPrimaryColor :: string
  g_HTTPReadHeaderTimeout :: duration
  g_HTTPReadTimeout :: duration
  g_HTTPWriteTimeout :: duration
  g_HTTPIdleTimeout :: duration
  g_ShutdownTimeout :: duration
  g_MetricsAddr :: string
  g_RateLimitTokenRPS :: float64
  g_RateLimitTokenBurst :: int
  g_RateLimitAuthRPS :: float64
  g_RateLimitAuthBurst :: int
  g_TrustedProxies :: string

definition readConfig :: "ConfigEnv \<Rightarrow> string \<Rightarrow> string \<Rightarrow> Config" where
  "readConfig e signingKeyPath signingKeyBundlePath =
     \<lparr>g_Port = envInt e ''PORT'' 8080, g_DatabaseURL = Getenv e ''DATABASE_URL'',
      g_DBMaxOpenConns = envInt e ''DB_MAX_OPEN_CONNS'' 25, g_DBMaxIdleConns = envInt e ''DB_MAX_IDLE_CONNS'' 25,
      g_DBConnMaxLifetime = seconds (envInt e ''DB_CONN_MAX_LIFETIME_SEC'' 300),
      g_DBConnMaxIdleTime = seconds (envInt e ''DB_CONN_MAX_IDLE_TIME_SEC'' 120),
      g_SessionSecret = Getenv e ''SESSION_SECRET'', g_PublicURL = Getenv e ''PUBLIC_URL'',
      g_OIDCIssuerURL = envDefault e ''OIDC_ISSUER_URL'' ''http://localhost:8082'',
      g_OIDCIssuerHostAllowlist = (case envCommaList e ''OIDC_ISSUER_HOST_ALLOWLIST'' of None \<Rightarrow> [] | Some hosts \<Rightarrow> hosts), g_OIDCInternalURL = Getenv e ''OIDC_INTERNAL_URL'',
      g_OIDCHTTPTimeout = seconds (envInt e ''OIDC_HTTP_TIMEOUT_SEC'' 10),
      g_OIDCClientID = envDefault e ''OIDC_CLIENT_ID'' ''authgate'', g_OIDCClientSecret = Getenv e ''OIDC_CLIENT_SECRET'',
      g_EncRootKeyID = Getenv e ''PII_ENC_ROOT_KEY_ID'', g_EncRootSecret = Getenv e ''PII_ENC_ROOT_SECRET'',
      g_LookupRootKeyID = Getenv e ''PII_LOOKUP_ROOT_KEY_ID'', g_LookupRootSecret = Getenv e ''PII_LOOKUP_ROOT_SECRET'',
      g_SessionTTL = seconds (envInt e ''SESSION_TTL'' 86400), g_AccessTokenTTL = seconds (envInt e ''ACCESS_TOKEN_TTL'' 900),
      g_RefreshTokenTTL = seconds (envInt e ''REFRESH_TOKEN_TTL'' 2592000),
      g_RefreshTokenReuseGrace = seconds (envInt e ''REFRESH_TOKEN_REUSE_GRACE_SEC'' 5),
      g_AuditLogPIIRetention = days (envInt e ''AUDIT_LOG_PII_RETENTION_DAYS'' 90),
      g_AdminAuditLogPIIRetention = days (envInt e ''ADMIN_AUDIT_LOG_PII_RETENTION_DAYS'' 730),
      g_DevMode = envBool e ''DEV_MODE'' False, g_EnableMCP = envBool e ''ENABLE_MCP'' True,
      g_MCPCIMDHostAllowlist = envCommaList e ''MCP_CIMD_HOST_ALLOWLIST'',
      g_ClientConfigPath = envDefault e ''CLIENT_CONFIG'' ''/etc/authgate/clients.yaml'',
      g_MigrationsPath = envDefault e ''MIGRATIONS_PATH'' ''/migrations'',
      g_SigningKeyPath = signingKeyPath, g_SigningKeyBundlePath = signingKeyBundlePath,
      g_BrandName = envDefault e ''BRAND_NAME'' ''authgate'', g_BrandLogoPath = Getenv e ''BRAND_LOGO_PATH'',
      g_BrandPrimaryColor = Getenv e ''BRAND_PRIMARY_COLOR'',
      g_HTTPReadHeaderTimeout = seconds (envInt e ''HTTP_READ_HEADER_TIMEOUT_SEC'' 5),
      g_HTTPReadTimeout = seconds (envInt e ''HTTP_READ_TIMEOUT_SEC'' 15), g_HTTPWriteTimeout = seconds (envInt e ''HTTP_WRITE_TIMEOUT_SEC'' 30),
      g_HTTPIdleTimeout = seconds (envInt e ''HTTP_IDLE_TIMEOUT_SEC'' 60), g_ShutdownTimeout = seconds (envInt e ''SHUTDOWN_TIMEOUT_SEC'' 10),
      g_MetricsAddr = Getenv e ''METRICS_ADDR'',
      g_RateLimitTokenRPS = envFloat e ''RATE_LIMIT_TOKEN_RPS'' (Finite 30), g_RateLimitTokenBurst = envInt e ''RATE_LIMIT_TOKEN_BURST'' 60,
      g_RateLimitAuthRPS = envFloat e ''RATE_LIMIT_AUTH_RPS'' (Finite 10), g_RateLimitAuthBurst = envInt e ''RATE_LIMIT_AUTH_BURST'' 20,
      g_TrustedProxies = Getenv e ''TRUSTED_PROXIES''\<rparr>"

definition anyRoot :: "Config \<Rightarrow> bool" where
  "anyRoot c \<longleftrightarrow> g_EncRootKeyID c \<noteq> '''' \<or> g_EncRootSecret c \<noteq> '''' \<or> g_LookupRootKeyID c \<noteq> '''' \<or> g_LookupRootSecret c \<noteq> ''''"

definition missingRoot :: "Config \<Rightarrow> bool" where
  "missingRoot c \<longleftrightarrow> g_EncRootKeyID c = '''' \<or> g_EncRootSecret c = '''' \<or> g_LookupRootKeyID c = '''' \<or> g_LookupRootSecret c = ''''"

text \<open>A root secret that is set is checked; its error is the one of \<^const>\<open>validateRootSecret\<close>.\<close>

definition rootGuard :: "Config \<Rightarrow> string \<Rightarrow> string \<Rightarrow> bool \<times> string" where
  "rootGuard c name secret = (case validateRootSecret name secret of Some (ErrMsg msg) \<Rightarrow> (anyRoot c, msg) | _ \<Rightarrow> (False, ''''))"

text \<open>
  The checks of \<open>configLoad\<close> in their order, each with its condition. The code lowers the number of idle
  connections between two of them; no later check reads it, so \<open>configLoad\<close> does it at the end.
\<close>

definition configGuards :: "ConfigEnv \<Rightarrow> Config \<Rightarrow> (bool \<times> string) list" where
  "configGuards e c =
     [(g_DatabaseURL c = '''', ''DATABASE_URL is required''),
      (g_SessionSecret c = '''', ''SESSION_SECRET is required''),
      (g_PublicURL c = '''', ''PUBLIC_URL is required''),
      (g_OIDCHTTPTimeout c \<le> 0, ''OIDC_HTTP_TIMEOUT_SEC must be > 0''),
      (g_ShutdownTimeout c \<le> 0, ''SHUTDOWN_TIMEOUT_SEC must be > 0''),
      (g_AuditLogPIIRetention c < 30 * 24 * hour, ''AUDIT_LOG_PII_RETENTION_DAYS must be >= 30''),
      (g_AdminAuditLogPIIRetention c < 365 * 24 * hour, ''ADMIN_AUDIT_LOG_PII_RETENTION_DAYS must be >= 365''),
      (g_RefreshTokenReuseGrace c < 0 \<or> g_RefreshTokenReuseGrace c > 60 * second, ''REFRESH_TOKEN_REUSE_GRACE_SEC must be between 0 and 60''),
      (floatLe0 (g_RateLimitTokenRPS c), ''RATE_LIMIT_TOKEN_RPS must be > 0''),
      (g_RateLimitTokenBurst c < 1, ''RATE_LIMIT_TOKEN_BURST must be >= 1''),
      (floatLe0 (g_RateLimitAuthRPS c), ''RATE_LIMIT_AUTH_RPS must be > 0''),
      (g_RateLimitAuthBurst c < 1, ''RATE_LIMIT_AUTH_BURST must be >= 1''),
      (anyRoot c \<and> missingRoot c, ''PII encryption requires all four variables''),
      rootGuard c ''PII_ENC_ROOT_SECRET'' (g_EncRootSecret c),
      rootGuard c ''PII_LOOKUP_ROOT_SECRET'' (g_LookupRootSecret c),
      (g_DBMaxOpenConns c < 0, ''DB_MAX_OPEN_CONNS must be >= 0''),
      (g_DBMaxIdleConns c < 0, ''DB_MAX_IDLE_CONNS must be >= 0''),
      (g_DBConnMaxLifetime c < 0, ''DB_CONN_MAX_LIFETIME_SEC must be >= 0''),
      (g_DBConnMaxIdleTime c < 0, ''DB_CONN_MAX_IDLE_TIME_SEC must be >= 0''),
      (g_MetricsAddr c \<noteq> '''' \<and> \<not> os_hostPort e (g_MetricsAddr c), ''METRICS_ADDR must be host:port when set''),
      (g_OIDCIssuerHostAllowlist c \<noteq> [] \<and> os_urlHost e (g_OIDCIssuerURL c) = None, ''OIDC_ISSUER_URL is not a valid URL''),
      (g_OIDCIssuerHostAllowlist c \<noteq> [] \<and> the (os_urlHost e (g_OIDCIssuerURL c)) \<notin> set (g_OIDCIssuerHostAllowlist c),
         ''OIDC_ISSUER_URL host is not in OIDC_ISSUER_HOST_ALLOWLIST''),
      (\<not> g_DevMode c \<and> length (g_SessionSecret c) < 32, ''DEV_MODE=false requires SESSION_SECRET of at least 32 characters''),
      (\<not> g_DevMode c \<and> \<not> goHasPrefix (g_PublicURL c) ''https://'', ''DEV_MODE=false requires PUBLIC_URL with https://''),
      (\<not> g_DevMode c \<and> \<not> goHasPrefix (g_OIDCIssuerURL c) ''https://'', ''DEV_MODE=false requires OIDC_ISSUER_URL with https://''),
      (\<not> g_DevMode c \<and> (g_OIDCClientID c = '''' \<or> g_OIDCClientSecret c = ''''), ''DEV_MODE=false requires OIDC_CLIENT_ID and OIDC_CLIENT_SECRET''),
      (\<not> g_DevMode c \<and> missingRoot c, ''DEV_MODE=false requires the PII roots'')]"

definition clampIdle :: "Config \<Rightarrow> Config" where
  "clampIdle c = (if g_DBMaxOpenConns c > 0 \<and> g_DBMaxIdleConns c > g_DBMaxOpenConns c then c\<lparr>g_DBMaxIdleConns := g_DBMaxOpenConns c\<rparr> else c)"

definition configLoad :: "ConfigEnv \<Rightarrow> err + Config" where
  "configLoad e =
     (case validateParseableEnv e of Some err \<Rightarrow> Inl err
      | None \<Rightarrow>
        (case signingKeyPaths e of Inl err \<Rightarrow> Inl err
        | Inr (signingKeyPath, signingKeyBundlePath) \<Rightarrow>
          (let c = readConfig e signingKeyPath signingKeyBundlePath in
           case firstError (configGuards e c) of Some err \<Rightarrow> Inl err
           | None \<Rightarrow>
               Inr (clampIdle c))))"

section \<open>Correctness\<close>

lemma fst_rootGuard [simp]: "fst (rootGuard c name secret) \<longleftrightarrow> anyRoot c \<and> validateRootSecret name secret \<noteq> None"
  by (simp add: rootGuard_def validateRootSecret_def split: option.splits)

lemma firstError_None: "firstError gs = None \<longleftrightarrow> (\<forall>g \<in> set gs. \<not> fst g)"
  by (induction gs rule: firstError.induct) auto

lemma seconds_exact: "- 9223372036 \<le> n \<Longrightarrow> n \<le> 9223372036 \<Longrightarrow> seconds n = n * second"
  unfolding seconds_def by (rule wrap64_id) (simp_all add: second_def)

lemma days_exact:
  assumes "0 \<le> n" "n \<le> 106751"
  shows "days n = n * day"
proof -
  have "wrap64 (n * 24) = n * 24" using assms by (intro wrap64_id) simp_all
  moreover have "wrap64 (n * 24 * hour) = n * 24 * hour" using assms by (intro wrap64_id) (simp_all add: hour_def minute_def second_def)
  ultimately show ?thesis by (simp add: days_def day_def)
qed

lemma validateRootSecret_None: "validateRootSecret name s = None \<longleftrightarrow> (\<exists>raw. stdDecode s = Some raw \<and> 32 \<le> length raw)"
  by (auto simp: validateRootSecret_def KeySize_def split: option.split)

lemma signingKeyPaths_one: "signingKeyPaths e = Inr (p, b) \<Longrightarrow> (p = '''') \<noteq> (b = '''')"
  by (auto simp: signingKeyPaths_def Let_def split: option.splits if_splits)

definition config_ok :: "ConfigEnv \<Rightarrow> Config \<Rightarrow> bool" where
  "config_ok e c \<longleftrightarrow>
     g_DatabaseURL c \<noteq> '''' \<and> g_SessionSecret c \<noteq> '''' \<and> g_PublicURL c \<noteq> ''''
   \<and> 0 < g_OIDCHTTPTimeout c \<and> 0 < g_ShutdownTimeout c
   \<and> 30 * day \<le> g_AuditLogPIIRetention c \<and> 365 * day \<le> g_AdminAuditLogPIIRetention c
   \<and> 0 \<le> g_RefreshTokenReuseGrace c \<and> g_RefreshTokenReuseGrace c \<le> 60 * second
   \<and> \<not> floatLe0 (g_RateLimitTokenRPS c) \<and> \<not> floatLe0 (g_RateLimitAuthRPS c)
   \<and> 1 \<le> g_RateLimitTokenBurst c \<and> 1 \<le> g_RateLimitAuthBurst c
   \<and> 0 \<le> g_DBMaxIdleConns c \<and> 0 \<le> g_DBMaxOpenConns c \<and> (0 < g_DBMaxOpenConns c \<longrightarrow> g_DBMaxIdleConns c \<le> g_DBMaxOpenConns c)
   \<and> 0 \<le> g_DBConnMaxLifetime c \<and> 0 \<le> g_DBConnMaxIdleTime c \<and> (g_MetricsAddr c \<noteq> '''' \<longrightarrow> os_hostPort e (g_MetricsAddr c))
   \<and> (g_SigningKeyPath c = '''') \<noteq> (g_SigningKeyBundlePath c = '''')
   \<and> (anyRoot c \<longrightarrow> \<not> missingRoot c
        \<and> (\<exists>raw. stdDecode (g_EncRootSecret c) = Some raw \<and> 32 \<le> length raw) \<and> (\<exists>raw. stdDecode (g_LookupRootSecret c) = Some raw \<and> 32 \<le> length raw))
   \<and> (g_OIDCIssuerHostAllowlist c \<noteq> [] \<longrightarrow> (\<exists>h \<in> set (g_OIDCIssuerHostAllowlist c). os_urlHost e (g_OIDCIssuerURL c) = Some h))
   \<and> (\<not> g_DevMode c \<longrightarrow> 32 \<le> length (g_SessionSecret c) \<and> goHasPrefix (g_PublicURL c) ''https://'' \<and> goHasPrefix (g_OIDCIssuerURL c) ''https://''
        \<and> g_OIDCClientID c \<noteq> '''' \<and> g_OIDCClientSecret c \<noteq> '''' \<and> \<not> missingRoot c)"

lemma clampIdle_fields:
  "g_DatabaseURL (clampIdle c) = g_DatabaseURL c" "g_SessionSecret (clampIdle c) = g_SessionSecret c" "g_PublicURL (clampIdle c) = g_PublicURL c" "g_OIDCHTTPTimeout (clampIdle c) = g_OIDCHTTPTimeout c"
  "g_ShutdownTimeout (clampIdle c) = g_ShutdownTimeout c" "g_AuditLogPIIRetention (clampIdle c) = g_AuditLogPIIRetention c" "g_AdminAuditLogPIIRetention (clampIdle c) = g_AdminAuditLogPIIRetention c" "g_RefreshTokenReuseGrace (clampIdle c) = g_RefreshTokenReuseGrace c"
  "g_RateLimitTokenRPS (clampIdle c) = g_RateLimitTokenRPS c" "g_RateLimitAuthRPS (clampIdle c) = g_RateLimitAuthRPS c" "g_RateLimitTokenBurst (clampIdle c) = g_RateLimitTokenBurst c" "g_RateLimitAuthBurst (clampIdle c) = g_RateLimitAuthBurst c"
  "g_DBMaxOpenConns (clampIdle c) = g_DBMaxOpenConns c" "g_SigningKeyPath (clampIdle c) = g_SigningKeyPath c" "g_SigningKeyBundlePath (clampIdle c) = g_SigningKeyBundlePath c" "g_EncRootSecret (clampIdle c) = g_EncRootSecret c"
  "g_LookupRootSecret (clampIdle c) = g_LookupRootSecret c" "g_OIDCIssuerHostAllowlist (clampIdle c) = g_OIDCIssuerHostAllowlist c" "g_OIDCIssuerURL (clampIdle c) = g_OIDCIssuerURL c" "g_DevMode (clampIdle c) = g_DevMode c"
  "g_OIDCClientSecret (clampIdle c) = g_OIDCClientSecret c" "g_OIDCClientID (clampIdle c) = g_OIDCClientID c"
  "g_DBConnMaxLifetime (clampIdle c) = g_DBConnMaxLifetime c" "g_DBConnMaxIdleTime (clampIdle c) = g_DBConnMaxIdleTime c" "g_MetricsAddr (clampIdle c) = g_MetricsAddr c"
  "anyRoot (clampIdle c) = anyRoot c" "missingRoot (clampIdle c) = missingRoot c"
  by (simp_all add: clampIdle_def anyRoot_def missingRoot_def)

lemma configGuards_ok:
  assumes "firstError (configGuards e c) = None" "(g_SigningKeyPath c = '''') \<noteq> (g_SigningKeyBundlePath c = '''')"
  shows "config_ok e (clampIdle c)"
proof -
  note g = assms(1) [unfolded firstError_None configGuards_def, simplified]
  have idle: "0 \<le> g_DBMaxIdleConns (clampIdle c)" "0 < g_DBMaxOpenConns c \<longrightarrow> g_DBMaxIdleConns (clampIdle c) \<le> g_DBMaxOpenConns c"
    using g by (simp_all add: clampIdle_def)
  have "anyRoot c \<longrightarrow> \<not> missingRoot c" "anyRoot c \<longrightarrow> validateRootSecret ''PII_ENC_ROOT_SECRET'' (g_EncRootSecret c) = None"
      "anyRoot c \<longrightarrow> validateRootSecret ''PII_LOOKUP_ROOT_SECRET'' (g_LookupRootSecret c) = None"
    using g by simp_all
  then have roots: "anyRoot c \<longrightarrow> \<not> missingRoot c \<and> (\<exists>raw. stdDecode (g_EncRootSecret c) = Some raw \<and> 32 \<le> length raw)
      \<and> (\<exists>raw. stdDecode (g_LookupRootSecret c) = Some raw \<and> 32 \<le> length raw)" by (simp add: validateRootSecret_None)
  have "g_OIDCIssuerHostAllowlist c \<noteq> [] \<longrightarrow> os_urlHost e (g_OIDCIssuerURL c) \<noteq> None"
      "g_OIDCIssuerHostAllowlist c \<noteq> [] \<longrightarrow> the (os_urlHost e (g_OIDCIssuerURL c)) \<in> set (g_OIDCIssuerHostAllowlist c)"
    using g by blast+
  then have host: "g_OIDCIssuerHostAllowlist c \<noteq> [] \<longrightarrow> (\<exists>h \<in> set (g_OIDCIssuerHostAllowlist c). os_urlHost e (g_OIDCIssuerURL c) = Some h)" by force
  have prod: "\<not> g_DevMode c \<longrightarrow> 32 \<le> length (g_SessionSecret c) \<and> goHasPrefix (g_PublicURL c) ''https://'' \<and> goHasPrefix (g_OIDCIssuerURL c) ''https://''
        \<and> g_OIDCClientID c \<noteq> '''' \<and> g_OIDCClientSecret c \<noteq> '''' \<and> \<not> missingRoot c" using g by (meson not_less)
  have metrics: "g_MetricsAddr c \<noteq> '''' \<longrightarrow> os_hostPort e (g_MetricsAddr c)" using g by blast
  have bounds: "30 * day \<le> g_AuditLogPIIRetention c" "365 * day \<le> g_AdminAuditLogPIIRetention c" using g by (simp_all add: day_def)
  show ?thesis
    unfolding config_ok_def clampIdle_fields using g
    by (intro conjI assms(2) idle roots host prod bounds metrics) simp_all
qed

lemma configLoad_ok:
  assumes "configLoad e = Inr c"
  shows "config_ok e c"
proof -
  from assms obtain p b where p: "signingKeyPaths e = Inr (p, b)"
    and g: "firstError (configGuards e (readConfig e p b)) = None"
    and c: "c = clampIdle (readConfig e p b)"
    by (auto simp: configLoad_def Let_def split: option.splits sum.splits)
  have "(g_SigningKeyPath (readConfig e p b) = '''') \<noteq> (g_SigningKeyBundlePath (readConfig e p b) = '''')"
    using signingKeyPaths_one [OF p] by (simp add: readConfig_def)
  from configGuards_ok [OF g this] show ?thesis by (simp add: c)
qed

section \<open>Properties\<close>

definition exampleEnv :: ConfigEnv where
  "exampleEnv =
     \<lparr>os_env = [''DATABASE_URL'' \<mapsto> ''postgres://db'', ''SESSION_SECRET'' \<mapsto> ''s'', ''PUBLIC_URL'' \<mapsto> ''http://localhost'', ''DEV_MODE'' \<mapsto> ''true'',
        ''RATE_LIMIT_TOKEN_RPS'' \<mapsto> ''NaN'', ''REFRESH_TOKEN_REUSE_GRACE_SEC'' \<mapsto> ''18446744074''],
      os_parseFloat = (\<lambda>s. if s = ''NaN'' then Some NaN else None), os_hostPort = (\<lambda>_. True), os_urlHost = (\<lambda>_. None)\<rparr>"

lemma exampleEnv_get: "Getenv exampleEnv k =
    (if k = ''DATABASE_URL'' then ''postgres://db'' else if k = ''SESSION_SECRET'' then ''s'' else if k = ''PUBLIC_URL'' then ''http://localhost''
     else if k = ''DEV_MODE'' then ''true'' else if k = ''RATE_LIMIT_TOKEN_RPS'' then ''NaN''
     else if k = ''REFRESH_TOKEN_REUSE_GRACE_SEC'' then ''18446744074'' else '''')"
  by (simp add: Getenv_def exampleEnv_def)

lemma exampleGrace: "goParseInt ''18446744074'' = Some 18446744074" "seconds 18446744074 = 290448384"
  by (simp_all add: goParseInt_def goHasPrefix_def isDigit_def seconds_def wrap64_def second_def)

abbreviation exampleConfig :: Config where "exampleConfig \<equiv> readConfig exampleEnv ''signing_key.pem'' ''''"

lemma exampleConfig_fields:
  "g_DatabaseURL exampleConfig = ''postgres://db''" "g_SessionSecret exampleConfig = ''s''" "g_PublicURL exampleConfig = ''http://localhost''"
  "g_OIDCHTTPTimeout exampleConfig = 10 * second" "g_ShutdownTimeout exampleConfig = 10 * second" "g_AuditLogPIIRetention exampleConfig = 90 * day"
  "g_AdminAuditLogPIIRetention exampleConfig = 730 * day" "g_RefreshTokenReuseGrace exampleConfig = 290448384" "g_RateLimitTokenRPS exampleConfig = NaN"
  "g_RateLimitTokenBurst exampleConfig = 60" "g_RateLimitAuthRPS exampleConfig = Finite 10" "g_RateLimitAuthBurst exampleConfig = 20"
  "\<not> anyRoot exampleConfig" "g_DBMaxOpenConns exampleConfig = 25" "g_DBMaxIdleConns exampleConfig = 25"
  "g_DBConnMaxLifetime exampleConfig = 300 * second" "g_DBConnMaxIdleTime exampleConfig = 120 * second" "g_MetricsAddr exampleConfig = ''''"
  "g_OIDCIssuerHostAllowlist exampleConfig = []" "g_DevMode exampleConfig"
  unfolding readConfig_def anyRoot_def
  by (simp_all add: exampleEnv_get exampleGrace envInt_def envBool_def envFloat_def envCommaList_def goParseBool_def seconds_exact days_exact goTrimSpace_def)
     (simp add: exampleEnv_def)

lemma exampleEnv_config: "configLoad exampleEnv = Inr (clampIdle exampleConfig)"
proof -
  have "os_parseFloat exampleEnv ''NaN'' = Some NaN" by (simp add: exampleEnv_def)
  then have "validateParseableEnv exampleEnv = None"
    by (simp add: validateParseableEnv_def firstError_None intKeys_def exampleEnv_get exampleGrace goParseBool_def)
  moreover have "signingKeyPaths exampleEnv = Inr (''signing_key.pem'', '''')"
    by (simp add: signingKeyPaths_def exampleEnv_get)
  moreover have "firstError (configGuards exampleEnv exampleConfig) = None"
    unfolding firstError_None configGuards_def
    by (simp add: exampleConfig_fields second_def hour_def minute_def day_def)
  ultimately show ?thesis by (simp add: configLoad_def)
qed

lemma exampleEnv_loads:
  "\<exists>c. configLoad exampleEnv = Inr c \<and> g_RateLimitTokenRPS c = NaN \<and> g_RefreshTokenReuseGrace c = 290448384"
  using exampleConfig_fields(8,9) by (simp add: exampleEnv_config clampIdle_fields)

text \<open>C33: What a loaded configuration guarantees: retention of at least 30 and 365 days, a reuse grace of at
  most a minute, positive limits, connection times that are not negative, usable and complete encryption roots or none at all, one source of
  signing keys, and outside development mode a long session secret, https addresses and encryption.
  Two gaps: a rate limit may be NaN, which is not at most 0, and the bound on the grace is checked on
  the wrapped product, so that 18446744074 seconds pass as 0.29 seconds.\<close>

theorem config_bounds:
  "(configLoad e = Inr c \<longrightarrow> config_ok e c)
   \<and> (\<exists>e c. configLoad e = Inr c \<and> g_RateLimitTokenRPS c = NaN)
   \<and> (\<exists>e c. configLoad e = Inr c \<and> envInt e ''REFRESH_TOKEN_REUSE_GRACE_SEC'' 5 = 18446744074 \<and> g_RefreshTokenReuseGrace c = 290448384)"
proof (intro conjI)
  show "configLoad e = Inr c \<longrightarrow> config_ok e c" using configLoad_ok by blast
  have "envInt exampleEnv ''REFRESH_TOKEN_REUSE_GRACE_SEC'' 5 = 18446744074" by (simp add: envInt_def exampleEnv_get exampleGrace)
  with exampleEnv_loads show "\<exists>e c. configLoad e = Inr c \<and> g_RateLimitTokenRPS c = NaN"
      "\<exists>e c. configLoad e = Inr c \<and> envInt e ''REFRESH_TOKEN_REUSE_GRACE_SEC'' 5 = 18446744074 \<and> g_RefreshTokenReuseGrace c = 290448384"
    by blast+
qed

theorem config_bounds_witness: "\<exists>c. configLoad exampleEnv = Inr c \<and> config_ok exampleEnv c"
  using exampleEnv_loads config_bounds by blast

end
