(* ===== verification/Web.thy ===== *)
theory Web
  imports Services CIMD Config
begin

text \<open>
  The HTTP handlers and middleware around the services: cookies and CSRF checks, logout, the device
  pages, login answers (\<^verbatim>\<open>internal/handler\<close>), the client address (\<^verbatim>\<open>internal/clientinfo\<close>), CORS, the
  rate limiter (\<^verbatim>\<open>internal/middleware\<close>). A request is what
  the handlers read of it, a response what they write: status, headers, cookies and which page.
  Parameters: the provider library's end-session validation, the upstream provider, the random
  source, IP address parsing, and the token bucket of \<^verbatim>\<open>golang.org/x/time/rate\<close>.
\<close>

section \<open>Requests, responses, cookies\<close>

text \<open>
  A request body as a stream: the bytes that can still be read, and the error that ends them, reported once (\<^const>\<open>None\<close>: end of file).
  The form fields of a request are what \<^verbatim>\<open>ParseForm\<close> makes of query and body: whether it succeeds, the first value
  of a key (\<^verbatim>\<open>Form\<close>, \<^verbatim>\<open>PostForm\<close>) and all values of \<^verbatim>\<open>resource\<close>.
\<close>

record Body =
  b_Bytes :: string
  b_Err :: "err option"

record Request =
  h_Method :: string
  h_Host :: string
  h_Path :: string
  h_EscapedPath :: string
  h_Query :: "string \<Rightarrow> string"
  h_RemoteAddr :: string
  h_Header :: "string \<Rightarrow> string"
  h_Cookie :: "string \<rightharpoonup> string"
  h_FormOk :: bool
  h_Form :: "string \<Rightarrow> string"
  h_PostForm :: "string \<Rightarrow> string"
  h_Resources :: "string list"
  h_BasicUser :: "string option"
  h_Body :: "Body option"

datatype SameSite = SameSiteLax | SameSiteStrict

record Cookie =
  ck_Name :: string
  ck_Value :: string
  ck_Path :: string
  ck_MaxAge :: int
  ck_HttpOnly :: bool
  ck_SameSite :: SameSite
  ck_Secure :: bool

datatype Page =
    NoPage
  | ErrorPage nat string
  | LogoutDone
  | LogoutConfirm "(string \<times> string) list" string
  | DeviceEntry string string
  | DeviceApprove string string
  | ResultPage bool string
  | RedirectTo string
  | PlainText string
  | UpstreamRedirect string string

record Response =
  r_Status :: nat
  r_Cookies :: "Cookie list"
  r_Page :: Page

definition renderError :: "nat \<Rightarrow> string \<Rightarrow> Response" where
  "renderError code message = \<lparr>r_Status = code, r_Cookies = [], r_Page = ErrorPage code message\<rparr>"

definition sessionCookieName :: "bool \<Rightarrow> string" where
  "sessionCookieName devMode = (if devMode then ''authgate_session'' else ''__Host-authgate_session'')"

definition setSessionCookie :: "string \<Rightarrow> bool \<Rightarrow> Cookie" where
  "setSessionCookie sessionID devMode =
     \<lparr>ck_Name = sessionCookieName devMode, ck_Value = sessionID, ck_Path = ''/'', ck_MaxAge = 0, ck_HttpOnly = True, ck_SameSite = SameSiteLax, ck_Secure = \<not> devMode\<rparr>"

definition clearSessionCookie :: "bool \<Rightarrow> Cookie" where
  "clearSessionCookie devMode =
     \<lparr>ck_Name = sessionCookieName devMode, ck_Value = '''', ck_Path = ''/'', ck_MaxAge = -1, ck_HttpOnly = True, ck_SameSite = SameSiteLax, ck_Secure = \<not> devMode\<rparr>"

definition getSessionCookie :: "Request \<Rightarrow> bool \<Rightarrow> string" where
  "getSessionCookie r devMode = (case h_Cookie r (sessionCookieName devMode) of None \<Rightarrow> '''' | Some v \<Rightarrow> v)"

definition logoutCSRFCookie :: string where "logoutCSRFCookie = ''end_session_csrf''"
definition deviceCSRFCookie :: string where "deviceCSRFCookie = ''device_csrf''"

definition csrfCookieName :: "string \<Rightarrow> bool \<Rightarrow> string" where
  "csrfCookieName base devMode = (if devMode then base else ''__Host-'' @ base)"

definition setCSRFCookie :: "string \<Rightarrow> string \<Rightarrow> bool \<Rightarrow> Cookie" where
  "setCSRFCookie base token devMode =
     \<lparr>ck_Name = csrfCookieName base devMode, ck_Value = token, ck_Path = ''/'', ck_MaxAge = 0, ck_HttpOnly = True, ck_SameSite = SameSiteStrict, ck_Secure = \<not> devMode\<rparr>"

definition clearCSRFCookie :: "string \<Rightarrow> bool \<Rightarrow> Cookie" where
  "clearCSRFCookie base devMode =
     \<lparr>ck_Name = csrfCookieName base devMode, ck_Value = '''', ck_Path = ''/'', ck_MaxAge = -1, ck_HttpOnly = True, ck_SameSite = SameSiteStrict, ck_Secure = \<not> devMode\<rparr>"

definition validCSRFToken :: "Request \<Rightarrow> string \<Rightarrow> string \<Rightarrow> bool \<Rightarrow> bool" where
  "validCSRFToken r base formToken devMode =
     (let cookieToken = (case h_Cookie r (csrfCookieName base devMode) of Some v \<Rightarrow> v | None \<Rightarrow> '''') in
      formToken \<noteq> '''' \<and> formToken = cookieToken)"

definition sameOriginPost :: "Request \<Rightarrow> bool \<Rightarrow> bool" where
  "sameOriginPost r devMode =
     (let site = h_Header r ''Sec-Fetch-Site''; origin = h_Header r ''Origin'' in
      if site \<noteq> '''' then site = ''same-origin''
      else if origin = '''' then True
      else origin = (if devMode then ''http'' else ''https'') @ ''://'' @ h_Host r)"

section \<open>Login answers\<close>

text \<open>The result is \<^const>\<open>None\<close> where the Go function returns false. A redirect target is printed by \<open>show\<close>.\<close>

definition redirectToAuthorizationCallback :: "Cookie list \<Rightarrow> string \<Rightarrow> Response" where
  "redirectToAuthorizationCallback cookies authRequestID =
     \<lparr>r_Status = 302, r_Cookies = cookies, r_Page = RedirectTo (''/authorize/callback?id='' @ authRequestID)\<rparr>"

definition writeLoginResult :: "(URL option \<Rightarrow> string) \<Rightarrow> LoginResult \<Rightarrow> Response" where
  "writeLoginResult show res =
     (case lr_Action res of
        ActionRedirectToIdP \<Rightarrow> \<lparr>r_Status = 302, r_Cookies = [], r_Page = UpstreamRedirect (lr_AuthRequestID res) (lr_UpstreamPrompt res)\<rparr>
      | ActionAutoApprove \<Rightarrow> redirectToAuthorizationCallback [] (lr_AuthRequestID res)
      | ActionRedirectToClient \<Rightarrow> \<lparr>r_Status = 302, r_Cookies = [], r_Page = RedirectTo (show (lr_RedirectURL res))\<rparr>
      | ActionError \<Rightarrow> renderError (lr_ErrorCode res) (lr_Error res))"

definition writeCallbackResult :: "(URL option \<Rightarrow> string) \<Rightarrow> CallbackResult \<Rightarrow> bool \<Rightarrow> Response option" where
  "writeCallbackResult show res devMode =
     (case cr_Action res of
        ActionAutoApprove \<Rightarrow>
          Some (redirectToAuthorizationCallback (if cr_SessionID res \<noteq> '''' then [setSessionCookie (cr_SessionID res) devMode] else []) (cr_AuthRequestID res))
      | ActionRedirectToClient \<Rightarrow> Some \<lparr>r_Status = 302, r_Cookies = [], r_Page = RedirectTo (show (cr_RedirectURL res))\<rparr>
      | ActionError \<Rightarrow> Some (renderError (cr_ErrorCode res) (cr_Error res))
      | ActionRedirectToIdP \<Rightarrow> None)"

section \<open>Device pages\<close>

definition deviceHandlerPage :: "DeviceService \<Rightarrow> bool \<Rightarrow> err + string \<Rightarrow> Ctx \<Rightarrow> Request \<Rightarrow> Response act" where
  "deviceHandlerPage dv devMode csrf ctx r =
     (let userCode = h_Query r ''user_code'' in
      attempt (HandleDevicePage dv ctx userCode (getSessionCookie r devMode)) (\<lambda>res.
      ok (case dp_Action res of
          DeviceShowEntry \<Rightarrow> \<lparr>r_Status = 200, r_Cookies = [], r_Page = DeviceEntry userCode (dp_Error res)\<rparr>
        | DeviceShowApprove \<Rightarrow>
            (case csrf of Inl _ \<Rightarrow> renderError 500 ''internal error''
             | Inr token \<Rightarrow> \<lparr>r_Status = 200, r_Cookies = [setCSRFCookie deviceCSRFCookie token devMode], r_Page = DeviceApprove (dp_UserCode res) token\<rparr>)
        | DeviceRedirectIdP \<Rightarrow> \<lparr>r_Status = 302, r_Cookies = [], r_Page = UpstreamRedirect (dp_UserCode res) ''''\<rparr>
        | DeviceError \<Rightarrow> renderError (dp_ErrorCode res) (dp_Error res)
        | _ \<Rightarrow> \<lparr>r_Status = 200, r_Cookies = [], r_Page = NoPage\<rparr>)))"

definition deviceHandlerCallback :: "DeviceService \<Rightarrow> bool \<Rightarrow> string \<Rightarrow> UpstreamUserInfo option \<Rightarrow> Ctx \<Rightarrow> Response act" where
  "deviceHandlerCallback dv devMode state info ctx =
     attempt (CompleteDeviceLogin dv state info (x_IP ctx) (x_UserAgent ctx)) (\<lambda>res.
     ok (case dp_Action res of
         DeviceRedirectBack \<Rightarrow>
           \<lparr>r_Status = 302, r_Cookies = (if dp_SessionID res \<noteq> '''' then [setSessionCookie (dp_SessionID res) devMode] else []),
            r_Page = RedirectTo (''/device?user_code='' @ dp_UserCode res)\<rparr>
       | DeviceError \<Rightarrow> renderError (dp_ErrorCode res) (dp_Error res)
       | _ \<Rightarrow> \<lparr>r_Status = 200, r_Cookies = [], r_Page = NoPage\<rparr>))"

definition deviceHandlerApprove :: "DeviceService \<Rightarrow> bool \<Rightarrow> Ctx \<Rightarrow> Request \<Rightarrow> Response act" where
  "deviceHandlerApprove dv devMode ctx r =
     (if h_Method r \<noteq> ''POST'' then ok \<lparr>r_Status = 405, r_Cookies = [], r_Page = NoPage\<rparr>
      else if \<not> h_FormOk r then ok (renderError 400 ''invalid form'')
      else if \<not> sameOriginPost r devMode \<or> \<not> validCSRFToken r deviceCSRFCookie (h_Form r ''csrf_token'') devMode
        then ok (renderError 403 ''CSRF validation failed'')
      else attempt (HandleDeviceApprove dv (h_Form r ''user_code'') (h_Form r ''action'') (getSessionCookie r devMode) (x_IP ctx) (x_UserAgent ctx)) (\<lambda>res.
        ok \<lparr>r_Status = (if \<not> da_Success res \<and> da_ErrorCode res \<noteq> 0 then da_ErrorCode res else 200), r_Cookies = [],
            r_Page = ResultPage (da_Success res) (da_Message res)\<rparr>))"

section \<open>Logout\<close>

record EndSessionReq =
  eq_PostLogoutRedirectURI :: string
  eq_Hint :: string

record EndSession =
  ex_UserID :: string
  ex_ClientID :: string
  ex_RedirectURI :: string

text \<open>Parsing and validation of the request by the provider library, and the random CSRF token.\<close>

record EndSessionEnv =
  en_parse :: "Request \<Rightarrow> EndSessionReq option"
  en_validate :: "EndSessionReq \<Rightarrow> err + EndSession"
  en_csrf :: "err + string"

definition logoutParams :: "string list" where
  "logoutParams = [''id_token_hint'', ''logout_hint'', ''client_id'', ''post_logout_redirect_uri'', ''state'', ''ui_locales'']"

definition validLogoutCSRF :: "Request \<Rightarrow> bool \<Rightarrow> bool" where
  "validLogoutCSRF r devMode \<longleftrightarrow> sameOriginPost r devMode \<and> validCSRFToken r logoutCSRFCookie (h_PostForm r ''csrf_token'') devMode"

text \<open>The user of the browser's session (empty if none) or the error of the lookup.\<close>

definition browserUserID :: "Storage \<Rightarrow> bool \<Rightarrow> Request \<Rightarrow> (err + string) act" where
  "browserUserID st devMode r =
     (let sessionID = getSessionCookie r devMode in
      if sessionID = '''' then ok (Inr '''')
      else catching (GetValidSession st sessionID)
        (\<lambda>e. ok (if errIs e ErrNotFound then Inr '''' else Inl e))
        (\<lambda>(user, closed). ok (Inr (u_ID user))))"

definition renderConfirm :: "EndSessionEnv \<Rightarrow> bool \<Rightarrow> Request \<Rightarrow> Response" where
  "renderConfirm env devMode r =
     (case en_csrf env of Inl _ \<Rightarrow> renderError 500 ''internal error''
      | Inr token \<Rightarrow>
          \<lparr>r_Status = 200, r_Cookies = [setCSRFCookie logoutCSRFCookie token devMode],
           r_Page = LogoutConfirm (map (\<lambda>n. (n, h_Form r n)) (filter (\<lambda>n. h_Form r n \<noteq> '''') logoutParams)) token\<rparr>)"

definition validateEndSession :: "EndSessionEnv \<Rightarrow> EndSessionReq \<Rightarrow> EndSessionReq \<times> (err + EndSession)" where
  "validateEndSession env req =
     (case en_validate env req of
        Inr session \<Rightarrow> (req, Inr session)
      | Inl e \<Rightarrow>
          if eq_PostLogoutRedirectURI req \<noteq> ''''
          then (let req' = req\<lparr>eq_PostLogoutRedirectURI := ''''\<rparr> in (req', en_validate env req'))
          else (req, Inl e))"

text \<open>The answer once the session is ended: only cookies the request carried are expired, only a validated address is redirected to.\<close>

definition signedOutResponse :: "bool \<Rightarrow> Request \<Rightarrow> EndSessionReq \<Rightarrow> EndSession \<Rightarrow> Response" where
  "signedOutResponse devMode r req session =
     (let redirect = (eq_PostLogoutRedirectURI req \<noteq> '''' \<and> ex_ClientID session \<noteq> '''' \<and> ex_RedirectURI session \<noteq> '''') in
      \<lparr>r_Status = (if redirect then 302 else 200),
       r_Cookies = (if getSessionCookie r devMode \<noteq> '''' then [clearSessionCookie devMode] else [])
         @ (if h_Cookie r (csrfCookieName logoutCSRFCookie devMode) \<noteq> None then [clearCSRFCookie logoutCSRFCookie devMode] else []),
       r_Page = (if redirect then RedirectTo (ex_RedirectURI session) else LogoutDone)\<rparr>)"

text \<open>What follows the lookup of the browser's session, \<open>found\<close>.\<close>

definition endBrowserSession ::
  "EndSessionEnv \<Rightarrow> Storage \<Rightarrow> bool \<Rightarrow> Ctx \<Rightarrow> Request \<Rightarrow> bool \<Rightarrow> EndSessionReq \<Rightarrow> EndSession \<Rightarrow> err + string \<Rightarrow> Response act" where
  "endBrowserSession env st devMode ctx r confirmed req session found =
     (let userID = (case found of Inr u \<Rightarrow> u | Inl _ \<Rightarrow> '''');
          signedIn = (userID \<noteq> '''' \<or> (getSessionCookie r devMode \<noteq> '''' \<and> isl found));
          hintMatches = (userID \<noteq> '''' \<and> ex_UserID session = userID)
      in if signedIn \<and> \<not> hintMatches \<and> \<not> confirmed then ok (renderConfirm env devMode r)
         else if userID \<noteq> '''' then
           catching (TerminateSession st ctx userID (ex_ClientID session)) (\<lambda>_. ok (renderError 500 ''internal error''))
             (\<lambda>_. ok (signedOutResponse devMode r req session))
         else ok (signedOutResponse devMode r req session))"

definition HandleEndSession :: "EndSessionEnv \<Rightarrow> Storage \<Rightarrow> bool \<Rightarrow> Ctx \<Rightarrow> Request \<Rightarrow> Response act" where
  "HandleEndSession env st devMode ctx r =
     (if h_Method r \<noteq> ''GET'' \<and> h_Method r \<noteq> ''POST'' then ok \<lparr>r_Status = 405, r_Cookies = [], r_Page = NoPage\<rparr>
      else case en_parse env r of None \<Rightarrow> ok (renderError 400 ''invalid logout request'')
      | Some req0 \<Rightarrow>
        (let confirmed = (h_Method r = ''POST'' \<and> h_PostForm r ''confirm'' \<noteq> '''') in
         if confirmed \<and> \<not> validLogoutCSRF r devMode then ok (renderError 403 ''CSRF validation failed'')
         else (case validateEndSession env req0 of (req, v) \<Rightarrow>
           (case v of Inl _ \<Rightarrow> ok (renderError 400 ''invalid logout request'')
            | Inr session \<Rightarrow> attempt (browserUserID st devMode r) (endBrowserSession env st devMode ctx r confirmed req session)))))"

section \<open>The client's address\<close>

text \<open>
  \<open>ip_parse\<close>: \<^verbatim>\<open>netip.ParseAddr\<close> with the address printed again; \<open>ip_host\<close>: the host of
  \<^verbatim>\<open>net.SplitHostPort\<close>; \<open>ip_bytes\<close>: \<^verbatim>\<open>net.ParseIP\<close>; \<open>ip_cidr\<close>: the network of \<^verbatim>\<open>net.ParseCIDR\<close>.
\<close>

record IPEnv =
  ip_parse :: "string \<Rightarrow> string option"
  ip_host :: "string \<Rightarrow> string option"
  ip_bytes :: "string \<Rightarrow> IP option"
  ip_cidr :: "string \<Rightarrow> IPNet option"

record Info =
  inf_IP :: string
  inf_UserAgent :: string

definition isTrustedHop :: "IPEnv \<Rightarrow> string \<Rightarrow> IPNet list \<Rightarrow> bool" where
  "isTrustedHop env ip trusted =
     (if length trusted = 0 then False
      else case ip_bytes env ip of None \<Rightarrow> False | Some parsed \<Rightarrow> list_ex (\<lambda>cidr. Contains cidr parsed) trusted)"

definition normalizeAddr :: "IPEnv \<Rightarrow> string \<Rightarrow> string" where
  "normalizeAddr env addr0 =
     (let addr = goTrimSpace addr0 in
      if addr = '''' then ''''
      else case ip_parse env addr of Some ip \<Rightarrow> ip
      | None \<Rightarrow>
        (case (if goHasPrefix addr ''['' \<and> goHasSuffix addr '']'' then ip_parse env (take (length (goTrimPrefix addr ''['') - 1) (goTrimPrefix addr ''['')) else None) of
           Some ip \<Rightarrow> ip
         | None \<Rightarrow> (case Option.bind (ip_host env addr) (ip_parse env) of Some ip \<Rightarrow> ip | None \<Rightarrow> '''')))"

fun firstUntrusted :: "IPEnv \<Rightarrow> IPNet list \<Rightarrow> string list \<Rightarrow> string" where
  "firstUntrusted env trusted [] = ''''"
| "firstUntrusted env trusted (p # ps) =
     (let ip = normalizeAddr env p in
      if ip = '''' then firstUntrusted env trusted ps
      else if \<not> isTrustedHop env ip trusted then ip
      else firstUntrusted env trusted ps)"

definition rightmostUntrustedXFF :: "IPEnv \<Rightarrow> string \<Rightarrow> IPNet list \<Rightarrow> string" where
  "rightmostUntrustedXFF env v trusted =
     (if v = '''' then '''' else firstUntrusted env trusted (rev (goSplit CHR '','' v)))"

definition Extract :: "IPEnv \<Rightarrow> Request option \<Rightarrow> IPNet list \<Rightarrow> Info" where
  "Extract env ro trusted =
     (case ro of None \<Rightarrow> \<lparr>inf_IP = '''', inf_UserAgent = ''''\<rparr>
      | Some r \<Rightarrow>
          (let hopIP = normalizeAddr env (h_RemoteAddr r);
               envoy = normalizeAddr env (h_Header r ''X-Envoy-External-Address'');
               xff = rightmostUntrustedXFF env (h_Header r ''X-Forwarded-For'') trusted in
           \<lparr>inf_IP = (if hopIP \<noteq> '''' \<and> isTrustedHop env hopIP trusted then (if envoy \<noteq> '''' then envoy else if xff \<noteq> '''' then xff else hopIP) else hopIP),
            inf_UserAgent = h_Header r ''User-Agent''\<rparr>))"

fun parseCIDRs :: "IPEnv \<Rightarrow> string list \<Rightarrow> err + IPNet list" where
  "parseCIDRs env [] = Inr []"
| "parseCIDRs env (raw # raws) =
     (let entry = goTrimSpace raw in
      if entry = '''' then parseCIDRs env raws
      else if CHR ''/'' \<notin> set entry then Inl (ErrMsg ''clientinfo: must be a CIDR'')
      else case ip_cidr env entry of None \<Rightarrow> Inl (ErrMsg ''clientinfo: invalid CIDR'')
        | Some cidr \<Rightarrow> (case parseCIDRs env raws of Inl e \<Rightarrow> Inl e | Inr nets \<Rightarrow> Inr (cidr # nets)))"

definition ParseTrustedProxies :: "IPEnv \<Rightarrow> string \<Rightarrow> err + IPNet list" where
  "ParseTrustedProxies env spec = (if goTrimSpace spec = '''' then Inr [] else parseCIDRs env (goSplit CHR '','' spec))"

section \<open>Middleware\<close>

text \<open>CORS: the headers of a response before and after the middleware. \<open>parse\<close> gives scheme and host of a URL.\<close>

fun OriginsFromRedirectURIs :: "(string \<Rightarrow> (string \<times> string) option) \<Rightarrow> string list \<Rightarrow> string list \<Rightarrow> string list" where
  "OriginsFromRedirectURIs parse origins [] = origins"
| "OriginsFromRedirectURIs parse origins (raw # uris) =
     (case parse raw of None \<Rightarrow> OriginsFromRedirectURIs parse origins uris
      | Some (scheme, host) \<Rightarrow>
          if host = '''' then OriginsFromRedirectURIs parse origins uris
          else (let origin = scheme @ ''://'' @ host in
                OriginsFromRedirectURIs parse (if origin \<in> set origins then origins else origins @ [origin]) uris))"

definition corsAllowed :: "string list \<Rightarrow> string \<Rightarrow> bool" where
  "corsAllowed allowedOrigins origin \<longleftrightarrow> origin \<noteq> '''' \<and> origin \<in> set allowedOrigins"

definition addVary :: "(string \<rightharpoonup> string) \<Rightarrow> (string \<rightharpoonup> string)" where
  "addVary h = h(''Vary'' \<mapsto> (case h ''Vary'' of None \<Rightarrow> ''Origin'' | Some v \<Rightarrow> v @ '', Origin''))"

definition corsHeaders :: "string \<Rightarrow> (string \<rightharpoonup> string) \<Rightarrow> (string \<rightharpoonup> string)" where
  "corsHeaders origin h = h(''Access-Control-Allow-Origin'' \<mapsto> origin, ''Access-Control-Allow-Methods'' \<mapsto> ''GET, POST, OPTIONS'',
     ''Access-Control-Allow-Headers'' \<mapsto> ''Content-Type, Authorization'', ''Access-Control-Allow-Credentials'' \<mapsto> ''true'')"

definition flushCORSHeaders :: "string \<Rightarrow> bool \<Rightarrow> (string \<rightharpoonup> string) \<Rightarrow> (string \<rightharpoonup> string)" where
  "flushCORSHeaders origin matched h =
     (if matched then addVary (corsHeaders origin h)
      else h(''Access-Control-Allow-Origin'' := None, ''Access-Control-Allow-Methods'' := None, ''Access-Control-Allow-Headers'' := None,
             ''Access-Control-Allow-Credentials'' := None, ''Access-Control-Max-Age'' := None))"

text \<open>The middleware: a preflight is answered (\<^const>\<open>Inl\<close>, with its headers), another request is passed on and the headers it gets are flushed.\<close>

definition NewCORSMiddleware :: "string list \<Rightarrow> Request \<Rightarrow> (string \<rightharpoonup> string) \<Rightarrow> nat option \<times> (string \<rightharpoonup> string)" where
  "NewCORSMiddleware allowedOrigins r headers =
     (let origin = h_Header r ''Origin''; matched = corsAllowed allowedOrigins origin in
      if h_Method r = ''OPTIONS'' then
        (Some 204, if matched then addVary ((corsHeaders origin headers)(''Access-Control-Max-Age'' \<mapsto> ''86400'')) else headers)
      else (None, flushCORSHeaders origin matched headers))"

text \<open>The rate limiter: one token bucket per address.\<close>

record 'l limiter_ops =
  rl_new :: 'l
  rl_allow :: "'l \<Rightarrow> time \<Rightarrow> bool \<times> 'l"

type_synonym 'l limiters = "string \<rightharpoonup> 'l \<times> time"

definition allow :: "'l limiter_ops \<Rightarrow> string \<Rightarrow> time \<Rightarrow> 'l limiters \<Rightarrow> bool \<times> 'l limiters" where
  "allow ops ip now ips =
     (let l = (case ips ip of Some (l, _) \<Rightarrow> l | None \<Rightarrow> rl_new ops); (ok, l') = rl_allow ops l now in (ok, ips(ip \<mapsto> (l', now))))"

definition evict :: "duration \<Rightarrow> time \<Rightarrow> 'l limiters \<Rightarrow> 'l limiters" where
  "evict maxAge now ips = (\<lambda>ip. case ips ip of Some (l, seen) \<Rightarrow> if seen < now - maxAge then None else Some (l, seen) | None \<Rightarrow> None)"

definition limiterKey :: "IPEnv \<Rightarrow> string \<Rightarrow> Request \<Rightarrow> string" where
  "limiterKey env contextIP r = (if contextIP = '''' then inf_IP (Extract env (Some r) []) else contextIP)"

end
