(* ===== verification/Web_Correct.thy ===== *)
theory Web_Correct
  imports Web
begin

text \<open>
  What the handlers and the address extraction guarantee: state changes only behind the CSRF checks
  (or an ID token of the signed-in user), logout ends the sessions of the browser's own user and no
  other, redirects go to validated addresses, and proxy headers count only from trusted hops.
\<close>

section \<open>Signing out\<close>

definition signedOut :: "dbs \<Rightarrow> time \<Rightarrow> string \<Rightarrow> dbs \<Rightarrow> bool" where
  "signedOut d now uid d' \<longleftrightarrow> (\<exists>al. d' = d\<lparr>sessions := upd_where (\<lambda>s. se_UserID s = uid \<and> se_RevokedAt s = None)
       (se_RevokedAt_update (\<lambda>_. Some now)) (sessions d), audit_log := al\<rparr>)"

lemma exec_DB_any:
  assumes "run_state (exec DBc q) w = (r, w')"
  shows "w_db w' = w_db w \<or> w_db w' = snd (q (w_db w))" "w_now w' = w_now w"
proof -
  obtain out w1 where n: "nextOutcome w = (out, w1)" by (cases "nextOutcome w")
  note fr = nextOutcome_frame [OF n]
  show "w_db w' = w_db w \<or> w_db w' = snd (q (w_db w))" "w_now w' = w_now w"
    using assms n fr by (cases out; auto simp: exec_def)+
qed

lemma audit_only:
  assumes "run_state (AuditLogEvent st u ev ip ua md) w = (r, w')"
  shows "\<exists>al. w_db w' = (w_db w)\<lparr>audit_log := al\<rparr>"
proof -
  let ?J = "\<lambda>(_::nat) d. d\<lparr>audit_log := []\<rparr> = (w_db w)\<lparr>audit_log := []\<rparr>"
  have "audit_free ?J" by (simp add: audit_free_def)
  from keepsD [OF audited [OF this] _ assms] have "?J 0 (w_db w')" by (simp add: winv_def)
  then have "w_db w' = (w_db w)\<lparr>audit_log := audit_log (w_db w')\<rparr>"
    by (cases "w_db w'"; cases "w_db w") simp
  then show ?thesis ..
qed

lemma TerminateSession_db:
  assumes "run_state (TerminateSession st ctx uid cid) w = (r, w')"
  shows "w_db w' = w_db w \<or> signedOut (w_db w) (w_now w) uid (w_db w')"
proof -
  let ?q = "RevokeSessionsByUserID (w_now w) uid"
  obtain r1 w1 where e: "run_state (exec DBc ?q) w = (r1, w1)" by force
  have q: "signedOut (w_db w) (w_now w) uid (snd (?q (w_db w)))"
    unfolding signedOut_def RevokeSessionsByUserID_def
    by (rule exI [of _ "audit_log (w_db w)"], cases "w_db w") simp
  show ?thesis
  proof (cases "\<exists>n. r1 = Inr n \<and> n \<noteq> 0")
    case False
    then have "w' = w1" using assms e by (cases r1) (simp_all add: TerminateSession_def run_attempt)
    then show ?thesis using exec_DB_any(1) [OF e] q by metis
  next
    case True
    then obtain n where n: "r1 = Inr n" "n \<noteq> 0" by blast
    have d1: "w_db w1 = snd (?q (w_db w))" using exec_DB_Inr(2) [OF e [unfolded n(1)]] .
    from n assms e obtain r2 where a: "run_state (AuditLogEvent st (Some uid) EventAuthLogout (x_IP ctx) (x_UserAgent ctx)
            [(''client_id'', JStr cid), (''client_name'', JStr (auditClientName st cid))]) w1 = (r2, w')"
      by (simp add: TerminateSession_def run_attempt split: sum.splits prod.splits)
    from audit_only [OF a] d1 have "signedOut (w_db w) (w_now w) uid (w_db w')"
      by (simp add: signedOut_def RevokeSessionsByUserID_def)
    then show ?thesis ..
  qed
qed

section \<open>The browser's session\<close>

lemma GetValidSession_db:
  assumes "run_state (GetValidSession st sid) w = (r, w')"
  shows "w_db w' = w_db w" "w_now w' = w_now w"
proof -
  show "w_db w' = w_db w" "w_now w' = w_now w"
  proof (atomize (full), cases "sessionAtRest st sid")
    case (Inl e)
    with assms show "w_db w' = w_db w \<and> w_now w' = w_now w" by (simp add: GetValidSession_def run_attempt)
  next
    case (Inr h)
    let ?q = "GetValidSessionUser h (w_now w)"
    obtain r1 w1 where e: "run_state (exec DBc ?q) w = (r1, w1)" by force
    have q: "snd (?q d) = d" for d by (simp add: GetValidSessionUser_def split: sum.splits)
    have "w' = w1" using assms e Inr
      by (cases r1) (auto simp: GetValidSession_def fullUserOf_def run_attempt run_attemptOr notFoundOr_def buildFullUser_def
          split: prod.splits sum.splits if_splits)
    then show "w_db w' = w_db w \<and> w_now w' = w_now w" using exec_DB_any [OF e] q by metis
  qed
qed

lemma browserUserID_run:
  assumes "run_state (browserUserID st devMode r) w = (x, w')"
  shows "w_db w' = w_db w" "w_now w' = w_now w"
    and "x = Inr (Inr uid) \<Longrightarrow> uid \<noteq> '''' \<Longrightarrow>
      \<exists>s u. sessionFor st (w_db w) (w_now w) (getSessionCookie r devMode) s u \<and> u_ID u = uid"
proof -
  let ?sid = "getSessionCookie r devMode"
  obtain g w1 where g: "run_state (GetValidSession st ?sid) w = (g, w1)" by force
  have w': "w' = w \<or> w' = w1" using assms g
    by (cases g) (auto simp: browserUserID_def catching_def run_attemptOr Let_def split: if_splits prod.splits)
  show "w_db w' = w_db w" "w_now w' = w_now w" using w' GetValidSession_db [OF g] by auto
  assume x: "x = Inr (Inr uid)" "uid \<noteq> ''''"
  then obtain u closed where u: "g = Inr (u, closed)" "u_ID u = uid" using assms g
    by (cases g) (auto simp: browserUserID_def catching_def run_attemptOr Let_def split: if_splits prod.splits)
  from GetValidSession_Inr(1) [OF g [unfolded u(1)]] u(2)
  show "\<exists>s u. sessionFor st (w_db w) (w_now w) ?sid s u \<and> u_ID u = uid" by blast
qed

section \<open>The guarded handlers\<close>

lemma renderError_quiet [simp]: "r_Page (renderError c m) = ErrorPage c m" "r_Cookies (renderError c m) = []"
  by (simp_all add: renderError_def)

lemma renderConfirm_quiet:
  "r_Page (renderConfirm env devMode r) \<noteq> RedirectTo u"
  "c \<in> set (r_Cookies (renderConfirm env devMode r)) \<Longrightarrow> ck_Name c = csrfCookieName logoutCSRFCookie devMode"
  by (auto simp: renderConfirm_def setCSRFCookie_def split: sum.splits)

lemma signedOutResponse_page:
  "r_Page (signedOutResponse devMode r req es) = RedirectTo u \<Longrightarrow>
     eq_PostLogoutRedirectURI req \<noteq> '''' \<and> ex_ClientID es \<noteq> '''' \<and> ex_RedirectURI es = u"
  by (auto simp: signedOutResponse_def Let_def split: if_splits)

lemma signedOutResponse_cookies:
  "c \<in> set (r_Cookies (signedOutResponse devMode r req es)) \<Longrightarrow>
     ck_Name c = csrfCookieName logoutCSRFCookie devMode \<or> getSessionCookie r devMode \<noteq> ''''"
  by (auto simp: signedOutResponse_def clearCSRFCookie_def Let_def split: if_splits)

lemma cookie_names [simp]: "sessionCookieName devMode \<noteq> csrfCookieName logoutCSRFCookie devMode"
  by (simp add: sessionCookieName_def csrfCookieName_def logoutCSRFCookie_def)

text \<open>What an answer of the logout handler may do: redirect to a validated address, touch the session cookie only if it came with the request.\<close>

definition logoutAnswer :: "EndSessionEnv \<Rightarrow> bool \<Rightarrow> Request \<Rightarrow> Response \<Rightarrow> bool" where
  "logoutAnswer env devMode r resp \<longleftrightarrow>
     (\<forall>u. r_Page resp = RedirectTo u \<longrightarrow>
        (\<exists>req es. eq_PostLogoutRedirectURI req \<noteq> '''' \<and> en_validate env req = Inr es \<and> ex_ClientID es \<noteq> '''' \<and> ex_RedirectURI es = u))
     \<and> (\<forall>c \<in> set (r_Cookies resp). ck_Name c = sessionCookieName devMode \<longrightarrow> getSessionCookie r devMode \<noteq> '''')"

lemma quiet_answer: "(\<And>u. r_Page resp \<noteq> RedirectTo u) \<Longrightarrow>
    (\<And>c. c \<in> set (r_Cookies resp) \<Longrightarrow> ck_Name c = csrfCookieName logoutCSRFCookie devMode) \<Longrightarrow> logoutAnswer env devMode r resp"
  unfolding logoutAnswer_def using cookie_names by metis

lemma signedOut_answer: "en_validate env req = Inr es \<Longrightarrow> logoutAnswer env devMode r (signedOutResponse devMode r req es)"
  unfolding logoutAnswer_def using cookie_names signedOutResponse_page signedOutResponse_cookies by metis

lemma validateEndSession_Inr: "validateEndSession env req0 = (req, Inr es) \<Longrightarrow> en_validate env req = Inr es"
  by (auto simp: validateEndSession_def Let_def split: sum.splits if_splits)

lemma endBrowserSession_run:
  assumes "run_state (endBrowserSession env st devMode ctx r confirmed req es found) w = (x, w')" "en_validate env req = Inr es"
  shows "x = Inr resp \<Longrightarrow> logoutAnswer env devMode r resp"
    and "w_db w' \<noteq> w_db w \<Longrightarrow>
      \<exists>uid. found = Inr uid \<and> uid \<noteq> '''' \<and> signedOut (w_db w) (w_now w) uid (w_db w') \<and> (confirmed \<or> ex_UserID es = uid)"
proof -
  define uid where "uid = (case found of Inr u \<Rightarrow> u | Inl _ \<Rightarrow> '''')"
  obtain t w1 where t: "run_state (TerminateSession st ctx uid (ex_ClientID es)) w = (t, w1)" by force
  have conf: "logoutAnswer env devMode r (renderConfirm env devMode r)" by (rule quiet_answer) (simp_all add: renderConfirm_quiet)
  have err: "logoutAnswer env devMode r (renderError c m)" for c m by (rule quiet_answer) simp_all
  have run: "(x, w') = (Inr (renderConfirm env devMode r), w) \<or> (x, w') = (Inr (signedOutResponse devMode r req es), w)
      \<or> uid \<noteq> '''' \<and> (confirmed \<or> ex_UserID es = uid) \<and> w' = w1 \<and>
        (x = Inl NilDeref \<or> x = Inr (renderError 500 ''internal error'') \<or> x = Inr (signedOutResponse devMode r req es))"
    using assms(1) t by (cases t) (auto simp: endBrowserSession_def catching_def run_attemptOr Let_def uid_def [symmetric] split: if_splits)
  show "x = Inr resp \<Longrightarrow> logoutAnswer env devMode r resp" using run conf err signedOut_answer [OF assms(2)] by auto
  assume ch: "w_db w' \<noteq> w_db w"
  then have u: "uid \<noteq> ''''" "confirmed \<or> ex_UserID es = uid" "w' = w1" using run by auto
  moreover have "found = Inr uid" using u(1) by (simp add: uid_def split: sum.splits)
  ultimately show "\<exists>uid. found = Inr uid \<and> uid \<noteq> '''' \<and> signedOut (w_db w) (w_now w) uid (w_db w') \<and> (confirmed \<or> ex_UserID es = uid)"
    using TerminateSession_db [OF t] ch by blast
qed

lemma run_HandleEndSession:
  assumes "run_state (HandleEndSession env st devMode ctx r) w = (x, w')"
  obtains (early) resp where "(x, w') = (Inr resp, w)" "logoutAnswer env devMode r resp"
  | (lookup) e where "run_state (browserUserID st devMode r) w = (Inl e, w')" "x = Inl e"
  | (ended) req0 req es found w1 where "en_parse env r = Some req0" "validateEndSession env req0 = (req, Inr es)"
      "h_Method r = ''POST'' \<and> h_PostForm r ''confirm'' \<noteq> '''' \<Longrightarrow> validLogoutCSRF r devMode"
      "run_state (browserUserID st devMode r) w = (Inr found, w1)"
      "run_state (endBrowserSession env st devMode ctx r (h_Method r = ''POST'' \<and> h_PostForm r ''confirm'' \<noteq> '''') req es found) w1 = (x, w')"
proof -
  have quiet: "logoutAnswer env devMode r \<lparr>r_Status = n, r_Cookies = [], r_Page = NoPage\<rparr>" for n by (rule quiet_answer) simp_all
  have err: "logoutAnswer env devMode r (renderError c m)" for c m by (rule quiet_answer) simp_all
  let ?c = "h_Method r = ''POST'' \<and> h_PostForm r ''confirm'' \<noteq> ''''"
  show ?thesis
  proof (cases "(h_Method r \<noteq> ''GET'' \<and> h_Method r \<noteq> ''POST'') \<or> en_parse env r = None \<or> (?c \<and> \<not> validLogoutCSRF r devMode)")
    case True
    then show ?thesis using assms early quiet err by (auto simp: HandleEndSession_def Let_def split: option.splits if_splits)
  next
    case False
    then obtain req0 where p: "en_parse env r = Some req0" by auto
    obtain req v where v: "validateEndSession env req0 = (req, v)" by force
    from False have m: "(h_Method r \<noteq> ''GET'' \<and> h_Method r \<noteq> ''POST'') = False" and c: "(?c \<and> \<not> validLogoutCSRF r devMode) = False" by blast+
    from assms have run: "run_state (case v of Inl _ \<Rightarrow> ok (renderError 400 ''invalid logout request'')
            | Inr session \<Rightarrow> attempt (browserUserID st devMode r) (endBrowserSession env st devMode ctx r ?c req session)) w = (x, w')"
      unfolding HandleEndSession_def Let_def m c p v if_False option.case prod.case .
    show ?thesis
    proof (cases v)
      case (Inl e)
      with run early err show ?thesis by auto
    next
      case (Inr es)
      obtain g w1 where g: "run_state (browserUserID st devMode r) w = (g, w1)" by force
      show ?thesis
      proof (cases g)
        case (Inl e)
        with run \<open>v = Inr es\<close> g lookup show ?thesis by (simp add: run_attempt)
      next
        case (Inr found)
        from False have ok: "?c \<Longrightarrow> validLogoutCSRF r devMode" by blast
        from run \<open>v = Inr es\<close> g Inr
        have "run_state (endBrowserSession env st devMode ctx r ?c req es found) w1 = (x, w')" by (simp add: run_attempt)
        with p v \<open>v = Inr es\<close> g Inr ok show ?thesis by (intro ended) simp_all
      qed
    qed
  qed
qed

lemma deviceHandlerApprove_guarded:
  assumes "run_state (deviceHandlerApprove dv devMode ctx r) w = (x, w')" "w_db w' \<noteq> w_db w"
  shows "h_Method r = ''POST''" "sameOriginPost r devMode" "validCSRFToken r deviceCSRFCookie (h_Form r ''csrf_token'') devMode"
    and "\<exists>s u. sessionFor (dv_store dv) (w_db w) (w_now w) (getSessionCookie r devMode) s u"
proof -
  let ?m = "HandleDeviceApprove dv (h_Form r ''user_code'') (h_Form r ''action'') (getSessionCookie r devMode) (x_IP ctx) (x_UserAgent ctx)"
  have g: "h_Method r = ''POST'' \<and> sameOriginPost r devMode \<and> validCSRFToken r deviceCSRFCookie (h_Form r ''csrf_token'') devMode
      \<and> (\<exists>y. run_state ?m w = (y, w'))"
    using assms by (auto simp: deviceHandlerApprove_def run_attempt split: if_splits prod.splits sum.splits)
  then show "h_Method r = ''POST''" "sameOriginPost r devMode" "validCSRFToken r deviceCSRFCookie (h_Form r ''csrf_token'') devMode" by blast+
  from g obtain y where y: "run_state ?m w = (y, w')" by blast
  obtain gs w1 where s: "run_state (GetValidSession (dv_store dv) (getSessionCookie r devMode)) w = (gs, w1)" by force
  note db = GetValidSession_db(1) [OF s]
  show "\<exists>s u. sessionFor (dv_store dv) (w_db w) (w_now w) (getSessionCookie r devMode) s u"
  proof (cases gs)
    case (Inl e)
    with y s db assms(2) show ?thesis
      by (auto simp: HandleDeviceApprove_def catching_def run_attemptOr Let_def split: if_splits)
  next
    case (Inr p)
    then show ?thesis using GetValidSession_Inr(1) s by (cases p) blast
  qed
qed

text \<open>C27: State changes of the browser-facing POST endpoints are guarded. The device approval changes the
  database only for a POST that passes the same-origin check and carries the CSRF token of its cookie, from a
  browser with a valid session. The logout endpoint changes it only for the user of the request's own session
  cookie, and only if the request is a confirmed, CSRF-checked POST or its validated ID token hint names that
  user; then exactly that user's live sessions are revoked (and the audit log grows). Its answers redirect
  only to an address the provider validated for a client, and set or expire the session cookie only for a
  request that carried one.\<close>

theorem browser_posts_guarded:
  "(\<forall>x w'. run_state (deviceHandlerApprove dv devMode ctx r) w = (x, w') \<and> w_db w' \<noteq> w_db w \<longrightarrow>
      h_Method r = ''POST'' \<and> sameOriginPost r devMode \<and> validCSRFToken r deviceCSRFCookie (h_Form r ''csrf_token'') devMode
      \<and> (\<exists>s u. sessionFor (dv_store dv) (w_db w) (w_now w) (getSessionCookie r devMode) s u))
   \<and> (\<forall>x w'. run_state (HandleEndSession env st devMode ctx r) w = (x, w') \<and> w_db w' \<noteq> w_db w \<longrightarrow>
      (\<exists>s u. sessionFor st (w_db w) (w_now w) (getSessionCookie r devMode) s u
        \<and> signedOut (w_db w) (w_now w) (u_ID u) (w_db w')
        \<and> (h_Method r = ''POST'' \<and> h_PostForm r ''confirm'' \<noteq> '''' \<and> validLogoutCSRF r devMode
           \<or> (\<exists>req0 es. en_parse env r = Some req0 \<and> snd (validateEndSession env req0) = Inr es \<and> ex_UserID es = u_ID u))))
   \<and> (\<forall>resp w'. run_state (HandleEndSession env st devMode ctx r) w = (Inr resp, w') \<longrightarrow> logoutAnswer env devMode r resp)"
proof (intro conjI allI impI; (elim conjE)?)
  fix x w' assume "run_state (deviceHandlerApprove dv devMode ctx r) w = (x, w')" "w_db w' \<noteq> w_db w"
  note g = deviceHandlerApprove_guarded [OF this]
  show "h_Method r = ''POST''" "sameOriginPost r devMode" "validCSRFToken r deviceCSRFCookie (h_Form r ''csrf_token'') devMode"
    "\<exists>s u. sessionFor (dv_store dv) (w_db w) (w_now w) (getSessionCookie r devMode) s u" using g by auto
next
  fix x w' assume run: "run_state (HandleEndSession env st devMode ctx r) w = (x, w')" and ch: "w_db w' \<noteq> w_db w"
  from run show "\<exists>s u. sessionFor st (w_db w) (w_now w) (getSessionCookie r devMode) s u
        \<and> signedOut (w_db w) (w_now w) (u_ID u) (w_db w')
        \<and> (h_Method r = ''POST'' \<and> h_PostForm r ''confirm'' \<noteq> '''' \<and> validLogoutCSRF r devMode
           \<or> (\<exists>req0 es. en_parse env r = Some req0 \<and> snd (validateEndSession env req0) = Inr es \<and> ex_UserID es = u_ID u))"
  proof (cases rule: run_HandleEndSession)
    case (early resp)
    with ch show ?thesis by simp
  next
    case (lookup e)
    with ch browserUserID_run(1) show ?thesis by blast
  next
    case (ended req0 req es found w1)
    note b = browserUserID_run [OF ended(4)]
    from endBrowserSession_run(2) [OF ended(5) validateEndSession_Inr [OF ended(2)]] ch b(1,2) obtain uid where
      uid: "found = Inr uid" "uid \<noteq> ''''" "signedOut (w_db w) (w_now w) uid (w_db w')"
        "(h_Method r = ''POST'' \<and> h_PostForm r ''confirm'' \<noteq> '''') \<or> ex_UserID es = uid" by auto
    from b(3) uid(1,2) obtain s u where "sessionFor st (w_db w) (w_now w) (getSessionCookie r devMode) s u" "u_ID u = uid" by blast
    with uid(3,4) ended(1-3) show ?thesis by (intro exI [of _ s] exI [of _ u]) auto
  qed
next
  fix resp w' assume "run_state (HandleEndSession env st devMode ctx r) w = (Inr resp, w')"
  then show "logoutAnswer env devMode r resp"
  proof (cases rule: run_HandleEndSession)
    case (ended req0 req es found w1)
    then show ?thesis using endBrowserSession_run(1) validateEndSession_Inr by blast
  qed auto
qed

text \<open>An example: the browser of \<open>exampleVisit\<close> confirms its logout.\<close>

definition exampleLogoutRequest :: Request where
  "exampleLogoutRequest = \<lparr>h_Method = ''POST'', h_Host = ''i'', h_Path = ''/end_session'', h_EscapedPath = ''/end_session'', h_Query = (\<lambda>_. ''''), h_RemoteAddr = ''192.0.2.7:443'', h_Header = (\<lambda>_. ''''),
     h_Cookie = [''__Host-authgate_session'' \<mapsto> ''tok'', ''__Host-end_session_csrf'' \<mapsto> ''c''], h_FormOk = True,
     h_Form = (\<lambda>_. ''''), h_PostForm = (\<lambda>n. if n = ''confirm'' then ''1'' else if n = ''csrf_token'' then ''c'' else ''''), h_Resources = [], h_BasicUser = None, h_Body = None\<rparr>"

definition exampleEndSession :: EndSessionEnv where
  "exampleEndSession = \<lparr>en_parse = (\<lambda>_. Some \<lparr>eq_PostLogoutRedirectURI = '''', eq_Hint = ''''\<rparr>),
     en_validate = (\<lambda>_. Inr \<lparr>ex_UserID = '''', ex_ClientID = '''', ex_RedirectURI = ''''\<rparr>), en_csrf = Inr ''n''\<rparr>"

lemma exampleLogout_checks:
  "h_Method exampleLogoutRequest = ''POST''" "h_PostForm exampleLogoutRequest ''confirm'' = ''1''"
  "getSessionCookie exampleLogoutRequest False = ''tok''" "validLogoutCSRF exampleLogoutRequest False"
  "en_parse exampleEndSession exampleLogoutRequest = Some \<lparr>eq_PostLogoutRedirectURI = '''', eq_Hint = ''''\<rparr>"
  "validateEndSession exampleEndSession \<lparr>eq_PostLogoutRedirectURI = '''', eq_Hint = ''''\<rparr> =
     (\<lparr>eq_PostLogoutRedirectURI = '''', eq_Hint = ''''\<rparr>, Inr \<lparr>ex_UserID = '''', ex_ClientID = '''', ex_RedirectURI = ''''\<rparr>)"
  by (simp_all add: exampleLogoutRequest_def exampleEndSession_def validateEndSession_def getSessionCookie_def sessionCookieName_def
      validLogoutCSRF_def sameOriginPost_def validCSRFToken_def csrfCookieName_def logoutCSRFCookie_def)

lemma exampleLogout_run:
  obtains x w' where "run_state (HandleEndSession exampleEndSession exampleStorage False exampleCtx exampleLogoutRequest) exampleVisit = (x, w')"
    "sessions (w_db w') = [exampleSession\<lparr>se_RevokedAt := Some 10\<rparr>]"
proof -
  obtain u where u: "run_state (GetValidSession exampleStorage ''tok'') exampleVisit = (Inr (u, requireUsableUser u), exampleVisit)" "u_ID u = ''alice''"
    using run_session(1) [OF exampleVisit_ready(1-3,6,7) exampleVisit_user] by (simp add: exampleVisit_fields exampleUser_def)
  have b: "run_state (browserUserID exampleStorage False exampleLogoutRequest) exampleVisit = (Inr (Inr ''alice''), exampleVisit)"
    using u by (simp add: browserUserID_def exampleLogout_checks catching_def run_attemptOr)
  obtain t w1 where t: "run_state (TerminateSession exampleStorage exampleCtx ''alice'' '''') exampleVisit = (t, w1)" by force
  from run_TerminateSession [OF exampleVisit_ready(1,2) t] have s: "sessions (w_db w1) = [exampleSession\<lparr>se_RevokedAt := Some 10\<rparr>]"
    by (simp add: upd_where_def exampleVisit_fields exampleVisit_def exampleSession_def)
  have "\<exists>x. run_state (HandleEndSession exampleEndSession exampleStorage False exampleCtx exampleLogoutRequest) exampleVisit = (x, w1)"
    using b t by (cases t) (auto simp: HandleEndSession_def endBrowserSession_def exampleLogout_checks run_attempt catching_def run_attemptOr)
  with s that show ?thesis by blast
qed

theorem browser_posts_guarded_witness:
  "\<exists>x w' s u. run_state (HandleEndSession exampleEndSession exampleStorage False exampleCtx exampleLogoutRequest) exampleVisit = (x, w')
     \<and> w_db w' \<noteq> w_db exampleVisit \<and> sessionFor exampleStorage (w_db exampleVisit) (w_now exampleVisit) ''tok'' s u
     \<and> signedOut (w_db exampleVisit) (w_now exampleVisit) (u_ID u) (w_db w') \<and> validLogoutCSRF exampleLogoutRequest False"
proof (rule exampleLogout_run)
  fix x w'
  assume run: "run_state (HandleEndSession exampleEndSession exampleStorage False exampleCtx exampleLogoutRequest) exampleVisit = (x, w')"
    and s: "sessions (w_db w') = [exampleSession\<lparr>se_RevokedAt := Some 10\<rparr>]"
  have ch: "w_db w' \<noteq> w_db exampleVisit"
  proof
    assume "w_db w' = w_db exampleVisit"
    with s have "exampleSession\<lparr>se_RevokedAt := Some 10\<rparr> = exampleSession" by (simp add: exampleVisit_def)
    then show False by (simp add: exampleSession_def)
  qed
  from browser_posts_guarded [where env = exampleEndSession and st = exampleStorage and devMode = False and ctx = exampleCtx
      and r = exampleLogoutRequest and w = exampleVisit, THEN conjunct2, THEN conjunct1] run ch
  obtain z u where "sessionFor exampleStorage (w_db exampleVisit) (w_now exampleVisit) ''tok'' z u"
    "signedOut (w_db exampleVisit) (w_now exampleVisit) (u_ID u) (w_db w')" unfolding exampleLogout_checks(3) by blast
  with run ch show ?thesis using exampleLogout_checks(4) by blast
qed

section \<open>The client's address\<close>

text \<open>An entry of \<^verbatim>\<open>X-Forwarded-For\<close> that is passed over: garbage or a trusted proxy.\<close>

definition skipped :: "IPEnv \<Rightarrow> IPNet list \<Rightarrow> string \<Rightarrow> bool" where
  "skipped env trusted p \<longleftrightarrow> normalizeAddr env p = '''' \<or> isTrustedHop env (normalizeAddr env p) trusted"

lemma firstUntrusted_find:
  "firstUntrusted env trusted ps =
     (case find (\<lambda>p. \<not> skipped env trusted p) ps of None \<Rightarrow> '''' | Some p \<Rightarrow> normalizeAddr env p)"
  by (induction ps) (auto simp: skipped_def Let_def)

lemma find_Some_split:
  "find P xs = Some x \<Longrightarrow> P x \<and> (\<exists>us vs. xs = us @ x # vs \<and> (\<forall>u \<in> set us. \<not> P u))"
proof (induction xs)
  case (Cons y ys)
  show ?case
  proof (cases "P y")
    case True
    with Cons.prems show ?thesis by (auto intro: exI [of _ "[]"])
  next
    case False
    with Cons obtain us vs where "P x" "ys = us @ x # vs" "\<forall>u \<in> set us. \<not> P u" by auto
    with False show ?thesis by (intro conjI exI [of _ "y # us"] exI [of _ vs]) auto
  qed
qed simp

lemma find_append_left: "\<exists>x \<in> set xs. P x \<Longrightarrow> find P (xs @ ys) = find P xs"
  by (induction xs) auto

lemma rightmost_find:
  "rightmostUntrustedXFF env v trusted =
     (case find (\<lambda>p. \<not> skipped env trusted p) (rev (goSplit CHR '','' v)) of None \<Rightarrow> '''' | Some p \<Rightarrow> normalizeAddr env p)"
proof (cases "v = ''''")
  case True
  then show ?thesis by (simp add: rightmostUntrustedXFF_def skipped_def normalizeAddr_def goTrimSpace_def)
qed (simp add: rightmostUntrustedXFF_def firstUntrusted_find)

lemma goSplit_sep_append: "goSplit sep (a @ sep # t) = goSplit sep a @ goSplit sep t"
proof (induction a)
  case (Cons c a)
  show ?case
  proof (cases "goSplit sep a")
    case Nil
    then show ?thesis by simp
  next
    case (Cons p ps)
    with Cons.IH show ?thesis by simp
  qed
qed simp

lemma rightmost_suffix:
  assumes "\<exists>p \<in> set (goSplit CHR '','' t). \<not> skipped env trusted p"
  shows "rightmostUntrustedXFF env (a @ CHR '','' # t) trusted = rightmostUntrustedXFF env t trusted"
  using assms by (simp add: rightmost_find goSplit_sep_append find_append_left)

lemma rightmost_cases:
  obtains (none) "rightmostUntrustedXFF env v trusted = ''''" "\<forall>p \<in> set (goSplit CHR '','' v). skipped env trusted p"
  | (entry) us p vs where "goSplit CHR '','' v = us @ p # vs" "rightmostUntrustedXFF env v trusted = normalizeAddr env p"
      "\<not> skipped env trusted p" "\<forall>q \<in> set vs. skipped env trusted q"
proof (cases "find (\<lambda>p. \<not> skipped env trusted p) (rev (goSplit CHR '','' v))")
  case None
  then have "rightmostUntrustedXFF env v trusted = ''''" by (simp add: rightmost_find)
  then show ?thesis using None none by (simp add: find_None_iff)
next
  case (Some p)
  then obtain us vs where s: "rev (goSplit CHR '','' v) = us @ p # vs" "\<forall>u \<in> set us. skipped env trusted u" "\<not> skipped env trusted p"
    using find_Some_split [OF Some] by auto
  then have "goSplit CHR '','' v = rev (us @ p # vs)" by (metis rev_rev_ident)
  then have "goSplit CHR '','' v = rev vs @ p # rev us" by simp
  then show ?thesis using entry s(2,3) Some by (auto simp: rightmost_find)
qed

lemma Extract_hop:
  "normalizeAddr env (h_RemoteAddr r) = '''' \<or> \<not> isTrustedHop env (normalizeAddr env (h_RemoteAddr r)) trusted \<Longrightarrow>
   inf_IP (Extract env (Some r) trusted) = normalizeAddr env (h_RemoteAddr r)"
  by (auto simp: Extract_def Let_def)

lemma Extract_entry:
  assumes "normalizeAddr env (h_RemoteAddr r) \<noteq> '''' \<and> isTrustedHop env (normalizeAddr env (h_RemoteAddr r)) trusted
      \<and> normalizeAddr env (h_Header r ''X-Envoy-External-Address'') = ''''"
  shows "inf_IP (Extract env (Some r) trusted) = normalizeAddr env (h_RemoteAddr r)
        \<and> (\<forall>p \<in> set (goSplit CHR '','' (h_Header r ''X-Forwarded-For'')). skipped env trusted p)
      \<or> (\<exists>us p vs. goSplit CHR '','' (h_Header r ''X-Forwarded-For'') = us @ p # vs
           \<and> inf_IP (Extract env (Some r) trusted) = normalizeAddr env p \<and> \<not> skipped env trusted p \<and> (\<forall>q \<in> set vs. skipped env trusted q))"
proof (cases rule: rightmost_cases [of env "h_Header r ''X-Forwarded-For''" trusted])
  case none
  with assms show ?thesis by (simp add: Extract_def)
next
  case (entry us p vs)
  then have "inf_IP (Extract env (Some r) trusted) = normalizeAddr env p" using assms by (simp add: Extract_def skipped_def Let_def)
  with entry show ?thesis by blast
qed

lemma Extract_prefix:
  assumes "h_Header r ''X-Forwarded-For'' = a @ CHR '','' # t" "h_Header r' ''X-Forwarded-For'' = b @ CHR '','' # t"
    and "h_Header r' ''X-Envoy-External-Address'' = h_Header r ''X-Envoy-External-Address''" "h_RemoteAddr r' = h_RemoteAddr r"
    and "\<exists>p \<in> set (goSplit CHR '','' t). \<not> skipped env trusted p"
  shows "inf_IP (Extract env (Some r') trusted) = inf_IP (Extract env (Some r) trusted)"
  using assms(1-4) by (simp add: Extract_def Let_def rightmost_suffix [OF assms(5)])

text \<open>C34: The client address cannot be spoofed through proxy headers. A request that does not come from a
  trusted hop gets the address of its connection, whatever headers it sends. From a trusted hop without an Envoy
  address the answer is the last entry of \<^verbatim>\<open>X-Forwarded-For\<close> that is an address and not a trusted proxy,
  or the hop's own address if there is none. Hence whatever a client writes in front of what the proxies
  appended, as soon as they appended one untrusted address, does not change the answer.\<close>

theorem client_ip_unspoofable:
  "let hop = normalizeAddr env (h_RemoteAddr r); ip = inf_IP (Extract env (Some r) trusted);
       xff = h_Header r ''X-Forwarded-For''; envoy = normalizeAddr env (h_Header r ''X-Envoy-External-Address'') in
    (hop = '''' \<or> \<not> isTrustedHop env hop trusted \<longrightarrow> ip = hop)
    \<and> (hop \<noteq> '''' \<and> isTrustedHop env hop trusted \<and> envoy = '''' \<longrightarrow>
        ip = hop \<and> (\<forall>p \<in> set (goSplit CHR '','' xff). skipped env trusted p)
        \<or> (\<exists>us p vs. goSplit CHR '','' xff = us @ p # vs \<and> ip = normalizeAddr env p \<and> \<not> skipped env trusted p
             \<and> (\<forall>q \<in> set vs. skipped env trusted q)))
    \<and> (\<forall>(r' :: Request) a b t. xff = a @ CHR '','' # t \<and> h_Header r' ''X-Forwarded-For'' = b @ CHR '','' # t
          \<and> h_Header r' ''X-Envoy-External-Address'' = h_Header r ''X-Envoy-External-Address''
          \<and> h_RemoteAddr r' = h_RemoteAddr r \<and> (\<exists>p \<in> set (goSplit CHR '','' t). \<not> skipped env trusted p)
        \<longrightarrow> inf_IP (Extract env (Some r') trusted) = ip)"
  unfolding Let_def by (intro conjI impI Extract_hop Extract_entry allI) (auto intro: Extract_prefix)

text \<open>An example: two proxies in 10.0.0.0/8 and a client that sends a forged entry.\<close>

definition exampleIPs :: IPEnv where
  "exampleIPs = \<lparr>ip_parse = (\<lambda>s. if s = ''10.0.0.1'' \<or> s = ''192.0.2.7'' \<or> s = ''8.8.8.8'' then Some s else None),
     ip_host = (\<lambda>s. if s = ''10.0.0.1:9'' then Some ''10.0.0.1'' else None),
     ip_bytes = (\<lambda>s. if s = ''10.0.0.1'' then Some [10, 0, 0, 1] else if s = ''192.0.2.7'' then Some [192, 0, 2, 7] else Some [8, 8, 8, 8]),
     ip_cidr = (\<lambda>_. None)\<rparr>"

definition exampleProxied :: "string \<Rightarrow> Request" where
  "exampleProxied forged = exampleLogoutRequest\<lparr>h_RemoteAddr := ''10.0.0.1:9'',
     h_Header := (\<lambda>n. if n = ''X-Forwarded-For'' then forged @ '',192.0.2.7,10.0.0.1'' else '''')\<rparr>"

theorem client_ip_unspoofable_witness:
  "inf_IP (Extract exampleIPs (Some (exampleProxied ''8.8.8.8'')) [([10, 0, 0, 0], 8)])
     = inf_IP (Extract exampleIPs (Some (exampleProxied ''x'')) [([10, 0, 0, 0], 8)])
   \<and> \<not> skipped exampleIPs [([10, 0, 0, 0], 8)] ''192.0.2.7''"
proof -
  have ns: "\<not> skipped exampleIPs [([10, 0, 0, 0], 8)] ''192.0.2.7''" by code_simp
  have in_t: "''192.0.2.7'' \<in> set (goSplit CHR '','' ''192.0.2.7,10.0.0.1'')" by code_simp
  have h: "h_Header (exampleProxied s) ''X-Forwarded-For'' = s @ CHR '','' # ''192.0.2.7,10.0.0.1''"
    "h_Header (exampleProxied s) ''X-Envoy-External-Address'' = ''''" "h_RemoteAddr (exampleProxied s) = ''10.0.0.1:9''" for s
    by (simp_all add: exampleProxied_def)
  from client_ip_unspoofable [where env = exampleIPs and trusted = "[([10, 0, 0, 0], 8)]" and r = "exampleProxied ''x''", unfolded Let_def, THEN conjunct2, THEN conjunct2,
      rule_format, of "''x''" "''192.0.2.7,10.0.0.1''" "exampleProxied ''8.8.8.8''" "''8.8.8.8''"] ns in_t
  show ?thesis by (auto simp: h)
qed

end
