(* ===== verification/Front.thy ===== *)
theory Front
  imports Web_Correct
begin

text \<open>
  The upstream identity provider (\<^verbatim>\<open>internal/upstream/oidc.go\<close>), the login handlers over it
  (\<^verbatim>\<open>internal/handler/login.go\<close>, \<^verbatim>\<open>mcp_login.go\<close>, the callback of \<^verbatim>\<open>device.go\<close>), the constructors of the services
  and the operator's brand (\<^verbatim>\<open>internal/pages\<close>). The relying-party library is a parameter: its cookie handler, its
  authorization URL and its code exchange.
\<close>

section \<open>The upstream provider\<close>

definition hostedDomain :: "(string \<rightharpoonup> json) option \<Rightarrow> string" where
  "hostedDomain idTokenClaims =
     (case idTokenClaims of None \<Rightarrow> ''''
      | Some claims \<Rightarrow> (case claims ''hd'' of Some (JsString domain) \<Rightarrow> domain | _ \<Rightarrow> ''''))"

record OidcUserInfo =
  ui_Subject :: string
  ui_Email :: string
  ui_EmailVerified :: bool
  ui_Name :: string
  ui_Claims :: "string \<rightharpoonup> json"

definition mapUserInfo :: "(string \<rightharpoonup> json) option \<Rightarrow> OidcUserInfo \<Rightarrow> UpstreamUserInfo" where
  "mapUserInfo idTokenClaims info =
     \<lparr>up_Sub = ui_Subject info, up_Email = ui_Email info, up_EmailVerified = ui_EmailVerified info, up_Name = ui_Name info,
      up_HostedDomain = hostedDomain idTokenClaims\<rparr>"

text \<open>\<open>parseHost\<close>: the host name of \<^verbatim>\<open>url.Parse\<close>.\<close>

definition deriveProviderName :: "(string \<Rightarrow> string option) \<Rightarrow> string \<Rightarrow> string" where
  "deriveProviderName parseHost issuer =
     (case parseHost issuer of None \<Rightarrow> ''unknown''
      | Some host \<Rightarrow>
          if host = '''' then ''unknown''
          else (let parts = goSplit CHR ''.'' host in if length parts \<ge> 2 then parts ! (length parts - 2) else parts ! 0))"

record OutURL =
  o_Scheme :: string
  o_Host :: string
  o_Rest :: string

record hostRewriteTransport =
  t_fromHost :: string
  t_toHost :: string
  t_toScheme :: string

definition RoundTrip :: "hostRewriteTransport \<Rightarrow> OutURL \<Rightarrow> OutURL" where
  "RoundTrip t u =
     (if o_Host u = t_fromHost t
      then (let u1 = u\<lparr>o_Host := t_toHost t\<rparr> in if t_toScheme t \<noteq> '''' then u1\<lparr>o_Scheme := t_toScheme t\<rparr> else u1)
      else u)"

text \<open>The transport of a provider that is reached under an internal address; \<open>parse\<close> gives host and scheme.\<close>

definition providerTransport :: "(string \<Rightarrow> (string \<times> string) option) \<Rightarrow> string \<Rightarrow> string \<Rightarrow> hostRewriteTransport option" where
  "providerTransport parse issuerURL internalURL =
     (if internalURL = '''' then None
      else case (parse issuerURL, parse internalURL) of
          (Some (issuerHost, _), Some (internalHost, internalScheme)) \<Rightarrow>
            Some \<lparr>t_fromHost = issuerHost, t_toHost = internalHost, t_toScheme = internalScheme\<rparr>
        | _ \<Rightarrow> None)"

text \<open>
  \<open>ue_cookie\<close> is whether a cookie handler is configured. \<open>ue_check\<close> authenticates and decrypts a cookie of the
  request, \<open>ue_set\<close> encodes one, \<open>ue_delete\<close> expires one; \<open>ue_authURL\<close> and \<open>ue_exchange\<close> are the handlers of the
  library: the authorization URL for a state and parameters; and for the expected nonce the state, the
  verified ID token claims and the user info, or the library's error answer. \<open>ue_nonce\<close> is the next random nonce.
\<close>

record UpstreamEnv =
  ue_cookie :: bool
  ue_nonceCookieName :: string
  ue_check :: "Request \<Rightarrow> string \<Rightarrow> string option"
  ue_set :: "string \<Rightarrow> string \<Rightarrow> Cookie option"
  ue_delete :: "string \<Rightarrow> Cookie"
  ue_authURL :: "string \<Rightarrow> (string \<times> string) list \<Rightarrow> string"
  ue_exchange :: "Request \<Rightarrow> string option \<Rightarrow> nat \<times> string + string \<times> (string \<rightharpoonup> json) option \<times> OidcUserInfo"
  ue_nonce :: "err + string"

definition nonceCookieName :: "bool \<Rightarrow> bool \<Rightarrow> string" where
  "nonceCookieName cookieSet cookieSecure = (if cookieSet \<and> cookieSecure then ''__Host-authgate_nonce'' else ''nonce'')"

subsection \<open>Construction\<close>

text \<open>
  \<^verbatim>\<open>NewOIDCProvider\<close>: the options of the caller, the options for the relying-party library and the provider. \<open>sha256\<close>,
  \<open>parse\<close> (host and scheme of an address), \<open>parseHost\<close> and \<open>newRelyingParty\<close> (discovery: the issuer it found) are parameters. \<open>ch_Secure\<close> is false
  for a cookie handler with \<^verbatim>\<open>WithUnsecure\<close>. A client without timeout has \<open>0\<close> there, as in \<^verbatim>\<open>net/http\<close>.
\<close>

record CookieHandler =
  ch_hashKey :: string
  ch_encryptKey :: string
  ch_MaxAge :: int
  ch_Secure :: bool

datatype RpOption =
    WithHTTPClient "hostRewriteTransport option" duration
  | WithPKCE CookieHandler
  | WithNonce
  | WithUnauthorizedHandler Response

record UpstreamOptions =
  uo_rpOpts :: "RpOption list"
  uo_internalURL :: string
  uo_httpTimeout :: duration
  uo_cookieSecret :: string
  uo_cookieSecure :: bool
  uo_cookieSet :: bool

definition WithInternalURL :: "string \<Rightarrow> UpstreamOptions \<Rightarrow> UpstreamOptions" where
  "WithInternalURL internalURL = (\<lambda>u. u\<lparr>uo_internalURL := internalURL\<rparr>)"

definition WithHTTPTimeout :: "duration \<Rightarrow> UpstreamOptions \<Rightarrow> UpstreamOptions" where
  "WithHTTPTimeout timeout = (\<lambda>u. u\<lparr>uo_httpTimeout := timeout\<rparr>)"

definition WithCookieSecret :: "string \<Rightarrow> bool \<Rightarrow> UpstreamOptions \<Rightarrow> UpstreamOptions" where
  "WithCookieSecret secret secure = (\<lambda>u. u\<lparr>uo_cookieSecret := secret, uo_cookieSecure := secure, uo_cookieSet := True\<rparr>)"

record RelyingParty =
  ry_IssuerURL :: string
  ry_ClientID :: string
  ry_ClientSecret :: string
  ry_RedirectURI :: string
  ry_Scopes :: "string list"
  ry_Options :: "RpOption list"

record OIDCProvider =
  od_name :: string
  od_rp :: RelyingParty
  od_ch :: "CookieHandler option"
  od_nonceCookieName :: string

definition cookieHandler :: "(string \<Rightarrow> string) \<Rightarrow> UpstreamOptions \<Rightarrow> CookieHandler option" where
  "cookieHandler sha256 u =
     (if uo_cookieSet u then
        Some \<lparr>ch_hashKey = sha256 (''authgate.upstream.cookie.hash:'' @ uo_cookieSecret u),
          ch_encryptKey = sha256 (''authgate.upstream.cookie.enc:'' @ uo_cookieSecret u), ch_MaxAge = 600, ch_Secure = uo_cookieSecure u\<rparr>
      else None)"

text \<open>\<^verbatim>\<open>http.Error\<close>.\<close>

definition plainError :: "nat \<Rightarrow> string \<Rightarrow> Response" where
  "plainError code message = \<lparr>r_Status = code, r_Cookies = [], r_Page = PlainText message\<rparr>"

definition authenticationFailed :: string where "authenticationFailed = ''authentication failed''"

definition NewOIDCProvider ::
  "(string \<Rightarrow> string) \<Rightarrow> (string \<Rightarrow> (string \<times> string) option) \<Rightarrow> (string \<Rightarrow> string option) \<Rightarrow> (RelyingParty \<Rightarrow> err + string)
     \<Rightarrow> string \<Rightarrow> string \<Rightarrow> string \<Rightarrow> string \<Rightarrow> (UpstreamOptions \<Rightarrow> UpstreamOptions) list \<Rightarrow> err + OIDCProvider" where
  "NewOIDCProvider sha256 parse parseHost newRelyingParty issuerURL clientID clientSecret redirectURI opts =
     (let u = fold (\<lambda>opt. opt) opts
                \<lparr>uo_rpOpts = [], uo_internalURL = '''', uo_httpTimeout = 0, uo_cookieSecret = '''', uo_cookieSecure = False, uo_cookieSet = False\<rparr>;
          transport = providerTransport parse issuerURL (uo_internalURL u);
          client = (if 0 < uo_httpTimeout u \<or> uo_internalURL u \<noteq> '''' then [WithHTTPClient transport (max 0 (uo_httpTimeout u))] else []);
          ch = cookieHandler sha256 u;
          cookies = (case ch of None \<Rightarrow> [] | Some h \<Rightarrow> [WithPKCE h, WithNonce]);
          party = \<lparr>ry_IssuerURL = issuerURL, ry_ClientID = clientID, ry_ClientSecret = clientSecret, ry_RedirectURI = redirectURI,
            ry_Scopes = [''openid'', ''email'', ''profile''],
            ry_Options = uo_rpOpts u @ client @ cookies @ [WithUnauthorizedHandler (plainError 401 authenticationFailed)]\<rparr> in
      map_sum id (\<lambda>issuer. \<lparr>od_name = deriveProviderName parseHost issuer, od_rp = party, od_ch = ch,
          od_nonceCookieName = nonceCookieName (uo_cookieSet u) (uo_cookieSecure u)\<rparr>)
        (newRelyingParty party))"

text \<open>The environment of the handlers over a provider: its cookie handler and the name of its nonce cookie.\<close>

definition providedBy :: "OIDCProvider \<Rightarrow> UpstreamEnv \<Rightarrow> UpstreamEnv" where
  "providedBy p env = env\<lparr>ue_cookie := od_ch p \<noteq> None, ue_nonceCookieName := od_nonceCookieName p\<rparr>"

subsection \<open>Redirect and callback\<close>

definition upstreamRedirect :: "UpstreamEnv \<Rightarrow> string \<Rightarrow> string \<Rightarrow> Response" where
  "upstreamRedirect env state prompt =
     (let urlParams = (if prompt \<noteq> '''' then [(''prompt'', prompt)] else []);
          answer = (\<lambda>cookies params. \<lparr>r_Status = 302, r_Cookies = cookies, r_Page = RedirectTo (ue_authURL env state params)\<rparr>) in
      if \<not> ue_cookie env then answer [] urlParams
      else case ue_nonce env of Inl _ \<Rightarrow> plainError 500 authenticationFailed
        | Inr nonce \<Rightarrow> (case ue_set env (ue_nonceCookieName env) nonce of None \<Rightarrow> plainError 500 authenticationFailed
            | Some c \<Rightarrow> answer [c] (urlParams @ [(''nonce'', nonce)])))"

text \<open>The cookies of the answer so far, and either an error answer or what \<^verbatim>\<open>onSuccess\<close> is called with.\<close>

definition upstreamCallback :: "UpstreamEnv \<Rightarrow> Request \<Rightarrow> Cookie list \<times> (nat \<times> string + string \<times> UpstreamUserInfo)" where
  "upstreamCallback env r =
     (let exchanged = (\<lambda>expected. case ue_exchange env r expected of Inl e \<Rightarrow> Inl e
                 | Inr (state, claims, info) \<Rightarrow> Inr (state, mapUserInfo claims info)) in
      if \<not> ue_cookie env then ([], exchanged None)
      else ([ue_delete env (ue_nonceCookieName env)],
        case ue_check env r (ue_nonceCookieName env) of None \<Rightarrow> Inl (401, authenticationFailed)
        | Some nonce \<Rightarrow> if nonce = '''' then Inl (401, authenticationFailed) else exchanged (Some nonce)))"

section \<open>Login handlers\<close>

text \<open>The redirect to the provider that a result asks for, and what a callback does with its identity.\<close>

definition follow :: "UpstreamEnv \<Rightarrow> Response \<Rightarrow> Response" where
  "follow env resp = (case r_Page resp of UpstreamRedirect state prompt \<Rightarrow> upstreamRedirect env state prompt | _ \<Rightarrow> resp)"

definition onSuccess :: "UpstreamEnv \<Rightarrow> Request \<Rightarrow> (string \<Rightarrow> UpstreamUserInfo \<Rightarrow> Response act) \<Rightarrow> Response act" where
  "onSuccess env r finish =
     (case upstreamCallback env r of
        (cookies, Inl (code, message)) \<Rightarrow> ok ((plainError code message)\<lparr>r_Cookies := cookies\<rparr>)
      | (cookies, Inr (state, info)) \<Rightarrow>
          attempt (finish state info) (\<lambda>resp. ok (resp\<lparr>r_Cookies := cookies @ r_Cookies resp\<rparr>)))"

definition loginHandlerLogin :: "UpstreamEnv \<Rightarrow> (URL option \<Rightarrow> string) \<Rightarrow> LoginService \<Rightarrow> bool \<Rightarrow> Ctx \<Rightarrow> Request \<Rightarrow> Response act" where
  "loginHandlerLogin env show ls devMode ctx r =
     attempt (HandleLogin ls (h_Query r ''authRequestID'') (getSessionCookie r devMode) (x_IP ctx) (x_UserAgent ctx)) (\<lambda>res.
     ok (follow env (writeLoginResult show res)))"

definition loginHandlerCallback :: "UpstreamEnv \<Rightarrow> (URL option \<Rightarrow> string) \<Rightarrow> LoginService \<Rightarrow> bool \<Rightarrow> Ctx \<Rightarrow> Request \<Rightarrow> Response act" where
  "loginHandlerCallback env show ls devMode ctx r =
     onSuccess env r (\<lambda>state info.
       attempt (CompleteBrowserLogin ls state (Some info) (x_IP ctx) (x_UserAgent ctx)) (\<lambda>res.
       ok (case writeCallbackResult show res devMode of Some resp \<Rightarrow> resp | None \<Rightarrow> \<lparr>r_Status = 200, r_Cookies = [], r_Page = NoPage\<rparr>)))"

definition mcpHandlerLogin :: "UpstreamEnv \<Rightarrow> (URL option \<Rightarrow> string) \<Rightarrow> LoginService \<Rightarrow> bool \<Rightarrow> Ctx \<Rightarrow> Request \<Rightarrow> Response act" where
  "mcpHandlerLogin env show ls devMode ctx r =
     attempt (mcpHandleLogin ls (h_Query r ''authRequestID'') (getSessionCookie r devMode) (x_IP ctx) (x_UserAgent ctx)) (\<lambda>res.
     ok (follow env (writeLoginResult show res)))"

definition mcpHandlerCallback :: "UpstreamEnv \<Rightarrow> (URL option \<Rightarrow> string) \<Rightarrow> LoginService \<Rightarrow> bool \<Rightarrow> Ctx \<Rightarrow> Request \<Rightarrow> Response act" where
  "mcpHandlerCallback env show ls devMode ctx r =
     onSuccess env r (\<lambda>state info.
       attempt (CompleteMCPLogin ls state (Some info) (x_IP ctx) (x_UserAgent ctx)) (\<lambda>res.
       ok (case writeCallbackResult show res devMode of Some resp \<Rightarrow> resp
           | None \<Rightarrow> renderError 500 ''invalid mcp callback action'')))"

definition deviceHandlerUpstream :: "UpstreamEnv \<Rightarrow> DeviceService \<Rightarrow> bool \<Rightarrow> Ctx \<Rightarrow> Request \<Rightarrow> Response act" where
  "deviceHandlerUpstream env dv devMode ctx r =
     onSuccess env r (\<lambda>state info. deviceHandlerCallback dv devMode state (Some info) ctx)"

section \<open>Services and brand\<close>

text \<open>\<open>parse\<close> is \<^verbatim>\<open>url.Parse\<close>.\<close>

definition NewLoginService :: "(string \<Rightarrow> URL option) \<Rightarrow> Storage \<Rightarrow> string \<Rightarrow> string \<Rightarrow> duration \<Rightarrow> LoginService" where
  "NewLoginService parse store providerName issuer sessionTTL =
     \<lparr>ls_store = store, ls_providerName = providerName, ls_issuer = issuer, ls_sessionTTL = sessionTTL, ls_parseURL = parse\<rparr>"

definition NewDeviceService :: "Storage \<Rightarrow> string \<Rightarrow> duration \<Rightarrow> DeviceService" where
  "NewDeviceService store providerName sessionTTL = \<lparr>dv_store = store, dv_providerName = providerName, dv_sessionTTL = sessionTTL\<rparr>"

record Brand =
  bd_Name :: string
  bd_LogoSVG :: string
  bd_PrimaryColor :: string

definition maxLogoBytes :: nat where "maxLogoBytes = 32 * 1024"

definition isHexDigit :: "char \<Rightarrow> bool" where
  "isHexDigit c \<longleftrightarrow> isDigit c \<or> c \<in> set ''abcdefABCDEF''"

definition hexColor :: "string \<Rightarrow> bool" where
  "hexColor s \<longleftrightarrow> (case s of [] \<Rightarrow> False | c # ds \<Rightarrow> c = CHR ''#'' \<and> 3 \<le> length ds \<and> length ds \<le> 8 \<and> list_all isHexDigit ds)"

text \<open>\<open>readFile\<close> is \<^verbatim>\<open>os.ReadFile\<close>.\<close>

definition LoadBrand :: "(string \<Rightarrow> err + string) \<Rightarrow> string \<Rightarrow> string \<Rightarrow> string \<Rightarrow> err + Brand" where
  "LoadBrand readFile name logoPath primaryColor =
     (let b = \<lparr>bd_Name = (if goTrimSpace name = '''' then ''authgate'' else goTrimSpace name), bd_LogoSVG = '''', bd_PrimaryColor = primaryColor\<rparr> in
      if primaryColor \<noteq> '''' \<and> \<not> hexColor primaryColor then Inl (ErrMsg ''pages: BRAND_PRIMARY_COLOR must be a hex colour'')
      else if logoPath = '''' then Inr b
      else case readFile logoPath of Inl e \<Rightarrow> Inl e
        | Inr raw \<Rightarrow>
            if length raw > maxLogoBytes then Inl (ErrMsg ''pages: brand logo is too large'')
            else (let svg = goTrimSpace raw in
              if \<not> goHasPrefix svg ''<svg'' \<and> \<not> goHasPrefix svg ''<?xml'' then Inl (ErrMsg ''pages: brand logo must be an SVG document'')
              else Inr (b\<lparr>bd_LogoSVG := svg\<rparr>)))"

section \<open>Identities come from verified answers\<close>

text \<open>
  With cookies configured a callback only completes with the identity that the exchange returned for the
  nonce of the browser's own cookie; the hosted domain is the one of the verified ID token.
\<close>

lemma upstreamCallback_verified:
  assumes "upstreamCallback env r = (cookies, Inr (state, info))" "ue_cookie env"
  shows "\<exists>nonce claims ui. ue_check env r (ue_nonceCookieName env) = Some nonce \<and> nonce \<noteq> '''' \<and> ue_exchange env r (Some nonce) = Inr (state, claims, ui)
    \<and> info = mapUserInfo claims ui \<and> up_HostedDomain info = hostedDomain claims \<and> cookies = [ue_delete env (ue_nonceCookieName env)]"
  using assms by (auto simp: upstreamCallback_def mapUserInfo_def Let_def split: option.splits if_splits sum.splits)

lemma RoundTrip_elsewhere: "o_Host u \<noteq> t_fromHost t \<Longrightarrow> RoundTrip t u = u"
  by (simp add: RoundTrip_def)

end
