(* ===== verification/Client_File.thy ===== *)
theory Client_File
  imports Clients
begin

text \<open>
  Reading \<^verbatim>\<open>clients.yaml\<close>: the part of \<^verbatim>\<open>client.LoadConfig\<close> before the checks of the entries,
  \<^verbatim>\<open>rejectEmptyAccess\<close>, and the decoding of access policies (\<^verbatim>\<open>clientaccess/yaml.go\<close>). The YAML library
  is a parameter: what document a file holds, the printing of a node and the decoding of rules. The main theorem says
  that a written access policy is never dropped: a client is open to everyone only if its entry has
  no access key or says \<^verbatim>\<open>public\<close>.
\<close>

section \<open>Documents\<close>

text \<open>A node of the document: a scalar with its short tag, a mapping (known by its text), a sequence, an alias.\<close>

datatype YNode = YScalar string string | YMapping string | YSequence | YAlias YNode

fun target :: "YNode \<Rightarrow> YNode" where
  "target (YAlias n) = target n"
| "target n = n"

text \<open>An entry of the file: its plain fields and the node of its access key, if there is one.\<close>

record RawClient =
  rw_entry :: ConfigEntry
  rw_access :: "YNode option"

datatype YamlDoc = YEmpty | YBad err | YClients "RawClient list" bool

text \<open>
  \<open>ye_document\<close>: what the decoder with \<^verbatim>\<open>KnownFields\<close> finds: nothing, an error, or the entries and whether
  something follows the document. \<open>ye_marshal\<close> prints a mapping node; \<open>ye_rules\<close> is the decoder with \<^verbatim>\<open>KnownFields\<close> on the
  printed mapping: allow and deny rules, the end of the input, or an error.
\<close>

datatype RulesDoc = RulesFound "Rules option" DenyRules | RulesEOF | RulesBad err

record YamlEnv =
  ye_document :: "string \<Rightarrow> YamlDoc"
  ye_marshal :: "string \<Rightarrow> err + string"
  ye_rules :: "string \<Rightarrow> RulesDoc"

section \<open>Access policies\<close>

definition publicKeyword :: string where "publicKeyword = ''public''"

definition decodeStrict :: "YamlEnv \<Rightarrow> string \<Rightarrow> err + Rules option \<times> DenyRules" where
  "decodeStrict env text =
     (case ye_marshal env text of Inl e \<Rightarrow> Inl e
      | Inr data \<Rightarrow> (case ye_rules env data of
          RulesFound allow deny \<Rightarrow> Inr (allow, deny)
        | RulesEOF \<Rightarrow> Inr (None, \<lparr>DenyEmails = []\<rparr>)
        | RulesBad e \<Rightarrow> Inl e))"

definition UnmarshalYAML :: "YamlEnv \<Rightarrow> YNode \<Rightarrow> err + Policy" where
  "UnmarshalYAML env n =
     (case n of
        YScalar tag value \<Rightarrow>
          if tag = ''!!str'' \<and> value = publicKeyword then Inr Public
          else Inl (ErrMsg ''access must be public or a mapping with allow and deny'')
      | YMapping text \<Rightarrow>
          (case decodeStrict env text of Inl e \<Rightarrow> Inl e
           | Inr (None, deny) \<Rightarrow> Inl (ErrMsg ''access: allow is required; write access: public to admit everyone'')
           | Inr (Some allow, deny) \<Rightarrow> New allow deny)
      | _ \<Rightarrow> Inl (ErrMsg ''access must be public or a mapping with allow and deny''))"

text \<open>The library decodes a pointer: an alias as its target, a null as nil without calling the unmarshaler.\<close>

definition decodeAccess :: "YamlEnv \<Rightarrow> YNode option \<Rightarrow> err + Policy option" where
  "decodeAccess env node =
     (case map_option target node of None \<Rightarrow> Inr None
      | Some (YScalar tag value) \<Rightarrow> if tag = ''!!null'' then Inr None else map_sum id Some (UnmarshalYAML env (YScalar tag value))
      | Some n \<Rightarrow> map_sum id Some (UnmarshalYAML env n))"

fun decodeClients :: "YamlEnv \<Rightarrow> RawClient list \<Rightarrow> err + ConfigEntry list" where
  "decodeClients env [] = Inr []"
| "decodeClients env (raw # raws) =
     (case decodeAccess env (rw_access raw) of Inl e \<Rightarrow> Inl e
      | Inr access \<Rightarrow> (case decodeClients env raws of Inl e \<Rightarrow> Inl e
         | Inr cs \<Rightarrow> Inr ((rw_entry raw)\<lparr>e_Access := access\<rparr> # cs)))"

fun rejectEmptyAccess :: "RawClient list \<Rightarrow> err option" where
  "rejectEmptyAccess [] = None"
| "rejectEmptyAccess (raw # raws) =
     (case map_option target (rw_access raw) of
        Some (YScalar tag value) \<Rightarrow>
          if tag = ''!!null'' then Some (ErrMsg ''access is empty; remove it or write access: public'') else rejectEmptyAccess raws
      | _ \<Rightarrow> rejectEmptyAccess raws)"

section \<open>The file\<close>

text \<open>\<open>file\<close> is the answer of \<^verbatim>\<open>os.ReadFile\<close>.\<close>

definition LoadConfigFile :: "YamlEnv \<Rightarrow> uri_parser \<Rightarrow> err + string \<Rightarrow> err + ConfigEntry list" where
  "LoadConfigFile env parseURI file =
     (case file of Inl e \<Rightarrow> Inl e
      | Inr data \<Rightarrow>
        (case ye_document env data of
           YBad e \<Rightarrow> Inl e
         | YEmpty \<Rightarrow> LoadConfig parseURI []
         | YClients raws trailing \<Rightarrow>
             (case decodeClients env raws of Inl e \<Rightarrow> Inl e
              | Inr entries \<Rightarrow>
                  if trailing then Inl (ErrMsg ''multiple YAML documents are not supported'')
                  else (case rejectEmptyAccess raws of Some e \<Rightarrow> Inl e | None \<Rightarrow> LoadConfig parseURI entries))))"

section \<open>Correctness\<close>

text \<open>What an access key means, and the entry a raw entry stands for.\<close>

definition means :: "YamlEnv \<Rightarrow> YNode option \<Rightarrow> Policy option \<Rightarrow> bool" where
  "means env node a \<longleftrightarrow>
     (case node of None \<Rightarrow> a = None
      | Some n \<Rightarrow> (case target n of
            YScalar tag value \<Rightarrow> tag = ''!!str'' \<and> value = ''public'' \<and> a = Some Public
          | YMapping text \<Rightarrow> (\<exists>data allow deny p. ye_marshal env text = Inr data \<and> ye_rules env data = RulesFound (Some allow) deny \<and> New allow deny = Inr p \<and> a = Some p)
          | _ \<Rightarrow> False))"

definition stands :: "YamlEnv \<Rightarrow> RawClient \<Rightarrow> ConfigEntry \<Rightarrow> bool" where
  "stands env raw c \<longleftrightarrow> (\<exists>a. means env (rw_access raw) a \<and> c = (rw_entry raw)\<lparr>e_Access := a\<rparr>)"

text \<open>The entries of a file that holds at most one document.\<close>

definition onlyDocument :: "YamlEnv \<Rightarrow> string \<Rightarrow> RawClient list \<Rightarrow> bool" where
  "onlyDocument env data raws \<longleftrightarrow> (case ye_document env data of YEmpty \<Rightarrow> raws = [] | YBad _ \<Rightarrow> False | YClients rs trailing \<Rightarrow> raws = rs \<and> \<not> trailing)"

lemma target_not_alias [simp]: "target n \<noteq> YAlias m"
  by (induction n) auto

lemma map_sum_Some: "map_sum id Some r = Inr a \<longleftrightarrow> (\<exists>p. r = Inr p \<and> a = Some p)"
  by (cases r) auto

lemma means_open: "means env node a \<Longrightarrow> a = None \<longleftrightarrow> node = None"
  by (cases node) (auto simp: means_def split: YNode.splits)

lemma decodeAccess_means:
  assumes "\<And>n value. rw_access raw = Some n \<Longrightarrow> target n \<noteq> YScalar ''!!null'' value"
  shows "decodeAccess env (rw_access raw) = Inr a \<longleftrightarrow> means env (rw_access raw) a"
proof (cases "rw_access raw")
  case None
  then show ?thesis by (auto simp: decodeAccess_def means_def)
next
  case (Some n)
  with assms [OF Some] show ?thesis
    by (cases "target n")
       (auto simp: decodeAccess_def means_def UnmarshalYAML_def decodeStrict_def publicKeyword_def map_sum_Some
         split: sum.splits prod.splits option.splits RulesDoc.splits)
qed

lemma means_not_null: "means env (rw_access raw) a \<Longrightarrow> rw_access raw = Some n \<Longrightarrow> target n \<noteq> YScalar ''!!null'' value"
  by (auto simp: means_def)

lemma rejectEmptyAccess_None:
  "rejectEmptyAccess raws = None \<longleftrightarrow> (\<forall>raw \<in> set raws. \<forall>n value. rw_access raw = Some n \<longrightarrow> target n \<noteq> YScalar ''!!null'' value)"
  by (induction raws) (auto split: option.splits YNode.splits)

lemma decodeClients_stands:
  assumes "rejectEmptyAccess raws = None"
  shows "decodeClients env raws = Inr cs \<longleftrightarrow> list_all2 (stands env) raws cs"
  using assms
proof (induction raws arbitrary: cs)
  case (Cons raw raws)
  then have nn: "\<And>n value. rw_access raw = Some n \<Longrightarrow> target n \<noteq> YScalar ''!!null'' value" and r: "rejectEmptyAccess raws = None"
    unfolding rejectEmptyAccess_None by simp_all
  have "decodeClients env (raw # raws) = Inr cs \<longleftrightarrow>
      (\<exists>a cs'. decodeAccess env (rw_access raw) = Inr a \<and> decodeClients env raws = Inr cs' \<and> cs = (rw_entry raw)\<lparr>e_Access := a\<rparr> # cs')"
    by (auto split: sum.splits)
  also have "\<dots> \<longleftrightarrow> (\<exists>c cs'. stands env raw c \<and> list_all2 (stands env) raws cs' \<and> cs = c # cs')"
  proof -
    have "decodeAccess env (rw_access raw) = Inr a \<longleftrightarrow> means env (rw_access raw) a" for a by (rule decodeAccess_means) (rule nn)
    then show ?thesis unfolding Cons.IH [OF r] stands_def [of env raw] by blast
  qed
  finally show ?case by (auto simp: list_all2_Cons1)
qed auto

lemma stands_not_empty: "list_all2 (stands env) raws cs \<Longrightarrow> rejectEmptyAccess raws = None"
  by (auto simp: rejectEmptyAccess_None stands_def list_all2_conv_all_nth in_set_conv_nth dest!: means_not_null)

lemma decode_spec:
  "list_all2 (stands env) raws entries \<longleftrightarrow> rejectEmptyAccess raws = None \<and> decodeClients env raws = Inr entries"
proof (cases "rejectEmptyAccess raws")
  case None
  then show ?thesis by (simp add: decodeClients_stands)
next
  case (Some e)
  then show ?thesis using stands_not_empty [of env raws entries] by auto
qed

section \<open>Properties\<close>

text \<open>C38: A client file is accepted exactly when it holds at most one document, every access key has a meaning
  (the word public, or a mapping whose strictly decoded rules compile) and the entries pass the checks of
  \<^verbatim>\<open>LoadConfig\<close>; the accepted clients carry exactly the policies that are written. An access key that is
  empty, misspelled inside, or points by an alias at a null never turns into an open client: an accepted
  entry has no policy only if the file has no access key for it.\<close>

theorem client_file_exact:
  "LoadConfigFile env parseURI (Inr data) = Inr cs \<longleftrightarrow>
     (\<exists>raws entries. onlyDocument env data raws
        \<and> list_all2 (stands env) raws entries \<and> LoadConfig parseURI entries = Inr cs
        \<and> list_all2 (\<lambda>raw c. e_Access c = None \<longleftrightarrow> rw_access raw = None) raws cs)"
proof -
  have open_iff: "list_all2 (\<lambda>raw c. e_Access c = None \<longleftrightarrow> rw_access raw = None) raws cs"
    if "list_all2 (stands env) raws entries" "LoadConfig parseURI entries = Inr cs" for raws entries
  proof -
    from that(2) have "cs = map defaultChannel entries" by (auto simp: LoadConfig_def checkEntries_iff)
    moreover have "list_all2 (\<lambda>raw c. e_Access c = None \<longleftrightarrow> rw_access raw = None) raws entries"
      using that(1) by (rule list.rel_mono_strong) (auto simp: stands_def dest: means_open)
    ultimately show ?thesis by (simp add: list_all2_conv_all_nth defaultChannel_def)
  qed
  show ?thesis
  proof (cases "ye_document env data")
    case YEmpty
    then have "LoadConfigFile env parseURI (Inr data) = Inr cs \<longleftrightarrow> LoadConfig parseURI [] = Inr cs" by (simp add: LoadConfigFile_def)
    moreover have "onlyDocument env data raws \<longleftrightarrow> raws = []" for raws using YEmpty by (simp add: onlyDocument_def)
    ultimately show ?thesis using open_iff [of "[]" "[]"] by auto
  next
    case (YBad e)
    then show ?thesis by (simp add: LoadConfigFile_def onlyDocument_def)
  next
    case (YClients raws trailing)
    then have "LoadConfigFile env parseURI (Inr data) = Inr cs \<longleftrightarrow>
        (\<exists>entries. \<not> trailing \<and> rejectEmptyAccess raws = None \<and> decodeClients env raws = Inr entries \<and> LoadConfig parseURI entries = Inr cs)"
      by (cases "decodeClients env raws"; cases trailing; cases "rejectEmptyAccess raws") (simp_all add: LoadConfigFile_def)
    also have "\<dots> \<longleftrightarrow> (\<exists>entries. \<not> trailing \<and> list_all2 (stands env) raws entries \<and> LoadConfig parseURI entries = Inr cs)"
      unfolding decode_spec by auto
    finally have "LoadConfigFile env parseURI (Inr data) = Inr cs \<longleftrightarrow>
        (\<exists>entries. \<not> trailing \<and> list_all2 (stands env) raws entries \<and> LoadConfig parseURI entries = Inr cs)" .
    moreover have "onlyDocument env data raws' \<longleftrightarrow> raws' = raws \<and> \<not> trailing" for raws' using YClients by (simp add: onlyDocument_def)
    ultimately show ?thesis using open_iff [of raws] by auto
  qed
qed

end
