(* ===== verification/Startup.thy ===== *)
theory Startup
  imports Front Client_File Signing Users_Correct
begin

text \<open>
  The start of the server, the composition of its components: \<^verbatim>\<open>storage.New\<close> and the wiring of
  \<^verbatim>\<open>internal/app\<close> (\<^verbatim>\<open>app.go\<close>, \<^verbatim>\<open>storage_wiring.go\<close>, \<^verbatim>\<open>crypto.go\<close>, \<^verbatim>\<open>server.go\<close>). A \<^verbatim>\<open>log.Fatalf\<close> is an error of the
  action: the process ends before it serves. The theorem says what holds of every server that gets
  to serve. Parameters: the environment, the files, the code outside the repository.
\<close>

section \<open>Wiring\<close>

text \<open>The configuration and the options of the provider library.\<close>

record OPConfig =
  oc_CryptoKey :: string
  oc_CodeMethodS256 :: bool
  oc_AuthMethodPost :: bool
  oc_GrantTypeRefreshToken :: bool
  oc_SupportedScopes :: "string list"
  oc_Lifetime :: duration
  oc_PollInterval :: duration
  oc_UserFormPath :: string
  oc_CharSet :: string
  oc_CharAmount :: nat
  oc_DashInterval :: nat

datatype OPOption =
    WithAllowInsecure
  | WithCustomTokenEndpoint string
  | WithCustomRevocationEndpoint string
  | WithCustomDeviceAuthorizationEndpoint string
  | WithIDTokenHintKeySet "string \<rightharpoonup> RsaPublic"
  | WithSupportedIDTokenHintSigningAlgorithms "string list"

text \<open>The settings of the connection pool.\<close>

record DBPool =
  db_MaxOpenConns :: int
  db_MaxIdleConns :: int
  db_ConnMaxLifetime :: duration
  db_ConnMaxIdleTime :: duration

text \<open>
  \<open>sx_base\<close> gives the fields of the storage that stand for code outside the repository; \<open>sx_clientFile\<close> is
  \<^const>\<open>None\<close> for a file that does not exist; \<open>sx_fetch\<close> is the fetcher's answer for a host policy. \<open>sx_openDB\<close> and
  \<open>sx_pingDB\<close> are the answers of the database driver, \<open>sx_listen\<close> of the network to a listener; \<open>sx_migrate\<close> and \<open>sx_opProvider\<close>
  are whether the migrations ran and the provider library accepted its configuration and options for an issuer;
  \<open>sx_relyingParty\<close> is the upstream discovery of a relying party: the issuer that it found; \<open>sx_parseInternal\<close> gives host and
  scheme of an address.
\<close>

record StartEnv =
  sx_env :: ConfigEnv
  sx_base :: Storage
  sx_signing :: SigningEnv
  sx_bundleFile :: "string \<Rightarrow> err + err + string"
  sx_keyFile :: "string \<Rightarrow> ReadResult"
  sx_generate :: "err + RsaPrivate"
  sx_encode :: "RsaPrivate \<Rightarrow> string"
  sx_written :: bool
  sx_yaml :: YamlEnv
  sx_clientFile :: "string \<Rightarrow> (err + string) option"
  sx_parseURI :: uri_parser
  sx_parseOrigin :: "string \<Rightarrow> (string \<times> string) option"
  sx_fetch :: "CIMDHostPolicy \<Rightarrow> resolver"
  sx_ip :: IPEnv
  sx_openDB :: "string \<Rightarrow> err + unit"
  sx_pingDB :: "DBPool \<Rightarrow> err + unit"
  sx_listen :: "string \<Rightarrow> err + unit"
  sx_migrate :: "err + unit"
  sx_opProvider :: "OPConfig \<Rightarrow> string \<Rightarrow> OPOption list \<Rightarrow> err + unit"
  sx_relyingParty :: "RelyingParty \<Rightarrow> err + string"
  sx_sha256 :: "string \<Rightarrow> string"
  sx_parseInternal :: "string \<Rightarrow> (string \<times> string) option"
  sx_parseHost :: "string \<Rightarrow> string option"
  sx_parseURL :: "string \<Rightarrow> URL option"
  sx_logoFile :: "string \<Rightarrow> err + string"

definition mustOpenDB :: "StartEnv \<Rightarrow> Config \<Rightarrow> err + unit" where
  "mustOpenDB env cfg =
     (case sx_openDB env (g_DatabaseURL cfg) of Inl e \<Rightarrow> Inl e
      | Inr _ \<Rightarrow> sx_pingDB env \<lparr>db_MaxOpenConns = g_DBMaxOpenConns cfg, db_MaxIdleConns = g_DBMaxIdleConns cfg,
          db_ConnMaxLifetime = g_DBConnMaxLifetime cfg, db_ConnMaxIdleTime = g_DBConnMaxIdleTime cfg\<rparr>)"

text \<open>The metrics server: the start fails if its listener cannot be opened; what it serves is not modelled.\<close>

definition startMetricsServer :: "StartEnv \<Rightarrow> Config \<Rightarrow> err + unit" where
  "startMetricsServer env cfg = (if g_MetricsAddr cfg = '''' then Inr () else sx_listen env (g_MetricsAddr cfg))"

definition devicePollInterval :: duration where "devicePollInterval = 5 * second"

definition NewStorage :: "Storage \<Rightarrow> (User \<Rightarrow> err option) \<Rightarrow> duration \<Rightarrow> duration \<Rightarrow> Storage" where
  "NewStorage base checker accessTTL refreshTTL =
     base\<lparr>s_stateChecker := Some checker, s_accessTokenTTL := accessTTL, s_refreshTokenTTL := refreshTTL,
       s_devicePollInterval := 5 * second, s_refreshReuseGrace := 0, s_registry := NewRegistry,
       s_resourcePolicy := coreResourceBindingPolicy, s_keys := None\<rparr>"

definition configureSigningKey :: "StartEnv \<Rightarrow> Config \<Rightarrow> Provider \<Rightarrow> err + Provider" where
  "configureSigningKey env cfg p =
     (case firstError (map (\<lambda>(name, v). (v \<noteq> '''' \<and> goTrimSpace v = '''', name @ '' must not contain only whitespace''))
         [(''SIGNING_KEY_PATH'', g_SigningKeyPath cfg), (''SIGNING_KEY_BUNDLE_PATH'', g_SigningKeyBundlePath cfg)]) of
        Some e \<Rightarrow> Inl e
      | None \<Rightarrow>
          if g_SigningKeyBundlePath cfg \<noteq> '''' then
            if g_SigningKeyPath cfg \<noteq> '''' then Inl (ErrMsg ''SIGNING_KEY_BUNDLE_PATH and SIGNING_KEY_PATH cannot both be set'')
            else (case LoadBundle (sx_signing env) (sx_bundleFile env (g_SigningKeyBundlePath cfg)) of Inl e \<Rightarrow> Inl e
                  | Inr b \<Rightarrow> SetBundle p (Some b))
          else if g_SigningKeyPath cfg = '''' then Inl (ErrMsg ''SIGNING_KEY_PATH is required when no signing key bundle is configured'')
          else (case fst (LoadOrGenerateKey (sx_signing env) (sx_generate env) (sx_encode env) (sx_written env)
                      (sx_keyFile env (g_SigningKeyPath cfg))) of Inl e \<Rightarrow> Inl e
                | Inr key \<Rightarrow> SetCurrent p (Some key) ''authgate-key-1''))"

text \<open>
  \<^verbatim>\<open>configureMCPPoliciesIfEnabled\<close> in two parts. The resolver it installs reads the registry at the time of a
  call; as the registry changes only when clients are loaded, the policies are installed after that.
\<close>

definition mcpHostPolicy :: "Config \<Rightarrow> err + CIMDHostPolicy option" where
  "mcpHostPolicy cfg =
     (if \<not> g_EnableMCP cfg then Inr None
      else case NewCIMDHostPolicy (case g_MCPCIMDHostAllowlist cfg of None \<Rightarrow> DefaultCIMDHosts | Some hosts \<Rightarrow> hosts) of
          Inl e \<Rightarrow> Inl e | Inr hp \<Rightarrow> Inr (Some hp))"

definition installMCPPolicies :: "StartEnv \<Rightarrow> CIMDHostPolicy option \<Rightarrow> Storage \<Rightarrow> Storage" where
  "installMCPPolicies env hosts st =
     (case hosts of None \<Rightarrow> st
      | Some hp \<Rightarrow>
          (let core = CoreResolver (s_registry st) in
           SetResourceBindingPolicy
             (SetClientResolutionPolicy st (Some (mcpResolveClient (sx_parseURI env) core (Some (sx_fetch env hp)))))
             (Some (mcpResourceBindingPolicy coreResourceBindingPolicy (Some core)))))"

definition mustBuildStore :: "StartEnv \<Rightarrow> Config \<Rightarrow> err + Storage \<times> Provider \<times> CIMDHostPolicy option" where
  "mustBuildStore env cfg =
     (let st = SetRefreshReuseGrace (SetDevicePollInterval
                 (NewStorage (sx_base env) newStateChecker (g_AccessTokenTTL cfg) (g_RefreshTokenTTL cfg)) devicePollInterval)
               (g_RefreshTokenReuseGrace cfg) in
      case configureSigningKey env cfg emptyProvider of Inl e \<Rightarrow> Inl e
      | Inr p \<Rightarrow> (case mcpHostPolicy cfg of Inl e \<Rightarrow> Inl e | Inr hosts \<Rightarrow> Inr (st, p, hosts)))"

definition mustSetupCrypto :: "Config \<Rightarrow> Storage \<Rightarrow> Storage act" where
  "mustSetupCrypto cfg st =
     (if g_EncRootSecret cfg = '''' then ok st
      else case stdDecode (g_EncRootSecret cfg) of None \<Rightarrow> fail (ErrMsg ''crypto: PII_ENC_ROOT_SECRET must be base64'')
      | Some encSecret \<Rightarrow>
        (case stdDecode (g_LookupRootSecret cfg) of None \<Rightarrow> fail (ErrMsg ''crypto: PII_LOOKUP_ROOT_SECRET must be base64'')
        | Some lookupSecret \<Rightarrow>
            attempt (liftE (NewRoot DomainEnc (g_EncRootKeyID cfg) encSecret)) (\<lambda>encRoot.
            attempt (liftE (NewRoot DomainLookup (g_LookupRootKeyID cfg) lookupSecret)) (\<lambda>lookupRoot.
            attempt (liftE (NewKeys (s_prims st) (Some encRoot) (Some lookupRoot))) (\<lambda>keys.
            let st' = SetKeys st (Some keys) in
            attempt (EnsureCryptoEpochs st') (\<lambda>_. ok st'))))))"

definition loadClientConfigIfPresent :: "StartEnv \<Rightarrow> Config \<Rightarrow> Storage \<Rightarrow> err + Storage \<times> string list" where
  "loadClientConfigIfPresent env cfg st =
     (if g_ClientConfigPath cfg = '''' then Inr (st, [])
      else case sx_clientFile env (g_ClientConfigPath cfg) of None \<Rightarrow> Inr (st, [])
      | Some file \<Rightarrow>
        (case LoadConfigFile (sx_yaml env) (sx_parseURI env) file of Inl e \<Rightarrow> Inl e
         | Inr cs \<Rightarrow>
            (case ValidateChannels cs (g_EnableMCP cfg) of Some e \<Rightarrow> Inl e
             | None \<Rightarrow> Inr (LoadClients (sx_parseURI env) st cs,
                 OriginsFromRedirectURIs (sx_parseOrigin env) [] (concat (map e_RedirectURIs cs))))))"

definition startCleanupService :: "Config \<Rightarrow> CleanupService" where
  "startCleanupService cfg =
     SetRefreshTokenTTL (SetAdminAuditLogPIIRetention (SetAuditLogPIIRetention NewCleanupService (g_AuditLogPIIRetention cfg))
       (g_AdminAuditLogPIIRetention cfg)) (g_RefreshTokenTTL cfg)"

definition supportedScopes :: "string list" where
  "supportedScopes = [''openid'', ''profile'', ''email'', ''offline_access'']"

definition buildOPConfig :: "(string \<Rightarrow> string) \<Rightarrow> Config \<Rightarrow> OPConfig" where
  "buildOPConfig sha256 cfg =
     \<lparr>oc_CryptoKey = sha256 (g_SessionSecret cfg), oc_CodeMethodS256 = True, oc_AuthMethodPost = True, oc_GrantTypeRefreshToken = True,
      oc_SupportedScopes = supportedScopes, oc_Lifetime = 5 * 60 * second, oc_PollInterval = devicePollInterval, oc_UserFormPath = ''/device'',
      oc_CharSet = ''BCDFGHJKLMNPQRSTVWXZ'', oc_CharAmount = 8, oc_DashInterval = 4\<rparr>"

definition buildOPOptions :: "Config \<Rightarrow> OPOption list" where
  "buildOPOptions cfg =
     (if g_DevMode cfg then [WithAllowInsecure] else [])
     @ [WithCustomTokenEndpoint ''oauth/token'', WithCustomRevocationEndpoint ''oauth/revoke'',
        WithCustomDeviceAuthorizationEndpoint ''oauth/device/authorize'']"

definition buildOIDCProvider :: "StartEnv \<Rightarrow> Config \<Rightarrow> Provider \<Rightarrow> err + unit" where
  "buildOIDCProvider env cfg signing =
     (let opts = buildOPOptions cfg @ (case IDTokenHintKeySet signing of None \<Rightarrow> []
            | Some hintKeys \<Rightarrow> [WithIDTokenHintKeySet hintKeys, WithSupportedIDTokenHintSigningAlgorithms [''RS256'']]) in
      sx_opProvider env (buildOPConfig (sx_sha256 env) cfg) (g_PublicURL cfg) opts)"

definition buildUpstreamOptions :: "Config \<Rightarrow> (UpstreamOptions \<Rightarrow> UpstreamOptions) list" where
  "buildUpstreamOptions cfg =
     (if g_OIDCInternalURL cfg \<noteq> '''' then [WithInternalURL (g_OIDCInternalURL cfg)] else [])
     @ [WithHTTPTimeout (g_OIDCHTTPTimeout cfg), WithCookieSecret (g_SessionSecret cfg) (\<not> g_DevMode cfg)]"

definition mustBuildUpstreamProvider ::
  "StartEnv \<Rightarrow> Config \<Rightarrow> string \<Rightarrow> (UpstreamOptions \<Rightarrow> UpstreamOptions) list \<Rightarrow> err + OIDCProvider" where
  "mustBuildUpstreamProvider env cfg callbackPath upstreamOpts =
     NewOIDCProvider (sx_sha256 env) (sx_parseInternal env) (sx_parseHost env) (sx_relyingParty env)
       (g_OIDCIssuerURL cfg) (g_OIDCClientID cfg) (g_OIDCClientSecret cfg) (g_PublicURL cfg @ callbackPath) upstreamOpts"

text \<open>What the handlers are built from: the providers for browser, device and MCP logins, and the brand.\<close>

record HandlerParts =
  hp_browser :: OIDCProvider
  hp_device :: OIDCProvider
  hp_mcp :: "OIDCProvider option"
  hp_brand :: Brand

definition buildHandlers :: "StartEnv \<Rightarrow> Config \<Rightarrow> Provider \<Rightarrow> err + HandlerParts" where
  "buildHandlers env cfg signing =
     (case buildOIDCProvider env cfg signing of Inl e \<Rightarrow> Inl e
      | Inr _ \<Rightarrow> let upstreamOpts = buildUpstreamOptions cfg in
        (case mustBuildUpstreamProvider env cfg ''/login/callback'' upstreamOpts of Inl e \<Rightarrow> Inl e
      | Inr browser \<Rightarrow> (case mustBuildUpstreamProvider env cfg ''/device/auth/callback'' upstreamOpts of Inl e \<Rightarrow> Inl e
      | Inr device \<Rightarrow> (case LoadBrand (sx_logoFile env) (g_BrandName cfg) (g_BrandLogoPath cfg) (g_BrandPrimaryColor cfg) of Inl e \<Rightarrow> Inl e
      | Inr brand \<Rightarrow>
          if g_EnableMCP cfg then
            (case mustBuildUpstreamProvider env cfg ''/mcp/callback'' upstreamOpts of Inl e \<Rightarrow> Inl e
             | Inr mcp \<Rightarrow> Inr \<lparr>hp_browser = browser, hp_device = device, hp_mcp = Some mcp, hp_brand = brand\<rparr>)
          else Inr \<lparr>hp_browser = browser, hp_device = device, hp_mcp = None, hp_brand = brand\<rparr>))))"

record RunningServer =
  sv_config :: Config
  sv_store :: Storage
  sv_signing :: Provider
  sv_origins :: "string list"
  sv_trusted :: "IPNet list"
  sv_cleanup :: CleanupService
  sv_brand :: Brand
  sv_login :: LoginService
  sv_device :: DeviceService
  sv_mcp :: "LoginService option"
  sv_browserProvider :: OIDCProvider
  sv_deviceProvider :: OIDCProvider
  sv_mcpProvider :: "OIDCProvider option"

text \<open>The services hold the storage by reference: they see the clients that are loaded after them.\<close>

definition runningServer ::
  "StartEnv \<Rightarrow> Config \<Rightarrow> HandlerParts \<Rightarrow> Storage \<Rightarrow> Provider \<Rightarrow> string list \<Rightarrow> IPNet list \<Rightarrow> RunningServer" where
  "runningServer env cfg parts st signing origins trusted =
     \<lparr>sv_config = cfg, sv_store = st, sv_signing = signing, sv_origins = origins, sv_trusted = trusted, sv_cleanup = startCleanupService cfg,
      sv_brand = hp_brand parts,
      sv_login = NewLoginService (sx_parseURL env) st (od_name (hp_browser parts)) (g_PublicURL cfg) (g_SessionTTL cfg),
      sv_device = NewDeviceService st (od_name (hp_device parts)) (g_SessionTTL cfg),
      sv_mcp = map_option (\<lambda>p. NewLoginService (sx_parseURL env) st (od_name p) (g_PublicURL cfg) (g_SessionTTL cfg)) (hp_mcp parts),
      sv_browserProvider = hp_browser parts, sv_deviceProvider = hp_device parts, sv_mcpProvider = hp_mcp parts\<rparr>"

definition Run :: "StartEnv \<Rightarrow> RunningServer act" where
  "Run env =
     attempt (liftE (configLoad (sx_env env))) (\<lambda>cfg.
     attempt (liftE (mustOpenDB env cfg)) (\<lambda>_.
     attempt (liftE (sx_migrate env)) (\<lambda>_.
     attempt (liftE (mustBuildStore env cfg)) (\<lambda>(st0, signing, hosts).
     attempt (mustSetupCrypto cfg st0) (\<lambda>st1.
     attempt (liftE (buildHandlers env cfg signing)) (\<lambda>parts.
     attempt (liftE (loadClientConfigIfPresent env cfg st1)) (\<lambda>(st2, origins).
     attempt (liftE (ParseTrustedProxies (sx_ip env) (g_TrustedProxies cfg))) (\<lambda>trusted.
     attempt (liftE (startMetricsServer env cfg)) (\<lambda>_.
     ok (runningServer env cfg parts (installMCPPolicies env hosts st2) signing origins trusted))))))))))"

section \<open>Key epochs after the start\<close>

definition epochFor :: "Storage \<Rightarrow> Keys \<Rightarrow> dbs \<Rightarrow> string \<Rightarrow> string \<Rightarrow> bool" where
  "epochFor st k d domain keyID \<longleftrightarrow>
     (\<exists>row \<in> set (crypto_key_epochs d). ep_Domain row = domain \<and> ep_Status row = ''active'' \<and> ep_KeyID row = keyID
        \<and> VerifyTag (s_prims st) k domain = Inr (ep_VerifyTag row))"

lemma epochFor_mono: "epochFor st k d domain keyID \<Longrightarrow> set (crypto_key_epochs d) \<subseteq> set (crypto_key_epochs d') \<Longrightarrow> epochFor st k d' domain keyID"
  by (auto simp: epochFor_def)

lemma InsertActiveEpoch_mono: "set (crypto_key_epochs d) \<subseteq> set (crypto_key_epochs (snd (InsertActiveEpoch keyID domain tag t d)))"
  by (auto simp: InsertActiveEpoch_def)

lemma exec_epochs_mono:
  assumes "run_state (exec DBc q) w = (r, w')" "\<And>d. set (crypto_key_epochs d) \<subseteq> set (crypto_key_epochs (snd (q d)))"
  shows "set (crypto_key_epochs (w_db w)) \<subseteq> set (crypto_key_epochs (w_db w'))"
  using exec_DB_any(1) [OF assms(1)] assms(2) [of "w_db w"] by (elim disjE) simp_all

lemma GetActiveEpoch_Inr:
  assumes "run_state (exec DBc (GetActiveEpoch domain)) w = (Inr row, w')"
  shows "row \<in> set (crypto_key_epochs (w_db w')) \<and> ep_Domain row = domain \<and> ep_Status row = ''active''"
  using exec_DB_Inr(1,2) [OF assms] by (auto simp: GetActiveEpoch_def dest: one_row_Inr)

lemma ensureEpoch_Inr:
  assumes "run_state (ensureEpoch st k domain keyID) w = (Inr (), w')"
  shows "epochFor st k (w_db w') domain keyID" "set (crypto_key_epochs (w_db w)) \<subseteq> set (crypto_key_epochs (w_db w'))"
proof -
  let ?get = "exec DBc (GetActiveEpoch domain)"
  obtain r1 w1 where g: "run_state ?get w = (r1, w1)" by force
  have get_mono: "set (crypto_key_epochs (w_db v)) \<subseteq> set (crypto_key_epochs (w_db v'))" if "run_state ?get v = (r, v')" for v r v'
    using that by (rule exec_epochs_mono) (simp add: GetActiveEpoch_def)
  from assms obtain tag where tag: "VerifyTag (s_prims st) k domain = Inr tag"
    by (cases "VerifyTag (s_prims st) k domain") (auto simp: ensureEpoch_def run_attempt)
  have "\<exists>row w2. run_state ?get w2 = (Inr row, w') \<and> ep_KeyID row = keyID \<and> ep_VerifyTag row = tag
      \<and> set (crypto_key_epochs (w_db w)) \<subseteq> set (crypto_key_epochs (w_db w2))"
  proof (cases r1)
    case (Inr row)
    then show ?thesis using assms tag g by (intro exI [of _ row] exI [of _ w]) (auto simp: ensureEpoch_def run_attempt run_attemptOr split: if_splits)
  next
    case (Inl e)
    let ?ins = "exec DBc (InsertActiveEpoch keyID domain tag (w_now w1))"
    obtain r2 w2 where i: "run_state ?ins w1 = (r2, w2)" by force
    obtain r3 w3 where h: "run_state ?get w2 = (r3, w3)" by force
    have "e = ErrNoRows \<and> (\<exists>u. r2 = Inr u) \<and> (\<exists>row. r3 = Inr row \<and> ep_KeyID row = keyID \<and> ep_VerifyTag row = tag) \<and> w' = w3"
      using assms tag g i h Inl
      by (cases r2; cases r3) (auto simp: ensureEpoch_def run_attempt run_attemptOr split: if_splits)
    moreover have "set (crypto_key_epochs (w_db w)) \<subseteq> set (crypto_key_epochs (w_db w2))"
      using get_mono [OF g] exec_epochs_mono [OF i InsertActiveEpoch_mono] by blast
    ultimately show ?thesis using h by blast
  qed
  then obtain row w2 where r: "run_state ?get w2 = (Inr row, w')" "ep_KeyID row = keyID" "ep_VerifyTag row = tag"
      "set (crypto_key_epochs (w_db w)) \<subseteq> set (crypto_key_epochs (w_db w2))" by blast
  show "epochFor st k (w_db w') domain keyID" using GetActiveEpoch_Inr [OF r(1)] r(2,3) tag by (auto simp: epochFor_def)
  show "set (crypto_key_epochs (w_db w)) \<subseteq> set (crypto_key_epochs (w_db w'))" using get_mono [OF r(1)] r(4) by blast
qed

lemma EnsureCryptoEpochs_Inr:
  assumes "run_state (EnsureCryptoEpochs st) w = (Inr (), w')" "s_keys st = Some k"
  shows "epochFor st k (w_db w') DomainEnc (encKeyID k) \<and> epochFor st k (w_db w') DomainLookup (lookupKeyID k)"
proof -
  from assms obtain w1 where e: "run_state (ensureEpoch st k DomainEnc (encKeyID k)) w = (Inr (), w1)"
      "run_state (ensureEpoch st k DomainLookup (lookupKeyID k)) w1 = (Inr (), w')"
    by (auto simp: EnsureCryptoEpochs_def run_attempt split: prod.splits sum.splits)
  from ensureEpoch_Inr [OF e(1)] ensureEpoch_Inr [OF e(2)] show ?thesis by (auto intro: epochFor_mono)
qed

section \<open>What each step of the start leaves\<close>

lemma run_Run:
  assumes "run_state (Run env) w = (Inr sv, w')"
  obtains cfg parts st0 signing hosts st1 st2 origins trusted where "configLoad (sx_env env) = Inr cfg" "mustBuildStore env cfg = Inr (st0, signing, hosts)"
    "run_state (mustSetupCrypto cfg st0) w = (Inr st1, w')" "buildHandlers env cfg signing = Inr parts"
    "loadClientConfigIfPresent env cfg st1 = Inr (st2, origins)"
    "ParseTrustedProxies (sx_ip env) (g_TrustedProxies cfg) = Inr trusted" "mustOpenDB env cfg = Inr ()" "startMetricsServer env cfg = Inr ()"
    "sv = runningServer env cfg parts (installMCPPolicies env hosts st2) signing origins trusted"
proof -
  from assms obtain cfg where cfg: "configLoad (sx_env env) = Inr cfg"
    by (cases "configLoad (sx_env env)") (auto simp: Run_def run_attempt)
  with assms have d: "mustOpenDB env cfg = Inr ()" by (cases "mustOpenDB env cfg") (auto simp: Run_def run_attempt)
  with assms cfg obtain u where u: "sx_migrate env = Inr u" by (cases "sx_migrate env") (auto simp: Run_def run_attempt)
  with assms cfg d obtain st0 signing hosts where b: "mustBuildStore env cfg = Inr (st0, signing, hosts)"
    by (cases "mustBuildStore env cfg") (auto simp: Run_def run_attempt)
  obtain r1 w1 where m: "run_state (mustSetupCrypto cfg st0) w = (r1, w1)" by force
  with assms cfg d u b obtain st1 where r1: "r1 = Inr st1" by (cases r1) (auto simp: Run_def run_attempt)
  with assms cfg d u b m obtain parts where p: "buildHandlers env cfg signing = Inr parts"
    by (cases "buildHandlers env cfg signing") (auto simp: Run_def run_attempt)
  with assms cfg d u b m r1 obtain st2 origins where l: "loadClientConfigIfPresent env cfg st1 = Inr (st2, origins)"
    by (cases "loadClientConfigIfPresent env cfg st1") (auto simp: Run_def run_attempt)
  with assms cfg d u b m r1 p obtain trusted where t: "ParseTrustedProxies (sx_ip env) (g_TrustedProxies cfg) = Inr trusted"
    by (cases "ParseTrustedProxies (sx_ip env) (g_TrustedProxies cfg)") (auto simp: Run_def run_attempt)
  with assms cfg d u b m r1 p l have mt: "startMetricsServer env cfg = Inr ()"
    by (cases "startMetricsServer env cfg") (auto simp: Run_def run_attempt)
  have "w1 = w' \<and> sv = runningServer env cfg parts (installMCPPolicies env hosts st2) signing origins trusted"
    using assms cfg d u b m r1 p l t mt by (simp add: Run_def run_attempt)
  with cfg b m r1 p l t d mt that show thesis by blast
qed

lemma buildHandlers_mcp: "buildHandlers env cfg signing = Inr parts \<Longrightarrow> hp_mcp parts = None \<longleftrightarrow> \<not> g_EnableMCP cfg"
  by (auto simp: buildHandlers_def Let_def split: sum.splits if_splits)

text \<open>
  The upstream providers of a server, and what protects a login over one: PKCE and the nonce check with one
  cookie handler, cookies over TLS only outside development mode, a client that gives up after the timeout.
\<close>

definition upstreams :: "RunningServer \<Rightarrow> OIDCProvider list" where
  "upstreams sv = sv_browserProvider sv # sv_deviceProvider sv # (case sv_mcpProvider sv of None \<Rightarrow> [] | Some p \<Rightarrow> [p])"

definition guardedUpstream :: "Config \<Rightarrow> OIDCProvider \<Rightarrow> bool" where
  "guardedUpstream cfg p \<longleftrightarrow>
     (\<exists>ch. od_ch p = Some ch \<and> (ch_Secure ch \<longleftrightarrow> \<not> g_DevMode cfg) \<and> WithPKCE ch \<in> set (ry_Options (od_rp p)))
   \<and> WithNonce \<in> set (ry_Options (od_rp p))
   \<and> (\<exists>t. WithHTTPClient t (g_OIDCHTTPTimeout cfg) \<in> set (ry_Options (od_rp p)))
   \<and> od_nonceCookieName p = (if g_DevMode cfg then ''nonce'' else ''__Host-authgate_nonce'')
   \<and> goHasPrefix (ry_RedirectURI (od_rp p)) (g_PublicURL cfg)"

lemma mustBuildUpstreamProvider_guarded:
  assumes "mustBuildUpstreamProvider env cfg callbackPath (buildUpstreamOptions cfg) = Inr p" "0 < g_OIDCHTTPTimeout cfg"
  shows "guardedUpstream cfg p"
  using assms
  by (auto simp: mustBuildUpstreamProvider_def NewOIDCProvider_def buildUpstreamOptions_def WithInternalURL_def WithHTTPTimeout_def WithCookieSecret_def
      cookieHandler_def nonceCookieName_def guardedUpstream_def goHasPrefix_def Let_def map_sum_def split: sum.splits if_splits)

lemma buildHandlers_guarded:
  assumes "buildHandlers env cfg signing = Inr parts" "0 < g_OIDCHTTPTimeout cfg"
  shows "guardedUpstream cfg (hp_browser parts)" "guardedUpstream cfg (hp_device parts)" "hp_mcp parts = Some p \<Longrightarrow> guardedUpstream cfg p"
  using assms(1) mustBuildUpstreamProvider_guarded [OF _ assms(2)]
  by (auto simp: buildHandlers_def Let_def split: sum.splits if_splits)

lemma guarded_callback:
  assumes "guardedUpstream cfg p" "upstreamCallback (providedBy p up) r = (cookies, Inr (state, info))"
  shows "\<exists>nonce claims ui. ue_check up r (od_nonceCookieName p) = Some nonce \<and> nonce \<noteq> '''' \<and> ue_exchange up r (Some nonce) = Inr (state, claims, ui)
    \<and> info = mapUserInfo claims ui"
proof -
  have "ue_cookie (providedBy p up)" using assms(1) by (auto simp: guardedUpstream_def providedBy_def)
  from upstreamCallback_verified [OF assms(2) this] show ?thesis by (auto simp: providedBy_def)
qed

definition published :: "Provider \<Rightarrow> bool" where
  "published p \<longleftrightarrow> (\<exists>k. SigningKey p = Inr k \<and> \<lparr>pm_id = sm_id k, pm_algorithm = sm_algorithm k, pm_key = sk_public (sm_key k)\<rparr> \<in> set (KeySet p))"

lemma configureSigningKey_published:
  assumes "configureSigningKey env cfg emptyProvider = Inr p"
  shows "published p"
proof (cases "g_SigningKeyBundlePath cfg = ''''")
  case True
  with assms obtain key where "SetCurrent emptyProvider (Some key) ''authgate-key-1'' = Inr p"
    by (auto simp: configureSigningKey_def split: option.splits if_splits sum.splits)
  then show ?thesis by (auto simp: SetCurrent_def requireLegacyMode_def emptyProvider_def published_def SigningKey_def KeySet_def)
next
  case False
  with assms obtain b where b: "LoadBundle (sx_signing env) (sx_bundleFile env (g_SigningKeyBundlePath cfg)) = Inr b"
      "SetBundle emptyProvider (Some b) = Inr p"
    by (auto simp: configureSigningKey_def split: option.splits if_splits sum.splits)
  then obtain data where data: "parseBundle (sx_signing env) data = Inr b" by (auto simp: LoadBundle_def Let_def split: sum.splits if_splits)
  obtain k where k: "SigningKey p = Inr k" using b(2) by (auto simp: SetBundle_def emptyProvider_def SigningKey_def)
  have "configure emptyProvider [UseBundle (Some b)] = Inr p" using b(2) by simp
  from signing_key_published [OF this _ k, of "sx_signing env"] data k show ?thesis by (auto simp: published_def)
qed

lemma mustBuildStore_Inr:
  assumes "mustBuildStore env cfg = Inr (st, p, hosts)"
  shows "published p" "mcpHostPolicy cfg = Inr hosts" "s_refreshReuseGrace st = g_RefreshTokenReuseGrace cfg"
    "s_refreshTokenTTL st = g_RefreshTokenTTL cfg" "s_stateChecker st = Some newStateChecker" "s_registry st = NewRegistry"
    "s_resourcePolicy st = coreResourceBindingPolicy" "s_prims st = s_prims (sx_base env)" "s_keys st = None"
    "s_devicePollInterval st = devicePollInterval"
  using assms configureSigningKey_published
  by (auto simp: mustBuildStore_def SetRefreshReuseGrace_def SetDevicePollInterval_def NewStorage_def Let_def split: sum.splits)

text \<open>The keys of the storage belong to the configured roots, and the database knows them as its active epochs.\<close>

definition keysReady :: "Config \<Rightarrow> Storage \<Rightarrow> dbs \<Rightarrow> bool" where
  "keysReady cfg st d \<longleftrightarrow>
     (\<exists>k. s_keys st = Some k \<and> encKeyID k = g_EncRootKeyID cfg \<and> lookupKeyID k = g_LookupRootKeyID cfg
        \<and> epochFor st k d DomainEnc (encKeyID k) \<and> epochFor st k d DomainLookup (lookupKeyID k))"

lemma NewRoot_Inr: "NewRoot domain keyID secret = Inr r \<Longrightarrow> r_keyID r = keyID"
  by (auto simp: NewRoot_def split: if_splits)

lemma mustSetupCrypto_Inr:
  assumes "run_state (mustSetupCrypto cfg st) w = (Inr st', w')"
  shows "\<exists>ks. st' = st\<lparr>s_keys := ks\<rparr>" "g_EncRootSecret cfg \<noteq> '''' \<Longrightarrow> keysReady cfg st' (w_db w')"
proof -
  have "(\<exists>ks. st' = st\<lparr>s_keys := ks\<rparr>) \<and> (g_EncRootSecret cfg \<noteq> '''' \<longrightarrow> keysReady cfg st' (w_db w'))"
  proof (cases "g_EncRootSecret cfg = ''''")
    case True
    then have "st' = st\<lparr>s_keys := s_keys st\<rparr>" using assms by (simp add: mustSetupCrypto_def)
    with True show ?thesis by blast
  next
    case False
    with assms obtain es ls er lr k where s: "stdDecode (g_EncRootSecret cfg) = Some es" "stdDecode (g_LookupRootSecret cfg) = Some ls"
        "NewRoot DomainEnc (g_EncRootKeyID cfg) es = Inr er" "NewRoot DomainLookup (g_LookupRootKeyID cfg) ls = Inr lr"
        "NewKeys (s_prims st) (Some er) (Some lr) = Inr k"
        "run_state (EnsureCryptoEpochs (SetKeys st (Some k))) w = (Inr (), w')" "st' = SetKeys st (Some k)"
      by (auto simp: mustSetupCrypto_def run_attempt Let_def split: option.splits sum.splits prod.splits)
    have ids: "encKeyID k = g_EncRootKeyID cfg" "lookupKeyID k = g_LookupRootKeyID cfg"
      using NewKeys_fields(1,2) [OF s(5)] NewRoot_Inr [OF s(3)] NewRoot_Inr [OF s(4)] by auto
    have "s_keys st' = Some k" using s(7) by (simp add: SetKeys_def)
    with EnsureCryptoEpochs_Inr [OF s(6)] s(7) ids have "keysReady cfg st' (w_db w')" by (simp add: keysReady_def SetKeys_def)
    moreover have "st' = st\<lparr>s_keys := Some k\<rparr>" using s(7) by (simp add: SetKeys_def)
    ultimately show ?thesis by blast
  qed
  then show "\<exists>ks. st' = st\<lparr>s_keys := ks\<rparr>" "g_EncRootSecret cfg \<noteq> '''' \<Longrightarrow> keysReady cfg st' (w_db w')" by blast+
qed

lemma LoadConfigFile_checked: "LoadConfigFile env parseURI file = Inr cs \<Longrightarrow> \<exists>entries. LoadConfig parseURI entries = Inr cs"
  by (auto simp: LoadConfigFile_def split: sum.splits YamlDoc.splits option.splits if_splits)

text \<open>A client of the registry is an accepted entry of the client file, on a channel that is enabled.\<close>

definition configured :: "StartEnv \<Rightarrow> Config \<Rightarrow> string \<Rightarrow> Model \<Rightarrow> bool" where
  "configured env cfg cid m \<longleftrightarrow>
     (\<exists>file cs c. sx_clientFile env (g_ClientConfigPath cfg) = Some file \<and> LoadConfigFile (sx_yaml env) (sx_parseURI env) file = Inr cs
        \<and> c \<in> set cs \<and> e_ClientID c = cid \<and> m = modelOfEntry c \<and> \<not> IsCIMDClientID (sx_parseURI env) cid
        \<and> (c_LoginChannel m = ''mcp'' \<longrightarrow> g_EnableMCP cfg))"

lemma loadClients_Inr:
  assumes "loadClientConfigIfPresent env cfg st = Inr (st', origins)" "s_registry st = NewRegistry"
  shows "\<exists>reg. st' = st\<lparr>s_registry := reg\<rparr> \<and> policy reg = None
    \<and> (\<forall>cid m. CoreResolver reg cid = Inr m \<longrightarrow> configured env cfg cid m)"
proof (cases "\<exists>file cs. g_ClientConfigPath cfg \<noteq> '''' \<and> sx_clientFile env (g_ClientConfigPath cfg) = Some file
    \<and> LoadConfigFile (sx_yaml env) (sx_parseURI env) file = Inr cs")
  case False
  then have "st' = st\<lparr>s_registry := NewRegistry\<rparr>"
    using assms by (auto simp: loadClientConfigIfPresent_def split: if_splits option.splits sum.splits)
  then show ?thesis by (intro exI [of _ NewRegistry]) (simp add: NewRegistry_def CoreResolver_def)
next
  case True
  then obtain fl cs where f: "g_ClientConfigPath cfg \<noteq> ''''" "sx_clientFile env (g_ClientConfigPath cfg) = Some fl"
      "LoadConfigFile (sx_yaml env) (sx_parseURI env) fl = Inr cs" by blast
  with assms have v: "ValidateChannels cs (g_EnableMCP cfg) = None" "st' = LoadClients (sx_parseURI env) st cs"
    by (auto simp: loadClientConfigIfPresent_def split: option.splits)
  let ?reg = "Load (sx_parseURI env) NewRegistry cs"
  from LoadConfigFile_checked [OF f(3)] obtain entries where e: "LoadConfig (sx_parseURI env) entries = Inr cs" by blast
  have "configured env cfg cid m" if r: "CoreResolver ?reg cid = Inr m" for cid m
  proof -
    from r registry_serves_config [OF e] obtain c where c: "c \<in> set cs" "e_ClientID c = cid" "m = modelOfEntry c" "\<not> IsCIMDClientID (sx_parseURI env) cid"
      by blast
    have "c_LoginChannel m = ''mcp'' \<longrightarrow> g_EnableMCP cfg"
      using v(1) c(1,3) by (auto simp: ValidateChannels_None modelOfEntry_def)
    with f c show ?thesis unfolding configured_def by blast
  qed
  moreover have "st' = st\<lparr>s_registry := ?reg\<rparr>" "policy ?reg = None"
    using v(2) assms(2) by (simp_all add: LoadClients_def NewRegistry_def)
  ultimately show ?thesis by blast
qed

lemma installMCP_fields [simp]:
  "s_keys (installMCPPolicies env hosts st) = s_keys st" "s_prims (installMCPPolicies env hosts st) = s_prims st"
  "s_refreshReuseGrace (installMCPPolicies env hosts st) = s_refreshReuseGrace st"
  "s_refreshTokenTTL (installMCPPolicies env hosts st) = s_refreshTokenTTL st"
  "s_devicePollInterval (installMCPPolicies env hosts st) = s_devicePollInterval st"
  "s_stateChecker (installMCPPolicies env hosts st) = s_stateChecker st"
  "clients (s_registry (installMCPPolicies env hosts st)) = clients (s_registry st)"
  by (simp_all add: installMCPPolicies_def SetResourceBindingPolicy_def SetClientResolutionPolicy_def SetPolicy_def Let_def split: option.split)

lemma installMCP_resolves:
  assumes "policy (s_registry st) = None" "ResolveClient (installMCPPolicies env hosts st) cid = Inr m"
  shows "CoreResolver (s_registry st) cid = Inr m
    \<or> (\<exists>hp. hosts = Some hp \<and> IsCIMDClientID (sx_parseURI env) cid \<and> sx_fetch env hp cid = Inr m)"
  using assms
  by (auto simp: installMCPPolicies_def ResolveClient_def Resolve_def SetResourceBindingPolicy_def SetClientResolutionPolicy_def SetPolicy_def
      Let_def mcpResolveClient_def split: option.splits sum.splits if_splits)

lemma installMCP_binding:
  assumes "s_resourcePolicy st = coreResourceBindingPolicy"
    and "ValidateTokenRequest (s_resourcePolicy (installMCPPolicies env hosts st)) cid stored req = None"
  shows "req = stored"
proof (cases hosts)
  case None
  with assms core_binding.accepts_stored show ?thesis by (auto simp: installMCPPolicies_def coreResourceBindingPolicy_def)
next
  case (Some hp)
  with assms(2) show ?thesis
    by (intro mcp_binding.accepts_stored [of "Some (CoreResolver (s_registry st))" cid])
       (simp add: installMCPPolicies_def SetResourceBindingPolicy_def SetClientResolutionPolicy_def mcpResourceBindingPolicy_def Let_def)
qed

section \<open>Properties\<close>

text \<open>C36: A server that gets to serve is soundly composed. Its configuration satisfies all bounds; the key that
  signs its tokens is in the key set it publishes; the reuse grace of refresh tokens is at most a minute, and
  the cleanup keeps family tombstones by the lifetime the storage gives refresh tokens; only active accounts
  pass its state check. Outside development mode its field keys are those of the configured roots
  and the database's active key epochs carry their verification tags. Its static clients are accepted
  entries of the client file, none on the MCP channel unless MCP is enabled; any other client it
  resolves is a CIMD client, fetched under the configured host policy with MCP enabled; and a token
  request is only accepted for the resource bound at authorization. The login services work on that same
  storage, and the MCP login exists exactly if MCP is enabled. The polling interval that devices are told is the
  one that is enforced. Every upstream provider of the server uses PKCE and nonces, sends its cookies over TLS only
  outside development mode and has a timeout; a callback over it only gives an identity that was exchanged
  for the nonce in the browser's own cookie.\<close>

theorem startup_sound:
  assumes "run_state (Run env) w = (Inr sv, w')"
  shows "config_ok (sx_env env) (sv_config sv)
    \<and> published (sv_signing sv)
    \<and> 0 \<le> s_refreshReuseGrace (sv_store sv) \<and> s_refreshReuseGrace (sv_store sv) \<le> 60 * second
    \<and> (0 < s_refreshTokenTTL (sv_store sv) \<longrightarrow> cs_refreshTokenTTL (sv_cleanup sv) = s_refreshTokenTTL (sv_store sv))
    \<and> s_stateChecker (sv_store sv) = Some newStateChecker
    \<and> (\<not> g_DevMode (sv_config sv) \<longrightarrow> keysReady (sv_config sv) (sv_store sv) (w_db w'))
    \<and> (\<forall>cid m. ResolveClient (sv_store sv) cid = Inr m \<longrightarrow>
         configured env (sv_config sv) cid m
         \<or> g_EnableMCP (sv_config sv) \<and> IsCIMDClientID (sx_parseURI env) cid
             \<and> (\<exists>hp. mcpHostPolicy (sv_config sv) = Inr (Some hp) \<and> sx_fetch env hp cid = Inr m))
    \<and> (\<forall>cid stored req. ValidateTokenRequest (s_resourcePolicy (sv_store sv)) cid stored req = None \<longrightarrow> req = stored)
    \<and> ls_store (sv_login sv) = sv_store sv \<and> dv_store (sv_device sv) = sv_store sv
    \<and> (sv_mcp sv = None \<longleftrightarrow> \<not> g_EnableMCP (sv_config sv))
    \<and> s_devicePollInterval (sv_store sv) = oc_PollInterval (buildOPConfig (sx_sha256 env) (sv_config sv))
    \<and> (\<forall>p \<in> set (upstreams sv). guardedUpstream (sv_config sv) p
         \<and> (\<forall>up r cookies state info. upstreamCallback (providedBy p up) r = (cookies, Inr (state, info)) \<longrightarrow>
              (\<exists>nonce claims ui. ue_check up r (od_nonceCookieName p) = Some nonce \<and> nonce \<noteq> ''''
                \<and> ue_exchange up r (Some nonce) = Inr (state, claims, ui) \<and> info = mapUserInfo claims ui)))"
proof -
  from assms obtain cfg parts st0 signing hosts st1 st2 origins trusted where c: "configLoad (sx_env env) = Inr cfg"
    and b: "mustBuildStore env cfg = Inr (st0, signing, hosts)" and m: "run_state (mustSetupCrypto cfg st0) w = (Inr st1, w')"
    and p: "buildHandlers env cfg signing = Inr parts" and l: "loadClientConfigIfPresent env cfg st1 = Inr (st2, origins)"
    and sv: "sv = runningServer env cfg parts (installMCPPolicies env hosts st2) signing origins trusted"
    by (rule run_Run)
  note ok = configLoad_ok [OF c] and built = mustBuildStore_Inr [OF b]
  from mustSetupCrypto_Inr(1) [OF m] obtain ks where st1: "st1 = st0\<lparr>s_keys := ks\<rparr>" by blast
  with built(6) have "s_registry st1 = NewRegistry" by simp
  from loadClients_Inr [OF l this] obtain reg where st2: "st2 = st1\<lparr>s_registry := reg\<rparr>" and reg: "policy reg = None"
      "\<And>cid m. CoreResolver reg cid = Inr m \<Longrightarrow> configured env cfg cid m" by blast
  have keys: "\<not> g_DevMode cfg \<longrightarrow> keysReady cfg (installMCPPolicies env hosts st2) (w_db w')"
  proof
    assume "\<not> g_DevMode cfg"
    with ok have "g_EncRootSecret cfg \<noteq> ''''" by (simp add: config_ok_def missingRoot_def)
    from mustSetupCrypto_Inr(2) [OF m this] show "keysReady cfg (installMCPPolicies env hosts st2) (w_db w')"
      by (simp add: keysReady_def epochFor_def st2)
  qed
  have resolves: "configured env cfg cid mdl \<or> g_EnableMCP cfg \<and> IsCIMDClientID (sx_parseURI env) cid
       \<and> (\<exists>hp. mcpHostPolicy cfg = Inr (Some hp) \<and> sx_fetch env hp cid = Inr mdl)"
    if r: "ResolveClient (installMCPPolicies env hosts st2) cid = Inr mdl" for cid mdl
  proof -
    have "policy (s_registry st2) = None" using st2 reg(1) by simp
    from installMCP_resolves [OF this r] show ?thesis
    proof
      assume "CoreResolver (s_registry st2) cid = Inr mdl"
      then show ?thesis using reg(2) st2 by simp
    next
      assume "\<exists>hp. hosts = Some hp \<and> IsCIMDClientID (sx_parseURI env) cid \<and> sx_fetch env hp cid = Inr mdl"
      then obtain hp where hp: "hosts = Some hp" "IsCIMDClientID (sx_parseURI env) cid" "sx_fetch env hp cid = Inr mdl" by blast
      with built(2) have "g_EnableMCP cfg" by (auto simp: mcpHostPolicy_def split: if_splits)
      with hp built(2) show ?thesis by blast
    qed
  qed
  have bind: "req = stored" if "ValidateTokenRequest (s_resourcePolicy (installMCPPolicies env hosts st2)) cid stored req = None" for cid stored req
    using that by (rule installMCP_binding [rotated]) (simp add: st1 st2 built(7))
  have grace: "0 \<le> g_RefreshTokenReuseGrace cfg" "g_RefreshTokenReuseGrace cfg \<le> 60 * second" using ok by (simp_all add: config_ok_def)
  have timeout: "0 < g_OIDCHTTPTimeout cfg" using ok by (simp add: config_ok_def)
  have up: "\<forall>p \<in> set (upstreams sv). guardedUpstream cfg p"
    using buildHandlers_guarded [OF p timeout] by (auto simp: sv runningServer_def upstreams_def split: option.splits)
  have calls: "\<forall>p \<in> set (upstreams sv). guardedUpstream cfg p
      \<and> (\<forall>u r cookies state info. upstreamCallback (providedBy p u) r = (cookies, Inr (state, info)) \<longrightarrow>
           (\<exists>nonce claims ui. ue_check u r (od_nonceCookieName p) = Some nonce \<and> nonce \<noteq> ''''
             \<and> ue_exchange u r (Some nonce) = Inr (state, claims, ui) \<and> info = mapUserInfo claims ui))"
    using up guarded_callback by blast
  show ?thesis
    unfolding sv runningServer_def using ok built grace keys resolves bind buildHandlers_mcp [OF p] calls [unfolded sv runningServer_def]
    by (simp add: st1 st2 startCleanupService_def SetRefreshTokenTTL_def NewLoginService_def NewDeviceService_def buildOPConfig_def)
qed

text \<open>An example: a development server with a fresh key, no client file and MCP enabled.\<close>

definition exampleStartEnv :: StartEnv where
  "exampleStartEnv = \<lparr>sx_env = exampleEnv, sx_base = exampleStorage, sx_signing = exampleSigning, sx_bundleFile = (\<lambda>_. Inl ErrDb),
     sx_keyFile = (\<lambda>_. FileMissing), sx_generate = Inr examplePrivate, sx_encode = (\<lambda>_. ''''), sx_written = True,
     sx_yaml = \<lparr>ye_document = (\<lambda>_. YEmpty), ye_marshal = (\<lambda>_. Inl ErrDb), ye_rules = (\<lambda>_. RulesEOF)\<rparr>, sx_clientFile = (\<lambda>_. None), sx_parseURI = (\<lambda>_. None),
     sx_parseOrigin = (\<lambda>_. None), sx_fetch = (\<lambda>_ _. Inl clientNotFound), sx_ip = exampleIPs,
     sx_openDB = (\<lambda>_. Inr ()), sx_pingDB = (\<lambda>_. Inr ()), sx_listen = (\<lambda>_. Inr ()), sx_migrate = Inr (), sx_opProvider = (\<lambda>_ _ _. Inr ()), sx_relyingParty = (\<lambda>_. Inr ''https://accounts.example''),
     sx_sha256 = (\<lambda>s. s), sx_parseInternal = (\<lambda>_. None), sx_parseHost = (\<lambda>_. Some ''accounts.example''),
     sx_parseURL = (\<lambda>_. None), sx_logoFile = (\<lambda>_. Inl ErrDb)\<rparr>"

lemma exampleStart_config:
  "g_EncRootSecret (clampIdle exampleConfig) = ''''" "g_SigningKeyPath (clampIdle exampleConfig) = ''signing_key.pem''"
  "g_SigningKeyBundlePath (clampIdle exampleConfig) = ''''" "g_EnableMCP (clampIdle exampleConfig)"
  "g_MCPCIMDHostAllowlist (clampIdle exampleConfig) = None" "g_TrustedProxies (clampIdle exampleConfig) = ''''"
  "g_MetricsAddr (clampIdle exampleConfig) = ''''" "g_BrandLogoPath (clampIdle exampleConfig) = ''''" "g_BrandPrimaryColor (clampIdle exampleConfig) = ''''"
  unfolding clampIdle_def readConfig_def
  by (simp_all add: exampleEnv_get envBool_def envCommaList_def goTrimSpace_def)

lemma exampleStart_hosts: "\<exists>hp. mcpHostPolicy (clampIdle exampleConfig) = Inr (Some hp)"
proof -
  have "NewCIMDHostPolicy DefaultCIMDHosts = Inr \<lparr>hp_any = False, hp_hosts = set DefaultCIMDHosts\<rparr>"
  proof -
    have "Valid ''claude.ai''" "Valid ''chatgpt.com''" "asciiLower ''claude.ai'' = ''claude.ai''" "asciiLower ''chatgpt.com'' = ''chatgpt.com''"
      by code_simp+
    then show ?thesis by (simp add: NewCIMDHostPolicy_def DefaultCIMDHosts_def AnyCIMDHost_def)
  qed
  then show ?thesis by (simp add: mcpHostPolicy_def exampleStart_config)
qed

lemma exampleStart_runs: "\<exists>sv. run_state (Run exampleStartEnv) w = (Inr sv, w)"
proof -
  let ?cfg = "clampIdle exampleConfig"
  have env: "sx_env exampleStartEnv = exampleEnv" "sx_clientFile exampleStartEnv p = None" for p by (simp_all add: exampleStartEnv_def)
  obtain hp where hp: "mcpHostPolicy ?cfg = Inr (Some hp)" using exampleStart_hosts by blast
  have "\<exists>p. configureSigningKey exampleStartEnv ?cfg emptyProvider = Inr p"
    by (simp add: configureSigningKey_def exampleStart_config exampleStartEnv_def LoadOrGenerateKey_def SetCurrent_def requireLegacyMode_def
        emptyProvider_def goTrimSpace_eq_Nil isGoSpace_def)
  then obtain st0 p where b: "mustBuildStore exampleStartEnv ?cfg = Inr (st0, p, Some hp)" using hp by (auto simp: mustBuildStore_def Let_def)
  have "loadClientConfigIfPresent exampleStartEnv ?cfg st0 = Inr (st0, [])" by (simp add: loadClientConfigIfPresent_def env)
  moreover have "\<exists>parts. buildHandlers exampleStartEnv ?cfg p = Inr parts"
    by (simp add: buildHandlers_def buildOIDCProvider_def mustBuildUpstreamProvider_def NewOIDCProvider_def exampleStartEnv_def exampleStart_config LoadBrand_def Let_def)
  moreover have "sx_migrate exampleStartEnv = Inr ()" "mustOpenDB exampleStartEnv ?cfg = Inr ()" by (simp_all add: exampleStartEnv_def mustOpenDB_def)
  moreover have "startMetricsServer exampleStartEnv ?cfg = Inr ()" by (simp add: startMetricsServer_def exampleStart_config)
  moreover have "ParseTrustedProxies (sx_ip exampleStartEnv) '''' = Inr []" by (simp add: ParseTrustedProxies_def goTrimSpace_def)
  ultimately show ?thesis
    by (auto simp: Run_def run_attempt env exampleEnv_config b mustSetupCrypto_def exampleStart_config)
qed

theorem startup_sound_witness:
  "\<exists>sv w'. run_state (Run exampleStartEnv) (exampleWorld emptyDb) = (Inr sv, w') \<and> config_ok exampleEnv (sv_config sv) \<and> published (sv_signing sv)"
proof -
  obtain sv where run: "run_state (Run exampleStartEnv) (exampleWorld emptyDb) = (Inr sv, exampleWorld emptyDb)" using exampleStart_runs by blast
  from startup_sound [OF run] run show ?thesis by (auto simp: exampleStartEnv_def)
qed

end
