(* ===== verification/Token_Boundary.thy ===== *)
theory Token_Boundary
  imports Users Signing
begin

text \<open>
  Tokens at the HTTP boundary. \<^verbatim>\<open>internal/middleware/access_token_typ.go\<close> rewrites the answers of the
  token endpoint to the access-token profile; \<^verbatim>\<open>internal/storage/access_token_validation.go\<close> guards
  the userinfo and introspection endpoints, whose storage side is in \<^verbatim>\<open>storage_oidc_device.go\<close>.
  Parameters: JSON decoding and encoding, JWS parsing, verification and signing (\<^verbatim>\<open>go-jose\<close>, the
  provider library), \<^verbatim>\<open>bcrypt\<close>, and the handler that is wrapped.
\<close>

section \<open>The token endpoint\<close>

text \<open>
  \<open>te_object\<close> is \<^verbatim>\<open>json.Unmarshal\<close> into a map of raw members, \<open>te_claims\<close> into a map of values,
  \<open>te_marshal\<close> is \<^verbatim>\<open>json.Marshal\<close> of a map. \<open>te_sign\<close> signs a payload under a \<open>typ\<close> header and
  \<open>te_claimHash\<close> is \<^verbatim>\<open>oidc.ClaimHash\<close>.
\<close>

record TokenEnv =
  te_object :: "string \<Rightarrow> (string \<rightharpoonup> json) option"
  te_claims :: "string \<Rightarrow> (string \<rightharpoonup> json) option"
  te_marshal :: "(string \<rightharpoonup> json) \<Rightarrow> err + string"
  te_sign :: "signingKeyModel \<Rightarrow> string \<Rightarrow> string \<Rightarrow> err + string"
  te_claimHash :: "string \<Rightarrow> string \<Rightarrow> err + string"

definition errSkipUpgrade :: err where "errSkipUpgrade = ErrMsg ''access_token typ upgrade skipped''"
definition errBadJSON :: err where "errBadJSON = ErrMsg ''json''"
definition errBadBase64 :: err where "errBadBase64 = ErrMsg ''base64''"

definition jsString :: "json option \<Rightarrow> string option" where
  "jsString v = (case v of Some (JsString s) \<Rightarrow> Some s | _ \<Rightarrow> None)"

text \<open>Unmarshalling a raw member into a Go string: null leaves it empty.\<close>

definition rawString :: "json \<Rightarrow> string option" where
  "rawString v = (case v of JsString s \<Rightarrow> Some s | JsNull \<Rightarrow> Some '''' | _ \<Rightarrow> None)"

definition withScopeClaim :: "TokenEnv \<Rightarrow> string \<Rightarrow> (string \<rightharpoonup> json) \<Rightarrow> err + string" where
  "withScopeClaim env payload tokenResponse =
     (case tokenResponse ''scope'' of None \<Rightarrow> Inr payload
      | Some rawScope \<Rightarrow>
        (case rawString rawScope of None \<Rightarrow> Inl errBadJSON
        | Some scope \<Rightarrow>
            if goTrimSpace scope = '''' then Inr payload
            else (case te_claims env payload of None \<Rightarrow> Inl errBadJSON
            | Some claims \<Rightarrow>
                if (case jsString (claims ''scope'') of Some existing \<Rightarrow> goTrimSpace existing \<noteq> '''' | None \<Rightarrow> False) then Inr payload
                else te_marshal env (claims(''scope'' \<mapsto> JsString scope)))))"

definition rebindIDTokenAtHash ::
  "TokenEnv \<Rightarrow> signingKeyModel \<Rightarrow> (string \<rightharpoonup> json) \<Rightarrow> string \<Rightarrow> err + (string \<rightharpoonup> json)" where
  "rebindIDTokenAtHash env sk resp accessToken =
     (case resp ''id_token'' of None \<Rightarrow> Inr resp
      | Some rawIDT \<Rightarrow>
        (case rawString rawIDT of None \<Rightarrow> Inl errBadJSON
        | Some idToken \<Rightarrow>
          (let parts = goSplit CHR ''.'' idToken in
           if length parts \<noteq> 3 then Inr resp
           else (case rawURLDecode False (parts ! 1) of None \<Rightarrow> Inl errBadBase64
           | Some payload \<Rightarrow>
             (case te_claims env payload of None \<Rightarrow> Inl errBadJSON
             | Some claims \<Rightarrow>
                 if claims ''at_hash'' = None then Inr resp
                 else (case te_claimHash env accessToken (sm_algorithm sk) of Inl e \<Rightarrow> Inl e
                 | Inr atHash \<Rightarrow>
                   (case te_marshal env (claims(''at_hash'' \<mapsto> JsString atHash)) of Inl e \<Rightarrow> Inl e
                   | Inr repacked \<Rightarrow>
                     (case te_sign env sk repacked ''JWT'' of Inl e \<Rightarrow> Inl e
                     | Inr resigned \<Rightarrow> Inr (resp(''id_token'' \<mapsto> JsString resigned))))))))))"

definition upgradeAccessTokenTyp :: "TokenEnv \<Rightarrow> err + signingKeyModel \<Rightarrow> string \<Rightarrow> err + string" where
  "upgradeAccessTokenTyp env signingKey body =
     (case te_object env body of None \<Rightarrow> Inl errBadJSON
      | Some resp \<Rightarrow>
        (case resp ''access_token'' of None \<Rightarrow> Inl errSkipUpgrade
        | Some rawAT \<Rightarrow>
          (case rawString rawAT of None \<Rightarrow> Inl errBadJSON
          | Some token \<Rightarrow>
            (let parts = goSplit CHR ''.'' token in
             if length parts \<noteq> 3 then Inl errSkipUpgrade
             else (case rawURLDecode False (parts ! 0) of None \<Rightarrow> Inl errBadBase64
             | Some headerJSON \<Rightarrow>
               (case te_claims env headerJSON of None \<Rightarrow> Inl errBadJSON
               | Some header \<Rightarrow>
                   if jsString (header ''typ'') = Some ''at+jwt'' then Inr body
                   else (case rawURLDecode False (parts ! 1) of None \<Rightarrow> Inl errBadBase64
                   | Some payload0 \<Rightarrow>
                     (case withScopeClaim env payload0 resp of Inl e \<Rightarrow> Inl e
                     | Inr payload \<Rightarrow>
                       (case signingKey of Inl e \<Rightarrow> Inl e
                       | Inr sk \<Rightarrow>
                         (case te_sign env sk payload ''at+jwt'' of Inl e \<Rightarrow> Inl e
                         | Inr rewritten \<Rightarrow>
                           (case rebindIDTokenAtHash env sk (resp(''access_token'' \<mapsto> JsString rewritten)) rewritten of Inl e \<Rightarrow> Inl e
                           | Inr resp' \<Rightarrow> te_marshal env resp')))))))))))"

text \<open>The recorded answer of the wrapped handler and what is sent instead.\<close>

record Recorded =
  rc_code :: nat
  rc_header :: "string \<rightharpoonup> string"
  rc_body :: string

definition serverErrorBody :: string where "serverErrorBody = ''{\"error\":\"server_error\"}''"

definition WrapAccessTokenJWTType :: "TokenEnv \<Rightarrow> err + signingKeyModel \<Rightarrow> Recorded \<Rightarrow> Recorded" where
  "WrapAccessTokenJWTType env signingKey r =
     (let r1 = (if rc_code r = 200 \<and> rc_body r \<noteq> '''' then
                  (case upgradeAccessTokenTyp env signingKey (rc_body r) of
                     Inr upgraded \<Rightarrow> r\<lparr>rc_body := upgraded\<rparr>
                   | Inl e \<Rightarrow> r\<lparr>rc_code := 500, rc_body := serverErrorBody, rc_header := (rc_header r)(''Content-Type'' \<mapsto> ''application/json'')\<rparr>)
                else r)
      in r1\<lparr>rc_header := (rc_header r1)(''ETag'' := None, ''Content-Digest'' := None, ''Repr-Digest'' := None,
              ''Content-Length'' := Some (showNat (length (rc_body r1))))\<rparr>)"

section \<open>The userinfo and introspection endpoints\<close>

record AccessTokenClaims =
  tc_Issuer :: string
  tc_Subject :: string
  tc_Audience :: "string list"
  tc_ClientID :: string
  tc_JWTID :: string
  tc_Scopes :: "string list"
  tc_Expiration :: time
  tc_IssuedAt :: time
  tc_NotBefore :: time

text \<open>
  \<open>ve_parse\<close>: the \<open>typ\<close> headers of the signatures of a compact JWS whose algorithms are RS256;
  \<open>ve_verify\<close>: signature, issuer and expiry, with RS256 as the only algorithm.
\<close>

record VerifyEnv =
  ve_parse :: "string \<Rightarrow> string list option"
  ve_verify :: "string \<Rightarrow> err + AccessTokenClaims"

definition verifyAccessTokenProfile :: "VerifyEnv \<Rightarrow> time \<Rightarrow> string \<Rightarrow> err + AccessTokenClaims" where
  "verifyAccessTokenProfile env now token =
     (case ve_parse env token of
        Some [typ] \<Rightarrow>
          if typ \<noteq> ''at+jwt'' \<and> typ \<noteq> ''application/at+jwt'' then Inl (ErrMsg ''invalid access token type'')
          else (case ve_verify env token of Inl e \<Rightarrow> Inl e
          | Inr claims \<Rightarrow>
              if tc_Issuer claims = '''' \<or> tc_Subject claims = '''' \<or> tc_ClientID claims = '''' \<or> tc_JWTID claims = ''''
                 \<or> length (tc_Audience claims) = 0 \<or> '''' \<in> set (tc_Audience claims) \<or> timeIsZero (tc_Expiration claims)
                 \<or> timeIsZero (tc_IssuedAt claims) \<or> now < tc_IssuedAt claims \<or> now < tc_NotBefore claims
              then Inl (ErrMsg ''invalid access token claims'') else Inr claims)
      | _ \<Rightarrow> Inl (ErrMsg ''invalid access token signature header''))"

text \<open>
  What the guard does with a request: it lets it through, with the verified claims in its context
  where there are any, or answers it. \<open>bearer\<close> and \<open>formToken\<close> are the token of the request as the
  provider parses it for userinfo and as the form carries it for introspection.
\<close>

datatype Guarded = Serve "AccessTokenClaims option" | Refuse401 | Refuse403

record BoundaryRequest =
  br_path :: string
  br_bearer :: "err + string"
  br_formToken :: "err + string"

definition WrapVerifiedAccessToken :: "VerifyEnv \<Rightarrow> bool \<Rightarrow> time \<Rightarrow> BoundaryRequest \<Rightarrow> Guarded" where
  "WrapVerifiedAccessToken env supported now r =
     (let userinfo = (br_path r = ''/userinfo'') in
      if \<not> userinfo \<and> br_path r \<noteq> ''/oauth/introspect'' then Serve None
      else (let claims = (if \<not> supported then None
                 else (case (if userinfo then br_bearer r else br_formToken r) of Inl _ \<Rightarrow> None
                   | Inr token \<Rightarrow> (case verifyAccessTokenProfile env now token of Inl _ \<Rightarrow> None | Inr c \<Rightarrow> Some c))) in
        if userinfo then
          (case claims of None \<Rightarrow> Refuse401
           | Some c \<Rightarrow>
               if tc_ClientID c \<notin> set (tc_Audience c) then Refuse401
               else if ''openid'' \<notin> set (tc_Scopes c) then Refuse403
               else Serve claims)
        else Serve claims))"

definition verifiedTokenClaims :: "AccessTokenClaims option \<Rightarrow> string \<Rightarrow> string \<Rightarrow> err + AccessTokenClaims" where
  "verifiedTokenClaims ctx tokenID subject =
     (case ctx of None \<Rightarrow> Inl (ErrMsg ''verified access token required'')
      | Some claims \<Rightarrow>
          if tc_JWTID claims \<noteq> tokenID \<or> tc_Subject claims \<noteq> subject then Inl (ErrMsg ''verified access token required'') else Inr claims)"

definition SetUserinfoFromScopes :: "Storage \<Rightarrow> UserInfo \<Rightarrow> string \<Rightarrow> string \<Rightarrow> string list \<Rightarrow> UserInfo act" where
  "SetUserinfoFromScopes st info userID clientID scopes = setUserinfo st info userID scopes"

definition SetUserinfoFromToken :: "Storage \<Rightarrow> AccessTokenClaims option \<Rightarrow> UserInfo \<Rightarrow> string \<Rightarrow> string \<Rightarrow> UserInfo act" where
  "SetUserinfoFromToken st ctx info tokenID subject =
     attempt (liftE (verifiedTokenClaims ctx tokenID subject)) (\<lambda>claims. setUserinfo st info subject (tc_Scopes claims))"

record IntrospectionResponse =
  ir_UserInfo :: UserInfo
  ir_Subject :: string
  ir_Scope :: "string list"
  ir_ClientID :: string
  ir_TokenType :: string
  ir_Expiration :: time
  ir_IssuedAt :: time
  ir_NotBefore :: time
  ir_Audience :: "string list"
  ir_Issuer :: string
  ir_JWTID :: string

definition emptyUserInfo :: UserInfo where
  "emptyUserInfo = \<lparr>i_Subject = '''', i_Email = '''', i_EmailVerified = False, i_Name = ''''\<rparr>"

definition SetIntrospectionFromToken :: "Storage \<Rightarrow> AccessTokenClaims option \<Rightarrow> string \<Rightarrow> string \<Rightarrow> string \<Rightarrow> IntrospectionResponse act" where
  "SetIntrospectionFromToken st ctx tokenID subject clientID =
     attempt (liftE (verifiedTokenClaims ctx tokenID subject)) (\<lambda>claims.
     if tc_ClientID claims \<noteq> clientID then fail (ErrMsg ''token belongs to another client'')
     else attempt (setUserinfo st emptyUserInfo subject (tc_Scopes claims)) (\<lambda>ui.
       ok \<lparr>ir_UserInfo = ui, ir_Subject = tc_Subject claims, ir_Scope = tc_Scopes claims, ir_ClientID = tc_ClientID claims,
           ir_TokenType = ''Bearer'', ir_Expiration = tc_Expiration claims, ir_IssuedAt = tc_IssuedAt claims,
           ir_NotBefore = tc_NotBefore claims, ir_Audience = tc_Audience claims, ir_Issuer = tc_Issuer claims, ir_JWTID = tc_JWTID claims\<rparr>))"

section \<open>Client authentication\<close>

definition GetClientByClientID :: "Storage \<Rightarrow> string \<Rightarrow> err + Model" where
  "GetClientByClientID st clientID =
     (case ResolveClient st clientID of
        Inl e \<Rightarrow> Inl (if errIs e ErrNotFound then OidcError ''invalid_client'' '''' (Some e) else e)
      | Inr client \<Rightarrow> Inr client)"

text \<open>\<open>bcrypt hash secret\<close> is the comparison of \<^verbatim>\<open>golang.org/x/crypto/bcrypt\<close>.\<close>

definition AuthorizeClientIDSecret :: "(string \<Rightarrow> string \<Rightarrow> bool) \<Rightarrow> Storage \<Rightarrow> string \<Rightarrow> string \<Rightarrow> err option" where
  "AuthorizeClientIDSecret bcrypt st clientID clientSecret =
     (case ResolveClient st clientID of Inl _ \<Rightarrow> Some ErrNotFound
      | Inr client \<Rightarrow>
          (case c_SecretHash client of None \<Rightarrow> Some (ErrMsg ''public client cannot use client_secret'')
           | Some h \<Rightarrow> if bcrypt h clientSecret then None else Some (ErrMsg ''bcrypt mismatch'')))"

section \<open>Correctness of the rewriting\<close>

text \<open>The parts of a compact JWS, decoded, and the claims of the part that is asked for.\<close>

definition jwsRaw :: "nat \<Rightarrow> string \<Rightarrow> string option" where
  "jwsRaw i token = (if length (goSplit CHR ''.'' token) \<noteq> 3 then None else rawURLDecode False (goSplit CHR ''.'' token ! i))"

definition jwsPart :: "TokenEnv \<Rightarrow> nat \<Rightarrow> string \<Rightarrow> (string \<rightharpoonup> json) option" where
  "jwsPart env i token = Option.bind (jwsRaw i token) (te_claims env)"

definition memberString :: "(string \<rightharpoonup> json) \<Rightarrow> string \<Rightarrow> string option" where
  "memberString resp k = Option.bind (resp k) rawString"

text \<open>
  The payload that is signed anew: the payload as it was issued, unless the answer names a scope and
  the payload has none of its own; then its claims with that scope and no other change.
\<close>

definition ownScope :: "(string \<rightharpoonup> json) \<Rightarrow> bool" where
  "ownScope claims \<longleftrightarrow> (\<exists>s. claims ''scope'' = Some (JsString s) \<and> goTrimSpace s \<noteq> '''')"

definition scopedPayload :: "TokenEnv \<Rightarrow> (string \<rightharpoonup> json) \<Rightarrow> string \<Rightarrow> string \<Rightarrow> bool" where
  "scopedPayload env resp payload payload' \<longleftrightarrow>
     resp ''scope'' = None \<and> payload' = payload
   \<or> (\<exists>scope. memberString resp ''scope'' = Some scope
        \<and> (goTrimSpace scope = '''' \<and> payload' = payload
         \<or> goTrimSpace scope \<noteq> '''' \<and> (\<exists>claims. te_claims env payload = Some claims
             \<and> (ownScope claims \<and> payload' = payload
              \<or> \<not> ownScope claims \<and> te_marshal env (claims(''scope'' \<mapsto> JsString scope)) = Inr payload'))))"

text \<open>
  The id token of an answer: one that has an \<open>at_hash\<close> is signed anew with the hash of the access
  token and no other change; one that has none, or is no JWS, stays.
\<close>

definition boundTo :: "TokenEnv \<Rightarrow> signingKeyModel \<Rightarrow> (string \<rightharpoonup> json) \<Rightarrow> string \<Rightarrow> string \<Rightarrow> bool" where
  "boundTo env sk claims accessToken idt \<longleftrightarrow>
     (\<exists>h payload. te_claimHash env accessToken (sm_algorithm sk) = Inr h
        \<and> te_marshal env (claims(''at_hash'' \<mapsto> JsString h)) = Inr payload \<and> te_sign env sk payload ''JWT'' = Inr idt)"

definition idTokenAfter :: "TokenEnv \<Rightarrow> signingKeyModel \<Rightarrow> string \<Rightarrow> (string \<rightharpoonup> json) \<Rightarrow> json option \<Rightarrow> bool" where
  "idTokenAfter env sk accessToken resp new \<longleftrightarrow>
     resp ''id_token'' = None \<and> new = None
   \<or> (\<exists>idt. memberString resp ''id_token'' = Some idt \<and> length (goSplit CHR ''.'' idt) \<noteq> 3 \<and> new = resp ''id_token'')
   \<or> (\<exists>idt claims. memberString resp ''id_token'' = Some idt \<and> jwsPart env 1 idt = Some claims
        \<and> (claims ''at_hash'' = None \<and> new = resp ''id_token''
         \<or> claims ''at_hash'' \<noteq> None \<and> (\<exists>idt'. boundTo env sk claims accessToken idt' \<and> new = Some (JsString idt'))))"

lemma withScope_iff: "withScopeClaim env payload resp = Inr payload' \<longleftrightarrow> scopedPayload env resp payload payload'"
  by (auto simp: withScopeClaim_def scopedPayload_def memberString_def ownScope_def jsString_def
      split: option.splits json.splits)

lemma rebind_iff:
  "rebindIDTokenAtHash env sk resp at = Inr resp' \<longleftrightarrow> (\<exists>new. idTokenAfter env sk at resp new \<and> resp' = resp(''id_token'' := new))"
proof (cases "memberString resp ''id_token''")
  case None
  then show ?thesis
    by (auto simp: rebindIDTokenAtHash_def idTokenAfter_def memberString_def fun_upd_idem split: option.splits)
next
  case (Some idt)
  then obtain raw where raw: "resp ''id_token'' = Some raw" "rawString raw = Some idt" by (auto simp: memberString_def bind_eq_Some_conv)
  show ?thesis
  proof (cases "jwsPart env 1 idt")
    case None
    with Some raw show ?thesis
      by (auto simp: rebindIDTokenAtHash_def idTokenAfter_def jwsPart_def jwsRaw_def fun_upd_idem split: option.splits if_splits)
  next
    case (Some claims)
    then obtain payload where p: "length (goSplit CHR ''.'' idt) = 3" "rawURLDecode False (goSplit CHR ''.'' idt ! 1) = Some payload"
        "te_claims env payload = Some claims"
      by (auto simp: jwsPart_def jwsRaw_def bind_eq_Some_conv split: if_splits)
    from raw have m: "memberString resp ''id_token'' = Some idt" by (simp add: memberString_def)
    have after: "idTokenAfter env sk at resp new \<longleftrightarrow>
        (if claims ''at_hash'' = None then new = Some raw else \<exists>idt'. boundTo env sk claims at idt' \<and> new = Some (JsString idt'))" for new
      using raw(1) p(1) unfolding idTokenAfter_def m Some [unfolded One_nat_def] by (auto simp: Some [unfolded One_nat_def])
    show ?thesis
      unfolding after using raw p
      by (cases "claims ''at_hash''") (auto simp: rebindIDTokenAtHash_def boundTo_def fun_upd_idem split: sum.splits)
  qed
qed

text \<open>An answer that conforms: what a token response is rewritten to.\<close>

definition profiled :: "TokenEnv \<Rightarrow> err + signingKeyModel \<Rightarrow> string \<Rightarrow> string \<Rightarrow> bool" where
  "profiled env key body body' \<longleftrightarrow>
     (\<exists>resp token header. te_object env body = Some resp \<and> memberString resp ''access_token'' = Some token \<and> jwsPart env 0 token = Some header
      \<and> (jsString (header ''typ'') = Some ''at+jwt'' \<and> body' = body
       \<or> jsString (header ''typ'') \<noteq> Some ''at+jwt''
         \<and> (\<exists>sk payload payload' at new. key = Inr sk \<and> jwsRaw 1 token = Some payload \<and> scopedPayload env resp payload payload'
              \<and> te_sign env sk payload' ''at+jwt'' = Inr at \<and> idTokenAfter env sk at resp new
              \<and> te_marshal env (resp(''access_token'' \<mapsto> JsString at, ''id_token'' := new)) = Inr body')))"

lemma idTokenAfter_upd [simp]: "idTokenAfter env sk at (resp(''access_token'' := v)) new = idTokenAfter env sk at resp new"
  by (simp add: idTokenAfter_def memberString_def)

lemma upgrade_iff: "upgradeAccessTokenTyp env key body = Inr body' \<longleftrightarrow> profiled env key body body'"
proof (cases "\<exists>resp token header. te_object env body = Some resp \<and> memberString resp ''access_token'' = Some token \<and> jwsPart env 0 token = Some header")
  case True
  then obtain resp raw token headerJSON header where r: "te_object env body = Some resp" "resp ''access_token'' = Some raw"
      "rawString raw = Some token" "length (goSplit CHR ''.'' token) = 3" "rawURLDecode False (goSplit CHR ''.'' token ! 0) = Some headerJSON"
      "te_claims env headerJSON = Some header"
    by (auto simp: memberString_def jwsPart_def jwsRaw_def bind_eq_Some_conv split: if_splits)
  have "upgradeAccessTokenTyp env key body = Inr body' \<longleftrightarrow>
      (if jsString (header ''typ'') = Some ''at+jwt'' then body' = body
       else \<exists>sk payload payload' at resp'. key = Inr sk \<and> jwsRaw 1 token = Some payload \<and> withScopeClaim env payload resp = Inr payload'
          \<and> te_sign env sk payload' ''at+jwt'' = Inr at
          \<and> rebindIDTokenAtHash env sk (resp(''access_token'' \<mapsto> JsString at)) at = Inr resp' \<and> te_marshal env resp' = Inr body')"
    using r by (auto simp: upgradeAccessTokenTyp_def Let_def jwsRaw_def split: option.splits sum.splits)
  then show ?thesis
    using r by (simp add: profiled_def memberString_def jwsPart_def jwsRaw_def withScope_iff rebind_iff) blast
next
  case False
  then have "upgradeAccessTokenTyp env key body \<noteq> Inr body'"
    by (auto simp: upgradeAccessTokenTyp_def Let_def memberString_def jwsPart_def jwsRaw_def split: option.splits if_splits)
  with False show ?thesis unfolding profiled_def by blast
qed

lemma upgrade_skips:
  assumes "te_object env body = Some resp"
    and "resp ''access_token'' = None \<or> (\<exists>token. memberString resp ''access_token'' = Some token \<and> length (goSplit CHR ''.'' token) \<noteq> 3)"
  shows "upgradeAccessTokenTyp env key body = Inl errSkipUpgrade"
  using assms by (auto simp: upgradeAccessTokenTyp_def Let_def memberString_def bind_eq_Some_conv)

lemma wrap_result:
  "rc_code (WrapAccessTokenJWTType env key r) = (if rc_code r = 200 \<and> rc_body r \<noteq> '''' \<and> isl (upgradeAccessTokenTyp env key (rc_body r)) then 500 else rc_code r)"
  "rc_body (WrapAccessTokenJWTType env key r) =
     (if rc_code r = 200 \<and> rc_body r \<noteq> '''' then (case upgradeAccessTokenTyp env key (rc_body r) of Inl _ \<Rightarrow> serverErrorBody | Inr b \<Rightarrow> b) else rc_body r)"
  by (auto simp: WrapAccessTokenJWTType_def Let_def split: sum.split)

section \<open>Properties\<close>

text \<open>C28: What leaves the token endpoint, exactly. A successful answer with a body is passed on as it is
  when its access token has the type \<open>at+jwt\<close>. Otherwise the access token is signed anew with the
  server's key under that type, over the payload it was issued with, to which the scope of the answer
  is added where the payload has no scope; an id token with an \<open>at_hash\<close> is signed anew with the hash
  of this very access token and its other claims, an id token without one stays, and no other member
  changes. Where this cannot be done, and where the answer has no access token or one that is not a
  JWS, although the code calls this case a non-failure, the answer becomes a server error that holds no
  token. Other answers keep their status and body.\<close>

theorem token_response_profile:
  "(rc_code r \<noteq> 200 \<or> rc_body r = '''' \<longrightarrow>
      rc_code (WrapAccessTokenJWTType env key r) = rc_code r \<and> rc_body (WrapAccessTokenJWTType env key r) = rc_body r)
   \<and> (rc_code r = 200 \<and> rc_body r \<noteq> '''' \<longrightarrow>
      (if \<exists>b. profiled env key (rc_body r) b
       then rc_code (WrapAccessTokenJWTType env key r) = 200 \<and> profiled env key (rc_body r) (rc_body (WrapAccessTokenJWTType env key r))
       else rc_code (WrapAccessTokenJWTType env key r) = 500 \<and> rc_body (WrapAccessTokenJWTType env key r) = serverErrorBody))
   \<and> (rc_code r = 200 \<and> rc_body r \<noteq> '''' \<and> te_object env (rc_body r) = Some resp
      \<and> (resp ''access_token'' = None \<or> (\<exists>token. memberString resp ''access_token'' = Some token \<and> length (goSplit CHR ''.'' token) \<noteq> 3)) \<longrightarrow>
      rc_code (WrapAccessTokenJWTType env key r) = 500 \<and> rc_body (WrapAccessTokenJWTType env key r) = serverErrorBody)"
proof -
  have "te_object env (rc_body r) = Some resp
      \<and> (resp ''access_token'' = None \<or> (\<exists>token. memberString resp ''access_token'' = Some token \<and> length (goSplit CHR ''.'' token) \<noteq> 3)) \<longrightarrow>
      isl (upgradeAccessTokenTyp env key (rc_body r))"
    using upgrade_skips [of env "rc_body r" resp key] by auto
  then show ?thesis unfolding upgrade_iff [symmetric]
    by (cases "upgradeAccessTokenTyp env key (rc_body r)") (simp_all add: wrap_result)
qed

text \<open>
  A token response with a scope, a payload without one and an id token with an \<open>at_hash\<close>; texts stand
  for the objects they encode.
\<close>

definition exampleTokenEnv :: TokenEnv where
  "exampleTokenEnv = \<lparr>te_object = (\<lambda>_. Some [''access_token'' \<mapsto> JsString ''YQ.YQ.YQ'', ''scope'' \<mapsto> JsString ''openid'', ''id_token'' \<mapsto> JsString ''YQ.Yg.YQ'']),
     te_claims = (\<lambda>s. Some (if s = ''b'' then [''at_hash'' \<mapsto> JsString ''old''] else Map.empty)),
     te_marshal = (\<lambda>m. Inr (case (m ''access_token'', m ''at_hash'', m ''scope'') of
         (Some (JsString a), _, _) \<Rightarrow> a @ (case m ''id_token'' of Some (JsString i) \<Rightarrow> i | _ \<Rightarrow> '''')
       | (_, Some (JsString h), _) \<Rightarrow> h | (_, _, Some (JsString s)) \<Rightarrow> s | _ \<Rightarrow> '''')),
     te_sign = (\<lambda>_ payload typ. Inr (typ @ ''('' @ payload @ '')'')), te_claimHash = (\<lambda>tok _. Inr (''#'' @ tok))\<rparr>"

theorem token_response_profile_witness:
  "\<exists>r'. WrapAccessTokenJWTType exampleTokenEnv (Inr \<lparr>sm_id = ''k'', sm_algorithm = ''RS256'', sm_key = examplePrivate\<rparr>)
       \<lparr>rc_code = 200, rc_header = Map.empty, rc_body = ''{}''\<rparr> = r'
     \<and> rc_code r' = 200 \<and> rc_body r' = ''at+jwt(openid)JWT(#at+jwt(openid))''
     \<and> profiled exampleTokenEnv (Inr \<lparr>sm_id = ''k'', sm_algorithm = ''RS256'', sm_key = examplePrivate\<rparr>) ''{}'' ''at+jwt(openid)JWT(#at+jwt(openid))''"
proof -
  let ?k = "Inr \<lparr>sm_id = ''k'', sm_algorithm = ''RS256'', sm_key = examplePrivate\<rparr> :: err + signingKeyModel"
  let ?r = "\<lparr>rc_code = 200, rc_header = Map.empty, rc_body = ''{}''\<rparr>"
  have "rawURLDecode False ''YQ'' = Some ''a''" "rawURLDecode False ''Yg'' = Some ''b''" by code_simp+
  moreover have "goTrimSpace ''openid'' \<noteq> ''''" by code_simp
  ultimately have u: "upgradeAccessTokenTyp exampleTokenEnv ?k ''{}'' = Inr ''at+jwt(openid)JWT(#at+jwt(openid))''"
    by (simp add: upgradeAccessTokenTyp_def exampleTokenEnv_def rawString_def jsString_def withScopeClaim_def rebindIDTokenAtHash_def)
  then have b: "rc_body (WrapAccessTokenJWTType exampleTokenEnv ?k ?r) = ''at+jwt(openid)JWT(#at+jwt(openid))''"
    by (simp add: wrap_result)
  from u have "\<exists>b. profiled exampleTokenEnv ?k (rc_body ?r) b" by (auto simp: upgrade_iff)
  then have "rc_code (WrapAccessTokenJWTType exampleTokenEnv ?k ?r) = 200
      \<and> profiled exampleTokenEnv ?k (rc_body ?r) (rc_body (WrapAccessTokenJWTType exampleTokenEnv ?k ?r))"
    using token_response_profile [of ?r exampleTokenEnv ?k] by (simp only: if_True) simp
  with b show ?thesis by simp
qed

section \<open>Correctness of the guard\<close>

text \<open>A token that conforms to the access-token profile and is in force, and its claims.\<close>

definition inForce :: "VerifyEnv \<Rightarrow> time \<Rightarrow> string \<Rightarrow> AccessTokenClaims \<Rightarrow> bool" where
  "inForce env now token claims \<longleftrightarrow>
     ve_parse env token \<in> {Some [''at+jwt''], Some [''application/at+jwt'']} \<and> ve_verify env token = Inr claims
   \<and> '''' \<notin> {tc_Issuer claims, tc_Subject claims, tc_ClientID claims, tc_JWTID claims}
   \<and> tc_Audience claims \<noteq> [] \<and> '''' \<notin> set (tc_Audience claims)
   \<and> \<not> timeIsZero (tc_Expiration claims) \<and> \<not> timeIsZero (tc_IssuedAt claims)
   \<and> tc_IssuedAt claims \<le> now \<and> tc_NotBefore claims \<le> now"

lemma verifyProfile_iff: "verifyAccessTokenProfile env now token = Inr c \<longleftrightarrow> inForce env now token c"
  by (auto simp: verifyAccessTokenProfile_def inForce_def not_less split: option.splits list.splits if_splits sum.splits)

lemma fillUserinfo_fields:
  "i_Subject (fillUserinfo u scopes info) = (if ''openid'' \<in> set scopes then u_ID u else i_Subject info)"
  "i_Email (fillUserinfo u scopes info) = (if ''email'' \<in> set scopes then u_Email u else i_Email info)"
  "i_EmailVerified (fillUserinfo u scopes info) = (if ''email'' \<in> set scopes then u_EmailVerified u else i_EmailVerified info)"
  "i_Name (fillUserinfo u scopes info) = (if ''profile'' \<in> set scopes then u_Name u else i_Name info)"
  by (induction u scopes info rule: fillUserinfo.induct) auto

text \<open>What may be shown of an account: the stored fields of the granted scopes, and nothing else.\<close>

definition discloses :: "Storage \<Rightarrow> dbs \<Rightarrow> string \<Rightarrow> string list \<Rightarrow> UserInfo \<Rightarrow> bool" where
  "discloses st d subject scopes i \<longleftrightarrow>
     (\<exists>row email name. row \<in> set (users d) \<and> us_ID row = subject \<and> resolveUser st row = Inr (email, name)
        \<and> i = \<lparr>i_Subject = (if ''openid'' \<in> set scopes then subject else ''''),
               i_Email = (if ''email'' \<in> set scopes then email else ''''),
               i_EmailVerified = (''email'' \<in> set scopes \<and> us_EmailVerified row),
               i_Name = (if ''profile'' \<in> set scopes then coalesce name else '''')\<rparr>)"

lemma setUserinfo_discloses:
  assumes "run_state (setUserinfo st emptyUserInfo uid scopes) w = (Inr i, w')"
  shows "discloses st (w_db w) uid scopes i"
proof -
  from assms obtain row hdom w1 email name where e: "run_state (exec DBc (GetUserRowByID uid)) w = (Inr (row, hdom), w1)"
      "resolveUser st row = Inr (email, name)" "i = fillUserinfo (buildCoreUser (us_ID row) email (us_EmailVerified row) name '''') scopes emptyUserInfo"
    by (auto simp: setUserinfo_def run_attemptOr run_attempt notFoundOr_def split: prod.splits sum.splits if_splits)
  from exec_DB_Inr(1) [OF e(1)] have "row \<in> set (users (w_db w))" "us_ID row = uid"
    by (auto simp: GetUserRowByID_def split: sum.splits dest!: one_row_Inr)
  moreover have "i = \<lparr>i_Subject = i_Subject i, i_Email = i_Email i, i_EmailVerified = i_EmailVerified i, i_Name = i_Name i\<rparr>" by simp
  ultimately show ?thesis using e(2,3) unfolding discloses_def
    by (intro exI [of _ row] exI [of _ email] exI [of _ name]) (simp add: fillUserinfo_fields buildCoreUser_def emptyUserInfo_def)
qed

text \<open>C29: Who gets to see an account. A request to the userinfo endpoint reaches the provider exactly when
  its bearer token has the access-token type, verifies, has complete claims, is in force, is meant for
  its client and has the openid scope, and then with the claims of this token; the other requests are
  answered 401 or 403. A request for introspection always reaches the provider, which authenticates the
  client, with claims exactly when the token of its form passes the same checks, and then with the
  claims of that token; no other request carries claims. Storage answers only for the token and the
  subject of these claims, with the stored account of the subject and only the fields of the granted
  scopes; introspection answers only to the client that the token belongs to, with the verified claims.\<close>

theorem userinfo_guarded:
  "(br_path r = ''/userinfo'' \<longrightarrow>
      (WrapVerifiedAccessToken env supported now r = Serve ctx \<longleftrightarrow>
         supported \<and> (\<exists>claims token. ctx = Some claims \<and> br_bearer r = Inr token \<and> inForce env now token claims
           \<and> tc_ClientID claims \<in> set (tc_Audience claims) \<and> ''openid'' \<in> set (tc_Scopes claims))))
   \<and> (br_path r = ''/oauth/introspect'' \<longrightarrow>
      (\<exists>ctx'. WrapVerifiedAccessToken env supported now r = Serve ctx')
      \<and> (WrapVerifiedAccessToken env supported now r = Serve (Some claims) \<longleftrightarrow>
         supported \<and> (\<exists>token. br_formToken r = Inr token \<and> inForce env now token claims)))
   \<and> (br_path r \<noteq> ''/userinfo'' \<and> br_path r \<noteq> ''/oauth/introspect'' \<longrightarrow> WrapVerifiedAccessToken env supported now r = Serve None)
   \<and> (run_state (SetUserinfoFromToken st ctx emptyUserInfo tokenID subject) w = (Inr i, w') \<longrightarrow>
      (\<exists>claims. ctx = Some claims \<and> tc_JWTID claims = tokenID \<and> tc_Subject claims = subject
         \<and> discloses st (w_db w) subject (tc_Scopes claims) i))
   \<and> (run_state (SetIntrospectionFromToken st ctx tokenID subject clientID) w = (Inr ir, w') \<longrightarrow>
      (\<exists>claims. ctx = Some claims \<and> tc_JWTID claims = tokenID \<and> tc_Subject claims = subject \<and> tc_ClientID claims = clientID
         \<and> discloses st (w_db w) subject (tc_Scopes claims) (ir_UserInfo ir)
         \<and> ir = \<lparr>ir_UserInfo = ir_UserInfo ir, ir_Subject = subject, ir_Scope = tc_Scopes claims, ir_ClientID = clientID,
             ir_TokenType = ''Bearer'', ir_Expiration = tc_Expiration claims, ir_IssuedAt = tc_IssuedAt claims,
             ir_NotBefore = tc_NotBefore claims, ir_Audience = tc_Audience claims, ir_Issuer = tc_Issuer claims, ir_JWTID = tokenID\<rparr>))"
proof (intro conjI impI)
  assume "br_path r = ''/userinfo''"
  then show "WrapVerifiedAccessToken env supported now r = Serve ctx \<longleftrightarrow>
         supported \<and> (\<exists>claims token. ctx = Some claims \<and> br_bearer r = Inr token \<and> inForce env now token claims
           \<and> tc_ClientID claims \<in> set (tc_Audience claims) \<and> ''openid'' \<in> set (tc_Scopes claims))"
    by (auto simp: WrapVerifiedAccessToken_def Let_def verifyProfile_iff [symmetric] split: if_splits option.splits sum.splits)
next
  assume "br_path r = ''/oauth/introspect''"
  then show "\<exists>ctx'. WrapVerifiedAccessToken env supported now r = Serve ctx'"
    "WrapVerifiedAccessToken env supported now r = Serve (Some claims) \<longleftrightarrow>
         supported \<and> (\<exists>token. br_formToken r = Inr token \<and> inForce env now token claims)"
    by (auto simp: WrapVerifiedAccessToken_def Let_def verifyProfile_iff [symmetric] split: if_splits option.splits sum.splits)
next
  assume "br_path r \<noteq> ''/userinfo'' \<and> br_path r \<noteq> ''/oauth/introspect''"
  then show "WrapVerifiedAccessToken env supported now r = Serve None" by (simp add: WrapVerifiedAccessToken_def Let_def)
next
  assume "run_state (SetUserinfoFromToken st ctx emptyUserInfo tokenID subject) w = (Inr i, w')"
  then show "\<exists>claims. ctx = Some claims \<and> tc_JWTID claims = tokenID \<and> tc_Subject claims = subject
         \<and> discloses st (w_db w) subject (tc_Scopes claims) i"
    by (auto simp: SetUserinfoFromToken_def verifiedTokenClaims_def run_attempt split: option.splits if_splits intro: setUserinfo_discloses)
next
  assume "run_state (SetIntrospectionFromToken st ctx tokenID subject clientID) w = (Inr ir, w')"
  then show "\<exists>claims. ctx = Some claims \<and> tc_JWTID claims = tokenID \<and> tc_Subject claims = subject \<and> tc_ClientID claims = clientID
         \<and> discloses st (w_db w) subject (tc_Scopes claims) (ir_UserInfo ir)
         \<and> ir = \<lparr>ir_UserInfo = ir_UserInfo ir, ir_Subject = subject, ir_Scope = tc_Scopes claims, ir_ClientID = clientID,
             ir_TokenType = ''Bearer'', ir_Expiration = tc_Expiration claims, ir_IssuedAt = tc_IssuedAt claims,
             ir_NotBefore = tc_NotBefore claims, ir_Audience = tc_Audience claims, ir_Issuer = tc_Issuer claims, ir_JWTID = tokenID\<rparr>"
    by (auto simp: SetIntrospectionFromToken_def verifiedTokenClaims_def run_attempt split: option.splits if_splits prod.splits sum.splits
        intro: setUserinfo_discloses)
qed

definition exampleClaims :: AccessTokenClaims where
  "exampleClaims = \<lparr>tc_Issuer = ''iss'', tc_Subject = ''user'', tc_Audience = [''app''], tc_ClientID = ''app'', tc_JWTID = ''jti'',
     tc_Scopes = [''openid''], tc_Expiration = 100, tc_IssuedAt = 1, tc_NotBefore = 0\<rparr>"

definition exampleVerify :: VerifyEnv where
  "exampleVerify = \<lparr>ve_parse = (\<lambda>_. Some [''at+jwt'']), ve_verify = (\<lambda>_. Inr exampleClaims)\<rparr>"

theorem userinfo_guarded_witness:
  "WrapVerifiedAccessToken exampleVerify True 50 \<lparr>br_path = ''/userinfo'', br_bearer = Inr ''tok'', br_formToken = Inl ErrDb\<rparr> = Serve (Some exampleClaims)
   \<and> WrapVerifiedAccessToken exampleVerify True 50 \<lparr>br_path = ''/oauth/introspect'', br_bearer = Inl ErrDb, br_formToken = Inr ''tok''\<rparr> = Serve (Some exampleClaims)"
proof -
  have f: "inForce exampleVerify 50 ''tok'' exampleClaims" "tc_ClientID exampleClaims \<in> set (tc_Audience exampleClaims)" "''openid'' \<in> set (tc_Scopes exampleClaims)"
    by (simp_all add: inForce_def exampleVerify_def exampleClaims_def timeIsZero_def)
  then show ?thesis
    using userinfo_guarded [of "\<lparr>br_path = ''/userinfo'', br_bearer = Inr ''tok'', br_formToken = Inl ErrDb\<rparr>" exampleVerify True 50 "Some exampleClaims"]
      userinfo_guarded [of "\<lparr>br_path = ''/oauth/introspect'', br_bearer = Inl ErrDb, br_formToken = Inr ''tok''\<rparr>" exampleVerify True 50 _ exampleClaims]
    by simp
qed

end
