(* ===== verification/Middleware.thy ===== *)
theory Middleware
  imports Web Token_Boundary
begin

text \<open>
  The middlewares around every endpoint (\<^verbatim>\<open>internal/middleware\<close>, \<^verbatim>\<open>internal/clientinfo/middleware.go\<close>,
  \<^verbatim>\<open>internal/logctx\<close>). A handler maps the context of a request, the request and the response headers set so
  far to an action that answers; handlers inside a rate limiter also pass on its buckets. An inner handler
  writes into the headers that the outer ones have set. Parameters: media types, query strings and URLs of
  Go's library, random ids and the token bucket.
\<close>

section \<open>Handlers\<close>

type_synonym headers = "string \<rightharpoonup> string"

record HttpCtx =
  hc_Info :: Info
  hc_RequestID :: string
  hc_Log :: "(string \<times> string) list"
  hc_Resource :: string
  hc_Claims :: "AccessTokenClaims option"

definition ctxOf :: "HttpCtx \<Rightarrow> Ctx" where
  "ctxOf c = \<lparr>x_Resource = hc_Resource c, x_IP = inf_IP (hc_Info c), x_UserAgent = inf_UserAgent (hc_Info c)\<rparr>"

datatype Content = NoContent | HtmlPage Page | RawBody string | JsonDocument "string \<rightharpoonup> json"

record Reply =
  rp_Status :: nat
  rp_Header :: headers
  rp_Cookies :: "Cookie list"
  rp_Content :: Content

datatype Tier = TokenTier | AuthTier

type_synonym 'l buckets = "Tier \<Rightarrow> 'l limiters"
type_synonym 'l http = "HttpCtx \<Rightarrow> Request \<Rightarrow> headers \<Rightarrow> 'l buckets \<Rightarrow> Reply act \<times> 'l buckets"

text \<open>What a wrapper does to the answer before it is sent.\<close>

definition onReply :: "(Request \<Rightarrow> Reply \<Rightarrow> Reply) \<Rightarrow> 'l http \<Rightarrow> 'l http" where
  "onReply f inner = (\<lambda>ctx r h L. case inner ctx r h L of (m, L') \<Rightarrow> (attempt m (\<lambda>rp. ok (f r rp)), L'))"

definition textReply :: "nat \<Rightarrow> string \<Rightarrow> headers \<Rightarrow> Reply" where
  "textReply code body h = \<lparr>rp_Status = code, rp_Header = h, rp_Cookies = [], rp_Content = RawBody body\<rparr>"

text \<open>\<^verbatim>\<open>http.Error\<close>.\<close>

definition httpError :: "nat \<Rightarrow> string \<Rightarrow> headers \<Rightarrow> Reply" where
  "httpError code message h =
     textReply code (message @ [char_of (10::nat)])
       (h(''Content-Length'' := None, ''Content-Type'' \<mapsto> ''text/plain; charset=utf-8'', ''X-Content-Type-Options'' \<mapsto> ''nosniff''))"

section \<open>Response headers\<close>

definition contentSecurityPolicy :: string where
  "contentSecurityPolicy =
     ''default-src 'none'; '' @ ''style-src 'self' 'unsafe-inline'; '' @ ''img-src 'self' data:; '' @ ''form-action 'self'; ''
       @ ''frame-ancestors 'none'; '' @ ''base-uri 'none'' @ [CHR 0x27]"

definition strictTransportSecurity :: string where "strictTransportSecurity = ''max-age=31536000''"

definition SecurityHeaders :: "bool \<Rightarrow> 'l http \<Rightarrow> 'l http" where
  "SecurityHeaders devMode inner = (\<lambda>ctx r h L.
     let h1 = h(''X-Content-Type-Options'' \<mapsto> ''nosniff'', ''X-Frame-Options'' \<mapsto> ''DENY'', ''Referrer-Policy'' \<mapsto> ''no-referrer'',
                ''Content-Security-Policy'' \<mapsto> contentSecurityPolicy);
         h2 = (if \<not> devMode then h1(''Strict-Transport-Security'' \<mapsto> strictTransportSecurity) else h1)
     in inner ctx r h2 L)"

definition NoStore :: "'l http \<Rightarrow> 'l http" where
  "NoStore inner = (\<lambda>ctx r h L. inner ctx r (h(''Cache-Control'' \<mapsto> ''no-store'', ''Pragma'' \<mapsto> ''no-cache'')) L)"

text \<open>A parsed redirect target: whether it is absolute, its query, and the rest.\<close>

record Location =
  lo_Abs :: bool
  lo_Query :: "string \<rightharpoonup> string list"
  lo_Rest :: string

record LocationEnv =
  le_parse :: "string \<Rightarrow> Location option"
  le_print :: "Location \<Rightarrow> string"

definition authorizationResponseLocation :: "LocationEnv \<Rightarrow> string \<Rightarrow> string \<Rightarrow> string" where
  "authorizationResponseLocation env location issuer =
     (case le_parse env location of None \<Rightarrow> location
      | Some target \<Rightarrow>
          if \<not> lo_Abs target then location
          else if lo_Query target ''code'' = None \<and> lo_Query target ''error'' = None then location
          else le_print env (target\<lparr>lo_Query := (lo_Query target)(''iss'' \<mapsto> [issuer])\<rparr>))"

definition issuerWriteHeader :: "LocationEnv \<Rightarrow> string \<Rightarrow> Reply \<Rightarrow> Reply" where
  "issuerWriteHeader env issuer rp =
     (if 300 \<le> rp_Status rp \<and> rp_Status rp < 400 then
        (case rp_Header rp ''Location'' of None \<Rightarrow> rp
         | Some location \<Rightarrow>
             if location = '''' then rp
             else rp\<lparr>rp_Header := (rp_Header rp)(''Location'' \<mapsto> authorizationResponseLocation env location issuer)\<rparr>)
      else rp)"

definition AuthorizationResponseIssuer :: "LocationEnv \<Rightarrow> string \<Rightarrow> 'l http \<Rightarrow> 'l http" where
  "AuthorizationResponseIssuer env issuer inner = onReply (\<lambda>_. issuerWriteHeader env issuer) inner"

definition corsHandler :: "string list \<Rightarrow> 'l http \<Rightarrow> 'l http" where
  "corsHandler allowedOrigins inner = (\<lambda>ctx r h L.
     case NewCORSMiddleware allowedOrigins r h of
       (Some code, h') \<Rightarrow> (ok \<lparr>rp_Status = code, rp_Header = h', rp_Cookies = [], rp_Content = NoContent\<rparr>, L)
     | (None, _) \<Rightarrow> onReply (\<lambda>r rp. rp\<lparr>rp_Header := snd (NewCORSMiddleware allowedOrigins r (rp_Header rp))\<rparr>) inner ctx r h L)"

section \<open>Log context\<close>

text \<open>\<^verbatim>\<open>logctx.With\<close> and the attributes of a record that is logged under a context.\<close>

definition With :: "HttpCtx \<Rightarrow> (string \<times> string) list \<Rightarrow> HttpCtx" where
  "With ctx attrs = (if length attrs = 0 then ctx else ctx\<lparr>hc_Log := hc_Log ctx @ attrs\<rparr>)"

definition Handle :: "HttpCtx \<Rightarrow> (string \<times> string) list \<Rightarrow> (string \<times> string) list" where
  "Handle ctx attrs = (if length (hc_Log ctx) > 0 then attrs @ hc_Log ctx else attrs)"

definition tokenLogBodyPeekBytes :: nat where "tokenLogBodyPeekBytes = 65536"
definition maxLogValueBytes :: nat where "maxLogValueBytes = 256"

text \<open>\<^verbatim>\<open>utf8.RuneStart\<close>: not a continuation byte. The mark is an ellipsis in UTF-8 and ASCII text.\<close>

definition RuneStart :: "char \<Rightarrow> bool" where
  "RuneStart c \<longleftrightarrow> of_char c div (64::nat) \<noteq> 2"

definition truncationMark :: string where
  "truncationMark = map char_of [226::nat, 128, 166] @ ''(truncated)''"

fun runeCut :: "string \<Rightarrow> nat \<Rightarrow> nat" where
  "runeCut s 0 = 0"
| "runeCut s (Suc n) = (if RuneStart (s ! Suc n) then Suc n else runeCut s n)"

definition truncateLogValue :: "string \<Rightarrow> string" where
  "truncateLogValue s =
     (if length s \<le> maxLogValueBytes then s else take (runeCut s maxLogValueBytes) s @ truncationMark)"

definition isRequestIDChar :: "char \<Rightarrow> bool" where
  "isRequestIDChar c \<longleftrightarrow> isLower c \<or> isUpper c \<or> isDigit c \<or> c = CHR ''-'' \<or> c = CHR ''_''"

definition validRequestID :: "string \<Rightarrow> bool" where
  "validRequestID s \<longleftrightarrow> 1 \<le> length s \<and> length s \<le> 64 \<and> list_all isRequestIDChar s"

definition RequestIDMiddleware :: "string \<Rightarrow> 'l http \<Rightarrow> 'l http" where
  "RequestIDMiddleware uuid inner = (\<lambda>ctx r h L.
     let sent = h_Header r ''X-Request-ID''; id = (if \<not> validRequestID sent then uuid else sent);
         ctx' = With (ctx\<lparr>hc_RequestID := id\<rparr>) [(''request_id'', id), (''path'', truncateLogValue (h_Path r))]
     in inner ctx' r (h(''X-Request-Id'' \<mapsto> id)) L)"

text \<open>\<open>lg_mediaType\<close>: \<^verbatim>\<open>mime.ParseMediaType\<close>; \<open>lg_query\<close>: first values of \<^verbatim>\<open>url.ParseQuery\<close>; \<open>lg_unescape\<close>: \<^verbatim>\<open>url.QueryUnescape\<close>.\<close>

record LogEnv =
  lg_mediaType :: "string \<Rightarrow> string option"
  lg_query :: "string \<Rightarrow> string \<Rightarrow> string"
  lg_unescape :: "string \<Rightarrow> string option"

text \<open>
  \<^verbatim>\<open>io.ReadAll(io.LimitReader(body, n))\<close>: what was read and the error, and the body that is left. An error that
  has been reported is not reported again. \<open>multiReader\<close> replays bytes before a body.
\<close>

definition readLimited :: "nat \<Rightarrow> Body \<Rightarrow> (string \<times> err option) \<times> Body" where
  "readLimited n b =
     (if n \<le> length (b_Bytes b) then ((take n (b_Bytes b), None), b\<lparr>b_Bytes := drop n (b_Bytes b)\<rparr>)
      else ((b_Bytes b, b_Err b), \<lparr>b_Bytes = '''', b_Err = None\<rparr>))"

definition multiReader :: "string \<Rightarrow> Body \<Rightarrow> Body" where
  "multiReader bytes rest = rest\<lparr>b_Bytes := bytes @ b_Bytes rest\<rparr>"

definition errReader :: "err \<Rightarrow> Body" where
  "errReader e = \<lparr>b_Bytes = '''', b_Err = Some e\<rparr>"

definition peekForm :: "LogEnv \<Rightarrow> Request \<Rightarrow> (string \<Rightarrow> string) \<times> Request" where
  "peekForm env r =
     (case h_Body r of None \<Rightarrow> (\<lambda>_. '''', r)
      | Some body \<Rightarrow>
          if h_Method r \<noteq> ''POST'' then (\<lambda>_. '''', r)
          else if lg_mediaType env (h_Header r ''Content-Type'') \<noteq> Some ''application/x-www-form-urlencoded'' then (\<lambda>_. '''', r)
          else (case readLimited tokenLogBodyPeekBytes body of ((peeked, e), left) \<Rightarrow>
            (let rest = (case e of Some x \<Rightarrow> errReader x | None \<Rightarrow> left);
                 r' = r\<lparr>h_Body := Some (multiReader peeked rest)\<rparr>
             in (if e \<noteq> None then (\<lambda>_. '''') else lg_query env peeked, r'))))"

definition tokenRequestClientID :: "LogEnv \<Rightarrow> Request \<Rightarrow> (string \<Rightarrow> string) \<Rightarrow> string" where
  "tokenRequestClientID env r form =
     (let clientID = goTrimSpace (form ''client_id'') in
      if clientID \<noteq> '''' then clientID
      else case h_BasicUser r of None \<Rightarrow> ''''
        | Some username \<Rightarrow> goTrimSpace (case lg_unescape env username of Some decoded \<Rightarrow> decoded | None \<Rightarrow> username))"

definition tokenLogAttrs :: "LogEnv \<Rightarrow> Request \<Rightarrow> (string \<Rightarrow> string) \<Rightarrow> (string \<times> string) list" where
  "tokenLogAttrs env r form =
     (let clientID = tokenRequestClientID env r form; grantType = goTrimSpace (form ''grant_type'') in
      (if clientID \<noteq> '''' then [(''client_id'', truncateLogValue clientID)] else [])
      @ (if grantType \<noteq> '''' then [(''grant_type'', truncateLogValue grantType)] else []))"

definition TokenLogContext :: "LogEnv \<Rightarrow> 'l http \<Rightarrow> 'l http" where
  "TokenLogContext env inner = (\<lambda>ctx r h L.
     case peekForm env r of (form, r') \<Rightarrow> inner (With ctx (tokenLogAttrs env r' form)) r' h L)"

section \<open>Client address and rate limits\<close>

definition clientinfoMiddleware :: "IPEnv \<Rightarrow> IPNet list \<Rightarrow> 'l http \<Rightarrow> 'l http" where
  "clientinfoMiddleware env trusted inner = (\<lambda>ctx r h L. inner (ctx\<lparr>hc_Info := Extract env (Some r) trusted\<rparr>) r h L)"

definition rateLimitBody :: string where
  "rateLimitBody = ''{\"error\":\"rate_limit_exceeded\",\"error_description\":\"too many requests\"}'' @ [char_of (10::nat)]"

definition NewRateLimiter :: "IPEnv \<Rightarrow> (Tier \<Rightarrow> 'l limiter_ops) \<Rightarrow> time \<Rightarrow> Tier \<Rightarrow> 'l http \<Rightarrow> 'l http" where
  "NewRateLimiter env ops now tier inner = (\<lambda>ctx r h L.
     case allow (ops tier) (limiterKey env (inf_IP (hc_Info ctx)) r) now (L tier) of (allowed, ips) \<Rightarrow>
       (let L' = L(tier := ips) in
        if \<not> allowed then (ok (textReply 429 rateLimitBody (h(''Content-Type'' \<mapsto> ''application/json'', ''Retry-After'' \<mapsto> ''1''))), L')
        else inner ctx r h L'))"

section \<open>The log context is transparent\<close>

text \<open>Reading a body to its end.\<close>

definition readAll :: "Body \<Rightarrow> string \<times> err option" where
  "readAll b = (b_Bytes b, b_Err b)"

text \<open>A peeked request is the same request: only the body was replaced, by one that reads the same.\<close>

lemma peekForm_request: "snd (peekForm env r) = r"
proof (cases "h_Body r")
  case (Some body)
  have "multiReader peeked (case e of Some x \<Rightarrow> errReader x | None \<Rightarrow> left) = body"
    if "readLimited tokenLogBodyPeekBytes body = ((peeked, e), left)" for peeked e left
    using that by (cases body) (auto simp: readLimited_def multiReader_def errReader_def split: if_splits option.splits)
  moreover have "r\<lparr>h_Body := Some body\<rparr> = r" using Some by (cases r) simp
  ultimately show ?thesis using Some by (auto simp: peekForm_def Let_def split: prod.splits)
qed (simp add: peekForm_def)

lemma runeCut_le: "runeCut s n \<le> n"
  by (induction s n rule: runeCut.induct) auto

lemma runeCut_start: "runeCut s n = 0 \<or> RuneStart (s ! runeCut s n)"
  by (induction s n rule: runeCut.induct) auto

lemma runeCut_greatest: "runeCut s n < k \<Longrightarrow> k \<le> n \<Longrightarrow> \<not> RuneStart (s ! k)"
  by (induction s n rule: runeCut.induct) (auto simp: le_Suc_eq split: if_splits)

lemma truncateLogValue_short: "length s \<le> 256 \<Longrightarrow> truncateLogValue s = s"
  by (simp add: truncateLogValue_def maxLogValueBytes_def)

lemma truncateLogValue_bound: "length (truncateLogValue s) \<le> 256 + length truncationMark"
  using runeCut_le [of s 256] by (simp add: truncateLogValue_def maxLogValueBytes_def)

section \<open>Headers that survive\<close>

text \<open>
  Against a list of headers with their values: a change of the headers is mild if it leaves each of them
  alone or gives it the listed value; a handler is mild if its answers are.
\<close>

definition mild :: "(string \<times> string) list \<Rightarrow> headers \<Rightarrow> headers \<Rightarrow> bool" where
  "mild kvs h h' \<longleftrightarrow> (\<forall>(k, v) \<in> set kvs. h' k = h k \<or> h' k = Some v)"

definition carries :: "(string \<times> string) list \<Rightarrow> headers \<Rightarrow> bool" where
  "carries kvs h \<longleftrightarrow> (\<forall>(k, v) \<in> set kvs. h k = Some v)"

definition leaves :: "(string \<times> string) list \<Rightarrow> 'l http \<Rightarrow> bool" where
  "leaves kvs inner \<longleftrightarrow> (\<forall>ctx r h L w rp w'. run_state (fst (inner ctx r h L)) w = (Inr rp, w') \<longrightarrow> mild kvs h (rp_Header rp))"

named_theorems leaving

lemma mild_refl [simp]: "mild kvs h h"
  by (auto simp: mild_def)

lemma mild_trans: "mild kvs h h1 \<Longrightarrow> mild kvs h1 h2 \<Longrightarrow> mild kvs h h2"
  unfolding mild_def by fastforce

lemma mild_upd: "mild kvs h h1 \<Longrightarrow> k \<notin> fst ` set kvs \<or> (\<exists>v. x = Some v \<and> (\<forall>v'. (k, v') \<in> set kvs \<longrightarrow> v' = v)) \<Longrightarrow> mild kvs h (h1(k := x))"
  unfolding mild_def by force

lemma mild_carries: "mild kvs h h' \<Longrightarrow> set kvs' \<subseteq> set kvs \<Longrightarrow> carries kvs' h \<Longrightarrow> carries kvs' h'"
  unfolding mild_def carries_def by fastforce

lemma leavesI:
  "(\<And>ctx r h L w rp w'. run_state (fst (inner ctx r h L)) w = (Inr rp, w') \<Longrightarrow> mild kvs h (rp_Header rp)) \<Longrightarrow> leaves kvs inner"
  by (simp add: leaves_def)

lemma leavesD: "leaves kvs inner \<Longrightarrow> run_state (fst (inner ctx r h L)) w = (Inr rp, w') \<Longrightarrow> mild kvs h (rp_Header rp)"
  unfolding leaves_def by blast

lemma run_onReply:
  "run_state (fst (onReply f inner ctx r h L)) w = (Inr rp, w') \<longleftrightarrow>
     (\<exists>rp0. run_state (fst (inner ctx r h L)) w = (Inr rp0, w') \<and> rp = f r rp0)"
  by (auto simp: onReply_def run_attempt split: prod.splits sum.splits)

lemma leaves_onReply:
  assumes "leaves kvs inner" "\<And>r rp. mild kvs (rp_Header rp) (rp_Header (f r rp))"
  shows "leaves kvs (onReply f inner)"
  using leavesD [OF assms(1)] assms(2) mild_trans by (intro leavesI) (auto simp: run_onReply, blast)

lemma leaves_TokenLogContext [leaving]: "leaves kvs inner \<Longrightarrow> leaves kvs (TokenLogContext env inner)"
  unfolding leaves_def TokenLogContext_def by (simp split: prod.splits)

lemma leaves_NewRateLimiter [leaving]:
  assumes "leaves kvs inner" "''Content-Type'' \<notin> fst ` set kvs" "''Retry-After'' \<notin> fst ` set kvs"
  shows "leaves kvs (NewRateLimiter env ops now tier inner)"
proof (rule leavesI)
  fix ctx r h L w rp w'
  have "mild kvs h (h(''Content-Type'' \<mapsto> ''application/json'', ''Retry-After'' \<mapsto> ''1''))"
    by (intro mild_upd mild_refl disjI1 assms)
  moreover assume "run_state (fst (NewRateLimiter env ops now tier inner ctx r h L)) w = (Inr rp, w')"
  ultimately show "mild kvs h (rp_Header rp)"
    using leavesD [OF assms(1)] by (auto simp: NewRateLimiter_def textReply_def Let_def split: prod.splits if_splits)
qed

lemma leaves_AuthorizationResponseIssuer [leaving]:
  assumes "leaves kvs inner" "''Location'' \<notin> fst ` set kvs"
  shows "leaves kvs (AuthorizationResponseIssuer env issuer inner)"
  unfolding AuthorizationResponseIssuer_def
proof (rule leaves_onReply [OF assms(1)])
  fix r rp
  show "mild kvs (rp_Header rp) (rp_Header (issuerWriteHeader env issuer rp))"
    using mild_upd [OF mild_refl disjI1 [OF assms(2)]] by (auto simp: issuerWriteHeader_def split: option.splits)
qed

lemma NewRateLimiter_refused:
  assumes "\<not> fst (allow (ops tier) (limiterKey env (inf_IP (hc_Info ctx)) r) now (L tier))"
    and "run_state (fst (NewRateLimiter env ops now tier inner ctx r h L)) w = (Inr rp, w')"
  shows "rp_Status rp = 429 \<and> w' = w"
  using assms by (auto simp: NewRateLimiter_def textReply_def Let_def split: prod.splits)

lemma NewRateLimiter_cases:
  assumes "run_state (fst (NewRateLimiter env ops now tier inner ctx r h L)) w = (Inr rp, w')"
  obtains "rp_Status rp = 429" "w' = w" | L' where "run_state (fst (inner ctx r h L')) w = (Inr rp, w')"
  using assms by (auto simp: NewRateLimiter_def textReply_def Let_def split: prod.splits if_splits)

end
