(* ===== verification/Routes.thy ===== *)
theory Routes
  imports Startup Middleware
begin

text \<open>
  The endpoints of a started server (\<^verbatim>\<open>internal/app/routes.go\<close>, \<^verbatim>\<open>metadata.go\<close>) and the order of the
  middlewares around them (\<^verbatim>\<open>app.go\<close>): security headers, request id, CORS, client address, the mux, and per
  route no-store, rate limit, log context, resource check and the verified provider. The provider library is
  an arbitrary action on the database. The theorem says what holds of every answer of the whole composition.
\<close>

section \<open>The environment of a request\<close>

text \<open>
  \<open>fe_op\<close>: the endpoints of the provider library, over the storage; \<open>fe_supported\<close>: its handler offers token
  verification; \<open>fe_bearer\<close>: its parsing of a userinfo request; \<open>fe_discovery\<close>: its discovery document. \<open>fe_unescape\<close>
  is \<^verbatim>\<open>url.PathUnescape\<close> of a path segment, \<open>fe_cleanURL\<close> prints a request's address with another path, \<open>fe_errText\<close> is the
  text of an error.
\<close>

record 'l FrontEnv =
  fe_ip :: IPEnv
  fe_limits :: "Tier \<Rightarrow> 'l limiter_ops"
  fe_now :: time
  fe_uuid :: string
  fe_location :: LocationEnv
  fe_log :: LogEnv
  fe_unescape :: "string \<Rightarrow> string"
  fe_cleanURL :: "Request \<Rightarrow> string \<Rightarrow> string"
  fe_errText :: "err \<Rightarrow> string"
  fe_op :: "HttpCtx \<Rightarrow> Request \<Rightarrow> headers \<Rightarrow> Recorded act"
  fe_supported :: bool
  fe_bearer :: "Request \<Rightarrow> err + string"
  fe_verify :: VerifyEnv
  fe_token :: TokenEnv
  fe_parseURI :: uri_parser
  fe_show :: "URL option \<Rightarrow> string"
  fe_browserUp :: UpstreamEnv
  fe_deviceUp :: UpstreamEnv
  fe_mcpUp :: UpstreamEnv
  fe_endSession :: EndSessionEnv
  fe_csrf :: "err + string"
  fe_discovery :: "string \<rightharpoonup> json"
  fe_shuttingDown :: bool
  fe_ping :: "err option"

section \<open>Answers\<close>

text \<open>
  A handler's response on the wire. \<^verbatim>\<open>http.Redirect\<close> sends the addresses used here, absolute or with a clean
  path, as they are.
\<close>

definition respond :: "Request \<Rightarrow> headers \<Rightarrow> Response \<Rightarrow> Reply" where
  "respond r h resp =
     (let html = h(''Content-Type'' \<mapsto> ''text/html; charset=utf-8'') in
      case r_Page resp of
        NoPage \<Rightarrow> \<lparr>rp_Status = r_Status resp, rp_Header = h, rp_Cookies = r_Cookies resp, rp_Content = NoContent\<rparr>
      | PlainText message \<Rightarrow> (httpError (r_Status resp) message h)\<lparr>rp_Cookies := r_Cookies resp\<rparr>
      | RedirectTo u \<Rightarrow>
          \<lparr>rp_Status = r_Status resp, rp_Header = (if h_Method r = ''GET'' \<or> h_Method r = ''HEAD'' then html else h)(''Location'' \<mapsto> u),
           rp_Cookies = r_Cookies resp, rp_Content = HtmlPage (r_Page resp)\<rparr>
      | page \<Rightarrow> \<lparr>rp_Status = r_Status resp, rp_Header = html, rp_Cookies = r_Cookies resp, rp_Content = HtmlPage page\<rparr>)"

definition page :: "(Ctx \<Rightarrow> Request \<Rightarrow> Response act) \<Rightarrow> 'l http" where
  "page handler = (\<lambda>ctx r h L. (attempt (handler (ctxOf ctx) r) (\<lambda>resp. ok (respond r h resp)), L))"

definition replyOf :: "Recorded \<Rightarrow> Reply" where
  "replyOf rc = \<lparr>rp_Status = rc_code rc, rp_Header = rc_header rc, rp_Cookies = [], rp_Content = RawBody (rc_body rc)\<rparr>"

definition recordedOf :: "Reply \<Rightarrow> Recorded" where
  "recordedOf rp = \<lparr>rc_code = rp_Status rp, rc_header = rp_Header rp, rc_body = (case rp_Content rp of RawBody b \<Rightarrow> b | _ \<Rightarrow> '''')\<rparr>"

section \<open>Provider endpoints\<close>

definition boundaryOf :: "'l FrontEnv \<Rightarrow> Request \<Rightarrow> BoundaryRequest" where
  "boundaryOf env r =
     \<lparr>br_path = h_Path r, br_bearer = fe_bearer env r,
      br_formToken = (if h_FormOk r then Inr (h_Form r ''token'') else Inl (ErrMsg ''invalid form''))\<rparr>"

definition verifiedProvider :: "'l FrontEnv \<Rightarrow> 'l http" where
  "verifiedProvider env = (\<lambda>ctx r h L.
     (case WrapVerifiedAccessToken (fe_verify env) (fe_supported env) (fe_now env) (boundaryOf env r) of
        Serve claims \<Rightarrow> attempt (fe_op env (ctx\<lparr>hc_Claims := claims\<rparr>) r h) (\<lambda>rc. ok (replyOf rc))
      | Refuse401 \<Rightarrow> ok (httpError 401 ''access token invalid'' (h(''Www-Authenticate'' \<mapsto> ''Bearer error=\"invalid_token\"'')))
      | Refuse403 \<Rightarrow> ok (httpError 403 ''openid scope required'' (h(''Www-Authenticate'' \<mapsto> ''Bearer error=\"insufficient_scope\", scope=\"openid\"''))), L))"

text \<open>The token endpoint records the answer in headers of its own and sends the rewritten one over those set before.\<close>

definition tokenWithAtJWT :: "'l FrontEnv \<Rightarrow> RunningServer \<Rightarrow> 'l http \<Rightarrow> 'l http" where
  "tokenWithAtJWT env sv inner = (\<lambda>ctx r h L.
     case inner ctx r Map.empty L of (m, L') \<Rightarrow>
       (attempt m (\<lambda>rp.
          let out = WrapAccessTokenJWTType (fe_token env) (SigningKey (sv_signing sv)) (recordedOf rp)
          in ok (replyOf (out\<lparr>rc_header := (h ++ rc_header out)(''ETag'' := None, ''Content-Digest'' := None, ''Repr-Digest'' := None)\<rparr>))), L'))"

definition writeInvalidTargetError :: "'l FrontEnv \<Rightarrow> err \<Rightarrow> headers \<Rightarrow> Reply" where
  "writeInvalidTargetError env cause h =
     \<lparr>rp_Status = 400, rp_Header = h(''Content-Type'' \<mapsto> ''application/json''), rp_Cookies = [],
      rp_Content = JsonDocument [''error'' \<mapsto> JsString ''invalid_target'', ''error_description'' \<mapsto> JsString (fe_errText env cause)]\<rparr>"

definition withResource :: "'l FrontEnv \<Rightarrow> 'l http \<Rightarrow> 'l http" where
  "withResource env inner = (\<lambda>ctx r h L.
     case ResourceFromRequestStrict (Some (if h_FormOk r then Inr (h_Resources r) else Inl (ErrMsg ''invalid form''))) of
       Inl e \<Rightarrow> (ok (writeInvalidTargetError env e h), L)
     | Inr resource \<Rightarrow> inner (ctx\<lparr>hc_Resource := x_Resource (WithResource (ctxOf ctx) resource)\<rparr>) r h L)"

definition revokeHandler :: "'l FrontEnv \<Rightarrow> RunningServer \<Rightarrow> 'l http \<Rightarrow> 'l http" where
  "revokeHandler env sv inner = (\<lambda>ctx r h L.
     if \<not> g_EnableMCP (sv_config sv) then inner ctx r h L
     else (let clientID = goTrimSpace (h_Form r ''client_id'') in
       if h_FormOk r \<and> IsCIMDClientID (fe_parseURI env) clientID \<and> isl (GetClientByClientID (sv_store sv) clientID)
       then (ok \<lparr>rp_Status = 200, rp_Header = h, rp_Cookies = [], rp_Content = NoContent\<rparr>, L)
       else inner ctx r h L))"

section \<open>Routes\<close>

definition metadataDocument :: "(string \<rightharpoonup> json) \<Rightarrow> bool \<Rightarrow> (string \<rightharpoonup> json)" where
  "metadataDocument discovery enableMCP =
     discovery(''response_types_supported'' \<mapsto> JsArray [JsString ''code''],
       ''grant_types_supported'' \<mapsto> JsArray [JsString ''authorization_code'', JsString ''refresh_token'', JsString ''urn:ietf:params:oauth:grant-type:device_code''],
       ''authorization_response_iss_parameter_supported'' \<mapsto> JsBool True, ''client_id_metadata_document_supported'' \<mapsto> JsBool enableMCP)"

definition registerOAuthMetadataRoutes :: "'l FrontEnv \<Rightarrow> RunningServer \<Rightarrow> (string \<times> 'l http) list" where
  "registerOAuthMetadataRoutes env sv =
     (let metadata = (\<lambda>ctx r h L. (ok \<lparr>rp_Status = 200, rp_Header = h(''Content-Type'' \<mapsto> ''application/json''), rp_Cookies = [],
                         rp_Content = JsonDocument (metadataDocument (fe_discovery env) (g_EnableMCP (sv_config sv)))\<rparr>, L)) in
      [(''/.well-known/oauth-authorization-server'', metadata), (''/.well-known/openid-configuration'', metadata)])"

definition registerProviderRoutes :: "'l FrontEnv \<Rightarrow> RunningServer \<Rightarrow> (string \<times> 'l http) list" where
  "registerProviderRoutes env sv =
     (let tokenLimiter = NewRateLimiter (fe_ip env) (fe_limits env) (fe_now env) TokenTier;
          authLimiter = NewRateLimiter (fe_ip env) (fe_limits env) (fe_now env) AuthTier;
          provider = verifiedProvider env;
          issuer = AuthorizationResponseIssuer (fe_location env) (g_PublicURL (sv_config sv));
          logged = TokenLogContext (fe_log env) in
      [(''/authorize'', authLimiter (issuer (withResource env provider))),
       (''/authorize/callback'', issuer provider),
       (''/oauth/token'', NoStore (tokenLimiter (logged (withResource env (tokenWithAtJWT env sv provider))))),
       (''/oauth/revoke'', tokenLimiter (logged (revokeHandler env sv provider))),
       (''/oauth/introspect'', tokenLimiter (logged provider)),
       (''/oauth/device/authorize'', tokenLimiter (logged provider)),
       (''/'', provider)])"

definition registerAuthgateRoutes :: "'l FrontEnv \<Rightarrow> RunningServer \<Rightarrow> (string \<times> 'l http) list" where
  "registerAuthgateRoutes env sv =
     (let tokenLimiter = NewRateLimiter (fe_ip env) (fe_limits env) (fe_now env) TokenTier;
          authLimiter = NewRateLimiter (fe_ip env) (fe_limits env) (fe_now env) AuthTier;
          devMode = g_DevMode (sv_config sv);
          browserUp = providedBy (sv_browserProvider sv) (fe_browserUp env);
          deviceUp = providedBy (sv_deviceProvider sv) (fe_deviceUp env) in
      [(''/login'', authLimiter (page (loginHandlerLogin browserUp (fe_show env) (sv_login sv) devMode))),
       (''/login/callback'', authLimiter (page (loginHandlerCallback browserUp (fe_show env) (sv_login sv) devMode)))]
      @ (case sv_mcp sv of None \<Rightarrow> []
         | Some ls \<Rightarrow> let mcpUp = (case sv_mcpProvider sv of None \<Rightarrow> fe_mcpUp env | Some p \<Rightarrow> providedBy p (fe_mcpUp env)) in
            [(''/mcp/login'', authLimiter (page (mcpHandlerLogin mcpUp (fe_show env) ls devMode))),
             (''/mcp/callback'', authLimiter (page (mcpHandlerCallback mcpUp (fe_show env) ls devMode)))])
      @ [(''/device'', authLimiter (page (\<lambda>ctx r. attempt (deviceHandlerPage (sv_device sv) devMode (fe_csrf env) ctx r) (\<lambda>resp. ok (follow deviceUp resp))))),
         (''/device/approve'', tokenLimiter (page (deviceHandlerApprove (sv_device sv) devMode))),
         (''/device/auth/callback'', authLimiter (page (deviceHandlerUpstream deviceUp (sv_device sv) devMode))),
         (''/end_session'', authLimiter (page (HandleEndSession (fe_endSession env) (sv_store sv) devMode)))])"

definition statusReply :: "nat \<Rightarrow> string \<Rightarrow> headers \<Rightarrow> Reply" where
  "statusReply code body h = textReply code body (h(''Content-Type'' \<mapsto> ''application/json''))"

definition healthHandler :: "'l http" where
  "healthHandler = (\<lambda>ctx r h L. (ok (statusReply 200 ''{\"status\":\"healthy\"}'' h), L))"

definition readyHandler :: "'l FrontEnv \<Rightarrow> 'l http" where
  "readyHandler env = (\<lambda>ctx r h L.
     (ok (if fe_shuttingDown env then statusReply 503 ''{\"status\":\"shutting down\"}'' h
          else if fe_ping env \<noteq> None then statusReply 503 ''{\"status\":\"not ready\"}'' h
          else statusReply 200 ''{\"status\":\"ready\"}'' h), L))"

definition registerHealthRoutes :: "'l FrontEnv \<Rightarrow> (string \<times> 'l http) list" where
  "registerHealthRoutes env = [(''/health'', healthHandler), (''/ready'', readyHandler env)]"

definition registerRoutes :: "'l FrontEnv \<Rightarrow> RunningServer \<Rightarrow> (string \<times> 'l http) list" where
  "registerRoutes env sv =
     registerOAuthMetadataRoutes env sv @ registerProviderRoutes env sv @ registerAuthgateRoutes env sv @ registerHealthRoutes env"

text \<open>
  \<^verbatim>\<open>http.ServeMux\<close> with such patterns: the segments of the escaped path, each unescaped, are compared with those of a
  pattern; \<open>/\<close> takes what nothing else takes. A path that is not clean is redirected.
\<close>

definition cleanPath :: "string \<Rightarrow> string" where
  "cleanPath p =
     (if p = '''' then ''/''
      else (let q = (if goHasPrefix p ''/'' then p else ''/'' @ p); np = pathClean q in
            if goHasSuffix q ''/'' \<and> np \<noteq> ''/'' then np @ ''/'' else np))"

definition matchPattern :: "(string \<Rightarrow> string) \<Rightarrow> string list \<Rightarrow> string \<Rightarrow> string" where
  "matchPattern unescape patterns path =
     (case find (\<lambda>p. p \<noteq> ''/'' \<and> map unescape (goSplit CHR ''/'' path) = goSplit CHR ''/'' p) patterns of Some p \<Rightarrow> p | None \<Rightarrow> ''/'')"

definition ServeMux :: "'l FrontEnv \<Rightarrow> (string \<times> 'l http) list \<Rightarrow> 'l http" where
  "ServeMux env routes = (\<lambda>ctx r h L.
     let path = h_EscapedPath r in
     if path = ''*'' then (ok \<lparr>rp_Status = 400, rp_Header = h(''Connection'' \<mapsto> ''close''), rp_Cookies = [], rp_Content = NoContent\<rparr>, L)
     else if h_Method r \<noteq> ''CONNECT'' \<and> cleanPath path \<noteq> path then
       (ok (respond r h \<lparr>r_Status = 307, r_Cookies = [], r_Page = RedirectTo (fe_cleanURL env r (cleanPath path))\<rparr>), L)
     else (case map_of routes (matchPattern (fe_unescape env) (map fst routes) path) of
         Some inner \<Rightarrow> inner ctx r h L
       | None \<Rightarrow> (ok (httpError 404 ''404 page not found'' h), L)))"

definition serve :: "'l FrontEnv \<Rightarrow> RunningServer \<Rightarrow> Request \<Rightarrow> 'l buckets \<Rightarrow> Reply act \<times> 'l buckets" where
  "serve env sv r L =
     SecurityHeaders (g_DevMode (sv_config sv))
       (RequestIDMiddleware (fe_uuid env)
         (corsHandler (sv_origins sv)
           (clientinfoMiddleware (fe_ip env) (sv_trusted sv)
             (ServeMux env (registerRoutes env sv)))))
       \<lparr>hc_Info = \<lparr>inf_IP = '''', inf_UserAgent = ''''\<rparr>, hc_RequestID = '''', hc_Log = [], hc_Resource = '''', hc_Claims = None\<rparr> r Map.empty L"

section \<open>Health probe\<close>

text \<open>\<open>get\<close> is the answer of the loopback address at a port: an error or the status.\<close>

definition checkHealth :: "(int \<Rightarrow> err + nat) \<Rightarrow> string \<Rightarrow> err option" where
  "checkHealth get port0 =
     (let port = (if port0 = '''' then ''8080'' else port0) in
      case goParseInt port of None \<Rightarrow> Some (ErrMsg ''healthcheck: invalid PORT'')
      | Some n \<Rightarrow>
          if n < 1 \<or> n > 65535 then Some (ErrMsg ''healthcheck: invalid PORT'')
          else (case get n of Inl e \<Rightarrow> Some e
            | Inr status \<Rightarrow> if status \<noteq> 200 then Some (ErrMsg ''healthcheck: unexpected HTTP status'') else None))"

end
