(* ===== verification/Routes_Correct.thy ===== *)
theory Routes_Correct
  imports Routes
begin

text \<open>
  What holds of every answer of the composed server: which headers it carries, which requests are refused
  before they reach a handler, and that those leave the database alone.
\<close>

section \<open>Baseline headers\<close>

definition baseline :: "bool \<Rightarrow> (string \<times> string) list" where
  "baseline devMode =
     [(''X-Content-Type-Options'', ''nosniff''), (''X-Frame-Options'', ''DENY''), (''Referrer-Policy'', ''no-referrer''),
      (''Content-Security-Policy'', contentSecurityPolicy)]
     @ (if devMode then [] else [(''Strict-Transport-Security'', strictTransportSecurity)])"

definition cacheHeaders :: "(string \<times> string) list" where
  "cacheHeaders = [(''Cache-Control'', ''no-store''), (''Pragma'', ''no-cache'')]"

definition guarded :: "bool \<Rightarrow> (string \<times> string) list" where
  "guarded devMode = baseline devMode @ cacheHeaders"

text \<open>The provider library leaves these headers alone, or sets them to the same values (as \<^verbatim>\<open>http.Error\<close> does).\<close>

definition providerMild :: "(string \<times> string) list \<Rightarrow> 'l FrontEnv \<Rightarrow> bool" where
  "providerMild kvs env \<longleftrightarrow> (\<forall>ctx r h w rc w'. run_state (fe_op env ctx r h) w = (Inr rc, w') \<longrightarrow> mild kvs h (rc_header rc))"

lemma guarded_free:
  "''Content-Type'' \<notin> fst ` set (guarded d)" "''Content-Length'' \<notin> fst ` set (guarded d)" "''Retry-After'' \<notin> fst ` set (guarded d)"
  "''Location'' \<notin> fst ` set (guarded d)" "''Www-Authenticate'' \<notin> fst ` set (guarded d)" "''Connection'' \<notin> fst ` set (guarded d)"
  "''ETag'' \<notin> fst ` set (guarded d)" "''Content-Digest'' \<notin> fst ` set (guarded d)" "''Repr-Digest'' \<notin> fst ` set (guarded d)"
  "''X-Request-Id'' \<notin> fst ` set (guarded d)" "''Vary'' \<notin> fst ` set (guarded d)"
  "''Access-Control-Allow-Origin'' \<notin> fst ` set (guarded d)" "''Access-Control-Allow-Methods'' \<notin> fst ` set (guarded d)"
  "''Access-Control-Allow-Headers'' \<notin> fst ` set (guarded d)" "''Access-Control-Allow-Credentials'' \<notin> fst ` set (guarded d)"
  "''Access-Control-Max-Age'' \<notin> fst ` set (guarded d)"
  by (cases d; simp add: guarded_def baseline_def cacheHeaders_def)+

lemma guarded_nosniff: "(''X-Content-Type-Options'', v) \<in> set (guarded d) \<Longrightarrow> v = ''nosniff''"
  by (cases d) (simp_all add: guarded_def baseline_def cacheHeaders_def)

lemmas mild_set = mild_upd [OF _ disjI1 [OF guarded_free(1)]] mild_upd [OF _ disjI1 [OF guarded_free(2)]] mild_upd [OF _ disjI1 [OF guarded_free(3)]]
  mild_upd [OF _ disjI1 [OF guarded_free(4)]] mild_upd [OF _ disjI1 [OF guarded_free(5)]] mild_upd [OF _ disjI1 [OF guarded_free(6)]]
  mild_upd [OF _ disjI1 [OF guarded_free(7)]] mild_upd [OF _ disjI1 [OF guarded_free(8)]] mild_upd [OF _ disjI1 [OF guarded_free(9)]]
  mild_upd [OF _ disjI1 [OF guarded_free(10)]] mild_upd [OF _ disjI1 [OF guarded_free(11)]] mild_upd [OF _ disjI1 [OF guarded_free(12)]]
  mild_upd [OF _ disjI1 [OF guarded_free(13)]] mild_upd [OF _ disjI1 [OF guarded_free(14)]] mild_upd [OF _ disjI1 [OF guarded_free(15)]]
  mild_upd [OF _ disjI1 [OF guarded_free(16)]]

lemma mild_httpError: "mild (guarded d) h h' \<Longrightarrow> mild (guarded d) h (rp_Header (httpError code message h'))"
  unfolding httpError_def textReply_def Reply.simps
  by (rule mild_upd [OF _ disjI2]) (auto intro: mild_set dest: guarded_nosniff)

section \<open>Every route keeps them\<close>

lemma providerMildD: "providerMild kvs env \<Longrightarrow> run_state (fe_op env ctx r h) w = (Inr rc, w') \<Longrightarrow> mild kvs h (rc_header rc)"
  unfolding providerMild_def by blast

lemma leaves_verifiedProvider [leaving]: "providerMild (guarded d) env \<Longrightarrow> leaves (guarded d) (verifiedProvider env)"
  by (rule leavesI)
     (auto simp: verifiedProvider_def replyOf_def run_attempt split: Guarded.splits prod.splits sum.splits
        intro!: mild_httpError mild_set dest: providerMildD)

lemma mild_WrapAccessToken: "mild (guarded d) h (rc_header r) \<Longrightarrow> mild (guarded d) h (rc_header (WrapAccessTokenJWTType env key r))"
  by (auto simp: WrapAccessTokenJWTType_def Let_def intro!: mild_set split: sum.splits)

lemma mild_over: "mild kvs Map.empty h1 \<Longrightarrow> mild kvs h (h ++ h1)"
  unfolding mild_def by (fastforce simp: map_add_def)

lemma run_tokenWithAtJWT:
  assumes "run_state (fst (tokenWithAtJWT env sv inner ctx r h L)) w = (Inr rp, w')"
  obtains rp0 where "run_state (fst (inner ctx r Map.empty L)) w = (Inr rp0, w')"
    "rp_Header rp = (h ++ rc_header (WrapAccessTokenJWTType (fe_token env) (SigningKey (sv_signing sv)) (recordedOf rp0)))
       (''ETag'' := None, ''Content-Digest'' := None, ''Repr-Digest'' := None)"
  using assms by (auto simp: tokenWithAtJWT_def replyOf_def run_attempt Let_def split: prod.splits sum.splits)

lemma leaves_tokenWithAtJWT [leaving]:
  assumes "leaves (guarded d) inner"
  shows "leaves (guarded d) (tokenWithAtJWT env sv inner)"
proof (rule leavesI)
  fix ctx r h L w rp w'
  assume "run_state (fst (tokenWithAtJWT env sv inner ctx r h L)) w = (Inr rp, w')"
  then show "mild (guarded d) h (rp_Header rp)"
  proof (rule run_tokenWithAtJWT)
    fix rp0
    let ?out = "rc_header (WrapAccessTokenJWTType (fe_token env) (SigningKey (sv_signing sv)) (recordedOf rp0))"
    assume "run_state (fst (inner ctx r Map.empty L)) w = (Inr rp0, w')"
    from leavesD [OF assms this] have "mild (guarded d) Map.empty ?out" by (intro mild_WrapAccessToken) (simp add: recordedOf_def)
    from mild_over [OF this] have "mild (guarded d) h (h ++ ?out)" .
    moreover assume "rp_Header rp = (h ++ ?out)(''ETag'' := None, ''Content-Digest'' := None, ''Repr-Digest'' := None)"
    ultimately show ?thesis by (simp add: mild_set)
  qed
qed

lemma leaves_withResource [leaving]: "leaves (guarded d) inner \<Longrightarrow> leaves (guarded d) (withResource env inner)"
  by (rule leavesI) (auto simp: withResource_def writeInvalidTargetError_def intro!: mild_set dest: leavesD split: sum.splits)

lemma leaves_revokeHandler [leaving]: "leaves kvs inner \<Longrightarrow> leaves kvs (revokeHandler env sv inner)"
  by (rule leavesI) (auto simp: revokeHandler_def Let_def dest: leavesD split: if_splits)

lemma leaves_NoStore [leaving]: "leaves (guarded d) inner \<Longrightarrow> leaves (guarded d) (NoStore inner)"
proof (rule leavesI)
  fix ctx r h L w rp w'
  assume "leaves (guarded d) inner" "run_state (fst (NoStore inner ctx r h L)) w = (Inr rp, w')"
  then have "mild (guarded d) (h(''Cache-Control'' \<mapsto> ''no-store'', ''Pragma'' \<mapsto> ''no-cache'')) (rp_Header rp)"
    unfolding NoStore_def by (rule leavesD)
  moreover have "mild (guarded d) h (h(''Cache-Control'' \<mapsto> ''no-store'', ''Pragma'' \<mapsto> ''no-cache''))"
    by (intro mild_upd mild_refl disjI2) (auto simp: guarded_def baseline_def cacheHeaders_def split: if_splits)
  ultimately show "mild (guarded d) h (rp_Header rp)" using mild_trans by blast
qed

lemma mild_respond: "mild (guarded d) h (rp_Header (respond r h resp))"
  by (cases "r_Page resp") (simp_all add: respond_def Let_def mild_set mild_httpError)

lemma leaves_page [leaving]: "leaves (guarded d) (page handler)"
  by (rule leavesI) (auto simp: page_def run_attempt mild_respond split: prod.splits sum.splits)

lemma leaves_const [leaving]: "(\<And>h. mild kvs h (rp_Header (f h))) \<Longrightarrow> leaves kvs (\<lambda>ctx r h L. (ok (f h), L))"
  by (rule leavesI) auto

lemma routes_leave:
  assumes "providerMild (guarded d) env" "(p, inner) \<in> set (registerRoutes env sv)"
  shows "leaves (guarded d) inner"
proof -
  note rules = leaves_verifiedProvider [OF assms(1)] leaves_tokenWithAtJWT leaves_withResource leaves_revokeHandler leaves_NoStore leaves_page
    leaves_const leaves_TokenLogContext leaves_NewRateLimiter leaves_AuthorizationResponseIssuer guarded_free mild_set mild_refl
  have "list_all (\<lambda>(p, inner). leaves (guarded d) inner) (registerOAuthMetadataRoutes env sv)"
    by (simp add: registerOAuthMetadataRoutes_def Let_def) (intro rules, simp add: mild_set)
  moreover have "list_all (\<lambda>(p, inner). leaves (guarded d) inner) (registerProviderRoutes env sv)"
    unfolding registerProviderRoutes_def Let_def by (simp only: list.pred_inject prod.case, intro conjI rules TrueI)
  moreover have "list_all (\<lambda>(p, inner). leaves (guarded d) inner) (registerAuthgateRoutes env sv)"
    unfolding registerAuthgateRoutes_def Let_def
    by (cases "sv_mcp sv") (simp only: list.pred_inject list_all_append prod.case option.case, intro conjI rules TrueI)+
  moreover have "list_all (\<lambda>(p, inner). leaves (guarded d) inner) (registerHealthRoutes env)"
    unfolding registerHealthRoutes_def healthHandler_def readyHandler_def
    by (simp only: list.pred_inject prod.case, intro conjI leaves_const TrueI) (simp_all add: statusReply_def textReply_def mild_set)
  ultimately show ?thesis using assms(2) unfolding registerRoutes_def by (auto simp: list_all_iff)
qed

lemma leaves_ServeMux:
  assumes "\<And>p inner. (p, inner) \<in> set routes \<Longrightarrow> leaves (guarded d) inner"
  shows "leaves (guarded d) (ServeMux env routes)"
proof (rule leavesI)
  fix ctx r h L w rp w'
  assume "run_state (fst (ServeMux env routes ctx r h L)) w = (Inr rp, w')"
  then show "mild (guarded d) h (rp_Header rp)"
    using assms [OF map_of_SomeD, THEN leavesD]
    by (auto simp: ServeMux_def Let_def mild_respond mild_set mild_httpError split: if_splits option.splits)
qed

section \<open>The whole composition\<close>

text \<open>The context and the headers with which a request reaches the mux.\<close>

definition frontHeaders :: "'l FrontEnv \<Rightarrow> RunningServer \<Rightarrow> Request \<Rightarrow> headers" where
  "frontHeaders env sv r =
     (let h1 = [''X-Content-Type-Options'' \<mapsto> ''nosniff'', ''X-Frame-Options'' \<mapsto> ''DENY'', ''Referrer-Policy'' \<mapsto> ''no-referrer'',
                ''Content-Security-Policy'' \<mapsto> contentSecurityPolicy];
          h2 = (if \<not> g_DevMode (sv_config sv) then h1(''Strict-Transport-Security'' \<mapsto> strictTransportSecurity) else h1)
      in h2(''X-Request-Id'' \<mapsto> (if \<not> validRequestID (h_Header r ''X-Request-ID'') then fe_uuid env else h_Header r ''X-Request-ID'')))"

definition frontCtx :: "'l FrontEnv \<Rightarrow> RunningServer \<Rightarrow> Request \<Rightarrow> HttpCtx" where
  "frontCtx env sv r =
     (let id = (if \<not> validRequestID (h_Header r ''X-Request-ID'') then fe_uuid env else h_Header r ''X-Request-ID'') in
      \<lparr>hc_Info = Extract (fe_ip env) (Some r) (sv_trusted sv), hc_RequestID = id,
       hc_Log = [(''request_id'', id), (''path'', truncateLogValue (h_Path r))], hc_Resource = '''', hc_Claims = None\<rparr>)"

lemma frontHeaders_carries: "carries (baseline (g_DevMode (sv_config sv))) (frontHeaders env sv r)"
  by (simp add: carries_def baseline_def frontHeaders_def Let_def)

lemma mild_cors:
  "mild (guarded d) h (flushCORSHeaders origin matched h)"
  "mild (guarded d) h (snd (NewCORSMiddleware origins r h))"
  by (simp_all add: flushCORSHeaders_def NewCORSMiddleware_def addVary_def corsHeaders_def Let_def mild_set)

lemma serve_cases:
  assumes "run_state (fst (serve env sv r L)) w = (Inr rp, w')"
  obtains (preflight) "h_Method r = ''OPTIONS''" "w' = w" "rp_Header rp = snd (NewCORSMiddleware (sv_origins sv) r (frontHeaders env sv r))"
  | (mux) rp0 where "h_Method r \<noteq> ''OPTIONS''"
      "run_state (fst (ServeMux env (registerRoutes env sv) (frontCtx env sv r) r (frontHeaders env sv r) L)) w = (Inr rp0, w')"
      "rp = rp0\<lparr>rp_Header := flushCORSHeaders (h_Header r ''Origin'') (corsAllowed (sv_origins sv) (h_Header r ''Origin'')) (rp_Header rp0)\<rparr>"
proof (cases "h_Method r = ''OPTIONS''")
  case True
  with assms preflight show thesis
    by (auto simp: serve_def SecurityHeaders_def RequestIDMiddleware_def corsHandler_def NewCORSMiddleware_def frontHeaders_def Let_def split: if_splits)
next
  case False
  have "serve env sv r L = corsHandler (sv_origins sv) (\<lambda>_. ServeMux env (registerRoutes env sv) (frontCtx env sv r)) c r (frontHeaders env sv r) L" for c
    by (simp add: serve_def SecurityHeaders_def RequestIDMiddleware_def corsHandler_def clientinfoMiddleware_def onReply_def With_def
        frontCtx_def frontHeaders_def Let_def split: prod.split option.split)
  with assms False have "run_state (fst (onReply (\<lambda>r rp. rp\<lparr>rp_Header := snd (NewCORSMiddleware (sv_origins sv) r (rp_Header rp))\<rparr>)
      (\<lambda>_. ServeMux env (registerRoutes env sv) (frontCtx env sv r)) undefined r (frontHeaders env sv r) L)) w = (Inr rp, w')"
    by (simp add: corsHandler_def NewCORSMiddleware_def Let_def)
  then obtain rp0 where "run_state (fst (ServeMux env (registerRoutes env sv) (frontCtx env sv r) r (frontHeaders env sv r) L)) w = (Inr rp0, w')"
    "rp = rp0\<lparr>rp_Header := snd (NewCORSMiddleware (sv_origins sv) r (rp_Header rp0))\<rparr>"
    unfolding run_onReply by blast
  with mux False show thesis by (simp add: NewCORSMiddleware_def Let_def)
qed

text \<open>The request reaches the handler that is registered for a pattern.\<close>

definition served :: "'l FrontEnv \<Rightarrow> RunningServer \<Rightarrow> Request \<Rightarrow> string \<Rightarrow> bool" where
  "served env sv r pattern \<longleftrightarrow>
     h_Method r \<noteq> ''OPTIONS'' \<and> h_EscapedPath r \<noteq> ''*'' \<and> (h_Method r = ''CONNECT'' \<or> cleanPath (h_EscapedPath r) = h_EscapedPath r)
     \<and> matchPattern (fe_unescape env) (map fst (registerRoutes env sv)) (h_EscapedPath r) = pattern"

lemma serve_served:
  assumes "served env sv r pattern" "map_of (registerRoutes env sv) pattern = Some inner" "run_state (fst (serve env sv r L)) w = (Inr rp, w')"
  obtains rp0 where "run_state (fst (inner (frontCtx env sv r) r (frontHeaders env sv r) L)) w = (Inr rp0, w')"
    "rp = rp0\<lparr>rp_Header := flushCORSHeaders (h_Header r ''Origin'') (corsAllowed (sv_origins sv) (h_Header r ''Origin'')) (rp_Header rp0)\<rparr>"
  using assms(3)
proof (cases rule: serve_cases)
  case preflight
  with assms(1) show ?thesis by (simp add: served_def)
next
  case (mux rp0)
  with assms(1,2) that show ?thesis by (auto simp: ServeMux_def served_def Let_def)
qed

text \<open>The rate limit of each route.\<close>

definition limitedBy :: "bool \<Rightarrow> string \<Rightarrow> Tier option" where
  "limitedBy mcp pattern =
     (if pattern \<in> set [''/oauth/token'', ''/oauth/revoke'', ''/oauth/introspect'', ''/oauth/device/authorize'', ''/device/approve''] then Some TokenTier
      else if pattern \<in> set [''/authorize'', ''/login'', ''/login/callback'', ''/device'', ''/device/auth/callback'', ''/end_session'']
        \<or> (mcp \<and> pattern \<in> set [''/mcp/login'', ''/mcp/callback'']) then Some AuthTier
      else None)"

definition isLimited :: "'l FrontEnv \<Rightarrow> Tier \<Rightarrow> 'l http \<Rightarrow> bool" where
  "isLimited env tier inner \<longleftrightarrow>
     (\<exists>x. inner = NewRateLimiter (fe_ip env) (fe_limits env) (fe_now env) tier x
        \<or> inner = NoStore (NewRateLimiter (fe_ip env) (fe_limits env) (fe_now env) tier x))"

lemma isLimitedI [simp]:
  "isLimited env tier (NewRateLimiter (fe_ip env) (fe_limits env) (fe_now env) tier x)"
  "isLimited env tier (NoStore (NewRateLimiter (fe_ip env) (fe_limits env) (fe_now env) tier x))"
  unfolding isLimited_def by blast+

lemmas routes = registerRoutes_def registerOAuthMetadataRoutes_def registerProviderRoutes_def registerAuthgateRoutes_def registerHealthRoutes_def Let_def

lemma limited_token:
  assumes "pattern \<in> {''/oauth/token'', ''/oauth/revoke'', ''/oauth/introspect'', ''/oauth/device/authorize'', ''/device/approve''}"
  shows "\<exists>inner. map_of (registerRoutes env sv) pattern = Some inner \<and> isLimited env TokenTier inner"
  using assms by (cases "sv_mcp sv"; simp only: insert_iff empty_iff; elim disjE; simp add: routes)

lemma limited_auth:
  assumes "pattern \<in> {''/authorize'', ''/login'', ''/login/callback'', ''/device'', ''/device/auth/callback'', ''/end_session''}"
  shows "\<exists>inner. map_of (registerRoutes env sv) pattern = Some inner \<and> isLimited env AuthTier inner"
  using assms by (cases "sv_mcp sv"; simp only: insert_iff empty_iff; elim disjE; simp add: routes)

lemma limited_mcp:
  assumes "pattern \<in> {''/mcp/login'', ''/mcp/callback''}" "sv_mcp sv \<noteq> None"
  shows "\<exists>inner. map_of (registerRoutes env sv) pattern = Some inner \<and> isLimited env AuthTier inner"
  using assms by (cases "sv_mcp sv"; simp only: insert_iff empty_iff; elim disjE; simp add: routes)

lemma tier_cases: "(if a then Some x else if b \<or> m \<and> c then Some y else None) = Some t \<Longrightarrow> a \<and> t = x \<or> b \<and> t = y \<or> c \<and> m \<and> t = y"
  by (auto split: if_splits)

lemma limited_route:
  assumes "limitedBy (sv_mcp sv \<noteq> None) pattern = Some tier"
  shows "\<exists>inner. map_of (registerRoutes env sv) pattern = Some inner \<and> isLimited env tier inner"
  using tier_cases [OF assms [unfolded limitedBy_def list.set]]
  by (elim disjE conjE; hypsubst) (erule limited_token limited_auth limited_mcp, assumption?)+

lemma limited_refused:
  assumes "\<not> fst (allow (fe_limits env tier) (limiterKey (fe_ip env) (inf_IP (hc_Info ctx)) r) (fe_now env) (L tier))"
    and "isLimited env tier inner" "run_state (fst (inner ctx r h L)) w = (Inr rp, w')"
  shows "rp_Status rp = 429 \<and> w' = w"
  using assms(2)
  unfolding isLimited_def
proof (elim exE disjE)
  fix x
  assume "inner = NewRateLimiter (fe_ip env) (fe_limits env) (fe_now env) tier x"
  with assms(1,3) show ?thesis by (intro NewRateLimiter_refused) simp_all
next
  fix x
  assume "inner = NoStore (NewRateLimiter (fe_ip env) (fe_limits env) (fe_now env) tier x)"
  with assms(3) have "run_state (fst (NewRateLimiter (fe_ip env) (fe_limits env) (fe_now env) tier x ctx r
      (h(''Cache-Control'' \<mapsto> ''no-store'', ''Pragma'' \<mapsto> ''no-cache'')) L)) w = (Inr rp, w')" by (simp add: NoStore_def)
  with assms(1) show ?thesis by (rule NewRateLimiter_refused)
qed

text \<open>Handlers that answer a request with two resources themselves.\<close>

definition refusesTwo :: "'l http \<Rightarrow> bool" where
  "refusesTwo inner \<longleftrightarrow> (\<forall>ctx r h L w rp w'. h_FormOk r \<longrightarrow> 1 < length (h_Resources r) \<longrightarrow>
     run_state (fst (inner ctx r h L)) w = (Inr rp, w') \<longrightarrow> rp_Status rp \<in> {400, 429} \<and> w' = w)"

lemma refusesTwo_withResource: "refusesTwo (withResource env inner)"
  by (auto simp: refusesTwo_def withResource_def ResourceFromRequestStrict_def writeInvalidTargetError_def)

lemma refusesTwo_wrap:
  assumes "refusesTwo inner"
  shows "refusesTwo (NewRateLimiter ip ops now tier inner)" "refusesTwo (TokenLogContext lg inner)" "refusesTwo (NoStore inner)"
    "refusesTwo (AuthorizationResponseIssuer loc issuer inner)"
proof -
  note D = assms [unfolded refusesTwo_def, rule_format]
  show "refusesTwo (NewRateLimiter ip ops now tier inner)"
    unfolding refusesTwo_def
  proof (intro allI impI)
    fix ctx r h L w rp w'
    assume r: "h_FormOk r" "1 < length (h_Resources r)" and "run_state (fst (NewRateLimiter ip ops now tier inner ctx r h L)) w = (Inr rp, w')"
    from this(3) show "rp_Status rp \<in> {400, 429} \<and> w' = w"
      by (rule NewRateLimiter_cases) (simp, rule D [OF r])
  qed
  show "refusesTwo (TokenLogContext lg inner)"
    unfolding refusesTwo_def
  proof (intro allI impI)
    fix ctx r h L w rp w'
    assume r: "h_FormOk r" "1 < length (h_Resources r)" and run: "run_state (fst (TokenLogContext lg inner ctx r h L)) w = (Inr rp, w')"
    obtain form r' where p: "peekForm lg r = (form, r')" by force
    with peekForm_request [of lg r] have "r' = r" by simp
    with run p have "run_state (fst (inner (With ctx (tokenLogAttrs lg r form)) r h L)) w = (Inr rp, w')" by (simp add: TokenLogContext_def)
    with D r show "rp_Status rp \<in> {400, 429} \<and> w' = w" by blast
  qed
  show "refusesTwo (NoStore inner)" unfolding refusesTwo_def NoStore_def using D by blast
  have "rp_Status (issuerWriteHeader loc issuer rp) = rp_Status rp" for rp
    by (simp add: issuerWriteHeader_def split: option.split)
  then show "refusesTwo (AuthorizationResponseIssuer loc issuer inner)"
    unfolding refusesTwo_def AuthorizationResponseIssuer_def run_onReply using D by (intro allI impI, elim exE conjE) (simp only:)
qed

lemma resource_routes:
  assumes "pattern \<in> {''/authorize'', ''/oauth/token''}"
  shows "\<exists>inner. map_of (registerRoutes env sv) pattern = Some inner \<and> refusesTwo inner"
  using assms by (simp only: insert_iff empty_iff; elim disjE; simp add: routes refusesTwo_wrap refusesTwo_withResource)

text \<open>A userinfo request with a bearer token of the right profile.\<close>

definition verifiedBearer :: "'l FrontEnv \<Rightarrow> Request \<Rightarrow> bool" where
  "verifiedBearer env r \<longleftrightarrow> fe_supported env
     \<and> (\<exists>token c. fe_bearer env r = Inr token \<and> verifyAccessTokenProfile (fe_verify env) (fe_now env) token = Inr c \<and> tc_ClientID c \<in> set (tc_Audience c))"

lemma userinfo_refused:
  assumes "h_Path r = ''/userinfo''" "\<not> verifiedBearer env r" "run_state (fst (verifiedProvider env ctx r h L)) w = (Inr rp, w')"
  shows "rp_Status rp = 401 \<and> w' = w"
proof -
  have "WrapVerifiedAccessToken (fe_verify env) (fe_supported env) (fe_now env) (boundaryOf env r) = Refuse401"
    using assms(1,2) by (auto simp: WrapVerifiedAccessToken_def boundaryOf_def verifiedBearer_def Let_def split: sum.splits)
  with assms(3) show ?thesis by (auto simp: verifiedProvider_def httpError_def textReply_def)
qed

lemma allow_origin_configured:
  assumes "run_state (fst (serve env sv r L)) w = (Inr rp, w')" "rp_Header rp ''Access-Control-Allow-Origin'' = Some origin"
  shows "origin \<in> set (sv_origins sv) \<and> origin = h_Header r ''Origin''"
  using assms(1)
proof (cases rule: serve_cases)
  case preflight
  with assms(2) show ?thesis
    by (auto simp: NewCORSMiddleware_def frontHeaders_def addVary_def corsHeaders_def corsAllowed_def Let_def split: if_splits)
next
  case (mux rp0)
  with assms(2) show ?thesis by (auto simp: flushCORSHeaders_def addVary_def corsHeaders_def corsAllowed_def split: if_splits)
qed

lemma token_no_store:
  assumes "providerMild (guarded d) env" "served env sv r ''/oauth/token''" "run_state (fst (serve env sv r L)) w = (Inr rp, w')"
  shows "carries cacheHeaders (rp_Header rp)"
proof -
  define x where "x = NewRateLimiter (fe_ip env) (fe_limits env) (fe_now env) TokenTier
    (TokenLogContext (fe_log env) (withResource env (tokenWithAtJWT env sv (verifiedProvider env))))"
  have x: "map_of (registerRoutes env sv) ''/oauth/token'' = Some (NoStore x)" "leaves (guarded d) x"
    by (simp add: routes x_def, unfold x_def, intro leaving assms(1) guarded_free)
  obtain rp0 where run: "run_state (fst (NoStore x (frontCtx env sv r) r (frontHeaders env sv r) L)) w = (Inr rp0, w')"
    and rp: "mild (guarded d) (rp_Header rp0) (rp_Header rp)" by (rule serve_served [OF assms(2) x(1) assms(3)]) (simp add: mild_cors)
  have "mild (guarded d) ((frontHeaders env sv r)(''Cache-Control'' \<mapsto> ''no-store'', ''Pragma'' \<mapsto> ''no-cache'')) (rp_Header rp0)"
    using run unfolding NoStore_def by (rule leavesD [OF x(2)])
  from mild_trans [OF this rp] show ?thesis
    by (rule mild_carries) (simp_all add: guarded_def carries_def cacheHeaders_def)
qed

lemma baseline_carried:
  assumes "providerMild (guarded (g_DevMode (sv_config sv))) env" "run_state (fst (serve env sv r L)) w = (Inr rp, w')"
  shows "carries (baseline (g_DevMode (sv_config sv))) (rp_Header rp)"
  using assms(2)
proof (cases rule: serve_cases)
  case preflight
  show ?thesis unfolding preflight(3)
    by (rule mild_carries [OF mild_cors(2) [where d = "g_DevMode (sv_config sv)"] _ frontHeaders_carries]) (simp add: guarded_def)
next
  case (mux rp0)
  have "leaves (guarded (g_DevMode (sv_config sv))) (ServeMux env (registerRoutes env sv))"
    using routes_leave [OF assms(1)] by (rule leaves_ServeMux)
  from leavesD [OF this mux(2)] have "mild (guarded (g_DevMode (sv_config sv))) (frontHeaders env sv r) (rp_Header rp)"
    unfolding mux(3) by (simp add: mild_trans [OF _ mild_cors(1)])
  then show ?thesis by (rule mild_carries [OF _ _ frontHeaders_carries]) (simp add: guarded_def)
qed

lemma ready_route:
  assumes "served env sv r ''/ready''" "run_state (fst (serve env sv r L)) w = (Inr rp, w')" "rp_Status rp = 200"
  shows "\<not> fe_shuttingDown env \<and> fe_ping env = None"
proof -
  have m: "map_of (registerRoutes env sv) ''/ready'' = Some (readyHandler env)"
    by (cases "sv_mcp sv") (simp_all add: routes)
  obtain rp0 where "run_state (fst (readyHandler env (frontCtx env sv r) r (frontHeaders env sv r) L)) w = (Inr rp0, w')"
    "rp_Status rp = rp_Status rp0" by (rule serve_served [OF assms(1) m assms(2)]) simp
  with assms(3) show ?thesis by (auto simp: readyHandler_def statusReply_def textReply_def split: if_splits)
qed

lemma catch_all: "map_of (registerRoutes env sv) ''/'' = Some (verifiedProvider env)"
  by (simp add: routes)

section \<open>Properties\<close>

text \<open>C37: What holds of every answer of the composed server, whatever the provider library does with the database
  (it is only supposed not to overwrite the headers in question with other values). The answer carries the
  security headers, HSTS included outside development mode; it allows a cross-origin read only to an origin
  of a configured redirect address, the one of the request. Answers of the token endpoint are not
  cacheable. A request whose address has used up the bucket of its route is answered 429, and one to the
  authorization or token endpoint with two resource parameters is refused, without a change of the
  database. A userinfo request without a verified bearer token of the right profile is answered 401 and
  never reaches the provider. Readiness is only reported by a server that is not shutting down and whose
  database answers.\<close>

theorem front_sound:
  assumes "run_state (fst (serve env sv r L)) w = (Inr rp, w')" "providerMild (guarded (g_DevMode (sv_config sv))) env"
  shows "carries (baseline (g_DevMode (sv_config sv))) (rp_Header rp)
    \<and> (\<forall>origin. rp_Header rp ''Access-Control-Allow-Origin'' = Some origin \<longrightarrow> origin \<in> set (sv_origins sv) \<and> origin = h_Header r ''Origin'')
    \<and> (served env sv r ''/oauth/token'' \<longrightarrow> carries cacheHeaders (rp_Header rp))
    \<and> (\<forall>pattern tier. served env sv r pattern \<and> limitedBy (sv_mcp sv \<noteq> None) pattern = Some tier
         \<and> \<not> fst (allow (fe_limits env tier) (limiterKey (fe_ip env) (inf_IP (Extract (fe_ip env) (Some r) (sv_trusted sv))) r) (fe_now env) (L tier))
         \<longrightarrow> rp_Status rp = 429 \<and> w' = w)
    \<and> (\<forall>pattern \<in> {''/authorize'', ''/oauth/token''}. served env sv r pattern \<and> h_FormOk r \<and> 1 < length (h_Resources r)
         \<longrightarrow> rp_Status rp \<in> {400, 429} \<and> w' = w)
    \<and> (served env sv r ''/'' \<and> h_Path r = ''/userinfo'' \<and> \<not> verifiedBearer env r \<longrightarrow> rp_Status rp = 401 \<and> w' = w)
    \<and> (served env sv r ''/ready'' \<and> rp_Status rp = 200 \<longrightarrow> \<not> fe_shuttingDown env \<and> fe_ping env = None)"
proof (intro conjI allI impI ballI)
  show "carries (baseline (g_DevMode (sv_config sv))) (rp_Header rp)" using baseline_carried [OF assms(2,1)] .
  show "origin \<in> set (sv_origins sv)" "origin = h_Header r ''Origin''" if "rp_Header rp ''Access-Control-Allow-Origin'' = Some origin" for origin
    using allow_origin_configured [OF assms(1) that] by blast+
  show "carries cacheHeaders (rp_Header rp)" if "served env sv r ''/oauth/token''" using token_no_store [OF assms(2) that assms(1)] .
next
  fix pattern tier
  assume s: "served env sv r pattern \<and> limitedBy (sv_mcp sv \<noteq> None) pattern = Some tier
    \<and> \<not> fst (allow (fe_limits env tier) (limiterKey (fe_ip env) (inf_IP (Extract (fe_ip env) (Some r) (sv_trusted sv))) r) (fe_now env) (L tier))"
  then obtain inner where i: "map_of (registerRoutes env sv) pattern = Some inner" "isLimited env tier inner" using limited_route by blast
  from s have served: "served env sv r pattern" by blast
  obtain rp0 where run: "run_state (fst (inner (frontCtx env sv r) r (frontHeaders env sv r) L)) w = (Inr rp0, w')"
    "rp_Status rp = rp_Status rp0" by (rule serve_served [OF served i(1) assms(1)]) simp
  have "rp_Status rp0 = 429 \<and> w' = w"
    using s by (intro limited_refused [OF _ i(2) run(1)]) (simp add: frontCtx_def Let_def)
  with run(2) show "rp_Status rp = 429" "w' = w" by simp_all
next
  fix pattern
  assume p: "pattern \<in> {''/authorize'', ''/oauth/token''}" and s: "served env sv r pattern \<and> h_FormOk r \<and> 1 < length (h_Resources r)"
  from resource_routes [OF p] obtain inner where i: "map_of (registerRoutes env sv) pattern = Some inner" "refusesTwo inner" by blast
  from s have served: "served env sv r pattern" by blast
  obtain rp0 where run: "run_state (fst (inner (frontCtx env sv r) r (frontHeaders env sv r) L)) w = (Inr rp0, w')"
    "rp_Status rp = rp_Status rp0" by (rule serve_served [OF served i(1) assms(1)]) simp
  with i(2) s show "rp_Status rp \<in> {400, 429}" "w' = w" unfolding refusesTwo_def by metis+
next
  assume s: "served env sv r ''/'' \<and> h_Path r = ''/userinfo'' \<and> \<not> verifiedBearer env r"
  then have served: "served env sv r ''/''" by blast
  obtain rp0 where run: "run_state (fst (verifiedProvider env (frontCtx env sv r) r (frontHeaders env sv r) L)) w = (Inr rp0, w')"
    "rp_Status rp = rp_Status rp0" by (rule serve_served [OF served catch_all assms(1)]) simp
  with userinfo_refused s show "rp_Status rp = 401" "w' = w" by metis+
next
  assume s: "served env sv r ''/ready'' \<and> rp_Status rp = 200"
  then show "\<not> fe_shuttingDown env" "fe_ping env = None" using ready_route [OF _ assms(1)] by blast+
qed

text \<open>An example: a token request with two resource parameters, on a provider that answers nothing but 404.\<close>

definition exampleProvider :: OIDCProvider where
  "exampleProvider = \<lparr>od_name = ''google'', od_rp = \<lparr>ry_IssuerURL = ''https://accounts.google.com'', ry_ClientID = ''authgate'', ry_ClientSecret = ''s'',
     ry_RedirectURI = ''https://auth.example/login/callback'', ry_Scopes = [''openid''], ry_Options = []\<rparr>, od_ch = None, od_nonceCookieName = ''nonce''\<rparr>"

definition exampleServer :: RunningServer where
  "exampleServer = \<lparr>sv_config = clampIdle exampleConfig, sv_store = exampleStorage, sv_signing = emptyProvider, sv_origins = [],
     sv_trusted = [], sv_cleanup = NewCleanupService, sv_brand = \<lparr>bd_Name = ''authgate'', bd_LogoSVG = '''', bd_PrimaryColor = ''''\<rparr>,
     sv_login = NewLoginService (\<lambda>_. None) exampleStorage ''google'' ''https://auth.example'' 3600,
     sv_device = NewDeviceService exampleStorage ''google'' 3600, sv_mcp = None,
     sv_browserProvider = exampleProvider, sv_deviceProvider = exampleProvider, sv_mcpProvider = None\<rparr>"

definition exampleUpstream :: UpstreamEnv where
  "exampleUpstream = \<lparr>ue_cookie = False, ue_nonceCookieName = ''nonce'', ue_check = (\<lambda>_ _. None), ue_set = (\<lambda>_ _. None), ue_delete = (\<lambda>n. clearSessionCookie True),
     ue_authURL = (\<lambda>_ _. ''https://idp.example''), ue_exchange = (\<lambda>_ _. Inl (401, ''authentication failed'')), ue_nonce = Inl ErrDb\<rparr>"

definition exampleFront :: "nat FrontEnv" where
  "exampleFront = \<lparr>fe_ip = exampleIPs, fe_limits = (\<lambda>_. \<lparr>rl_new = 0, rl_allow = (\<lambda>n _. (True, Suc n))\<rparr>), fe_now = 50, fe_uuid = ''id'',
     fe_location = \<lparr>le_parse = (\<lambda>_. None), le_print = (\<lambda>_. '''')\<rparr>,
     fe_log = \<lparr>lg_mediaType = (\<lambda>_. None), lg_query = (\<lambda>_ _. ''''), lg_unescape = (\<lambda>_. None)\<rparr>,
     fe_unescape = (\<lambda>s. s), fe_cleanURL = (\<lambda>_ p. p), fe_errText = (\<lambda>_. ''''),
     fe_op = (\<lambda>_ _ h. ok \<lparr>rc_code = 404, rc_header = h, rc_body = ''''\<rparr>), fe_supported = True, fe_bearer = (\<lambda>_. Inl ErrDb),
     fe_verify = exampleVerify, fe_token = exampleTokenEnv, fe_parseURI = (\<lambda>_. None), fe_show = (\<lambda>_. ''''),
     fe_browserUp = exampleUpstream, fe_deviceUp = exampleUpstream, fe_mcpUp = exampleUpstream, fe_endSession = exampleEndSession,
     fe_csrf = Inr ''c'', fe_discovery = Map.empty, fe_shuttingDown = False, fe_ping = None\<rparr>"

definition exampleTwoResources :: Request where
  "exampleTwoResources = exampleLogoutRequest\<lparr>h_Path := ''/oauth/token'', h_EscapedPath := ''/oauth/token'', h_Resources := [''a'', ''b'']\<rparr>"

lemma exampleTwo_fields [simp]:
  "h_Method exampleTwoResources = ''POST''" "h_EscapedPath exampleTwoResources = ''/oauth/token''" "h_FormOk exampleTwoResources"
  "h_Resources exampleTwoResources = [''a'', ''b'']" "h_Body exampleTwoResources = None"
  by (simp_all add: exampleTwoResources_def exampleLogoutRequest_def)

lemma exampleFront_served: "served exampleFront exampleServer exampleTwoResources ''/oauth/token''"
proof -
  have "cleanPath ''/oauth/token'' = ''/oauth/token''" by code_simp
  moreover have "matchPattern (fe_unescape exampleFront) (map fst (registerRoutes exampleFront exampleServer)) ''/oauth/token'' = ''/oauth/token''"
    by (simp add: matchPattern_def routes exampleFront_def exampleServer_def)
  ultimately show ?thesis by (simp add: served_def)
qed

lemma exampleFront_mild: "providerMild kvs exampleFront"
  by (auto simp: providerMild_def exampleFront_def)

lemma exampleFront_runs: "\<exists>rp. run_state (fst (serve exampleFront exampleServer exampleTwoResources (\<lambda>_. Map.empty))) w = (Inr rp, w)"
proof -
  let ?inner = "NoStore (NewRateLimiter (fe_ip exampleFront) (fe_limits exampleFront) (fe_now exampleFront) TokenTier
    (TokenLogContext (fe_log exampleFront) (withResource exampleFront (tokenWithAtJWT exampleFront exampleServer (verifiedProvider exampleFront)))))"
  have m: "map_of (registerRoutes exampleFront exampleServer) ''/oauth/token'' = Some ?inner" by (simp add: routes)
  have "\<exists>rp. run_state (fst (?inner ctx exampleTwoResources h (\<lambda>_. Map.empty))) w = (Inr rp, w)" for ctx h
    by (simp add: NoStore_def NewRateLimiter_def allow_def TokenLogContext_def peekForm_def withResource_def ResourceFromRequestStrict_def exampleFront_def)
  then have "\<exists>rp. run_state (fst (ServeMux exampleFront (registerRoutes exampleFront exampleServer) ctx exampleTwoResources h (\<lambda>_. Map.empty))) w = (Inr rp, w)" for ctx h
    using exampleFront_served m by (simp add: ServeMux_def served_def)
  then show ?thesis
    by (simp add: serve_def SecurityHeaders_def RequestIDMiddleware_def corsHandler_def NewCORSMiddleware_def clientinfoMiddleware_def run_onReply Let_def)
qed

theorem front_sound_witness:
  "\<exists>rp. run_state (fst (serve exampleFront exampleServer exampleTwoResources (\<lambda>_. Map.empty))) (exampleWorld emptyDb) = (Inr rp, exampleWorld emptyDb)
     \<and> providerMild (guarded (g_DevMode (sv_config exampleServer))) exampleFront \<and> rp_Status rp \<in> {400, 429}
     \<and> carries cacheHeaders (rp_Header rp) \<and> carries (baseline (g_DevMode (sv_config exampleServer))) (rp_Header rp)"
proof -
  obtain rp where run: "run_state (fst (serve exampleFront exampleServer exampleTwoResources (\<lambda>_. Map.empty))) (exampleWorld emptyDb) = (Inr rp, exampleWorld emptyDb)"
    using exampleFront_runs by blast
  note sound = front_sound [OF run exampleFront_mild]
  from sound have "carries (baseline (g_DevMode (sv_config exampleServer))) (rp_Header rp)" by (rule conjunct1)
  moreover from sound exampleFront_served have "carries cacheHeaders (rp_Header rp)" "rp_Status rp \<in> {400, 429}" by simp_all
  ultimately show ?thesis using run exampleFront_mild by blast
qed

end
