(* ===== verification/Devices_Correct.thy ===== *)
theory Devices_Correct
  imports Auth_Correct Devices
begin

text \<open>
  The device grant on a healthy database: what a poll answers and does in every state of the code,
  and what approval and denial do.
\<close>

section \<open>Polling\<close>

text \<open>The re-check of the subject of an approved code.\<close>

definition deviceAdmissible :: "Storage \<Rightarrow> dbs \<Rightarrow> DeviceCode \<Rightarrow> bool" where
  "deviceAdmissible st d c \<longleftrightarrow>
     (let access = StaticAccess (s_registry st) (dc_ClientID c) in
      case dc_Subject c of None \<Rightarrow> True
      | Some subject \<Rightarrow>
          dc_State c = ''approved'' \<and> (s_stateChecker st \<noteq> None \<or> Restricted access) \<longrightarrow>
          (case coreUserOf st d subject of Inl _ \<Rightarrow> False
           | Inr u \<Rightarrow> runStateChecker st u = None \<and> Evaluate access (AccessSubject u) = Allow))"

lemma run_checkDeviceSubject:
  assumes "healthy w" "w_tx w = Some t" "deviceAdmissible st t c"
  shows "run_state (checkDeviceSubject st ctx (deviceModelForUpdate c)) w = (Inr (), w)"
  using assms
  by (auto simp: checkDeviceSubject_def deviceAdmissible_def deviceModelForUpdate_def Let_def run_attemptOr run_getUserByIDTx
                 enforceStaticClientAccess_def split: option.splits sum.splits)

lemma checkDeviceSubject_fails:
  assumes "healthy w" "w_tx w = Some t" "\<not> deviceAdmissible st t c"
  shows "\<exists>e w'. run_state (checkDeviceSubject st ctx (deviceModelForUpdate c)) w = (Inl e, w')"
  using assms
  by (auto simp: checkDeviceSubject_def deviceAdmissible_def deviceModelForUpdate_def Let_def run_attemptOr run_attempt run_getUserByIDTx
                 enforceStaticClientAccess_def split: option.splits sum.splits Decision.splits prod.splits if_splits)

lemma coreUserOf_devices [simp]: "coreUserOf st (d\<lparr>device_codes := x\<rparr>) u = coreUserOf st d u"
  by (simp add: coreUserOf_def hostedDomainOf_def split: sum.split)

lemma deviceAdmissible_devices [simp]: "deviceAdmissible st (d\<lparr>device_codes := x\<rparr>) c = deviceAdmissible st d c"
  by (simp add: deviceAdmissible_def split: option.split)

definition touch :: "time \<Rightarrow> DeviceCode \<Rightarrow> DeviceCode list \<Rightarrow> DeviceCode list" where
  "touch at c rs = upd_where (\<lambda>x. dc_ID x = dc_ID c) (dc_LastPolledAt_update (\<lambda>_. Some at)) rs"

text \<open>The outcome of a poll of the code \<open>c\<close>: answer and new table, \<^const>\<open>None\<close> when the subject is refused.\<close>

definition pollOutcome :: "Storage \<Rightarrow> dbs \<Rightarrow> time \<Rightarrow> DeviceCode \<Rightarrow> ((err + DeviceAuthorizationState) \<times> DeviceCode list) option" where
  "pollOutcome st d at c =
     (let polled = touch at c (device_codes d);
          pending = deviceState\<lparr>ds_ClientID := dc_ClientID c, ds_Scopes := dc_Scopes c, ds_Expires := dc_ExpiresAt c\<rparr>
      in if dc_State c = ''pending'' \<and> (\<exists>l. dc_LastPolledAt c = Some l \<and> timeSub at l < s_devicePollInterval st)
         then Some (Inl DeadlineExceeded, polled)
         else if \<not> deviceAdmissible st d c then None
         else if at > dc_ExpiresAt c then
           Some (Inr (deviceState\<lparr>ds_Expires := dc_ExpiresAt c\<rparr>),
                 if dc_State c = ''denied'' \<or> dc_State c = ''consumed'' then device_codes d else polled)
         else if dc_State c = ''denied'' then
           Some (Inr (deviceState\<lparr>ds_Denied := True, ds_Expires := dc_ExpiresAt c\<rparr>), device_codes d)
         else if dc_State c = ''consumed'' then Some (Inl errConsumed, device_codes d)
         else if dc_State c = ''approved'' then
           Some (Inr (toApprovedDeviceAuthorizationState (deviceModelForUpdate c)),
                 upd_where (\<lambda>x. dc_ID x = dc_ID c) (dc_State_update (\<lambda>_. ''consumed'')) polled)
         else Some (Inr pending, polled))"

lemma loadDevice:
  assumes "keys_wf d" "c \<in> set (device_codes d)" "dc_DeviceCode c = h" "dc_ClientID c = cid"
  shows "GetDeviceAuthorizationForUpdate h cid d = (Inr c, d)"
proof -
  have "one_row (\<lambda>x. dc_DeviceCode x = h \<and> dc_ClientID x = cid) (device_codes d) = Inr c"
    using assms by (intro one_row_unique [where g = dc_DeviceCode]) (auto simp: keys_wf_def)
  then show ?thesis by (simp add: GetDeviceAuthorizationForUpdate_def)
qed

lemma run_recordPoll:
  assumes "healthy w" "w_tx w = Some t"
  shows "run_state (recordPoll st (deviceModelForUpdate c) at) w =
    (Inr (dc_State c = ''pending'' \<and> (\<exists>l. dc_LastPolledAt c = Some l \<and> timeSub at l < s_devicePollInterval st)),
     if dc_State c = ''denied'' \<or> dc_State c = ''consumed'' then w
     else w\<lparr>w_tx := Some (t\<lparr>device_codes := touch at c (device_codes t)\<rparr>)\<rparr>)"
  using assms
  by (auto simp: healthy_def recordPoll_def deviceModelForUpdate_def run_attempt UpdateDeviceCodeLastPolledAt_def touch_def split: option.splits)

lemma tri_checkDeviceSubject:
  assumes "audit_free J" "audit_free A"
  shows "tri J A (checkDeviceSubject st ctx m) (\<lambda>_. A) (\<lambda>_. A)"
  unfolding checkDeviceSubject_def Let_def
  by (intro tri_if tri_fail tri_ok tri_case_option tri_attemptOr [where ?E1.0 = "\<lambda>_. A" and ?B1.0 = "\<lambda>_. A"]
        tri_getUserByIDTx tri_enforceStaticClientAccess assms) auto

lemma device_refused_keeps:
  assumes "run_state (checkDeviceSubject st ctx m) w = (r, w')"
  shows "device_codes (w_db w') = device_codes (w_db w)"
proof -
  have "keeps (winv (\<lambda>_ d. device_codes d = x)) (checkDeviceSubject st ctx m)" for x
    by (rule tri_keeps, rule tri_checkDeviceSubject) (simp_all add: audit_free_def)
  from keepsD [OF this _ assms, of "device_codes (w_db w)"] show ?thesis by (auto simp: winv_def)
qed

text \<open>The verdict on a code whose poll was in time and whose subject is admitted.\<close>

definition resolved :: "dbs \<Rightarrow> time \<Rightarrow> DeviceCode \<Rightarrow> (err + DeviceAuthorizationState) \<times> dbs" where
  "resolved t at c =
     (if at > dc_ExpiresAt c then (Inr (deviceState\<lparr>ds_Expires := dc_ExpiresAt c\<rparr>), t)
      else if dc_State c = ''denied'' then (Inr (deviceState\<lparr>ds_Denied := True, ds_Expires := dc_ExpiresAt c\<rparr>), t)
      else if dc_State c = ''approved'' then
        (Inr (toApprovedDeviceAuthorizationState (deviceModelForUpdate c)),
         t\<lparr>device_codes := upd_where (\<lambda>x. dc_ID x = dc_ID c) (dc_State_update (\<lambda>_. ''consumed'')) (device_codes t)\<rparr>)
      else if dc_State c = ''consumed'' then (Inl errConsumed, t)
      else (Inr (deviceState\<lparr>ds_ClientID := dc_ClientID c, ds_Scopes := dc_Scopes c, ds_Expires := dc_ExpiresAt c\<rparr>), t))"

lemma run_resolve:
  assumes "healthy w" "w_tx w = Some t"
  shows "run_state (resolveDeviceAuthorizationState (deviceModelForUpdate c) at) w =
    (fst (resolved t at c), w\<lparr>w_db := snd (resolved t at c), w_tx := None\<rparr>)"
proof -
  have m: "dm_State (deviceModelForUpdate c) = dc_State c" "dm_ID (deviceModelForUpdate c) = dc_ID c"
    "dm_ExpiresAt (deviceModelForUpdate c) = dc_ExpiresAt c" "dm_ClientID (deviceModelForUpdate c) = dc_ClientID c"
    "dm_Scopes (deviceModelForUpdate c) = dc_Scopes c" by (simp_all add: deviceModelForUpdate_def)
  show ?thesis
    using assms unfolding resolveDeviceAuthorizationState_def resolved_def m
    by (simp add: run_attempt healthy_def UpdateDeviceCodeStateConsumedByID_def)
qed

section \<open>Properties\<close>

text \<open>C6: A poll, exactly. A pending code polled before the interval passed answers slow_down; an
  expired code answers its expiry, a denied one access_denied, a consumed one invalid_grant; an
  approved code whose subject is still admitted answers the grant of its subject, scopes and
  client and is consumed by the same transaction; a pending one answers neither. A subject that is
  not admitted any more is an error and the code stays as it was.\<close>

theorem device_poll_exact:
  assumes "healthy w" "w_tx w = None" "codeAtRest st dcode = Inr h" "keys_wf (w_db w)"
    and "c \<in> set (device_codes (w_db w))" "dc_DeviceCode c = h" "dc_ClientID c = cid"
    and "run_state (GetDeviceAuthorizatonState st ctx cid dcode) w = (res, w')"
  shows "case pollOutcome st (w_db w) (w_now w) c of
      Some (r, rows) \<Rightarrow> res = r \<and> w' = w\<lparr>w_db := (w_db w)\<lparr>device_codes := rows\<rparr>\<rparr>
    | None \<Rightarrow> (\<exists>e. res = Inl e) \<and> device_codes (w_db w') = device_codes (w_db w)"
proof -
  let ?d = "w_db w" and ?at = "w_now w" and ?m = "deviceModelForUpdate c"
  let ?w = "w\<lparr>w_tx := Some ?d\<rparr>"
  define slow where "slow \<longleftrightarrow> dc_State c = ''pending'' \<and> (\<exists>l. dc_LastPolledAt c = Some l \<and> timeSub ?at l < s_devicePollInterval st)"
  let ?final = "dc_State c = ''denied'' \<or> dc_State c = ''consumed''"
  let ?t = "if ?final then ?d else ?d\<lparr>device_codes := touch ?at c (device_codes ?d)\<rparr>"
  let ?wp = "w\<lparr>w_tx := Some ?t\<rparr>"
  have w: "healthy ?w" "w_tx ?w = Some ?d" and wp: "healthy ?wp" "w_tx ?wp = Some ?t" using assms by (simp_all add: healthy_def)
  have poll: "run_state (recordPoll st ?m ?at) ?w = (Inr slow, ?wp)" using run_recordPoll [OF w, of st c ?at] by (auto simp: slow_def)
  have adm: "deviceAdmissible st ?t c = deviceAdmissible st ?d c" by simp
  have start: "run_state (GetDeviceAuthorizatonState st ctx cid dcode) w =
    (case (if slow then run_state (attempt commitTx (\<lambda>_. fail DeadlineExceeded)) ?wp
       else run_state (attempt (checkDeviceSubject st ctx ?m) (\<lambda>_. resolveDeviceAuthorizationState ?m ?at)) ?wp) of
     (r, w2) \<Rightarrow> (r, w2\<lparr>w_tx := None\<rparr>))"
    using assms(1-3) loadDevice [OF assms(4-7)] poll
    by (simp add: GetDeviceAuthorizatonState_def loadDeviceAuthorizationForUpdate_def run_withTx run_attempt run_attemptOr healthy_def)
  show ?thesis
  proof (cases slow)
    case True
    with start assms wp show ?thesis by (auto simp: pollOutcome_def run_attempt healthy_def slow_def)
  next
    case slow: False
    show ?thesis
    proof (cases "deviceAdmissible st ?d c")
      case False
      with checkDeviceSubject_fails [OF wp, of st c ctx] obtain e w2 where
        k: "run_state (checkDeviceSubject st ctx ?m) ?wp = (Inl e, w2)" using adm by blast
      have "res = Inl e" "w' = w2\<lparr>w_tx := None\<rparr>" using start slow assms(8) by (simp_all add: run_attempt k)
      moreover have "pollOutcome st ?d ?at c = None" using slow False unfolding pollOutcome_def slow_def Let_def by (simp only: simp_thms if_False if_True)
      ultimately show ?thesis using device_refused_keeps [OF k] by simp
    next
      case True
      with run_checkDeviceSubject [OF wp, of st c ctx] have k: "run_state (checkDeviceSubject st ctx ?m) ?wp = (Inr (), ?wp)" by simp
      have out: "pollOutcome st ?d ?at c = Some (fst (resolved t ?at c), device_codes (snd (resolved t ?at c)))" if "t = ?t" for t
        using slow True unfolding pollOutcome_def slow_def resolved_def Let_def that
        by (simp add: Let_def split: if_split_asm)
      have "res = fst (resolved ?t ?at c)" "w' = w\<lparr>w_db := snd (resolved ?t ?at c), w_tx := None\<rparr>"
        using start slow assms(8) by (simp_all add: run_attempt k run_resolve [OF wp])
      moreover have "snd (resolved ?t ?at c) = ?d\<lparr>device_codes := device_codes (snd (resolved ?t ?at c))\<rparr>"
        by (simp add: resolved_def)
      ultimately show ?thesis using out assms(2) by simp
    qed
  qed
qed

definition exampleDevice :: DeviceCode where
  "exampleDevice = \<lparr>dc_ID = ''d1'', dc_DeviceCode = CodeHash examplePrims exampleKeys ''dev'', dc_UserCode = CodeHash examplePrims exampleKeys ''usr'',
     dc_ClientID = ''app'', dc_Scopes = [''openid''], dc_State = ''approved'', dc_Subject = Some ''alice'', dc_ExpiresAt = 100,
     dc_AuthTime = Some 7, dc_CreatedAt = 1, dc_LastPolledAt = None\<rparr>"

theorem device_poll_exact_witness:
  "let w = exampleWorld (exampleDb\<lparr>device_codes := [exampleDevice]\<rparr>);
       (res, w') = run_state (GetDeviceAuthorizatonState exampleStorage exampleCtx ''app'' ''dev'') w
   in res = Inr (toApprovedDeviceAuthorizationState (deviceModelForUpdate exampleDevice))
      \<and> map dc_State (device_codes (w_db w')) = [''consumed'']"
proof -
  let ?w = "exampleWorld (exampleDb\<lparr>device_codes := [exampleDevice]\<rparr>)"
  obtain res w' where run: "run_state (GetDeviceAuthorizatonState exampleStorage exampleCtx ''app'' ''dev'') ?w = (res, w')" by force
  have c: "dc_ID exampleDevice = ''d1''" "dc_State exampleDevice = ''approved''" "dc_ExpiresAt exampleDevice = 100"
    "dc_LastPolledAt exampleDevice = None" "dc_ClientID exampleDevice = ''app''"
    "dc_DeviceCode exampleDevice = CodeHash examplePrims exampleKeys ''dev''" "dc_Subject exampleDevice = Some ''alice''"
    by (simp_all add: exampleDevice_def)
  have adm: "deviceAdmissible exampleStorage (exampleDb\<lparr>device_codes := [exampleDevice]\<rparr>) exampleDevice"
    by (simp add: deviceAdmissible_def c exampleApp_open Restricted_def)
  have "case pollOutcome exampleStorage (w_db ?w) (w_now ?w) exampleDevice of
      Some (r, rows) \<Rightarrow> res = r \<and> w' = ?w\<lparr>w_db := (w_db ?w)\<lparr>device_codes := rows\<rparr>\<rparr>
    | None \<Rightarrow> (\<exists>e. res = Inl e) \<and> device_codes (w_db w') = device_codes (w_db ?w)"
    by (rule device_poll_exact [OF _ _ _ _ _ _ _ run, where h = "CodeHash examplePrims exampleKeys ''dev''"])
       (simp_all add: healthy_def codeAtRest_def keys_wf_def c)
  with adm have "res = Inr (toApprovedDeviceAuthorizationState (deviceModelForUpdate exampleDevice))
      \<and> map dc_State (device_codes (w_db w')) = [''consumed'']"
    by (simp add: pollOutcome_def c touch_def upd_where_def)
  then show ?thesis unfolding Let_def run by simp
qed

section \<open>Approval\<close>

definition approveRow :: "string \<Rightarrow> time \<Rightarrow> DeviceCode \<Rightarrow> DeviceCode list \<Rightarrow> DeviceCode list" where
  "approveRow subject at c = upd_where (\<lambda>x. dc_ID x = dc_ID c)
     (\<lambda>x. x\<lparr>dc_State := ''approved'', dc_Subject := Some subject, dc_AuthTime := Some at\<rparr>)"

definition denyRow :: "DeviceCode \<Rightarrow> DeviceCode list \<Rightarrow> DeviceCode list" where
  "denyRow c = upd_where (\<lambda>x. dc_ID x = dc_ID c) (dc_State_update (\<lambda>_. ''denied''))"

lemma only_code:
  assumes "keys_wf d" "c \<in> set (device_codes d)" "x \<in> set (device_codes d)" "dc_UserCode x = dc_UserCode c \<or> dc_ID x = dc_ID c"
  shows "x = c"
  using assms by (auto simp: keys_wf_def distinct_map inj_on_def)

lemma run_ApproveDeviceCode:
  fixes authTime :: time
  assumes "healthy w" "w_tx w = None" "codeAtRest st ucode = Inr (dc_UserCode c)" "keys_wf (w_db w)" "c \<in> set (device_codes (w_db w))"
    and "at = (if timeIsZero authTime then w_now w else authTime)"
  shows "run_state (ApproveDeviceCode st ucode subject authTime) w =
      (if dc_State c = ''pending'' \<and> dc_ExpiresAt c > at
       then (Inr (), w\<lparr>w_db := (w_db w)\<lparr>device_codes := approveRow subject at c (device_codes (w_db w))\<rparr>\<rparr>)
       else (Inl (ErrMsg ''device code not found, expired, or already processed''), w))"
proof -
  let ?rs = "device_codes (w_db w)" and ?P = "approvable (dc_UserCode c) at" and ?open = "dc_State c = ''pending'' \<and> dc_ExpiresAt c > at"
  note only = only_code [OF assms(4,5)]
  have a: "upd_where ?P g ?rs = (if ?open then upd_where (\<lambda>x. dc_ID x = dc_ID c) g ?rs else ?rs)" for g
    using assms(5) by (auto simp: upd_where_def approvable_def dest: only intro!: map_idI)
  have n: "count_where ?P ?rs = 0 \<longleftrightarrow> \<not> ?open"
    using only assms(5) by (auto simp: count_where_def filter_empty_conv approvable_def)
  show ?thesis
    using assms(1-3) n
    by (simp add: healthy_def ApproveDeviceCode_def run_attempt Let_def assms(6) [symmetric] a approveRow_def
          ApproveDeviceCodeByUserCode_def ensureDeviceCodeApproved_def)
qed

lemma run_DenyDeviceCode:
  assumes "healthy w" "w_tx w = None" "codeAtRest st ucode = Inr (dc_UserCode c)" "keys_wf (w_db w)" "c \<in> set (device_codes (w_db w))"
  shows "run_state (DenyDeviceCode st ucode) w =
      (Inr (), if dc_State c = ''pending'' then w\<lparr>w_db := (w_db w)\<lparr>device_codes := denyRow c (device_codes (w_db w))\<rparr>\<rparr> else w)"
proof -
  let ?rs = "device_codes (w_db w)"
  note only = only_code [OF assms(4,5)]
  have "upd_where (\<lambda>x. dc_UserCode x = dc_UserCode c \<and> dc_State x = ''pending'') g ?rs =
      (if dc_State c = ''pending'' then upd_where (\<lambda>x. dc_ID x = dc_ID c) g ?rs else ?rs)" for g
    using assms(5) by (auto simp: upd_where_def dest: only intro!: map_idI)
  then show ?thesis
    using assms(1-3) by (simp add: healthy_def DenyDeviceCode_def run_attempt denyRow_def DenyDeviceCodeByUserCode_def)
qed

text \<open>The expiry is compared with the authentication time and not with the clock: from a session that
  is older than the code's end, a code can be approved after it has expired.\<close>

lemma expired_code_approved:
  fixes authTime :: time
  assumes "healthy w" "w_tx w = None" "codeAtRest st ucode = Inr (dc_UserCode c)" "keys_wf (w_db w)" "c \<in> set (device_codes (w_db w))"
    and "dc_State c = ''pending''" "dc_ExpiresAt c < w_now w" "\<not> timeIsZero authTime" "authTime < dc_ExpiresAt c"
  shows "\<exists>w'. run_state (ApproveDeviceCode st ucode subject authTime) w = (Inr (), w')
    \<and> (\<exists>x \<in> set (device_codes (w_db w')). dc_ID x = dc_ID c \<and> dc_State x = ''approved'' \<and> dc_ExpiresAt x < w_now w')"
proof -
  have "c\<lparr>dc_State := ''approved'', dc_Subject := Some subject, dc_AuthTime := Some authTime\<rparr>
      \<in> set (approveRow subject authTime c (device_codes (w_db w)))"
    using assms(5) by (auto simp: approveRow_def upd_where_def)
  from bexI [OF _ this, of "\<lambda>x. dc_ID x = dc_ID c \<and> dc_State x = ''approved'' \<and> dc_ExpiresAt x < w_now w"]
  show ?thesis
    using run_ApproveDeviceCode [OF assms(1-5) refl, of subject authTime] assms(6-) by simp
qed

text \<open>C19: Approving and denying a code, exactly. An approval records the subject and the authentication
  time on the pending code with this user code, if the code expires after that time, and reports an
  error with nothing changed otherwise; a denial closes a pending code and leaves every other one
  alone. Both are one statement: no other table changes.\<close>

theorem device_approval_exact:
  fixes authTime :: time
  assumes "healthy w" "w_tx w = None" "codeAtRest st ucode = Inr (dc_UserCode c)" "keys_wf (w_db w)" "c \<in> set (device_codes (w_db w))"
    and "at = (if timeIsZero authTime then w_now w else authTime)"
  shows "run_state (ApproveDeviceCode st ucode subject authTime) w =
      (if dc_State c = ''pending'' \<and> dc_ExpiresAt c > at
       then (Inr (), w\<lparr>w_db := (w_db w)\<lparr>device_codes := approveRow subject at c (device_codes (w_db w))\<rparr>\<rparr>)
       else (Inl (ErrMsg ''device code not found, expired, or already processed''), w))
    \<and> run_state (DenyDeviceCode st ucode) w =
      (Inr (), if dc_State c = ''pending'' then w\<lparr>w_db := (w_db w)\<lparr>device_codes := denyRow c (device_codes (w_db w))\<rparr>\<rparr> else w)"
  using run_ApproveDeviceCode [OF assms] run_DenyDeviceCode [OF assms(1-5)] by simp

theorem device_approval_exact_witness:
  "let c = exampleDevice\<lparr>dc_State := ''pending''\<rparr>; w = exampleWorld (exampleDb\<lparr>device_codes := [c]\<rparr>)
   in run_state (ApproveDeviceCode exampleStorage ''usr'' ''alice'' 0) w
      = (Inr (), w\<lparr>w_db := (w_db w)\<lparr>device_codes := [c\<lparr>dc_State := ''approved'', dc_Subject := Some ''alice'', dc_AuthTime := Some 10\<rparr>]\<rparr>\<rparr>)"
proof -
  let ?c = "exampleDevice\<lparr>dc_State := ''pending''\<rparr>"
  let ?w = "exampleWorld (exampleDb\<lparr>device_codes := [?c]\<rparr>)"
  from device_approval_exact [of ?w exampleStorage "''usr''" ?c 10 0 "''alice''"]
  show ?thesis
    by (simp add: healthy_def codeAtRest_def keys_wf_def timeIsZero_def approveRow_def upd_where_def exampleDevice_def Let_def)
qed

end
