(* ===== verification/Account_Safety.thy ===== *)
theory Account_Safety
  imports Server_Correct Users_Correct Devices_Correct
begin

text \<open>
  What a running server refuses to an account that is not active. The first part shows what the
  operations that resolve a credential (a refresh token, an authorization code, a device code) check
  of the account it is for; the second that a closed account stays closed in every continuation of
  the server. The operations that store tokens for an authorization request or a device code check no
  account status of their own: the provider calls them with the answer of these lookups.
\<close>

section \<open>What a grant says about its account\<close>

text \<open>The account exists and is active.\<close>

definition activeAccount :: "dbs \<Rightarrow> string \<Rightarrow> bool" where
  "activeAccount d uid \<longleftrightarrow> list_ex (\<lambda>u. us_ID u = uid \<and> us_Status u = ''active'') (users d)"

lemma beginTx_Inr: "run_state beginTx w = (Inr (), w') \<Longrightarrow> w_tx w' = Some (w_db w)"
  by (auto simp: beginTx_def split: prod.splits if_splits dest!: nextOutcome_frame)

text \<open>A successful query inside a transaction leaves its copy as it was.\<close>

lemma query_TX_Inr:
  assumes "run_state (exec TXc q) w = (Inr x, w')" "\<And>d. snd (q d) = d" "w_tx w = Some t"
  shows "w_tx w' = Some t \<and> fst (q t) = Inr x"
  using assms by (auto elim!: exec_TX_Inr)

lemma getUserByIDTx_Inr:
  assumes "run_state (getUserByIDTx st uid) w = (Inr u, w')" "w_tx w = Some t"
  shows "\<exists>row \<in> set (users t). us_ID row = uid \<and> us_Status row = u_Status u"
proof -
  from assms(1) obtain row hdom w1 where e: "run_state (exec TXc (GetUserRowByID uid)) w = (Inr (row, hdom), w1)"
    and u: "u_Status u = us_Status row"
    by (auto simp: getUserByIDTx_def run_attemptOr run_attempt notFoundOr_def buildCoreUser_def split: prod.splits sum.splits if_splits)
  from query_TX_Inr [OF e _ assms(2)] u show ?thesis
    by (auto simp: GetUserRowByID_def split: sum.splits dest!: one_row_Inr)
qed

lemma checker_active: "s_stateChecker st = Some newStateChecker \<Longrightarrow> runStateChecker st u = None \<Longrightarrow> u_Status u = ''active''"
  by (auto simp: runStateChecker_def newStateChecker_def IsActive_def split: if_splits)

lemma validate_active:
  assumes "run_state (validateRefreshTokenRequest st ctx rt at) w = (Inr (), w')" "w_tx w = Some t"
    and "s_stateChecker st = Some newStateChecker"
  shows "activeAccount t (rm_UserID rt)"
proof -
  from assms(1,3) obtain u w1 where "run_state (getUserByIDTx st (rm_UserID rt)) w = (Inr u, w1)" "runStateChecker st u = None"
    by (auto simp: validateRefreshTokenRequest_def Let_def run_attemptOr split: if_splits option.splits sum.splits prod.splits)
  with getUserByIDTx_Inr [OF this(1) assms(2)] checker_active [OF assms(3)] show ?thesis
    by (fastforce simp: activeAccount_def list_ex_iff)
qed

lemma consume_active:
  assumes "run_state (consumeRefreshToken st ctx (ReqRefresh q) token) w = (Inr x, w')" "w_tx w = Some t"
    and "s_stateChecker st = Some newStateChecker"
  shows "activeAccount t (rm_UserID q)"
proof -
  from assms(1) obtain h fam w1 w2 row w3 w4 where
    a: "run_state (exec TXc (GetRefreshFamilyIDByTokenHash h)) w = (Inr fam, w1)"
    and b: "run_state (exec TXc (LockRefreshFamily fam)) w1 = (Inr (), w2)"
    and c: "run_state (exec TXc (GetRefreshTokenForUpdateByHash h)) w2 = (Inr row, w3)"
    and m: "refreshRequestMatches (ReqRefresh q) (refreshModelOfRow row)"
    and v: "run_state (validateRefreshTokenRequest st ctx (refreshModelOfRow row) (w_now w3)) w3 = (Inr (), w4)"
    by (auto simp: consumeRefreshToken_def loadRefreshTokenForUpdate_def run_attempt run_attemptOr split: prod.splits sum.splits if_splits)
  from query_TX_Inr [OF a _ assms(2)] have w1: "w_tx w1 = Some t" by (simp add: GetRefreshFamilyIDByTokenHash_def split: sum.splits)
  from query_TX_Inr [OF b _ w1] have w2: "w_tx w2 = Some t" by (simp add: LockRefreshFamily_def)
  from query_TX_Inr [OF c _ w2] have "w_tx w3 = Some t" by (simp add: GetRefreshTokenForUpdateByHash_def)
  from validate_active [OF v this assms(3)] m show ?thesis by (simp add: refreshRequestMatches_def)
qed

lemma issue_active:
  assumes "run_state (CreateAccessAndRefreshTokens st ctx (ReqRefresh q) token) w = (Inr x, w')" "token \<noteq> ''''"
    and "s_stateChecker st = Some newStateChecker"
  shows "activeAccount (w_db w) (rm_UserID q)"
proof -
  from assms(1,2) obtain w1 w2 y w4 where b: "run_state beginTx w1 = (Inr (), w2)" "w_db w1 = w_db w"
    and c: "run_state (consumeRefreshToken st ctx (ReqRefresh q) token) (w2\<lparr>w_idc := Suc (w_idc w2)\<rparr>) = (Inr y, w4)"
    by (auto simp: CreateAccessAndRefreshTokens_def run_attempt run_withTx consumeAuthCode_def deriveRefreshToken_def
          initialRefreshTokenAttributes_def split: prod.splits sum.splits if_splits)
  from beginTx_Inr [OF b(1)] b(2) have "w_tx (w2\<lparr>w_idc := Suc (w_idc w2)\<rparr>) = Some (w_db w)" by simp
  from consume_active [OF c this assms(3)] show ?thesis .
qed

lemma refresh_lookup_active:
  assumes "run_state (TokenRequestByRefreshToken st ctx token) w = (Inr rt, w')" "s_stateChecker st = Some newStateChecker"
  shows "activeAccount (w_db w) (rm_UserID rt)"
proof -
  from assms(1) obtain w1 w2 w3 h row where b: "run_state beginTx w = (Inr (), w1)"
    and c: "run_state (exec TXc (GetRefreshTokenForUpdateByHash h)) w1 = (Inr row, w2)" and rt: "rt = refreshModelOfRow row"
    and v: "run_state (validateRefreshTokenRequest st ctx rt (w_now w)) w2 = (Inr (), w3)"
    by (auto simp: TokenRequestByRefreshToken_def loadRefreshTokenForUpdate_def run_attempt run_attemptOr run_withTx split: prod.splits sum.splits if_splits)
  from query_TX_Inr [OF c _ beginTx_Inr [OF b]] have "w_tx w2 = Some (w_db w)" by (simp add: GetRefreshTokenForUpdateByHash_def)
  from validate_active [OF v this assms(2)] show ?thesis .
qed

lemma code_active:
  assumes "run_state (AuthRequestByCode st ctx code) w = (Inr ar, w')" "s_stateChecker st = Some newStateChecker"
    and "am_Subject ar = Some uid" "uid \<noteq> ''''"
  shows "activeAccount (w_db w) uid"
proof -
  from AuthRequestByCode_Inr [OF assms(1)] obtain row where ar: "ar = (authRequestModelFromRow row)\<lparr>am_Code := Some code\<rparr>"
    and chk: "let access = StaticAccess (s_registry st) (ar_ClientID row); subject = coalesce (ar_Subject row) in
       (s_stateChecker st \<noteq> None \<or> Restricted access) \<and> subject \<noteq> '''' \<longrightarrow>
         (\<exists>urow u. fullUserIn st (w_db w) urow u \<and> us_ID urow = subject \<and> runStateChecker st u = None
            \<and> Evaluate access (AccessSubject u) = Allow)" by blast
  have "ar_Subject row = Some uid" using ar assms(3) by (simp add: authRequestModelFromRow_def)
  with chk assms(2,4) obtain urow u where full: "fullUserIn st (w_db w) urow u" "us_ID urow = uid"
    and "runStateChecker st u = None"
    by (auto simp: coalesce_def Let_def)
  from checker_active [OF assms(2) this(3)] full have "urow \<in> set (users (w_db w))" "us_Status urow = ''active''"
    by (auto simp: fullUserIn_def buildFullUser_def)
  with full(2) show ?thesis by (auto simp: activeAccount_def list_ex_iff)
qed

lemma poll_active:
  assumes "run_state (GetDeviceAuthorizatonState st ctx cid dcode) w = (Inr s, w')" "ds_Done s"
    and "s_stateChecker st = Some newStateChecker" "ds_Subject s = uid" "uid \<noteq> ''''"
  shows "activeAccount (w_db w) uid"
proof -
  from assms(1) obtain h wb c wc wd we wf where b: "run_state beginTx w = (Inr (), wb)"
    and l: "run_state (exec TXc (GetDeviceAuthorizationForUpdate h cid)) wb = (Inr c, wc)"
    and p: "run_state (recordPoll st (deviceModelForUpdate c) (w_now wc)) wc = (Inr False, wd)"
    and k: "run_state (checkDeviceSubject st ctx (deviceModelForUpdate c)) wd = (Inr (), we)"
    and r: "run_state (resolveDeviceAuthorizationState (deviceModelForUpdate c) (w_now wc)) we = (Inr s, wf)"
    by (auto simp: GetDeviceAuthorizatonState_def loadDeviceAuthorizationForUpdate_def notFoundOr_def run_attempt run_attemptOr run_withTx
        split: prod.splits sum.splits if_splits)
  from resolve_done [OF r assms(2)] have s: "dc_State c = ''approved''" "coalesce (dc_Subject c) = uid"
    using assms(4) by (auto simp: toApprovedDeviceAuthorizationState_def deviceModelForUpdate_def deviceState_def)
  from query_TX_Inr [OF l _ beginTx_Inr [OF b]] have wc: "w_tx wc = Some (w_db w)" by (simp add: GetDeviceAuthorizationForUpdate_def)
  from p s(1) have "run_state (exec TXc (UpdateDeviceCodeLastPolledAt (w_now wc) (dc_ID c))) wc = (Inr (), wd)"
    by (auto simp: recordPoll_def deviceModelForUpdate_def run_attempt split: prod.splits sum.splits)
  with wc obtain t where t: "w_tx wd = Some t" "users t = users (w_db w)"
    by (auto elim!: exec_TX_Inr simp: UpdateDeviceCodeLastPolledAt_def)
  from k s assms(3,5) obtain u w1 where "run_state (getUserByIDTx st uid) wd = (Inr u, w1)" "runStateChecker st u = None"
    by (auto simp: checkDeviceSubject_def deviceModelForUpdate_def Let_def run_attemptOr coalesce_def split: if_splits option.splits sum.splits prod.splits)
  with getUserByIDTx_Inr [OF this(1) t(1)] checker_active [OF assms(3)] t(2) show ?thesis
    by (fastforce simp: activeAccount_def list_ex_iff)
qed

section \<open>Closed accounts\<close>

definition closedAccount :: "string \<Rightarrow> dbs \<Rightarrow> bool" where
  "closedAccount uid d \<longleftrightarrow> userExists d uid \<and>
     list_all (\<lambda>u. us_ID u = uid \<longrightarrow> us_Status u = ''disabled'' \<or> us_Status u = ''deleted'') (users d)"

lemma closed_not_active: "closedAccount uid d \<Longrightarrow> \<not> activeAccount d uid"
  by (auto simp: closedAccount_def activeAccount_def list_all_iff list_ex_iff)

abbreviation closedRow :: "UserRow \<Rightarrow> bool" where
  "closedRow u \<equiv> us_Status u = ''disabled'' \<or> us_Status u = ''deleted''"

text \<open>No statement takes an account row away or reopens a closed one.\<close>

lemma common_users:
  assumes "common_effect f"
  shows "u' \<in> set (users (f d)) \<Longrightarrow> \<not> userExists d (us_ID u') \<or> (\<exists>u \<in> set (users d). us_ID u' = us_ID u \<and> (closedRow u \<longrightarrow> closedRow u'))"
    and "us_ID ` set (users d) \<subseteq> us_ID ` set (users (f d))"
proof -
  show "us_ID ` set (users d) \<subseteq> us_ID ` set (users (f d))"
    using assms by cases (auto simp: sql_defs Let_def redactUser_def split: option.splits if_splits)
  show "u' \<in> set (users (f d)) \<Longrightarrow> \<not> userExists d (us_ID u') \<or> (\<exists>u \<in> set (users d). us_ID u' = us_ID u \<and> (closedRow u \<longrightarrow> closedRow u'))"
    using assms by cases (auto simp: sql_defs Let_def redactUser_def split: option.splits if_splits elim!: upd_whereE)
qed

lemma token_users: "token_effect f \<Longrightarrow> users (f d) = users d"
  by (cases rule: token_effect.cases) (auto simp: sql_defs)

lemma users_Insert [simp]: "users (snd (InsertAuthRequest req d)) = users d" "users (snd (InsertDeviceCode dev d)) = users d"
  by (simp_all add: InsertAuthRequest_def InsertDeviceCode_def)

interpretation closed: effect_invariant st "\<lambda>_. closedAccount uid" for st uid
proof
  show "closedAccount uid (f d)" if f: "common_effect f" and d: "closedAccount uid d" for f d
  proof -
    have ex: "userExists d uid" and cl: "\<And>u. u \<in> set (users d) \<Longrightarrow> us_ID u = uid \<Longrightarrow> closedRow u"
      using d by (auto simp: closedAccount_def list_all_iff)
    have "userExists (f d) uid" using ex common_users(2) [OF f, of d] by (auto simp: userExists_def list_ex_key)
    moreover have "closedRow u'" if u': "u' \<in> set (users (f d))" "us_ID u' = uid" for u'
    proof -
      from common_users(1) [OF f u'(1)] ex u'(2) obtain u where "u \<in> set (users d)" "us_ID u = uid" "closedRow u \<longrightarrow> closedRow u'" by auto
      with cl show ?thesis by blast
    qed
    ultimately show ?thesis by (simp add: closedAccount_def list_all_iff)
  qed
qed (simp_all add: closedAccount_def userExists_def token_users)

section \<open>Properties\<close>

text \<open>C5: A closed account stays closed and its credentials resolve to nothing. With the state checker the
  server installs: once an account is disabled or deleted, then in every continuation of the server's
  run it is still closed, no lookup answers with a refresh token of it, no redemption of a refresh
  token for it succeeds, no authorization code resolves to a request of it, and no poll of a device
  code answers with a grant for it. Tokens for a code or a device code are issued for the answer of one
  of these lookups; the issuing operation itself looks at no status, so an answer given before the
  account was closed can still be turned into a token.\<close>

theorem closed_account_refused:
  assumes "s_stateChecker st = Some newStateChecker" "uid \<noteq> ''''"
    and "closedAccount uid (w_db w)" "steps st w w'"
  shows "closedAccount uid (w_db w')
    \<and> (\<forall>ctx token rt v. run_state (TokenRequestByRefreshToken st ctx token) w' = (Inr rt, v) \<longrightarrow> rm_UserID rt \<noteq> uid)
    \<and> (\<forall>ctx q token x v. token \<noteq> '''' \<longrightarrow>
         run_state (CreateAccessAndRefreshTokens st ctx (ReqRefresh q) token) w' = (Inr x, v) \<longrightarrow> rm_UserID q \<noteq> uid)
    \<and> (\<forall>ctx code ar v. run_state (AuthRequestByCode st ctx code) w' = (Inr ar, v) \<longrightarrow> am_Subject ar \<noteq> Some uid)
    \<and> (\<forall>ctx cid dcode s v. run_state (GetDeviceAuthorizatonState st ctx cid dcode) w' = (Inr s, v) \<longrightarrow>
         ds_Done s \<longrightarrow> ds_Subject s \<noteq> uid)"
proof -
  have c: "closedAccount uid (w_db w')"
    using closed.steps_keep [OF assms(4), of uid] assms(3) by (simp add: winv_def)
  then have n: "\<not> activeAccount (w_db w') uid" by (rule closed_not_active)
  note active = refresh_lookup_active [OF _ assms(1)] issue_active [OF _ _ assms(1)] code_active [OF _ assms(1) _ assms(2)]
    poll_active [OF _ _ assms(1) _ assms(2)]
  show ?thesis
    using c n by (intro conjI allI impI notI) (auto dest: active)
qed

theorem closed_account_refused_witness:
  "let st = exampleStorage\<lparr>s_stateChecker := Some newStateChecker\<rparr>;
       w = exampleWorld (exampleDb\<lparr>users := [exampleUser\<lparr>us_Status := ''disabled''\<rparr>]\<rparr>)
   in closedAccount ''alice'' (w_db w)
      \<and> (\<forall>x v q. rm_UserID q = ''alice'' \<longrightarrow> run_state (CreateAccessAndRefreshTokens st exampleCtx (ReqRefresh q) ''old'') w \<noteq> (Inr x, v))"
proof -
  let ?w = "exampleWorld (exampleDb\<lparr>users := [exampleUser\<lparr>us_Status := ''disabled''\<rparr>]\<rparr>)"
  have "closedAccount ''alice'' (w_db ?w)" by (simp add: closedAccount_def userExists_def)
  with closed_account_refused [of "exampleStorage\<lparr>s_stateChecker := Some newStateChecker\<rparr>" "''alice''" ?w ?w]
  show ?thesis by (simp add: Let_def) blast
qed

end
