(* ===== verification/System.thy ===== *)
theory System
  imports Routes_Correct Account_Safety
begin

text \<open>
  The running process: the HTTP server of \<^verbatim>\<open>app/server.go\<close> with its in-flight counter and graceful shutdown, the
  background work (cleanup, eviction of rate limit buckets) and the requests that are being handled, interleaved
  in any order. The locale \<open>web_ops\<close> carries properties of the storage operations over the login services to the
  whole request path; its interpretation gives that every action of the process is a sequence of server
  steps, so that what holds of the server of \<open>Server\<close> holds of the deployed process.
\<close>

section \<open>Handlers over the storage operations\<close>

definition confined :: "(world \<Rightarrow> bool) \<Rightarrow> 'l http \<Rightarrow> bool" where
  "confined I inner \<longleftrightarrow> (\<forall>ctx r h L. keeps I (fst (inner ctx r h L)))"

named_theorems stays

lemma confinedI: "(\<And>ctx r h L. keeps I (fst (inner ctx r h L))) \<Longrightarrow> confined I inner"
  by (simp add: confined_def)

lemma confinedD: "confined I inner \<Longrightarrow> keeps I (fst (inner ctx r h L))"
  by (simp add: confined_def)

lemma confined_onReply [stays]:
  assumes "confined I inner"
  shows "confined I (onReply f inner)"
proof (rule confinedI)
  fix ctx r h L
  obtain m L' where m: "inner ctx r h L = (m, L')" by force
  with confinedD [OF assms, of ctx r h L] show "keeps I (fst (onReply f inner ctx r h L))"
    by (auto intro!: keeps_attempt keeps_ok simp: onReply_def)
qed

lemma confined_answer [stays]: "confined I (\<lambda>ctx r h L. (ok (f ctx r h L), g ctx r h L))"
  by (rule confinedI) (simp add: keeps_ok)

lemma confined_wrap [stays]:
  assumes "confined I inner"
  shows "confined I (NoStore inner)" "confined I (TokenLogContext lg inner)" "confined I (clientinfoMiddleware ip trusted inner)"
    "confined I (RequestIDMiddleware uuid inner)" "confined I (SecurityHeaders devMode inner)" "confined I (NewRateLimiter ip2 ops now tier inner)"
    "confined I (withResource env inner)" "confined I (revokeHandler env sv inner)"
  using confinedD [OF assms]
  by (auto intro!: confinedI simp: NoStore_def TokenLogContext_def clientinfoMiddleware_def RequestIDMiddleware_def SecurityHeaders_def
      NewRateLimiter_def withResource_def revokeHandler_def Let_def keeps_ok split: prod.split sum.split)

lemma confined_AuthorizationResponseIssuer [stays]: "confined I inner \<Longrightarrow> confined I (AuthorizationResponseIssuer loc issuer inner)"
  unfolding AuthorizationResponseIssuer_def by (rule confined_onReply)

lemma confined_cors [stays]: "confined I inner \<Longrightarrow> confined I (corsHandler origins inner)"
  using confined_onReply [THEN confinedD]
  by (auto intro!: confinedI simp: corsHandler_def keeps_ok split: prod.split option.split)

lemma confined_tokenWithAtJWT [stays]:
  assumes "confined I inner"
  shows "confined I (tokenWithAtJWT env sv inner)"
proof (rule confinedI)
  fix ctx r h L
  obtain m L' where m: "inner ctx r Map.empty L = (m, L')" by force
  with confinedD [OF assms, of ctx r Map.empty L] have "keeps I m" by simp
  then show "keeps I (fst (tokenWithAtJWT env sv inner ctx r h L))"
    by (auto intro!: keeps_attempt keeps_ok simp: tokenWithAtJWT_def m Let_def)
qed

lemma confined_page [stays]: "(\<And>ctx r. keeps I (handler ctx r)) \<Longrightarrow> confined I (page handler)"
  by (auto intro!: confinedI keeps_attempt keeps_ok simp: page_def)

lemma confined_verifiedProvider [stays]: "(\<And>ctx r h. keeps I (fe_op env ctx r h)) \<Longrightarrow> confined I (verifiedProvider env)"
  by (auto intro!: confinedI keeps_attempt keeps_ok simp: verifiedProvider_def split: Guarded.split)

lemma confined_ServeMux:
  assumes "\<And>p inner. (p, inner) \<in> set routes \<Longrightarrow> confined I inner"
  shows "confined I (ServeMux env routes)"
  using assms [OF map_of_SomeD, THEN confinedD] by (auto intro!: confinedI simp: ServeMux_def Let_def keeps_ok split: option.split)

text \<open>The parts of a running server share one storage.\<close>

definition wired :: "RunningServer \<Rightarrow> bool" where
  "wired sv \<longleftrightarrow> ls_store (sv_login sv) = sv_store sv \<and> dv_store (sv_device sv) = sv_store sv
     \<and> (\<forall>ls. sv_mcp sv = Some ls \<longrightarrow> ls_store ls = sv_store sv)"

locale web_ops = browser_ops +
  assumes logout: "keeps I (TerminateSession st ctx uid cid)"
begin

lemma onSuccess_keeps: "(\<And>state info. keeps I (finish state info)) \<Longrightarrow> keeps I (onSuccess env r finish)"
  unfolding onSuccess_def by (auto intro!: glue split: prod.split sum.split)

lemma login_pages:
  assumes "ls_store ls = st"
  shows "keeps I (loginHandlerLogin env show ls devMode ctx r)" "keeps I (loginHandlerCallback env show ls devMode ctx r)"
    "keeps I (mcpHandlerLogin env show ls devMode ctx r)" "keeps I (mcpHandlerCallback env show ls devMode ctx r)"
  unfolding loginHandlerLogin_def loginHandlerCallback_def mcpHandlerLogin_def mcpHandlerCallback_def
  by (intro onSuccess_keeps glue browser_login callback mcp assms)+

lemma device_pages:
  assumes "dv_store dv = st"
  shows "keeps I (deviceHandlerPage dv devMode csrf ctx r)" "keeps I (deviceHandlerApprove dv devMode ctx r)"
    "keeps I (deviceHandlerUpstream env dv devMode ctx r)"
  unfolding deviceHandlerPage_def deviceHandlerApprove_def deviceHandlerUpstream_def deviceHandlerCallback_def Let_def
  by (intro onSuccess_keeps glue device assms)+

lemma logout_page: "keeps I (HandleEndSession env st devMode ctx r)"
  unfolding HandleEndSession_def browserUserID_def endBrowserSession_def Let_def by (intro glue logout lookups)

lemma serving:
  assumes "\<And>ctx r h. keeps I (fe_op env ctx r h)" "wired sv" "sv_store sv = st"
  shows "keeps I (fst (serve env sv r L))"
proof -
  from assms(2,3) have stores: "ls_store (sv_login sv) = st" "dv_store (sv_device sv) = st" by (simp_all add: wired_def)
  note rules = stays confined_verifiedProvider [OF assms(1)]
  have "list_all (\<lambda>(p, inner). confined I inner) (registerOAuthMetadataRoutes env sv @ registerProviderRoutes env sv @ registerHealthRoutes env)"
    unfolding registerOAuthMetadataRoutes_def registerProviderRoutes_def registerHealthRoutes_def healthHandler_def readyHandler_def Let_def
    by (simp only: list_all_append list.pred_inject prod.case, intro conjI rules TrueI)
  moreover have "list_all (\<lambda>(p, inner). confined I inner) (registerAuthgateRoutes env sv)"
  proof (cases "sv_mcp sv")
    case None
    show ?thesis unfolding registerAuthgateRoutes_def Let_def None option.case
      by (simp only: list_all_append list.pred_inject prod.case, intro conjI rules glue login_pages device_pages logout_page [folded assms(3)] stores TrueI)
  next
    case (Some ls)
    with assms(2,3) have ls: "ls_store ls = st" by (simp add: wired_def)
    show ?thesis unfolding registerAuthgateRoutes_def Let_def Some option.case
      by (simp only: list_all_append list.pred_inject prod.case,
          intro conjI rules glue login_pages device_pages logout_page [folded assms(3)] stores ls TrueI)
  qed
  ultimately have "confined I inner" if "(p, inner) \<in> set (registerRoutes env sv)" for p inner
    using that by (auto simp: registerRoutes_def list_all_iff)
  then have "confined I (ServeMux env (registerRoutes env sv))" by (rule confined_ServeMux)
  then have "confined I (SecurityHeaders (g_DevMode (sv_config sv)) (RequestIDMiddleware (fe_uuid env) (corsHandler (sv_origins sv)
      (clientinfoMiddleware (fe_ip env) (sv_trusted sv) (ServeMux env (registerRoutes env sv))))))" by (intro stays)
  then show ?thesis unfolding serve_def by (rule confinedD)
qed

end

interpretation http: web_ops st "steps st w0" for st w0
  by (intro web_ops.intro run.browser_ops_axioms web_ops_axioms.intro keepsI) (rule rtranclp.rtrancl_into_rtrancl, assumption, erule server_step.logout)

section \<open>The process\<close>

text \<open>
  The phases of \<^verbatim>\<open>Run\<close>: the listener is open; a signal was received; the listener is closed, by \<^verbatim>\<open>Shutdown\<close> or by
  \<^verbatim>\<open>Close\<close>, and \<^verbatim>\<open>ListenAndServe\<close> has returned; the process has exited. \<open>pr_pending\<close> are the requests whose
  handler runs.
\<close>

datatype Phase = Serving | Signalled | ListenerClosed | Exited

record 'l Process =
  pr_world :: world
  pr_buckets :: "'l buckets"
  pr_phase :: Phase
  pr_isShuttingDown :: bool
  pr_secondSignal :: bool
  pr_background :: bool
  pr_inflightRequests :: int
  pr_pending :: "Request list"

definition startProcess :: "world \<Rightarrow> 'l Process" where
  "startProcess w = \<lparr>pr_world = w, pr_buckets = (\<lambda>_. Map.empty), pr_phase = Serving, pr_isShuttingDown = False, pr_secondSignal = False,
     pr_background = True, pr_inflightRequests = 0, pr_pending = []\<rparr>"

text \<open>The tracked handler: a 64-bit counter goes up when a request arrives and down when its handler returns or panics.\<close>

definition beginRequest :: "Request \<Rightarrow> 'l Process \<Rightarrow> 'l Process" where
  "beginRequest r p = p\<lparr>pr_inflightRequests := wrap64 (pr_inflightRequests p + 1), pr_pending := pr_pending p @ [r]\<rparr>"

definition endRequest :: "nat \<Rightarrow> world \<Rightarrow> 'l buckets \<Rightarrow> 'l Process \<Rightarrow> 'l Process" where
  "endRequest i w L p =
     p\<lparr>pr_world := w, pr_buckets := L, pr_inflightRequests := wrap64 (pr_inflightRequests p - 1),
       pr_pending := take i (pr_pending p) @ drop (Suc i) (pr_pending p)\<rparr>"

definition cleanupLoopTick :: "Tier \<Rightarrow> time \<Rightarrow> 'l buckets \<Rightarrow> 'l buckets" where
  "cleanupLoopTick tier now L = L(tier := evict (10 * 60 * second) now (L tier))"

text \<open>The shutdown goroutine: the first signal, then the background work, then the listener; a second signal closes it at once.\<close>

definition shutdownSignal :: "'l Process \<Rightarrow> 'l Process" where
  "shutdownSignal p = p\<lparr>pr_phase := Signalled, pr_isShuttingDown := True\<rparr>"

definition secondSignal :: "'l Process \<Rightarrow> 'l Process" where
  "secondSignal p = p\<lparr>pr_secondSignal := True\<rparr>"

definition stopBackground :: "'l Process \<Rightarrow> 'l Process" where
  "stopBackground p = p\<lparr>pr_background := False\<rparr>"

definition closeListener :: "'l Process \<Rightarrow> 'l Process" where
  "closeListener p = p\<lparr>pr_phase := ListenerClosed\<rparr>"

text \<open>\<^verbatim>\<open>Run\<close> returns as soon as \<^verbatim>\<open>ListenAndServe\<close> does, after its deferred functions, and the process ends.\<close>

definition exitProcess :: "'l Process \<Rightarrow> 'l Process" where
  "exitProcess p = (stopBackground p)\<lparr>pr_phase := Exited\<rparr>"

text \<open>The provider library works on the database through the storage operations only.\<close>

definition providerSteps :: "Storage \<Rightarrow> 'l FrontEnv \<Rightarrow> bool" where
  "providerSteps st env \<longleftrightarrow> (\<forall>ctx r h w x w'. run_state (fe_op env ctx r h) w = (x, w') \<longrightarrow> steps st w w')"

datatype 'l Event = Accepted Request | Answered "'l FrontEnv" Request "err + Reply" | Internal

inductive process_step :: "RunningServer \<Rightarrow> 'l Process \<Rightarrow> 'l Event \<Rightarrow> 'l Process \<Rightarrow> bool" for sv where
  accept: "pr_phase p \<in> {Serving, Signalled} \<Longrightarrow> process_step sv p (Accepted r) (beginRequest r p)"
| answer: "pr_phase p \<noteq> Exited \<Longrightarrow> i < length (pr_pending p) \<Longrightarrow> r = pr_pending p ! i \<Longrightarrow> providerSteps (sv_store sv) env
    \<Longrightarrow> fe_shuttingDown env = pr_isShuttingDown p \<Longrightarrow> fe_now env = w_now (pr_world p) \<Longrightarrow> serve env sv r (pr_buckets p) = (m, L)
    \<Longrightarrow> run_state m (pr_world p) = (x, w) \<Longrightarrow> process_step sv p (Answered env r x) (endRequest i w L p)"
| tick: "pr_background p \<Longrightarrow> runAll (sv_cleanup sv) free released (pr_world p) = Some w \<Longrightarrow> process_step sv p Internal (p\<lparr>pr_world := w\<rparr>)"
| evictTick: "pr_phase p \<noteq> Exited \<Longrightarrow> process_step sv p Internal (p\<lparr>pr_buckets := cleanupLoopTick tier (w_now (pr_world p)) (pr_buckets p)\<rparr>)"
| passes: "w_now (pr_world p) \<le> t \<Longrightarrow> w_idc (pr_world p) \<le> i
    \<Longrightarrow> process_step sv p Internal (p\<lparr>pr_world := (pr_world p)\<lparr>w_now := t, w_idc := i, w_faults := fs\<rparr>\<rparr>)"
| signal: "pr_phase p = Serving \<Longrightarrow> process_step sv p Internal (shutdownSignal p)"
| stop: "pr_phase p = Signalled \<Longrightarrow> process_step sv p Internal (stopBackground p)"
| shutdown: "pr_phase p = Signalled \<Longrightarrow> \<not> pr_background p \<Longrightarrow> process_step sv p Internal (closeListener p)"
| signal2: "pr_phase p = Signalled \<Longrightarrow> process_step sv p Internal (secondSignal p)"
| force: "pr_phase p = Signalled \<Longrightarrow> pr_secondSignal p \<Longrightarrow> process_step sv p Internal (closeListener p)"
| exit: "pr_phase p = ListenerClosed \<Longrightarrow> process_step sv p Internal (exitProcess p)"

definition process_run :: "RunningServer \<Rightarrow> 'l Process \<Rightarrow> 'l Process \<Rightarrow> bool" where
  "process_run sv = (\<lambda>p q. \<exists>e. process_step sv p e q)\<^sup>*\<^sup>*"

inductive_cases acceptE: "process_step sv p (Accepted r) q"

lemma process_induct [consumes 1, case_names start step]:
  assumes "process_run sv p q" "P p" "\<And>q q' e. process_run sv p q \<Longrightarrow> process_step sv q e q' \<Longrightarrow> P q \<Longrightarrow> P q'"
  shows "P q"
  using assms(1) unfolding process_run_def by (induction rule: rtranclp_induct) (auto intro: assms(2,3) simp: process_run_def)

lemma process_run_step: "process_run sv p q \<Longrightarrow> process_step sv q e q' \<Longrightarrow> process_run sv p q'"
  unfolding process_run_def by (erule rtranclp.rtrancl_into_rtrancl) (rule exI)

lemma process_run_refl: "process_run sv p p"
  by (simp add: process_run_def)

section \<open>The process refines the server\<close>

lemma serve_steps:
  assumes "providerSteps (sv_store sv) env" "wired sv" "run_state (fst (serve env sv r L)) w = (x, w')"
  shows "steps (sv_store sv) w w'"
proof (rule steps_of [OF http.serving [OF _ assms(2) refl] assms(3)])
  fix w0 ctx r h
  show "keeps (steps (sv_store sv) w0) (fe_op env ctx r h)"
    using assms(1) unfolding providerSteps_def by (intro keepsI) (metis rtranclp_trans)
qed

lemma process_step_steps:
  assumes "process_step sv p e q" "wired sv" "cs_deleteUserHook (sv_cleanup sv) = None"
  shows "steps (sv_store sv) (pr_world p) (pr_world q)"
  using assms(1)
proof cases
  case (answer i r env m L x w)
  have "run_state (fst (serve env sv r (pr_buckets p))) (pr_world p) = (x, w)" using answer by simp
  from serve_steps [OF answer(6) assms(2) this] show ?thesis using answer(2) by (simp add: endRequest_def)
next
  case (tick free released w)
  then show ?thesis using server_step.cleanup [OF assms(3)] by (auto intro: r_into_rtranclp)
next
  case (passes t i fs)
  then show ?thesis by (auto intro!: r_into_rtranclp server_step.idle)
qed (simp_all add: beginRequest_def shutdownSignal_def secondSignal_def stopBackground_def closeListener_def exitProcess_def)

lemma EnsureCryptoEpochs_cong: "s_keys st = s_keys st' \<Longrightarrow> s_prims st = s_prims st' \<Longrightarrow> EnsureCryptoEpochs st = EnsureCryptoEpochs st'"
  by (cases "s_keys st'") (simp_all add: EnsureCryptoEpochs_def ensureEpoch_def)

lemma mustSetupCrypto_steps:
  assumes "run_state (mustSetupCrypto cfg st) w = (Inr st1, w')" "s_keys st2 = s_keys st1" "s_prims st2 = s_prims st1"
  shows "steps st2 w w'"
proof (cases "g_EncRootSecret cfg = ''''")
  case True
  with assms(1) show ?thesis by (simp add: mustSetupCrypto_def)
next
  case False
  with assms(1) have "run_state (EnsureCryptoEpochs st1) w = (Inr (), w')"
    by (auto simp: mustSetupCrypto_def run_attempt Let_def split: option.splits sum.splits prod.splits)
  with EnsureCryptoEpochs_cong [OF assms(2,3)] show ?thesis by (auto intro!: r_into_rtranclp server_step.epochs)
qed

lemma Run_ready:
  assumes "run_state (Run env) w = (Inr sv, w')"
  shows "wired sv" "cs_deleteUserHook (sv_cleanup sv) = None" "steps (sv_store sv) w w'"
proof -
  from assms obtain cfg parts st0 signing hosts st1 st2 origins trusted where "mustBuildStore env cfg = Inr (st0, signing, hosts)"
    and m: "run_state (mustSetupCrypto cfg st0) w = (Inr st1, w')" and l: "loadClientConfigIfPresent env cfg st1 = Inr (st2, origins)"
    and sv: "sv = runningServer env cfg parts (installMCPPolicies env hosts st2) signing origins trusted"
    by (rule run_Run)
  show "wired sv" by (auto simp: sv wired_def runningServer_def NewLoginService_def NewDeviceService_def)
  show "cs_deleteUserHook (sv_cleanup sv) = None"
    by (simp add: sv runningServer_def startCleanupService_def SetRefreshTokenTTL_def SetAdminAuditLogPIIRetention_def SetAuditLogPIIRetention_def
        NewCleanupService_def)
  have "s_keys st2 = s_keys st1" "s_prims st2 = s_prims st1"
    using l by (auto simp: loadClientConfigIfPresent_def LoadClients_def split: if_splits option.splits sum.splits)
  then show "steps (sv_store sv) w w'"
    by (intro mustSetupCrypto_steps [OF m]) (simp_all add: sv runningServer_def)
qed

lemma process_run_steps:
  assumes "process_run sv p q" "wired sv" "cs_deleteUserHook (sv_cleanup sv) = None"
  shows "steps (sv_store sv) (pr_world p) (pr_world q)"
  using assms(1)
proof (induction rule: process_induct)
  case (step q q' e)
  with process_step_steps [OF step(2) assms(2,3)] show ?case by (metis rtranclp_trans)
qed simp

section \<open>Invariants of the process\<close>

lemma wrap64_add: "wrap64 (wrap64 x + y) = wrap64 (x + y)"
proof -
  have "wrap64 x + y + 2 ^ 63 = (x + 2 ^ 63) mod 2 ^ 64 + y" by (simp add: wrap64_def)
  then show ?thesis by (simp add: wrap64_def mod_add_left_eq mod_add_right_eq algebra_simps)
qed

definition process_ok :: "'l Process \<Rightarrow> bool" where
  "process_ok p \<longleftrightarrow>
     pr_inflightRequests p = wrap64 (int (length (pr_pending p)))
     \<and> (pr_isShuttingDown p \<longleftrightarrow> pr_phase p \<noteq> Serving)
     \<and> (pr_phase p = Serving \<longrightarrow> pr_background p) \<and> (pr_phase p = Exited \<longrightarrow> \<not> pr_background p)
     \<and> (pr_phase p = ListenerClosed \<and> pr_background p \<longrightarrow> pr_secondSignal p)"

lemma process_ok_start: "process_ok (startProcess w)"
  by (simp add: process_ok_def startProcess_def wrap64_def)

lemma process_ok_step:
  assumes "process_step sv p e q" "process_ok p"
  shows "process_ok q"
  using assms(1)
proof cases
  case (accept r)
  then show ?thesis using assms(2) wrap64_add [of "int (length (pr_pending p))" 1]
    by (auto simp: process_ok_def beginRequest_def add.commute)
next
  case (answer i r env m L x w)
  have "int (length (take i (pr_pending p) @ drop (Suc i) (pr_pending p))) = int (length (pr_pending p)) + - 1" using answer(4) by auto
  then show ?thesis using assms(2) answer wrap64_add [of "int (length (pr_pending p))" "- 1"]
    by (simp add: process_ok_def endRequest_def)
qed (use assms(2) in \<open>auto simp: process_ok_def shutdownSignal_def secondSignal_def stopBackground_def closeListener_def exitProcess_def\<close>)

lemma process_ok_run: "process_run sv (startProcess w) p \<Longrightarrow> process_ok p"
  by (induction rule: process_induct) (auto intro: process_ok_start process_ok_step)

text \<open>Once a signal has been received, the process stays on its way down.\<close>

lemma shutting_down_stays: "process_run sv p q \<Longrightarrow> pr_isShuttingDown p \<Longrightarrow> pr_isShuttingDown q"
proof (induction rule: process_induct)
  case (step q q' e)
  from step(2,3,4) show ?case
    by (cases rule: process_step.cases)
       (auto simp: beginRequest_def endRequest_def shutdownSignal_def secondSignal_def stopBackground_def closeListener_def exitProcess_def)
qed

lemma ready_refused:
  assumes "process_step sv p (Answered env r (Inr rp)) q" "pr_isShuttingDown p" "served env sv r ''/ready''"
  shows "rp_Status rp \<noteq> 200"
proof -
  from assms(1) obtain m L w where a: "fe_shuttingDown env = pr_isShuttingDown p" "serve env sv r (pr_buckets p) = (m, L)"
    "run_state m (pr_world p) = (Inr rp, w)"
    by (cases rule: process_step.cases) simp
  then have "fe_shuttingDown env" "run_state (fst (serve env sv r (pr_buckets p))) (pr_world p) = (Inr rp, w)" using assms(2) by simp_all
  with ready_route [OF assms(3)] show ?thesis by blast
qed

lemma exits_at_once:
  assumes "pr_phase p = Serving"
  shows "\<exists>q. process_run sv p q \<and> pr_phase q = Exited \<and> pr_pending q = pr_pending p \<and> pr_world q = pr_world p"
proof -
  let ?a = "shutdownSignal p" and ?b = "stopBackground (shutdownSignal p)"
  have "process_run sv p ?a" using process_run_step [OF process_run_refl process_step.signal [OF assms]] .
  moreover have "process_step sv ?a Internal ?b" by (rule process_step.stop) (simp add: shutdownSignal_def)
  moreover have "process_step sv ?b Internal (closeListener ?b)"
    by (rule process_step.shutdown) (simp_all add: shutdownSignal_def stopBackground_def)
  moreover have "process_step sv (closeListener ?b) Internal (exitProcess (closeListener ?b))"
    by (rule process_step.exit) (simp add: closeListener_def)
  ultimately have "process_run sv p (exitProcess (closeListener ?b))" by (metis process_run_step)
  moreover have "pr_phase (exitProcess (closeListener ?b)) = Exited" "pr_pending (exitProcess (closeListener ?b)) = pr_pending p"
    "pr_world (exitProcess (closeListener ?b)) = pr_world p"
    by (simp_all add: exitProcess_def closeListener_def stopBackground_def shutdownSignal_def)
  ultimately show ?thesis by blast
qed

section \<open>Properties\<close>

text \<open>C39: The deployed process refines the server. Whatever happens between the start of the process and a later
  moment, requests arriving and being answered in any interleaving, cleanup runs, evictions, signals and
  database failures, with a provider library that works through the storage interface, has the effect on
  the database of a sequence of server steps over the storage that the start has wired (the work of a handler
  counts at the moment of its answer). So a process
  started on an empty database is always in a reachable world of the server; no refresh token is live
  in a tombstoned family and none has more than three children; and an account that was closed at the
  start is still closed.\<close>

theorem process_refines_server:
  assumes "run_state (Run env) w0 = (Inr sv, w1)" "process_run sv (startProcess w1) p"
  shows "steps (sv_store sv) w0 (pr_world p)
    \<and> (start w0 \<longrightarrow> reachable (sv_store sv) (pr_world p))
    \<and> (start w0 \<and> inj (s_uuid (sv_store sv)) \<longrightarrow> (\<forall>t \<in> set (refresh_tokens (w_db (pr_world p))).
         (tombstoned (w_db (pr_world p)) (rt_FamilyID t) \<longrightarrow> rt_RevokedAt t \<noteq> None) \<and> children (w_db (pr_world p)) (rt_ID t) \<le> 3))
    \<and> (\<forall>uid. closedAccount uid (w_db w0) \<longrightarrow> closedAccount uid (w_db (pr_world p)))"
proof -
  note ready = Run_ready [OF assms(1)]
  have "steps (sv_store sv) w1 (pr_world p)"
    using process_run_steps [OF assms(2) ready(1,2)] by (simp add: startProcess_def)
  with ready(3) have run: "steps (sv_store sv) w0 (pr_world p)" by (rule rtranclp_trans)
  moreover have r: "start w0 \<Longrightarrow> reachable (sv_store sv) (pr_world p)" using run unfolding reachable_def by blast
  moreover have "(tombstoned (w_db (pr_world p)) (rt_FamilyID t) \<longrightarrow> rt_RevokedAt t \<noteq> None) \<and> children (w_db (pr_world p)) (rt_ID t) \<le> 3"
    if "start w0" "inj (s_uuid (sv_store sv))" "t \<in> set (refresh_tokens (w_db (pr_world p)))" for t
    using reachable_facts(4) [OF r [OF that(1)] that(2)] that(3) by (auto simp: rinv_def rowInv_def refreshReuseGraceMaxIssued_def)
  moreover have "closedAccount uid (w_db w0) \<Longrightarrow> closedAccount uid (w_db (pr_world p))" for uid
    using closed.steps_keep [OF run, of uid] by (simp add: winv_def)
  ultimately show ?thesis by blast
qed

text \<open>C40: The life of a process, in every state it can get to: the 64-bit counter counts the requests whose handler runs; the
  shutdown flag is set from the first signal on and stays set, and from then on no readiness probe is
  answered 200; requests are accepted only until the listener is closed; the listener is closed with
  background work still on only after a second signal, and an exited process has none. The shutdown does not wait for handlers: from every state in which the process
  serves, a signal can end it with every request in flight unanswered, as \<^verbatim>\<open>Run\<close> returns as soon as
  \<^verbatim>\<open>ListenAndServe\<close> does.\<close>

theorem shutdown_lifecycle:
  assumes "process_run sv (startProcess w) p"
  shows "pr_inflightRequests p = wrap64 (int (length (pr_pending p)))
    \<and> (pr_isShuttingDown p \<longleftrightarrow> pr_phase p \<noteq> Serving) \<and> (pr_phase p = Exited \<longrightarrow> \<not> pr_background p)
    \<and> (pr_phase p = ListenerClosed \<and> pr_background p \<longrightarrow> pr_secondSignal p)
    \<and> (\<forall>q. process_run sv p q \<and> pr_isShuttingDown p \<longrightarrow> pr_isShuttingDown q)
    \<and> (\<forall>r q. process_step sv p (Accepted r) q \<longrightarrow> pr_phase p \<in> {Serving, Signalled})
    \<and> (\<forall>env r rp q. process_step sv p (Answered env r (Inr rp)) q \<and> pr_isShuttingDown p \<and> served env sv r ''/ready'' \<longrightarrow> rp_Status rp \<noteq> 200)
    \<and> (pr_phase p = Serving \<longrightarrow> (\<exists>q. process_run sv p q \<and> pr_phase q = Exited \<and> pr_pending q = pr_pending p \<and> pr_world q = pr_world p))"
proof (intro conjI allI impI)
  note ok = process_ok_run [OF assms, unfolded process_ok_def]
  show "pr_inflightRequests p = wrap64 (int (length (pr_pending p)))" "pr_isShuttingDown p \<longleftrightarrow> pr_phase p \<noteq> Serving"
    "pr_phase p = Exited \<Longrightarrow> \<not> pr_background p"
    "pr_phase p = ListenerClosed \<and> pr_background p \<Longrightarrow> pr_secondSignal p" using ok by simp_all
  show "process_run sv p q \<and> pr_isShuttingDown p \<Longrightarrow> pr_isShuttingDown q" for q
    by (elim conjE) (rule shutting_down_stays)
  show "process_step sv p (Accepted r) q \<Longrightarrow> pr_phase p \<in> {Serving, Signalled}" for r q by (erule acceptE) simp
  show "process_step sv p (Answered env r (Inr rp)) q \<and> pr_isShuttingDown p \<and> served env sv r ''/ready'' \<Longrightarrow> rp_Status rp \<noteq> 200"
    for env r rp q by (elim conjE) (rule ready_refused)
qed (rule exits_at_once)

section \<open>Witnesses\<close>

text \<open>Two requests arrive at a process that was just started; the first is answered, the second stays in flight.\<close>

lemma exampleFront_provider: "providerSteps st (exampleFront\<lparr>fe_now := t\<rparr>)"
  by (simp add: providerSteps_def exampleFront_def)

lemma exampleProcess:
  "\<exists>p :: nat Process. process_run sv (startProcess w) p \<and> pr_phase p = Serving \<and> pr_pending p = [exampleLogoutRequest]
     \<and> (\<exists>m. run_state m w = (fst (run_state m w), pr_world p) \<and> m = fst (serve (exampleFront\<lparr>fe_now := w_now w\<rparr>) sv exampleTwoResources (\<lambda>_. Map.empty)))"
proof -
  let ?env = "exampleFront\<lparr>fe_now := w_now w\<rparr>" and ?p0 = "startProcess w :: nat Process"
  let ?p2 = "beginRequest exampleLogoutRequest (beginRequest exampleTwoResources ?p0)"
  obtain m L where sv: "serve ?env sv exampleTwoResources (\<lambda>_. Map.empty) = (m, L)" by fastforce
  obtain x w' where m: "run_state m w = (x, w')" by fastforce
  have accepted: "process_step sv ?p0 (Accepted exampleTwoResources) (beginRequest exampleTwoResources ?p0)"
    "process_step sv (beginRequest exampleTwoResources ?p0) (Accepted exampleLogoutRequest) ?p2"
    by (rule process_step.accept, simp add: startProcess_def beginRequest_def)+
  moreover have "process_step sv ?p2 (Answered ?env exampleTwoResources x) (endRequest 0 w' L ?p2)"
    by (rule process_step.answer [OF _ _ _ exampleFront_provider])
       (use sv m in \<open>simp_all add: startProcess_def beginRequest_def exampleFront_def\<close>)
  ultimately have "process_run sv ?p0 (endRequest 0 w' L ?p2)" by (metis process_run_step process_run_refl)
  moreover have "pr_phase (endRequest 0 w' L ?p2) = Serving" "pr_pending (endRequest 0 w' L ?p2) = [exampleLogoutRequest]"
    "pr_world (endRequest 0 w' L ?p2) = w'"
    by (simp_all add: endRequest_def beginRequest_def startProcess_def)
  ultimately show ?thesis using sv m by (metis fst_conv)
qed

theorem process_refines_server_witness:
  "\<exists>sv (p :: nat Process). run_state (Run exampleStartEnv) (exampleWorld emptyDb) = (Inr sv, exampleWorld emptyDb)
     \<and> process_run sv (startProcess (exampleWorld emptyDb)) p \<and> pr_pending p = [exampleLogoutRequest] \<and> reachable (sv_store sv) (pr_world p)"
proof -
  obtain sv where run: "run_state (Run exampleStartEnv) (exampleWorld emptyDb) = (Inr sv, exampleWorld emptyDb)" using exampleStart_runs by blast
  obtain p :: "nat Process" where p: "process_run sv (startProcess (exampleWorld emptyDb)) p" "pr_pending p = [exampleLogoutRequest]"
    using exampleProcess [of sv "exampleWorld emptyDb"] by blast
  have "start (exampleWorld emptyDb)" by (simp add: start_def)
  with process_refines_server [OF run p(1)] run p show ?thesis by blast
qed

theorem shutdown_lifecycle_witness:
  "\<exists>(p :: nat Process) q. process_run exampleServer (startProcess (exampleWorld emptyDb)) p \<and> pr_inflightRequests p = 1
     \<and> process_run exampleServer p q \<and> pr_phase q = Exited \<and> pr_pending q = [exampleLogoutRequest]"
proof -
  obtain p :: "nat Process" where p: "process_run exampleServer (startProcess (exampleWorld emptyDb)) p" "pr_phase p = Serving"
    "pr_pending p = [exampleLogoutRequest]"
    using exampleProcess [of exampleServer "exampleWorld emptyDb"] by blast
  note life = shutdown_lifecycle [OF p(1)]
  from life p(3) have "pr_inflightRequests p = 1" by (simp add: wrap64_def)
  moreover from life p(2,3) obtain q where "process_run exampleServer p q" "pr_phase q = Exited" "pr_pending q = [exampleLogoutRequest]" by auto
  ultimately show ?thesis using p(1) by blast
qed

end
