(* ===== verification/Spec2Isabelle.thy ===== *)
theory Spec2Isabelle
  imports Issuance Seed_Requests CIMD_Runs System
begin

text \<open>
  A verification of authgate, an OAuth 2.0 / OpenID Connect authorization server in Go. It signs users in
  through an upstream identity provider, keeps accounts, sessions and grants in a PostgreSQL database, and
  issues authorization codes, device codes, access tokens and rotating refresh tokens to statically configured
  clients and to clients that publish a metadata document (CIMD) for MCP. The protocol endpoints themselves are
  the zitadel library, which calls \<^verbatim>\<open>internal/storage\<close> through its storage interface; the login pages call
  \<^verbatim>\<open>internal/service\<close>, which calls the same storage. Paths below are relative to \<^verbatim>\<open>src/internal\<close>.

  \<^bold>\<open>The model.\<close> A Go function with an error result is an action of the state monad, \<open>'a act\<close>, over a \<open>world\<close>:
  the committed database, the working copy of an open transaction, the clock, the counter of generated ids and
  the outcomes of the coming database calls (\<open>Fine\<close>, \<open>Refused\<close>, or \<open>LostReply\<close>: executed, but answered with an
  error). Every statement of a transaction may fail in these ways, so the safety theorems hold under
  database failures at any point; theorems that say what happens in full assume \<open>healthy\<close>. Pure Go functions are
  HOL functions. Errors are values of \<open>err\<close>, a panic is the error \<open>NilDeref\<close> or an error message.

  \<^bold>\<open>Theories and sources.\<close>
  \<^item> \<open>Prelude\<close>: errors, time, rows of tables, Go strings, triples over actions. \<open>Go_Std\<close>: the functions of the Go
    standard library that the code uses (splitting, path cleaning, integer parsing with 64-bit wrap-around,
    base64, JSON trees), with the round trip of base64. \<open>goTrimSpace\<close> trims ASCII white space only, where Go also trims
    Unicode spaces.
  \<^item> \<open>Client_Access\<close>: \<^verbatim>\<open>domainname\<close>, \<^verbatim>\<open>clientaccess\<close>. Which rules are accepted, and the decision and reason a policy gives, in terms of the rules as written;
    the DNS-name loop accepts exactly the label-wise names.
  \<^item> \<open>Clients\<close>: \<^verbatim>\<open>client\<close>, \<^verbatim>\<open>adapter/mcp/policy.go\<close>. Which client lists are accepted, what the registry then
    serves, and which resource indicators each login channel may use. \<open>Client_File\<close>: reading \<^verbatim>\<open>clients.yaml\<close> and the
    YAML form of access policies; a policy that is written is never dropped.
  \<^item> \<open>Crypto\<close>: \<^verbatim>\<open>crypto\<close>. Roots, subkeys, lookup hashes, field encryption; AES-GCM, HKDF and HMAC are parameters
    with the laws of the locale there.
  \<^item> \<open>Storeq\<close>: the schema and every statement of \<^verbatim>\<open>db/storeq\<close> with its constraints.
  \<^item> \<open>Store_Base\<close>, \<open>Store_Logic\<close>: \<^verbatim>\<open>storage/storage.go\<close>, \<^verbatim>\<open>clients.go\<close>, the audit log, and the program logic (\<open>tri\<close>,
    \<open>keeps\<close>) in which invariants are proved along the code.
  \<^item> \<open>Users\<close>, \<open>Auth_Requests\<close>, \<open>Refresh_Tokens\<close>, \<open>Devices\<close>, \<open>Cleanup\<close>: the operations of \<^verbatim>\<open>storage\<close> by file;
    \<open>Users_Correct\<close>, \<open>Auth_Correct\<close>, \<open>Refresh_Correct\<close>, \<open>Devices_Correct\<close>, \<open>Cleanup_Correct\<close>: their exact effects.
    \<open>Refresh_Safety\<close>: the invariant of refresh token families.
  \<^item> \<open>Server\<close>: the step relation \<open>server_step\<close> (one storage operation with any arguments and any database outcomes)
    with a locale of invariants over the statements; \<open>Server_Correct\<close>, \<open>Account_Safety\<close>, \<open>Issuance\<close>: what holds in
    every reachable world and every continuation (codes and device authorizations are used once, decisions are
    final, families stay consistent, the credentials of closed accounts resolve to nothing).
  \<^item> \<open>Login\<close>, \<open>Channels\<close>: \<^verbatim>\<open>service\<close> (browser, MCP and device logins). \<open>Login_Correct\<close>: when a session is reused, and that
    it is. \<open>Services\<close>: every handler run is a sequence of server steps (the refinement that carries the server
    theorems to the services), and accounts appear only for admitted identities.
  \<^item> \<open>CIMD\<close>, \<open>CIMD_Correct\<close>, \<open>CIMD_Runs\<close>: \<^verbatim>\<open>adapter/mcp/cimd*.go\<close>. Which documents make a client, which addresses may be
    dialled, the cache lifetime, and over whole runs of lookups: soundness of the cache and the failure quota.
  \<^item> \<open>Signing\<close>: \<^verbatim>\<open>signing\<close>. Accepted bundles are well formed; the signing key is always published.
  \<^item> \<open>Token_Boundary\<close>: \<^verbatim>\<open>middleware/access_token_typ.go\<close>, \<^verbatim>\<open>storage/access_token_validation.go\<close> and the provider facade
    of \<^verbatim>\<open>storage/storage_oidc_device.go\<close>. Exactly what a token response is rewritten to, and which requests reach
    userinfo and introspection with which claims.
  \<^item> \<open>Config\<close>: \<^verbatim>\<open>config\<close>. What an accepted environment satisfies, with 64-bit durations.
  \<^item> \<open>Web\<close>, \<open>Web_Correct\<close>: \<^verbatim>\<open>handler\<close>, \<^verbatim>\<open>clientinfo\<close>, CORS and the rate limiter of \<^verbatim>\<open>middleware\<close>. \<open>Front\<close>: \<^verbatim>\<open>upstream/oidc.go\<close>, the
    construction of the provider, the login handlers over it and the brand of \<^verbatim>\<open>pages\<close>.
  \<^item> \<open>Startup\<close>: \<^verbatim>\<open>app.Run\<close> with the opening of the database, the metrics listener and the wiring of storage, keys, clients, policies and services; what holds of every
    server that gets to serve.
  \<^item> \<open>Middleware\<close>, \<open>Routes\<close>, \<open>Routes_Correct\<close>: the remaining middlewares, the routes of \<^verbatim>\<open>app/routes.go\<close> with the mux, and the
    order in which a request passes them; what holds of every answer of the composition, with the
    provider library as an arbitrary action on the database.
  \<^item> \<open>System\<close>: the process around the server, as the step relation \<open>process_step\<close>: requests arrive and are answered through all
    middlewares and routes, the cleanup and the limiter tick, time passes, signals arrive, the listener closes, the
    process exits (\<^verbatim>\<open>app/app.go\<close>, \<^verbatim>\<open>app/server.go\<close>). It refines \<open>server_step\<close>, so what holds of every reachable world of
    the server holds of the deployed process; and the invariants of its shutdown.
  \<^item> \<open>Seed_Requests\<close>: the operations of \<^verbatim>\<open>storage/auth_requests.go\<close> that seed a request.
  \<^item> \<open>Examples\<close>: concrete keys, storage and rows on which the theorems are instantiated.

  \<^bold>\<open>Assumptions.\<close> A handler runs at one instant of the clock. A storage operation is one step: row locks and the
  isolation of PostgreSQL make concurrent transactions on the same rows serial, so locking statements are reads
  and interleavings are sequences of operations. Times are integers of nanoseconds (the database rounds to
  microseconds). UUID columns are compared as strings, so a malformed id finds no row, where PostgreSQL reports an
  error; in both cases nothing is found and nothing changes. Generated ids are distinct (\<open>s_uuid\<close> injective) where a theorem names this. Cryptography,
  random numbers, Unicode normalisation, URL, JSON and YAML parsing, RSA, JOSE, the LRU cache, the token bucket,
  the relying-party and the provider library are parameters; the theorems that need a law of them name it as a hypothesis and
  have an instance. CIMD lookups that run at the same time are taken one after the other, and the quota
  theorem supposes that the tracker has room for the ids in play. Loops are structural recursion, except the
  batch loop of the cleanup, a \<open>partial_function\<close> in \<open>option\<close> that is proved to return.

  \<^bold>\<open>Not modelled.\<close> HTML templates, telemetry, the migration runner, HTTP server timeouts, what the metrics server serves, the
  command line, test helpers and example programs: they hold no state of the server, or only call libraries. A token payload that is the JSON value null (a panic in
  \<^verbatim>\<open>withScopeClaim\<close>) is outside the claims function of \<open>TokenEnv\<close>.
\<close>

end
